(* ===== verification/Prelude.thy ===== *)
theory Prelude
  imports Main "HOL-Library.AList" "HOL-Library.Monad_Syntax"
begin

text \<open>
  Shared vocabulary of the development: the collections of simplification rules, fallible
  results as sums, and the functions of Go's package \<open>strings\<close> that the program calls, on
  byte strings.  A Go string and a Go \<open>[]byte\<close> are both a sequence of bytes; here they are
  \<^typ>\<open>string\<close>, a list of 8-bit characters.  A \<open>time.Time\<close> and a
  \<open>time.Duration\<close> are integers, in nanoseconds.
\<close>

named_theorems ok_simps \<open>inversion of a fallible operation that returned no error\<close>
named_theorems step_simps \<open>the branches of a stateful operation\<close>

type_synonym bytes = string
type_synonym time = int
type_synonym duration = int

abbreviation second :: duration where "second \<equiv> 1000000000"
abbreviation minute :: duration where "minute \<equiv> 60000000000"
abbreviation hour :: duration where "hour \<equiv> 3600000000000"

section \<open>Results\<close>

text \<open>A Go function that returns \<open>(v, nil)\<close> or \<open>(zero, err)\<close> returns a sum:
  \<^term>\<open>Inl\<close> of the error or \<^term>\<open>Inr\<close> of the value.\<close>

fun is_ok :: "'e + 'a \<Rightarrow> bool" where
  "is_ok (Inl e) = False"
| "is_ok (Inr x) = True"

lemma is_ok_iff: "is_ok r \<longleftrightarrow> (\<exists>x. r = Inr x)"
  by (cases r) auto

lemma not_is_ok_iff: "\<not> is_ok r \<longleftrightarrow> (\<exists>e. r = Inl e)"
  by (cases r) auto

section \<open>Histories\<close>

text \<open>A history of operations on a state, with their replies.\<close>

fun run_ops :: "('op \<Rightarrow> 's \<Rightarrow> 'r \<times> 's) \<Rightarrow> 'op list \<Rightarrow> 's \<Rightarrow> 'r list \<times> 's" where
  "run_ops step [] s = ([], s)"
| "run_ops step (x # xs) s = (case step x s of (r, s') \<Rightarrow> (case run_ops step xs s' of (rs, s'') \<Rightarrow> (r # rs, s'')))"

lemma run_ops_Cons:
  "run_ops step (x # xs) s = (rs, s'') \<longleftrightarrow>
     (\<exists>r s' rs'. step x s = (r, s') \<and> run_ops step xs s' = (rs', s'') \<and> rs = r # rs')"
  by (auto split: prod.splits)

lemma run_ops_append:
  "run_ops step (xs @ ys) s = (case run_ops step xs s of (rs, s') \<Rightarrow>
     (case run_ops step ys s' of (rs', s'') \<Rightarrow> (rs @ rs', s'')))"
  by (induction xs arbitrary: s) (auto split: prod.splits)

lemma run_ops_length: "run_ops step xs s = (rs, s') \<Longrightarrow> length rs = length xs"
  by (induction xs arbitrary: s rs) (auto split: prod.splits)

section \<open>Lookup and update in association lists\<close>

text \<open>A Go map with string keys that is written out in a header or a JSON object is an
  association list, whose lookup is \<^const>\<open>map_of\<close> and whose update is
  \<^const>\<open>AList.update\<close>.\<close>

lemma map_of_alist_update [simp]: "map_of (AList.update k v xs) = (map_of xs)(k \<mapsto> v)"
  by (rule AList.update_conv')

section \<open>Package strings\<close>

text \<open>\<open>strings.Split(s, c)\<close> for a separator of one byte: never empty.\<close>

fun split_on :: "char \<Rightarrow> string \<Rightarrow> string list" where
  "split_on c [] = [[]]"
| "split_on c (x # xs) =
     (if x = c then [] # split_on c xs
      else (case split_on c xs of [] \<Rightarrow> [[x]] | p # ps \<Rightarrow> (x # p) # ps))"

text \<open>\<open>strings.SplitN(s, c, n)\<close>: at most \<open>n\<close> parts, the last one unsplit.\<close>

fun splitn_on :: "char \<Rightarrow> nat \<Rightarrow> string \<Rightarrow> string list" where
  "splitn_on c 0 s = []"
| "splitn_on c (Suc 0) s = [s]"
| "splitn_on c (Suc (Suc n)) [] = [[]]"
| "splitn_on c (Suc (Suc n)) (x # xs) =
     (if x = c then [] # splitn_on c (Suc n) xs
      else (case splitn_on c (Suc (Suc n)) xs of [] \<Rightarrow> [[x]] | p # ps \<Rightarrow> (x # p) # ps))"

text \<open>\<open>strings.Join(ps, sep)\<close>.\<close>

fun join_with :: "string \<Rightarrow> string list \<Rightarrow> string" where
  "join_with sep [] = []"
| "join_with sep [p] = p"
| "join_with sep (p # q # ps) = p @ sep @ join_with sep (q # ps)"

text \<open>\<open>strings.HasPrefix(s, p)\<close> and \<open>strings.Contains(s, p)\<close>.\<close>

fun has_prefix :: "string \<Rightarrow> string \<Rightarrow> bool" where
  "has_prefix s [] = True"
| "has_prefix [] (p # ps) = False"
| "has_prefix (x # xs) (p # ps) = (x = p \<and> has_prefix xs ps)"

fun str_contains :: "string \<Rightarrow> string \<Rightarrow> bool" where
  "str_contains [] p = has_prefix [] p"
| "str_contains (x # xs) p = (has_prefix (x # xs) p \<or> str_contains xs p)"

lemma split_on_ne [simp]: "split_on c s \<noteq> []"
  by (cases s) (auto split: list.splits)

lemma join_split_on: "join_with [c] (split_on c s) = s"
proof (induction s)
  case Nil
  show ?case by simp
next
  case (Cons x xs)
  obtain p ps where ps: "split_on c xs = p # ps"
    by (metis list.exhaust split_on_ne)
  with Cons show ?case by (cases ps) auto
qed

lemma split_on_sep_free: "p \<in> set (split_on c s) \<Longrightarrow> c \<notin> set p"
proof (induction s arbitrary: p)
  case Nil
  then show ?case by simp
next
  case (Cons x xs)
  obtain q qs where qs: "split_on c xs = q # qs"
    by (metis list.exhaust split_on_ne)
  with Cons show ?case by (auto split: if_splits)
qed

lemma split_on_append_sep:
  "c \<notin> set p \<Longrightarrow> split_on c (p @ c # s) = p # split_on c s"
  by (induction p) auto

lemma split_on_no_sep: "c \<notin> set p \<Longrightarrow> split_on c p = [p]"
  by (induction p) auto

lemma split_on_join:
  "ps \<noteq> [] \<Longrightarrow> \<forall>p \<in> set ps. c \<notin> set p \<Longrightarrow> split_on c (join_with [c] ps) = ps"
proof (induction ps rule: induct_list012)
  case (3 p q qs)
  then show ?case by (simp add: split_on_append_sep del: split_on.simps)
qed (simp_all add: split_on_no_sep)

lemma join_with_inj:
  assumes "ps \<noteq> []" "\<forall>p \<in> set ps. c \<notin> set p" "qs \<noteq> []" "\<forall>q \<in> set qs. c \<notin> set q"
    and "join_with [c] ps = join_with [c] qs"
  shows "ps = qs"
  by (metis split_on_join assms)

lemma splitn_on_three:
  assumes "c \<notin> set a" "c \<notin> set b"
  shows "splitn_on c 3 (a @ c # b @ c # r) = [a, b, r]"
proof -
  have two: "splitn_on c (Suc (Suc n)) (p @ c # s) = p # splitn_on c (Suc n) s"
    if "c \<notin> set p" for n p s
    using that by (induction p) auto
  show ?thesis
    using two [OF assms(1), of 1 "b @ c # r"] two [OF assms(2), of 0 r]
    by (simp add: numeral_3_eq_3)
qed

lemma has_prefix_iff: "has_prefix s p \<longleftrightarrow> (\<exists>r. s = p @ r)"
  by (induction s p rule: has_prefix.induct) auto

lemma str_contains_iff: "str_contains s p \<longleftrightarrow> (\<exists>a b. s = a @ p @ b)"
proof (induction s)
  case Nil
  show ?case by (auto simp: has_prefix_iff)
next
  case (Cons x xs)
  have "(\<exists>a b. x # xs = a @ p @ b) \<longleftrightarrow> (\<exists>r. x # xs = p @ r) \<or> (\<exists>a b. xs = a @ p @ b)"
    by (metis append_Cons append_Nil append_eq_Cons_conv)
  with Cons show ?case by (simp add: has_prefix_iff)
qed

subsection \<open>White space\<close>

text \<open>\<open>strings.Fields\<close> splits around runs of white space.  A rune is white space when
  \<open>unicode.IsSpace\<close> says so; \<open>space_len s\<close> is the number of bytes of the white-space
  rune that \<open>s\<close> starts with, 0 if it starts with none.\<close>

definition byte :: "char \<Rightarrow> nat" where "byte c = of_char c"

definition space_len :: "string \<Rightarrow> nat" where
  "space_len s = (case map byte (take 3 s) of
     [] \<Rightarrow> 0
   | a # r \<Rightarrow>
       if a \<in> {9, 10, 11, 12, 13, 32} then 1
       else (case r of
          [] \<Rightarrow> 0
        | b # r' \<Rightarrow>
            if a = 194 \<and> b \<in> {133, 160} then 2
            else (case r' of
               [] \<Rightarrow> 0
             | c # _ \<Rightarrow>
                 if a = 225 \<and> b = 154 \<and> c = 128
                    \<or> a = 226 \<and> b = 128 \<and> (128 \<le> c \<and> c \<le> 138 \<or> c \<in> {168, 169, 175})
                    \<or> a = 226 \<and> b = 129 \<and> c = 159
                    \<or> a = 227 \<and> b = 128 \<and> c = 128
                 then 3 else 0)))"

text \<open>The field being read is the accumulator, in reverse.\<close>

function fields_acc :: "string \<Rightarrow> string \<Rightarrow> string list" where
  "fields_acc acc [] = (if acc = [] then [] else [rev acc])"
| "fields_acc acc (x # xs) =
     (let n = space_len (x # xs)
      in if n = 0 then fields_acc (x # acc) xs
         else (if acc = [] then [] else [rev acc]) @ fields_acc [] (drop (n - 1) xs))"
  by pat_completeness auto
termination
  by (relation "measure (\<lambda>(acc, s). length s)") auto

definition fields :: "string \<Rightarrow> string list" where
  "fields s = fields_acc [] s"

lemma fields_acc_ne: "\<forall>f \<in> set (fields_acc acc s). f \<noteq> []"
  by (induction acc s rule: fields_acc.induct) (auto simp: Let_def)

lemma fields_ne: "f \<in> set (fields s) \<Longrightarrow> f \<noteq> []"
  using fields_acc_ne [of "[]" s] by (auto simp: fields_def)

end
