(* ===== verification/Encoding.thy ===== *)
theory Encoding
  imports Prelude "HOL-Library.Word"
begin

text \<open>
  The codecs of Go's standard library that the program calls, each defined in full:
  \<open>base64.RawURLEncoding\<close>, \<open>hex.EncodeToString\<close>, \<open>sha256.Sum256\<close>, big-endian
  integers (\<open>big.Int.Bytes\<close>, \<open>SetBytes\<close>), \<open>utf8.DecodeRuneInString\<close>,
  with the round trips and alphabets the components rely on.
\<close>

unbundle bit_operations_syntax

definition chr :: "nat \<Rightarrow> char" where "chr n = char_of n"

lemma byte_bound [simp]: "byte c < 256"
  by (simp add: byte_def)

lemma chr_byte [simp]: "chr (byte c) = c"
  by (simp add: chr_def byte_def)

lemma byte_chr: "byte (chr n) = n mod 256"
  by (simp add: chr_def byte_def)

lemma byte_inject: "byte a = byte b \<longleftrightarrow> a = b"
  by (metis chr_byte)

lemma chr_eq_iff: "chr n = c \<longleftrightarrow> n mod 256 = byte c" "c = chr n \<longleftrightarrow> n mod 256 = byte c"
  by (metis byte_chr byte_inject)+

text \<open>Evaluating characters of closed terms.\<close>

lemmas char_simps = byte_def chr_eq_iff

section \<open>base64.RawURLEncoding\<close>

definition b64_chr :: "nat \<Rightarrow> char" where
  "b64_chr n = chr (if n < 26 then n + 65 else if n < 52 then n + 71
                    else if n < 62 then n - 4 else if n = 62 then 45 else 95)"

definition b64_val :: "char \<Rightarrow> nat option" where
  "b64_val c = (let n = byte c in
     if 65 \<le> n \<and> n \<le> 90 then Some (n - 65)
     else if 97 \<le> n \<and> n \<le> 122 then Some (n - 71)
     else if 48 \<le> n \<and> n \<le> 57 then Some (n + 4)
     else if n = 45 then Some 62
     else if n = 95 then Some 63
     else None)"

fun b64_encode :: "bytes \<Rightarrow> string" where
  "b64_encode [] = []"
| "b64_encode [a] = [b64_chr (byte a div 4), b64_chr (byte a mod 4 * 16)]"
| "b64_encode [a, b] =
     [b64_chr (byte a div 4), b64_chr (byte a mod 4 * 16 + byte b div 16),
      b64_chr (byte b mod 16 * 4)]"
| "b64_encode (a # b # c # r) =
     b64_chr (byte a div 4) # b64_chr (byte a mod 4 * 16 + byte b div 16)
     # b64_chr (byte b mod 16 * 4 + byte c div 64) # b64_chr (byte c mod 64) # b64_encode r"

text \<open>The decoder works on the values of the digits.  It is not the strict one: the unused
  low bits of the last digit are dropped; a single left-over digit is corrupt input.\<close>

fun b64_bytes :: "nat list \<Rightarrow> bytes option" where
  "b64_bytes [] = Some []"
| "b64_bytes [a] = None"
| "b64_bytes [a, b] = Some [chr (a * 4 + b div 16)]"
| "b64_bytes [a, b, c] = Some [chr (a * 4 + b div 16), chr (b mod 16 * 16 + c div 4)]"
| "b64_bytes (a # b # c # d # r) =
     (case b64_bytes r of None \<Rightarrow> None
      | Some s \<Rightarrow> Some (chr (a * 4 + b div 16) # chr (b mod 16 * 16 + c div 4)
                         # chr (c mod 4 * 64 + d) # s))"

fun b64_vals :: "string \<Rightarrow> nat list option" where
  "b64_vals [] = Some []"
| "b64_vals (c # r) =
     (case b64_val c of None \<Rightarrow> None
      | Some v \<Rightarrow> (case b64_vals r of None \<Rightarrow> None | Some vs \<Rightarrow> Some (v # vs)))"

text \<open>Carriage returns and line feeds in the input are skipped, as the decoder does.\<close>

definition b64_decode :: "string \<Rightarrow> bytes option" where
  "b64_decode s =
     (case b64_vals (filter (\<lambda>c. byte c \<noteq> 10 \<and> byte c \<noteq> 13) s) of
        None \<Rightarrow> None | Some vs \<Rightarrow> b64_bytes vs)"

lemma b64_val_chr [simp]: "n < 64 \<Longrightarrow> b64_val (b64_chr n) = Some n"
  unfolding b64_chr_def Let_def
  by (cases "n < 26"; cases "n < 52"; cases "n < 62"; cases "n = 62") (auto simp: b64_val_def byte_chr Let_def)

lemma b64_chr_not_newline [simp]:
  "byte (b64_chr n) \<noteq> 10" "byte (b64_chr n) \<noteq> 13" if "n < 64"
  using that by (auto simp: b64_chr_def byte_chr)

text \<open>The encoder's alphabet.\<close>

definition b64_alphabet :: "char set" where
  "b64_alphabet = b64_chr ` {..<64}"

lemma b64_chr_in_alphabet [simp]: "n < 64 \<Longrightarrow> b64_chr n \<in> b64_alphabet"
  by (simp add: b64_alphabet_def)

lemma b64_digit_bounds_nat:
  fixes m n :: nat
  assumes "m < 256" "n < 256"
  shows "m div 4 < 64" "m mod 4 * 16 < 64" "m mod 16 * 4 < 64"
    and "m mod 4 * 16 + n div 16 < 64" "m mod 16 * 4 + n div 64 < 64"
proof -
  have "m mod 4 < 4" "m mod 16 < 16" by simp_all
  moreover have "n div 16 < 16" "n div 64 < 4" using assms by simp_all
  ultimately show "m mod 4 * 16 < 64" "m mod 16 * 4 < 64" "m mod 4 * 16 + n div 16 < 64"
    "m mod 16 * 4 + n div 64 < 64" by linarith+
  show "m div 4 < 64" using assms by simp
qed

lemmas b64_digit_bounds [simp] = b64_digit_bounds_nat [OF byte_bound byte_bound]

lemma b64_encode_alphabet: "set (b64_encode s) \<subseteq> b64_alphabet"
  by (induction s rule: b64_encode.induct) auto

lemma byte_digits_nat:
  fixes n :: nat
  assumes "n < 256"
  shows "n div 16 div 16 = 0" "n div 16 mod 16 = n div 16" "n div 64 div 4 = 0" "n div 64 mod 4 = n div 64"
  using assms by simp_all

lemmas byte_digits [simp] = byte_digits_nat [OF byte_bound]

lemma b64_vals_encode: "\<exists>vs. b64_vals (b64_encode s) = Some vs \<and> b64_bytes vs = Some s"
  by (induction s rule: b64_encode.induct) auto

lemma b64_encode_no_newline:
  "filter (\<lambda>c. byte c \<noteq> 10 \<and> byte c \<noteq> 13) (b64_encode s) = b64_encode s"
  by (induction s rule: b64_encode.induct) auto

lemma b64_decode_encode [simp]: "b64_decode (b64_encode s) = Some s"
  using b64_vals_encode [of s] by (auto simp: b64_decode_def b64_encode_no_newline)

lemma b64_encode_inject [simp]: "b64_encode s = b64_encode t \<longleftrightarrow> s = t"
  by (metis b64_decode_encode option.inject)

lemma b64_encode_Nil [simp]: "b64_encode s = [] \<longleftrightarrow> s = []"
  by (cases s rule: b64_encode.cases) auto

lemma tilde_not_b64: "CHR ''~'' \<notin> b64_alphabet"
  by (auto simp: b64_alphabet_def b64_chr_def chr_def split: if_splits dest!: arg_cong [where f = byte] simp: byte_def)

lemma dot_not_b64: "CHR ''.'' \<notin> b64_alphabet"
  by (auto simp: b64_alphabet_def b64_chr_def chr_def split: if_splits dest!: arg_cong [where f = byte] simp: byte_def)

lemma b64_encode_ascii: "c \<in> set (b64_encode s) \<Longrightarrow> byte c < 128"
  using b64_encode_alphabet [of s]
  by (auto simp: b64_alphabet_def b64_chr_def byte_chr dest!: subsetD split: if_splits)

text \<open>An encoding holds neither the separator of a compact JWT nor that of a chain.\<close>

lemma b64_encode_sep_free: "CHR ''~'' \<notin> set (b64_encode s)" "CHR ''.'' \<notin> set (b64_encode s)"
  using b64_encode_alphabet [of s] tilde_not_b64 dot_not_b64 by blast+

section \<open>hex.EncodeToString\<close>

definition hex_digit :: "nat \<Rightarrow> char" where
  "hex_digit n = chr (if n < 10 then n + 48 else n + 87)"

definition hex_encode :: "bytes \<Rightarrow> string" where
  "hex_encode s = concat (map (\<lambda>c. [hex_digit (byte c div 16), hex_digit (byte c mod 16)]) s)"

lemma hex_digit_inject: "a < 16 \<Longrightarrow> b < 16 \<Longrightarrow> hex_digit a = hex_digit b \<Longrightarrow> a = b"
  by (drule arg_cong [where f = byte]) (auto simp: hex_digit_def byte_chr split: if_splits)

lemma hex_encode_inject: "hex_encode s = hex_encode t \<Longrightarrow> s = t"
proof (induction s arbitrary: t)
  case Nil
  then show ?case by (cases t) (auto simp: hex_encode_def)
next
  case (Cons c s)
  then obtain d u where t: "t = d # u"
    by (cases t) (auto simp: hex_encode_def)
  have div: "byte c div 16 = byte d div 16" and mod: "byte c mod 16 = byte d mod 16"
    using Cons.prems byte_bound [of c] byte_bound [of d]
    by (auto simp: t hex_encode_def simp del: byte_bound intro!: hex_digit_inject)
  then have "c = d"
    by (metis byte_inject div_mult_mod_eq)
  with Cons t show ?case by (auto simp: hex_encode_def)
qed

lemma hex_encode_Nil [simp]: "hex_encode b = [] \<longleftrightarrow> b = []"
  by (cases b) (auto simp: hex_encode_def)

lemma hex_digit_ascii: "n < 16 \<Longrightarrow> byte (hex_digit n) < 128"
  by (simp add: hex_digit_def byte_chr)

lemma length_hex_encode [simp]: "length (hex_encode s) = 2 * length s"
  by (induction s) (auto simp: hex_encode_def)

section \<open>Big-endian integers\<close>

text \<open>\<open>new(big.Int).SetBytes(b)\<close>, and \<open>n.Bytes()\<close>: the shortest big-endian form, empty
  for zero.\<close>

definition set_bytes :: "bytes \<Rightarrow> nat" where
  "set_bytes b = foldl (\<lambda>n c. n * 256 + byte c) 0 b"

fun big_bytes :: "nat \<Rightarrow> bytes" where
  "big_bytes n = (if n = 0 then [] else big_bytes (n div 256) @ [chr (n mod 256)])"

declare big_bytes.simps [simp del]

lemma big_bytes_0 [simp]: "big_bytes 0 = []"
  by (simp add: big_bytes.simps)

lemma set_bytes_snoc [simp]: "set_bytes (b @ [c]) = set_bytes b * 256 + byte c"
  by (simp add: set_bytes_def)

lemma set_bytes_Nil [simp]: "set_bytes [] = 0"
  by (simp add: set_bytes_def)

lemma set_big_bytes [simp]: "set_bytes (big_bytes n) = n"
proof (induction n rule: big_bytes.induct)
  case (1 n)
  then show ?case by (cases "n = 0") (simp_all add: big_bytes.simps [of n] byte_chr)
qed

lemma set_bytes_zeros [simp]: "set_bytes (replicate k (chr 0) @ b) = set_bytes b"
proof (induction b rule: rev_induct)
  case Nil
  show ?case
  proof (induction k)
    case (Suc k)
    have "replicate (Suc k) (chr 0) = replicate k (chr 0) @ [chr 0]"
      by (simp add: replicate_append_same)
    with Suc show ?case by (simp add: byte_chr del: replicate_Suc)
  qed simp
next
  case (snoc c b)
  then show ?case by (metis append.assoc set_bytes_snoc)
qed

lemma length_big_bytes: "n < 256 ^ k \<Longrightarrow> length (big_bytes n) \<le> k"
proof (induction k arbitrary: n)
  case (Suc k)
  show ?case
  proof (cases "n = 0")
    case False
    have "n div 256 < 256 ^ k"
      using Suc.prems by (simp add: less_mult_imp_div_less mult.commute)
    with Suc.IH False show ?thesis by (simp add: big_bytes.simps [of n])
  qed simp
qed simp

section \<open>sha256.Sum256\<close>

text \<open>The hash function of FIPS 180-4 on byte strings: padding, the message schedule and the
  64 rounds per block on 32-bit words.\<close>

type_synonym u32 = "32 word"

definition sha256_K :: "u32 list" where
  "sha256_K = [
    1116352408, 1899447441, 3049323471, 3921009573, 961987163, 1508970993, 2453635748, 2870763221,
    3624381080, 310598401, 607225278, 1426881987, 1925078388, 2162078206, 2614888103, 3248222580,
    3835390401, 4022224774, 264347078, 604807628, 770255983, 1249150122, 1555081692, 1996064986,
    2554220882, 2821834349, 2952996808, 3210313671, 3336571891, 3584528711, 113926993, 338241895,
    666307205, 773529912, 1294757372, 1396182291, 1695183700, 1986661051, 2177026350, 2456956037,
    2730485921, 2820302411, 3259730800, 3345764771, 3516065817, 3600352804, 4094571909, 275423344,
    430227734, 506948616, 659060556, 883997877, 958139571, 1322822218, 1537002063, 1747873779,
    1955562222, 2024104815, 2227730452, 2361852424, 2428436474, 2756734187, 3204031479, 3329325298]"

type_synonym sha_state = "u32 \<times> u32 \<times> u32 \<times> u32 \<times> u32 \<times> u32 \<times> u32 \<times> u32"

definition sha256_init :: sha_state where
  "sha256_init = (1779033703, 3144134277, 1013904242, 2773480762,
                  1359893119, 2600822924, 528734635, 1541459225)"

definition be_bytes :: "nat \<Rightarrow> nat \<Rightarrow> bytes" where
  "be_bytes k n = map (\<lambda>i. chr (n div 256 ^ i mod 256)) (rev [0..<k])"

definition sha256_pad :: "bytes \<Rightarrow> bytes" where
  "sha256_pad m = m @ chr 128 # replicate ((119 - length m mod 64) mod 64) (chr 0)
                    @ be_bytes 8 (8 * length m mod 2 ^ 64)"

fun be_words :: "bytes \<Rightarrow> u32 list" where
  "be_words (a # b # c # d # r) =
     of_nat (((byte a * 256 + byte b) * 256 + byte c) * 256 + byte d) # be_words r"
| "be_words _ = []"

text \<open>The schedule holds the words built so far in reverse, so that word \<open>t-2\<close> is at
  index 1 and word \<open>t-16\<close> at index 15.\<close>

fun sha256_schedule :: "nat \<Rightarrow> u32 list \<Rightarrow> u32 list" where
  "sha256_schedule 0 ws = ws"
| "sha256_schedule (Suc n) ws =
     (let w2 = ws ! 1; w7 = ws ! 6; w15 = ws ! 14; w16 = ws ! 15;
          s1 = word_rotr 17 w2 XOR word_rotr 19 w2 XOR drop_bit 10 w2;
          s0 = word_rotr 7 w15 XOR word_rotr 18 w15 XOR drop_bit 3 w15
      in sha256_schedule n ((s1 + w7 + s0 + w16) # ws))"

fun sha256_round :: "sha_state \<Rightarrow> u32 \<times> u32 \<Rightarrow> sha_state" where
  "sha256_round (a, b, c, d, e, f, g, h) (k, w) =
     (let t1 = h + (word_rotr 6 e XOR word_rotr 11 e XOR word_rotr 25 e)
                 + ((e AND f) XOR (NOT e AND g)) + k + w;
          t2 = (word_rotr 2 a XOR word_rotr 13 a XOR word_rotr 22 a)
                 + ((a AND b) XOR (a AND c) XOR (b AND c))
      in (t1 + t2, a, b, c, d + t1, e, f, g))"

fun sha256_add :: "sha_state \<Rightarrow> sha_state \<Rightarrow> sha_state" where
  "sha256_add (a, b, c, d, e, f, g, h) (a', b', c', d', e', f', g', h') =
     (a + a', b + b', c + c', d + d', e + e', f + f', g + g', h + h')"

definition sha256_block :: "sha_state \<Rightarrow> u32 list \<Rightarrow> sha_state" where
  "sha256_block s ws =
     sha256_add s (foldl sha256_round s (zip sha256_K (rev (sha256_schedule 48 (rev ws)))))"

function sha256_blocks :: "sha_state \<Rightarrow> u32 list \<Rightarrow> sha_state" where
  "sha256_blocks s ws =
     (if ws = [] then s else sha256_blocks (sha256_block s (take 16 ws)) (drop 16 ws))"
  by pat_completeness auto
termination
  by (relation "measure (\<lambda>(s, ws). length ws)") auto

declare sha256_blocks.simps [simp del]

definition sha256 :: "bytes \<Rightarrow> bytes" where
  "sha256 m = (case sha256_blocks sha256_init (be_words (sha256_pad m)) of
     (a, b, c, d, e, f, g, h) \<Rightarrow> concat (map (\<lambda>w. be_bytes 4 (unat w)) [a, b, c, d, e, f, g, h]))"

lemma length_be_bytes [simp]: "length (be_bytes k n) = k"
  by (simp add: be_bytes_def)

lemma length_sha256 [simp]: "length (sha256 m) = 32"
  by (auto simp: sha256_def split: prod.splits)

text \<open>\<open>base64url(SHA-256(s))\<close>, the form of every hash the program puts in a claim.\<close>

definition b64_sha256 :: "string \<Rightarrow> string" where
  "b64_sha256 s = b64_encode (sha256 s)"

text \<open>Equal hashes of two strings mean equal strings or a collision of the hash function.\<close>

definition sha256_collision :: "bytes \<Rightarrow> bytes \<Rightarrow> bool" where
  "sha256_collision s t \<longleftrightarrow> s \<noteq> t \<and> sha256 s = sha256 t"

lemma sha256_eq_cases: "sha256 s = sha256 t \<Longrightarrow> s = t \<or> sha256_collision s t"
  by (auto simp: sha256_collision_def)

lemma b64_sha256_eq_cases: "b64_sha256 s = b64_sha256 t \<Longrightarrow> s = t \<or> sha256_collision s t"
  by (auto simp: b64_sha256_def sha256_collision_def)

end
