(* ===== verification/Text.thy ===== *)
theory Text
  imports Encoding
begin

text \<open>
  Runes, case mapping, decimal numerals and time stamps: \<open>utf8.DecodeRuneInString\<close> and
  \<open>utf8.EncodeRune\<close>, \<open>strings.ToLower\<close>, \<open>strconv.Itoa\<close>, and the layout
  \<open>time.RFC3339Nano\<close> of \<open>time.Format\<close> for UTC times.
\<close>

section \<open>UTF-8\<close>

text \<open>The first rune of a string and its width in bytes; invalid input is the replacement
  rune of width 1, the empty string the replacement rune of width 0.\<close>

definition rune_error :: nat where "rune_error = 65533"

definition cont_byte :: "nat \<Rightarrow> bool" where "cont_byte b \<longleftrightarrow> 128 \<le> b \<and> b \<le> 191"

definition decode_rune :: "string \<Rightarrow> nat \<times> nat" where
  "decode_rune s = (case map byte (take 4 s) of
     [] \<Rightarrow> (rune_error, 0)
   | a # r \<Rightarrow>
       if a < 128 then (a, 1)
       else if 194 \<le> a \<and> a \<le> 223 then
         (case r of b # _ \<Rightarrow>
            if cont_byte b then ((a - 192) * 64 + (b - 128), 2) else (rune_error, 1)
          | [] \<Rightarrow> (rune_error, 1))
       else if 224 \<le> a \<and> a \<le> 239 then
         (case r of b # c # _ \<Rightarrow>
            if cont_byte b \<and> cont_byte c \<and> (a = 224 \<longrightarrow> 160 \<le> b) \<and> (a = 237 \<longrightarrow> b \<le> 159)
            then ((a - 224) * 4096 + (b - 128) * 64 + (c - 128), 3) else (rune_error, 1)
          | _ \<Rightarrow> (rune_error, 1))
       else if 240 \<le> a \<and> a \<le> 244 then
         (case r of b # c # d # _ \<Rightarrow>
            if cont_byte b \<and> cont_byte c \<and> cont_byte d
               \<and> (a = 240 \<longrightarrow> 144 \<le> b) \<and> (a = 244 \<longrightarrow> b \<le> 143)
            then ((a - 240) * 262144 + (b - 128) * 4096 + (c - 128) * 64 + (d - 128), 4)
            else (rune_error, 1)
          | _ \<Rightarrow> (rune_error, 1))
       else (rune_error, 1))"

text \<open>Surrogates and runes beyond the last plane are written as the replacement rune.\<close>

definition encode_rune :: "nat \<Rightarrow> string" where
  "encode_rune n = (let u = (if 55296 \<le> n \<and> n \<le> 57343 \<or> 1114111 < n then rune_error else n) in
     if u < 128 then [chr u]
     else if u < 2048 then [chr (192 + u div 64), chr (128 + u mod 64)]
     else if u < 65536 then [chr (224 + u div 4096), chr (128 + u div 64 mod 64), chr (128 + u mod 64)]
     else [chr (240 + u div 262144), chr (128 + u div 4096 mod 64),
           chr (128 + u div 64 mod 64), chr (128 + u mod 64)])"

definition is_ascii :: "string \<Rightarrow> bool" where
  "is_ascii s \<longleftrightarrow> (\<forall>c \<in> set s. byte c < 128)"

lemma decode_rune_ascii [simp]: "byte c < 128 \<Longrightarrow> decode_rune (c # s) = (byte c, 1)"
  by (simp add: decode_rune_def)

lemma decode_rune_Nil [simp]: "decode_rune [] = (rune_error, 0)"
  by (simp add: decode_rune_def)

lemma decode_rune_width: "decode_rune (c # s) = (r, n) \<Longrightarrow> 1 \<le> n \<and> n \<le> length (c # s)"
  by (cases s; cases "tl s"; cases "tl (tl s)") (auto simp: decode_rune_def split: if_splits)

lemma decode_rune_pos: "decode_rune (c # s) = (r, n) \<Longrightarrow> 0 < n"
  using decode_rune_width by fastforce

text \<open>\<open>utf8.ValidString\<close>: what the JSON encoder writes unchanged.\<close>

function utf8 :: "string \<Rightarrow> bool" where
  "utf8 [] = True"
| "utf8 (c # s) = (case decode_rune (c # s) of (r, n) \<Rightarrow>
     \<not> (r = rune_error \<and> n = 1) \<and> utf8 (drop n (c # s)))"
  by pat_completeness auto
termination
  by (relation "measure length") (auto dest!: decode_rune_pos [OF sym])

declare utf8.simps [simp del]

lemma utf8_Nil [simp]: "utf8 []"
  by (simp add: utf8.simps)

lemma utf8_ascii_Cons [simp]: "byte c < 128 \<Longrightarrow> utf8 (c # s) = utf8 s"
  by (simp add: utf8.simps rune_error_def)

lemma utf8_ascii: "is_ascii s \<Longrightarrow> utf8 s"
  by (induction s) (auto simp: is_ascii_def)

lemma utf8_hex_encode [simp]: "utf8 (hex_encode b)"
proof (rule utf8_ascii)
  have "byte c div 16 < 16" for c
    using byte_bound [of c] by (simp add: less_mult_imp_div_less)
  then show "is_ascii (hex_encode b)"
    by (auto simp: is_ascii_def hex_encode_def hex_digit_ascii)
qed

section \<open>strings.ToLower\<close>

text \<open>
  Exact on every byte below 128 of the result: the ASCII letters, and the two runes outside
  ASCII whose lower case is ASCII (the Kelvin sign, bytes 226 132 170, and the dotted capital I,
  bytes 196 176).  Every other rune keeps its bytes here, where Go may write other bytes, all of
  them 128 or more; a search for ASCII text cannot tell the difference.
\<close>

definition lower_byte :: "char \<Rightarrow> char" where
  "lower_byte c = (if 65 \<le> byte c \<and> byte c \<le> 90 then chr (byte c + 32) else c)"

function to_lower :: "string \<Rightarrow> string" where
  "to_lower s = (case s of
     [] \<Rightarrow> []
   | c # r \<Rightarrow>
       if map byte (take 3 s) = [226, 132, 170] then CHR ''k'' # to_lower (drop 3 s)
       else if map byte (take 2 s) = [196, 176] then CHR ''i'' # to_lower (drop 2 s)
       else lower_byte c # to_lower r)"
  by pat_completeness auto
termination
  by (relation "measure length") auto

declare to_lower.simps [simp del]

lemma to_lower_Nil [simp]: "to_lower [] = []"
  by (simp add: to_lower.simps)

lemma to_lower_ascii_Cons [simp]:
  "byte c < 128 \<Longrightarrow> to_lower (c # s) = lower_byte c # to_lower s"
  by (subst to_lower.simps) (simp add: take_Cons')

lemma to_lower_ascii_append:
  "is_ascii s \<Longrightarrow> to_lower (s @ t) = map lower_byte s @ to_lower t"
  by (induction s) (auto simp: is_ascii_def)

section \<open>Numerals\<close>

fun dec_digits :: "nat \<Rightarrow> string" where
  "dec_digits n = (if n < 10 then [chr (48 + n)] else dec_digits (n div 10) @ [chr (48 + n mod 10)])"

declare dec_digits.simps [simp del]

definition itoa :: "int \<Rightarrow> string" where
  "itoa i = (if i < 0 then CHR ''-'' # dec_digits (nat (- i)) else dec_digits (nat i))"

definition pad_zero :: "nat \<Rightarrow> string \<Rightarrow> string" where
  "pad_zero k s = replicate (k - length s) (CHR ''0'') @ s"

section \<open>time.RFC3339Nano\<close>

text \<open>The proleptic Gregorian date of a day number counted from 1970-01-01.\<close>

definition civil_from_days :: "int \<Rightarrow> int \<times> int \<times> int" where
  "civil_from_days days =
     (let z = days + 719468;
          era = z div 146097;
          doe = z mod 146097;
          yoe = (doe - doe div 1460 + doe div 36524 - doe div 146096) div 365;
          doy = doe - (365 * yoe + yoe div 4 - yoe div 100);
          mp = (5 * doy + 2) div 153;
          d = doy - (153 * mp + 2) div 5 + 1;
          m = (if mp < 10 then mp + 3 else mp - 9)
      in (yoe + era * 400 + (if m \<le> 2 then 1 else 0), m, d))"

definition frac_digits :: "int \<Rightarrow> string" where
  "frac_digits ns =
     (let ds = rev (dropWhile (\<lambda>c. c = CHR ''0'') (rev (pad_zero 9 (itoa ns))))
      in if ds = [] then [] else CHR ''.'' # ds)"

definition format_rfc3339nano :: "time \<Rightarrow> string" where
  "format_rfc3339nano t =
     (let secs = t div second; ns = t mod second; sod = secs mod 86400
      in case civil_from_days (secs div 86400) of (y, m, d) \<Rightarrow>
         pad_zero 4 (itoa y) @ ''-'' @ pad_zero 2 (itoa m) @ ''-'' @ pad_zero 2 (itoa d) @ ''T''
         @ pad_zero 2 (itoa (sod div 3600)) @ '':'' @ pad_zero 2 (itoa (sod div 60 mod 60)) @ '':''
         @ pad_zero 2 (itoa (sod mod 60)) @ frac_digits ns @ ''Z'')"

end
