(* ===== verification/Glob.thy ===== *)
theory Glob
  imports Text
begin

text \<open>
  Shell patterns as \<open>path.Match\<close> of Go's package \<open>path\<close> reads them, in full: the
  pattern is cut at its stars into chunks, each chunk is matched at the leftmost place it fits,
  and no star reaches over a slash.  For patterns built from literal bytes and stars only (every
  pattern of the default policy), \<open>path_match_plain\<close> shows that this greedy search
  without backtracking decides the declarative meaning \<open>glob\<close>.
\<close>

datatype chunk_result = BadPattern | NoMatch | Matched string

abbreviation star :: char where "star \<equiv> CHR ''*''"
abbreviation slash :: char where "slash \<equiv> CHR ''/''"

definition get_esc :: "string \<Rightarrow> (nat \<times> string) option" where
  "get_esc chunk = (case chunk of
     [] \<Rightarrow> None
   | c # r \<Rightarrow>
       if c = CHR ''-'' \<or> c = CHR '']'' then None
       else (let ch = (if byte c = 92 then r else chunk) in
         if ch = [] then None
         else (case decode_rune ch of (u, n) \<Rightarrow>
           if u = rune_error \<and> n = 1 \<or> drop n ch = [] then None else Some (u, drop n ch))))"

lemma get_esc_length: "get_esc ch = Some (u, r) \<Longrightarrow> length r < length ch"
  by (auto simp: get_esc_def Let_def dest!: decode_rune_pos split: list.splits if_splits prod.splits)

text \<open>The ranges of a character class, up to its closing bracket; the flag says whether a
  range has been read.\<close>

function class_ranges :: "nat \<Rightarrow> bool \<Rightarrow> bool \<Rightarrow> string \<Rightarrow> (bool \<times> string) option" where
  "class_ranges r m started chunk =
     (if chunk \<noteq> [] \<and> hd chunk = CHR '']'' \<and> started then Some (m, tl chunk)
      else (case get_esc chunk of
          None \<Rightarrow> None
        | Some (lo, ch1) \<Rightarrow>
            if hd ch1 = CHR ''-'' then
              (case get_esc (tl ch1) of
                 None \<Rightarrow> None
               | Some (hi, ch2) \<Rightarrow> class_ranges r (m \<or> lo \<le> r \<and> r \<le> hi) True ch2)
            else class_ranges r (m \<or> r = lo) True ch1))"
  by pat_completeness auto
termination
  by (relation "measure (\<lambda>(r, m, s, ch). length ch)")
    (force dest: get_esc_length simp: less_imp_diff_less)+

declare class_ranges.simps [simp del]

function match_chunk :: "bool \<Rightarrow> string \<Rightarrow> string \<Rightarrow> chunk_result" where
  "match_chunk failed chunk s = (case chunk of
     [] \<Rightarrow> (if failed then NoMatch else Matched s)
   | c # ch \<Rightarrow>
       let failed = (failed \<or> s = []) in
       if c = CHR ''['' then
         (let (r, s') = (if failed then (0, s) else (case decode_rune s of (u, n) \<Rightarrow> (u, drop n s)));
              negated = (ch \<noteq> [] \<and> hd ch = CHR ''^'');
              ch1 = (if negated then tl ch else ch)
          in (case class_ranges r False False ch1 of
                None \<Rightarrow> BadPattern
              | Some (m, ch2) \<Rightarrow>
                  if length ch2 < length chunk then match_chunk (failed \<or> m = negated) ch2 s'
                  else BadPattern))
       else if c = CHR ''?'' then
         match_chunk (failed \<or> hd s = slash) ch (if failed then s else drop (snd (decode_rune s)) s)
       else if byte c = 92 then
         (case ch of [] \<Rightarrow> BadPattern
          | e # ch' \<Rightarrow> match_chunk (failed \<or> e \<noteq> hd s) ch' (if failed then s else tl s))
       else match_chunk (failed \<or> c \<noteq> hd s) ch (if failed then s else tl s))"
  by pat_completeness auto
termination
  by (relation "measure (\<lambda>(f, ch, s). length ch)") auto

declare match_chunk.simps [simp del]

text \<open>\<open>scanChunk\<close> without its leading stars: the chunk up to the next star outside a
  class, and the rest.\<close>

fun scan_chunk :: "bool \<Rightarrow> string \<Rightarrow> string \<times> string" where
  "scan_chunk inrange [] = ([], [])"
| "scan_chunk inrange (c # r) =
     (if byte c = 92 then
        (case r of [] \<Rightarrow> ([c], [])
         | d # r' \<Rightarrow> (case scan_chunk inrange r' of (a, b) \<Rightarrow> (c # d # a, b)))
      else if c = CHR ''['' then (case scan_chunk True r of (a, b) \<Rightarrow> (c # a, b))
      else if c = CHR '']'' then (case scan_chunk False r of (a, b) \<Rightarrow> (c # a, b))
      else if c = star \<and> \<not> inrange then ([], c # r)
      else (case scan_chunk inrange r of (a, b) \<Rightarrow> (c # a, b)))"

text \<open>The skipping loop of a star: the chunk is tried after each byte that is not a slash.\<close>

fun try_skip :: "string \<Rightarrow> string \<Rightarrow> string \<Rightarrow> chunk_result" where
  "try_skip chunk rest [] = NoMatch"
| "try_skip chunk rest (c # n) =
     (if c = slash then NoMatch
      else (case match_chunk False chunk n of
          BadPattern \<Rightarrow> BadPattern
        | NoMatch \<Rightarrow> try_skip chunk rest n
        | Matched t \<Rightarrow> if rest = [] \<and> t \<noteq> [] then try_skip chunk rest n else Matched t))"

text \<open>Before a failed match returns, the rest of the pattern is checked for syntax.\<close>

function check_rest :: "string \<Rightarrow> bool option" where
  "check_rest p =
     (if p = [] then Some False
      else (case scan_chunk False (dropWhile (\<lambda>c. c = star) p) of (chunk, rest) \<Rightarrow>
        if match_chunk False chunk [] = BadPattern then None
        else if length rest < length p then check_rest rest else Some False))"
  by pat_completeness auto
termination
  by (relation "measure length") auto

declare check_rest.simps [simp del]

text \<open>\<open>path.Match(pattern, name)\<close>: \<^term>\<open>None\<close> is \<open>ErrBadPattern\<close>.\<close>

function path_match :: "string \<Rightarrow> string \<Rightarrow> bool option" where
  "path_match p name =
     (if p = [] then Some (name = [])
      else (case scan_chunk False (dropWhile (\<lambda>c. c = star) p) of (chunk, rest) \<Rightarrow>
        let starred = (hd p = star) in
        if starred \<and> chunk = [] then Some (slash \<notin> set name)
        else (let here = match_chunk False chunk name;
                  found = (case here of
                      Matched t \<Rightarrow> if t = [] \<or> rest \<noteq> [] then here
                                   else if starred then try_skip chunk rest name else NoMatch
                    | NoMatch \<Rightarrow> if starred then try_skip chunk rest name else NoMatch
                    | BadPattern \<Rightarrow> BadPattern)
              in (case found of
                    BadPattern \<Rightarrow> None
                  | NoMatch \<Rightarrow> check_rest rest
                  | Matched t \<Rightarrow> if length rest < length p then path_match rest t else None))))"
  by pat_completeness auto
termination
  by (relation "measure (\<lambda>(p, n). length p)") auto

declare path_match.simps [simp del]

section \<open>The declarative meaning of plain patterns\<close>

definition plain :: "string \<Rightarrow> bool" where
  "plain p \<longleftrightarrow> (\<forall>c \<in> set p. c \<noteq> CHR ''['' \<and> c \<noteq> CHR ''?'' \<and> byte c \<noteq> 92)"

text \<open>A star stands for any run of bytes other than a slash, any other byte for itself.\<close>

fun glob :: "string \<Rightarrow> string \<Rightarrow> bool" where
  "glob [] n = (n = [])"
| "glob (c # p) n =
     (if c = star then glob p n \<or> (case n of [] \<Rightarrow> False | d # n' \<Rightarrow> d \<noteq> slash \<and> glob (c # p) n')
      else (case n of [] \<Rightarrow> False | d # n' \<Rightarrow> c = d \<and> glob p n'))"

lemma glob_literal:
  "star \<notin> set q \<Longrightarrow> glob (q @ p) n \<longleftrightarrow> (\<exists>t. n = q @ t \<and> glob p t)"
proof (induction q arbitrary: n)
  case (Cons c q)
  then show ?case by (cases n) auto
qed simp

lemma glob_star_skip: "slash \<notin> set u \<Longrightarrow> glob (star # p) t \<Longrightarrow> glob (star # p) (u @ t)"
  by (induction u) auto

lemma glob_starE:
  "glob (star # p) n \<Longrightarrow> \<exists>u t. n = u @ t \<and> slash \<notin> set u \<and> glob p t"
proof (induction n)
  case (Cons c n)
  show ?case
  proof (cases "glob p (c # n)")
    case True
    then show ?thesis by (intro exI [of _ "[]"] exI [of _ "c # n"]) simp
  next
    case False
    with Cons obtain u t where "n = u @ t" "slash \<notin> set u" "glob p t" "c \<noteq> slash" by auto
    then show ?thesis by (intro exI [of _ "c # u"] exI [of _ t]) auto
  qed
qed auto

lemma glob_star_iff:
  "glob (star # p) n \<longleftrightarrow> (\<exists>u t. n = u @ t \<and> slash \<notin> set u \<and> glob p t)"
proof
  assume "\<exists>u t. n = u @ t \<and> slash \<notin> set u \<and> glob p t"
  then obtain u t where n: "n = u @ t" "slash \<notin> set u" and "glob p t" by blast
  then have "glob (star # p) t" by simp
  with n show "glob (star # p) n" by (metis glob_star_skip)
qed (rule glob_starE)

lemma glob_stars: "glob (star # star # p) n \<longleftrightarrow> glob (star # p) n"
proof
  assume "glob (star # star # p) n"
  then obtain u v t where "n = u @ v @ t" "slash \<notin> set u" "slash \<notin> set v" "glob p t"
    unfolding glob_star_iff by auto
  then show "glob (star # p) n"
    unfolding glob_star_iff by (intro exI [of _ "u @ v"] exI [of _ t]) auto
qed simp

lemma glob_drop_stars:
  "hd p = star \<Longrightarrow> p \<noteq> [] \<Longrightarrow> glob p n \<longleftrightarrow> glob (star # dropWhile (\<lambda>c. c = star) p) n"
proof (induction p)
  case (Cons c p)
  show ?case
  proof (cases "p \<noteq> [] \<and> hd p = star")
    case True
    then obtain q where "p = star # q" by (cases p) auto
    with Cons True show ?thesis by (simp only: glob_stars list.sel dropWhile.simps) simp
  next
    case False
    with Cons have "dropWhile (\<lambda>c. c = star) (c # p) = p" by (cases p) auto
    with Cons show ?thesis by (simp only: list.sel)
  qed
qed simp

text \<open>A chunk that fits at the front and again further right is made of the bytes skipped.\<close>

lemma overlap_bytes: "u \<noteq> [] \<Longrightarrow> c @ t = u @ c @ t' \<Longrightarrow> set c \<subseteq> set u"
proof (induction "length c" arbitrary: c rule: less_induct)
  case less
  show ?case
  proof (cases "length c \<le> length u")
    case True
    with less.prems have "c = take (length c) u"
      by (metis append_eq_append_conv_if append_take_drop_id)
    then show ?thesis by (metis set_take_subset)
  next
    case False
    with less.prems obtain c1 where c: "c = u @ c1"
      by (metis append_eq_append_conv_if append_take_drop_id nat_le_linear)
    with less.prems have "c1 @ t = u @ c1 @ t'" by simp
    with less.hyps [of c1] less.prems(1) c show ?thesis by auto
  qed
qed

lemma glob_greedy:
  assumes "star \<notin> set c" and "glob (star # c @ star # q) (c @ t)"
  shows "glob (star # q) t"
proof -
  obtain u s where us: "c @ t = u @ s" "slash \<notin> set u" "glob (c @ star # q) s"
    using assms(2) unfolding glob_star_iff by blast
  with assms(1) obtain t' where s: "s = c @ t'" and t': "glob (star # q) t'"
    by (auto simp: glob_literal simp del: glob.simps)
  with us have eq: "c @ t = u @ c @ t'" by simp
  have "slash \<notin> set (drop (length c) (u @ c))"
  proof (cases "u = []")
    case False
    then have "set c \<subseteq> set u" using overlap_bytes eq by blast
    with us(2) show ?thesis by (auto dest!: in_set_dropD)
  qed simp
  moreover have "t = drop (length c) (u @ c) @ t'"
    using arg_cong [OF eq, of "drop (length c)"] by simp
  ultimately show ?thesis using t' by (metis glob_star_skip)
qed

section \<open>The search decides the meaning\<close>

lemma plain_Cons [simp]:
  "plain (c # p) \<longleftrightarrow> c \<noteq> CHR ''['' \<and> c \<noteq> CHR ''?'' \<and> byte c \<noteq> 92 \<and> plain p"
  by (auto simp: plain_def)

lemma plain_Nil [simp]: "plain []"
  by (simp add: plain_def)

lemma plain_dropWhile: "plain p \<Longrightarrow> plain (dropWhile P p)"
  by (auto simp: plain_def dest: set_dropWhileD)

lemma plain_takeWhile: "plain p \<Longrightarrow> plain (takeWhile P p)"
  by (auto simp: plain_def dest: set_takeWhileD)

lemma match_chunk_literal:
  assumes "c \<noteq> CHR ''[''" "c \<noteq> CHR ''?''" "byte c \<noteq> 92"
  shows "match_chunk f (c # ch) s =
    match_chunk (f \<or> s = [] \<or> c \<noteq> hd s) ch (if f \<or> s = [] then s else tl s)"
  using assms by (simp add: match_chunk.simps [of f "c # ch"] Let_def)

lemma match_chunk_failed: "plain c \<Longrightarrow> match_chunk True c s = NoMatch"
  by (induction c arbitrary: s) (simp_all add: match_chunk_literal, simp add: match_chunk.simps)

lemma match_chunk_plain:
  "plain c \<Longrightarrow> match_chunk False c s = (if has_prefix s c then Matched (drop (length c) s) else NoMatch)"
proof (induction c arbitrary: s)
  case (Cons x c)
  then show ?case
    by (cases s; cases "hd s = x") (auto simp: match_chunk_literal match_chunk_failed)
qed (simp add: match_chunk.simps)

lemma scan_chunk_plain:
  "plain p \<Longrightarrow> scan_chunk False p = (takeWhile (\<lambda>c. c \<noteq> star) p, dropWhile (\<lambda>c. c \<noteq> star) p)"
  by (induction p) auto

lemma check_rest_plain: "plain p \<Longrightarrow> check_rest p = Some False"
proof (induction p rule: check_rest.induct)
  case (1 p)
  then show ?case
    by (auto simp: check_rest.simps [of p] scan_chunk_plain match_chunk_plain plain_dropWhile
        plain_takeWhile)
qed

text \<open>The skipping loop, for a chunk at the end of the pattern or before another star.\<close>

lemma try_skip_plain:
  assumes "plain c" "star \<notin> set c" and rest: "rest = [] \<or> (\<exists>q. rest = star # q)"
  shows "(case try_skip c rest n of Matched t \<Rightarrow> glob rest t | _ \<Rightarrow> False) \<longleftrightarrow>
      (\<exists>d m. n = d # m \<and> d \<noteq> slash \<and> glob (star # c @ rest) m)"
    and "try_skip c rest n \<noteq> BadPattern"
proof (induction n)
  case (Cons d m)
  {
    case 1
    show ?case
    proof (cases "\<exists>t. m = c @ t \<and> (t = [] \<or> rest \<noteq> [])")
      case True
      then obtain t where m: "m = c @ t" "t = [] \<or> rest \<noteq> []" by blast
      have "glob (star # c @ rest) (c @ t) \<longleftrightarrow> glob rest t"
      proof
        assume "glob (star # c @ rest) (c @ t)"
        with m rest show "glob rest t" by (auto intro: glob_greedy [OF assms(2)] simp del: glob.simps(2))
      next
        assume "glob rest t"
        then have "glob (c @ rest) (c @ t)" by (simp add: glob_literal assms(2))
        then show "glob (star # c @ rest) (c @ t)" by simp
      qed
      with m show ?thesis
        by (auto simp: match_chunk_plain assms(1) has_prefix_iff simp del: glob.simps(2))
    next
      case False
      then have "\<not> glob (c @ rest) m"
        using rest by (auto simp: glob_literal assms(2) simp del: glob.simps(2))
      then have "glob (star # c @ rest) m \<longleftrightarrow>
          (\<exists>e l. m = e # l \<and> e \<noteq> slash \<and> glob (star # c @ rest) l)"
        by (cases m) auto
      moreover have "try_skip c rest (d # m) = (if d = slash then NoMatch else try_skip c rest m)"
        using False by (auto simp: match_chunk_plain assms(1) has_prefix_iff)
      ultimately show ?thesis
        using Cons(1) by (simp del: glob.simps(2) try_skip.simps)
    qed
  next
    case 2
    from Cons(2) show ?case by (auto simp: match_chunk_plain assms(1))
  }
qed simp_all

lemma dropWhile_star_rest:
  "dropWhile (\<lambda>c. c \<noteq> star) p = [] \<or> (\<exists>q. dropWhile (\<lambda>c. c \<noteq> star) p = star # q)"
  by (cases "dropWhile (\<lambda>c. c \<noteq> star) p") (auto simp: dropWhile_eq_Cons_conv)

lemma glob_star_only: "glob [star] n \<longleftrightarrow> slash \<notin> set n"
  by (auto simp: glob_star_iff simp del: glob.simps(2))

text \<open>The first chunk of a pattern, after its stars, and what follows it.\<close>

definition chunk_of :: "string \<Rightarrow> string" where
  "chunk_of p = takeWhile (\<lambda>c. c \<noteq> star) (dropWhile (\<lambda>c. c = star) p)"

definition after_chunk :: "string \<Rightarrow> string" where
  "after_chunk p = dropWhile (\<lambda>c. c \<noteq> star) (dropWhile (\<lambda>c. c = star) p)"

lemma chunk_split: "dropWhile (\<lambda>c. c = star) p = chunk_of p @ after_chunk p"
  by (simp add: chunk_of_def after_chunk_def)

lemma chunk_facts:
  "star \<notin> set (chunk_of p)" "after_chunk p = [] \<or> (\<exists>q. after_chunk p = star # q)"
  "plain p \<Longrightarrow> plain (chunk_of p) \<and> plain (after_chunk p)"
  "plain p \<Longrightarrow> scan_chunk False (dropWhile (\<lambda>c. c = star) p) = (chunk_of p, after_chunk p)"
proof -
  show "star \<notin> set (chunk_of p)"
    by (auto simp: chunk_of_def dest: set_takeWhileD)
  show "after_chunk p = [] \<or> (\<exists>q. after_chunk p = star # q)"
    unfolding after_chunk_def by (rule dropWhile_star_rest)
  show "plain (chunk_of p) \<and> plain (after_chunk p)" if "plain p"
    using that by (simp add: chunk_of_def after_chunk_def plain_dropWhile plain_takeWhile)
  show "scan_chunk False (dropWhile (\<lambda>c. c = star) p) = (chunk_of p, after_chunk p)" if "plain p"
    using that by (simp add: scan_chunk_plain plain_dropWhile chunk_of_def after_chunk_def)
qed

lemma starred_chunk:
  assumes "p \<noteq> []" "hd p = star"
  shows "glob p n = glob (star # chunk_of p @ after_chunk p) n" "length (after_chunk p) < length p"
proof -
  show "glob p n = glob (star # chunk_of p @ after_chunk p) n"
    using glob_drop_stars [OF assms(2,1), of n] by (simp only: chunk_split)
  have "length (dropWhile (\<lambda>c. c = star) p) < length p"
    using assms by (cases p) (simp_all add: length_dropWhile_le le_imp_less_Suc)
  then show "length (after_chunk p) < length p"
    by (simp add: chunk_split)
qed

lemma unstarred_chunk:
  assumes "p \<noteq> []" "hd p \<noteq> star"
  shows "chunk_of p @ after_chunk p = p" "chunk_of p \<noteq> []" "length (after_chunk p) < length p"
proof -
  show split: "chunk_of p @ after_chunk p = p" and ne: "chunk_of p \<noteq> []"
    using assms by (cases p; simp add: chunk_of_def after_chunk_def)+
  show "length (after_chunk p) < length p"
    using arg_cong [OF split, of length] ne by (cases "chunk_of p") simp_all
qed

text \<open>The chunk fits in front: then the rest decides, also for a pattern that begins with a star, because the
  leftmost match of a chunk is as good as any.\<close>

lemma chunk_fits:
  assumes "p \<noteq> []" "t = [] \<or> after_chunk p \<noteq> []"
  shows "glob p (chunk_of p @ t) \<longleftrightarrow> glob (after_chunk p) t"
proof (cases "hd p = star")
  case True
  have "glob (after_chunk p) t \<Longrightarrow> glob (star # chunk_of p @ after_chunk p) (chunk_of p @ t)"
    using glob_literal [OF chunk_facts(1) [of p]] glob_star_iff by fastforce
  moreover have "glob (star # chunk_of p @ after_chunk p) (chunk_of p @ t) \<Longrightarrow> glob (after_chunk p) t"
    using assms(2) chunk_facts(2) [of p] glob_greedy [OF chunk_facts(1) [of p]]
    by (cases "after_chunk p = []") (auto simp del: glob.simps(2))
  ultimately show ?thesis
    using starred_chunk(1) [OF assms(1) True] by blast
next
  case False
  then show ?thesis
    using unstarred_chunk(1) [OF assms(1) False] by (metis chunk_facts(1) glob_literal same_append_eq)
qed

lemma path_match_plain: "plain p \<Longrightarrow> path_match p n = Some (glob p n)"
proof (induction "length p" arbitrary: p n rule: less_induct)
  case less
  show ?case
  proof (cases "p = []")
    case True
    then show ?thesis by (simp add: path_match.simps)
  next
    case ne: False
    let ?chunk = "chunk_of p" and ?rest = "after_chunk p"
    note pl = conjunct1 [OF chunk_facts(3) [OF less.prems]] conjunct2 [OF chunk_facts(3) [OF less.prems]]
    note scan = chunk_facts(4) [OF less.prems] and starred = starred_chunk [OF ne] and unstarred = unstarred_chunk [OF ne]
    have shorter: "length ?rest < length p"
      using starred(2) unstarred(3) by blast
    have IH: "path_match ?rest t = Some (glob ?rest t)" for t
      using less.hyps [OF shorter pl(2)] .
    have here: "match_chunk False ?chunk n = (if has_prefix n ?chunk then Matched (drop (length ?chunk) n) else NoMatch)"
      by (rule match_chunk_plain [OF pl(1)])
    consider (stars) "?chunk = []"
      | (fits) t where "?chunk \<noteq> []" "n = ?chunk @ t" "t = [] \<or> ?rest \<noteq> []"
      | (skip) "?chunk \<noteq> []" "\<nexists>t. n = ?chunk @ t \<and> (t = [] \<or> ?rest \<noteq> [])"
      by blast
    then show ?thesis
    proof cases
      case stars
      then have hd: "hd p = star" using unstarred(2) by blast
      have "?rest = []"
        using stars chunk_split [of p] chunk_facts(2) [of p] hd_dropWhile [of "\<lambda>c. c = star" p] by auto
      with stars hd starred(1) ne scan show ?thesis
        by (simp add: path_match.simps [of p n] glob_star_only del: glob.simps(2))
    next
      case fits
      then have "path_match p n = path_match ?rest t"
        unfolding path_match.simps [of p n] using ne scan here shorter
        by (auto simp: has_prefix_iff Let_def)
      then show ?thesis
        using IH chunk_fits [OF ne fits(3)] fits(2) by simp
    next
      case skip
      then have no: "\<not> glob (?chunk @ ?rest) n"
        using chunk_facts(2) [of p] by (auto simp: glob_literal [OF chunk_facts(1)] simp del: glob.simps(2))
      show ?thesis
      proof (cases "hd p = star")
        case True
        have "path_match p n = (case try_skip ?chunk ?rest n of Matched t \<Rightarrow> path_match ?rest t
            | NoMatch \<Rightarrow> check_rest ?rest | BadPattern \<Rightarrow> None)"
          unfolding path_match.simps [of p n] using ne scan skip shorter here True
          by (auto simp: has_prefix_iff Let_def split: chunk_result.split)
        moreover have "glob p n \<longleftrightarrow> (\<exists>d m. n = d # m \<and> d \<noteq> slash \<and> glob (star # ?chunk @ ?rest) m)"
          using no starred(1) [OF True] by (cases n) auto
        ultimately show ?thesis
          using try_skip_plain [OF pl(1) chunk_facts(1) chunk_facts(2) [of p], of n] IH skip(1) check_rest_plain [OF pl(2)]
          by (cases "try_skip ?chunk ?rest n") simp_all
      next
        case False
        then show ?thesis
          unfolding path_match.simps [of p n]
          using ne scan here no unstarred(1) chunk_split [of p] check_rest_plain [OF pl(2)] skip
          by (auto simp: has_prefix_iff Let_def)
      qed
    qed
  qed
qed

end
