(* ===== verification/Json.thy ===== *)
theory Json
  imports Text
begin

text \<open>
  The part of Go's \<open>encoding/json\<close> that the program uses: JSON values, the reader of
  \<open>json.Unmarshal\<close> (grammar, string unquoting with UTF-8 repair, nesting limit), and
  the way the members of an object are stored
  into the fields of a struct (case-insensitive names, \<open>null\<close> ignored, the last of several
  wins, a wrong type is an error).  An integer literal is a \<open>JInt\<close>; a numeral with a fraction
  or an exponent keeps its text in \<open>JReal\<close>.
\<close>

datatype json = JNull | JBool bool | JInt int | JReal string | JStr string
  | JArr "json list" | JObj "(string \<times> json) list"

abbreviation dquote :: char where "dquote \<equiv> CHR 0x22"
abbreviation backslash :: char where "backslash \<equiv> CHR 0x5C"

section \<open>Reading\<close>

fun skip_ws :: "string \<Rightarrow> string" where
  "skip_ws [] = []"
| "skip_ws (c # r) = (if byte c \<in> {32, 9, 10, 13} then skip_ws r else c # r)"

definition hex_val :: "char \<Rightarrow> nat option" where
  "hex_val c = (let n = byte c in
     if 48 \<le> n \<and> n \<le> 57 then Some (n - 48)
     else if 97 \<le> n \<and> n \<le> 102 then Some (n - 87)
     else if 65 \<le> n \<and> n \<le> 70 then Some (n - 55)
     else None)"

text \<open>\<open>getu4\<close>: the four hexadecimal digits of an escape.\<close>

definition hex4 :: "string \<Rightarrow> nat option" where
  "hex4 s = (case map hex_val (take 4 s) of
     [Some a, Some b, Some c, Some d] \<Rightarrow> Some (((a * 16 + b) * 16 + c) * 16 + d)
   | _ \<Rightarrow> None)"

definition simple_escape :: "char \<Rightarrow> char option" where
  "simple_escape c =
     map_of [(dquote, dquote), (backslash, backslash), (CHR ''/'', CHR ''/''),
             (CHR ''b'', chr 8), (CHR ''f'', chr 12), (CHR ''n'', chr 10), (CHR ''r'', chr 13),
             (CHR ''t'', chr 9)] c"

text \<open>The body of a string after its opening quote: the unquoted bytes and the input after the
  closing quote.  A surrogate escape without its partner is the replacement rune.\<close>

function lex_string :: "string \<Rightarrow> (string \<times> string) option" where
  "lex_string s = (case s of
     [] \<Rightarrow> None
   | c # r \<Rightarrow>
       if c = dquote then Some ([], r)
       else if c = backslash then
         (case r of
            [] \<Rightarrow> None
          | e # r1 \<Rightarrow>
             if e = CHR ''u'' then
               (case hex4 r1 of
                  None \<Rightarrow> None
                | Some u \<Rightarrow>
                    let r2 = drop 4 r1;
                        low = (if take 2 r2 = [backslash, CHR ''u''] then hex4 (drop 2 r2) else None)
                    in if 55296 \<le> u \<and> u \<le> 56319 \<and> (\<exists>l \<in> set_option low. 56320 \<le> l \<and> l \<le> 57343) then
                         (case lex_string (drop 6 r2) of None \<Rightarrow> None
                          | Some (v, r3) \<Rightarrow>
                              Some (encode_rune (65536 + (u - 55296) * 1024 + (the low - 56320)) @ v, r3))
                       else (case lex_string r2 of None \<Rightarrow> None
                             | Some (v, r3) \<Rightarrow> Some (encode_rune u @ v, r3)))
             else (case simple_escape e of
                     None \<Rightarrow> None
                   | Some x \<Rightarrow> (case lex_string r1 of None \<Rightarrow> None
                                | Some (v, r3) \<Rightarrow> Some (x # v, r3))))
       else if byte c < 32 then None
       else if byte c < 128 then
         (case lex_string r of None \<Rightarrow> None | Some (v, r3) \<Rightarrow> Some (c # v, r3))
       else (case decode_rune s of (u, n) \<Rightarrow>
         (case lex_string (drop (max 1 n) s) of None \<Rightarrow> None
          | Some (v, r3) \<Rightarrow> Some (encode_rune u @ v, r3))))"
  by pat_completeness auto
termination
  by (relation "measure length") auto

declare lex_string.simps [simp del]

definition is_digit :: "char \<Rightarrow> bool" where
  "is_digit c \<longleftrightarrow> 48 \<le> byte c \<and> byte c \<le> 57"

definition digits_val :: "string \<Rightarrow> int" where
  "digits_val ds = foldl (\<lambda>n c. n * 10 + (int (byte c) - 48)) 0 ds"

text \<open>A numeral: sign, integer part without leading zeros, fraction, exponent.\<close>

definition lex_number :: "string \<Rightarrow> (json \<times> string) option" where
  "lex_number s =
     (let neg = (s \<noteq> [] \<and> hd s = CHR ''-'');
          s1 = (if neg then tl s else s);
          ip = (if s1 \<noteq> [] \<and> hd s1 = CHR ''0'' then ''0'' else takeWhile is_digit s1);
          s2 = drop (length ip) s1;
          fp = (if s2 \<noteq> [] \<and> hd s2 = CHR ''.'' then takeWhile is_digit (tl s2) else []);
          s3 = (if s2 \<noteq> [] \<and> hd s2 = CHR ''.'' then drop (length fp) (tl s2) else s2);
          ex = (s3 \<noteq> [] \<and> hd s3 \<in> {CHR ''e'', CHR ''E''});
          s4 = (if ex then (if tl s3 \<noteq> [] \<and> hd (tl s3) \<in> {CHR ''+'', CHR ''-''} then tl (tl s3) else tl s3)
                else s3);
          ep = (if ex then takeWhile is_digit s4 else []);
          s5 = (if ex then drop (length ep) s4 else s3)
      in if ip = [] \<or> s2 \<noteq> [] \<and> hd s2 = CHR ''.'' \<and> fp = [] \<or> ex \<and> ep = [] then None
         else if s5 = s2 then Some (JInt (if neg then - digits_val ip else digits_val ip), s5)
         else Some (JReal (take (length s - length s5) s), s5))"

text \<open>A value, the elements of an array after its bracket, the members of an object after its
  brace; \<open>d\<close> is the nesting still allowed.  The comparisons of lengths always hold: they
  give the recursion its measure.\<close>

function (sequential) json_value :: "nat \<Rightarrow> string \<Rightarrow> (json \<times> string) option"
  and json_elems :: "nat \<Rightarrow> string \<Rightarrow> (json list \<times> string) option"
  and json_members :: "nat \<Rightarrow> string \<Rightarrow> ((string \<times> json) list \<times> string) option" where
  "json_value d s = (case skip_ws s of
     [] \<Rightarrow> None
   | c # r \<Rightarrow>
       if length s < length (c # r) then None
       else if c = CHR ''{'' then
         (if d = 0 then None
          else if skip_ws r \<noteq> [] \<and> hd (skip_ws r) = CHR ''}'' then Some (JObj [], tl (skip_ws r))
          else map_option (\<lambda>(ms, r'). (JObj ms, r')) (json_members (d - 1) r))
       else if c = CHR ''['' then
         (if d = 0 then None
          else if skip_ws r \<noteq> [] \<and> hd (skip_ws r) = CHR '']'' then Some (JArr [], tl (skip_ws r))
          else map_option (\<lambda>(vs, r'). (JArr vs, r')) (json_elems (d - 1) r))
       else if c = dquote then map_option (\<lambda>(v, r'). (JStr v, r')) (lex_string r)
       else if has_prefix (c # r) ''true'' then Some (JBool True, drop 3 r)
       else if has_prefix (c # r) ''false'' then Some (JBool False, drop 4 r)
       else if has_prefix (c # r) ''null'' then Some (JNull, drop 3 r)
       else lex_number (c # r))"
| "json_elems d s = (case json_value d s of
     None \<Rightarrow> None
   | Some (v, r) \<Rightarrow> (case skip_ws r of
       [] \<Rightarrow> None
     | c # r1 \<Rightarrow>
         if c = CHR '']'' then Some ([v], r1)
         else if c = CHR '','' \<and> length r1 < length s then
           map_option (\<lambda>(vs, r'). (v # vs, r')) (json_elems d r1)
         else None))"
| "json_members d s = (case skip_ws s of
     [] \<Rightarrow> None
   | c # r \<Rightarrow>
       if c \<noteq> dquote then None
       else (case lex_string r of
         None \<Rightarrow> None
       | Some (k, r1) \<Rightarrow> (case skip_ws r1 of
           [] \<Rightarrow> None
         | c2 # r2 \<Rightarrow>
             if c2 \<noteq> CHR '':'' \<or> \<not> length r2 < length s then None
             else (case json_value d r2 of
               None \<Rightarrow> None
             | Some (v, r3) \<Rightarrow> (case skip_ws r3 of
                 [] \<Rightarrow> None
               | c4 # r4 \<Rightarrow>
                   if c4 = CHR ''}'' then Some ([(k, v)], r4)
                   else if c4 = CHR '','' \<and> length r4 < length s then
                     map_option (\<lambda>(ms, r'). ((k, v) # ms, r')) (json_members d r4)
                   else None)))))"
  by pat_completeness auto
termination
  by (relation "measure (\<lambda>x. case x of Inl (d, s) \<Rightarrow> 2 * length s
      | Inr (Inl (d, s)) \<Rightarrow> 2 * length s + 1 | Inr (Inr (d, s)) \<Rightarrow> 2 * length s + 1)") auto

declare json_value.simps [simp del] json_elems.simps [simp del] json_members.simps [simp del]

definition max_nesting :: nat where "max_nesting = 10000"

text \<open>\<open>json.Unmarshal\<close> of a whole document.\<close>

definition json_parse :: "string \<Rightarrow> json option" where
  "json_parse s = (case json_value max_nesting s of
     None \<Rightarrow> None
   | Some (v, r) \<Rightarrow> if skip_ws r = [] then Some v else None)"

section \<open>Storing an object into a struct\<close>

text \<open>Names of members and tags are compared after case folding: the ASCII letters, the Kelvin
  sign (which folds to K) and the long s (which folds to S).  No other rune folds to ASCII, and
  every tag of the program is ASCII.\<close>

definition upper_byte :: "char \<Rightarrow> char" where
  "upper_byte c = (if 97 \<le> byte c \<and> byte c \<le> 122 then chr (byte c - 32) else c)"

function fold_key :: "string \<Rightarrow> string" where
  "fold_key s = (case s of
     [] \<Rightarrow> []
   | c # r \<Rightarrow>
       if map byte (take 3 s) = [226, 132, 170] then CHR ''K'' # fold_key (drop 3 s)
       else if map byte (take 2 s) = [197, 191] then CHR ''S'' # fold_key (drop 2 s)
       else upper_byte c # fold_key r)"
  by pat_completeness auto
termination
  by (relation "measure length") auto

declare fold_key.simps [simp del]

definition json_get :: "string \<Rightarrow> (string \<times> json) list \<Rightarrow> json list" where
  "json_get tag ms = map snd (filter (\<lambda>(k, v). fold_key k = fold_key tag) ms)"

text \<open>The members of a document stored into a struct: \<open>null\<close> stores nothing.\<close>

fun json_struct :: "json \<Rightarrow> (string \<times> json) list option" where
  "json_struct (JObj ms) = Some ms"
| "json_struct JNull = Some []"
| "json_struct _ = None"

text \<open>Fields by type, \<^term>\<open>None\<close> being an \<open>UnmarshalTypeError\<close>.  The accumulator is the
  field's value so far, at first its zero value.\<close>

fun store_str :: "string \<Rightarrow> json list \<Rightarrow> string option" where
  "store_str x [] = Some x"
| "store_str x (JStr s # vs) = store_str s vs"
| "store_str x (JNull # vs) = store_str x vs"
| "store_str x (_ # vs) = None"

fun store_int :: "int \<Rightarrow> json list \<Rightarrow> int option" where
  "store_int x [] = Some x"
| "store_int x (JInt i # vs) =
     (if - (2 ^ 63) \<le> i \<and> i < 2 ^ 63 then store_int i vs else None)"
| "store_int x (JNull # vs) = store_int x vs"
| "store_int x (_ # vs) = None"

fun store_bool :: "bool \<Rightarrow> json list \<Rightarrow> bool option" where
  "store_bool x [] = Some x"
| "store_bool x (JBool b # vs) = store_bool b vs"
| "store_bool x (JNull # vs) = store_bool x vs"
| "store_bool x (_ # vs) = None"

fun json_strings :: "json list \<Rightarrow> string list option" where
  "json_strings [] = Some []"
| "json_strings (JStr s # vs) = map_option ((#) s) (json_strings vs)"
| "json_strings (JNull # vs) = map_option ((#) []) (json_strings vs)"
| "json_strings (_ # vs) = None"

fun store_strs :: "string list \<Rightarrow> json list \<Rightarrow> string list option" where
  "store_strs x [] = Some x"
| "store_strs x (JArr es # vs) =
     (case json_strings es of None \<Rightarrow> None | Some ss \<Rightarrow> store_strs ss vs)"
| "store_strs x (JNull # vs) = store_strs [] vs"
| "store_strs x (_ # vs) = None"

definition str_field :: "string \<Rightarrow> (string \<times> json) list \<Rightarrow> string option" where
  "str_field tag ms = store_str [] (json_get tag ms)"

definition int_field :: "string \<Rightarrow> (string \<times> json) list \<Rightarrow> int option" where
  "int_field tag ms = store_int 0 (json_get tag ms)"

definition bool_field :: "string \<Rightarrow> (string \<times> json) list \<Rightarrow> bool option" where
  "bool_field tag ms = store_bool False (json_get tag ms)"

definition strs_field :: "string \<Rightarrow> (string \<times> json) list \<Rightarrow> string list option" where
  "strs_field tag ms = store_strs [] (json_get tag ms)"

text \<open>A field that is a struct, and one that is a pointer to a struct: \<open>null\<close> leaves the struct as
  it is and resets the pointer.\<close>

fun struct_members :: "(string \<times> json) list \<Rightarrow> json list \<Rightarrow> (string \<times> json) list option" where
  "struct_members acc [] = Some acc"
| "struct_members acc (JObj ms # vs) = struct_members (acc @ ms) vs"
| "struct_members acc (JNull # vs) = struct_members acc vs"
| "struct_members acc (_ # vs) = None"

fun ptr_members :: "(string \<times> json) list option \<Rightarrow> json list \<Rightarrow> (string \<times> json) list option option" where
  "ptr_members acc [] = Some acc"
| "ptr_members acc (JObj ms # vs) = ptr_members (Some (case acc of None \<Rightarrow> ms | Some a \<Rightarrow> a @ ms)) vs"
| "ptr_members acc (JNull # vs) = ptr_members None vs"
| "ptr_members acc (_ # vs) = None"

definition ptr_field :: "string \<Rightarrow> ((string \<times> json) list \<Rightarrow> 'a option) \<Rightarrow> (string \<times> json) list \<Rightarrow> 'a option option" where
  "ptr_field tag dec ms = (case ptr_members None (json_get tag ms) of
     None \<Rightarrow> None
   | Some None \<Rightarrow> Some None
   | Some (Some inner) \<Rightarrow> map_option Some (dec inner))"

text \<open>A \<open>json.RawMessage\<close> keeps the value as it is, \<open>null\<close> included.\<close>

definition raw_field :: "string \<Rightarrow> (string \<times> json) list \<Rightarrow> json option" where
  "raw_field tag ms = (case rev (json_get tag ms) of [] \<Rightarrow> None | v # _ \<Rightarrow> Some v)"

text \<open>\<open>omitempty\<close> on a string field.\<close>

definition omit_empty :: "string \<Rightarrow> string \<Rightarrow> (string \<times> json) list" where
  "omit_empty tag s = (if s = [] then [] else [(tag, JStr s)])"

lemma json_strings_map [simp]: "json_strings (map JStr ss) = Some ss"
  by (induction ss) auto

lemma json_get_Nil [simp]: "json_get tag [] = []"
  by (simp add: json_get_def)

lemma json_get_Cons [simp]:
  "json_get tag ((k, v) # ms) = (if fold_key k = fold_key tag then v # json_get tag ms else json_get tag ms)"
  by (simp add: json_get_def)

lemma json_get_append [simp]: "json_get tag (xs @ ys) = json_get tag xs @ json_get tag ys"
  by (simp add: json_get_def)

lemma json_get_omit_empty [simp]:
  "json_get tag (omit_empty k s) = (if s \<noteq> [] \<and> fold_key k = fold_key tag then [JStr s] else [])"
  by (simp add: omit_empty_def)

lemmas json_field_defs = str_field_def int_field_def bool_field_def strs_field_def raw_field_def

text \<open>Folding the closed tags of the program.\<close>

lemma fold_key_Nil [simp]: "fold_key [] = []"
  by (simp add: fold_key.simps)

lemma fold_key_ascii [simp]: "byte c < 128 \<Longrightarrow> fold_key (c # s) = upper_byte c # fold_key s"
  by (subst fold_key.simps) (simp add: take_Cons')

lemma fold_key_tags [simp]:
  "fold_key ''kty'' = ''KTY''"
  "fold_key ''crv'' = ''CRV''"
  "fold_key ''x'' = ''X''"
  "fold_key ''y'' = ''Y''"
  "fold_key ''kid'' = ''KID''"
  "fold_key ''alg'' = ''ALG''"
  "fold_key ''iss'' = ''ISS''"
  "fold_key ''sub'' = ''SUB''"
  "fold_key ''jti'' = ''JTI''"
  "fold_key ''role'' = ''ROLE''"
  "fold_key ''chain_depth'' = ''CHAIN_DEPTH''"
  "fold_key ''agent_mission'' = ''AGENT_MISSION''"
  "fold_key ''chain_hash'' = ''CHAIN_HASH''"
  "fold_key ''tth'' = ''TTH''"
  "fold_key ''agent_svid'' = ''AGENT_SVID''"
  "fold_key ''target'' = ''TARGET''"
  "fold_key ''action'' = ''ACTION''"
  "fold_key ''scope'' = ''SCOPE''"
  "fold_key ''justification'' = ''JUSTIFICATION''"
  "fold_key ''tier'' = ''TIER''"
  "fold_key ''approved'' = ''APPROVED''"
  "fold_key ''request_id'' = ''REQUEST_ID''"
  "fold_key ''approver_id'' = ''APPROVER_ID''"
  "fold_key ''cnf'' = ''CNF''"
  "fold_key ''jkt'' = ''JKT''"
  "fold_key ''htm'' = ''HTM''"
  "fold_key ''htu'' = ''HTU''"
  "fold_key ''ath'' = ''ATH''"
  "fold_key ''act'' = ''ACT''"
  "fold_key ''email'' = ''EMAIL''"
  "fold_key ''_sd'' = ''_SD''"
  "fold_key ''_sd_alg'' = ''_SD_ALG''"
  "fold_key ''txn'' = ''TXN''"
  "fold_key ''rctx'' = ''RCTX''"
  "fold_key ''azd'' = ''AZD''"
  "fold_key ''req_ip'' = ''REQ_IP''"
  "fold_key ''req_wl'' = ''REQ_WL''"
  "fold_key ''type'' = ''TYPE''"
  "fold_key ''claims'' = ''CLAIMS''"
  "fold_key ''events'' = ''EVENTS''"
  "fold_key ''subject'' = ''SUBJECT''"
  "fold_key ''format'' = ''FORMAT''"
  "fold_key ''uri'' = ''URI''"
  "fold_key ''reason'' = ''REASON''"
  "fold_key ''iat'' = ''IAT''"
  "fold_key ''exp'' = ''EXP''"
  "fold_key ''jwks'' = ''JWKS''"
  "fold_key ''keys'' = ''KEYS''"
  "fold_key ''metadata'' = ''METADATA''"
  "fold_key ''authority_hints'' = ''AUTHORITY_HINTS''"
  "fold_key ''agent_idp'' = ''AGENT_IDP''"
  "fold_key ''issuer'' = ''ISSUER''"
  "fold_key ''jwks_uri'' = ''JWKS_URI''"
  "fold_key ''token_endpoint'' = ''TOKEN_ENDPOINT''"
  "fold_key ''federation_entity'' = ''FEDERATION_ENTITY''"
  "fold_key ''federation_fetch_endpoint'' = ''FEDERATION_FETCH_ENDPOINT''"
  "fold_key ''organization_name'' = ''ORGANIZATION_NAME''"
  "fold_key ''jwk'' = ''JWK''"
  "fold_key ''typ'' = ''TYP''"
  "fold_key ''trust_domain'' = ''TRUST_DOMAIN''"
  by (simp_all add: upper_byte_def char_simps)

end
