(* ===== verification/Keys.thy ===== *)
theory Keys
  imports Json
begin

text \<open>
  Package \<open>pkg/keys\<close>, file \<open>ec.go\<close>: EC keys and their JWK form.  A coordinate is a natural
  number (every key the program builds comes from \<open>ecdsa.GenerateKey\<close> or from
  \<open>big.Int.SetBytes\<close>); the curve test is the one of \<open>elliptic.P256().IsOnCurve\<close>.
  A key that survives \<open>JWKToPublicKey\<close> lies on the curve, and a P-256 key on the curve
  survives the way to a JWK, to JSON and back.
\<close>

datatype curve = P224 | P256 | P384 | P521

record ec_public =
  ec_Curve :: curve
  ec_X :: nat
  ec_Y :: nat

record ec_private =
  ec_Public :: ec_public
  ec_D :: nat

record JWK =
  jwk_Kty :: string
  jwk_Crv :: string
  jwk_X :: string
  jwk_Y :: string
  jwk_Kid :: string
  jwk_Alg :: string

datatype key_error = NilPublicKey | OnlyP256Supported | UnsupportedKeyType string string
  | DecodeX | DecodeY | NotOnCurve | GenerateECKey string

text \<open>A key pair; the draw is what \<open>ecdsa.GenerateKey\<close> returned.\<close>

record ECKeyPair =
  kp_Private :: ec_private
  kp_Public :: ec_public

definition GenerateECKeyPair :: "string + ec_private \<Rightarrow> key_error + ECKeyPair" where
  "GenerateECKeyPair draw = (case draw of
     Inl e \<Rightarrow> Inl (GenerateECKey e)
   | Inr priv \<Rightarrow> Inr \<lparr>kp_Private = priv, kp_Public = ec_Public priv\<rparr>)"

lemma GenerateECKeyPair_ok [ok_simps]:
  "GenerateECKeyPair draw = Inr kp \<longleftrightarrow> (\<exists>priv. draw = Inr priv \<and> kp = \<lparr>kp_Private = priv, kp_Public = ec_Public priv\<rparr>)"
  by (auto simp: GenerateECKeyPair_def split: sum.splits)

section \<open>The curve\<close>

definition p256_p :: nat where
  "p256_p = 0xffffffff00000001000000000000000000000000ffffffffffffffffffffffff"

definition p256_b :: nat where
  "p256_b = 0x5ac635d8aa3a93e7b3ebbd55769886bc651d06b0cc53b0f63bce3c3e27d2604b"

text \<open>\<open>IsOnCurve\<close> rejects coordinates that are not reduced, and the pair (0, 0); the equation
  is \<open>y^2 = x^3 - 3x + b\<close>.\<close>

definition p256_on_curve :: "nat \<Rightarrow> nat \<Rightarrow> bool" where
  "p256_on_curve x y \<longleftrightarrow> x < p256_p \<and> y < p256_p \<and> (x, y) \<noteq> (0, 0)
     \<and> (y * y + 3 * x) mod p256_p = (x * x * x + p256_b) mod p256_p"

section \<open>JWKs\<close>

definition encodeCoord :: "nat \<Rightarrow> string" where
  "encodeCoord n =
     (let b = big_bytes n
      in b64_encode (if length b < 32 then replicate (32 - length b) (chr 0) @ b else b))"

definition PublicKeyToJWK :: "ec_public option \<Rightarrow> string \<Rightarrow> key_error + JWK" where
  "PublicKeyToJWK pub kid = (case pub of
     None \<Rightarrow> Inl NilPublicKey
   | Some p \<Rightarrow>
       if ec_Curve p \<noteq> P256 then Inl OnlyP256Supported
       else Inr \<lparr>jwk_Kty = ''EC'', jwk_Crv = ''P-256'', jwk_X = encodeCoord (ec_X p),
                 jwk_Y = encodeCoord (ec_Y p), jwk_Kid = kid, jwk_Alg = ''ES256''\<rparr>)"

definition JWKToPublicKey :: "JWK \<Rightarrow> key_error + ec_public" where
  "JWKToPublicKey jwk =
     (if jwk_Kty jwk \<noteq> ''EC'' \<or> jwk_Crv jwk \<noteq> ''P-256''
      then Inl (UnsupportedKeyType (jwk_Kty jwk) (jwk_Crv jwk))
      else (case b64_decode (jwk_X jwk) of
        None \<Rightarrow> Inl DecodeX
      | Some xBytes \<Rightarrow> (case b64_decode (jwk_Y jwk) of
          None \<Rightarrow> Inl DecodeY
        | Some yBytes \<Rightarrow>
            let x = set_bytes xBytes; y = set_bytes yBytes
            in if p256_on_curve x y then Inr \<lparr>ec_Curve = P256, ec_X = x, ec_Y = y\<rparr>
               else Inl NotOnCurve)))"

text \<open>\<open>json.Marshal(jwk)\<close> and \<open>json.Unmarshal(raw, &jwk)\<close> (also \<open>JWKFromRawMessage\<close>) on the
  struct tags of \<open>JWK\<close>; \<^term>\<open>None\<close> is an unmarshal error.\<close>

definition jwk_to_json :: "JWK \<Rightarrow> json" where
  "jwk_to_json j = JObj ([(''kty'', JStr (jwk_Kty j)), (''crv'', JStr (jwk_Crv j)),
     (''x'', JStr (jwk_X j)), (''y'', JStr (jwk_Y j))] @ omit_empty ''kid'' (jwk_Kid j)
     @ [(''alg'', JStr (jwk_Alg j))])"

definition JWKFromRawMessage :: "json \<Rightarrow> JWK option" where
  "JWKFromRawMessage v = do {
     ms \<leftarrow> json_struct v;
     kty \<leftarrow> str_field ''kty'' ms;
     crv \<leftarrow> str_field ''crv'' ms;
     x \<leftarrow> str_field ''x'' ms;
     y \<leftarrow> str_field ''y'' ms;
     kid \<leftarrow> str_field ''kid'' ms;
     alg \<leftarrow> str_field ''alg'' ms;
     Some \<lparr>jwk_Kty = kty, jwk_Crv = crv, jwk_X = x, jwk_Y = y, jwk_Kid = kid, jwk_Alg = alg\<rparr>}"

section \<open>Correctness\<close>

definition p256_key :: "ec_public \<Rightarrow> bool" where
  "p256_key k \<longleftrightarrow> ec_Curve k = P256 \<and> p256_on_curve (ec_X k) (ec_Y k)"

lemma decode_encodeCoord:
  "\<exists>b. b64_decode (encodeCoord n) = Some b \<and> set_bytes b = n"
  by (simp add: encodeCoord_def Let_def)

lemma p256_p_bound: "p256_p < 256 ^ 32"
  by (simp add: p256_p_def)

text \<open>Every coordinate of a key on the curve is written with 32 bytes, 43 digits.\<close>

lemma length_b64_encode: "length (b64_encode s) = (4 * length s + 2) div 3"
  by (induction s rule: b64_encode.induct) auto

lemma length_encodeCoord: "n < 256 ^ 32 \<Longrightarrow> length (encodeCoord n) = 43"
  using length_big_bytes [of n 32] by (auto simp: encodeCoord_def length_b64_encode Let_def)

lemma PublicKeyToJWK_ok [ok_simps]:
  "PublicKeyToJWK pub kid = Inr j \<longleftrightarrow> (\<exists>p. pub = Some p \<and> ec_Curve p = P256 \<and>
     j = \<lparr>jwk_Kty = ''EC'', jwk_Crv = ''P-256'', jwk_X = encodeCoord (ec_X p),
          jwk_Y = encodeCoord (ec_Y p), jwk_Kid = kid, jwk_Alg = ''ES256''\<rparr>)"
  by (auto simp: PublicKeyToJWK_def split: option.splits)

lemma JWKToPublicKey_ok:
  "JWKToPublicKey j = Inr p \<Longrightarrow> p256_key p"
  by (auto simp: JWKToPublicKey_def p256_key_def Let_def split: if_splits option.splits)

lemma JWKToPublicKey_of_key:
  assumes "PublicKeyToJWK (Some p) kid = Inr j" and "p256_key p"
  shows "JWKToPublicKey j = Inr p"
  using assms decode_encodeCoord [of "ec_X p"] decode_encodeCoord [of "ec_Y p"]
  by (auto simp: ok_simps JWKToPublicKey_def p256_key_def)

lemma JWKFromRawMessage_to_json [simp]: "JWKFromRawMessage (jwk_to_json j) = Some j"
  by (cases j) (simp add: JWKFromRawMessage_def jwk_to_json_def json_field_defs)

section \<open>Two keys on the curve\<close>

text \<open>The points with the two smallest first coordinates, for closed instances of theorems about
  keys; the private scalars are not modelled here, and are placeholders.\<close>

definition key_one :: ec_private where
  "key_one = \<lparr>ec_Public = \<lparr>ec_Curve = P256, ec_X = 0,
     ec_Y = 0x66485c780e2f83d72433bd5d84a06bb6541c2af31dae871728bf856a174f93f4\<rparr>, ec_D = 1\<rparr>"

definition key_two :: ec_private where
  "key_two = \<lparr>ec_Public = \<lparr>ec_Curve = P256, ec_X = 5,
     ec_Y = 0x459243b9aa581806fe913bce99817ade11ca503c64d9a3c533415c083248fbcc\<rparr>, ec_D = 2\<rparr>"

lemma on_curveI:
  assumes "x < p256_p" "y < p256_p" "0 < y" "y * y + 3 * x = x * x * x + p256_b + k * p256_p"
  shows "p256_on_curve x y"
  unfolding p256_on_curve_def assms(4) using assms(1-3) by simp

lemma p256_key_one [simp]: "p256_key (ec_Public key_one)"
  unfolding p256_key_def key_one_def
  by (simp, rule on_curveI [where k = "0x28ddbe23f91a186cde31693e44d9577376ba56e1c52cb3f335f4c8dba9b83fbb"]) (simp_all add: p256_p_def p256_b_def)

lemma p256_key_two [simp]: "p256_key (ec_Public key_two)"
  unfolding p256_key_def key_two_def
  by (simp, rule on_curveI [where k = "0x12e82c137a6cab5455f8a8bc3652ad7b07c4c0c61639df3372cb4853dd68b629"]) (simp_all add: p256_p_def p256_b_def)

lemma key_one_two [simp]: "key_one \<noteq> key_two" "key_two \<noteq> key_one"
  "ec_Public key_one \<noteq> ec_Public key_two" "ec_Public key_two \<noteq> ec_Public key_one"
  by (simp_all add: key_one_def key_two_def)

definition jwk_of :: "ec_public \<Rightarrow> string \<Rightarrow> JWK" where
  "jwk_of p kid = \<lparr>jwk_Kty = ''EC'', jwk_Crv = ''P-256'', jwk_X = encodeCoord (ec_X p),
     jwk_Y = encodeCoord (ec_Y p), jwk_Kid = kid, jwk_Alg = ''ES256''\<rparr>"

lemma PublicKeyToJWK_jwk_of [simp]:
  "p256_key p \<Longrightarrow> PublicKeyToJWK (Some p) kid = Inr (jwk_of p kid)"
  by (simp add: ok_simps jwk_of_def p256_key_def)

end
