(* ===== verification/Jwt.thy ===== *)
theory Jwt
  imports Keys
begin

text \<open>
  The code outside the repository that the program relies on, as a record of parameters:
  \<open>github.com/golang-jwt/jwt/v5\<close> (signing and parsing of compact tokens) and the claims of
  \<open>wimse-identity-fabric/pkg/wit\<close> that an AgentToken embeds.  What the program relies on is
  stated as the predicates \<open>jwt_sound\<close>, \<open>jwt_functional\<close>, \<open>jwt_complete\<close> and
  \<open>wit_faithful\<close>, which theorems take as hypotheses; the last section builds, from an
  explicit ledger of issued tokens, libraries that satisfy all of them.
\<close>

section \<open>Tokens\<close>

text \<open>\<open>jwt.RegisteredClaims\<close>; dates are \<open>*NumericDate\<close>, absent when \<open>nil\<close>.\<close>

record registered_claims =
  rc_Issuer :: string
  rc_Subject :: string
  rc_Audience :: "string list"
  rc_ExpiresAt :: "time option"
  rc_NotBefore :: "time option"
  rc_IssuedAt :: "time option"
  rc_ID :: string

definition no_claims :: registered_claims where
  "no_claims = \<lparr>rc_Issuer = [], rc_Subject = [], rc_Audience = [], rc_ExpiresAt = None,
     rc_NotBefore = None, rc_IssuedAt = None, rc_ID = []\<rparr>"

text \<open>A payload is the registered claims and the private members of the JSON object, by the tags
  of the struct that embeds \<open>RegisteredClaims\<close>.  A header is a map from names to values.\<close>

record payload =
  pl_reg :: registered_claims
  pl_priv :: "(string \<times> json) list"

type_synonym header = "(string \<times> json) list"

record jwt_token =
  tk_header :: header
  tk_payload :: payload

text \<open>The options of \<open>jwt.NewParser\<close> that the program sets.\<close>

record parser_opts =
  po_iss :: "string option"        \<comment> \<open>\<open>WithIssuer\<close>\<close>
  po_aud :: "string option"        \<comment> \<open>\<open>WithAudience\<close>\<close>
  po_exp_required :: bool          \<comment> \<open>\<open>WithExpirationRequired\<close>\<close>
  po_iat :: bool                   \<comment> \<open>\<open>WithIssuedAt\<close>\<close>
  po_methods :: "string list"      \<comment> \<open>\<open>WithValidMethods\<close>; empty for any method\<close>

text \<open>\<open>WithExpirationRequired(), WithIssuedAt(), WithValidMethods(ES256)\<close>, the options
  every verifying parser of the program has.\<close>

definition es256_opts :: parser_opts where
  "es256_opts = \<lparr>po_iss = None, po_aud = None, po_exp_required = True, po_iat = True,
     po_methods = [''ES256'']\<rparr>"

text \<open>A key function gets the header of the token and gives the key or refuses.\<close>

type_synonym keyfunc = "header \<Rightarrow> string + ec_public"

section \<open>The library\<close>

record ext =
  jwt_parse :: "parser_opts \<Rightarrow> time \<Rightarrow> string \<Rightarrow> keyfunc \<Rightarrow> string + jwt_token"
  jwt_parse_unverified :: "string \<Rightarrow> string + jwt_token"
  jwt_sign :: "bytes \<Rightarrow> header \<Rightarrow> payload \<Rightarrow> ec_private \<Rightarrow> string + string"
  jwt_header :: header                          \<comment> \<open>of \<open>NewWithClaims(SigningMethodES256, _)\<close>\<close>
  jwt_numeric_date :: "time \<Rightarrow> time"            \<comment> \<open>\<open>NewNumericDate\<close>\<close>
  jwt_sig_ok :: "ec_public \<Rightarrow> string \<Rightarrow> bool"  \<comment> \<open>the signature check of \<open>ES256\<close>\<close>
  wit_marshal :: "string \<times> json option \<Rightarrow> (string \<times> json) list"
  wit_unmarshal :: "(string \<times> json) list \<Rightarrow> (string \<times> json option) option"

text \<open>\<open>typ, _ := t.Header["typ"].(string)\<close>: the empty string when absent or not a string.\<close>

definition header_str :: "string \<Rightarrow> header \<Rightarrow> string" where
  "header_str k h = (case map_of h k of Some (JStr s) \<Rightarrow> s | _ \<Rightarrow> [])"

definition typ_header :: "ext \<Rightarrow> string \<Rightarrow> header" where
  "typ_header L typ = AList.update ''typ'' (JStr typ) (jwt_header L)"

text \<open>The key function of every validator: refuse another \<open>typ\<close>, else the configured key.\<close>

definition typ_error :: "string \<Rightarrow> string \<Rightarrow> string" where
  "typ_error typ want = ''unexpected typ '' @ typ @ '', want '' @ want"

definition typ_key :: "string \<Rightarrow> ec_public \<Rightarrow> keyfunc" where
  "typ_key want key h =
     (if header_str ''typ'' h \<noteq> want then Inl (typ_error (header_str ''typ'' h) want) else Inr key)"

text \<open>\<open>ParseWithClaims\<close> into a struct: the library parses, verifies and validates, and stores
  the payload with \<open>json.Unmarshal\<close>, whose failure makes the token malformed.\<close>

definition parse_with_claims ::
  "ext \<Rightarrow> parser_opts \<Rightarrow> time \<Rightarrow> string \<Rightarrow> (payload \<Rightarrow> 'c option) \<Rightarrow> keyfunc \<Rightarrow> string + header \<times> 'c" where
  "parse_with_claims L po now tok dec kf = (case jwt_parse L po now tok kf of
     Inl e \<Rightarrow> Inl e
   | Inr t \<Rightarrow> (case dec (tk_payload t) of
       None \<Rightarrow> Inl ''token is malformed''
     | Some c \<Rightarrow> Inr (tk_header t, c)))"

section \<open>What the program relies on\<close>

text \<open>The validation of the library: method, dates against the clock, issuer and audience when
  configured (an empty string configures nothing).\<close>

definition claims_valid :: "parser_opts \<Rightarrow> time \<Rightarrow> header \<Rightarrow> registered_claims \<Rightarrow> bool" where
  "claims_valid po now h rc \<longleftrightarrow>
     (po_methods po = [] \<or> header_str ''alg'' h \<in> set (po_methods po)) \<and>
     (case rc_ExpiresAt rc of None \<Rightarrow> \<not> po_exp_required po | Some e \<Rightarrow> now < e) \<and>
     (case rc_NotBefore rc of None \<Rightarrow> True | Some n \<Rightarrow> n \<le> now) \<and>
     (case rc_IssuedAt rc of None \<Rightarrow> True | Some i \<Rightarrow> po_iat po \<longrightarrow> i \<le> now) \<and>
     (case po_iss po of None \<Rightarrow> True | Some i \<Rightarrow> i = [] \<or> rc_Issuer rc = i) \<and>
     (case po_aud po of None \<Rightarrow> True | Some a \<Rightarrow> a = [] \<or> a \<in> set (rc_Audience rc))"

text \<open>A token parses only if its signature verifies under the key that the key function gave,
  and its claims are valid now.\<close>

definition jwt_sound :: "ext \<Rightarrow> bool" where
  "jwt_sound L \<longleftrightarrow> (\<forall>po now tok kf t. jwt_parse L po now tok kf = Inr t \<longrightarrow>
     (\<exists>k. kf (tk_header t) = Inr k \<and> jwt_sig_ok L k tok) \<and>
     claims_valid po now (tk_header t) (pl_reg (tk_payload t)))"

text \<open>The content of a token is a function of its text.\<close>

definition jwt_functional :: "ext \<Rightarrow> bool" where
  "jwt_functional L \<longleftrightarrow> (\<forall>po po' now now' tok kf kf' t t'.
     jwt_parse L po now tok kf = Inr t \<longrightarrow> jwt_parse L po' now' tok kf' = Inr t' \<longrightarrow> t = t')"

text \<open>What the JSON of a token carries unchanged: text in UTF-8 and dates that
  \<open>NewNumericDate\<close> has truncated.\<close>

fun json_utf8 :: "json \<Rightarrow> bool" where
  "json_utf8 (JStr s) = utf8 s"
| "json_utf8 (JArr vs) = (\<forall>v \<in> set vs. json_utf8 v)"
| "json_utf8 (JObj ms) = (\<forall>m \<in> set ms. utf8 (fst m) \<and> json_utf8 (snd m))"
| "json_utf8 v = True"

lemma utf8_b64 [simp]: "utf8 (b64_encode s)"
  by (rule utf8_ascii) (auto simp: is_ascii_def dest: b64_encode_ascii)

lemma utf8_encodeCoord [simp]: "utf8 (encodeCoord n)"
  by (simp add: encodeCoord_def Let_def)

lemma json_utf8_omit_empty [simp]:
  "(\<forall>m \<in> set (omit_empty tag s). utf8 (fst m) \<and> json_utf8 (snd m)) \<longleftrightarrow> s = [] \<or> utf8 tag \<and> utf8 s"
  by (simp add: omit_empty_def)

lemma json_utf8_jwk_of [simp]: "json_utf8 (jwk_to_json (jwk_of p kid)) \<longleftrightarrow> utf8 kid"
  by (auto simp: jwk_to_json_def jwk_of_def ball_Un char_simps)

definition claims_wire :: "ext \<Rightarrow> registered_claims \<Rightarrow> bool" where
  "claims_wire L rc \<longleftrightarrow> utf8 (rc_Issuer rc) \<and> utf8 (rc_Subject rc) \<and> list_all utf8 (rc_Audience rc)
     \<and> utf8 (rc_ID rc) \<and> list_all (pred_option (\<lambda>d. jwt_numeric_date L d = d))
         [rc_ExpiresAt rc, rc_NotBefore rc, rc_IssuedAt rc]"

definition wire_ok :: "ext \<Rightarrow> header \<Rightarrow> payload \<Rightarrow> bool" where
  "wire_ok L h pl \<longleftrightarrow> claims_wire L (pl_reg pl) \<and> json_utf8 (JObj h) \<and> json_utf8 (JObj (pl_priv pl))"

text \<open>What was signed parses under the signer's public key while its claims are valid.\<close>

definition jwt_complete :: "ext \<Rightarrow> bool" where
  "jwt_complete L \<longleftrightarrow> (\<forall>rnd h pl sk tok po now kf. jwt_sign L rnd h pl sk = Inr tok \<longrightarrow>
     wire_ok L h pl \<longrightarrow> kf h = Inr (ec_Public sk) \<longrightarrow> claims_valid po now h (pl_reg pl) \<longrightarrow>
     jwt_parse L po now tok kf = Inr \<lparr>tk_header = h, tk_payload = pl\<rparr>)"

text \<open>A header made for ES256 says so.\<close>

definition jwt_es256 :: "ext \<Rightarrow> bool" where
  "jwt_es256 L \<longleftrightarrow> header_str ''alg'' (jwt_header L) = ''ES256''"

text \<open>A compact token is three parts in unpadded base64url, the second of them the JSON of the
  claims.\<close>

definition compact_jwt :: "string \<Rightarrow> string \<Rightarrow> bool" where
  "compact_jwt tok iss \<longleftrightarrow> (\<exists>h p s ms.
     tok = b64_encode h @ ''.'' @ b64_encode p @ ''.'' @ b64_encode s \<and>
     json_parse p = Some (JObj ms) \<and> str_field ''iss'' ms = Some iss)"

definition jwt_compact :: "ext \<Rightarrow> bool" where
  "jwt_compact L \<longleftrightarrow> (\<forall>rnd h pl sk tok. jwt_sign L rnd h pl sk = Inr tok \<longrightarrow>
     wire_ok L h pl \<longrightarrow> compact_jwt tok (rc_Issuer (pl_reg pl)))"

text \<open>A date loses at most the part below a second, and nothing when truncated again.\<close>

definition jwt_dates :: "ext \<Rightarrow> bool" where
  "jwt_dates L \<longleftrightarrow> (\<forall>t. jwt_numeric_date L t \<le> t \<and> t < jwt_numeric_date L t + second \<and>
     jwt_numeric_date L (jwt_numeric_date L t) = jwt_numeric_date L t)"

lemma jwt_datesD:
  assumes "jwt_dates L"
  shows "jwt_numeric_date L t \<le> t" "t < jwt_numeric_date L t + second"
    "jwt_numeric_date L (jwt_numeric_date L t) = jwt_numeric_date L t"
  using assms unfolding jwt_dates_def by blast+

text \<open>The embedded WIT claims marshal into members whose names clash with none of the given
  tags, and are read back from any object that holds them beside those tags.\<close>

definition wit_faithful :: "ext \<Rightarrow> string set \<Rightarrow> bool" where
  "wit_faithful L tags \<longleftrightarrow>
     (\<forall>w rest. fst ` set rest \<subseteq> tags \<longrightarrow> wit_unmarshal L (wit_marshal L w @ rest) = Some w) \<and>
     (\<forall>w t. t \<in> tags \<longrightarrow> json_get t (wit_marshal L w) = [])"

lemma jwt_soundD:
  assumes "jwt_sound L" "jwt_parse L po now tok kf = Inr t"
  shows "\<exists>k. kf (tk_header t) = Inr k \<and> jwt_sig_ok L k tok"
    and "claims_valid po now (tk_header t) (pl_reg (tk_payload t))"
  using assms unfolding jwt_sound_def by blast+

lemma parse_with_claims_ok [ok_simps]:
  "parse_with_claims L po now tok dec kf = Inr (h, c) \<longleftrightarrow>
     (\<exists>t. jwt_parse L po now tok kf = Inr t \<and> tk_header t = h \<and> dec (tk_payload t) = Some c)"
  by (auto simp: parse_with_claims_def split: sum.splits option.splits)

lemma typ_key_ok [ok_simps]: "typ_key want key h = Inr k \<longleftrightarrow> header_str ''typ'' h = want \<and> k = key"
  by (auto simp: typ_key_def)

lemma header_str_update [simp]:
  "header_str k (AList.update k' (JStr v) h) = (if k = k' then v else header_str k h)"
  by (simp add: header_str_def)

lemma header_str_typ_header [simp]:
  "header_str k (typ_header L typ) = (if k = ''typ'' then typ else header_str k (jwt_header L))"
  by (simp add: typ_header_def)

text \<open>The inversion of a validator's parse, shared by every component.\<close>

lemma parse_typ_sound:
  assumes "jwt_sound L" and "parse_with_claims L po now tok dec (typ_key want key) = Inr (h, c)"
  shows "\<exists>t. jwt_parse L po now tok (typ_key want key) = Inr t \<and> dec (tk_payload t) = Some c
    \<and> tk_header t = h \<and> jwt_sig_ok L key tok \<and> header_str ''typ'' h = want
    \<and> claims_valid po now h (pl_reg (tk_payload t))"
  using assms jwt_soundD [OF assms(1)] by (fastforce simp: ok_simps)

text \<open>The round trip of a token through signing and a validator's parse.\<close>

lemma parse_signed:
  assumes "jwt_complete L" and "jwt_sign L rnd h pl sk = Inr tok" and "wire_ok L h pl"
    and "kf h = Inr (ec_Public sk)" and "claims_valid po now h (pl_reg pl)" and "dec pl = Some c"
  shows "parse_with_claims L po now tok dec kf = Inr (h, c)"
  using assms unfolding jwt_complete_def by (auto simp: ok_simps)

section \<open>Libraries that satisfy the hypotheses\<close>

text \<open>A ledger lists compact tokens with their signer, header and payload.  The library of a
  ledger signs what the ledger lists and accepts nothing else; it truncates dates to seconds.\<close>

record ledger_entry =
  le_text :: string
  le_signer :: ec_private
  le_token :: jwt_token

definition ledger_parse ::
  "ledger_entry list \<Rightarrow> parser_opts \<Rightarrow> time \<Rightarrow> string \<Rightarrow> keyfunc \<Rightarrow> string + jwt_token" where
  "ledger_parse ls po now tok kf = (case find (\<lambda>e. le_text e = tok) ls of
     None \<Rightarrow> Inl ''token is malformed''
   | Some e \<Rightarrow> (case kf (tk_header (le_token e)) of
       Inl m \<Rightarrow> Inl m
     | Inr k \<Rightarrow> if k \<noteq> ec_Public (le_signer e) then Inl ''signature is invalid''
                else if claims_valid po now (tk_header (le_token e)) (pl_reg (tk_payload (le_token e)))
                then Inr (le_token e) else Inl ''token has invalid claims''))"

definition ledger_ext :: "ledger_entry list \<Rightarrow> ext" where
  "ledger_ext ls = \<lparr>
     jwt_parse = ledger_parse ls,
     jwt_parse_unverified = (\<lambda>tok. case find (\<lambda>e. le_text e = tok) ls of
        None \<Rightarrow> Inl ''token is malformed'' | Some e \<Rightarrow> Inr (le_token e)),
     jwt_sign = (\<lambda>rnd h pl sk.
        case find (\<lambda>e. le_signer e = sk \<and> le_token e = \<lparr>tk_header = h, tk_payload = pl\<rparr>) ls of
        None \<Rightarrow> Inl ''no entropy'' | Some e \<Rightarrow> Inr (le_text e)),
     jwt_header = [(''typ'', JStr ''JWT''), (''alg'', JStr ''ES256'')],
     jwt_numeric_date = (\<lambda>t. t - t mod second),
     jwt_sig_ok = (\<lambda>k tok. \<exists>e \<in> set ls. le_text e = tok \<and> ec_Public (le_signer e) = k),
     wit_marshal = (\<lambda>(td, jwk). omit_empty ''trust_domain'' td
        @ [(''cnf'', JObj (case jwk of None \<Rightarrow> [] | Some v \<Rightarrow> [(''jwk'', v)]))]),
     wit_unmarshal = (\<lambda>ms. do {
        td \<leftarrow> str_field ''trust_domain'' ms;
        cnf \<leftarrow> (case raw_field ''cnf'' ms of None \<Rightarrow> Some [] | Some v \<Rightarrow> json_struct v);
        Some (td, raw_field ''jwk'' cnf)})\<rparr>"

lemma ledger_sound: "jwt_sound (ledger_ext ls)"
proof -
  have "find P ls = Some e \<Longrightarrow> e \<in> set ls \<and> P e" for P and e :: ledger_entry
    by (auto simp: find_Some_iff)
  then show ?thesis
    by (fastforce simp: jwt_sound_def ledger_ext_def ledger_parse_def
        split: option.splits sum.splits if_splits)
qed

lemma ledger_functional: "jwt_functional (ledger_ext ls)"
  by (auto simp: jwt_functional_def ledger_ext_def ledger_parse_def
      split: option.splits sum.splits if_splits)

lemma ledger_sign:
  assumes "e \<in> set ls" "distinct (map le_token ls)"
    and "le_token e = \<lparr>tk_header = h, tk_payload = pl\<rparr>"
  shows "jwt_sign (ledger_ext ls) rnd h pl (le_signer e) = Inr (le_text e)"
proof -
  have "find (\<lambda>x. le_signer x = le_signer e \<and> le_token x = le_token e) ls = Some e"
    using assms(1,2) by (induction ls) (auto simp: image_iff)
  then show ?thesis
    using assms(3) by (simp add: ledger_ext_def)
qed

lemma find_distinct_map:
  "distinct (map f xs) \<Longrightarrow> x \<in> set xs \<Longrightarrow> find (\<lambda>y. f y = f x) xs = Some x"
  by (induction xs) (auto simp: image_iff)

lemma ledger_signed:
  assumes "jwt_sign (ledger_ext ls) rnd h pl sk = Inr tok"
  obtains e where "e \<in> set ls" "le_text e = tok" "le_signer e = sk"
    "le_token e = \<lparr>tk_header = h, tk_payload = pl\<rparr>"
proof -
  obtain e where "find (\<lambda>e. le_signer e = sk \<and> le_token e = \<lparr>tk_header = h, tk_payload = pl\<rparr>) ls = Some e"
    and "tok = le_text e"
    using assms by (auto simp: ledger_ext_def split: option.splits)
  then show thesis
    using that [of e] by (auto simp: find_Some_iff)
qed

lemma ledger_complete:
  assumes "distinct (map le_text ls)"
  shows "jwt_complete (ledger_ext ls)"
  unfolding jwt_complete_def
proof (intro allI impI)
  fix rnd h pl sk tok po now and kf :: keyfunc
  let ?t = "\<lparr>tk_header = h, tk_payload = pl\<rparr>"
  assume sign: "jwt_sign (ledger_ext ls) rnd h pl sk = Inr tok"
    and kf: "kf h = Inr (ec_Public sk)" and valid: "claims_valid po now h (pl_reg pl)"
  obtain e where "e \<in> set ls" and le: "le_text e = tok" "le_signer e = sk" "le_token e = ?t"
    using sign by (rule ledger_signed)
  then have "find (\<lambda>e. le_text e = tok) ls = Some e"
    using find_distinct_map [OF assms] by auto
  then show "jwt_parse (ledger_ext ls) po now tok kf = Inr ?t"
    using kf valid le by (simp add: ledger_ext_def ledger_parse_def)
qed

lemma ledger_compact:
  assumes "\<forall>e \<in> set ls. compact_jwt (le_text e) (rc_Issuer (pl_reg (tk_payload (le_token e))))"
  shows "jwt_compact (ledger_ext ls)"
  unfolding jwt_compact_def
proof (intro allI impI)
  fix rnd h pl sk tok
  assume "jwt_sign (ledger_ext ls) rnd h pl sk = Inr tok"
  then obtain e where "e \<in> set ls" "le_text e = tok" "le_token e = \<lparr>tk_header = h, tk_payload = pl\<rparr>"
    by (rule ledger_signed)
  with assms show "compact_jwt tok (rc_Issuer (pl_reg pl))"
    by auto
qed

text \<open>A longer ledger accepts what its beginning accepts.\<close>

lemma find_append_Some: "find P xs = Some x \<Longrightarrow> find P (xs @ ys) = Some x"
  by (induction xs) auto

lemma ledger_append:
  "jwt_parse (ledger_ext ls) po now tok kf = Inr t \<Longrightarrow> jwt_parse (ledger_ext (ls @ ms)) po now tok kf = Inr t"
  by (cases "find (\<lambda>e. le_text e = tok) ls") (auto simp: ledger_ext_def ledger_parse_def find_append_Some)

lemma ledger_es256: "jwt_es256 (ledger_ext ls)"
  by (simp add: jwt_es256_def ledger_ext_def header_str_def)

lemma ledger_dates: "jwt_dates (ledger_ext ls)"
  by (auto simp: jwt_dates_def ledger_ext_def)

text \<open>The tags of the agent claims do not clash with those of the WIT claims.\<close>

definition agent_tags :: "string set" where
  "agent_tags = {''role'', ''chain_depth'', ''agent_mission''}"

lemma json_get_disjoint:
  "fst ` set ms \<subseteq> tags \<Longrightarrow> \<forall>t \<in> tags. fold_key t \<noteq> fold_key tag \<Longrightarrow> json_get tag ms = []"
  by (induction ms) auto

lemma ledger_wit: "wit_faithful (ledger_ext ls) agent_tags"
proof -
  have none: "json_get ''trust_domain'' rest = []" "json_get ''cnf'' rest = []"
    if "fst ` set rest \<subseteq> agent_tags" for rest
    using that by (auto intro!: json_get_disjoint [OF that] simp: agent_tags_def)
  show ?thesis
    unfolding wit_faithful_def
    by (auto simp: ledger_ext_def none json_field_defs agent_tags_def
        split: option.splits)
qed

text \<open>What a library of a ledger does with dates, headers and WIT claims does not depend on the
  ledger.\<close>

lemma ledger_parts:
  "jwt_header (ledger_ext ls) = jwt_header (ledger_ext [])"
  "jwt_numeric_date (ledger_ext ls) = jwt_numeric_date (ledger_ext [])"
  "wit_marshal (ledger_ext ls) = wit_marshal (ledger_ext [])"
  "wit_unmarshal (ledger_ext ls) = wit_unmarshal (ledger_ext [])"
  "typ_header (ledger_ext ls) = typ_header (ledger_ext [])"
  by (simp_all add: ledger_ext_def typ_header_def fun_eq_iff)

lemmas ledger_laws = ledger_sound ledger_functional ledger_complete ledger_es256 ledger_dates ledger_wit

end
