(* ===== verification/AgentToken.thy ===== *)
theory AgentToken
  imports Jwt
begin

text \<open>
  Package \<open>pkg/identity\<close>, files \<open>token.go\<close> and \<open>helpers.go\<close>: AgentTokens, their issuer and
  their validator.  The clock reading, the 16 bytes of the token identifier and the randomness
  of the signature are arguments of \<open>Issue\<close>; the parser's clock reading is one of \<open>Validate\<close>.
\<close>

section \<open>Helpers\<close>

definition agentTokenType :: string where
  "agentTokenType = ''agent+jwt''"

text \<open>\<open>generateJTI\<close>, of the random bytes read.\<close>

definition generateJTI :: "bytes \<Rightarrow> string" where
  "generateJTI b = b64_encode b"

definition hashToken :: "string \<Rightarrow> string" where
  "hashToken token = b64_sha256 token"

definition jti_bytes :: "bytes \<Rightarrow> bool" where
  "jti_bytes b \<longleftrightarrow> length b = 16"

lemma generateJTI_ne: "jti_bytes b \<Longrightarrow> generateJTI b \<noteq> []"
  by (cases b rule: b64_encode.cases) (auto simp: generateJTI_def jti_bytes_def)

lemma generateJTI_inject [simp]: "generateJTI a = generateJTI b \<longleftrightarrow> a = b"
  by (simp add: generateJTI_def)

section \<open>Data\<close>

text \<open>\<open>AgentClaims\<close>, with the embedded \<open>wit.Claims\<close> in place.\<close>

record AgentClaims =
  ac_reg :: registered_claims
  ac_TrustDomain :: string
  ac_Cnf_JWK :: "json option"
  ac_Role :: string
  ac_ChainDepth :: int
  ac_Mission :: string

record ValidatedAgent =
  va_Claims :: AgentClaims
  va_WorkloadKey :: ec_public

record IssueOptions =
  io_Subject :: string
  io_Audiences :: "string list"
  io_TrustDomain :: string
  io_Role :: string
  io_ChainDepth :: int
  io_KeyID :: string
  io_WorkloadKey :: "ec_public option"
  io_Mission :: string

record AgentIssuer =
  ai_issuerID :: string
  ai_sigKey :: ec_private
  ai_ttl :: duration

record AgentValidator =
  av_issuerID :: string
  av_idpPub :: ec_public
  av_parser :: parser_opts

datatype issue_error = SubjectRequired | RoleRequired | IssueWorkloadKeyRequired
  | SerializeWorkloadKey key_error | SignAgentToken string

datatype validate_error = ParseAgentToken string | IssuerMismatch string string
  | MissingCnfJWK | UnmarshalCnfJWK | DeserializeWorkloadKey key_error

definition NewAgentIssuer :: "string \<Rightarrow> ec_private \<Rightarrow> duration \<Rightarrow> AgentIssuer" where
  "NewAgentIssuer issuerID sigKey ttl = \<lparr>ai_issuerID = issuerID, ai_sigKey = sigKey, ai_ttl = ttl\<rparr>"

text \<open>A \<open>jwt.ParserOption\<close> is a change of the parser's options.\<close>

definition NewAgentValidator ::
  "string \<Rightarrow> ec_public \<Rightarrow> (parser_opts \<Rightarrow> parser_opts) list \<Rightarrow> AgentValidator" where
  "NewAgentValidator issuerID idpPub opts =
     \<lparr>av_issuerID = issuerID, av_idpPub = idpPub, av_parser = fold (\<lambda>opt po. opt po) opts es256_opts\<rparr>"

section \<open>Marshalling\<close>

definition agent_payload :: "ext \<Rightarrow> AgentClaims \<Rightarrow> payload" where
  "agent_payload L c = \<lparr>pl_reg = ac_reg c,
     pl_priv = wit_marshal L (ac_TrustDomain c, ac_Cnf_JWK c)
       @ [(''role'', JStr (ac_Role c)), (''chain_depth'', JInt (ac_ChainDepth c))]
       @ omit_empty ''agent_mission'' (ac_Mission c)\<rparr>"

definition agent_claims :: "ext \<Rightarrow> payload \<Rightarrow> AgentClaims option" where
  "agent_claims L pl = do {
     w \<leftarrow> wit_unmarshal L (pl_priv pl);
     role \<leftarrow> str_field ''role'' (pl_priv pl);
     depth \<leftarrow> int_field ''chain_depth'' (pl_priv pl);
     mission \<leftarrow> str_field ''agent_mission'' (pl_priv pl);
     Some \<lparr>ac_reg = pl_reg pl, ac_TrustDomain = fst w, ac_Cnf_JWK = snd w,
           ac_Role = role, ac_ChainDepth = depth, ac_Mission = mission\<rparr>}"

section \<open>Issue\<close>

definition issue_claims ::
  "ext \<Rightarrow> AgentIssuer \<Rightarrow> IssueOptions \<Rightarrow> JWK \<Rightarrow> time \<Rightarrow> bytes \<Rightarrow> AgentClaims" where
  "issue_claims L i opts jwk now jti = \<lparr>
     ac_reg = \<lparr>rc_Issuer = ai_issuerID i, rc_Subject = io_Subject opts,
       rc_Audience = io_Audiences opts,
       rc_ExpiresAt = Some (jwt_numeric_date L (now + ai_ttl i)),
       rc_NotBefore = Some (jwt_numeric_date L now),
       rc_IssuedAt = Some (jwt_numeric_date L now),
       rc_ID = generateJTI jti\<rparr>,
     ac_TrustDomain = io_TrustDomain opts,
     ac_Cnf_JWK = Some (jwk_to_json jwk),
     ac_Role = io_Role opts, ac_ChainDepth = io_ChainDepth opts, ac_Mission = io_Mission opts\<rparr>"

definition issue_header :: "ext \<Rightarrow> string \<Rightarrow> string \<Rightarrow> header" where
  "issue_header L typ kid = AList.update ''typ'' (JStr typ)
     (if kid \<noteq> [] then AList.update ''kid'' (JStr kid) (jwt_header L) else jwt_header L)"

definition AgentIssuer_Issue ::
  "ext \<Rightarrow> AgentIssuer \<Rightarrow> IssueOptions \<Rightarrow> time \<Rightarrow> bytes \<Rightarrow> bytes \<Rightarrow> issue_error + string" where
  "AgentIssuer_Issue L i opts now jti rnd =
     (if io_Subject opts = [] then Inl SubjectRequired
      else if io_Role opts = [] then Inl RoleRequired
      else if io_WorkloadKey opts = None then Inl IssueWorkloadKeyRequired
      else (case PublicKeyToJWK (io_WorkloadKey opts) (io_KeyID opts) of
        Inl e \<Rightarrow> Inl (SerializeWorkloadKey e)
      | Inr jwk \<Rightarrow>
          (case jwt_sign L rnd (issue_header L agentTokenType (io_KeyID opts))
                  (agent_payload L (issue_claims L i opts jwk now jti)) (ai_sigKey i) of
             Inl e \<Rightarrow> Inl (SignAgentToken e)
           | Inr token \<Rightarrow> Inr token)))"

section \<open>Validate\<close>

definition AgentValidator_Validate ::
  "ext \<Rightarrow> AgentValidator \<Rightarrow> time \<Rightarrow> string \<Rightarrow> validate_error + ValidatedAgent" where
  "AgentValidator_Validate L v now token =
     (case parse_with_claims L (av_parser v) now token (agent_claims L)
             (typ_key agentTokenType (av_idpPub v)) of
        Inl e \<Rightarrow> Inl (ParseAgentToken e)
      | Inr (_, claims) \<Rightarrow>
          if rc_Issuer (ac_reg claims) \<noteq> av_issuerID v
          then Inl (IssuerMismatch (av_issuerID v) (rc_Issuer (ac_reg claims)))
          else (case ac_Cnf_JWK claims of
            None \<Rightarrow> Inl MissingCnfJWK
          | Some raw \<Rightarrow> (case JWKFromRawMessage raw of
              None \<Rightarrow> Inl UnmarshalCnfJWK
            | Some jwk \<Rightarrow> (case JWKToPublicKey jwk of
                Inl e \<Rightarrow> Inl (DeserializeWorkloadKey e)
              | Inr workloadKey \<Rightarrow> Inr \<lparr>va_Claims = claims, va_WorkloadKey = workloadKey\<rparr>))))"

section \<open>Lemmas\<close>

definition go_int :: "int \<Rightarrow> bool" where
  "go_int i \<longleftrightarrow> - (2 ^ 63) \<le> i \<and> i < 2 ^ 63"

lemma header_str_issue_header [simp]:
  "header_str ''typ'' (issue_header L typ kid) = typ"
  "header_str ''alg'' (issue_header L typ kid) = header_str ''alg'' (jwt_header L)"
  by (simp_all add: issue_header_def)

lemma wit_faithfulD:
  assumes "wit_faithful L tags"
  shows "fst ` set rest \<subseteq> tags \<Longrightarrow> wit_unmarshal L (wit_marshal L w @ rest) = Some w"
    and "t \<in> tags \<Longrightarrow> json_get t (wit_marshal L w) = []"
  using assms unfolding wit_faithful_def by blast+

lemma agent_claims_payload [simp]:
  assumes "wit_faithful L agent_tags" and "go_int (ac_ChainDepth c)"
  shows "agent_claims L (agent_payload L c) = Some c"
proof -
  have "fst ` set ([(''role'', JStr (ac_Role c)), (''chain_depth'', JInt (ac_ChainDepth c))]
      @ omit_empty ''agent_mission'' (ac_Mission c)) \<subseteq> agent_tags"
    by (auto simp: agent_tags_def omit_empty_def)
  then show ?thesis
    using assms(2)
    by (simp add: agent_claims_def agent_payload_def wit_faithfulD [OF assms(1)] json_field_defs
        agent_tags_def go_int_def omit_empty_def)
qed

lemma AgentIssuer_Issue_ok:
  "AgentIssuer_Issue L i opts now jti rnd = Inr tok \<longleftrightarrow>
     (\<exists>key jwk. io_Subject opts \<noteq> [] \<and> io_Role opts \<noteq> [] \<and> io_WorkloadKey opts = Some key \<and>
        PublicKeyToJWK (Some key) (io_KeyID opts) = Inr jwk \<and>
        jwt_sign L rnd (issue_header L agentTokenType (io_KeyID opts))
          (agent_payload L (issue_claims L i opts jwk now jti)) (ai_sigKey i) = Inr tok)"
  by (auto simp: AgentIssuer_Issue_def split: sum.splits)

lemma AgentValidator_Validate_ok:
  "AgentValidator_Validate L v now tok = Inr va \<longleftrightarrow>
     (\<exists>h raw jwk.
        parse_with_claims L (av_parser v) now tok (agent_claims L)
          (typ_key agentTokenType (av_idpPub v)) = Inr (h, va_Claims va) \<and>
        rc_Issuer (ac_reg (va_Claims va)) = av_issuerID v \<and>
        ac_Cnf_JWK (va_Claims va) = Some raw \<and> JWKFromRawMessage raw = Some jwk \<and>
        JWKToPublicKey jwk = Inr (va_WorkloadKey va))"
  by (cases va) (auto simp: AgentValidator_Validate_def split: sum.splits option.splits)

lemma agent_claims_reg: "agent_claims L pl = Some c \<Longrightarrow> ac_reg c = pl_reg pl"
  by (auto simp: agent_claims_def split: Option.bind_splits)

text \<open>What an accepted token has shown: the checks of the parser, of \<open>Validate\<close> and of the key
  decoder, on one payload.\<close>

lemma Validate_sound:
  assumes "jwt_sound L" and "AgentValidator_Validate L v now tok = Inr va"
  shows "\<exists>t. jwt_parse L (av_parser v) now tok (typ_key agentTokenType (av_idpPub v)) = Inr t \<and>
      agent_claims L (tk_payload t) = Some (va_Claims va) \<and>
      jwt_sig_ok L (av_idpPub v) tok \<and> header_str ''typ'' (tk_header t) = agentTokenType \<and>
      claims_valid (av_parser v) now (tk_header t) (ac_reg (va_Claims va)) \<and>
      rc_Issuer (ac_reg (va_Claims va)) = av_issuerID v \<and>
      p256_key (va_WorkloadKey va)"
proof -
  obtain h raw jwk where parse: "parse_with_claims L (av_parser v) now tok (agent_claims L)
        (typ_key agentTokenType (av_idpPub v)) = Inr (h, va_Claims va)"
    and *: "rc_Issuer (ac_reg (va_Claims va)) = av_issuerID v" "JWKToPublicKey jwk = Inr (va_WorkloadKey va)"
    using assms(2) by (auto simp: AgentValidator_Validate_ok)
  show ?thesis
    using parse_typ_sound [OF assms(1) parse] * JWKToPublicKey_ok agent_claims_reg by metis
qed

lemma Validate_functional:
  assumes "jwt_functional L"
    and "AgentValidator_Validate L v now tok = Inr va" and "AgentValidator_Validate L v' now' tok = Inr va'"
  shows "va = va'"
proof -
  obtain t t' where "jwt_parse L (av_parser v) now tok (typ_key agentTokenType (av_idpPub v)) = Inr t"
    "jwt_parse L (av_parser v') now' tok (typ_key agentTokenType (av_idpPub v')) = Inr t'"
    "agent_claims L (tk_payload t) = Some (va_Claims va)"
    "agent_claims L (tk_payload t') = Some (va_Claims va')"
    using assms(2,3) by (auto simp: AgentValidator_Validate_ok ok_simps)
  moreover from this have "t = t'"
    using assms(1) unfolding jwt_functional_def by blast
  ultimately have "va_Claims va = va_Claims va'"
    by auto
  moreover have "va_WorkloadKey va = va_WorkloadKey va'"
    using assms(2,3) calculation by (auto simp: AgentValidator_Validate_ok)
  ultimately show ?thesis
    by (cases va; cases va') simp
qed

lemma claims_valid_issue:
  assumes "jwt_es256 L" and "jwt_dates L" and "now \<le> t" and "t < jwt_numeric_date L (now + ai_ttl i)"
  shows "claims_valid es256_opts t (issue_header L typ kid) (ac_reg (issue_claims L i opts jwk now jti))"
  using assms(1,3,4) jwt_datesD(1) [OF assms(2), of now]
  by (simp add: claims_valid_def es256_opts_def issue_claims_def jwt_es256_def)

text \<open>What \<open>Issue\<close> signed passes a validator for its issuer.\<close>

lemma Validate_issued:
  assumes "jwt_complete L" "jwt_es256 L" "jwt_dates L" "wit_faithful L agent_tags"
    and "AgentIssuer_Issue L i opts now jti rnd = Inr tok"
    and "io_WorkloadKey opts = Some key" "p256_key key" "go_int (io_ChainDepth opts)"
    and "PublicKeyToJWK (Some key) (io_KeyID opts) = Inr jwk"
    and "wire_ok L (issue_header L agentTokenType (io_KeyID opts))
           (agent_payload L (issue_claims L i opts jwk now jti))"
    and v: "av_issuerID v = ai_issuerID i" "av_idpPub v = ec_Public (ai_sigKey i)" "av_parser v = es256_opts"
    and "now \<le> t" "t < jwt_numeric_date L (now + ai_ttl i)"
  shows "AgentValidator_Validate L v t tok
    = Inr \<lparr>va_Claims = issue_claims L i opts jwk now jti, va_WorkloadKey = key\<rparr>"
proof -
  let ?c = "issue_claims L i opts jwk now jti"
  have "jwt_sign L rnd (issue_header L agentTokenType (io_KeyID opts)) (agent_payload L ?c) (ai_sigKey i)
      = Inr tok"
    using assms(5,6,9) by (auto simp: AgentIssuer_Issue_ok)
  moreover have "claims_valid es256_opts t (issue_header L agentTokenType (io_KeyID opts))
      (pl_reg (agent_payload L ?c))"
    using claims_valid_issue [OF assms(2,3,14,15)] by (simp add: agent_payload_def)
  moreover have "agent_claims L (agent_payload L ?c) = Some ?c"
    using assms(4,8) by (simp add: issue_claims_def)
  ultimately have "parse_with_claims L es256_opts t tok (agent_claims L)
      (typ_key agentTokenType (ec_Public (ai_sigKey i))) = Inr (issue_header L agentTokenType (io_KeyID opts), ?c)"
    by (intro parse_signed [OF assms(1) _ assms(10)]) (simp_all add: typ_key_def)
  then show ?thesis
    using JWKToPublicKey_of_key [OF assms(9,7)]
    by (simp add: AgentValidator_Validate_ok v, simp add: issue_claims_def)
qed

section \<open>Closed instances\<close>

text \<open>An identity provider that issued two tokens, for hops 0 and 1 of a chain.\<close>

definition ex_issuer :: AgentIssuer where
  "ex_issuer = NewAgentIssuer ''https://idp'' key_one hour"

definition ex_validator :: AgentValidator where
  "ex_validator = NewAgentValidator ''https://idp'' (ec_Public key_one) []"

definition ex_opts :: "int \<Rightarrow> IssueOptions" where
  "ex_opts d = \<lparr>io_Subject = ''spiffe://a/b'', io_Audiences = [''gw''], io_TrustDomain = ''a'',
     io_Role = ''executor'', io_ChainDepth = d, io_KeyID = ''k1'',
     io_WorkloadKey = Some (ec_Public key_two), io_Mission = ''m''\<rparr>"

definition ex_jti :: bytes where
  "ex_jti = replicate 16 (CHR ''j'')"

text \<open>A compact token whose payload names the issuer.\<close>

definition ex_token :: "string \<Rightarrow> string" where
  "ex_token sig = b64_encode ''h'' @ ''.'' @ b64_encode ''{\"iss\":\"https://idp\"}'' @ ''.'' @ b64_encode sig"

definition ex_header :: header where
  "ex_header = issue_header (ledger_ext []) agentTokenType ''k1''"

definition ex_claims :: "int \<Rightarrow> AgentClaims" where
  "ex_claims d = issue_claims (ledger_ext []) ex_issuer (ex_opts d) (jwk_of (ec_Public key_two) ''k1'') 0 ex_jti"

definition ex_entry :: "string \<Rightarrow> int \<Rightarrow> ledger_entry" where
  "ex_entry sig d = \<lparr>le_text = ex_token sig, le_signer = key_one,
     le_token = \<lparr>tk_header = ex_header, tk_payload = agent_payload (ledger_ext []) (ex_claims d)\<rparr>\<rparr>"

definition ex_ledger :: "ledger_entry list" where
  "ex_ledger = [ex_entry ''0'' 0, ex_entry ''1'' 1]"

definition ex_lib :: ext where
  "ex_lib = ledger_ext ex_ledger"

lemma ledger_agent:
  "issue_header (ledger_ext ls) = issue_header (ledger_ext [])"
  "agent_payload (ledger_ext ls) = agent_payload (ledger_ext [])"
  "issue_claims (ledger_ext ls) = issue_claims (ledger_ext [])"
  by (simp_all add: fun_eq_iff issue_header_def agent_payload_def issue_claims_def ledger_parts [of ls])

lemma ex_token_compact: "compact_jwt (ex_token sig) ''https://idp''"
proof -
  have "json_parse ''{\"iss\":\"https://idp\"}'' = Some (JObj [(''iss'', JStr ''https://idp'')])"
    by (simp add: json_parse_def json_value.simps json_members.simps lex_string.simps
        max_nesting_def Let_def char_simps)
  moreover have "str_field ''iss'' [(''iss'', JStr ''https://idp'')] = Some ''https://idp''"
    by (simp add: json_field_defs)
  ultimately show ?thesis
    unfolding compact_jwt_def ex_token_def by blast
qed

lemma ex_token_inject [simp]: "ex_token a = ex_token b \<longleftrightarrow> a = b"
  by (simp add: ex_token_def)

lemma ex_payload_inject [simp]:
  "go_int d \<Longrightarrow> go_int d' \<Longrightarrow>
   agent_payload (ledger_ext []) (ex_claims d) = agent_payload (ledger_ext []) (ex_claims d') \<longleftrightarrow> d = d'"
proof -
  assume d: "go_int d" "go_int d'"
  have depth: "ac_ChainDepth (ex_claims k) = k" for k
    by (simp add: ex_claims_def issue_claims_def ex_opts_def)
  have "agent_claims (ledger_ext []) (agent_payload (ledger_ext []) (ex_claims k)) = Some (ex_claims k)"
    if "go_int k" for k
    by (rule agent_claims_payload [OF ledger_wit]) (simp add: depth that)
  then show ?thesis
    using d depth by (metis option.inject)
qed

lemma ex_opts_simps [simp]:
  "io_KeyID (ex_opts d) = ''k1''" "io_ChainDepth (ex_opts d) = d"
  "io_WorkloadKey (ex_opts d) = Some (ec_Public key_two)"
  by (simp_all add: ex_opts_def)

lemma ex_validator_simps [simp]:
  "av_issuerID ex_validator = ''https://idp''" "av_idpPub ex_validator = ec_Public key_one"
  "av_parser ex_validator = es256_opts"
  by (simp_all add: ex_validator_def NewAgentValidator_def)

lemma ex_issuer_simps [simp]:
  "ai_issuerID ex_issuer = ''https://idp''" "ai_sigKey ex_issuer = key_one" "ai_ttl ex_issuer = hour"
  by (simp_all add: ex_issuer_def NewAgentIssuer_def)

lemma ex_lib_laws:
  "jwt_sound ex_lib" "jwt_functional ex_lib" "jwt_complete ex_lib" "jwt_compact ex_lib"
  "jwt_es256 ex_lib" "jwt_dates ex_lib" "wit_faithful ex_lib agent_tags"
proof -
  have "rc_Issuer (pl_reg (agent_payload L (ex_claims d))) = ''https://idp''" for L d
    by (simp add: agent_payload_def ex_claims_def issue_claims_def)
  then show "jwt_compact ex_lib"
    unfolding ex_lib_def ex_ledger_def
    by (intro ledger_compact) (simp add: ex_entry_def ex_token_compact)
  show "jwt_complete ex_lib"
    unfolding ex_lib_def ex_ledger_def by (rule ledger_complete) (simp add: ex_entry_def)
qed (simp_all only: ex_lib_def ledger_laws)

lemma ex_lib_parts:
  "issue_header ex_lib agentTokenType ''k1'' = ex_header"
  "agent_payload ex_lib = agent_payload (ledger_ext [])"
  "issue_claims ex_lib ex_issuer (ex_opts d) (jwk_of (ec_Public key_two) ''k1'') 0 ex_jti = ex_claims d"
  "jwt_numeric_date ex_lib hour = hour"
  unfolding ex_lib_def ex_header_def ex_claims_def ledger_agent [of ex_ledger]
  by (simp_all add: ledger_ext_def)

lemma ex_wire:
  "wire_ok ex_lib ex_header (agent_payload (ledger_ext []) (ex_claims d))"
  by (simp add: wire_ok_def claims_wire_def agent_payload_def ex_claims_def issue_claims_def ex_header_def
      issue_header_def ex_lib_def ledger_ext_def ex_opts_def ex_jti_def generateJTI_def
      agentTokenType_def char_simps ball_Un)

lemma ex_Issue:
  "AgentIssuer_Issue ex_lib ex_issuer (ex_opts 0) 0 ex_jti rnd = Inr (ex_token ''0'')"
  "AgentIssuer_Issue ex_lib ex_issuer (ex_opts 1) 0 ex_jti rnd = Inr (ex_token ''1'')"
proof -
  have sign: "jwt_sign ex_lib rnd ex_header (agent_payload (ledger_ext []) (ex_claims d)) key_one = Inr (ex_token sig)"
    if "ex_entry sig d \<in> set ex_ledger" for d sig
    using ledger_sign [OF that, of ex_header "agent_payload (ledger_ext []) (ex_claims d)" rnd]
    by (simp add: ex_lib_def ex_entry_def ex_ledger_def go_int_def)
  show "AgentIssuer_Issue ex_lib ex_issuer (ex_opts 0) 0 ex_jti rnd = Inr (ex_token ''0'')"
    "AgentIssuer_Issue ex_lib ex_issuer (ex_opts 1) 0 ex_jti rnd = Inr (ex_token ''1'')"
    using sign [of "''0''" 0] sign [of "''1''" 1]
    by (auto simp: AgentIssuer_Issue_ok ex_lib_parts, simp_all add: ex_opts_def ex_ledger_def)
qed

lemma ex_Validate:
  assumes "0 \<le> t" "t < hour"
  shows "AgentValidator_Validate ex_lib ex_validator t (ex_token ''0'')
      = Inr \<lparr>va_Claims = ex_claims 0, va_WorkloadKey = ec_Public key_two\<rparr>"
    and "AgentValidator_Validate ex_lib ex_validator t (ex_token ''1'')
      = Inr \<lparr>va_Claims = ex_claims 1, va_WorkloadKey = ec_Public key_two\<rparr>"
proof -
  have "AgentValidator_Validate ex_lib ex_validator t tok
      = Inr \<lparr>va_Claims = ex_claims d, va_WorkloadKey = ec_Public key_two\<rparr>"
    if "AgentIssuer_Issue ex_lib ex_issuer (ex_opts d) 0 ex_jti [] = Inr tok" "go_int d" for d tok
    using Validate_issued [OF ex_lib_laws(3,5,6,7) that(1), where key = "ec_Public key_two"
        and jwk = "jwk_of (ec_Public key_two) ''k1''" and v = ex_validator and t = t] assms that(2)
    by (simp add: ex_lib_parts ex_wire)
  from this [OF ex_Issue(1)] this [OF ex_Issue(2)]
  show "AgentValidator_Validate ex_lib ex_validator t (ex_token ''0'')
      = Inr \<lparr>va_Claims = ex_claims 0, va_WorkloadKey = ec_Public key_two\<rparr>"
    "AgentValidator_Validate ex_lib ex_validator t (ex_token ''1'')
      = Inr \<lparr>va_Claims = ex_claims 1, va_WorkloadKey = ec_Public key_two\<rparr>"
    by (simp_all add: go_int_def)
qed

text \<open>More tokens in the ledger change nothing for these.\<close>

lemma Validate_ledger_append:
  assumes "AgentValidator_Validate (ledger_ext ls) v now tok = Inr va"
  shows "AgentValidator_Validate (ledger_ext (ls @ ms)) v now tok = Inr va"
proof -
  have "agent_claims (ledger_ext (ls @ ms)) = agent_claims (ledger_ext ls)"
    by (simp add: fun_eq_iff agent_claims_def ledger_ext_def)
  then show ?thesis
    using assms ledger_append [of ls] by (fastforce simp: AgentValidator_Validate_ok ok_simps)
qed

section \<open>Properties\<close>

text \<open>C8: An AgentToken that \<open>Issue\<close> returned is accepted, from the moment of its issue until it
  expires, by the validator configured with the issuer's identifier and public key; the claims
  and the agent's key that \<open>Validate\<close> returns are exactly those of the issue options.\<close>

theorem Issue_Validate:
  assumes "jwt_complete L" "jwt_es256 L" "jwt_dates L" "wit_faithful L agent_tags"
    and "AgentIssuer_Issue L i opts now jti rnd = Inr tok"
    and "io_WorkloadKey opts = Some key" "p256_key key" "go_int (io_ChainDepth opts)"
    and "PublicKeyToJWK (Some key) (io_KeyID opts) = Inr jwk"
    and "wire_ok L (issue_header L agentTokenType (io_KeyID opts))
           (agent_payload L (issue_claims L i opts jwk now jti))"
    and "now \<le> t" "t < jwt_numeric_date L (now + ai_ttl i)"
  shows "AgentValidator_Validate L (NewAgentValidator (ai_issuerID i) (ec_Public (ai_sigKey i)) []) t tok
    = Inr \<lparr>va_Claims = issue_claims L i opts jwk now jti, va_WorkloadKey = key\<rparr>"
  using assms by (intro Validate_issued) (simp_all add: NewAgentValidator_def)

theorem Issue_Validate_witness:
  "AgentValidator_Validate ex_lib
     (NewAgentValidator (ai_issuerID ex_issuer) (ec_Public (ai_sigKey ex_issuer)) []) minute (ex_token ''1'')
   = Inr \<lparr>va_Claims = issue_claims ex_lib ex_issuer (ex_opts 1)
        (jwk_of (ec_Public key_two) ''k1'') 0 ex_jti, va_WorkloadKey = ec_Public key_two\<rparr>"
  by (rule Issue_Validate [OF ex_lib_laws(3,5,6,7) ex_Issue(2)])
    (simp_all add: go_int_def ex_lib_parts ex_wire)

text \<open>C9: \<open>Validate\<close> accepts only a token whose signature verifies under the configured IdP key,
  whose header has \<open>typ\<close> agent+jwt and algorithm ES256, whose issuer is the configured one,
  which has an expiry in the future and is not from the future; the returned agent key is a
  P-256 key on the curve.\<close>

theorem Validate_accepts_only:
  assumes "jwt_sound L"
    and "AgentValidator_Validate L (NewAgentValidator iss pub []) now tok = Inr va"
  shows "jwt_sig_ok L pub tok \<and> rc_Issuer (ac_reg (va_Claims va)) = iss \<and> p256_key (va_WorkloadKey va) \<and>
    (\<exists>t e. jwt_parse L es256_opts now tok (typ_key agentTokenType pub) = Inr t \<and>
      agent_claims L (tk_payload t) = Some (va_Claims va) \<and>
      header_str ''typ'' (tk_header t) = ''agent+jwt'' \<and> header_str ''alg'' (tk_header t) = ''ES256'' \<and>
      rc_ExpiresAt (ac_reg (va_Claims va)) = Some e \<and> now < e) \<and>
    (\<forall>d. rc_NotBefore (ac_reg (va_Claims va)) = Some d \<or> rc_IssuedAt (ac_reg (va_Claims va)) = Some d
      \<longrightarrow> d \<le> now)"
  using Validate_sound [OF assms]
  by (auto simp: NewAgentValidator_def claims_valid_def es256_opts_def agentTokenType_def
      split: option.splits)

theorem Validate_accepts_only_witness:
  "jwt_sig_ok ex_lib (ec_Public key_one) (ex_token ''0'') \<and> p256_key (ec_Public key_two)"
  using Validate_accepts_only [OF ex_lib_laws(1), of "''https://idp''" "ec_Public key_one" minute "ex_token ''0''"]
    ex_Validate(1) [of minute] by (simp add: ex_validator_def)

end
