(* ===== verification/AgentChain.thy ===== *)
theory AgentChain
  imports AgentToken
begin

text \<open>
  Package \<open>pkg/identity\<close>, file \<open>chain.go\<close>: delegation chains.  The validators map of
  \<open>Validate\<close> is a partial function; \<open>clock i\<close> is the time the parser of token \<open>i\<close> reads.
  The lemmas characterise the accepted chains, show that a chain can neither be reordered nor
  spliced, and that its hash binds it.
\<close>

type_synonym chain = "string list"

datatype peek_error = NotCompactJWT | DecodePayload | UnmarshalClaims | MissingIss

datatype chain_fault = PeekIssuer peek_error | NoValidator string | TokenInvalid validate_error
  | DepthMismatch int int

datatype chain_error = EmptyChainString | EmptyTokenAt nat | ExtendEmptyToken
  | EmptyChain | ChainAt nat chain_fault

section \<open>Operations\<close>

fun first_empty :: "nat \<Rightarrow> string list \<Rightarrow> nat option" where
  "first_empty i [] = None"
| "first_empty i (p # ps) = (if p = [] then Some i else first_empty (Suc i) ps)"

definition ParseChain :: "string \<Rightarrow> chain_error + chain" where
  "ParseChain s =
     (if s = [] then Inl EmptyChainString
      else (let parts = split_on (CHR ''~'') s in
        case first_empty 0 parts of Some i \<Rightarrow> Inl (EmptyTokenAt i) | None \<Rightarrow> Inr parts))"

definition AgentChain_String :: "chain \<Rightarrow> string" where
  "AgentChain_String c = join_with ''~'' c"

definition AgentChain_Len :: "chain \<Rightarrow> nat" where
  "AgentChain_Len c = length c"

definition AgentChain_Extend :: "chain \<Rightarrow> string \<Rightarrow> chain_error + chain" where
  "AgentChain_Extend c token = (if token = [] then Inl ExtendEmptyToken else Inr (c @ [token]))"

definition AgentChain_Hash :: "chain \<Rightarrow> string" where
  "AgentChain_Hash c = b64_sha256 (AgentChain_String c)"

text \<open>\<open>peekIssuer\<close> reads the \<open>iss\<close> member of the payload, without verification.\<close>

definition peekIssuer :: "string \<Rightarrow> peek_error + string" where
  "peekIssuer token = (case splitn_on (CHR ''.'') 3 token of
     [_, p, _] \<Rightarrow> (case b64_decode p of
        None \<Rightarrow> Inl DecodePayload
      | Some payload \<Rightarrow>
          (case do { v \<leftarrow> json_parse payload; ms \<leftarrow> json_struct v; str_field ''iss'' ms } of
             None \<Rightarrow> Inl UnmarshalClaims
           | Some iss \<Rightarrow> if iss = [] then Inl MissingIss else Inr iss))
   | _ \<Rightarrow> Inl NotCompactJWT)"

text \<open>The loop of \<open>Validate\<close>, at token \<open>i\<close>.\<close>

fun validate_from :: "ext \<Rightarrow> (string \<rightharpoonup> AgentValidator) \<Rightarrow> (nat \<Rightarrow> time) \<Rightarrow> nat \<Rightarrow> string list
    \<Rightarrow> chain_error + ValidatedAgent list" where
  "validate_from L validators clock i [] = Inr []"
| "validate_from L validators clock i (tok # toks) = (case peekIssuer tok of
     Inl e \<Rightarrow> Inl (ChainAt i (PeekIssuer e))
   | Inr issuer \<Rightarrow> (case validators issuer of
       None \<Rightarrow> Inl (ChainAt i (NoValidator issuer))
     | Some v \<Rightarrow> (case AgentValidator_Validate L v (clock i) tok of
         Inl e \<Rightarrow> Inl (ChainAt i (TokenInvalid e))
       | Inr va \<Rightarrow>
           if ac_ChainDepth (va_Claims va) \<noteq> int i
           then Inl (ChainAt i (DepthMismatch (int i) (ac_ChainDepth (va_Claims va))))
           else (case validate_from L validators clock (Suc i) toks of
             Inl e \<Rightarrow> Inl e
           | Inr results \<Rightarrow> Inr (va # results)))))"

definition AgentChain_Validate :: "ext \<Rightarrow> chain \<Rightarrow> (string \<rightharpoonup> AgentValidator) \<Rightarrow> (nat \<Rightarrow> time)
    \<Rightarrow> chain_error + ValidatedAgent list" where
  "AgentChain_Validate L c validators clock =
     (if c = [] then Inl EmptyChain else validate_from L validators clock 0 c)"

section \<open>Wire format\<close>

lemma first_empty_None: "first_empty i ps = None \<longleftrightarrow> [] \<notin> set ps"
  by (induction ps arbitrary: i) auto

lemma first_empty_Some:
  "first_empty i ps = Some j \<Longrightarrow> i \<le> j \<and> j < i + length ps \<and> ps ! (j - i) = [] \<and> [] \<notin> set (take (j - i) ps)"
proof (induction ps arbitrary: i)
  case (Cons p ps)
  show ?case
  proof (cases "p = []")
    case False
    then have "first_empty (Suc i) ps = Some j" using Cons.prems by simp
    from Cons.IH [OF this] False show ?thesis
      by (auto simp: nth_Cons' take_Cons' Suc_le_eq)
  qed (use Cons.prems in auto)
qed simp

definition chain_wf :: "chain \<Rightarrow> bool" where
  "chain_wf c \<longleftrightarrow> c \<noteq> [] \<and> (\<forall>t \<in> set c. t \<noteq> [] \<and> CHR ''~'' \<notin> set t)"

lemma ParseChain_ok [ok_simps]:
  "ParseChain s = Inr c \<longleftrightarrow> chain_wf c \<and> AgentChain_String c = s"
proof
  assume "ParseChain s = Inr c"
  then have "c = split_on (CHR ''~'') s" "[] \<notin> set c"
    by (auto simp: ParseChain_def Let_def first_empty_None split: if_splits option.splits)
  then show "chain_wf c \<and> AgentChain_String c = s"
    by (auto simp: chain_wf_def AgentChain_String_def join_split_on dest: split_on_sep_free)
next
  assume c: "chain_wf c \<and> AgentChain_String c = s"
  then have "split_on (CHR ''~'') s = c"
    by (auto simp: chain_wf_def AgentChain_String_def split_on_join)
  moreover have "s \<noteq> []"
    using c by (cases c; cases "tl c") (auto simp: chain_wf_def AgentChain_String_def)
  ultimately show "ParseChain s = Inr c"
    using c first_empty_None [of 0 c] by (auto simp: ParseChain_def chain_wf_def)
qed

lemma String_inject:
  assumes "chain_wf c" "chain_wf d" "AgentChain_String c = AgentChain_String d"
  shows "c = d"
  using assms ParseChain_ok by (metis sum.inject(2))

lemma Hash_binds:
  assumes "chain_wf c" "chain_wf d" "AgentChain_Hash c = AgentChain_Hash d"
  shows "c = d \<or> sha256_collision (AgentChain_String c) (AgentChain_String d)"
  using assms b64_sha256_eq_cases String_inject unfolding AgentChain_Hash_def by blast

lemma Extend_ok [ok_simps]: "AgentChain_Extend c t = Inr d \<longleftrightarrow> t \<noteq> [] \<and> d = c @ [t]"
  by (auto simp: AgentChain_Extend_def)

lemma Extend_wf: "c \<noteq> [] \<Longrightarrow> chain_wf c \<Longrightarrow> CHR ''~'' \<notin> set t \<Longrightarrow> AgentChain_Extend c t = Inr d \<Longrightarrow> chain_wf d"
  by (auto simp: ok_simps chain_wf_def)

section \<open>The issuer of a compact token\<close>

lemma peekIssuer_compact:
  assumes "compact_jwt tok iss" "iss \<noteq> []"
  shows "peekIssuer tok = Inr iss"
  using assms splitn_on_three [OF b64_encode_sep_free(2) b64_encode_sep_free(2)]
  by (auto simp: compact_jwt_def peekIssuer_def)

lemma compact_jwt_wf:
  assumes "compact_jwt tok iss"
  shows "tok \<noteq> []" "CHR ''~'' \<notin> set tok"
  using assms b64_encode_sep_free(1) by (auto simp: compact_jwt_def)

section \<open>Accepted chains\<close>

text \<open>Token \<open>i\<close> is good when the validator of its issuer accepts it at depth \<open>i\<close>.\<close>

definition token_good :: "ext \<Rightarrow> (string \<rightharpoonup> AgentValidator) \<Rightarrow> time \<Rightarrow> nat \<Rightarrow> string \<Rightarrow> ValidatedAgent \<Rightarrow> bool" where
  "token_good L validators now i tok va \<longleftrightarrow> (\<exists>issuer v. peekIssuer tok = Inr issuer \<and>
     validators issuer = Some v \<and> AgentValidator_Validate L v now tok = Inr va \<and>
     ac_ChainDepth (va_Claims va) = int i)"

lemma validate_from_Cons_ok:
  "validate_from L vs clock i (tok # toks) = Inr r \<longleftrightarrow>
     (\<exists>va r'. r = va # r' \<and> token_good L vs (clock i) i tok va \<and> validate_from L vs clock (Suc i) toks = Inr r')"
  by (auto simp: token_good_def split: sum.splits option.splits)

lemma validate_from_ok:
  "validate_from L vs clock i toks = Inr r \<longleftrightarrow>
     length r = length toks \<and> (\<forall>j < length toks. token_good L vs (clock (i + j)) (i + j) (toks ! j) (r ! j))"
proof (induction toks arbitrary: i r)
  case (Cons tok toks)
  then show ?case
    by (cases r) (auto simp: validate_from_Cons_ok All_less_Suc2 simp del: validate_from.simps)
qed auto

lemma AgentChain_Validate_ok:
  "AgentChain_Validate L c vs clock = Inr r \<longleftrightarrow>
     c \<noteq> [] \<and> length r = length c \<and> (\<forall>j < length c. token_good L vs (clock j) j (c ! j) (r ! j))"
  by (simp add: AgentChain_Validate_def validate_from_ok)

lemma token_good_functional:
  assumes "jwt_functional L" "token_good L vs now i tok va" "token_good L vs' now' i' tok va'"
  shows "va = va'" "i = i'"
  using assms Validate_functional [OF assms(1)] unfolding token_good_def by fastforce+

text \<open>An error names the first token that is not good.\<close>

lemma validate_from_fault:
  assumes "validate_from L vs clock k toks = Inl (ChainAt i e)"
  shows "k \<le> i \<and> i < k + length toks \<and>
    (\<forall>j. k \<le> j \<and> j < i \<longrightarrow> (\<exists>va. token_good L vs (clock j) j (toks ! (j - k)) va)) \<and>
    (\<nexists>va. token_good L vs (clock i) i (toks ! (i - k)) va)"
  using assms
proof (induction toks arbitrary: k)
  case (Cons tok toks)
  show ?case
  proof (cases "\<exists>va. token_good L vs (clock k) k tok va")
    case True
    then have rest: "validate_from L vs clock (Suc k) toks = Inl (ChainAt i e)"
      using Cons.prems by (auto simp: token_good_def split: sum.splits)
    have nth: "(tok # toks) ! (j - k) = (if j = k then tok else toks ! (j - Suc k))" if "k \<le> j" for j
      using that by (auto simp: nth_Cons' )
    show ?thesis
      using Cons.IH [OF rest] True nth by (auto simp: Suc_le_eq)
  next
    case False
    then have "i = k"
      using Cons.prems by (auto simp: token_good_def split: sum.splits option.splits if_splits)
    with False show ?thesis by auto
  qed
qed simp

text \<open>Appending a token changes nothing of the tokens before it.\<close>

lemma validate_from_append:
  "validate_from L vs clock i (xs @ ys) = (case validate_from L vs clock i xs of
     Inl e \<Rightarrow> Inl e
   | Inr r \<Rightarrow> (case validate_from L vs clock (i + length xs) ys of Inl e \<Rightarrow> Inl e | Inr r' \<Rightarrow> Inr (r @ r')))"
  by (induction xs arbitrary: i) (auto split: sum.splits option.splits)

lemma AgentChain_Validate_Extend:
  assumes "AgentChain_Validate L c vs clock = Inr r" "AgentChain_Extend c tok = Inr d"
  shows "AgentChain_Validate L d vs clock = (case validate_from L vs clock (length c) [tok] of
    Inl e \<Rightarrow> Inl e | Inr r' \<Rightarrow> Inr (r @ r'))"
  using assms
  by (auto simp: AgentChain_Validate_def ok_simps validate_from_append simp del: validate_from.simps
      split: if_splits)

section \<open>Closed instances\<close>

definition ex_validators :: "string \<rightharpoonup> AgentValidator" where
  "ex_validators = [''https://idp'' \<mapsto> ex_validator]"

definition ex_chain :: chain where
  "ex_chain = [ex_token ''0'', ex_token ''1'']"

lemma ex_depth [simp]: "ac_ChainDepth (ex_claims d) = d"
  by (simp add: ex_claims_def issue_claims_def)

lemma ex_peek [simp]: "peekIssuer (ex_token sig) = Inr ''https://idp''"
  using peekIssuer_compact [OF ex_token_compact] by simp

lemma ex_chain_Validate:
  "AgentChain_Validate ex_lib ex_chain ex_validators (\<lambda>_. minute) =
     Inr [\<lparr>va_Claims = ex_claims 0, va_WorkloadKey = ec_Public key_two\<rparr>,
          \<lparr>va_Claims = ex_claims 1, va_WorkloadKey = ec_Public key_two\<rparr>]"
  "AgentChain_Validate ex_lib [ex_token ''0''] ex_validators (\<lambda>_. minute) =
     Inr [\<lparr>va_Claims = ex_claims 0, va_WorkloadKey = ec_Public key_two\<rparr>]"
  "AgentChain_Validate ex_lib [ex_token ''1''] ex_validators (\<lambda>_. minute) =
     Inl (ChainAt 0 (DepthMismatch 0 1))"
  by (simp_all add: AgentChain_Validate_def ex_chain_def ex_validators_def ex_Validate)

section \<open>Properties\<close>

text \<open>C10: \<open>Validate\<close> accepts a chain exactly when it is not empty and, for every position \<open>i\<close>, the
  token at \<open>i\<close> names an issuer that has a validator, that validator accepts it at the time it is
  reached, and its \<open>chain_depth\<close> is \<open>i\<close>; the results are those of the validators, in order.\<close>

theorem chain_Validate_iff:
  "AgentChain_Validate L c validators clock = Inr results \<longleftrightarrow>
     c \<noteq> [] \<and> length results = length c \<and>
     (\<forall>i < length c. \<exists>issuer v. peekIssuer (c ! i) = Inr issuer \<and> validators issuer = Some v \<and>
        AgentValidator_Validate L v (clock i) (c ! i) = Inr (results ! i) \<and>
        ac_ChainDepth (va_Claims (results ! i)) = int i)"
  by (simp add: AgentChain_Validate_ok token_good_def)

theorem chain_Validate_iff_witness:
  "peekIssuer (ex_chain ! 1) = Inr ''https://idp'' \<and>
   AgentValidator_Validate ex_lib ex_validator minute (ex_chain ! 1) =
     Inr \<lparr>va_Claims = ex_claims 1, va_WorkloadKey = ec_Public key_two\<rparr>"
proof -
  have "1 < length ex_chain"
    by (simp add: ex_chain_def)
  then show ?thesis
    using iffD1 [OF chain_Validate_iff ex_chain_Validate(1)]
    by (fastforce simp: ex_chain_def ex_validators_def)
qed

text \<open>When \<open>Validate\<close> fails at position \<open>i\<close>, the tokens before \<open>i\<close> were all good and the token
  at \<open>i\<close> was not: the error names the first offending token.\<close>

theorem chain_Validate_first_fault:
  assumes "AgentChain_Validate L c validators clock = Inl (ChainAt i e)"
  shows "i < length c \<and> (\<forall>j < i. \<exists>va. token_good L validators (clock j) j (c ! j) va) \<and>
    (\<nexists>va. token_good L validators (clock i) i (c ! i) va)"
proof -
  have "k \<le> i \<and> i < k + length toks \<and>
      (\<forall>j. k \<le> j \<and> j < i \<longrightarrow> (\<exists>va. token_good L validators (clock j) j (toks ! (j - k)) va)) \<and>
      (\<nexists>va. token_good L validators (clock i) i (toks ! (i - k)) va)"
    if "validate_from L validators clock k toks = Inl (ChainAt i e)" for k toks
    using that by (rule validate_from_fault)
  from this [of 0 c] assms show ?thesis
    by (auto simp: AgentChain_Validate_def split: if_splits)
qed

theorem chain_Validate_first_fault_witness:
  "\<nexists>va. token_good ex_lib ex_validators minute 0 (ex_token ''1'') va"
  using chain_Validate_first_fault [OF ex_chain_Validate(3)] by simp



text \<open>Parsing and printing of chains are inverse: \<open>ParseChain\<close> returns a chain exactly when it is
  a nonempty list of nonempty tokens without a tilde whose wire form is the input.\<close>

theorem ParseChain_String:
  "ParseChain s = Inr c \<longleftrightarrow>
     c \<noteq> [] \<and> (\<forall>t \<in> set c. t \<noteq> [] \<and> CHR ''~'' \<notin> set t) \<and> AgentChain_String c = s"
  by (simp add: ok_simps chain_wf_def)

theorem ParseChain_String_witness: "ParseChain ''a~b'' = Inr [''a'', ''b'']"
  by (rule iffD2 [OF ParseChain_String]) (simp add: AgentChain_String_def)

text \<open>The hash binds the whole chain: two parsed chains with the same \<open>Hash\<close> are equal, or their
  wire forms are a collision of SHA-256.\<close>

theorem chain_Hash_binding:
  assumes "ParseChain s = Inr c" "ParseChain t = Inr d" "AgentChain_Hash c = AgentChain_Hash d"
  shows "c = d \<or> sha256_collision s t"
  using assms Hash_binds by (auto simp: ok_simps)

theorem chain_Hash_binding_witness:
  "ParseChain ''a~b'' = Inr [''a'', ''b''] \<and> [''a'', ''b''] = [''a'', ''b'']"
proof -
  have parse: "ParseChain ''a~b'' = Inr [''a'', ''b'']"
    by (simp add: ParseChain_def)
  show ?thesis
    using chain_Hash_binding [OF parse parse refl] parse by blast
qed

text \<open>A delegation step.  Extending an accepted chain with a token that a trusted issuer has just
  issued at the next depth gives an accepted chain whose last agent is the new one.\<close>

theorem chain_delegation_step:
  assumes "jwt_complete L" "jwt_compact L" "jwt_es256 L" "jwt_dates L" "wit_faithful L agent_tags"
    and "AgentChain_Validate L c validators clock = Inr r"
    and "AgentIssuer_Issue L i opts now jti rnd = Inr tok"
    and "io_WorkloadKey opts = Some key" "p256_key key"
    and "io_ChainDepth opts = int (length c)" "go_int (int (length c))"
    and "PublicKeyToJWK (Some key) (io_KeyID opts) = Inr jwk"
    and "wire_ok L (issue_header L agentTokenType (io_KeyID opts))
           (agent_payload L (issue_claims L i opts jwk now jti))"
    and "ai_issuerID i \<noteq> []"
    and "validators (ai_issuerID i) = Some (NewAgentValidator (ai_issuerID i) (ec_Public (ai_sigKey i)) [])"
    and "now \<le> clock (length c)" "clock (length c) < jwt_numeric_date L (now + ai_ttl i)"
  shows "\<exists>d. AgentChain_Extend c tok = Inr d \<and> AgentChain_Validate L d validators clock =
    Inr (r @ [\<lparr>va_Claims = issue_claims L i opts jwk now jti, va_WorkloadKey = key\<rparr>])"
proof -
  let ?c = "issue_claims L i opts jwk now jti"
  have "jwt_sign L rnd (issue_header L agentTokenType (io_KeyID opts)) (agent_payload L ?c) (ai_sigKey i)
      = Inr tok"
    using assms(7,8,12) by (auto simp: AgentIssuer_Issue_ok)
  then have "compact_jwt tok (ai_issuerID i)"
    using assms(2,13) unfolding jwt_compact_def by (fastforce simp: agent_payload_def issue_claims_def)
  then have peek: "peekIssuer tok = Inr (ai_issuerID i)" and ne: "tok \<noteq> []"
    using peekIssuer_compact compact_jwt_wf assms(14) by blast+
  have "AgentValidator_Validate L (NewAgentValidator (ai_issuerID i) (ec_Public (ai_sigKey i)) [])
      (clock (length c)) tok = Inr \<lparr>va_Claims = ?c, va_WorkloadKey = key\<rparr>"
    using assms by (intro Validate_issued) (simp_all add: NewAgentValidator_def)
  with peek have "validate_from L validators clock (length c) [tok]
      = Inr [\<lparr>va_Claims = ?c, va_WorkloadKey = key\<rparr>]"
    using assms(10,15) by (simp add: issue_claims_def)
  then show ?thesis
    using AgentChain_Validate_Extend [OF assms(6)] ne by (auto simp: ok_simps)
qed

theorem chain_delegation_step_witness:
  "\<exists>d. AgentChain_Extend [ex_token ''0''] (ex_token ''1'') = Inr d \<and>
     AgentChain_Validate ex_lib d ex_validators (\<lambda>_. minute) =
       Inr ([\<lparr>va_Claims = ex_claims 0, va_WorkloadKey = ec_Public key_two\<rparr>]
         @ [\<lparr>va_Claims = issue_claims ex_lib ex_issuer (ex_opts 1) (jwk_of (ec_Public key_two) ''k1'') 0 ex_jti,
             va_WorkloadKey = ec_Public key_two\<rparr>])"
  by (rule chain_delegation_step [OF ex_lib_laws(3-7) ex_chain_Validate(2) ex_Issue(2)])
    (simp_all add: go_int_def ex_lib_parts ex_wire ex_validators_def ex_validator_def)

end
