(* ===== verification/JtiStore.thy ===== *)
theory JtiStore
  imports Prelude
begin

text \<open>
  Package \<open>pkg/identity\<close>, file \<open>store.go\<close>: the interface \<open>JTIStore\<close> as a locale, with the
  replay lemmas its clients rest on, and \<open>InMemoryJTIStore\<close>, which implements it.  A call of
  \<open>Record\<close> holds the mutex from the sweep to the return, so a history of concurrent calls is a
  sequence of calls.  The clock reading of \<open>Record\<close> is its first argument.
\<close>

datatype jti_error = ErrReplayed

type_synonym 's recorder = "time \<Rightarrow> string \<Rightarrow> time \<Rightarrow> 's \<Rightarrow> jti_error option \<times> 's"

section \<open>The interface\<close>

text \<open>A history of calls, each with its clock reading, identifier and expiry; the result is the
  list of the errors, and the store.\<close>

fun record_all :: "'s recorder \<Rightarrow> (time \<times> string \<times> time) list \<Rightarrow> 's \<Rightarrow> jti_error option list \<times> 's" where
  "record_all Record [] s = ([], s)"
| "record_all Record ((now, jti, exp) # cs) s = (case Record now jti exp s of
     (r, s') \<Rightarrow> (case record_all Record cs s' of (rs, s'') \<Rightarrow> (r # rs, s'')))"

text \<open>\<open>seen s jti\<close> is the expiry under which the store remembers an identifier.  The store may
  forget what has expired, nothing else.\<close>

locale jti_store =
  fixes Record :: "'s recorder" and seen :: "'s \<Rightarrow> string \<rightharpoonup> time"
  assumes record_replay: "seen s jti = Some e \<Longrightarrow> now \<le> e \<Longrightarrow> fst (Record now jti exp s) = Some ErrReplayed"
    and record_new: "Record now jti exp s = (None, s') \<Longrightarrow> seen s' jti = Some exp"
    and record_keeps: "seen s j = Some e \<Longrightarrow> now \<le> e \<Longrightarrow> Record now jti exp s = (r, s') \<Longrightarrow> seen s' j = Some e"
begin

lemma record_all_keeps:
  assumes "seen s j = Some e" "\<forall>(now, _) \<in> set cs. now \<le> e"
  shows "seen (snd (record_all Record cs s)) j = Some e"
  using assms
proof (induction cs arbitrary: s)
  case (Cons c cs)
  obtain now jti exp where c: "c = (now, jti, exp)"
    by (cases c)
  obtain r s' where call: "Record now jti exp s = (r, s')"
    by fastforce
  then have "seen s' j = Some e"
    using record_keeps [OF Cons.prems(1) _ call] Cons.prems(2) c by simp
  then have "seen (snd (record_all Record cs s')) j = Some e"
    using Cons.IH Cons.prems(2) by simp
  then show ?case
    using c call by (auto split: prod.splits)
qed simp

lemma record_all_append:
  "record_all Record (cs @ ds) s = (let (rs, s') = record_all Record cs s; (rs', s'') = record_all Record ds s' in (rs @ rs', s''))"
  by (induction cs arbitrary: s) (auto simp: Let_def split: prod.splits)

text \<open>An identifier that was accepted once is refused until the accepted call's expiry, whatever
  was recorded in between.\<close>

lemma no_replay:
  assumes "Record now jti exp s = (None, s1)" and "record_all Record cs s1 = (rs, s2)"
    and "\<forall>(t, _) \<in> set cs. t \<le> exp" and "now' \<le> exp"
  shows "fst (Record now' jti exp' s2) = Some ErrReplayed"
proof -
  have "seen s2 jti = Some exp"
    using record_all_keeps [OF record_new [OF assms(1)] assms(3)] assms(2) by simp
  then show ?thesis
    using record_replay assms(4) by blast
qed

end

section \<open>InMemoryJTIStore\<close>

record InMemoryJTIStore =
  seen :: "string \<rightharpoonup> time"

definition NewInMemoryJTIStore :: InMemoryJTIStore where
  "NewInMemoryJTIStore = \<lparr>seen = Map.empty\<rparr>"

text \<open>The sweep deletes every entry with \<open>now.After(expiry)\<close>.\<close>

definition sweep :: "time \<Rightarrow> (string \<rightharpoonup> time) \<Rightarrow> (string \<rightharpoonup> time)" where
  "sweep now m = (\<lambda>jti. case m jti of None \<Rightarrow> None | Some expiry \<Rightarrow> if expiry < now then None else Some expiry)"

definition InMemoryJTIStore_Record :: "InMemoryJTIStore recorder" where
  "InMemoryJTIStore_Record now jti exp s =
     (let m = sweep now (seen s) in
      if m jti \<noteq> None then (Some ErrReplayed, s\<lparr>seen := m\<rparr>)
      else (None, s\<lparr>seen := m(jti \<mapsto> exp)\<rparr>))"

lemma sweep_simps [simp]: "sweep now m j = Some e \<longleftrightarrow> m j = Some e \<and> now \<le> e"
  by (auto simp: sweep_def split: option.splits)

text \<open>After a call the store holds live entries only, the new one apart.\<close>

lemma Record_live:
  assumes "InMemoryJTIStore_Record now jti exp s = (r, s')" "seen s' j = Some e"
  shows "now \<le> e \<or> r = None \<and> j = jti \<and> e = exp"
  using assms by (auto simp: InMemoryJTIStore_Record_def Let_def split: if_splits)

interpretation mem: jti_store InMemoryJTIStore_Record seen
  by unfold_locales (auto simp: InMemoryJTIStore_Record_def Let_def split: if_splits)

section \<open>Properties\<close>

text \<open>C16: An identifier that the in-memory store accepted is refused from then on until its expiry,
  whatever else is recorded in between while the clock has not passed that expiry.\<close>

theorem Record_no_replay:
  assumes "InMemoryJTIStore_Record now jti exp s = (None, s1)"
    and "record_all InMemoryJTIStore_Record calls s1 = (rs, s2)"
    and "\<forall>(t, _) \<in> set calls. t \<le> exp" and "now' \<le> exp"
  shows "fst (InMemoryJTIStore_Record now' jti exp' s2) = Some ErrReplayed"
  using assms by (rule mem.no_replay)

theorem Record_no_replay_witness:
  "fst (InMemoryJTIStore_Record 4 ''a'' 9 \<lparr>seen = [''a'' \<mapsto> 5, ''b'' \<mapsto> 7]\<rparr>) = Some ErrReplayed"
  by (rule Record_no_replay [where now = 1 and s = NewInMemoryJTIStore and exp = 5
        and calls = "[(2, ''b'', 7)]" and ?s1.0 = "\<lparr>seen = [''a'' \<mapsto> 5]\<rparr>" and rs = "[None]"])
    (auto simp: InMemoryJTIStore_Record_def NewInMemoryJTIStore_def Let_def sweep_def fun_eq_iff)

text \<open>C17: After \<open>Record\<close> returns, the in-memory store holds only identifiers that have not expired,
  the one just recorded apart: its size is bounded by the live identifiers.\<close>

theorem Record_evicts:
  assumes "InMemoryJTIStore_Record now jti exp s = (r, s')"
  shows "dom (seen s') \<subseteq> insert jti {j. \<exists>e. seen s j = Some e \<and> now \<le> e} \<and>
    (r = Some ErrReplayed \<longleftrightarrow> (\<exists>e. seen s jti = Some e \<and> now \<le> e))"
  using assms by (auto simp: InMemoryJTIStore_Record_def Let_def split: if_splits)

theorem Record_evicts_witness:
  "dom (seen \<lparr>seen = [''a'' \<mapsto> (9::int)]\<rparr>) \<subseteq> {''a''}"
  using Record_evicts [of 6 "''a''" 9 "\<lparr>seen = [''b'' \<mapsto> 5]\<rparr>" None "\<lparr>seen = [''a'' \<mapsto> 9]\<rparr>"]
  by (auto simp: InMemoryJTIStore_Record_def Let_def sweep_def fun_eq_iff)

end
