(* ===== verification/AgentProof.thy ===== *)
theory AgentProof
  imports AgentChain JtiStore
begin

text \<open>
  Package \<open>pkg/identity\<close>, file \<open>proof.go\<close>: AgentProofTokens.  \<open>Validate\<close> is a function of the
  replay store it is given, which is any implementation of the interface \<open>JTIStore\<close>: its
  \<open>Record\<close> method is the argument \<open>Rec\<close> and its state \<open>pv_store\<close>.  The parser and the store
  read the clock separately, at \<open>now\<close> and \<open>now'\<close>.
\<close>

definition agentProofType :: string where
  "agentProofType = ''application/agent-proof+jwt''"

definition defaultProofTTL :: duration where
  "defaultProofTTL = 5 * minute"

record AgentProofClaims =
  ap_reg :: registered_claims
  ap_ChainHash :: string
  ap_Tth :: string

record ProofGenerateOptions =
  pg_TargetURI :: string
  pg_Chain :: chain
  pg_WorkloadKey :: "ec_private option"
  pg_TTL :: duration
  pg_TxnToken :: string

record 's ProofValidator =
  pv_store :: 's
  pv_parser :: parser_opts

record ProofValidateOptions =
  po_ProofToken :: string
  po_Chain :: chain
  po_RequestURI :: string
  po_WorkloadKey :: "ec_public option"
  po_CheckReplay :: bool
  po_TxnToken :: string

datatype generate_error = TargetURIRequired | ChainMustNotBeEmpty | GenerateWorkloadKeyRequired
  | SignProof string

datatype proof_error = ProofTokenRequired | ProofWorkloadKeyRequired | ParseProof string
  | ProofAudMismatch string "string list" | ChainHashMismatch string string | ProofTthMismatch
  | ProofMissingJti | ProofReplay jti_error | NilExpiry

section \<open>Marshalling\<close>

definition proof_payload :: "AgentProofClaims \<Rightarrow> payload" where
  "proof_payload c = \<lparr>pl_reg = ap_reg c,
     pl_priv = (''chain_hash'', JStr (ap_ChainHash c)) # omit_empty ''tth'' (ap_Tth c)\<rparr>"

definition proof_claims :: "payload \<Rightarrow> AgentProofClaims option" where
  "proof_claims pl = do {
     hash \<leftarrow> str_field ''chain_hash'' (pl_priv pl);
     tth \<leftarrow> str_field ''tth'' (pl_priv pl);
     Some \<lparr>ap_reg = pl_reg pl, ap_ChainHash = hash, ap_Tth = tth\<rparr>}"

section \<open>GenerateProof\<close>

definition generate_claims :: "ext \<Rightarrow> ProofGenerateOptions \<Rightarrow> time \<Rightarrow> bytes \<Rightarrow> AgentProofClaims" where
  "generate_claims L opts now jti =
     (let ttl = (if pg_TTL opts = 0 then defaultProofTTL else pg_TTL opts);
          tth = (if pg_TxnToken opts \<noteq> [] then hashToken (pg_TxnToken opts) else [])
      in \<lparr>ap_reg = \<lparr>rc_Issuer = [], rc_Subject = [], rc_Audience = [pg_TargetURI opts],
            rc_ExpiresAt = Some (jwt_numeric_date L (now + ttl)),
            rc_NotBefore = Some (jwt_numeric_date L now),
            rc_IssuedAt = Some (jwt_numeric_date L now), rc_ID = generateJTI jti\<rparr>,
          ap_ChainHash = AgentChain_Hash (pg_Chain opts), ap_Tth = tth\<rparr>)"

definition GenerateProof ::
  "ext \<Rightarrow> ProofGenerateOptions \<Rightarrow> time \<Rightarrow> bytes \<Rightarrow> bytes \<Rightarrow> generate_error + string" where
  "GenerateProof L opts now jti rnd =
     (if pg_TargetURI opts = [] then Inl TargetURIRequired
      else if AgentChain_Len (pg_Chain opts) = 0 then Inl ChainMustNotBeEmpty
      else (case pg_WorkloadKey opts of
        None \<Rightarrow> Inl GenerateWorkloadKeyRequired
      | Some key \<Rightarrow>
          (case jwt_sign L rnd (typ_header L agentProofType)
                  (proof_payload (generate_claims L opts now jti)) key of
             Inl e \<Rightarrow> Inl (SignProof e)
           | Inr token \<Rightarrow> Inr token)))"

section \<open>Validate\<close>

definition NewProofValidatorWithStore :: "'s \<Rightarrow> 's ProofValidator" where
  "NewProofValidatorWithStore s = \<lparr>pv_store = s, pv_parser = es256_opts\<rparr>"

definition NewProofValidator :: "InMemoryJTIStore ProofValidator" where
  "NewProofValidator = \<lparr>pv_store = NewInMemoryJTIStore, pv_parser = es256_opts\<rparr>"

definition ProofValidator_Validate :: "'s recorder \<Rightarrow> ext \<Rightarrow> 's ProofValidator \<Rightarrow> time \<Rightarrow> time
    \<Rightarrow> ProofValidateOptions \<Rightarrow> (proof_error + AgentProofClaims) \<times> 's ProofValidator" where
  "ProofValidator_Validate Rec L v now now' opts =
     (if po_ProofToken opts = [] then (Inl ProofTokenRequired, v)
      else (case po_WorkloadKey opts of
        None \<Rightarrow> (Inl ProofWorkloadKeyRequired, v)
      | Some key \<Rightarrow>
     (case parse_with_claims L (pv_parser v) now (po_ProofToken opts) proof_claims (typ_key agentProofType key) of
        Inl e \<Rightarrow> (Inl (ParseProof e), v)
      | Inr (_, claims) \<Rightarrow>
     if po_RequestURI opts \<notin> set (rc_Audience (ap_reg claims))
     then (Inl (ProofAudMismatch (po_RequestURI opts) (rc_Audience (ap_reg claims))), v)
     else if ap_ChainHash claims \<noteq> AgentChain_Hash (po_Chain opts)
     then (Inl (ChainHashMismatch (AgentChain_Hash (po_Chain opts)) (ap_ChainHash claims)), v)
     else if po_TxnToken opts \<noteq> [] \<and> ap_Tth claims \<noteq> hashToken (po_TxnToken opts)
     then (Inl ProofTthMismatch, v)
     else if po_CheckReplay opts then
       (if rc_ID (ap_reg claims) = [] then (Inl ProofMissingJti, v)
        else (case rc_ExpiresAt (ap_reg claims) of
          None \<Rightarrow> (Inl NilExpiry, v)
        | Some exp \<Rightarrow> (case Rec now' (rc_ID (ap_reg claims)) exp (pv_store v) of
            (Some e, s) \<Rightarrow> (Inl (ProofReplay e), v\<lparr>pv_store := s\<rparr>)
          | (None, s) \<Rightarrow> (Inr claims, v\<lparr>pv_store := s\<rparr>))))
     else (Inr claims, v))))"

section \<open>Lemmas\<close>

lemma proof_claims_payload [simp]: "proof_claims (proof_payload c) = Some c"
  by (simp add: proof_claims_def proof_payload_def json_field_defs omit_empty_def)

lemma proof_claims_reg: "proof_claims pl = Some c \<Longrightarrow> ap_reg c = pl_reg pl"
  by (auto simp: proof_claims_def split: Option.bind_splits)

lemma GenerateProof_ok:
  "GenerateProof L opts now jti rnd = Inr tok \<longleftrightarrow>
     (\<exists>key. pg_TargetURI opts \<noteq> [] \<and> pg_Chain opts \<noteq> [] \<and> pg_WorkloadKey opts = Some key \<and>
        jwt_sign L rnd (typ_header L agentProofType) (proof_payload (generate_claims L opts now jti)) key = Inr tok)"
  by (auto simp: GenerateProof_def AgentChain_Len_def split: sum.splits option.splits)

text \<open>What an accepted proof has passed, but for the replay check.\<close>

definition proof_checked ::
  "ext \<Rightarrow> parser_opts \<Rightarrow> time \<Rightarrow> ProofValidateOptions \<Rightarrow> AgentProofClaims \<Rightarrow> bool" where
  "proof_checked L po now opts c \<longleftrightarrow>
     po_ProofToken opts \<noteq> [] \<and>
     (\<exists>key h. po_WorkloadKey opts = Some key \<and>
        parse_with_claims L po now (po_ProofToken opts) proof_claims (typ_key agentProofType key) = Inr (h, c)) \<and>
     po_RequestURI opts \<in> set (rc_Audience (ap_reg c)) \<and>
     ap_ChainHash c = AgentChain_Hash (po_Chain opts) \<and>
     (po_TxnToken opts \<noteq> [] \<longrightarrow> ap_Tth c = hashToken (po_TxnToken opts))"

lemma ProofValidator_Validate_ok:
  "ProofValidator_Validate Rec L v now now' opts = (Inr c, v') \<longleftrightarrow>
     proof_checked L (pv_parser v) now opts c \<and>
     (if po_CheckReplay opts
      then rc_ID (ap_reg c) \<noteq> [] \<and> (\<exists>exp s. rc_ExpiresAt (ap_reg c) = Some exp \<and>
          Rec now' (rc_ID (ap_reg c)) exp (pv_store v) = (None, s) \<and> v' = v\<lparr>pv_store := s\<rparr>)
      else v' = v)"
  unfolding ProofValidator_Validate_def proof_checked_def
  by (auto split: sum.splits option.splits prod.splits)

lemma Validate_keeps_parser:
  "ProofValidator_Validate Rec L v now now' opts = (r, v') \<Longrightarrow> pv_parser v' = pv_parser v"
  by (auto simp: ProofValidator_Validate_def split: if_splits sum.splits option.splits prod.splits)

lemma proof_checked_sound:
  assumes "jwt_sound L" "proof_checked L po now opts c"
  shows "\<exists>key h. po_WorkloadKey opts = Some key \<and> jwt_sig_ok L key (po_ProofToken opts) \<and>
    header_str ''typ'' h = agentProofType \<and> claims_valid po now h (ap_reg c)"
proof -
  obtain key h where key: "po_WorkloadKey opts = Some key"
    and parse: "parse_with_claims L po now (po_ProofToken opts) proof_claims (typ_key agentProofType key) = Inr (h, c)"
    using assms(2) unfolding proof_checked_def by blast
  show ?thesis
    using parse_typ_sound [OF assms(1) parse] key proof_claims_reg by metis
qed

lemma proof_checked_functional:
  assumes "jwt_functional L" "proof_checked L po now opts c" "proof_checked L po' now' opts' c'"
    and "po_ProofToken opts' = po_ProofToken opts"
  shows "c' = c"
  using assms unfolding proof_checked_def jwt_functional_def parse_with_claims_ok
  by (metis option.inject)

text \<open>A generated proof passes all checks but the replay check.\<close>

lemma generated_checked:
  assumes "jwt_complete L" "jwt_es256 L" "jwt_dates L"
    and "GenerateProof L gen now jti rnd = Inr tok" "tok \<noteq> []"
    and "c = generate_claims L gen now jti"
    and "wire_ok L (typ_header L agentProofType) (proof_payload c)"
    and "pg_WorkloadKey gen = Some key" "rc_ExpiresAt (ap_reg c) = Some e" "now \<le> t" "t < e"
    and "po_ProofToken opts = tok" "po_Chain opts = pg_Chain gen" "po_RequestURI opts = pg_TargetURI gen"
    and "po_WorkloadKey opts = Some (ec_Public key)" "po_TxnToken opts = pg_TxnToken gen"
  shows "proof_checked L es256_opts t opts c"
proof -
  have sign: "jwt_sign L rnd (typ_header L agentProofType) (proof_payload c) key = Inr tok"
    using assms(4,6,8) by (auto simp: GenerateProof_ok)
  have "claims_valid es256_opts t (typ_header L agentProofType) (pl_reg (proof_payload c))"
    using assms(2,6,9-11) jwt_datesD(1) [OF assms(3), of now]
    by (simp add: claims_valid_def es256_opts_def proof_payload_def generate_claims_def Let_def jwt_es256_def)
  then have "parse_with_claims L es256_opts t tok proof_claims (typ_key agentProofType (ec_Public key))
      = Inr (typ_header L agentProofType, c)"
    by (intro parse_signed [OF assms(1) sign assms(7)]) (simp_all add: typ_key_def)
  then show ?thesis
    using assms(5,6,12-16) by (simp add: proof_checked_def generate_claims_def Let_def)
qed

section \<open>Replay\<close>

text \<open>A history of validations on one validator.\<close>

fun validate_all :: "'s recorder \<Rightarrow> ext \<Rightarrow> (time \<times> time \<times> ProofValidateOptions) list \<Rightarrow> 's ProofValidator
    \<Rightarrow> (proof_error + AgentProofClaims) list \<times> 's ProofValidator" where
  "validate_all Rec L [] v = ([], v)"
| "validate_all Rec L ((now, now', opts) # cs) v =
     (case ProofValidator_Validate Rec L v now now' opts of
        (r, v') \<Rightarrow> (case validate_all Rec L cs v' of (rs, v'') \<Rightarrow> (r # rs, v'')))"

context jti_store
begin

lemma Validate_keeps_seen:
  assumes "seen (pv_store v) j = Some e" "now' \<le> e"
    and "ProofValidator_Validate Record L v now now' opts = (r, v')"
  shows "seen (pv_store v') j = Some e"
  using assms record_keeps [OF assms(1,2)]
  by (auto simp: ProofValidator_Validate_def split: if_splits sum.splits option.splits prod.splits)

lemma validate_all_keeps:
  assumes "seen (pv_store v) j = Some e" "\<forall>(_, t, _) \<in> set cs. t \<le> e"
  shows "seen (pv_store (snd (validate_all Record L cs v))) j = Some e"
  using assms
proof (induction cs arbitrary: v)
  case (Cons c cs)
  obtain now now' opts where c: "c = (now, now', opts)"
    by (cases c)
  obtain r v' where call: "ProofValidator_Validate Record L v now now' opts = (r, v')"
    by fastforce
  have "seen (pv_store v') j = Some e"
    using Validate_keeps_seen [OF Cons.prems(1) _ call] Cons.prems(2) c by simp
  then have "seen (pv_store (snd (validate_all Record L cs v'))) j = Some e"
    using Cons.IH Cons.prems(2) by simp
  then show ?case
    using c call by (auto split: prod.splits)
qed simp

text \<open>The claims a validator accepted with replay detection carry an identifier that it does not
  accept again before their expiry.\<close>

lemma accepted_once:
  assumes "ProofValidator_Validate Record L v now now' opts = (Inr c, v1)" "po_CheckReplay opts"
    and "rc_ExpiresAt (ap_reg c) = Some e"
    and "validate_all Record L cs v1 = (rs, v2)" "\<forall>(_, t, _) \<in> set cs. t \<le> e"
    and "ProofValidator_Validate Record L v2 t t' opts' = (Inr c', v3)" "po_CheckReplay opts'" "t' \<le> e"
  shows "rc_ID (ap_reg c') \<noteq> rc_ID (ap_reg c)"
proof
  assume same: "rc_ID (ap_reg c') = rc_ID (ap_reg c)"
  obtain s where "Record now' (rc_ID (ap_reg c)) e (pv_store v) = (None, s)" "v1 = v\<lparr>pv_store := s\<rparr>"
    using assms(1-3) by (auto simp: ProofValidator_Validate_ok)
  then have "seen (pv_store v1) (rc_ID (ap_reg c)) = Some e"
    using record_new by auto
  then have "seen (pv_store v2) (rc_ID (ap_reg c')) = Some e"
    using validate_all_keeps [OF _ assms(5)] assms(4) same by (metis snd_conv)
  from record_replay [OF this assms(8)] have refused: "Record t' (rc_ID (ap_reg c')) exp (pv_store v2) \<noteq> (None, q)"
    for exp q by (metis fst_conv option.distinct(1))
  then show False
    using assms(6,7) by (auto simp: ProofValidator_Validate_ok)
qed

end

section \<open>Closed instances\<close>

definition ex_gen :: ProofGenerateOptions where
  "ex_gen = \<lparr>pg_TargetURI = ''https://gw/x'', pg_Chain = [''a'', ''b''], pg_WorkloadKey = Some key_two,
     pg_TTL = 0, pg_TxnToken = []\<rparr>"

definition ex_proof_claims :: AgentProofClaims where
  "ex_proof_claims = generate_claims (ledger_ext []) ex_gen 0 ex_jti"

definition ex_proof_lib :: ext where
  "ex_proof_lib = ledger_ext [\<lparr>le_text = ''p'', le_signer = key_two,
     le_token = \<lparr>tk_header = typ_header (ledger_ext []) agentProofType,
                 tk_payload = proof_payload ex_proof_claims\<rparr>\<rparr>]"

definition ex_val :: ProofValidateOptions where
  "ex_val = \<lparr>po_ProofToken = ''p'', po_Chain = [''a'', ''b''], po_RequestURI = ''https://gw/x'',
     po_WorkloadKey = Some (ec_Public key_two), po_CheckReplay = True, po_TxnToken = []\<rparr>"

lemma ex_proof_laws:
  "jwt_sound ex_proof_lib" "jwt_functional ex_proof_lib" "jwt_complete ex_proof_lib"
  "jwt_es256 ex_proof_lib" "jwt_dates ex_proof_lib"
  unfolding ex_proof_lib_def by (simp_all only: ledger_laws) (rule ledger_complete, simp)

lemma ex_proof_parts:
  "typ_header ex_proof_lib = typ_header (ledger_ext [])"
  "generate_claims ex_proof_lib = generate_claims (ledger_ext [])"
  by (simp_all add: ex_proof_lib_def fun_eq_iff generate_claims_def
      ledger_parts [of "[\<lparr>le_text = ''p'', le_signer = key_two, le_token = t\<rparr>]" for t])

lemma ex_Generate: "GenerateProof ex_proof_lib ex_gen 0 ex_jti rnd = Inr ''p''"
proof -
  have "jwt_sign ex_proof_lib rnd (typ_header (ledger_ext []) agentProofType) (proof_payload ex_proof_claims) key_two
      = Inr ''p''"
    by (simp add: ex_proof_lib_def ledger_ext_def)
  then show ?thesis
    by (simp add: GenerateProof_ok ex_proof_parts ex_proof_claims_def, simp add: ex_gen_def)
qed

lemma ex_proof_wire:
  "wire_ok ex_proof_lib (typ_header (ledger_ext []) agentProofType) (proof_payload ex_proof_claims)"
  by (simp add: wire_ok_def claims_wire_def proof_payload_def ex_proof_claims_def generate_claims_def
      typ_header_def ex_proof_lib_def ledger_ext_def ex_gen_def ex_jti_def generateJTI_def
      AgentChain_Hash_def b64_sha256_def agentProofType_def defaultProofTTL_def char_simps)

lemma ex_proof_reg:
  "rc_ID (ap_reg ex_proof_claims) = generateJTI ex_jti"
  "rc_ExpiresAt (ap_reg ex_proof_claims) = Some (5 * minute)"
  "rc_Audience (ap_reg ex_proof_claims) = [''https://gw/x'']"
  by (simp_all add: ex_proof_claims_def generate_claims_def ex_gen_def ledger_ext_def defaultProofTTL_def)

lemma ex_jti_ne: "jti_bytes ex_jti" "generateJTI ex_jti \<noteq> []"
  using generateJTI_ne [of ex_jti] by (simp_all add: jti_bytes_def ex_jti_def)

lemma ex_checked:
  assumes "0 \<le> t" "t < 5 * minute"
  shows "proof_checked ex_proof_lib es256_opts t ex_val ex_proof_claims"
  by (rule generated_checked [OF ex_proof_laws(3-5) ex_Generate, where key = key_two and c = ex_proof_claims])
    (use assms in \<open>simp_all add: ex_proof_parts ex_proof_wire ex_proof_reg flip: ex_proof_claims_def\<close>,
     simp_all add: ex_gen_def ex_val_def)

lemma ex_accepts:
  assumes "0 \<le> t" "t < 5 * minute"
  shows "ProofValidator_Validate InMemoryJTIStore_Record ex_proof_lib NewProofValidator t t' ex_val
    = (Inr ex_proof_claims, NewProofValidatorWithStore \<lparr>seen = [generateJTI ex_jti \<mapsto> 5 * minute]\<rparr>)"
  using ex_checked [OF assms] ex_jti_ne
  by (auto simp: ProofValidator_Validate_ok NewProofValidator_def NewProofValidatorWithStore_def ex_proof_reg
      InMemoryJTIStore_Record_def NewInMemoryJTIStore_def Let_def sweep_def fun_eq_iff ex_val_def)

section \<open>Properties\<close>

text \<open>C12: A generated proof is accepted, while it is valid, by a proof validator that is given the
  same target, chain, Transaction Token and the agent's public key, when its identifier is not
  live in the replay store; the store then remembers the identifier until the proof expires.\<close>

theorem GenerateProof_Validate:
  assumes "jwt_complete L" "jwt_es256 L" "jwt_dates L"
    and "GenerateProof L gen now jti rnd = Inr tok" "tok \<noteq> []" "jti_bytes jti"
    and "c = generate_claims L gen now jti"
    and "wire_ok L (typ_header L agentProofType) (proof_payload c)"
    and "pg_WorkloadKey gen = Some key" "rc_ExpiresAt (ap_reg c) = Some e" "now \<le> t" "t < e"
    and "opts = \<lparr>po_ProofToken = tok, po_Chain = pg_Chain gen, po_RequestURI = pg_TargetURI gen,
      po_WorkloadKey = Some (ec_Public key), po_CheckReplay = True, po_TxnToken = pg_TxnToken gen\<rparr>"
    and "\<forall>x. seen s (generateJTI jti) = Some x \<longrightarrow> x < t'"
  shows "\<exists>s'. ProofValidator_Validate InMemoryJTIStore_Record L (NewProofValidatorWithStore s) t t' opts
      = (Inr c, NewProofValidatorWithStore s') \<and> seen s' (generateJTI jti) = Some e"
proof -
  have "proof_checked L es256_opts t opts c"
    using assms by (intro generated_checked [OF assms(1-5,7-12)]) simp_all
  moreover obtain s' where "InMemoryJTIStore_Record t' (generateJTI jti) e s = (None, s')"
    "seen s' (generateJTI jti) = Some e"
    using assms(14) by (fastforce simp: InMemoryJTIStore_Record_def Let_def sweep_def split: option.splits)
  ultimately show ?thesis
    using assms(7,10,13) generateJTI_ne [OF assms(6)]
    by (auto simp: ProofValidator_Validate_ok NewProofValidatorWithStore_def generate_claims_def Let_def)
qed

theorem GenerateProof_Validate_witness:
  "\<exists>s'. ProofValidator_Validate InMemoryJTIStore_Record ex_proof_lib
      (NewProofValidatorWithStore NewInMemoryJTIStore) minute minute ex_val
      = (Inr (generate_claims ex_proof_lib ex_gen 0 ex_jti), NewProofValidatorWithStore s') \<and>
    seen s' (generateJTI ex_jti) = Some (5 * minute)"
  by (rule GenerateProof_Validate [OF ex_proof_laws(3-5) ex_Generate, where key = key_two])
    (simp_all add: ex_proof_parts ex_proof_wire ex_proof_reg flip: ex_proof_claims_def,
     simp_all add: ex_gen_def ex_val_def jti_bytes_def ex_jti_def NewInMemoryJTIStore_def)

text \<open>\<open>Validate\<close> accepts a proof only when its signature verifies under the presented workload
  key, its type and dates are right, its audience holds the request URI, its \<open>chain_hash\<close> is the
  hash of the presented chain and, when a Transaction Token is presented, its \<open>tth\<close> is the hash
  of that token; so a proof cannot be presented with another chain or another Transaction Token,
  unless SHA-256 collides.\<close>

theorem proof_binding:
  assumes "jwt_sound L" "jwt_functional L"
    and "ProofValidator_Validate Rec L (NewProofValidatorWithStore s) now now' opts = (Inr c, v')"
    and "ProofValidator_Validate Rec' L (NewProofValidatorWithStore s2) t t' opts2 = (Inr c2, v2)"
    and "po_ProofToken opts2 = po_ProofToken opts"
    and "chain_wf (po_Chain opts)" "chain_wf (po_Chain opts2)"
  shows "(\<exists>key e. po_WorkloadKey opts = Some key \<and> jwt_sig_ok L key (po_ProofToken opts) \<and>
      rc_ExpiresAt (ap_reg c) = Some e \<and> now < e) \<and>
    po_RequestURI opts \<in> set (rc_Audience (ap_reg c)) \<and>
    (po_Chain opts2 = po_Chain opts \<or>
      sha256_collision (AgentChain_String (po_Chain opts2)) (AgentChain_String (po_Chain opts))) \<and>
    (po_TxnToken opts \<noteq> [] \<and> po_TxnToken opts2 \<noteq> [] \<longrightarrow> po_TxnToken opts2 = po_TxnToken opts \<or>
      sha256_collision (po_TxnToken opts2) (po_TxnToken opts))"
proof -
  have checked: "proof_checked L es256_opts now opts c" "proof_checked L es256_opts t opts2 c2"
    using assms(3,4) by (auto simp: ProofValidator_Validate_ok NewProofValidatorWithStore_def)
  have [simp]: "c2 = c"
    using proof_checked_functional [OF assms(2) checked assms(5)] .
  obtain e where "rc_ExpiresAt (ap_reg c) = Some e" "now < e"
    using proof_checked_sound [OF assms(1) checked(1)]
    by (auto simp: claims_valid_def es256_opts_def split: option.splits)
  moreover have "AgentChain_Hash (po_Chain opts2) = AgentChain_Hash (po_Chain opts)"
    using checked by (simp add: proof_checked_def)
  moreover have "hashToken (po_TxnToken opts2) = hashToken (po_TxnToken opts)"
    if "po_TxnToken opts \<noteq> []" "po_TxnToken opts2 \<noteq> []"
    using checked that by (simp add: proof_checked_def)
  ultimately show ?thesis
    using proof_checked_sound [OF assms(1) checked(1)] checked(1) Hash_binds [OF assms(7,6)]
      b64_sha256_eq_cases [of "po_TxnToken opts2" "po_TxnToken opts"]
    unfolding hashToken_def proof_checked_def by blast
qed

theorem proof_binding_witness:
  "jwt_sig_ok ex_proof_lib (ec_Public key_two) ''p'' \<and> minute < 5 * minute"
proof -
  note run = ex_accepts [unfolded NewProofValidator_def, folded NewProofValidatorWithStore_def, of minute minute]
  show ?thesis
    using proof_binding [OF ex_proof_laws(1,2) run run] by (simp add: ex_val_def chain_wf_def ex_proof_reg)
qed

text \<open>Replay detection.  Once a validator on the in-memory store has accepted a proof, it never
  again accepts claims with the same identifier, whatever it validates in between, as long as its
  store's clock readings do not pass the expiry of the accepted proof.\<close>

theorem proof_accepted_once:
  assumes "ProofValidator_Validate InMemoryJTIStore_Record L v now now' opts = (Inr c, v1)"
    and "po_CheckReplay opts" "rc_ExpiresAt (ap_reg c) = Some e"
    and "validate_all InMemoryJTIStore_Record L calls v1 = (rs, v2)" "\<forall>(_, t, _) \<in> set calls. t \<le> e"
    and "ProofValidator_Validate InMemoryJTIStore_Record L v2 t t' opts' = (Inr c', v3)"
    and "po_CheckReplay opts'" "t' \<le> e"
  shows "rc_ID (ap_reg c') \<noteq> rc_ID (ap_reg c)"
  using assms by (rule mem.accepted_once)

theorem proof_accepted_once_witness:
  "ProofValidator_Validate InMemoryJTIStore_Record ex_proof_lib
     (NewProofValidatorWithStore \<lparr>seen = [generateJTI ex_jti \<mapsto> 5 * minute]\<rparr>) minute minute ex_val
   \<noteq> (Inr ex_proof_claims, NewProofValidatorWithStore NewInMemoryJTIStore)"
proof
  assume again: "ProofValidator_Validate InMemoryJTIStore_Record ex_proof_lib
     (NewProofValidatorWithStore \<lparr>seen = [generateJTI ex_jti \<mapsto> 5 * minute]\<rparr>) minute minute ex_val
   = (Inr ex_proof_claims, NewProofValidatorWithStore NewInMemoryJTIStore)"
  have first: "ProofValidator_Validate InMemoryJTIStore_Record ex_proof_lib NewProofValidator 0 0 ex_val
    = (Inr ex_proof_claims, NewProofValidatorWithStore \<lparr>seen = [generateJTI ex_jti \<mapsto> 5 * minute]\<rparr>)"
    by (rule ex_accepts) simp_all
  show False
    using proof_accepted_once [OF first _ _ _ _ again, of "5 * minute" "[]" "[]"]
    by (simp add: ex_val_def ex_proof_reg)
qed

text \<open>C13: The replay window.  The parser and the store read the clock separately.  A proof that was
  accepted once is accepted again when it is parsed before its expiry and recorded after it: the
  store evicts its identifier just before it looks it up.\<close>

theorem proof_replay_after_eviction:
  assumes "ProofValidator_Validate InMemoryJTIStore_Record L v now now' opts = (Inr c, v1)"
    and "po_CheckReplay opts" "rc_ExpiresAt (ap_reg c) = Some e"
    and "proof_checked L (pv_parser v) t opts c" and "e < t'"
  shows "\<exists>v2. ProofValidator_Validate InMemoryJTIStore_Record L v1 t t' opts = (Inr c, v2)"
proof -
  obtain s where s: "InMemoryJTIStore_Record now' (rc_ID (ap_reg c)) e (pv_store v) = (None, s)"
    and v1: "v1 = v\<lparr>pv_store := s\<rparr>" and jti: "rc_ID (ap_reg c) \<noteq> []"
    using assms(1-3) by (auto simp: ProofValidator_Validate_ok)
  have "seen s (rc_ID (ap_reg c)) = Some e"
    using mem.record_new [OF s] .
  then obtain s' where "InMemoryJTIStore_Record t' (rc_ID (ap_reg c)) e s = (None, s')"
    using assms(5) by (fastforce simp: InMemoryJTIStore_Record_def Let_def sweep_def)
  then show ?thesis
    using assms(2-4) v1 jti by (auto simp: ProofValidator_Validate_ok)
qed

theorem proof_replay_after_eviction_witness:
  "\<exists>v2. ProofValidator_Validate InMemoryJTIStore_Record ex_proof_lib
     (NewProofValidatorWithStore \<lparr>seen = [generateJTI ex_jti \<mapsto> 5 * minute]\<rparr>)
     (5 * minute - 1) (5 * minute + 1) ex_val = (Inr ex_proof_claims, v2)"
  by (rule proof_replay_after_eviction [OF ex_accepts [of 0 0], where e = "5 * minute"])
    (simp_all add: ex_proof_reg NewProofValidator_def ex_checked, simp add: ex_val_def)

end
