(* ===== verification/Authz.thy ===== *)
theory Authz
  imports Text
begin

text \<open>
  Package \<open>internal/authz\<close>, file \<open>authz.go\<close>: the interface \<open>Authorizer\<close> as a locale, the
  in-memory policy table and the OpenFGA back-end, which both implement it.  The OpenFGA client is
  a parameter.  The lemmas give the meaning of the policy table (default deny, first match, action
  inheritance) and the limits of the user names sent to OpenFGA.
\<close>

type_synonym Action = string

definition ActionCall :: Action where "ActionCall = ''can_call''"
definition ActionRead :: Action where "ActionRead = ''can_read''"
definition ActionWrite :: Action where "ActionWrite = ''can_write''"

record Decision =
  dc_Allowed :: bool
  dc_Reason :: string
  dc_Pending :: bool
  dc_ApprovalEndpoint :: string

text \<open>\<open>ToolParams\<close> is a map of decoded JSON values, which no authorizer of the program reads;
  its type is a parameter.\<close>

record 'p Request =
  rq_Subject :: string
  rq_Object :: string
  rq_Action :: Action
  rq_ToolParams :: "'p option"

datatype authz_error = SubjectAndObjectRequired | OpenFGACheck string

section \<open>The interface\<close>

text \<open>What a caller may rely on: a decision is only taken for a named subject and object, and a
  denial never leaks as an allowance that is also pending.\<close>

locale authorizer =
  fixes Authorize :: "'p Request \<Rightarrow> authz_error + Decision"
  assumes decided_names: "Authorize r = Inr d \<Longrightarrow> rq_Subject r \<noteq> [] \<and> rq_Object r \<noteq> []"
    and pending_denied: "Authorize r = Inr d \<Longrightarrow> dc_Pending d \<Longrightarrow> \<not> dc_Allowed d"
begin

text \<open>The two tests of a caller (pending first, then allowed) let through exactly the allowed.\<close>

lemma passes_iff_allowed:
  "Authorize r = Inr d \<Longrightarrow> (\<not> dc_Pending d \<and> dc_Allowed d) = dc_Allowed d"
  using pending_denied by blast

end

section \<open>InMemoryAuthorizer\<close>

record rule =
  ru_subject :: string
  ru_object :: string
  ru_action :: Action

record InMemoryAuthorizer =
  ia_rules :: "rule list"

definition NewInMemoryAuthorizer :: InMemoryAuthorizer where
  "NewInMemoryAuthorizer = \<lparr>ia_rules = []\<rparr>"

definition InMemoryAuthorizer_Allow :: "InMemoryAuthorizer \<Rightarrow> string \<Rightarrow> string \<Rightarrow> Action \<Rightarrow> InMemoryAuthorizer" where
  "InMemoryAuthorizer_Allow a subject object action =
     a\<lparr>ia_rules := ia_rules a @ [\<lparr>ru_subject = subject, ru_object = object, ru_action = action\<rparr>]\<rparr>"

definition matchSubject :: "string \<Rightarrow> string \<Rightarrow> bool" where
  "matchSubject ruleSubject subject \<longleftrightarrow> ruleSubject = ''*'' \<or> ruleSubject = subject"

definition actionSatisfies :: "Action \<Rightarrow> Action \<Rightarrow> bool" where
  "actionSatisfies granted requested \<longleftrightarrow>
     (if granted = requested then True
      else if requested = ActionRead \<and> (granted = ActionCall \<or> granted = ActionWrite) then True
      else False)"

definition rule_reason :: "rule \<Rightarrow> string" where
  "rule_reason r = ''rule: '' @ ru_subject r @ '' '' @ ru_action r @ '' '' @ ru_object r"

definition deny_reason :: "'p Request \<Rightarrow> string" where
  "deny_reason req = ''no rule permits '' @ rq_Subject req @ '' '' @ map chr [226, 134, 146] @ '' ''
     @ rq_Action req @ '' on '' @ rq_Object req"

fun authorize_loop :: "rule list \<Rightarrow> 'p Request \<Rightarrow> Decision" where
  "authorize_loop [] req =
     \<lparr>dc_Allowed = False, dc_Reason = deny_reason req, dc_Pending = False, dc_ApprovalEndpoint = []\<rparr>"
| "authorize_loop (r # rs) req =
     (if \<not> matchSubject (ru_subject r) (rq_Subject req) then authorize_loop rs req
      else if ru_object r \<noteq> rq_Object req then authorize_loop rs req
      else if actionSatisfies (ru_action r) (rq_Action req)
      then \<lparr>dc_Allowed = True, dc_Reason = rule_reason r, dc_Pending = False, dc_ApprovalEndpoint = []\<rparr>
      else authorize_loop rs req)"

definition InMemoryAuthorizer_Authorize :: "InMemoryAuthorizer \<Rightarrow> 'p Request \<Rightarrow> authz_error + Decision" where
  "InMemoryAuthorizer_Authorize a req =
     (if rq_Subject req = [] \<or> rq_Object req = [] then Inl SubjectAndObjectRequired
      else Inr (authorize_loop (ia_rules a) req))"

section \<open>OpenFGAAuthorizer\<close>

record OpenFGAConfig =
  oc_APIURL :: string
  oc_StoreID :: string
  oc_AuthorizationModelID :: string

datatype openfga_error = APIURLAndStoreIDRequired | CreateOpenFGAClient string

text \<open>The client is what \<open>client.NewSdkClient\<close> returns: here the function that its \<open>Check\<close>
  computes from user, relation and object.\<close>

type_synonym fga_client = "string \<Rightarrow> string \<Rightarrow> string \<Rightarrow> string + bool"

record OpenFGAAuthorizer =
  oa_c :: fga_client
  oa_storeID :: string
  oa_modelID :: string

text \<open>The SDK constructor gets the URL, the store and the model when one is configured.\<close>

definition NewOpenFGAAuthorizer ::
  "(string \<Rightarrow> string \<Rightarrow> string option \<Rightarrow> string + fga_client) \<Rightarrow> OpenFGAConfig \<Rightarrow> openfga_error + OpenFGAAuthorizer" where
  "NewOpenFGAAuthorizer NewSdkClient cfg =
     (if oc_APIURL cfg = [] \<or> oc_StoreID cfg = [] then Inl APIURLAndStoreIDRequired
      else (case NewSdkClient (oc_APIURL cfg) (oc_StoreID cfg)
                  (if oc_AuthorizationModelID cfg \<noteq> [] then Some (oc_AuthorizationModelID cfg) else None) of
        Inl e \<Rightarrow> Inl (CreateOpenFGAClient e)
      | Inr c \<Rightarrow> Inr \<lparr>oa_c = c, oa_storeID = oc_StoreID cfg, oa_modelID = oc_AuthorizationModelID cfg\<rparr>))"

text \<open>\<open>strings.NewReplacer\<close> compares in argument order at each position and never rereads
  what it wrote.\<close>

fun escapeURI :: "string \<Rightarrow> string" where
  "escapeURI [] = []"
| "escapeURI (c # s) =
     (if has_prefix (c # s) ''://'' then CHR ''_'' # escapeURI (drop 2 s)
      else if c = CHR ''/'' then CHR ''_'' # escapeURI s
      else if c = CHR ''.'' then CHR ''-'' # escapeURI s
      else c # escapeURI s)"

definition OpenFGAAuthorizer_Authorize :: "OpenFGAAuthorizer \<Rightarrow> 'p Request \<Rightarrow> authz_error + Decision" where
  "OpenFGAAuthorizer_Authorize a req =
     (if rq_Subject req = [] \<or> rq_Object req = [] then Inl SubjectAndObjectRequired
      else (let user = ''agent:'' @ escapeURI (rq_Subject req) in
        case oa_c a user (rq_Action req) (rq_Object req) of
          Inl e \<Rightarrow> Inl (OpenFGACheck e)
        | Inr allowed \<Rightarrow> Inr \<lparr>dc_Allowed = allowed,
            dc_Reason = (if allowed then ''OpenFGA: allowed'' else ''OpenFGA: denied''),
            dc_Pending = False, dc_ApprovalEndpoint = []\<rparr>))"

section \<open>Lemmas\<close>

definition rule_matches :: "'p Request \<Rightarrow> rule \<Rightarrow> bool" where
  "rule_matches req r \<longleftrightarrow> matchSubject (ru_subject r) (rq_Subject req) \<and> ru_object r = rq_Object req
     \<and> actionSatisfies (ru_action r) (rq_Action req)"

text \<open>The loop is a search for the first rule that matches.\<close>

lemma authorize_loop_find:
  "authorize_loop rs req = (case find (rule_matches req) rs of
     None \<Rightarrow> \<lparr>dc_Allowed = False, dc_Reason = deny_reason req, dc_Pending = False, dc_ApprovalEndpoint = []\<rparr>
   | Some r \<Rightarrow> \<lparr>dc_Allowed = True, dc_Reason = rule_reason r, dc_Pending = False, dc_ApprovalEndpoint = []\<rparr>)"
  by (induction rs) (auto simp: rule_matches_def)

lemma authorize_loop_simps [simp]:
  "dc_Pending (authorize_loop rs req) = False"
  "dc_Allowed (authorize_loop rs req) \<longleftrightarrow> (\<exists>r \<in> set rs. rule_matches req r)"
  by (auto simp: authorize_loop_find find_None_iff find_Some_iff split: option.splits)

lemma actionSatisfies_refl [simp]: "actionSatisfies a a"
  by (simp add: actionSatisfies_def)

lemma actionSatisfies_trans: "actionSatisfies a b \<Longrightarrow> actionSatisfies b c \<Longrightarrow> actionSatisfies a c"
  by (auto simp: actionSatisfies_def ActionRead_def ActionCall_def ActionWrite_def split: if_splits)

interpretation memory: authorizer "InMemoryAuthorizer_Authorize a"
  by unfold_locales (auto simp: InMemoryAuthorizer_Authorize_def split: if_splits)

interpretation openfga: authorizer "OpenFGAAuthorizer_Authorize a"
  by unfold_locales (auto simp: OpenFGAAuthorizer_Authorize_def Let_def split: if_splits sum.splits)

text \<open>What OpenFGA gets as a user name has no slash and no dot.\<close>

lemma escapeURI_clean: "CHR ''/'' \<notin> set (escapeURI s) \<and> CHR ''.'' \<notin> set (escapeURI s)"
  by (induction s rule: escapeURI.induct) auto

text \<open>A dot and a hyphen are written alike.\<close>

lemma escapeURI_dot_hyphen: "escapeURI (p @ CHR ''.'' # q) = escapeURI (p @ CHR ''-'' # q)"
proof (induction p rule: escapeURI.induct)
  case (2 c s)
  show ?case
  proof (cases "has_prefix (c # s) ''://''")
    case True
    then obtain r where "c # s = ''://'' @ r"
      by (auto simp: has_prefix_iff)
    with 2(1) [OF True] show ?thesis by simp
  next
    case False
    have "has_prefix (c # s @ x # q) ''://'' = has_prefix (c # s) ''://''" if "x \<noteq> CHR ''/''" for x
      using that by (cases s; cases "tl s") auto
    with False 2(2-) show ?thesis by auto
  qed
qed simp

section \<open>Properties\<close>

text \<open>C14: The in-memory authorizer denies by default: for a named subject and object it allows a
  request exactly when some rule names the subject (or any), the same object, and an action that
  is the requested one, or any of call and write when reading is requested.\<close>

theorem Authorize_iff:
  "(\<exists>d. InMemoryAuthorizer_Authorize a req = Inr d \<and> dc_Allowed d) \<longleftrightarrow>
     rq_Subject req \<noteq> [] \<and> rq_Object req \<noteq> [] \<and>
     (\<exists>r \<in> set (ia_rules a). (ru_subject r = ''*'' \<or> ru_subject r = rq_Subject req) \<and>
        ru_object r = rq_Object req \<and>
        (ru_action r = rq_Action req \<or>
         rq_Action req = ''can_read'' \<and> ru_action r \<in> {''can_call'', ''can_write''}))"
  by (auto simp: InMemoryAuthorizer_Authorize_def rule_matches_def matchSubject_def actionSatisfies_def
      ActionRead_def ActionCall_def ActionWrite_def)

text \<open>\<open>Allow\<close> grants exactly the requests its rule matches and revokes none.\<close>

theorem Allow_grants:
  assumes "rq_Subject req \<noteq> []" "rq_Object req \<noteq> []"
  shows "(\<exists>d. InMemoryAuthorizer_Authorize (InMemoryAuthorizer_Allow a s ob act) req = Inr d \<and> dc_Allowed d) \<longleftrightarrow>
    (\<exists>d. InMemoryAuthorizer_Authorize a req = Inr d \<and> dc_Allowed d) \<or>
    (s = ''*'' \<or> s = rq_Subject req) \<and> ob = rq_Object req \<and> actionSatisfies act (rq_Action req)"
  using assms
  by (auto simp: InMemoryAuthorizer_Authorize_def InMemoryAuthorizer_Allow_def rule_matches_def matchSubject_def)

theorem Allow_grants_witness:
  "\<exists>d. InMemoryAuthorizer_Authorize
     (InMemoryAuthorizer_Allow NewInMemoryAuthorizer ''*'' ''tool:echo'' ActionCall)
     \<lparr>rq_Subject = ''spiffe://a/b'', rq_Object = ''tool:echo'', rq_Action = ActionRead,
      rq_ToolParams = None :: unit option\<rparr> = Inr d \<and> dc_Allowed d"
  by (subst Allow_grants) (simp_all add: actionSatisfies_def)

text \<open>The OpenFGA user name does not identify the subject: every OpenFGA back-end answers alike
  for two subjects whose URIs differ only in a dot of one where the other has a hyphen, as the
  SPIFFE IDs of the trust domains \<open>corp.example\<close> and \<open>corp-example\<close> do.\<close>

theorem OpenFGA_subjects_confused:
  assumes "rq_Subject req = p @ ''.'' @ q" and "rq_Subject req' = p @ ''-'' @ q"
    and "rq_Object req' = rq_Object req" "rq_Action req' = rq_Action req"
  shows "rq_Subject req' \<noteq> rq_Subject req \<and>
    OpenFGAAuthorizer_Authorize a req' = OpenFGAAuthorizer_Authorize a req"
  using assms escapeURI_dot_hyphen [of p q] by (auto simp: OpenFGAAuthorizer_Authorize_def)

definition ex_fga :: OpenFGAAuthorizer where
  "ex_fga = \<lparr>oa_c = (\<lambda>user rel ob. Inr (user = ''agent:spiffe_corp-example_x'')), oa_storeID = ''s'', oa_modelID = []\<rparr>"

definition ex_fga_req :: "string \<Rightarrow> unit Request" where
  "ex_fga_req sub = \<lparr>rq_Subject = sub, rq_Object = ''tool:t'', rq_Action = ActionCall, rq_ToolParams = None\<rparr>"

theorem OpenFGA_subjects_confused_witness:
  "OpenFGAAuthorizer_Authorize ex_fga (ex_fga_req ''spiffe://corp-example/x'') =
   OpenFGAAuthorizer_Authorize ex_fga (ex_fga_req ''spiffe://corp.example/x'') \<and>
   ''spiffe://corp-example/x'' \<noteq> ''spiffe://corp.example/x''"
  using OpenFGA_subjects_confused [of "ex_fga_req ''spiffe://corp.example/x''" "''spiffe://corp''" "''example/x''"
      "ex_fga_req ''spiffe://corp-example/x''" ex_fga]
  by (simp add: ex_fga_req_def)

end
