(* ===== verification/Middleware.thy ===== *)
theory Middleware
  imports AgentProof Authz
begin

text \<open>
  Package \<open>internal/authz\<close>, file \<open>middleware.go\<close>: the Gin middleware that authenticates an agent
  and asks the authorizer, with the parts of a request that it shares with the gateway.  A response
  is the status and the reason of an abort, or the agent and the chain that the middleware puts in
  the context before it calls the next handler.
\<close>

definition HeaderAgentIdentityToken :: string where
  "HeaderAgentIdentityToken = ''Agent-Identity-Token''"
definition HeaderAgentChainToken :: string where
  "HeaderAgentChainToken = ''Agent-Chain-Token''"
definition HeaderAgentProofToken :: string where
  "HeaderAgentProofToken = ''Agent-Proof-Token''"

text \<open>A certificate is its URI SANs; the TLS state is the list of peer certificates.\<close>

type_synonym certificate = "string list"

record http_request =
  hq_Header :: "string \<Rightarrow> string"       \<comment> \<open>\<open>GetHeader\<close>: empty when absent\<close>
  hq_Host :: string
  hq_RequestURI :: string               \<comment> \<open>as sent\<close>
  hq_URLRequestURI :: string            \<comment> \<open>\<open>URL.RequestURI()\<close>\<close>
  hq_TLS :: "certificate list option"
  hq_Body :: "(string + bytes) option"  \<comment> \<open>\<open>nil\<close>, or what reading it gives\<close>
  hq_ContentLength :: int

record auth_clocks =
  ak_leaf :: "nat \<Rightarrow> time"
  ak_chain :: "nat \<Rightarrow> time"
  ak_proof :: time
  ak_record :: time

datatype abort_reason = MissingHeader string | InvalidIdentityToken validate_error
  | InvalidAgentChain chain_error | ChainValidationFailed chain_error
  | InvalidProofToken proof_error | AuthzError authz_error | AccessDenied string

datatype auth_response = Abort nat abort_reason | Next ValidatedAgent chain

definition proof_options :: "string \<Rightarrow> chain \<Rightarrow> string \<Rightarrow> ec_public \<Rightarrow> ProofValidateOptions" where
  "proof_options proofTok chain requestURI key = \<lparr>po_ProofToken = proofTok, po_Chain = chain,
     po_RequestURI = requestURI, po_WorkloadKey = Some key, po_CheckReplay = True, po_TxnToken = []\<rparr>"

definition AgentAuth :: "'s recorder \<Rightarrow> ext \<Rightarrow> AgentValidator \<Rightarrow> (string \<rightharpoonup> AgentValidator)
    \<Rightarrow> ('p Request \<Rightarrow> authz_error + Decision) \<Rightarrow> string \<Rightarrow> Action \<Rightarrow> auth_clocks \<Rightarrow> http_request
    \<Rightarrow> 's ProofValidator \<Rightarrow> auth_response \<times> 's ProofValidator" where
  "AgentAuth Rec L leafValidator chainValidators authorize obj action ck c pv =
     (let leafTok = hq_Header c HeaderAgentIdentityToken in
      if leafTok = [] then (Abort 401 (MissingHeader HeaderAgentIdentityToken), pv)
      else (case AgentValidator_Validate L leafValidator (ak_leaf ck 0) leafTok of
        Inl e \<Rightarrow> (Abort 401 (InvalidIdentityToken e), pv)
      | Inr va \<Rightarrow>
     (let chainStr = hq_Header c HeaderAgentChainToken in
      if chainStr = [] then (Abort 401 (MissingHeader HeaderAgentChainToken), pv)
      else (case ParseChain chainStr of
        Inl e \<Rightarrow> (Abort 401 (InvalidAgentChain e), pv)
      | Inr chain \<Rightarrow>
     (case AgentChain_Validate L chain chainValidators (ak_chain ck) of
        Inl e \<Rightarrow> (Abort 401 (ChainValidationFailed e), pv)
      | Inr _ \<Rightarrow>
     (let proofTok = hq_Header c HeaderAgentProofToken in
      if proofTok = [] then (Abort 401 (MissingHeader HeaderAgentProofToken), pv)
      else (let requestURI = ''https://'' @ hq_Host c @ hq_RequestURI c in
     (case ProofValidator_Validate Rec L pv (ak_proof ck) (ak_record ck)
             (proof_options proofTok chain requestURI (va_WorkloadKey va)) of
        (Inl e, pv') \<Rightarrow> (Abort 401 (InvalidProofToken e), pv')
      | (Inr _, pv') \<Rightarrow>
     (case authorize \<lparr>rq_Subject = rc_Subject (ac_reg (va_Claims va)), rq_Object = obj,
             rq_Action = action, rq_ToolParams = None\<rparr> of
        Inl e \<Rightarrow> (Abort 500 (AuthzError e), pv')
      | Inr decision \<Rightarrow>
          if \<not> dc_Allowed decision then (Abort 403 (AccessDenied (dc_Reason decision)), pv')
          else (Next va chain, pv'))))))))))"

text \<open>The middleware calls the next handler only after every check.\<close>

lemma AgentAuth_Next:
  "AgentAuth Rec L lv cvs authorize obj action ck c pv = (Next va chain, pv') \<longleftrightarrow>
     hq_Header c HeaderAgentIdentityToken \<noteq> [] \<and> hq_Header c HeaderAgentChainToken \<noteq> [] \<and>
     hq_Header c HeaderAgentProofToken \<noteq> [] \<and>
     AgentValidator_Validate L lv (ak_leaf ck 0) (hq_Header c HeaderAgentIdentityToken) = Inr va \<and>
     ParseChain (hq_Header c HeaderAgentChainToken) = Inr chain \<and>
     (\<exists>vas claims d. AgentChain_Validate L chain cvs (ak_chain ck) = Inr vas \<and>
        ProofValidator_Validate Rec L pv (ak_proof ck) (ak_record ck)
          (proof_options (hq_Header c HeaderAgentProofToken) chain
            (''https://'' @ hq_Host c @ hq_RequestURI c) (va_WorkloadKey va)) = (Inr claims, pv') \<and>
        authorize \<lparr>rq_Subject = rc_Subject (ac_reg (va_Claims va)), rq_Object = obj,
          rq_Action = action, rq_ToolParams = None\<rparr> = Inr d \<and> dc_Allowed d)"
  by (auto simp: AgentAuth_def Let_def split: sum.splits prod.splits if_splits)

text \<open>The proof validator changes only when all checks before the replay check passed.\<close>

lemma AgentAuth_state:
  "AgentAuth Rec L lv cvs authorize obj action ck c pv = (r, pv') \<Longrightarrow> pv' \<noteq> pv \<Longrightarrow>
     \<exists>opts x. ProofValidator_Validate Rec L pv (ak_proof ck) (ak_record ck) opts = (x, pv') \<and> po_CheckReplay opts"
  by (auto simp: AgentAuth_def Let_def proof_options_def split: sum.splits prod.splits if_splits)

end
