(* ===== verification/Remarshal.thy ===== *)
theory Remarshal
  imports Keys "HOL-Library.Char_ord" "HOL-Library.List_Lexorder" "HOL-Library.Multiset"
begin

text \<open>
  The detour through Go maps: code that unmarshals JSON into \<open>map[string]interface{}\<close> and marshals
  it again sorts the members of every object by name and keeps the last of those with the same
  name (\<open>toMap\<close> of \<open>pkg/federation\<close>, \<open>MapClaims\<close>, and the header of a DPoP proof in
  \<open>pkg/cb4a\<close>).  A JWK survives it.  Numbers are taken as integers up to \<open>2^53\<close>, which a
  \<open>float64\<close> holds exactly.
\<close>

section \<open>Marshalling a map\<close>

text \<open>The entries of a Go map as they are marshalled: sorted by name, the last one of each name.\<close>

definition members_sorted :: "(string \<times> 'a) list \<Rightarrow> (string \<times> 'a) list" where
  "members_sorted ms = map (\<lambda>k. (k, the (map_of (rev ms) k))) (sort (remdups (map fst ms)))"

fun remarshal :: "json \<Rightarrow> json" where
  "remarshal (JObj ms) = JObj (members_sorted (map (\<lambda>(k, v). (k, remarshal v)) ms))"
| "remarshal (JArr vs) = JArr (map remarshal vs)"
| "remarshal v = v"

text \<open>A list that is already in that form stays as it is.\<close>

definition canonical_map :: "(string \<times> 'a) list \<Rightarrow> bool" where
  "canonical_map ms \<longleftrightarrow> sorted (map fst ms) \<and> distinct (map fst ms)"

lemma members_sorted_canonical: "canonical_map ms \<Longrightarrow> members_sorted ms = ms"
proof -
  assume c: "canonical_map ms"
  have "map_of (rev ms) (fst m) = Some (snd m)" if "m \<in> set ms" for m
    using that c map_of_eq_Some_iff [of "rev ms" "fst m" "snd m"] by (simp add: canonical_map_def rev_map [symmetric])
  then have "map ((\<lambda>k. (k, the (map_of (rev ms) k))) \<circ> fst) ms = ms"
    by (intro map_idI) auto
  then show ?thesis
    using c by (simp add: members_sorted_def canonical_map_def distinct_remdups_id sorted_sort_id)
qed

lemma canonical_map_Nil [simp]: "canonical_map []"
  by (simp add: canonical_map_def)

lemma canonical_members_sorted: "canonical_map (members_sorted ms)"
  by (simp add: canonical_map_def members_sorted_def comp_def)

section \<open>What the detour keeps\<close>

text \<open>Sorting an object of distinct names permutes it, which no single field notices.\<close>

lemma mset_members_sorted:
  assumes "distinct (map fst ms)"
  shows "mset (members_sorted ms) = mset ms"
proof -
  have val: "the (map_of (rev ms) k) = v" if "(k, v) \<in> set ms" for k v
    using that assms map_of_eq_Some_iff [of "rev ms" k v] by (simp add: rev_map [symmetric])
  have "mset (members_sorted ms) = image_mset (\<lambda>k. (k, the (map_of (rev ms) k))) (mset (map fst ms))"
    using assms by (simp add: members_sorted_def distinct_remdups_id)
  also have "\<dots> = mset (map (\<lambda>m. (fst m, the (map_of (rev ms) (fst m)))) ms)"
    by (simp add: multiset.map_comp comp_def)
  also have "map (\<lambda>m. (fst m, the (map_of (rev ms) (fst m)))) ms = ms"
    using val by (intro map_idI) auto
  finally show ?thesis .
qed

lemma json_get_sorted:
  assumes "distinct (map fst ms)" "length (json_get tag ms) \<le> 1"
  shows "json_get tag (members_sorted ms) = json_get tag ms"
proof -
  have "mset (json_get tag xs) = image_mset snd (filter_mset (\<lambda>m. fold_key (fst m) = fold_key tag) (mset xs))" for xs
    by (induction xs) auto
  then have "mset (json_get tag (members_sorted ms)) = mset (json_get tag ms)"
    by (simp add: mset_members_sorted [OF assms(1)])
  then show ?thesis
    using assms(2) by (cases "json_get tag ms") auto
qed

text \<open>The members of the JSON of a JWK, in any order.\<close>

definition jwk_tags :: "JWK \<Rightarrow> (string \<times> string) list" where
  "jwk_tags j = [(''kty'', jwk_Kty j), (''crv'', jwk_Crv j), (''x'', jwk_X j), (''y'', jwk_Y j),
     (''alg'', jwk_Alg j)]"

definition jwk_members :: "JWK \<Rightarrow> (string \<times> json) list \<Rightarrow> bool" where
  "jwk_members j ms \<longleftrightarrow> distinct (map fst ms) \<and> (\<forall>m \<in> set ms. remarshal (snd m) = snd m) \<and>
     (\<forall>(t, s) \<in> set (jwk_tags j). json_get t ms = [JStr s]) \<and>
     json_get ''kid'' ms = (if jwk_Kid j = [] then [] else [JStr (jwk_Kid j)])"

lemma JWKFromRawMessage_members: "jwk_members j ms \<Longrightarrow> JWKFromRawMessage (JObj ms) = Some j"
  by (cases j) (simp add: jwk_members_def jwk_tags_def JWKFromRawMessage_def json_field_defs split: if_splits)

lemma jwk_members_sorted:
  assumes "jwk_members j ms"
  shows "remarshal (JObj ms) = JObj (members_sorted ms)" "jwk_members j (members_sorted ms)"
proof -
  have "map (\<lambda>(k, v). (k, remarshal v)) ms = ms"
    using assms by (intro map_idI) (auto simp: jwk_members_def)
  then show "remarshal (JObj ms) = JObj (members_sorted ms)"
    by simp
  have d: "distinct (map fst ms)"
    using assms by (simp add: jwk_members_def)
  have perm: "set (members_sorted ms) = set ms" "distinct (map fst (members_sorted ms))"
    using mset_members_sorted [OF d] d by (metis mset_eq_setD, metis mset_map mset_eq_imp_distinct_iff)
  show "jwk_members j (members_sorted ms)"
    using assms perm json_get_sorted [OF d] by (auto simp: jwk_members_def jwk_tags_def split: if_splits)
qed

lemma jwk_members_json: "\<exists>ms. jwk_to_json j = JObj ms \<and> jwk_members j ms"
  by (auto simp: jwk_to_json_def jwk_members_def jwk_tags_def omit_empty_def)

lemma remarshal_jwk:
  "\<exists>ms. remarshal (jwk_to_json j) = JObj ms \<and> jwk_members j ms"
  "\<exists>ms. remarshal (remarshal (jwk_to_json j)) = JObj ms \<and> jwk_members j ms"
  using jwk_members_json [of j] jwk_members_sorted by metis+

lemma members_sorted_single [simp]: "members_sorted [(k, v)] = [(k, v)]"
  by (simp add: members_sorted_def)

lemma JWKFromRawMessage_remarshal [simp]:
  "JWKFromRawMessage (remarshal (remarshal (jwk_to_json j))) = Some j"
  using remarshal_jwk(2) JWKFromRawMessage_members by metis

end
