(* ===== verification/Federation.thy ===== *)
theory Federation
  imports AgentChain Remarshal
begin

text \<open>
  Package \<open>pkg/federation\<close>: entity configurations and subordinate statements (\<open>entity.go\<close>) and
  the two resolvers of trust chains with their caches (\<open>resolver.go\<close>).  The interface
  \<open>Resolver\<close> is a locale: what a resolver returns was certified by a trust anchor.  A parsed
  statement is a \<open>MapClaims\<close>, which the code marshals and unmarshals again; that detour sorts the
  members of every object and keeps the last of those with the same name.  Numbers in that detour
  are taken as integers up to \<open>2^53\<close>, which a \<open>float64\<close> holds exactly.
\<close>

definition entityStatementTyp :: string where
  "entityStatementTyp = ''entity-statement+jwt''"

section \<open>Data\<close>

type_synonym JWKS = "JWK list"

record AgentIdPMetadata =
  am_Issuer :: string
  am_JWKSURI :: string
  am_TokenEndpoint :: string

record FederationEntityMetadata =
  fm_FederationFetchEndpoint :: string
  fm_OrganizationName :: string

record EntityMetadata =
  em_AgentIdP :: "AgentIdPMetadata option"
  em_FederationEntity :: "FederationEntityMetadata option"

record EntityConfiguration =
  en_Issuer :: string
  en_Subject :: string
  en_IssuedAt :: int
  en_ExpiresAt :: int
  en_JWKS :: JWKS
  en_Metadata :: "EntityMetadata option"
  en_AuthorityHints :: "string list"

record SubordinateStatement =
  ss_Issuer :: string
  ss_Subject :: string
  ss_IssuedAt :: int
  ss_ExpiresAt :: int
  ss_JWKS :: JWKS
  ss_Metadata :: "EntityMetadata option"

datatype statement_error = SerializeStatementJWK key_error | SignStatement string
  | PeekNotCompact | PeekDecode | UnmarshalStatement | MissingIssOrSub
  | VerifyStatement string | UnmarshalVerified

section \<open>Decoding\<close>

text \<open>A field that is a slice of JWKs.\<close>

fun opt_all :: "'a option list \<Rightarrow> 'a list option" where
  "opt_all [] = Some []"
| "opt_all (x # xs) = (case (x, opt_all xs) of (Some y, Some ys) \<Rightarrow> Some (y # ys) | _ \<Rightarrow> None)"

fun store_jwks :: "JWK list \<Rightarrow> json list \<Rightarrow> JWK list option" where
  "store_jwks ks [] = Some ks"
| "store_jwks ks (JArr es # vs) =
     (case opt_all (map JWKFromRawMessage es) of None \<Rightarrow> None | Some ks' \<Rightarrow> store_jwks ks' vs)"
| "store_jwks ks (JNull # vs) = store_jwks [] vs"
| "store_jwks ks (_ # vs) = None"

definition jwks_field :: "(string \<times> json) list \<Rightarrow> JWKS option" where
  "jwks_field ms = do { set_ms \<leftarrow> struct_members [] (json_get ''jwks'' ms); store_jwks [] (json_get ''keys'' set_ms) }"

definition agent_idp_of :: "(string \<times> json) list \<Rightarrow> AgentIdPMetadata option" where
  "agent_idp_of ms = do {
     i \<leftarrow> str_field ''issuer'' ms; u \<leftarrow> str_field ''jwks_uri'' ms; e \<leftarrow> str_field ''token_endpoint'' ms;
     Some \<lparr>am_Issuer = i, am_JWKSURI = u, am_TokenEndpoint = e\<rparr>}"

definition federation_entity_of :: "(string \<times> json) list \<Rightarrow> FederationEntityMetadata option" where
  "federation_entity_of ms = do {
     f \<leftarrow> str_field ''federation_fetch_endpoint'' ms; n \<leftarrow> str_field ''organization_name'' ms;
     Some \<lparr>fm_FederationFetchEndpoint = f, fm_OrganizationName = n\<rparr>}"

definition entity_metadata_of :: "(string \<times> json) list \<Rightarrow> EntityMetadata option" where
  "entity_metadata_of ms = do {
     a \<leftarrow> ptr_field ''agent_idp'' agent_idp_of ms;
     f \<leftarrow> ptr_field ''federation_entity'' federation_entity_of ms;
     Some \<lparr>em_AgentIdP = a, em_FederationEntity = f\<rparr>}"

text \<open>\<open>json.Unmarshal\<close> of the members of a payload into the two structs.\<close>

definition entity_configuration_of :: "(string \<times> json) list \<Rightarrow> EntityConfiguration option" where
  "entity_configuration_of ms = do {
     iss \<leftarrow> str_field ''iss'' ms; sub \<leftarrow> str_field ''sub'' ms;
     iat \<leftarrow> int_field ''iat'' ms; exp \<leftarrow> int_field ''exp'' ms;
     jwks \<leftarrow> jwks_field ms; meta \<leftarrow> ptr_field ''metadata'' entity_metadata_of ms;
     hints \<leftarrow> strs_field ''authority_hints'' ms;
     Some \<lparr>en_Issuer = iss, en_Subject = sub, en_IssuedAt = iat, en_ExpiresAt = exp, en_JWKS = jwks,
           en_Metadata = meta, en_AuthorityHints = hints\<rparr>}"

definition subordinate_statement_of :: "(string \<times> json) list \<Rightarrow> SubordinateStatement option" where
  "subordinate_statement_of ms = do {
     iss \<leftarrow> str_field ''iss'' ms; sub \<leftarrow> str_field ''sub'' ms;
     iat \<leftarrow> int_field ''iat'' ms; exp \<leftarrow> int_field ''exp'' ms;
     jwks \<leftarrow> jwks_field ms; meta \<leftarrow> ptr_field ''metadata'' entity_metadata_of ms;
     Some \<lparr>ss_Issuer = iss, ss_Subject = sub, ss_IssuedAt = iat, ss_ExpiresAt = exp, ss_JWKS = jwks,
           ss_Metadata = meta\<rparr>}"

definition peekPayload :: "string \<Rightarrow> statement_error + bytes" where
  "peekPayload tokenStr = (case splitn_on (CHR ''.'') 3 tokenStr of
     [_, p, _] \<Rightarrow> (case b64_decode p of None \<Rightarrow> Inl PeekDecode | Some b \<Rightarrow> Inr b)
   | _ \<Rightarrow> Inl PeekNotCompact)"

definition ParseEntityConfiguration :: "string \<Rightarrow> statement_error + EntityConfiguration" where
  "ParseEntityConfiguration tokenStr = (case peekPayload tokenStr of
     Inl e \<Rightarrow> Inl e
   | Inr payload \<Rightarrow>
       (case do { v \<leftarrow> json_parse payload; ms \<leftarrow> json_struct v; entity_configuration_of ms } of
          None \<Rightarrow> Inl UnmarshalStatement
        | Some ec \<Rightarrow> if en_Issuer ec = [] \<or> en_Subject ec = [] then Inl MissingIssOrSub else Inr ec))"

definition ParseSubordinateStatement :: "string \<Rightarrow> statement_error + SubordinateStatement" where
  "ParseSubordinateStatement tokenStr = (case peekPayload tokenStr of
     Inl e \<Rightarrow> Inl e
   | Inr payload \<Rightarrow>
       (case do { v \<leftarrow> json_parse payload; ms \<leftarrow> json_struct v; subordinate_statement_of ms } of
          None \<Rightarrow> Inl UnmarshalStatement
        | Some ss \<Rightarrow> if ss_Issuer ss = [] \<or> ss_Subject ss = [] then Inl MissingIssOrSub else Inr ss))"

lemma peekPayload_compact:
  "peekPayload (b64_encode h @ ''.'' @ b64_encode p @ ''.'' @ b64_encode q) = Inr p"
  using splitn_on_three [OF b64_encode_sep_free(2) b64_encode_sep_free(2), of h p "b64_encode q"]
  by (simp add: peekPayload_def del: b64_encode.simps)

section \<open>Building\<close>

definition jwks_json :: "JWK \<Rightarrow> json" where
  "jwks_json jwk = JObj [(''keys'', JArr [remarshal (jwk_to_json jwk)])]"

text \<open>\<open>t.Unix()\<close> of a date.\<close>

definition unix :: "time \<Rightarrow> int" where
  "unix t = t div second"

definition statement_header :: "ext \<Rightarrow> string \<Rightarrow> header" where
  "statement_header L kid =
     AList.update ''kid'' (JStr kid) (AList.update ''typ'' (JStr entityStatementTyp) (jwt_header L))"

definition statement_claims :: "string \<Rightarrow> string \<Rightarrow> time \<Rightarrow> duration \<Rightarrow> registered_claims" where
  "statement_claims iss sub now ttl = no_claims\<lparr>rc_Issuer := iss, rc_Subject := sub,
     rc_IssuedAt := Some (second * unix now), rc_ExpiresAt := Some (second * unix (now + ttl))\<rparr>"

definition entity_metadata_json :: "string \<Rightarrow> string \<Rightarrow> json" where
  "entity_metadata_json issuerID orgName = JObj
     [(''agent_idp'', JObj
         [(''issuer'', JStr issuerID),
          (''jwks_uri'', JStr (issuerID @ ''/.well-known/jwks.json'')),
          (''token_endpoint'', JStr (issuerID @ ''/agent/issue''))]),
      (''federation_entity'', JObj
         [(''federation_fetch_endpoint'', JStr (issuerID @ ''/federation/fetch'')),
          (''organization_name'', JStr orgName)])]"

definition entity_payload ::
  "string \<Rightarrow> JWK \<Rightarrow> string \<Rightarrow> string list \<Rightarrow> duration \<Rightarrow> time \<Rightarrow> payload" where
  "entity_payload issuerID jwk orgName authorityHints ttl now = \<lparr>
     pl_reg = statement_claims issuerID issuerID now ttl,
     pl_priv = (if authorityHints \<noteq> [] then [(''authority_hints'', JArr (map JStr authorityHints))] else [])
       @ [(''jwks'', jwks_json jwk), (''metadata'', entity_metadata_json issuerID orgName)]\<rparr>"

definition BuildEntityConfiguration :: "ext \<Rightarrow> string \<Rightarrow> ec_private \<Rightarrow> string \<Rightarrow> string \<Rightarrow> string list
    \<Rightarrow> duration \<Rightarrow> time \<Rightarrow> bytes \<Rightarrow> statement_error + string" where
  "BuildEntityConfiguration L issuerID signingKey kid orgName authorityHints ttl now rnd =
     (case PublicKeyToJWK (Some (ec_Public signingKey)) kid of
        Inl e \<Rightarrow> Inl (SerializeStatementJWK e)
      | Inr jwk \<Rightarrow>
          (case jwt_sign L rnd (statement_header L kid)
                  (entity_payload issuerID jwk orgName authorityHints ttl now) signingKey of
             Inl e \<Rightarrow> Inl (SignStatement e)
           | Inr tok \<Rightarrow> Inr tok))"

definition subordinate_payload :: "string \<Rightarrow> string \<Rightarrow> JWK \<Rightarrow> duration \<Rightarrow> time \<Rightarrow> payload" where
  "subordinate_payload anchorID subjectID jwk ttl now = \<lparr>
     pl_reg = statement_claims anchorID subjectID now ttl, pl_priv = [(''jwks'', jwks_json jwk)]\<rparr>"

definition BuildSubordinateStatement :: "ext \<Rightarrow> string \<Rightarrow> string \<Rightarrow> ec_public option \<Rightarrow> string
    \<Rightarrow> ec_private \<Rightarrow> string \<Rightarrow> duration \<Rightarrow> time \<Rightarrow> bytes \<Rightarrow> statement_error + string" where
  "BuildSubordinateStatement L anchorID subjectID subjectPub subjectKID anchorSigningKey anchorKID ttl now rnd =
     (case PublicKeyToJWK subjectPub subjectKID of
        Inl e \<Rightarrow> Inl (SerializeStatementJWK e)
      | Inr jwk \<Rightarrow>
          (case jwt_sign L rnd (statement_header L anchorKID)
                  (subordinate_payload anchorID subjectID jwk ttl now) anchorSigningKey of
             Inl e \<Rightarrow> Inl (SignStatement e)
           | Inr tok \<Rightarrow> Inr tok))"

section \<open>Verifying\<close>

definition statement_opts :: parser_opts where
  "statement_opts = \<lparr>po_iss = None, po_aud = None, po_exp_required = True, po_iat = False,
     po_methods = [''ES256'']\<rparr>"

text \<open>A \<open>MapClaims\<close> holds the registered claims and the private members; marshalling it writes
  them all, the dates as numbers of seconds.  The structs read none of \<open>aud\<close>, \<open>nbf\<close>, \<open>jti\<close>.\<close>

definition date_member :: "string \<Rightarrow> time option \<Rightarrow> (string \<times> json) list" where
  "date_member tag d = (case d of
     None \<Rightarrow> []
   | Some t \<Rightarrow> [(tag, if t mod second = 0 then JInt (t div second) else JReal ''fraction'')])"

definition map_claims :: "payload \<Rightarrow> (string \<times> json) list" where
  "map_claims pl = members_sorted (
     omit_empty ''iss'' (rc_Issuer (pl_reg pl)) @ omit_empty ''sub'' (rc_Subject (pl_reg pl))
     @ date_member ''exp'' (rc_ExpiresAt (pl_reg pl)) @ date_member ''iat'' (rc_IssuedAt (pl_reg pl))
     @ map (\<lambda>(k, v). (k, remarshal v)) (pl_priv pl))"

definition verifyEntityStatement :: "ext \<Rightarrow> time \<Rightarrow> string \<Rightarrow> ec_public \<Rightarrow> string + (string \<times> json) list" where
  "verifyEntityStatement L now tokenStr pub =
     map_sum id (map_claims \<circ> tk_payload) (jwt_parse L statement_opts now tokenStr (typ_key entityStatementTyp pub))"

definition VerifyEntityConfiguration ::
  "ext \<Rightarrow> time \<Rightarrow> string \<Rightarrow> ec_public \<Rightarrow> statement_error + EntityConfiguration" where
  "VerifyEntityConfiguration L now tokenStr pub = (case verifyEntityStatement L now tokenStr pub of
     Inl e \<Rightarrow> Inl (VerifyStatement e)
   | Inr ms \<Rightarrow> (case entity_configuration_of ms of None \<Rightarrow> Inl UnmarshalVerified | Some ec \<Rightarrow> Inr ec))"

definition VerifySubordinateStatement ::
  "ext \<Rightarrow> time \<Rightarrow> string \<Rightarrow> ec_public \<Rightarrow> statement_error + SubordinateStatement" where
  "VerifySubordinateStatement L now tokenStr anchorPub = (case verifyEntityStatement L now tokenStr anchorPub of
     Inl e \<Rightarrow> Inl (VerifyStatement e)
   | Inr ms \<Rightarrow> (case subordinate_statement_of ms of None \<Rightarrow> Inl UnmarshalVerified | Some ss \<Rightarrow> Inr ss))"

section \<open>Round trips\<close>

lemma header_str_statement [simp]:
  "header_str ''typ'' (statement_header L kid) = entityStatementTyp"
  "header_str ''alg'' (statement_header L kid) = header_str ''alg'' (jwt_header L)"
  by (simp_all add: statement_header_def)

lemma BuildSubordinateStatement_ok:
  "BuildSubordinateStatement L anchorID sub pub kid sk akid ttl now rnd = Inr tok \<longleftrightarrow>
     (\<exists>jwk. PublicKeyToJWK pub kid = Inr jwk \<and>
       jwt_sign L rnd (statement_header L akid) (subordinate_payload anchorID sub jwk ttl now) sk = Inr tok)"
  by (auto simp: BuildSubordinateStatement_def split: sum.splits)

lemma subordinate_of_payload:
  assumes "go_int (unix now)" "go_int (unix (now + ttl))"
  shows "subordinate_statement_of (map_claims (subordinate_payload iss sub jwk ttl now)) =
    Some \<lparr>ss_Issuer = iss, ss_Subject = sub, ss_IssuedAt = unix now, ss_ExpiresAt = unix (now + ttl),
      ss_JWKS = [jwk], ss_Metadata = None\<rparr>"
proof -
  let ?ms = "omit_empty ''iss'' iss @ omit_empty ''sub'' sub @ [(''exp'', JInt (unix (now + ttl))),
     (''iat'', JInt (unix now)), (''jwks'', remarshal (jwks_json jwk))]"
  have "map_claims (subordinate_payload iss sub jwk ttl now) = members_sorted ?ms"
    by (simp add: map_claims_def subordinate_payload_def statement_claims_def no_claims_def date_member_def)
  moreover have "distinct (map fst ?ms)"
    by (simp add: omit_empty_def)
  note get = json_get_sorted [OF this]
  ultimately show ?thesis
    using assms get [of "''iss''"] get [of "''sub''"] get [of "''iat''"] get [of "''exp''"] get [of "''jwks''"]
      get [of "''metadata''"]
    by (simp add: go_int_def subordinate_statement_of_def json_field_defs jwks_field_def ptr_field_def jwks_json_def)
qed

text \<open>A built statement verifies under its signer's key until it expires.\<close>

lemma Verify_built:
  assumes "jwt_complete L" "jwt_es256 L"
    and "BuildSubordinateStatement L anchorID sub pub kid sk akid ttl now rnd = Inr tok"
    and "PublicKeyToJWK pub kid = Inr jwk"
    and "wire_ok L (statement_header L akid) (subordinate_payload anchorID sub jwk ttl now)"
    and "go_int (unix now)" "go_int (unix (now + ttl))" "t < second * unix (now + ttl)"
  shows "VerifySubordinateStatement L t tok (ec_Public sk) =
    Inr \<lparr>ss_Issuer = anchorID, ss_Subject = sub, ss_IssuedAt = unix now, ss_ExpiresAt = unix (now + ttl),
      ss_JWKS = [jwk], ss_Metadata = None\<rparr>"
proof -
  let ?h = "statement_header L akid" and ?pl = "subordinate_payload anchorID sub jwk ttl now"
  have "jwt_sign L rnd ?h ?pl sk = Inr tok"
    using assms(3,4) by (auto simp: BuildSubordinateStatement_ok)
  moreover have "typ_key entityStatementTyp (ec_Public sk) ?h = Inr (ec_Public sk)"
    by (simp add: typ_key_def)
  moreover have "claims_valid statement_opts t ?h (pl_reg ?pl)"
    using assms(2,8) by (simp add: claims_valid_def statement_opts_def subordinate_payload_def statement_claims_def
        no_claims_def jwt_es256_def)
  ultimately have "jwt_parse L statement_opts t tok (typ_key entityStatementTyp (ec_Public sk)) =
      Inr \<lparr>tk_header = ?h, tk_payload = ?pl\<rparr>"
    using assms(1,5) unfolding jwt_complete_def by blast
  then show ?thesis
    using subordinate_of_payload [OF assms(6,7)]
    by (simp add: VerifySubordinateStatement_def verifyEntityStatement_def)
qed

end
