(* ===== verification/Resolver.thy ===== *)
theory Resolver
  imports Federation
begin

text \<open>
  Package \<open>pkg/federation\<close>, file \<open>resolver.go\<close>: resolution of entity keys through trust chains.
  A resolver reads the clock for its cache at \<open>now\<close>, for the subordinate statement of hint \<open>i\<close> at
  \<open>hint_clock i\<close>, and for the entity configuration at \<open>ec_clock i\<close>.  The interface is the locale
  \<open>resolver\<close>; both resolvers implement it on states whose cache was filled by \<open>Resolve\<close>.
\<close>

record ResolvedEntity =
  re_JWKS :: "JWK list"
  re_ExpiresAt :: time

datatype resolve_error = NoEntityConfig string | NoSubordinateStatement string
  | ParseLeafConfig statement_error | NoTrustedAuthority string "string list" | NoJWKS string
  | ParseLeafKey key_error | NotSignedByCertifiedKey statement_error | FetchEntityConfig string
  | NoValidKey

record resolve_clocks =
  rk_now :: time
  rk_hint :: "nat \<Rightarrow> time"
  rk_ec :: "nat \<Rightarrow> time"

text \<open>\<open>PublicKey\<close> skips the keys that do not decode.\<close>

fun first_key :: "JWK list \<Rightarrow> ec_public option" where
  "first_key [] = None"
| "first_key (j # js) = (case JWKToPublicKey j of Inr pub \<Rightarrow> Some pub | Inl _ \<Rightarrow> first_key js)"

definition ResolvedEntity_PublicKey :: "ResolvedEntity \<Rightarrow> resolve_error + ec_public" where
  "ResolvedEntity_PublicKey e = (case first_key (re_JWKS e) of None \<Rightarrow> Inl NoValidKey | Some pub \<Rightarrow> Inr pub)"

type_synonym 's resolve = "resolve_clocks \<Rightarrow> string \<Rightarrow> 's \<Rightarrow> (resolve_error + ResolvedEntity) \<times> 's"

section \<open>The interface\<close>

text \<open>What a client relies on: \<open>certified s ent jwks\<close> is the contract of the trust chain, \<open>inv\<close>
  what every operation keeps.\<close>

locale resolver =
  fixes Resolve :: "'s resolve" and inv :: "'s \<Rightarrow> bool"
    and certified :: "'s \<Rightarrow> string \<Rightarrow> JWK list \<Rightarrow> bool"
  assumes resolve_inv: "inv s \<Longrightarrow> Resolve ck ent s = (r, s') \<Longrightarrow> inv s'"
    and resolve_certified: "inv s \<Longrightarrow> Resolve ck ent s = (Inr e, s') \<Longrightarrow> certified s ent (re_JWKS e)"
    and resolve_same: "Resolve ck ent s = (r, s') \<Longrightarrow> certified s' = certified s"
begin

text \<open>The key a client gets is a P-256 key of a certified set.\<close>

lemma client_key:
  assumes "inv s" "Resolve ck ent s = (Inr e, s')" "ResolvedEntity_PublicKey e = Inr pub"
  shows "certified s ent (re_JWKS e) \<and> (\<exists>j \<in> set (re_JWKS e). JWKToPublicKey j = Inr pub) \<and> p256_key pub"
proof -
  have "\<exists>j \<in> set js. JWKToPublicKey j = Inr pub" if "first_key js = Some pub" for js
    using that by (induction js) (auto split: sum.splits)
  then show ?thesis
    using assms resolve_certified JWKToPublicKey_ok
    by (fastforce simp: ResolvedEntity_PublicKey_def split: option.splits)
qed

end

section \<open>InMemoryResolver\<close>

record InMemoryResolver =
  ir_entityConfigs :: "string \<rightharpoonup> string"
  ir_subStatements :: "string \<rightharpoonup> string"
  ir_trustAnchors :: "string \<rightharpoonup> ec_public"
  ir_cache :: "string \<rightharpoonup> ResolvedEntity"

definition NewInMemoryResolver :: "(string \<rightharpoonup> ec_public) \<Rightarrow> InMemoryResolver" where
  "NewInMemoryResolver trustAnchors = \<lparr>ir_entityConfigs = Map.empty, ir_subStatements = Map.empty,
     ir_trustAnchors = trustAnchors, ir_cache = Map.empty\<rparr>"

definition RegisterEntityConfig :: "string \<Rightarrow> string \<Rightarrow> InMemoryResolver \<Rightarrow> InMemoryResolver" where
  "RegisterEntityConfig entityID ecJWT r =
     r\<lparr>ir_entityConfigs := (ir_entityConfigs r)(entityID \<mapsto> ecJWT), ir_cache := (ir_cache r)(entityID := None)\<rparr>"

definition RegisterSubordinateStatement :: "string \<Rightarrow> string \<Rightarrow> InMemoryResolver \<Rightarrow> InMemoryResolver" where
  "RegisterSubordinateStatement subjectID ssJWT r =
     r\<lparr>ir_subStatements := (ir_subStatements r)(subjectID \<mapsto> ssJWT), ir_cache := (ir_cache r)(subjectID := None)\<rparr>"

text \<open>The loop over the hints: the first trust anchor that verifies the statement for the entity.\<close>

fun first_verified :: "ext \<Rightarrow> (string \<rightharpoonup> ec_public) \<Rightarrow> (nat \<Rightarrow> time) \<Rightarrow> string \<Rightarrow> string \<Rightarrow> nat \<Rightarrow> string list
    \<Rightarrow> SubordinateStatement option" where
  "first_verified L anchors clock ssJWT entityID i [] = None"
| "first_verified L anchors clock ssJWT entityID i (hint # hints) = (case anchors hint of
     None \<Rightarrow> first_verified L anchors clock ssJWT entityID (Suc i) hints
   | Some anchorPub \<Rightarrow> (case VerifySubordinateStatement L (clock i) ssJWT anchorPub of
       Inl e \<Rightarrow> first_verified L anchors clock ssJWT entityID (Suc i) hints
     | Inr ss \<Rightarrow> if ss_Subject ss \<noteq> entityID then first_verified L anchors clock ssJWT entityID (Suc i) hints
                else Some ss))"

text \<open>\<open>time.Unix(secs, 0)\<close> of the earlier expiry.\<close>

definition entity_expiry :: "int \<Rightarrow> int \<Rightarrow> time" where
  "entity_expiry ssExp ecExp =
     (let exp = second * ssExp; ec = second * ecExp in if ec < exp then ec else exp)"

text \<open>The part of \<open>Resolve\<close> after the cache.\<close>

definition resolve_chain ::
  "ext \<Rightarrow> InMemoryResolver \<Rightarrow> resolve_clocks \<Rightarrow> string \<Rightarrow> resolve_error + ResolvedEntity" where
  "resolve_chain L r ck entityID = (case ir_entityConfigs r entityID of
     None \<Rightarrow> Inl (NoEntityConfig entityID)
   | Some ecJWT \<Rightarrow> (case ir_subStatements r entityID of
     None \<Rightarrow> Inl (NoSubordinateStatement entityID)
   | Some ssJWT \<Rightarrow> (case ParseEntityConfiguration ecJWT of
     Inl e \<Rightarrow> Inl (ParseLeafConfig e)
   | Inr leafEC \<Rightarrow>
     (case first_verified L (ir_trustAnchors r) (rk_hint ck) ssJWT entityID 0 (en_AuthorityHints leafEC) of
     None \<Rightarrow> Inl (NoTrustedAuthority entityID (en_AuthorityHints leafEC))
   | Some verifiedSS \<Rightarrow> (case ss_JWKS verifiedSS of
     [] \<Rightarrow> Inl (NoJWKS entityID)
   | jwk # _ \<Rightarrow> (case JWKToPublicKey jwk of
     Inl e \<Rightarrow> Inl (ParseLeafKey e)
   | Inr leafPub \<Rightarrow> (case VerifyEntityConfiguration L (rk_ec ck 0) ecJWT leafPub of
     Inl e \<Rightarrow> Inl (NotSignedByCertifiedKey e)
   | Inr _ \<Rightarrow> Inr \<lparr>re_JWKS = ss_JWKS verifiedSS,
       re_ExpiresAt = entity_expiry (ss_ExpiresAt verifiedSS) (en_ExpiresAt leafEC)\<rparr>)))))))"

definition InMemoryResolver_Resolve :: "ext \<Rightarrow> InMemoryResolver resolve" where
  "InMemoryResolver_Resolve L ck entityID r = (case ir_cache r entityID of
     Some e \<Rightarrow>
       if rk_now ck < re_ExpiresAt e then (Inr e, r)
       else (let r = r\<lparr>ir_cache := (ir_cache r)(entityID := None)\<rparr> in
         case resolve_chain L r ck entityID of
           Inl err \<Rightarrow> (Inl err, r)
         | Inr e \<Rightarrow> (Inr e, r\<lparr>ir_cache := (ir_cache r)(entityID \<mapsto> e)\<rparr>))
   | None \<Rightarrow> (case resolve_chain L r ck entityID of
       Inl err \<Rightarrow> (Inl err, r)
     | Inr e \<Rightarrow> (Inr e, r\<lparr>ir_cache := (ir_cache r)(entityID \<mapsto> e)\<rparr>)))"

section \<open>HTTPResolver\<close>

record HTTPResolver =
  hr_TrustAnchors :: "string \<rightharpoonup> ec_public"
  hr_cache :: "string \<rightharpoonup> ResolvedEntity"

definition NewHTTPResolver :: "(string \<rightharpoonup> ec_public) \<Rightarrow> HTTPResolver" where
  "NewHTTPResolver trustAnchors = \<lparr>hr_TrustAnchors = trustAnchors, hr_cache = Map.empty\<rparr>"

text \<open>The network: for a URL, a transport error or the status and the body, whose reading may
  fail.\<close>

type_synonym network = "string \<Rightarrow> string + nat \<times> (string + bytes)"

definition fetchJWT :: "network \<Rightarrow> string \<Rightarrow> string + string" where
  "fetchJWT net rawURL = (case net rawURL of
     Inl e \<Rightarrow> Inl e
   | Inr (status, body) \<Rightarrow> if status \<noteq> 200 then Inl ''HTTP status'' else body)"

definition stripTrailingSlash :: "string \<Rightarrow> string" where
  "stripTrailingSlash s = rev (dropWhile (\<lambda>c. c = CHR ''/'') (rev s))"

text \<open>\<open>url.QueryEscape\<close>.\<close>

definition upper_hex :: "nat \<Rightarrow> char" where
  "upper_hex n = (if n < 10 then chr (48 + n) else chr (55 + n))"

definition query_escape_byte :: "char \<Rightarrow> string" where
  "query_escape_byte c = (let n = byte c in
     if 48 \<le> n \<and> n \<le> 57 \<or> 65 \<le> n \<and> n \<le> 90 \<or> 97 \<le> n \<and> n \<le> 122 \<or> n \<in> {45, 46, 95, 126} then [c]
     else if n = 32 then ''+''
     else [CHR ''%'', upper_hex (n div 16), upper_hex (n mod 16)])"

definition QueryEscape :: "string \<Rightarrow> string" where
  "QueryEscape s = concat (map query_escape_byte s)"

fun http_hints :: "ext \<Rightarrow> network \<Rightarrow> (string \<rightharpoonup> ec_public) \<Rightarrow> resolve_clocks \<Rightarrow> string \<Rightarrow> string \<Rightarrow> nat
    \<Rightarrow> string list \<Rightarrow> ResolvedEntity option" where
  "http_hints L net anchors ck ecJWT entityID i [] = None"
| "http_hints L net anchors ck ecJWT entityID i (hint # hints) =
     (let continue = http_hints L net anchors ck ecJWT entityID (Suc i) hints in
      case anchors hint of
        None \<Rightarrow> continue
      | Some anchorPub \<Rightarrow>
     (case fetchJWT net (stripTrailingSlash hint @ ''/federation/fetch?sub='' @ QueryEscape entityID) of
        Inl e \<Rightarrow> continue
      | Inr ssJWT \<Rightarrow>
     (case VerifySubordinateStatement L (rk_hint ck i) ssJWT anchorPub of
        Inl e \<Rightarrow> continue
      | Inr ss \<Rightarrow>
     if ss_Subject ss \<noteq> entityID then continue
     else (case ss_JWKS ss of
        [] \<Rightarrow> continue
      | jwk # _ \<Rightarrow>
     (case JWKToPublicKey jwk of
        Inl e \<Rightarrow> continue
      | Inr leafPub \<Rightarrow>
     (case VerifyEntityConfiguration L (rk_ec ck i) ecJWT leafPub of
        Inl e \<Rightarrow> continue
      | Inr verifiedEC \<Rightarrow> Some \<lparr>re_JWKS = ss_JWKS ss,
          re_ExpiresAt = entity_expiry (ss_ExpiresAt ss) (en_ExpiresAt verifiedEC)\<rparr>))))))"

definition http_chain ::
  "ext \<Rightarrow> network \<Rightarrow> HTTPResolver \<Rightarrow> resolve_clocks \<Rightarrow> string \<Rightarrow> resolve_error + ResolvedEntity" where
  "http_chain L net r ck entityID =
     (case fetchJWT net (stripTrailingSlash entityID @ ''/.well-known/openid-federation'') of
        Inl e \<Rightarrow> Inl (FetchEntityConfig e)
      | Inr ecJWT \<Rightarrow> (case ParseEntityConfiguration ecJWT of
          Inl e \<Rightarrow> Inl (ParseLeafConfig e)
        | Inr leafEC \<Rightarrow>
            (case http_hints L net (hr_TrustAnchors r) ck ecJWT entityID 0 (en_AuthorityHints leafEC) of
               None \<Rightarrow> Inl (NoTrustedAuthority entityID (en_AuthorityHints leafEC))
             | Some e \<Rightarrow> Inr e)))"

definition HTTPResolver_Resolve :: "ext \<Rightarrow> network \<Rightarrow> HTTPResolver resolve" where
  "HTTPResolver_Resolve L net ck entityID r = (case hr_cache r entityID of
     Some e \<Rightarrow>
       if rk_now ck < re_ExpiresAt e then (Inr e, r)
       else (let r = r\<lparr>hr_cache := (hr_cache r)(entityID := None)\<rparr> in
         case http_chain L net r ck entityID of
           Inl err \<Rightarrow> (Inl err, r)
         | Inr e \<Rightarrow> (Inr e, r\<lparr>hr_cache := (hr_cache r)(entityID \<mapsto> e)\<rparr>))
   | None \<Rightarrow> (case http_chain L net r ck entityID of
       Inl err \<Rightarrow> (Inl err, r)
     | Inr e \<Rightarrow> (Inr e, r\<lparr>hr_cache := (hr_cache r)(entityID \<mapsto> e)\<rparr>)))"

section \<open>Trust chains\<close>

text \<open>A key set is certified for an entity by the anchors when one of them signed, about that
  entity, a statement with that set, and the set's first key signed an entity configuration.\<close>

definition certified :: "ext \<Rightarrow> (string \<rightharpoonup> ec_public) \<Rightarrow> string \<Rightarrow> JWK list \<Rightarrow> bool" where
  "certified L anchors ent jwks \<longleftrightarrow> (\<exists>hint anchorPub ss ssJWT t leafPub ecJWT t' ec.
     anchors hint = Some anchorPub \<and> VerifySubordinateStatement L t ssJWT anchorPub = Inr ss \<and>
     ss_Subject ss = ent \<and> ss_JWKS ss = jwks \<and> jwks \<noteq> [] \<and> JWKToPublicKey (hd jwks) = Inr leafPub \<and>
     VerifyEntityConfiguration L t' ecJWT leafPub = Inr ec)"

lemma first_verified_Some:
  "first_verified L anchors clock ssJWT ent i hints = Some ss \<Longrightarrow>
     \<exists>hint pub k. anchors hint = Some pub \<and> VerifySubordinateStatement L (clock k) ssJWT pub = Inr ss \<and>
       ss_Subject ss = ent \<and> hint \<in> set hints"
  by (induction hints arbitrary: i) (fastforce split: option.splits sum.splits if_splits)+

lemma resolve_chain_certified:
  "resolve_chain L r ck ent = Inr e \<Longrightarrow> certified L (ir_trustAnchors r) ent (re_JWKS e)"
  unfolding resolve_chain_def certified_def
  by (fastforce dest!: first_verified_Some split: option.splits sum.splits list.splits)

lemma http_hints_certified:
  "http_hints L net anchors ck ecJWT ent i hints = Some e \<Longrightarrow> certified L anchors ent (re_JWKS e)"
proof (induction hints arbitrary: i)
  case (Cons hint hints)
  show ?case
  proof (cases "http_hints L net anchors ck ecJWT ent (Suc i) hints = Some e")
    case True
    then show ?thesis by (rule Cons.IH)
  next
    case False
    then show ?thesis
      using Cons.prems unfolding certified_def
      by (fastforce simp: Let_def split: option.splits sum.splits list.splits if_splits)
  qed
qed simp

lemma http_chain_certified:
  "http_chain L net r ck ent = Inr e \<Longrightarrow> certified L (hr_TrustAnchors r) ent (re_JWKS e)"
  by (auto simp: http_chain_def dest!: http_hints_certified split: sum.splits option.splits)

definition ir_ok :: "ext \<Rightarrow> InMemoryResolver \<Rightarrow> bool" where
  "ir_ok L r \<longleftrightarrow> (\<forall>ent e. ir_cache r ent = Some e \<longrightarrow> certified L (ir_trustAnchors r) ent (re_JWKS e))"

definition hr_ok :: "ext \<Rightarrow> HTTPResolver \<Rightarrow> bool" where
  "hr_ok L r \<longleftrightarrow> (\<forall>ent e. hr_cache r ent = Some e \<longrightarrow> certified L (hr_TrustAnchors r) ent (re_JWKS e))"

lemma resolve_chain_cache [simp]: "resolve_chain L (r\<lparr>ir_cache := c\<rparr>) ck ent = resolve_chain L r ck ent"
  by (simp add: resolve_chain_def cong: option.case_cong sum.case_cong)

lemma http_chain_cache [simp]: "http_chain L net (r\<lparr>hr_cache := c\<rparr>) ck ent = http_chain L net r ck ent"
  by (simp add: http_chain_def cong: option.case_cong sum.case_cong)

text \<open>The two places of \<open>Resolve\<close> that walk the chain do the same: an entry that is not there is
  not there after its deletion.\<close>

definition ir_resolved :: "ext \<Rightarrow> InMemoryResolver resolve" where
  "ir_resolved L ck ent r = (case resolve_chain L r ck ent of
     Inl err \<Rightarrow> (Inl err, r\<lparr>ir_cache := (ir_cache r)(ent := None)\<rparr>)
   | Inr e \<Rightarrow> (Inr e, r\<lparr>ir_cache := (ir_cache r)(ent \<mapsto> e)\<rparr>))"

lemma InMemoryResolver_Resolve_cases:
  assumes "InMemoryResolver_Resolve L ck ent r = (x, r')"
  obtains (cached) e where "ir_cache r ent = Some e" "rk_now ck < re_ExpiresAt e" "x = Inr e" "r' = r"
  | (fresh) e where "resolve_chain L r ck ent = Inr e" "x = Inr e"
      "r' = r\<lparr>ir_cache := (ir_cache r)(ent \<mapsto> e)\<rparr>"
  | (failed) err where "resolve_chain L r ck ent = Inl err" "x = Inl err"
      "r' = r\<lparr>ir_cache := (ir_cache r)(ent := None)\<rparr>"
proof -
  have "InMemoryResolver_Resolve L ck ent r =
      (case ir_cache r ent of Some e \<Rightarrow> if rk_now ck < re_ExpiresAt e then (Inr e, r) else ir_resolved L ck ent r
       | None \<Rightarrow> ir_resolved L ck ent r)"
    by (auto simp: InMemoryResolver_Resolve_def ir_resolved_def fun_upd_idem split: option.splits sum.splits)
  then show thesis
    using assms that by (auto simp: ir_resolved_def split: option.splits sum.splits if_splits)
qed

definition hr_resolved :: "ext \<Rightarrow> network \<Rightarrow> HTTPResolver resolve" where
  "hr_resolved L net ck ent r = (case http_chain L net r ck ent of
     Inl err \<Rightarrow> (Inl err, r\<lparr>hr_cache := (hr_cache r)(ent := None)\<rparr>)
   | Inr e \<Rightarrow> (Inr e, r\<lparr>hr_cache := (hr_cache r)(ent \<mapsto> e)\<rparr>))"

lemma HTTPResolver_Resolve_cases:
  assumes "HTTPResolver_Resolve L net ck ent r = (x, r')"
  obtains (cached) e where "hr_cache r ent = Some e" "rk_now ck < re_ExpiresAt e" "x = Inr e" "r' = r"
  | (fresh) e where "http_chain L net r ck ent = Inr e" "x = Inr e"
      "r' = r\<lparr>hr_cache := (hr_cache r)(ent \<mapsto> e)\<rparr>"
  | (failed) err where "http_chain L net r ck ent = Inl err" "x = Inl err"
      "r' = r\<lparr>hr_cache := (hr_cache r)(ent := None)\<rparr>"
proof -
  have "HTTPResolver_Resolve L net ck ent r =
      (case hr_cache r ent of Some e \<Rightarrow> if rk_now ck < re_ExpiresAt e then (Inr e, r) else hr_resolved L net ck ent r
       | None \<Rightarrow> hr_resolved L net ck ent r)"
    by (auto simp: HTTPResolver_Resolve_def hr_resolved_def fun_upd_idem split: option.splits sum.splits)
  then show thesis
    using assms that by (auto simp: hr_resolved_def split: option.splits sum.splits if_splits)
qed

interpretation memory: resolver "InMemoryResolver_Resolve L" "ir_ok L" "\<lambda>r. certified L (ir_trustAnchors r)"
proof
  fix r ck ent x r'
  assume "ir_ok L r" and "InMemoryResolver_Resolve L ck ent r = (x, r')"
  then show "ir_ok L r'"
    by (auto elim!: InMemoryResolver_Resolve_cases simp: ir_ok_def resolve_chain_certified split: if_splits)
next
  fix r ck ent e r'
  assume "ir_ok L r" and "InMemoryResolver_Resolve L ck ent r = (Inr e, r')"
  then show "certified L (ir_trustAnchors r) ent (re_JWKS e)"
    by (auto elim!: InMemoryResolver_Resolve_cases simp: ir_ok_def resolve_chain_certified)
next
  fix r ck ent x r'
  assume "InMemoryResolver_Resolve L ck ent r = (x, r')"
  then show "certified L (ir_trustAnchors r') = certified L (ir_trustAnchors r)"
    by (auto elim!: InMemoryResolver_Resolve_cases)
qed

interpretation http: resolver "HTTPResolver_Resolve L net" "hr_ok L" "\<lambda>r. certified L (hr_TrustAnchors r)"
proof
  fix r ck ent x r'
  assume "hr_ok L r" and "HTTPResolver_Resolve L net ck ent r = (x, r')"
  then show "hr_ok L r'"
    by (auto elim!: HTTPResolver_Resolve_cases simp: hr_ok_def http_chain_certified split: if_splits)
next
  fix r ck ent e r'
  assume "hr_ok L r" and "HTTPResolver_Resolve L net ck ent r = (Inr e, r')"
  then show "certified L (hr_TrustAnchors r) ent (re_JWKS e)"
    by (auto elim!: HTTPResolver_Resolve_cases simp: hr_ok_def http_chain_certified)
next
  fix r ck ent x r'
  assume "HTTPResolver_Resolve L net ck ent r = (x, r')"
  then show "certified L (hr_TrustAnchors r') = certified L (hr_TrustAnchors r)"
    by (auto elim!: HTTPResolver_Resolve_cases)
qed

section \<open>Histories\<close>

text \<open>The states that the operations of a resolver lead to.\<close>

inductive ir_reachable :: "ext \<Rightarrow> (string \<rightharpoonup> ec_public) \<Rightarrow> InMemoryResolver \<Rightarrow> bool" for L anchors where
  new: "ir_reachable L anchors (NewInMemoryResolver anchors)"
| config: "ir_reachable L anchors r \<Longrightarrow> ir_reachable L anchors (RegisterEntityConfig ent tok r)"
| statement: "ir_reachable L anchors r \<Longrightarrow> ir_reachable L anchors (RegisterSubordinateStatement ent tok r)"
| resolve: "ir_reachable L anchors r \<Longrightarrow> InMemoryResolver_Resolve L ck ent r = (x, r') \<Longrightarrow> ir_reachable L anchors r'"

lemma Resolve_anchors:
  "InMemoryResolver_Resolve L ck ent r = (x, r') \<Longrightarrow> ir_trustAnchors r' = ir_trustAnchors r"
  by (auto elim!: InMemoryResolver_Resolve_cases)

lemma ir_reachable_ok: "ir_reachable L anchors r \<Longrightarrow> ir_ok L r \<and> ir_trustAnchors r = anchors"
proof (induction rule: ir_reachable.induct)
  case (resolve r ck ent x r')
  then show ?case
    using memory.resolve_inv Resolve_anchors by metis
qed (auto simp: ir_ok_def NewInMemoryResolver_def RegisterEntityConfig_def RegisterSubordinateStatement_def
    split: if_splits)

inductive hr_reachable :: "ext \<Rightarrow> (string \<rightharpoonup> ec_public) \<Rightarrow> HTTPResolver \<Rightarrow> bool" for L anchors where
  new: "hr_reachable L anchors (NewHTTPResolver anchors)"
| resolve: "hr_reachable L anchors r \<Longrightarrow> HTTPResolver_Resolve L net ck ent r = (x, r') \<Longrightarrow> hr_reachable L anchors r'"

lemma hr_reachable_ok: "hr_reachable L anchors r \<Longrightarrow> hr_ok L r \<and> hr_TrustAnchors r = anchors"
proof (induction rule: hr_reachable.induct)
  case (resolve r net ck ent x r')
  then have "hr_ok L r'"
    using http.resolve_inv by blast
  moreover have "hr_TrustAnchors r' = hr_TrustAnchors r"
    using resolve(2) by (auto elim!: HTTPResolver_Resolve_cases)
  ultimately show ?case
    using resolve by simp
qed (simp add: hr_ok_def NewHTTPResolver_def)

text \<open>What certification means: the signature of an anchor on a statement about the entity, of
  type entity-statement+jwt, that had not expired.\<close>

lemma certified_sound:
  assumes "jwt_sound L" "certified L anchors ent jwks"
  shows "\<exists>hint pub tok t tk e. anchors hint = Some pub \<and> jwt_sig_ok L pub tok \<and>
    jwt_parse L statement_opts t tok (typ_key entityStatementTyp pub) = Inr tk \<and>
    str_field ''sub'' (map_claims (tk_payload tk)) = Some ent \<and>
    jwks_field (map_claims (tk_payload tk)) = Some jwks \<and>
    rc_ExpiresAt (pl_reg (tk_payload tk)) = Some e \<and> t < e"
proof -
  obtain hint pub ss tok t where *: "anchors hint = Some pub" "VerifySubordinateStatement L t tok pub = Inr ss"
    "ss_Subject ss = ent" "ss_JWKS ss = jwks"
    using assms(2) unfolding certified_def by blast
  obtain tk where parse: "jwt_parse L statement_opts t tok (typ_key entityStatementTyp pub) = Inr tk"
    and ss: "subordinate_statement_of (map_claims (tk_payload tk)) = Some ss"
    using *(2) by (cases "jwt_parse L statement_opts t tok (typ_key entityStatementTyp pub)")
      (auto simp: VerifySubordinateStatement_def verifyEntityStatement_def split: option.splits)
  have "jwt_sig_ok L pub tok"
    using jwt_soundD(1) [OF assms(1) parse] by (simp add: ok_simps)
  moreover obtain e where "rc_ExpiresAt (pl_reg (tk_payload tk)) = Some e" "t < e"
    using jwt_soundD(2) [OF assms(1) parse] by (auto simp: claims_valid_def statement_opts_def split: option.splits)
  moreover have "str_field ''sub'' (map_claims (tk_payload tk)) = Some ent"
    "jwks_field (map_claims (tk_payload tk)) = Some jwks"
    using ss *(3,4) by (auto simp: subordinate_statement_of_def split: Option.bind_splits)
  ultimately show ?thesis
    using *(1) parse by blast
qed

section \<open>Closed instances\<close>

text \<open>A trust anchor \<open>t\<close> with key two, an entity \<open>e\<close> with key one.\<close>

definition ex_anchors :: "string \<rightharpoonup> ec_public" where
  "ex_anchors = [''t'' \<mapsto> ec_Public key_two]"

definition ex_ec_text :: string where
  "ex_ec_text = b64_encode ''h'' @ ''.'' @
     b64_encode ''{\"iss\":\"e\",\"sub\":\"e\",\"exp\":7200,\"authority_hints\":[\"t\"]}'' @ ''.'' @ b64_encode ''s''"

definition ex_ec_payload :: payload where
  "ex_ec_payload = \<lparr>pl_reg = no_claims\<lparr>rc_Issuer := ''e'', rc_Subject := ''e'', rc_ExpiresAt := Some (2 * hour)\<rparr>,
     pl_priv = [(''authority_hints'', JArr [JStr ''t''])]\<rparr>"

definition ex_fed_lib :: ext where
  "ex_fed_lib = ledger_ext
     [\<lparr>le_text = ''ss'', le_signer = key_two, le_token = \<lparr>tk_header = statement_header (ledger_ext []) ''a'',
        tk_payload = subordinate_payload ''t'' ''e'' (jwk_of (ec_Public key_one) ''k'') hour 0\<rparr>\<rparr>,
      \<lparr>le_text = ex_ec_text, le_signer = key_one,
       le_token = \<lparr>tk_header = statement_header (ledger_ext []) ''k'', tk_payload = ex_ec_payload\<rparr>\<rparr>]"

lemma ex_ec_text_ne: "ex_ec_text \<noteq> ''ss''"
  by (simp add: ex_ec_text_def)

lemma ex_fed_laws: "jwt_sound ex_fed_lib" "jwt_complete ex_fed_lib" "jwt_es256 ex_fed_lib"
  unfolding ex_fed_lib_def
  by (simp_all only: ledger_laws) (rule ledger_complete, simp add: ex_ec_text_ne [symmetric])

lemma ex_fed_header: "statement_header ex_fed_lib = statement_header (ledger_ext [])"
  by (simp add: fun_eq_iff statement_header_def ex_fed_lib_def ledger_ext_def)

lemma ex_Build:
  "BuildSubordinateStatement ex_fed_lib ''t'' ''e'' (Some (ec_Public key_one)) ''k'' key_two ''a'' hour 0 rnd = Inr ''ss''"
proof -
  have "jwt_sign ex_fed_lib rnd (statement_header (ledger_ext []) ''a'')
      (subordinate_payload ''t'' ''e'' (jwk_of (ec_Public key_one) ''k'') hour 0) key_two = Inr ''ss''"
    by (simp add: ex_fed_lib_def ledger_ext_def)
  then show ?thesis
    by (simp add: BuildSubordinateStatement_ok ex_fed_header)
qed

lemma utf8_members_sorted:
  "distinct (map fst ms) \<Longrightarrow> json_utf8 (JObj ms) \<Longrightarrow> json_utf8 (JObj (members_sorted ms))"
  using mset_members_sorted [of ms] by (auto dest: mset_eq_setD)

lemma ex_ss_wire:
  "wire_ok ex_fed_lib (statement_header (ledger_ext []) ''a'')
     (subordinate_payload ''t'' ''e'' (jwk_of (ec_Public key_one) ''k'') hour 0)"
proof -
  have "json_utf8 (remarshal (jwk_to_json (jwk_of (ec_Public key_one) ''k'')))"
    unfolding jwk_to_json_def remarshal.simps
    by (rule utf8_members_sorted) (simp_all add: omit_empty_def jwk_of_def char_simps)
  then show ?thesis
    by (simp add: wire_ok_def claims_wire_def subordinate_payload_def statement_claims_def no_claims_def jwks_json_def
        statement_header_def ex_fed_lib_def ledger_ext_def entityStatementTyp_def char_simps unix_def)
qed

lemma ex_ss_verifies:
  "t < hour \<Longrightarrow> VerifySubordinateStatement ex_fed_lib t ''ss'' (ec_Public key_two) =
     Inr \<lparr>ss_Issuer = ''t'', ss_Subject = ''e'', ss_IssuedAt = 0, ss_ExpiresAt = 3600,
       ss_JWKS = [jwk_of (ec_Public key_one) ''k''], ss_Metadata = None\<rparr>"
  using Verify_built [OF ex_fed_laws(2,3) ex_Build, of "jwk_of (ec_Public key_one) ''k''" t]
  by (simp add: ex_fed_header ex_ss_wire unix_def go_int_def)

lemma ex_ec_peek:
  "ParseEntityConfiguration ex_ec_text = Inr \<lparr>en_Issuer = ''e'', en_Subject = ''e'', en_IssuedAt = 0,
     en_ExpiresAt = 7200, en_JWKS = [], en_Metadata = None, en_AuthorityHints = [''t'']\<rparr>"
proof -
  have "json_parse ''{\"iss\":\"e\",\"sub\":\"e\",\"exp\":7200,\"authority_hints\":[\"t\"]}'' =
      Some (JObj [(''iss'', JStr ''e''), (''sub'', JStr ''e''), (''exp'', JInt 7200),
        (''authority_hints'', JArr [JStr ''t''])])"
    by (simp add: json_parse_def json_value.simps json_members.simps json_elems.simps lex_string.simps
        lex_number_def is_digit_def digits_val_def max_nesting_def Let_def char_simps)
  then show ?thesis
    unfolding ParseEntityConfiguration_def ex_ec_text_def peekPayload_compact
    by (simp add: entity_configuration_of_def json_field_defs jwks_field_def ptr_field_def)
qed

lemma ex_ec_verifies:
  assumes "t < 2 * hour"
  shows "\<exists>ec. VerifyEntityConfiguration ex_fed_lib t ex_ec_text (ec_Public key_one) = Inr ec"
proof -
  let ?ms = "[(''iss'', JStr ''e''), (''sub'', JStr ''e''), (''exp'', JInt 7200),
     (''authority_hints'', JArr [JStr ''t''])]"
  have "map_claims ex_ec_payload = members_sorted ?ms"
    by (simp add: map_claims_def ex_ec_payload_def no_claims_def date_member_def omit_empty_def)
  moreover have "json_get tag (members_sorted ?ms) = json_get tag ?ms" if "length (json_get tag ?ms) \<le> 1" for tag
    using that by (intro json_get_sorted) simp_all
  note this [of "''iss''"] this [of "''sub''"] this [of "''iat''"] this [of "''exp''"] this [of "''jwks''"]
    this [of "''metadata''"] this [of "''authority_hints''"]
  ultimately have dec: "\<exists>ec. entity_configuration_of (map_claims ex_ec_payload) = Some ec"
    by (simp add: entity_configuration_of_def json_field_defs jwks_field_def ptr_field_def)
  have "jwt_parse ex_fed_lib statement_opts t ex_ec_text (typ_key entityStatementTyp (ec_Public key_one)) =
      Inr \<lparr>tk_header = statement_header (ledger_ext []) ''k'', tk_payload = ex_ec_payload\<rparr>"
    using assms ex_ec_text_ne
    by (simp add: ex_fed_lib_def ledger_ext_def ledger_parse_def typ_key_def claims_valid_def statement_opts_def
        ex_ec_payload_def no_claims_def header_str_def statement_header_def)
  then show ?thesis
    using dec by (auto simp: VerifyEntityConfiguration_def verifyEntityStatement_def)
qed

definition ex_clocks :: resolve_clocks where
  "ex_clocks = \<lparr>rk_now = minute, rk_hint = (\<lambda>_. minute), rk_ec = (\<lambda>_. minute)\<rparr>"

definition ex_resolver :: InMemoryResolver where
  "ex_resolver = RegisterSubordinateStatement ''e'' ''ss'' (RegisterEntityConfig ''e'' ex_ec_text
     (NewInMemoryResolver ex_anchors))"

definition ex_entity :: ResolvedEntity where
  "ex_entity = \<lparr>re_JWKS = [jwk_of (ec_Public key_one) ''k''], re_ExpiresAt = hour\<rparr>"

lemma ex_entity_key: "ResolvedEntity_PublicKey ex_entity = Inr (ec_Public key_one)"
  using JWKToPublicKey_of_key [of "ec_Public key_one" "''k''"]
  by (simp add: ResolvedEntity_PublicKey_def ex_entity_def)

lemma ex_Resolve:
  "InMemoryResolver_Resolve ex_fed_lib ex_clocks ''e'' ex_resolver =
     (Inr ex_entity, ex_resolver\<lparr>ir_cache := [''e'' \<mapsto> ex_entity]\<rparr>)"
proof -
  have "first_verified ex_fed_lib ex_anchors (\<lambda>_. minute) ''ss'' ''e'' 0 [''t''] =
      Some \<lparr>ss_Issuer = ''t'', ss_Subject = ''e'', ss_IssuedAt = 0, ss_ExpiresAt = 3600,
       ss_JWKS = [jwk_of (ec_Public key_one) ''k''], ss_Metadata = None\<rparr>"
    by (simp add: ex_anchors_def ex_ss_verifies)
  moreover have "JWKToPublicKey (jwk_of (ec_Public key_one) ''k'') = Inr (ec_Public key_one)"
    by (rule JWKToPublicKey_of_key) simp_all
  ultimately have "resolve_chain ex_fed_lib ex_resolver ex_clocks ''e'' = Inr ex_entity"
    using ex_ec_verifies [of minute]
    by (auto simp: resolve_chain_def ex_resolver_def RegisterSubordinateStatement_def RegisterEntityConfig_def
        NewInMemoryResolver_def ex_clocks_def ex_ec_peek ex_entity_def entity_expiry_def Let_def)
  then show ?thesis
    by (simp add: InMemoryResolver_Resolve_def ex_resolver_def RegisterSubordinateStatement_def
        RegisterEntityConfig_def NewInMemoryResolver_def)
qed

lemma ex_reachable: "ir_reachable ex_fed_lib ex_anchors ex_resolver"
  unfolding ex_resolver_def by (intro ir_reachable.intros)

section \<open>Properties\<close>

text \<open>C15: Whatever was registered and resolved before, the in-memory resolver returns for an entity
  only a key set that a trust anchor signed for it, in a statement of the right type that had not
  expired when it was verified, and whose first key signed an entity configuration; the key that
  \<open>PublicKey\<close> takes from it is a P-256 key of the set.\<close>

theorem Resolve_certified:
  assumes "jwt_sound L" "ir_reachable L anchors r"
    and "InMemoryResolver_Resolve L ck ent r = (Inr e, r')" "ResolvedEntity_PublicKey e = Inr pub"
  shows "certified L anchors ent (re_JWKS e) \<and> p256_key pub \<and>
    (\<exists>j \<in> set (re_JWKS e). JWKToPublicKey j = Inr pub) \<and>
    (\<exists>hint anchor tok t tk exp. anchors hint = Some anchor \<and> jwt_sig_ok L anchor tok \<and>
      jwt_parse L statement_opts t tok (typ_key ''entity-statement+jwt'' anchor) = Inr tk \<and>
      str_field ''sub'' (map_claims (tk_payload tk)) = Some ent \<and>
      rc_ExpiresAt (pl_reg (tk_payload tk)) = Some exp \<and> t < exp)"
  using memory.client_key [OF _ assms(3,4)] ir_reachable_ok [OF assms(2)] certified_sound [OF assms(1)]
  by (metis entityStatementTyp_def)

theorem Resolve_certified_witness:
  "certified ex_fed_lib ex_anchors ''e'' (re_JWKS ex_entity) \<and> p256_key (ec_Public key_one)"
  using Resolve_certified [OF ex_fed_laws(1) ex_reachable ex_Resolve ex_entity_key] by blast

text \<open>The HTTP resolver gives the same guarantee, whatever the network answers.\<close>

theorem HTTP_Resolve_certified:
  assumes "hr_reachable L anchors r"
    and "HTTPResolver_Resolve L net ck ent r = (Inr e, r')" "ResolvedEntity_PublicKey e = Inr pub"
  shows "certified L anchors ent (re_JWKS e) \<and> p256_key pub"
  using http.client_key [OF _ assms(2,3)] hr_reachable_ok [OF assms(1)] by metis

text \<open>The cache: while a resolved entity has not expired it is returned again with no further
  verification, and registering a configuration or a statement for the entity drops it, so that
  the next resolution walks the chain of the registered statements.\<close>

theorem Resolve_cache:
  assumes "InMemoryResolver_Resolve L ck ent r = (Inr e, r1)" "rk_now ck' < re_ExpiresAt e"
  shows "InMemoryResolver_Resolve L ck' ent r1 = (Inr e, r1) \<and>
    fst (InMemoryResolver_Resolve L ck' ent (RegisterSubordinateStatement ent tok r1)) =
      resolve_chain L (RegisterSubordinateStatement ent tok r1) ck' ent"
proof -
  have "ir_cache r1 ent = Some e"
    using assms(1) by (auto elim!: InMemoryResolver_Resolve_cases)
  then show ?thesis
    using assms(2)
    by (simp add: InMemoryResolver_Resolve_def RegisterSubordinateStatement_def split: sum.splits)
qed

theorem Resolve_cache_witness:
  "InMemoryResolver_Resolve ex_fed_lib ex_clocks ''e'' (ex_resolver\<lparr>ir_cache := [''e'' \<mapsto> ex_entity]\<rparr>) =
     (Inr ex_entity, ex_resolver\<lparr>ir_cache := [''e'' \<mapsto> ex_entity]\<rparr>)"
  using Resolve_cache [OF ex_Resolve, of ex_clocks] by (simp add: ex_clocks_def ex_entity_def)

text \<open>A subordinate statement that the anchor built verifies under the anchor's public key until
  it expires, and carries exactly the anchor, the entity and the entity's key.\<close>

theorem Statement_roundtrip:
  assumes "jwt_complete L" "jwt_es256 L"
    and "BuildSubordinateStatement L anchorID sub pub kid sk akid ttl now rnd = Inr tok"
    and "PublicKeyToJWK pub kid = Inr jwk"
    and "wire_ok L (statement_header L akid) (subordinate_payload anchorID sub jwk ttl now)"
    and "go_int (unix now)" "go_int (unix (now + ttl))" "t < second * unix (now + ttl)"
  shows "\<exists>ss. VerifySubordinateStatement L t tok (ec_Public sk) = Inr ss \<and> ss_Issuer ss = anchorID \<and>
    ss_Subject ss = sub \<and> ss_JWKS ss = [jwk] \<and> ss_ExpiresAt ss = unix (now + ttl)"
  using Verify_built [OF assms] by simp

theorem Statement_roundtrip_witness:
  "\<exists>ss. VerifySubordinateStatement ex_fed_lib minute ''ss'' (ec_Public key_two) = Inr ss \<and> ss_Issuer ss = ''t'' \<and>
    ss_Subject ss = ''e'' \<and> ss_JWKS ss = [jwk_of (ec_Public key_one) ''k''] \<and> ss_ExpiresAt ss = unix (0 + hour)"
  by (rule Statement_roundtrip [OF ex_fed_laws(2,3) ex_Build])
    (simp_all add: ex_fed_header ex_ss_wire unix_def go_int_def)

end
