(* ===== verification/SsfReceiver.thy ===== *)
theory SsfReceiver
  imports Jwt
begin

text \<open>
  Package \<open>pkg/ssfreceiver\<close>: the receiver of security event tokens (\<open>receiver.go\<close>) and the
  revocation list that it feeds (\<open>remediation.go\<close>).  A handler is a function on the state \<open>'r\<close>
  that the handlers share; the mutex makes the test and insertion of a token identifier one step.
  Go ranges over the events in an unspecified order, which is the argument \<open>order\<close>; the clock
  reading of the \<open>j\<close>-th handler of event type \<open>e\<close> is \<open>clock e j\<close>.
\<close>

definition EventTypeSessionRevoked :: string where
  "EventTypeSessionRevoked = ''https://schemas.openid.net/secevent/caep/event-type/session-revoked''"

definition contentTypeSET :: string where
  "contentTypeSET = ''application/secevent+jwt''"

section \<open>Data\<close>

record SET =
  set_JTI :: string
  set_Issuer :: string
  set_IssuedAt :: int
  set_Events :: "string \<rightharpoonup> json"

type_synonym 'r Handler = "time \<Rightarrow> SET \<Rightarrow> 'r \<Rightarrow> 'r"

record 'r Receiver =
  rv_handlers :: "string \<Rightarrow> 'r Handler list"
  rv_jtiSeen :: "string set"

text \<open>The request; the body is \<^term>\<open>None\<close> when reading it fails.\<close>

record set_request =
  sr_Method :: string
  sr_ContentType :: string
  sr_Body :: "bytes option"

record RevokedSet =
  rs_subjects :: "string \<rightharpoonup> time"

section \<open>Receiver\<close>

definition NewReceiver :: "'r Receiver" where
  "NewReceiver = \<lparr>rv_handlers = (\<lambda>_. []), rv_jtiSeen = {}\<rparr>"

definition Receiver_On :: "'r Receiver \<Rightarrow> string \<Rightarrow> 'r Handler \<Rightarrow> 'r Receiver" where
  "Receiver_On r eventType h =
     r\<lparr>rv_handlers := (rv_handlers r)(eventType := rv_handlers r eventType @ [h])\<rparr>"

text \<open>\<open>json.Unmarshal\<close> into a map keeps the entries it has, unless the value is \<open>null\<close>.\<close>

fun store_map :: "(string \<rightharpoonup> json) \<Rightarrow> json list \<Rightarrow> (string \<rightharpoonup> json) option" where
  "store_map m [] = Some m"
| "store_map m (JObj ms # vs) = store_map (fold (\<lambda>(k, v) m. m(k \<mapsto> v)) ms m) vs"
| "store_map m (JNull # vs) = store_map Map.empty vs"
| "store_map m (_ # vs) = None"

text \<open>\<open>setClaims\<close> of a payload.\<close>

definition set_claims :: "payload \<Rightarrow> (registered_claims \<times> (string \<rightharpoonup> json)) option" where
  "set_claims pl = map_option (Pair (pl_reg pl)) (store_map Map.empty (json_get ''events'' (pl_priv pl)))"

fun run_handlers :: "(nat \<Rightarrow> time) \<Rightarrow> nat \<Rightarrow> 'r Handler list \<Rightarrow> SET \<Rightarrow> 'r \<Rightarrow> 'r" where
  "run_handlers clock j [] ev s = s"
| "run_handlers clock j (h # hs) ev s = run_handlers clock (Suc j) hs ev (h (clock j) ev s)"

definition dispatch ::
  "'r Receiver \<Rightarrow> (string \<Rightarrow> nat \<Rightarrow> time) \<Rightarrow> string list \<Rightarrow> SET \<Rightarrow> 'r \<Rightarrow> 'r" where
  "dispatch r clock order ev s =
     fold (\<lambda>eventType s. run_handlers (clock eventType) 0 (rv_handlers r eventType) ev s) order s"

text \<open>\<open>ServeHTTP\<close>: the status code, the receiver and the handlers' state after it.\<close>

definition Receiver_ServeHTTP :: "ext \<Rightarrow> (string \<Rightarrow> nat \<Rightarrow> time) \<Rightarrow> string list
    \<Rightarrow> set_request \<Rightarrow> 'r Receiver \<times> 'r \<Rightarrow> nat \<times> 'r Receiver \<times> 'r" where
  "Receiver_ServeHTTP L clock order req st = (case st of (r, s) \<Rightarrow>
     if sr_Method req \<noteq> ''POST'' then (405, r, s)
     else if sr_ContentType req \<noteq> contentTypeSET then (415, r, s)
     else (case map_option (take (2 ^ 16)) (sr_Body req) of
       None \<Rightarrow> (400, r, s)
     | Some body \<Rightarrow>
         if body = [] then (400, r, s)
         else (case jwt_parse_unverified L body of
           Inl e \<Rightarrow> (400, r, s)
         | Inr token \<Rightarrow> (case set_claims (tk_payload token) of
             None \<Rightarrow> (400, r, s)
           | Some (reg, events) \<Rightarrow>
               let ev = \<lparr>set_JTI = rc_ID reg, set_Issuer = rc_Issuer reg,
                     set_IssuedAt = (case rc_IssuedAt reg of None \<Rightarrow> 0 | Some t \<Rightarrow> t div second),
                     set_Events = events\<rparr>
               in if set_JTI ev = [] then (400, r, s)
                  else if set_JTI ev \<in> rv_jtiSeen r then (409, r, s)
                  else (let r' = r\<lparr>rv_jtiSeen := insert (set_JTI ev) (rv_jtiSeen r)\<rparr>
                        in (202, r', dispatch r' clock order ev s))))))"

section \<open>Remediation\<close>

definition newRevokedSet :: RevokedSet where
  "newRevokedSet = \<lparr>rs_subjects = Map.empty\<rparr>"

definition RevokedSet_revoke :: "time \<Rightarrow> string \<Rightarrow> RevokedSet \<Rightarrow> RevokedSet" where
  "RevokedSet_revoke now subject rs = rs\<lparr>rs_subjects := (rs_subjects rs)(subject \<mapsto> now)\<rparr>"

definition RevokedSet_IsRevoked :: "RevokedSet \<Rightarrow> string \<Rightarrow> bool" where
  "RevokedSet_IsRevoked rs subject \<longleftrightarrow> rs_subjects rs subject \<noteq> None"

definition RevokedSet_RevokedSince :: "RevokedSet \<Rightarrow> string \<Rightarrow> time option" where
  "RevokedSet_RevokedSince rs subject = rs_subjects rs subject"

text \<open>The members of a nested struct field: every occurrence stores into the same struct.\<close>

fun sub_members :: "json list \<Rightarrow> (string \<times> json) list option" where
  "sub_members [] = Some []"
| "sub_members (v # vs) = (case (json_struct v, sub_members vs) of
     (Some ms, Some rest) \<Rightarrow> Some (ms @ rest) | _ \<Rightarrow> None)"

text \<open>\<open>sessionRevokedPayload\<close>: the fields \<open>sub\<close> and \<open>uri\<close> of its subject; every field has to
  have the type of the struct.\<close>

definition revoked_payload :: "json \<Rightarrow> (string \<times> string) option" where
  "revoked_payload raw = do {
     ms \<leftarrow> json_struct raw;
     reason \<leftarrow> str_field ''reason'' ms;
     subj \<leftarrow> sub_members (json_get ''subject'' ms);
     format \<leftarrow> str_field ''format'' subj;
     sub \<leftarrow> str_field ''sub'' subj;
     uri \<leftarrow> str_field ''uri'' subj;
     Some (sub, uri)}"

definition handleSessionRevoked :: "RevokedSet Handler" where
  "handleSessionRevoked now ev rs = (case set_Events ev EventTypeSessionRevoked of
     None \<Rightarrow> rs
   | Some raw \<Rightarrow> (case revoked_payload raw of
       None \<Rightarrow> rs
     | Some (sub, uri) \<Rightarrow>
         let sub = (if sub = [] then uri else sub)
         in if sub \<noteq> [] then RevokedSet_revoke now sub rs else rs))"

text \<open>\<open>NewAgentRemediation\<close> registers the handler; the remediation is then the pair of the
  receiver and the revocation list.\<close>

definition NewAgentRemediation :: "RevokedSet Receiver \<Rightarrow> RevokedSet Receiver \<times> RevokedSet" where
  "NewAgentRemediation r = (Receiver_On r EventTypeSessionRevoked handleSessionRevoked, newRevokedSet)"

text \<open>A history of pushes to the endpoint, each with its handlers' clock and iteration order.\<close>

type_synonym push = "(string \<Rightarrow> nat \<Rightarrow> time) \<times> string list \<times> set_request"

fun serve_all :: "ext \<Rightarrow> push list \<Rightarrow> 'r Receiver \<times> 'r \<Rightarrow> nat list \<times> 'r Receiver \<times> 'r" where
  "serve_all L [] st = ([], st)"
| "serve_all L ((clock, order, req) # ps) st = (case Receiver_ServeHTTP L clock order req st of
     (code, st') \<Rightarrow> (case serve_all L ps st' of (codes, st'') \<Rightarrow> (code # codes, st'')))"

section \<open>Lemmas\<close>

text \<open>The part of \<open>ServeHTTP\<close> before the mutex: a status code, or the SET.\<close>

definition parse_set :: "ext \<Rightarrow> set_request \<Rightarrow> nat + SET" where
  "parse_set L req =
     (if sr_Method req \<noteq> ''POST'' then Inl 405
      else if sr_ContentType req \<noteq> contentTypeSET then Inl 415
      else (case sr_Body req of
        None \<Rightarrow> Inl 400
      | Some b \<Rightarrow> if b = [] then Inl 400
          else (case jwt_parse_unverified L (take (2 ^ 16) b) of
            Inl e \<Rightarrow> Inl 400
          | Inr token \<Rightarrow> (case set_claims (tk_payload token) of
              None \<Rightarrow> Inl 400
            | Some (reg, events) \<Rightarrow> if rc_ID reg = [] then Inl 400
                else Inr \<lparr>set_JTI = rc_ID reg, set_Issuer = rc_Issuer reg,
                  set_IssuedAt = (case rc_IssuedAt reg of None \<Rightarrow> 0 | Some t \<Rightarrow> t div second),
                  set_Events = events\<rparr>))))"

lemma ServeHTTP_parse_set:
  "Receiver_ServeHTTP L clock order req (r, s) = (case parse_set L req of
     Inl code \<Rightarrow> (code, r, s)
   | Inr ev \<Rightarrow> if set_JTI ev \<in> rv_jtiSeen r then (409, r, s)
       else (let r' = r\<lparr>rv_jtiSeen := insert (set_JTI ev) (rv_jtiSeen r)\<rparr>
             in (202, r', dispatch r' clock order ev s)))"
  by (auto simp: Receiver_ServeHTTP_def parse_set_def Let_def split: option.splits sum.splits)

lemma parse_set_code: "parse_set L req = Inl code \<Longrightarrow> code \<in> {400, 405, 415}"
  by (auto simp: parse_set_def split: option.splits sum.splits if_splits)

lemma ServeHTTP_cases:
  assumes "Receiver_ServeHTTP L clock order req (r, s) = (code, r', s')"
  obtains (refused) "parse_set L req = Inl code" "r' = r" "s' = s"
  | (duplicate) ev where "parse_set L req = Inr ev" "code = 409" "r' = r" "s' = s" "set_JTI ev \<in> rv_jtiSeen r"
  | (accepted) ev where "parse_set L req = Inr ev" "code = 202" "set_JTI ev \<notin> rv_jtiSeen r"
      "r' = r\<lparr>rv_jtiSeen := insert (set_JTI ev) (rv_jtiSeen r)\<rparr>" "s' = dispatch r' clock order ev s"
  using assms by (auto simp: ServeHTTP_parse_set Let_def split: sum.splits if_splits)

lemma ServeHTTP_handlers [simp]:
  "Receiver_ServeHTTP L clock order req (r, s) = (code, r', s') \<Longrightarrow> rv_handlers r' = rv_handlers r"
  by (erule ServeHTTP_cases) auto

lemma ServeHTTP_jtiSeen:
  "Receiver_ServeHTTP L clock order req (r, s) = (code, r', s') \<Longrightarrow> rv_jtiSeen r \<subseteq> rv_jtiSeen r'"
  by (erule ServeHTTP_cases) auto

text \<open>The wiring of the gateway: one handler, for session-revoked events.\<close>

definition wired :: "RevokedSet Receiver \<Rightarrow> bool" where
  "wired r \<longleftrightarrow> rv_handlers r = rv_handlers (fst (NewAgentRemediation NewReceiver))"

lemma wired_handlers:
  "wired r \<Longrightarrow> rv_handlers r e = (if e = EventTypeSessionRevoked then [handleSessionRevoked] else [])"
  by (simp add: wired_def NewAgentRemediation_def Receiver_On_def NewReceiver_def)

lemma dispatch_skip:
  "wired r \<Longrightarrow> EventTypeSessionRevoked \<notin> set order \<Longrightarrow> dispatch r clock order ev s = s"
  by (induction order arbitrary: s) (auto simp: dispatch_def wired_handlers)

text \<open>Whatever the iteration order, the handler runs once when its event is there.\<close>

lemma dispatch_wired:
  assumes "wired r" "distinct order" "set order = dom (set_Events ev)"
  shows "dispatch r clock order ev s = handleSessionRevoked (clock EventTypeSessionRevoked 0) ev s"
proof (cases "EventTypeSessionRevoked \<in> set order")
  case True
  then obtain a b where order: "order = a @ EventTypeSessionRevoked # b" "EventTypeSessionRevoked \<notin> set a"
    by (meson split_list_first)
  with assms(2) have "EventTypeSessionRevoked \<notin> set b" by simp
  with order dispatch_skip [OF assms(1)] show ?thesis
    by (simp add: dispatch_def wired_handlers [OF assms(1)])
next
  case False
  with assms(3) have "set_Events ev EventTypeSessionRevoked = None" by (auto simp: domIff)
  with False show ?thesis
    by (simp add: dispatch_skip [OF assms(1)] handleSessionRevoked_def)
qed

text \<open>The subject that a SET revokes.\<close>

definition revoked_subject :: "SET \<Rightarrow> string option" where
  "revoked_subject ev = (case Option.bind (set_Events ev EventTypeSessionRevoked) revoked_payload of
     None \<Rightarrow> None
   | Some (sub, uri) \<Rightarrow> if sub \<noteq> [] then Some sub else if uri \<noteq> [] then Some uri else None)"

lemma handleSessionRevoked_eq:
  "handleSessionRevoked now ev rs =
     (case revoked_subject ev of None \<Rightarrow> rs | Some sub \<Rightarrow> RevokedSet_revoke now sub rs)"
  by (auto simp: handleSessionRevoked_def revoked_subject_def Let_def split: option.splits)

lemma IsRevoked_revoke [simp]:
  "RevokedSet_IsRevoked (RevokedSet_revoke now sub rs) x \<longleftrightarrow> x = sub \<or> RevokedSet_IsRevoked rs x"
  by (simp add: RevokedSet_IsRevoked_def RevokedSet_revoke_def)

lemma IsRevoked_handle:
  "RevokedSet_IsRevoked (handleSessionRevoked now ev rs) x \<longleftrightarrow> revoked_subject ev = Some x \<or> RevokedSet_IsRevoked rs x"
  by (auto simp: handleSessionRevoked_eq split: option.splits)

text \<open>The order in which Go ranges over the events of a push lists the keys of the map.\<close>

definition event_order :: "ext \<Rightarrow> set_request \<Rightarrow> string list \<Rightarrow> bool" where
  "event_order L req order \<longleftrightarrow> (case parse_set L req of
     Inl _ \<Rightarrow> True | Inr ev \<Rightarrow> distinct order \<and> set order = dom (set_Events ev))"

lemma accepted_effect:
  assumes "wired r" "event_order L req order" "Receiver_ServeHTTP L clock order req (r, s) = (202, r', s')"
    and "parse_set L req = Inr ev"
  shows "s' = handleSessionRevoked (clock EventTypeSessionRevoked 0) ev s"
  using assms(3)
proof (cases rule: ServeHTTP_cases)
  case (accepted ev')
  then have "ev' = ev" "wired r'"
    using assms(1,4) by (auto simp: wired_def)
  then show ?thesis
    using accepted(5) dispatch_wired assms(2,4) by (simp add: event_order_def)
qed (use assms(4) parse_set_code in fastforce)+

lemma serve_all_jtiSeen:
  "serve_all L ps (r, s) = (codes, r', s') \<Longrightarrow> rv_jtiSeen r \<subseteq> rv_jtiSeen r'"
proof (induction ps arbitrary: r s codes)
  case (Cons p ps)
  obtain clock order req where p: "p = (clock, order, req)"
    by (cases p)
  obtain code r1 s1 where "Receiver_ServeHTTP L clock order req (r, s) = (code, r1, s1)"
    by (metis prod_cases3)
  then show ?case
    using Cons.IH [of r1 s1] Cons.prems p ServeHTTP_jtiSeen by (fastforce split: prod.splits)
qed simp

lemma serve_all_revoked:
  assumes "serve_all L ps (r, s) = (codes, r', s')" "wired r" "\<forall>(_, order, req) \<in> set ps. event_order L req order"
    and "RevokedSet_IsRevoked s x"
  shows "RevokedSet_IsRevoked s' x"
  using assms
proof (induction ps arbitrary: r s codes)
  case (Cons p ps)
  obtain clock order req where p: "p = (clock, order, req)"
    by (cases p)
  obtain code r1 s1 where step: "Receiver_ServeHTTP L clock order req (r, s) = (code, r1, s1)"
    by (metis prod_cases3)
  have "wired r1"
    using step Cons.prems(2) by (simp add: wired_def)
  moreover have "RevokedSet_IsRevoked s1 x"
    using step
  proof (cases rule: ServeHTTP_cases)
    case (accepted ev)
    have "s1 = handleSessionRevoked (clock EventTypeSessionRevoked 0) ev s"
      by (rule accepted_effect [OF Cons.prems(2) _ _ accepted(1)]) (use step Cons.prems(3) p accepted(2) in auto)
    then show ?thesis
      using Cons.prems(4) by (simp add: IsRevoked_handle)
  qed (use Cons.prems(4) in simp_all)
  ultimately show ?case
    using Cons.IH [of r1 s1] Cons.prems(1,3) p step by (fastforce split: prod.splits)
qed simp

section \<open>Closed instances\<close>

definition ex_set_token :: jwt_token where
  "ex_set_token = \<lparr>tk_header = [], tk_payload = \<lparr>pl_reg = no_claims\<lparr>rc_ID := ''set-1''\<rparr>,
     pl_priv = [(''events'', JObj [(EventTypeSessionRevoked,
       JObj [(''subject'', JObj [(''format'', JStr ''spiffe''), (''sub'', JStr ''spiffe://a/b'')])])])]\<rparr>\<rparr>"

definition ex_set_lib :: ext where
  "ex_set_lib = ledger_ext [\<lparr>le_text = ''t'', le_signer = key_one, le_token = ex_set_token\<rparr>]"

definition ex_set_req :: set_request where
  "ex_set_req = \<lparr>sr_Method = ''POST'', sr_ContentType = contentTypeSET, sr_Body = Some ''t''\<rparr>"

definition ex_set :: SET where
  "ex_set = \<lparr>set_JTI = ''set-1'', set_Issuer = [], set_IssuedAt = 0,
     set_Events = [EventTypeSessionRevoked \<mapsto>
       JObj [(''subject'', JObj [(''format'', JStr ''spiffe''), (''sub'', JStr ''spiffe://a/b'')])]]\<rparr>"

lemma ex_parse_set: "parse_set ex_set_lib ex_set_req = Inr ex_set"
  by (simp add: parse_set_def ex_set_req_def ex_set_lib_def ledger_ext_def ex_set_token_def set_claims_def
      no_claims_def ex_set_def)

lemma ex_revoked_subject: "revoked_subject ex_set = Some ''spiffe://a/b''"
  by (simp add: revoked_subject_def ex_set_def revoked_payload_def json_field_defs)

definition ex_order :: "string list" where
  "ex_order = [EventTypeSessionRevoked]"

lemma ex_order: "event_order ex_set_lib ex_set_req ex_order"
  by (simp add: event_order_def ex_parse_set ex_order_def ex_set_def)

definition ex_remediation :: "RevokedSet Receiver \<times> RevokedSet" where
  "ex_remediation = NewAgentRemediation NewReceiver"

lemma ex_wired: "wired (fst ex_remediation)"
  by (simp add: ex_remediation_def wired_def)

lemma ex_serve:
  "\<exists>r s. Receiver_ServeHTTP ex_set_lib (\<lambda>_ _. 7) ex_order ex_set_req ex_remediation = (202, r, s)
     \<and> wired r \<and> RevokedSet_IsRevoked s ''spiffe://a/b''"
proof -
  obtain r s where step: "Receiver_ServeHTTP ex_set_lib (\<lambda>_ _. 7) ex_order ex_set_req
      (fst ex_remediation, snd ex_remediation) = (202, r, s)"
    by (simp add: ServeHTTP_parse_set ex_parse_set ex_remediation_def NewAgentRemediation_def Receiver_On_def
        NewReceiver_def Let_def)
  then have "wired r"
    using ex_wired ServeHTTP_handlers [OF step] by (simp add: wired_def)
  then show ?thesis
    using step accepted_effect [OF ex_wired ex_order step ex_parse_set]
    by (simp add: IsRevoked_handle ex_revoked_subject)
qed

section \<open>Properties\<close>

text \<open>C16: On the wired receiver a push answers 202 exactly when it decodes to a SET with a fresh
  identifier, and then revokes exactly the subject that the session-revoked event names, if any,
  whatever order Go ranges over the events in; every other answer leaves the list unchanged.\<close>

theorem ServeHTTP_revokes:
  assumes "wired r" "event_order L req order" "Receiver_ServeHTTP L clock order req (r, s) = (code, r', s')"
  shows "(code = 202 \<longleftrightarrow> (\<exists>ev. parse_set L req = Inr ev \<and> set_JTI ev \<notin> rv_jtiSeen r)) \<and>
    (code = 202 \<longrightarrow> (\<forall>ev x. parse_set L req = Inr ev \<longrightarrow>
       RevokedSet_IsRevoked s' x = (revoked_subject ev = Some x \<or> RevokedSet_IsRevoked s x))) \<and>
    (code \<noteq> 202 \<longrightarrow> s' = s \<and> r' = r)"
  using assms(3)
proof (cases rule: ServeHTTP_cases)
  case refused
  have "code \<noteq> 202"
    using parse_set_code [OF refused(1)] by force
  then show ?thesis
    by (simp add: refused)
next
  case (accepted ev)
  have "s' = handleSessionRevoked (clock EventTypeSessionRevoked 0) ev s"
    by (rule accepted_effect [OF assms(1,2) _ accepted(1)]) (use assms(3) accepted(2) in simp)
  then have "RevokedSet_IsRevoked s' x \<longleftrightarrow> revoked_subject ev = Some x \<or> RevokedSet_IsRevoked s x" for x
    by (simp only: IsRevoked_handle)
  then show ?thesis
    using accepted(1-3) by auto
qed auto

theorem ServeHTTP_revokes_witness:
  "RevokedSet_IsRevoked (snd (snd (Receiver_ServeHTTP ex_set_lib (\<lambda>_ _. 7) ex_order ex_set_req ex_remediation)))
     ''spiffe://a/b''"
proof -
  obtain r s where "Receiver_ServeHTTP ex_set_lib (\<lambda>_ _. 7) ex_order ex_set_req
      (fst ex_remediation, snd ex_remediation) = (202, r, s)"
    using ex_serve by auto
  from ServeHTTP_revokes [OF ex_wired ex_order this] this show ?thesis
    by (simp add: ex_parse_set ex_revoked_subject)
qed

text \<open>A SET is dispatched at most once: after a push that answered 202, every later push that
  decodes to the same identifier answers 409 and changes nothing.\<close>

theorem SET_once:
  assumes "Receiver_ServeHTTP L clock order req (r, s) = (202, r1, s1)" "parse_set L req = Inr ev"
    and "serve_all L ps (r1, s1) = (codes, r2, s2)"
    and "parse_set L req' = Inr ev'" "set_JTI ev' = set_JTI ev"
  shows "Receiver_ServeHTTP L clock' order' req' (r2, s2) = (409, r2, s2)"
proof -
  have "set_JTI ev \<in> rv_jtiSeen r1"
    using assms(1) assms(2) by (cases rule: ServeHTTP_cases) (use parse_set_code in fastforce)+
  then show ?thesis
    using serve_all_jtiSeen [OF assms(3)] assms(4,5) by (auto simp: ServeHTTP_parse_set)
qed

theorem SET_once_witness:
  "\<exists>(r :: RevokedSet Receiver) s.
     Receiver_ServeHTTP ex_set_lib (\<lambda>_ _. 8) ex_order ex_set_req (r, s) = (409, r, s)"
proof -
  obtain r s where "Receiver_ServeHTTP ex_set_lib (\<lambda>_ _. 7) ex_order ex_set_req
      (fst ex_remediation, snd ex_remediation) = (202, r, s)"
    using ex_serve by auto
  then have "Receiver_ServeHTTP ex_set_lib (\<lambda>_ _. 8) ex_order ex_set_req (r, s) = (409, r, s)"
    by (rule SET_once [OF _ ex_parse_set, of _ _ _ _ _ _ "[]" "[]"]) (simp_all add: ex_parse_set)
  then show ?thesis by blast
qed

text \<open>C17: Revocation is permanent: no history of pushes takes a subject off the list.\<close>

theorem revocation_permanent:
  assumes "wired r" "\<forall>(_, order, req) \<in> set ps. event_order L req order"
    and "serve_all L ps (r, s) = (codes, r', s')" "RevokedSet_IsRevoked s x"
  shows "RevokedSet_IsRevoked s' x"
  using serve_all_revoked [OF assms(3,1,2,4)] .

theorem revocation_permanent_witness:
  "\<exists>codes r s. serve_all ex_set_lib [(\<lambda>_ _. 8, ex_order, ex_set_req)]
     (fst ex_remediation, RevokedSet_revoke 1 ''x'' newRevokedSet) = (codes, r, s) \<and> RevokedSet_IsRevoked s ''x''"
proof -
  obtain codes r s where run: "serve_all ex_set_lib [(\<lambda>_ _. 8, ex_order, ex_set_req)]
      (fst ex_remediation, RevokedSet_revoke 1 ''x'' newRevokedSet) = (codes, r, s)"
    by (metis prod_cases3)
  then show ?thesis
    using revocation_permanent [OF ex_wired _ run, of "''x''"] ex_order by simp
qed

end
