(* ===== verification/Gateway.thy ===== *)
theory Gateway
  imports Middleware Resolver SsfReceiver
begin

text \<open>
  Package \<open>internal/gateway\<close>: the MCP proxy (\<open>server.go\<close>) and validation against several identity
  providers (\<open>multivalidator.go\<close>).  The middleware of a tool route is modelled whole, with the state
  it changes: the resolver's cache and the proof validator's replay store.  The routing of Gin and
  the reverse proxy are not modelled: \<open>Forward\<close> is the request handed to the proxy.
\<close>

section \<open>Several identity providers\<close>

datatype any_error = NoValidatorsConfigured | AnyRejected validate_error

text \<open>The loop ranges over the map in the order of its keys that is given; \<open>clock\<close> is read once
  per validator, and once more for a validator built from a federated key.\<close>

fun validate_any :: "ext \<Rightarrow> (string \<rightharpoonup> AgentValidator) \<Rightarrow> (nat \<Rightarrow> time) \<Rightarrow> nat \<Rightarrow> validate_error option
    \<Rightarrow> string list \<Rightarrow> string \<Rightarrow> any_error + ValidatedAgent" where
  "validate_any L validators clock i lastErr [] token =
     (case lastErr of Some e \<Rightarrow> Inl (AnyRejected e) | None \<Rightarrow> Inl NoValidatorsConfigured)"
| "validate_any L validators clock i lastErr (k # ks) token = (case validators k of
     None \<Rightarrow> validate_any L validators clock i lastErr ks token
   | Some v \<Rightarrow> (case AgentValidator_Validate L v (clock i) token of
       Inr va \<Rightarrow> Inr va
     | Inl e \<Rightarrow> validate_any L validators clock (Suc i) (Some e) ks token))"

definition validateWithAny :: "ext \<Rightarrow> (string \<rightharpoonup> AgentValidator) \<Rightarrow> (nat \<Rightarrow> time) \<Rightarrow> string list
    \<Rightarrow> string \<Rightarrow> any_error + ValidatedAgent" where
  "validateWithAny L validators clock order token = validate_any L validators clock 0 None order token"

datatype gw_peek_error = GwNotCompactJWT | GwPayloadEncoding | GwPayloadJSON | GwMissingIss

definition gw_peekIssuer :: "string \<Rightarrow> gw_peek_error + string" where
  "gw_peekIssuer tokenStr = (case splitn_on (CHR ''.'') 3 tokenStr of
     [_, p, _] \<Rightarrow> (case b64_decode p of
        None \<Rightarrow> Inl GwPayloadEncoding
      | Some payload \<Rightarrow>
          (case do { v \<leftarrow> json_parse payload; ms \<leftarrow> json_struct v; str_field ''iss'' ms } of
             None \<Rightarrow> Inl GwPayloadJSON
           | Some iss \<Rightarrow> if iss = [] then Inl GwMissingIss else Inr iss))
   | _ \<Rightarrow> Inl GwNotCompactJWT)"

section \<open>Configuration\<close>

text \<open>\<open>cfg_Remediation\<close> says whether the configuration has one; its list is part of the state.\<close>

record ('r, 'j) Config =
  cfg_Validators :: "string \<rightharpoonup> AgentValidator"
  cfg_order :: "string list"
  cfg_FederationResolver :: "'r resolve option"
  cfg_Record :: "'j recorder"
  cfg_Authz :: "(string \<times> json) list Request \<Rightarrow> authz_error + Decision"
  cfg_Routes :: "string \<rightharpoonup> string"
  cfg_MTLSClientCA :: bool
  cfg_Remediation :: bool

record ('r, 'j) gw_state =
  gs_resolver :: 'r
  gs_proof :: "'j ProofValidator"
  gs_revoked :: RevokedSet

datatype leaf_error = LeafRejected any_error | LeafPeek gw_peek_error
  | FederationResolve string resolve_error | ExtractKey string resolve_error | FederatedRejected validate_error

datatype mtls_error = NoClientCertificate | SANMismatch "string list" string

datatype gw_abort = GwMissingHeader string | GwInvalidIdentityToken leaf_error | GwRevoked
  | GwMTLSBinding mtls_error | GwInvalidAgentChain chain_error | GwChainValidationFailed chain_error
  | GwInvalidProofToken proof_error | GwAuthzError authz_error
  | GwPending string string | GwAccessDenied string

text \<open>What the proxy gets: the agent, the chain and the body that it will read.\<close>

datatype gw_response = GwAbort nat gw_abort
  | Forward ValidatedAgent chain "(string + bytes) option"

section \<open>Operations\<close>

definition resolveAndValidate :: "ext \<Rightarrow> ('r, 'j) Config \<Rightarrow> auth_clocks \<Rightarrow> resolve_clocks \<Rightarrow> string \<Rightarrow> 'r
    \<Rightarrow> (leaf_error + ValidatedAgent) \<times> 'r" where
  "resolveAndValidate L cfg ck rk tok s =
     (case validateWithAny L (cfg_Validators cfg) (ak_leaf ck) (cfg_order cfg) tok of
        Inr va \<Rightarrow> (Inr va, s)
      | Inl err \<Rightarrow> (case cfg_FederationResolver cfg of
          None \<Rightarrow> (Inl (LeafRejected err), s)
        | Some Resolve \<Rightarrow> (case gw_peekIssuer tok of
            Inl e \<Rightarrow> (Inl (LeafPeek e), s)
          | Inr issuer \<Rightarrow> (case Resolve rk issuer s of
              (Inl e, s') \<Rightarrow> (Inl (FederationResolve issuer e), s')
            | (Inr entity, s') \<Rightarrow> (case ResolvedEntity_PublicKey entity of
                Inl e \<Rightarrow> (Inl (ExtractKey issuer e), s')
              | Inr pub \<Rightarrow>
                  (case AgentValidator_Validate L (NewAgentValidator issuer pub [])
                          (ak_leaf ck (length (cfg_order cfg))) tok of
                     Inl e \<Rightarrow> (Inl (FederatedRejected e), s')
                   | Inr va \<Rightarrow> (Inr va, s')))))))"

definition verifyMTLSBinding :: "http_request \<Rightarrow> string \<Rightarrow> mtls_error option" where
  "verifyMTLSBinding r wantSub = (case hq_TLS r of
     None \<Rightarrow> Some NoClientCertificate
   | Some [] \<Rightarrow> Some NoClientCertificate
   | Some (cert # _) \<Rightarrow> if \<exists>u \<in> set cert. u = wantSub then None else Some (SANMismatch cert wantSub))"

text \<open>The tool parameters and the request's body afterwards; the reader stops after 1 MB.\<close>

definition extractToolParams :: "http_request \<Rightarrow> (string \<times> json) list option \<times> (string + bytes) option" where
  "extractToolParams r = (case hq_Body r of
     None \<Rightarrow> (None, None)
   | Some content \<Rightarrow>
       if hq_ContentLength r = 0 then (None, Some content)
       else (case map_sum id (take (2 ^ 20)) content of
         Inl e \<Rightarrow> (None, Some content)
       | Inr body \<Rightarrow>
           if body = [] then (None, Some content)
           else (case json_parse body of
             Some (JObj params) \<Rightarrow> (Some params, Some (Inr body))
           | _ \<Rightarrow> (None, Some (Inr body)))))"

fun toolNameToPath :: "string \<Rightarrow> string" where
  "toolNameToPath [] = []"
| "toolNameToPath (c # s) = (if c = CHR '':'' then s else
     (if CHR '':'' \<in> set s then toolNameToPath s else c # s))"

definition agentAuthMiddleware :: "ext \<Rightarrow> ('r, 'j) Config \<Rightarrow> string \<Rightarrow> auth_clocks \<Rightarrow> resolve_clocks
    \<Rightarrow> http_request \<Rightarrow> ('r, 'j) gw_state \<Rightarrow> gw_response \<times> ('r, 'j) gw_state" where
  "agentAuthMiddleware L cfg toolName ck rk c s =
     (let leafTok = hq_Header c HeaderAgentIdentityToken in
      if leafTok = [] then (GwAbort 401 (GwMissingHeader HeaderAgentIdentityToken), s)
      else (case resolveAndValidate L cfg ck rk leafTok (gs_resolver s) of
        (Inl e, rs) \<Rightarrow> (GwAbort 401 (GwInvalidIdentityToken e), s\<lparr>gs_resolver := rs\<rparr>)
      | (Inr va, rs) \<Rightarrow>
     (let s = s\<lparr>gs_resolver := rs\<rparr>; subject = rc_Subject (ac_reg (va_Claims va)) in
      if cfg_Remediation cfg \<and> RevokedSet_IsRevoked (gs_revoked s) subject
      then (GwAbort 401 GwRevoked, s)
      else (case (if cfg_MTLSClientCA cfg then verifyMTLSBinding c subject else None) of
        Some e \<Rightarrow> (GwAbort 401 (GwMTLSBinding e), s)
      | None \<Rightarrow>
     (let chainStr = hq_Header c HeaderAgentChainToken in
      if chainStr = [] then (GwAbort 401 (GwMissingHeader HeaderAgentChainToken), s)
      else (case ParseChain chainStr of
        Inl e \<Rightarrow> (GwAbort 401 (GwInvalidAgentChain e), s)
      | Inr chain \<Rightarrow>
     (case AgentChain_Validate L chain (cfg_Validators cfg) (ak_chain ck) of
        Inl e \<Rightarrow> (GwAbort 401 (GwChainValidationFailed e), s)
      | Inr _ \<Rightarrow>
     (let proofTok = hq_Header c HeaderAgentProofToken in
      if proofTok = [] then (GwAbort 401 (GwMissingHeader HeaderAgentProofToken), s)
      else (let scheme = (if hq_TLS c = None then ''http'' else ''https'');
                requestURI = scheme @ ''://'' @ hq_Host c @ hq_URLRequestURI c in
     (case ProofValidator_Validate (cfg_Record cfg) L (gs_proof s) (ak_proof ck) (ak_record ck)
             (proof_options proofTok chain requestURI (va_WorkloadKey va)) of
        (Inl e, pv) \<Rightarrow> (GwAbort 401 (GwInvalidProofToken e), s\<lparr>gs_proof := pv\<rparr>)
      | (Inr _, pv) \<Rightarrow>
     (let s = s\<lparr>gs_proof := pv\<rparr>; (toolParams, body) = extractToolParams c in
     (case cfg_Authz cfg \<lparr>rq_Subject = subject, rq_Object = toolName, rq_Action = ActionCall,
             rq_ToolParams = toolParams\<rparr> of
        Inl e \<Rightarrow> (GwAbort 500 (GwAuthzError e), s)
      | Inr decision \<Rightarrow>
          if dc_Pending decision
          then (GwAbort 403 (GwPending (dc_ApprovalEndpoint decision) (dc_Reason decision)), s)
          else if \<not> dc_Allowed decision then (GwAbort 403 (GwAccessDenied (dc_Reason decision)), s)
          else (Forward va chain body, s)))))))))))))"

section \<open>Lemmas\<close>

lemma gw_peekIssuer_eq: "gw_peekIssuer tok = Inr iss \<longleftrightarrow> peekIssuer tok = Inr iss"
  by (auto simp: gw_peekIssuer_def peekIssuer_def split: list.splits option.splits)

lemma validate_any_ok:
  "validate_any L vs clock i err ks tok = Inr va \<Longrightarrow>
     \<exists>k v j. k \<in> set ks \<and> vs k = Some v \<and> AgentValidator_Validate L v (clock j) tok = Inr va"
  by (induction ks arbitrary: i err) (fastforce split: option.splits sum.splits)+

lemma validate_any_some:
  assumes "k \<in> set ks" "vs k = Some v" "AgentValidator_Validate L v now tok = Inr va"
  shows "\<exists>va'. validate_any L vs (\<lambda>_. now) i err ks tok = Inr va'"
  using assms(1)
proof (induction ks arbitrary: i err)
  case (Cons x xs)
  then show ?case
    using assms(2,3) by (cases "x = k") (auto split: option.splits sum.splits)
qed simp

text \<open>How the middleware decides on the leaf token.\<close>

definition leaf_trusted ::
  "ext \<Rightarrow> ('r, 'j) Config \<Rightarrow> auth_clocks \<Rightarrow> resolve_clocks \<Rightarrow> 'r \<Rightarrow> string \<Rightarrow> ValidatedAgent \<Rightarrow> bool" where
  "leaf_trusted L cfg ck rk rs tok va \<longleftrightarrow>
     (\<exists>k v j. cfg_Validators cfg k = Some v \<and> AgentValidator_Validate L v (ak_leaf ck j) tok = Inr va) \<or>
     (\<exists>Resolve issuer entity rs' pub t. cfg_FederationResolver cfg = Some Resolve \<and>
        Resolve rk issuer rs = (Inr entity, rs') \<and> ResolvedEntity_PublicKey entity = Inr pub \<and>
        AgentValidator_Validate L (NewAgentValidator issuer pub []) t tok = Inr va)"

lemma resolveAndValidate_ok:
  "resolveAndValidate L cfg ck rk tok rs = (Inr va, rs') \<Longrightarrow> leaf_trusted L cfg ck rk rs tok va"
proof (cases "validateWithAny L (cfg_Validators cfg) (ak_leaf ck) (cfg_order cfg) tok")
  case (Inl e)
  assume "resolveAndValidate L cfg ck rk tok rs = (Inr va, rs')"
  with Inl show ?thesis
    unfolding resolveAndValidate_def leaf_trusted_def
    by (simp split: option.splits sum.splits prod.splits) blast
next
  case (Inr va')
  assume "resolveAndValidate L cfg ck rk tok rs = (Inr va, rs')"
  with Inr have "validateWithAny L (cfg_Validators cfg) (ak_leaf ck) (cfg_order cfg) tok = Inr va"
    by (simp add: resolveAndValidate_def)
  then show ?thesis
    using validate_any_ok unfolding leaf_trusted_def validateWithAny_def by blast
qed

text \<open>What a forwarded request has passed.\<close>

definition gw_uri :: "http_request \<Rightarrow> string" where
  "gw_uri c = (if hq_TLS c = None then ''http'' else ''https'') @ ''://'' @ hq_Host c @ hq_URLRequestURI c"

lemma Forward_inv:
  assumes "agentAuthMiddleware L cfg tool ck rk c s = (Forward va chain body, s')"
  shows "\<exists>rs' vas claims d. resolveAndValidate L cfg ck rk (hq_Header c HeaderAgentIdentityToken) (gs_resolver s) = (Inr va, rs') \<and>
    \<not> (cfg_Remediation cfg \<and> RevokedSet_IsRevoked (gs_revoked s) (rc_Subject (ac_reg (va_Claims va)))) \<and>
    (cfg_MTLSClientCA cfg \<longrightarrow> verifyMTLSBinding c (rc_Subject (ac_reg (va_Claims va))) = None) \<and>
    ParseChain (hq_Header c HeaderAgentChainToken) = Inr chain \<and>
    AgentChain_Validate L chain (cfg_Validators cfg) (ak_chain ck) = Inr vas \<and>
    ProofValidator_Validate (cfg_Record cfg) L (gs_proof s) (ak_proof ck) (ak_record ck)
      (proof_options (hq_Header c HeaderAgentProofToken) chain (gw_uri c) (va_WorkloadKey va)) = (Inr claims, gs_proof s') \<and>
    cfg_Authz cfg \<lparr>rq_Subject = rc_Subject (ac_reg (va_Claims va)), rq_Object = tool, rq_Action = ActionCall,
      rq_ToolParams = fst (extractToolParams c)\<rparr> = Inr d \<and> dc_Allowed d \<and> \<not> dc_Pending d \<and>
    body = snd (extractToolParams c) \<and> gs_revoked s' = gs_revoked s"
  using assms unfolding agentAuthMiddleware_def gw_uri_def
  by (auto simp: Let_def split: sum.splits prod.splits option.splits if_splits)

lemma revoked_aborts:
  assumes "cfg_Remediation cfg"
    and "resolveAndValidate L cfg ck rk (hq_Header c HeaderAgentIdentityToken) (gs_resolver s) = (Inr va, rs')"
    and "RevokedSet_IsRevoked (gs_revoked s) (rc_Subject (ac_reg (va_Claims va)))"
  shows "\<exists>why s'. agentAuthMiddleware L cfg tool ck rk c s = (GwAbort 401 why, s') \<and> gs_proof s' = gs_proof s"
  using assms by (auto simp: agentAuthMiddleware_def Let_def)

section \<open>Closed instances\<close>

text \<open>A gateway that forwards: the agent at hop 1 presents its token with the chain of hop 0.\<close>

definition ex_gw_gen :: ProofGenerateOptions where
  "ex_gw_gen = \<lparr>pg_TargetURI = ''http://gw/tools/echo/y'', pg_Chain = [ex_token ''0''], pg_WorkloadKey = Some key_two,
     pg_TTL = 0, pg_TxnToken = []\<rparr>"

definition ex_gw_claims :: AgentProofClaims where
  "ex_gw_claims = generate_claims (ledger_ext []) ex_gw_gen 0 ex_jti"

definition ex_gw_proof :: ledger_entry where
  "ex_gw_proof = \<lparr>le_text = ex_token ''p'', le_signer = key_two,
     le_token = \<lparr>tk_header = typ_header (ledger_ext []) agentProofType, tk_payload = proof_payload ex_gw_claims\<rparr>\<rparr>"

definition ex_gw_lib :: ext where
  "ex_gw_lib = ledger_ext (ex_ledger @ [ex_gw_proof])"

definition ex_gw_cfg :: "(unit, InMemoryJTIStore) Config" where
  "ex_gw_cfg = \<lparr>cfg_Validators = ex_validators, cfg_order = [''https://idp''], cfg_FederationResolver = None,
     cfg_Record = InMemoryJTIStore_Record,
     cfg_Authz = InMemoryAuthorizer_Authorize (InMemoryAuthorizer_Allow NewInMemoryAuthorizer ''*'' ''tool:echo'' ActionCall),
     cfg_Routes = [''tool:echo'' \<mapsto> ''http://localhost:9090''], cfg_MTLSClientCA = False, cfg_Remediation = True\<rparr>"

definition ex_gw_state :: "(unit, InMemoryJTIStore) gw_state" where
  "ex_gw_state = \<lparr>gs_resolver = (), gs_proof = NewProofValidator, gs_revoked = newRevokedSet\<rparr>"

definition ex_gw_clocks :: auth_clocks where
  "ex_gw_clocks = \<lparr>ak_leaf = (\<lambda>_. minute), ak_chain = (\<lambda>_. minute), ak_proof = minute, ak_record = minute\<rparr>"

definition ex_gw_request :: http_request where
  "ex_gw_request = \<lparr>hq_Header = (\<lambda>h. if h = HeaderAgentIdentityToken then ex_token ''1''
       else if h = HeaderAgentChainToken then ex_token ''0''
       else if h = HeaderAgentProofToken then ex_token ''p'' else []),
     hq_Host = ''gw'', hq_RequestURI = ''/tools/echo/y'', hq_URLRequestURI = ''/tools/echo/y'', hq_TLS = None,
     hq_Body = None, hq_ContentLength = 0\<rparr>"

lemma ex_gw_laws:
  "jwt_sound ex_gw_lib" "jwt_functional ex_gw_lib" "jwt_complete ex_gw_lib" "jwt_es256 ex_gw_lib" "jwt_dates ex_gw_lib"
  unfolding ex_gw_lib_def
  by (simp_all only: ledger_laws) (rule ledger_complete, simp add: ex_ledger_def ex_entry_def ex_gw_proof_def)

lemma ex_gw_Validate:
  assumes "0 \<le> t" "t < hour"
  shows "AgentValidator_Validate ex_gw_lib ex_validator t (ex_token ''0'')
      = Inr \<lparr>va_Claims = ex_claims 0, va_WorkloadKey = ec_Public key_two\<rparr>"
    and "AgentValidator_Validate ex_gw_lib ex_validator t (ex_token ''1'')
      = Inr \<lparr>va_Claims = ex_claims 1, va_WorkloadKey = ec_Public key_two\<rparr>"
  using ex_Validate [OF assms] Validate_ledger_append unfolding ex_gw_lib_def ex_lib_def by blast+

lemma ex_gw_parts:
  "typ_header ex_gw_lib = typ_header (ledger_ext [])" "generate_claims ex_gw_lib = generate_claims (ledger_ext [])"
  by (simp_all add: ex_gw_lib_def fun_eq_iff generate_claims_def ledger_parts [of "ex_ledger @ [ex_gw_proof]"])

lemma ex_gw_Generate: "GenerateProof ex_gw_lib ex_gw_gen 0 ex_jti rnd = Inr (ex_token ''p'')"
proof -
  have "jwt_sign ex_gw_lib rnd (typ_header (ledger_ext []) agentProofType) (proof_payload ex_gw_claims) key_two
      = Inr (ex_token ''p'')"
    by (simp add: ex_gw_lib_def ledger_ext_def ex_ledger_def ex_entry_def ex_gw_proof_def)
  then show ?thesis
    by (simp add: GenerateProof_ok ex_gw_parts ex_gw_claims_def, simp add: ex_gw_gen_def)
qed

lemma ex_gw_wire:
  "wire_ok ex_gw_lib (typ_header (ledger_ext []) agentProofType) (proof_payload ex_gw_claims)"
  by (simp add: wire_ok_def claims_wire_def proof_payload_def ex_gw_claims_def generate_claims_def
      typ_header_def ex_gw_lib_def ledger_ext_def ex_gw_gen_def ex_jti_def generateJTI_def
      AgentChain_Hash_def b64_sha256_def agentProofType_def defaultProofTTL_def char_simps)

lemma ex_gw_reg:
  "rc_ID (ap_reg ex_gw_claims) = generateJTI ex_jti" "rc_ExpiresAt (ap_reg ex_gw_claims) = Some (5 * minute)"
  by (simp_all add: ex_gw_claims_def generate_claims_def ex_gw_gen_def ledger_ext_def defaultProofTTL_def)

lemma ex_gw_checked:
  "proof_checked ex_gw_lib es256_opts minute
     (proof_options (ex_token ''p'') [ex_token ''0''] ''http://gw/tools/echo/y'' (ec_Public key_two)) ex_gw_claims"
  by (rule generated_checked [OF ex_gw_laws(3-5) ex_gw_Generate, where key = key_two and c = ex_gw_claims])
    (simp_all add: ex_gw_parts ex_gw_wire ex_gw_reg flip: ex_gw_claims_def,
     simp_all add: ex_gw_gen_def proof_options_def ex_token_def)

lemma ex_gw_resolve:
  "resolveAndValidate ex_gw_lib ex_gw_cfg ex_gw_clocks rk (ex_token ''1'') () =
     (Inr \<lparr>va_Claims = ex_claims 1, va_WorkloadKey = ec_Public key_two\<rparr>, ())"
  by (simp add: resolveAndValidate_def validateWithAny_def ex_gw_cfg_def ex_validators_def ex_gw_clocks_def ex_gw_Validate)

lemma ex_gw_chain:
  "ParseChain (ex_token ''0'') = Inr [ex_token ''0'']"
  "AgentChain_Validate ex_gw_lib [ex_token ''0''] ex_validators (\<lambda>_. minute) =
     Inr [\<lparr>va_Claims = ex_claims 0, va_WorkloadKey = ec_Public key_two\<rparr>]"
  using compact_jwt_wf [OF ex_token_compact]
  by (simp_all add: ok_simps chain_wf_def AgentChain_String_def AgentChain_Validate_def ex_validators_def ex_gw_Validate)

lemma ex_subject: "rc_Subject (ac_reg (ex_claims d)) = ''spiffe://a/b''"
  by (simp add: ex_claims_def issue_claims_def ex_opts_def)

lemma header_names [simp]:
  "HeaderAgentChainToken \<noteq> HeaderAgentIdentityToken" "HeaderAgentProofToken \<noteq> HeaderAgentIdentityToken"
  "HeaderAgentProofToken \<noteq> HeaderAgentChainToken"
  by (simp_all add: HeaderAgentChainToken_def HeaderAgentIdentityToken_def HeaderAgentProofToken_def)

lemma ex_gw_proof_accepts:
  "ProofValidator_Validate InMemoryJTIStore_Record ex_gw_lib NewProofValidator minute minute
     (proof_options (ex_token ''p'') [ex_token ''0''] ''http://gw/tools/echo/y'' (ec_Public key_two)) =
   (Inr ex_gw_claims, NewProofValidatorWithStore \<lparr>seen = [generateJTI ex_jti \<mapsto> 5 * minute]\<rparr>)"
  using ex_gw_checked ex_jti_ne
  by (auto simp: ProofValidator_Validate_ok NewProofValidator_def NewProofValidatorWithStore_def ex_gw_reg
      InMemoryJTIStore_Record_def NewInMemoryJTIStore_def Let_def sweep_def fun_eq_iff proof_options_def)

lemma ex_gw_fields [simp]:
  "hq_Header ex_gw_request HeaderAgentIdentityToken = ex_token ''1''"
  "hq_Header ex_gw_request HeaderAgentChainToken = ex_token ''0''"
  "hq_Header ex_gw_request HeaderAgentProofToken = ex_token ''p''"
  "hq_TLS ex_gw_request = None" "extractToolParams ex_gw_request = (None, None)"
  "hq_Host ex_gw_request @ hq_URLRequestURI ex_gw_request = ''gw/tools/echo/y''"
  "cfg_Validators ex_gw_cfg = ex_validators" "cfg_Record ex_gw_cfg = InMemoryJTIStore_Record"
  "cfg_MTLSClientCA ex_gw_cfg = False" "gs_resolver ex_gw_state = ()" "gs_proof ex_gw_state = NewProofValidator"
  "gs_revoked ex_gw_state = newRevokedSet" "ak_chain ex_gw_clocks = (\<lambda>_. minute)"
  "ak_proof ex_gw_clocks = minute" "ak_record ex_gw_clocks = minute"
  by (simp_all add: ex_gw_request_def extractToolParams_def ex_gw_cfg_def ex_gw_state_def ex_gw_clocks_def)

lemma ex_gw_Forward:
  "agentAuthMiddleware ex_gw_lib ex_gw_cfg ''tool:echo'' ex_gw_clocks rk ex_gw_request ex_gw_state =
     (Forward \<lparr>va_Claims = ex_claims 1, va_WorkloadKey = ec_Public key_two\<rparr> [ex_token ''0''] None,
      ex_gw_state\<lparr>gs_proof := NewProofValidatorWithStore \<lparr>seen = [generateJTI ex_jti \<mapsto> 5 * minute]\<rparr>\<rparr>)"
proof -
  have ne: "ex_token sig \<noteq> []" for sig
    using compact_jwt_wf(1) [OF ex_token_compact] .
  have not_revoked: "\<not> RevokedSet_IsRevoked newRevokedSet x" for x
    by (simp add: newRevokedSet_def RevokedSet_IsRevoked_def)
  obtain d where authz: "cfg_Authz ex_gw_cfg \<lparr>rq_Subject = ''spiffe://a/b'', rq_Object = ''tool:echo'',
      rq_Action = ActionCall, rq_ToolParams = None\<rparr> = Inr d" "dc_Allowed d" "\<not> dc_Pending d"
    by (simp add: ex_gw_cfg_def InMemoryAuthorizer_Authorize_def InMemoryAuthorizer_Allow_def rule_matches_def matchSubject_def)
  have same: "ex_gw_state\<lparr>gs_resolver := ()\<rparr> = ex_gw_state"
    by simp
  show ?thesis
    using authz ex_gw_proof_accepts
    by (simp add: agentAuthMiddleware_def Let_def ne ex_gw_resolve ex_subject not_revoked ex_gw_chain same)
qed

section \<open>Properties\<close>



text \<open>A request of a revoked agent is never forwarded: once the identity token has been accepted,
  a revoked subject gets 401, before the chain, the proof and the authorizer are looked at and with
  no identifier recorded.\<close>

theorem gateway_revoked_401:
  assumes "cfg_Remediation cfg" "hq_Header c HeaderAgentIdentityToken \<noteq> []"
    and "resolveAndValidate L cfg ck rk (hq_Header c HeaderAgentIdentityToken) (gs_resolver s) = (Inr va, rs')"
    and "RevokedSet_IsRevoked (gs_revoked s) (rc_Subject (ac_reg (va_Claims va)))"
  shows "agentAuthMiddleware L cfg tool ck rk c s = (GwAbort 401 GwRevoked, s\<lparr>gs_resolver := rs'\<rparr>)"
  using assms by (simp add: agentAuthMiddleware_def Let_def)

theorem gateway_revoked_401_witness:
  "agentAuthMiddleware ex_gw_lib ex_gw_cfg ''tool:echo'' ex_gw_clocks ex_clocks ex_gw_request
     (ex_gw_state\<lparr>gs_revoked := RevokedSet_revoke 5 ''spiffe://a/b'' newRevokedSet\<rparr>)
   = (GwAbort 401 GwRevoked, ex_gw_state\<lparr>gs_revoked := RevokedSet_revoke 5 ''spiffe://a/b'' newRevokedSet,
        gs_resolver := ()\<rparr>)"
  by (rule gateway_revoked_401 [where va = "\<lparr>va_Claims = ex_claims 1, va_WorkloadKey = ec_Public key_two\<rparr>"])
    (simp_all add: ex_gw_resolve ex_subject compact_jwt_wf(1) [OF ex_token_compact], simp add: ex_gw_cfg_def)

text \<open>Which validator accepts, and so the agent the gateway sees, does not depend on the order in
  which Go ranges over the map of validators: \<open>validateWithAny\<close> accepts exactly when some
  configured validator does, and every order gives the same agent.\<close>

theorem validateWithAny_order:
  assumes "jwt_functional L" "set order = dom validators"
  shows "validateWithAny L validators (\<lambda>_. now) order tok = Inr va \<longleftrightarrow>
    (\<exists>k v. validators k = Some v \<and> AgentValidator_Validate L v now tok = Inr va)"
proof
  assume "validateWithAny L validators (\<lambda>_. now) order tok = Inr va"
  then show "\<exists>k v. validators k = Some v \<and> AgentValidator_Validate L v now tok = Inr va"
    using validate_any_ok unfolding validateWithAny_def by blast
next
  assume "\<exists>k v. validators k = Some v \<and> AgentValidator_Validate L v now tok = Inr va"
  then obtain k v where v: "validators k = Some v" "AgentValidator_Validate L v now tok = Inr va"
    by blast
  then obtain va' where va': "validateWithAny L validators (\<lambda>_. now) order tok = Inr va'"
    using validate_any_some [of k order validators v L now tok va 0 None] assms(2)
    unfolding validateWithAny_def by (metis domI)
  then have "va' = va"
    using validate_any_ok [of L validators "\<lambda>_. now"] Validate_functional [OF assms(1)] v(2)
    unfolding validateWithAny_def by blast
  with va' show "validateWithAny L validators (\<lambda>_. now) order tok = Inr va"
    by simp
qed

theorem validateWithAny_order_witness:
  "validateWithAny ex_lib ex_validators (\<lambda>_. minute) [''https://idp''] (ex_token ''1'') =
     Inr \<lparr>va_Claims = ex_claims 1, va_WorkloadKey = ec_Public key_two\<rparr>"
  by (rule iffD2 [OF validateWithAny_order [OF ex_lib_laws(2)]])
    (auto simp: ex_validators_def ex_Validate)



text \<open>The leaf token is not bound to the chain.  A gateway forwards a request whose identity token
  does not occur in the delegation chain that the proof is about.\<close>

theorem gateway_leaf_outside_chain:
  "\<exists>L cfg ck rk c va chain body (s :: (unit, InMemoryJTIStore) gw_state) s'.
     jwt_sound L \<and> jwt_functional L \<and> jwt_complete L \<and>
     agentAuthMiddleware L cfg ''tool:echo'' ck rk c s = (Forward va chain body, s') \<and>
     hq_Header c HeaderAgentIdentityToken \<notin> set chain"
proof -
  have "hq_Header ex_gw_request HeaderAgentIdentityToken \<notin> set [ex_token ''0'']"
    by simp
  then show ?thesis
    using ex_gw_laws(1-3) ex_gw_Forward [of ex_clocks] by blast
qed

text \<open>Federated issuers never appear in a chain.  Chains are validated against the static
  validators only, so a request whose chain holds a token of an issuer without a static validator
  is answered 401, even when the resolver vouches for that issuer.\<close>

theorem gateway_federated_chain_rejected:
  assumes "ParseChain (hq_Header c HeaderAgentChainToken) = Inr chain" "tok \<in> set chain"
    and "peekIssuer tok = Inr issuer" "cfg_Validators cfg issuer = None"
  shows "\<exists>why s'. agentAuthMiddleware L cfg tool ck rk c s = (GwAbort 401 why, s')"
proof -
  have "\<nexists>vas. AgentChain_Validate L chain (cfg_Validators cfg) (ak_chain ck) = Inr vas"
    using assms(2-4) by (fastforce simp: AgentChain_Validate_ok token_good_def in_set_conv_nth)
  then obtain e where "AgentChain_Validate L chain (cfg_Validators cfg) (ak_chain ck) = Inl e"
    by (metis sum.exhaust)
  then show ?thesis
    using assms(1) unfolding agentAuthMiddleware_def
    by (simp add: Let_def split: sum.splits prod.splits option.splits)
qed

theorem gateway_federated_chain_rejected_witness:
  "\<exists>why s'. agentAuthMiddleware ex_gw_lib (ex_gw_cfg\<lparr>cfg_Validators := Map.empty\<rparr>) ''tool:echo'' ex_gw_clocks
     ex_clocks ex_gw_request ex_gw_state = (GwAbort 401 why, s')"
  by (rule gateway_federated_chain_rejected [where tok = "ex_token ''0''" and chain = "[ex_token ''0'']"])
    (simp_all add: ex_gw_chain)



end
