(* ===== verification/History.thy ===== *)
theory History
  imports Prelude
begin

text \<open>
  Invariants of a component under histories of its operations.  The locale states what a component
  has to show of one operation; what follows for every history (\<open>run_ops\<close>) is proved once.  It is
  interpreted on the gateway's server and on the session states of the browser demo.
\<close>

locale invariant_system =
  fixes step :: "'op \<Rightarrow> 's \<Rightarrow> 'r \<times> 's"
    and inv :: "'s \<Rightarrow> bool"
    and ok :: "'op \<Rightarrow> bool"
  assumes step_inv: "step x s = (r, s') \<Longrightarrow> ok x \<Longrightarrow> inv s \<Longrightarrow> inv s'"
begin

lemma history_inv:
  "run_ops step xs s = (rs, s') \<Longrightarrow> list_all ok xs \<Longrightarrow> inv s \<Longrightarrow> inv s'"
proof (induction xs arbitrary: s rs)
  case (Cons x xs)
  then obtain r s1 rs1 where "step x s = (r, s1)" "run_ops step xs s1 = (rs1, s')"
    by (auto simp: run_ops_Cons simp del: run_ops.simps)
  with Cons show ?case
    using step_inv [of x s r s1] by simp
qed simp

text \<open>What every reply satisfies under the invariant, all replies of a history satisfy.\<close>

lemma history_replies:
  assumes "\<And>x s r s'. step x s = (r, s') \<Longrightarrow> ok x \<Longrightarrow> inv s \<Longrightarrow> P x r"
  shows "run_ops step xs s = (rs, s') \<Longrightarrow> list_all ok xs \<Longrightarrow> inv s \<Longrightarrow> list_all2 P xs rs"
proof (induction xs arbitrary: s rs)
  case (Cons x xs)
  then obtain r s1 rs1 where step: "step x s = (r, s1)" "run_ops step xs s1 = (rs1, s')" "rs = r # rs1"
    by (auto simp: run_ops_Cons simp del: run_ops.simps)
  with Cons show ?case
    using step_inv [of x s r s1] assms [of x s r s1] by simp
qed simp

end

text \<open>A history splits at any reply.\<close>

lemma run_ops_nth:
  "run_ops step xs s = (rs, s') \<Longrightarrow> i < length xs \<Longrightarrow>
     \<exists>rs1 s1 s2 rs2. run_ops step (take i xs) s = (rs1, s1) \<and> step (xs ! i) s1 = (rs ! i, s2) \<and>
       run_ops step (drop (Suc i) xs) s2 = (rs2, s')"
proof (induction xs arbitrary: s rs i)
  case (Cons x xs)
  then obtain r s1 rs1 where step: "step x s = (r, s1)" "run_ops step xs s1 = (rs1, s')" "rs = r # rs1"
    by (auto simp: run_ops_Cons simp del: run_ops.simps)
  show ?case
  proof (cases i)
    case 0
    with step show ?thesis by simp
  next
    case (Suc j)
    with Cons.IH [OF step(2), of j] Cons.prems(2) step(1,3) show ?thesis
      by (auto split: prod.splits)
  qed
qed simp

end
