(* ===== verification/Server.thy ===== *)
theory Server
  imports Gateway History
begin

text \<open>
  Package \<open>internal/gateway\<close>, file \<open>server.go\<close>: the server that \<open>New\<close> builds around the
  middleware - its route table, the health check, the endpoint for security events and the tool
  routes - and its \<open>ServeHTTP\<close>.  The router of Gin is a record of parameters: which registration
  it refuses with a panic, and which registered route serves a request.  A request handed to the
  reverse proxy of a route is the response \<open>SrvTool\<close> with a \<open>Forward\<close>.  The states of the
  gateway and of the receiver are threaded through a history of requests.
\<close>

section \<open>Routes\<close>

datatype gw_handler = HealthHandler | EventsHandler | ToolHandler string string

text \<open>A route is registered in a group, the empty one for the router itself.\<close>

record route =
  rt_method :: string
  rt_group :: string
  rt_path :: string
  rt_handler :: gw_handler

record gin_lib =
  gin_conflict :: "route list \<Rightarrow> route \<Rightarrow> string option"   \<comment> \<open>the message of the panic\<close>
  gin_match :: "route list \<Rightarrow> string \<Rightarrow> string \<Rightarrow> route option"

definition gin_add :: "gin_lib \<Rightarrow> route \<Rightarrow> route list \<Rightarrow> string + route list" where
  "gin_add G r rs = (case gin_conflict G rs r of Some msg \<Rightarrow> Inl msg | None \<Rightarrow> Inr (rs @ [r]))"

fun gin_add_all :: "gin_lib \<Rightarrow> route list \<Rightarrow> route list \<Rightarrow> string + route list" where
  "gin_add_all G [] rs = Inr rs"
| "gin_add_all G (r # todo) rs = (case gin_add G r rs of Inl msg \<Rightarrow> Inl msg | Inr rs' \<Rightarrow> gin_add_all G todo rs')"

definition any_methods :: "string list" where
  "any_methods = [''GET'', ''POST'', ''PUT'', ''PATCH'', ''HEAD'', ''OPTIONS'', ''DELETE'', ''CONNECT'', ''TRACE'']"

section \<open>The server\<close>

datatype new_panic = InvalidUpstream string string | GinPanic string

record ('r, 'j) Server =
  sv_cfg :: "('r, 'j) Config"
  sv_routes :: "route list"

definition tool_routes :: "string \<Rightarrow> string \<Rightarrow> route list" where
  "tool_routes toolName upstream = map (\<lambda>m. \<lparr>rt_method = m, rt_group = ''/tools/'' @ toolNameToPath toolName,
     rt_path = ''/*path'', rt_handler = ToolHandler toolName upstream\<rparr>) any_methods"

text \<open>The loop over the configured routes, in the order of its keys that is given; \<open>parseURL\<close> is the
  error of \<open>url.Parse\<close>.\<close>

fun register_tools :: "gin_lib \<Rightarrow> (string \<Rightarrow> string option) \<Rightarrow> (string \<rightharpoonup> string) \<Rightarrow> string list \<Rightarrow> route list
    \<Rightarrow> new_panic + route list" where
  "register_tools G parseURL routes [] rs = Inr rs"
| "register_tools G parseURL routes (toolName # ns) rs = (case routes toolName of
     None \<Rightarrow> register_tools G parseURL routes ns rs
   | Some upstream \<Rightarrow> (case parseURL upstream of
       Some err \<Rightarrow> Inl (InvalidUpstream toolName err)
     | None \<Rightarrow> (case gin_add_all G (tool_routes toolName upstream) rs of
         Inl msg \<Rightarrow> Inl (GinPanic msg)
       | Inr rs' \<Rightarrow> register_tools G parseURL routes ns rs')))"

definition health_route :: route where
  "health_route = \<lparr>rt_method = ''GET'', rt_group = [], rt_path = ''/health'', rt_handler = HealthHandler\<rparr>"

definition events_route :: route where
  "events_route = \<lparr>rt_method = ''POST'', rt_group = [], rt_path = ''/ssf/events'', rt_handler = EventsHandler\<rparr>"

definition New :: "gin_lib \<Rightarrow> (string \<Rightarrow> string option) \<Rightarrow> string list \<Rightarrow> ('r, 'j) Config
    \<Rightarrow> new_panic + ('r, 'j) Server" where
  "New G parseURL order cfg =
     (case gin_add_all G (health_route # (if cfg_Remediation cfg then [events_route] else [])) [] of
        Inl msg \<Rightarrow> Inl (GinPanic msg)
      | Inr rs \<Rightarrow> (case register_tools G parseURL (cfg_Routes cfg) order rs of
          Inl p \<Rightarrow> Inl p
        | Inr rs' \<Rightarrow> Inr \<lparr>sv_cfg = cfg, sv_routes = rs'\<rparr>))"

section \<open>Requests\<close>

record server_request =
  sq_Method :: string
  sq_Path :: string
  sq_http :: http_request

record ('r, 'j) server_state =
  ss_gw :: "('r, 'j) gw_state"
  ss_receiver :: "RevokedSet Receiver"

datatype server_response = SrvNotFound | SrvHealth nat "(string \<times> json) list" | SrvEvents nat
  | SrvTool string string gw_response

text \<open>What one request reads of clocks and of the iteration orders of Go's maps.\<close>

record server_env =
  se_auth :: auth_clocks
  se_resolve :: resolve_clocks
  se_events :: "string \<Rightarrow> nat \<Rightarrow> time"
  se_order :: "string list"

definition healthHandler :: server_response where
  "healthHandler = SrvHealth 200 [(''status'', JStr ''ok'')]"

text \<open>The body that a handler of the server reads is never \<open>nil\<close>.\<close>

definition events_request :: "server_request \<Rightarrow> set_request" where
  "events_request req = \<lparr>sr_Method = sq_Method req, sr_ContentType = hq_Header (sq_http req) ''Content-Type'',
     sr_Body = (case hq_Body (sq_http req) of None \<Rightarrow> Some [] | Some (Inl _) \<Rightarrow> None | Some (Inr b) \<Rightarrow> Some b)\<rparr>"

definition serve_events :: "ext \<Rightarrow> server_env \<Rightarrow> server_request \<Rightarrow> ('r, 'j) server_state
    \<Rightarrow> server_response \<times> ('r, 'j) server_state" where
  "serve_events L env req s =
     (case Receiver_ServeHTTP L (se_events env) (se_order env) (events_request req) (ss_receiver s, gs_revoked (ss_gw s)) of
        (code, rcv, rv) \<Rightarrow> (SrvEvents code, \<lparr>ss_gw = (ss_gw s)\<lparr>gs_revoked := rv\<rparr>, ss_receiver = rcv\<rparr>))"

definition Server_ServeHTTP :: "ext \<Rightarrow> gin_lib \<Rightarrow> ('r, 'j) Server \<Rightarrow> server_env \<times> server_request
    \<Rightarrow> ('r, 'j) server_state \<Rightarrow> server_response \<times> ('r, 'j) server_state" where
  "Server_ServeHTTP L G srv x s = (case x of (env, req) \<Rightarrow>
     (case gin_match G (sv_routes srv) (sq_Method req) (sq_Path req) of
        None \<Rightarrow> (SrvNotFound, s)
      | Some r \<Rightarrow> (case rt_handler r of
          HealthHandler \<Rightarrow> (healthHandler, s)
        | EventsHandler \<Rightarrow> serve_events L env req s
        | ToolHandler toolName upstream \<Rightarrow>
            (case agentAuthMiddleware L (sv_cfg srv) toolName (se_auth env) (se_resolve env) (sq_http req) (ss_gw s) of
               (resp, gs) \<Rightarrow> (SrvTool toolName upstream resp, s\<lparr>ss_gw := gs\<rparr>)))))"

section \<open>What the server relies on\<close>

text \<open>The router serves a request by a route that was registered for its method, and a path without
  parameters by the route that was registered for exactly this path.\<close>

definition gin_sound :: "gin_lib \<Rightarrow> bool" where
  "gin_sound G \<longleftrightarrow> (\<forall>rs m p r. gin_match G rs m p = Some r \<longrightarrow> r \<in> set rs \<and> rt_method r = m)"

definition gin_static :: "gin_lib \<Rightarrow> bool" where
  "gin_static G \<longleftrightarrow> (\<forall>rs r. r \<in> set rs \<and> rt_group r = [] \<and> CHR '':'' \<notin> set (rt_path r) \<and> CHR ''*'' \<notin> set (rt_path r) \<longrightarrow>
     (\<exists>r'. gin_match G rs (rt_method r) (rt_path r) = Some r' \<and> r' \<in> set rs \<and>
        rt_method r' = rt_method r \<and> rt_group r' = [] \<and> rt_path r' = rt_path r))"

text \<open>A second handler for the same method and pattern is refused.\<close>

definition gin_refuses :: "gin_lib \<Rightarrow> bool" where
  "gin_refuses G \<longleftrightarrow> (\<forall>rs r r'. r' \<in> set rs \<and> rt_method r' = rt_method r \<and> rt_group r' = rt_group r \<and>
     rt_path r' = rt_path r \<longrightarrow> gin_conflict G rs r \<noteq> None)"

section \<open>The route table\<close>

lemma gin_add_all_ok: "gin_add_all G xs rs = Inr rs' \<Longrightarrow> rs' = rs @ xs"
  by (induction xs arbitrary: rs) (fastforce simp: gin_add_def split: option.splits)+

lemma gin_add_all_keeps: "gin_add_all G xs rs = Inr rs' \<Longrightarrow> set rs' = set rs \<union> set xs"
  by (auto dest: gin_add_all_ok)

lemma tool_routes_handler: "r \<in> set (tool_routes t u) \<Longrightarrow> rt_handler r = ToolHandler t u"
  by (auto simp: tool_routes_def)

lemma tool_routes_group: "r \<in> set (tool_routes t u) \<Longrightarrow> rt_group r = ''/tools/'' @ toolNameToPath t \<and> rt_path r = ''/*path''"
  by (auto simp: tool_routes_def)

lemma register_tools_set:
  "register_tools G parseURL routes ns rs = Inr rs' \<Longrightarrow>
     set rs' = set rs \<union> (\<Union>t \<in> set ns. case routes t of None \<Rightarrow> {} | Some u \<Rightarrow> set (tool_routes t u))"
proof (induction ns arbitrary: rs)
  case (Cons t ns)
  then show ?case
    by (auto split: option.splits sum.splits dest!: gin_add_all_keeps Cons.IH)
qed simp

text \<open>Every route of a server is the health check, the endpoint for events when the configuration has
  a remediation, or the route of a configured tool.\<close>

lemma New_routes:
  assumes "New G parseURL order cfg = Inr srv"
  shows "sv_cfg srv = cfg"
    and "set (sv_routes srv) = {health_route} \<union> (if cfg_Remediation cfg then {events_route} else {}) \<union>
      (\<Union>t \<in> set order. case cfg_Routes cfg t of None \<Rightarrow> {} | Some u \<Rightarrow> set (tool_routes t u))"
proof -
  obtain rs where rs: "gin_add_all G (health_route # (if cfg_Remediation cfg then [events_route] else [])) [] = Inr rs"
    "register_tools G parseURL (cfg_Routes cfg) order rs = Inr (sv_routes srv)" "sv_cfg srv = cfg"
    using assms unfolding New_def by (auto split: sum.splits)
  show "sv_cfg srv = cfg" by (rule rs(3))
  show "set (sv_routes srv) = {health_route} \<union> (if cfg_Remediation cfg then {events_route} else {}) \<union>
      (\<Union>t \<in> set order. case cfg_Routes cfg t of None \<Rightarrow> {} | Some u \<Rightarrow> set (tool_routes t u))"
    unfolding register_tools_set [OF rs(2)] gin_add_all_keeps [OF rs(1)] by simp
qed

lemma New_handlers:
  assumes "New G parseURL order cfg = Inr srv" "r \<in> set (sv_routes srv)"
  shows "rt_handler r = EventsHandler \<Longrightarrow> cfg_Remediation cfg"
    and "rt_handler r = ToolHandler t u \<Longrightarrow> cfg_Routes cfg t = Some u"
  using assms(2) unfolding New_routes(2) [OF assms(1)]
  by (auto simp: health_route_def events_route_def split: if_splits option.splits dest!: tool_routes_handler)

lemma register_collide:
  assumes "gin_refuses G" "register_tools G parseURL routes ns rs = Inr rs'"
    and "routes t = Some u" "t \<in> set ns"
  shows "\<not> (\<exists>r \<in> set rs. rt_method r = ''GET'' \<and> rt_group r = ''/tools/'' @ toolNameToPath t \<and> rt_path r = ''/*path'')"
  using assms(2,4)
proof (induction ns arbitrary: rs)
  case (Cons n ns)
  show ?case
  proof (cases "n = t")
    case True
    then obtain rs1 where "gin_add_all G (tool_routes t u) rs = Inr rs1"
      using Cons.prems(1) assms(3) by (auto split: option.splits sum.splits)
    then have "gin_conflict G rs \<lparr>rt_method = ''GET'', rt_group = ''/tools/'' @ toolNameToPath t,
        rt_path = ''/*path'', rt_handler = ToolHandler t u\<rparr> = None"
      by (auto simp: tool_routes_def any_methods_def gin_add_def split: option.splits)
    then show ?thesis
      using assms(1) unfolding gin_refuses_def by (metis route.select_convs(1-3))
  next
    case False
    then have t: "t \<in> set ns"
      using Cons.prems(2) by simp
    show ?thesis
    proof (cases "routes n")
      case None
      with Cons.IH [OF _ t, of rs] Cons.prems(1) show ?thesis by simp
    next
      case (Some u')
      then obtain rs1 where "gin_add_all G (tool_routes n u') rs = Inr rs1" "register_tools G parseURL routes ns rs1 = Inr rs'"
        using Cons.prems(1) by (auto split: option.splits sum.splits)
      with Cons.IH [OF _ t, of rs1] gin_add_all_keeps [OF this(1)] show ?thesis
        by blast
    qed
  qed
qed simp

lemma two_positions:
  assumes "x \<noteq> y" "x \<in> set xs" "y \<in> set xs"
  shows "(\<exists>as bs. xs = as @ x # bs \<and> y \<in> set bs) \<or> (\<exists>as bs. xs = as @ y # bs \<and> x \<in> set bs)"
proof -
  obtain as bs where xs: "xs = as @ x # bs"
    using assms(2) by (meson split_list)
  show ?thesis
  proof (cases "y \<in> set bs")
    case True
    with xs show ?thesis by blast
  next
    case False
    then obtain cs ds where "as = cs @ y # ds"
      using assms(1,3) xs by (metis in_set_conv_decomp set_ConsD set_append Un_iff)
    then show ?thesis
      using xs by (intro disjI2 exI [of _ cs] exI [of _ "ds @ x # bs"]) simp
  qed
qed

lemma register_tools_append:
  "register_tools G parseURL routes (ns @ ms) rs = (case register_tools G parseURL routes ns rs of
     Inl p \<Rightarrow> Inl p | Inr rs' \<Rightarrow> register_tools G parseURL routes ms rs')"
  by (induction ns arbitrary: rs) (auto split: option.splits sum.splits)

lemma register_tools_twice:
  assumes "gin_refuses G" "register_tools G parseURL routes ns rs = Inr rs'"
    and "routes t = Some u" "routes t' = Some u'" "toolNameToPath t = toolNameToPath t'" "ns = as @ t # bs" "t' \<in> set bs"
  shows False
proof -
  obtain rs0 rs1 where reg: "gin_add_all G (tool_routes t u) rs0 = Inr rs1" "register_tools G parseURL routes bs rs1 = Inr rs'"
    using assms(2,3) unfolding assms(6) register_tools_append by (auto split: sum.splits option.splits)
  then show False
    using register_collide [OF assms(1) reg(2) assms(4,7)] gin_add_all_keeps [OF reg(1)]
      assms(5) by (auto simp: tool_routes_def any_methods_def)
qed

section \<open>Histories of requests\<close>

lemma agentAuthMiddleware_revoked:
  "agentAuthMiddleware L cfg tool ck rk c s = (resp, s') \<Longrightarrow> gs_revoked s' = gs_revoked s"
  unfolding agentAuthMiddleware_def
  by (auto simp: Let_def split: sum.splits prod.splits option.splits if_splits)

text \<open>A subject is on the list, and the receiver is the one of the remediation.\<close>

definition server_revoked :: "string \<Rightarrow> ('r, 'j) server_state \<Rightarrow> bool" where
  "server_revoked x s \<longleftrightarrow> wired (ss_receiver s) \<and> RevokedSet_IsRevoked (gs_revoked (ss_gw s)) x"

text \<open>The iteration order of a request covers the events it carries.\<close>

definition server_ok :: "ext \<Rightarrow> server_env \<times> server_request \<Rightarrow> bool" where
  "server_ok L x = (case x of (env, req) \<Rightarrow> event_order L (events_request req) (se_order env))"

lemma serve_events_effect:
  assumes "serve_events L env req s = (r, s')" "server_ok L (env, req)" "wired (ss_receiver s)"
  shows "wired (ss_receiver s')"
    and "RevokedSet_IsRevoked (gs_revoked (ss_gw s)) x \<Longrightarrow> RevokedSet_IsRevoked (gs_revoked (ss_gw s')) x"
    and "parse_set L (events_request req) = Inr ev \<Longrightarrow> set_JTI ev \<notin> rv_jtiSeen (ss_receiver s) \<Longrightarrow>
      r = SrvEvents 202 \<and> (revoked_subject ev = Some x \<longrightarrow> RevokedSet_IsRevoked (gs_revoked (ss_gw s')) x)"
proof -
  obtain code rcv rv where step: "Receiver_ServeHTTP L (se_events env) (se_order env) (events_request req)
      (ss_receiver s, gs_revoked (ss_gw s)) = (code, rcv, rv)"
    by (metis prod_cases3)
  then have s': "r = SrvEvents code" "ss_receiver s' = rcv" "gs_revoked (ss_gw s') = rv"
    using assms(1) by (auto simp: serve_events_def)
  have order: "event_order L (events_request req) (se_order env)"
    using assms(2) by (simp add: server_ok_def)
  show "wired (ss_receiver s')"
    using wired_handlers ServeHTTP_handlers [OF step] assms(3) s'(2) by (simp add: wired_def)
  have all: "serve_all L [(se_events env, se_order env, events_request req)] (ss_receiver s, gs_revoked (ss_gw s)) = ([code], rcv, rv)"
    using step by simp
  show "RevokedSet_IsRevoked (gs_revoked (ss_gw s')) x" if "RevokedSet_IsRevoked (gs_revoked (ss_gw s)) x"
    using serve_all_revoked [OF all assms(3) _ that] order s'(3) by simp
  show "r = SrvEvents 202 \<and> (revoked_subject ev = Some x \<longrightarrow> RevokedSet_IsRevoked (gs_revoked (ss_gw s')) x)"
    if "parse_set L (events_request req) = Inr ev" "set_JTI ev \<notin> rv_jtiSeen (ss_receiver s)"
  proof -
    have "code = 202"
      using step that by (cases rule: ServeHTTP_cases) auto
    then show ?thesis
      using accepted_effect [OF assms(3) order, of "se_events env" "gs_revoked (ss_gw s)" rcv rv ev] step that(1) s'(1,3)
      by (simp add: IsRevoked_handle)
  qed
qed

lemma Server_step_cases:
  assumes "Server_ServeHTTP L G srv (env, req) s = (resp, s')"
  obtains (unchanged) "s' = s" "resp \<in> {SrvNotFound, healthHandler}"
  | (events) "serve_events L env req s = (resp, s')"
  | (tool) t u gr gs r where "gin_match G (sv_routes srv) (sq_Method req) (sq_Path req) = Some r"
      "rt_handler r = ToolHandler t u"
      "agentAuthMiddleware L (sv_cfg srv) t (se_auth env) (se_resolve env) (sq_http req) (ss_gw s) = (gr, gs)"
      "resp = SrvTool t u gr" "s' = s\<lparr>ss_gw := gs\<rparr>"
proof (cases "gin_match G (sv_routes srv) (sq_Method req) (sq_Path req)")
  case None
  with assms show thesis
    by (intro unchanged) (simp_all add: Server_ServeHTTP_def)
next
  case (Some r)
  show thesis
  proof (cases "rt_handler r")
    case HealthHandler
    with Some assms show thesis
      by (intro unchanged) (simp_all add: Server_ServeHTTP_def)
  next
    case EventsHandler
    with Some assms show thesis
      by (intro events) (simp add: Server_ServeHTTP_def)
  next
    case (ToolHandler t u)
    obtain gr gs where "agentAuthMiddleware L (sv_cfg srv) t (se_auth env) (se_resolve env) (sq_http req) (ss_gw s) = (gr, gs)"
      by (metis prod.exhaust)
    with Some ToolHandler assms show thesis
      by (intro tool [of r t u gr gs]) (simp_all add: Server_ServeHTTP_def)
  qed
qed

lemma server_revoked_step:
  assumes "Server_ServeHTTP L G srv op s = (resp, s')" "server_ok L op" "server_revoked x s"
  shows "server_revoked x s'"
proof -
  obtain env req where op: "op = (env, req)"
    by (cases op)
  show ?thesis
    using assms(1) unfolding op
  proof (cases rule: Server_step_cases)
    case events
    then show ?thesis
      using serve_events_effect(1,2) [OF events] assms(2,3) op unfolding server_revoked_def by blast
  next
    case (tool t u gr gs r)
    then show ?thesis
      using agentAuthMiddleware_revoked [OF tool(3)] assms(3) by (simp add: server_revoked_def)
  qed (use assms(3) in simp_all)
qed

interpretation revoked_sys: invariant_system "Server_ServeHTTP L G srv" "server_revoked x" "server_ok L" for L G srv x
  by unfold_locales (rule server_revoked_step)

text \<open>A response that hands a request of \<open>x\<close> to an upstream.\<close>

definition forwarded_for :: "string \<Rightarrow> server_response \<Rightarrow> bool" where
  "forwarded_for x resp = (case resp of
     SrvTool t u (Forward va chain body) \<Rightarrow> rc_Subject (ac_reg (va_Claims va)) = x
   | _ \<Rightarrow> False)"

lemma revoked_not_forwarded:
  assumes "cfg_Remediation (sv_cfg srv)" "Server_ServeHTTP L G srv op s = (resp, s')" "server_revoked x s"
  shows "\<not> forwarded_for x resp"
proof -
  obtain env req where op: "op = (env, req)"
    by (cases op)
  show ?thesis
    using assms(2) unfolding op
  proof (cases rule: Server_step_cases)
    case events
    then show ?thesis
      by (auto simp: serve_events_def forwarded_for_def split: prod.splits)
  next
    case (tool t u gr gs r)
    show ?thesis
    proof
      assume "forwarded_for x resp"
      then obtain va chain body where "gr = Forward va chain body" "rc_Subject (ac_reg (va_Claims va)) = x"
        unfolding tool(4) forwarded_for_def by (auto split: gw_response.splits)
      with Forward_inv [of L "sv_cfg srv" t "se_auth env" "se_resolve env" "sq_http req" "ss_gw s" va chain body gs] tool(3)
      show False
        using assms(1,3) by (auto simp: server_revoked_def)
    qed
  qed (auto simp: forwarded_for_def healthHandler_def)
qed

lemma revoked_history:
  assumes "cfg_Remediation (sv_cfg srv)" "run_ops (Server_ServeHTTP L G srv) xs s = (rs, s')"
    and "list_all (server_ok L) xs" "server_revoked x s"
  shows "\<forall>r \<in> set rs. \<not> forwarded_for x r"
proof -
  have "list_all2 (\<lambda>_ r. \<not> forwarded_for x r) xs rs"
    by (rule revoked_sys.history_replies [OF _ assms(2-4)]) (rule revoked_not_forwarded [OF assms(1)])
  then show ?thesis
    by (auto simp: list_all2_conv_all_nth in_set_conv_nth)
qed

text \<open>A request that is handed to an upstream has passed the middleware of the upstream's tool.\<close>

lemma server_forward:
  assumes "gin_sound G" "New G parseURL order cfg = Inr srv"
    and "Server_ServeHTTP L G srv (env, req) s = (SrvTool t u (Forward va chain body), s')"
  obtains gs where "agentAuthMiddleware L cfg t (se_auth env) (se_resolve env) (sq_http req) (ss_gw s) = (Forward va chain body, gs)"
    "cfg_Routes cfg t = Some u"
  using assms(3)
proof (cases rule: Server_step_cases)
  case (tool t' u' gr gs r)
  then have "rt_handler r = ToolHandler t u" "r \<in> set (sv_routes srv)"
    using assms(1) unfolding gin_sound_def by auto
  then have "cfg_Routes cfg t = Some u"
    using New_handlers(2) [OF assms(2)] by blast
  moreover have "agentAuthMiddleware L cfg t (se_auth env) (se_resolve env) (sq_http req) (ss_gw s) = (Forward va chain body, gs)"
    using tool(3,4) New_routes(1) [OF assms(2)] by simp
  ultimately show thesis
    by (rule that [rotated])
qed (auto simp: healthHandler_def serve_events_def split: prod.splits)

text \<open>The endpoint for events of a server with a remediation.\<close>

lemma events_endpoint:
  assumes "gin_static G" "New G parseURL order cfg = Inr srv" "cfg_Remediation cfg"
    and "sq_Method req = ''POST''" "sq_Path req = ''/ssf/events''"
  shows "Server_ServeHTTP L G srv (env, req) s = serve_events L env req s"
proof -
  have "events_route \<in> set (sv_routes srv)"
    using assms(3) by (simp add: New_routes(2) [OF assms(2)])
  then obtain r where r: "gin_match G (sv_routes srv) ''POST'' ''/ssf/events'' = Some r" "r \<in> set (sv_routes srv)"
    "rt_method r = ''POST''" "rt_group r = []" "rt_path r = ''/ssf/events''"
    using assms(1) unfolding gin_static_def by (fastforce simp: events_route_def)
  have "rt_handler r = EventsHandler"
    using r(2-5) unfolding New_routes(2) [OF assms(2)]
    by (auto simp: health_route_def events_route_def split: if_splits option.splits dest!: tool_routes_group)
  then show ?thesis
    using r(1) assms(4,5) by (simp add: Server_ServeHTTP_def)
qed

section \<open>Closed instances\<close>

text \<open>A router over the list of routes: exact paths first, then the wildcard groups.\<close>

definition ex_gin :: gin_lib where
  "ex_gin = \<lparr>gin_conflict = (\<lambda>rs r. if \<exists>r' \<in> set rs. rt_method r' = rt_method r \<and> rt_group r' = rt_group r \<and> rt_path r' = rt_path r
       then Some ''handlers are already registered for path'' else None),
     gin_match = (\<lambda>rs m p. case find (\<lambda>r. rt_method r = m \<and> rt_group r = [] \<and> rt_path r = p) rs of
         Some r \<Rightarrow> Some r
       | None \<Rightarrow> find (\<lambda>r. rt_method r = m \<and> rt_path r = ''/*path'' \<and> has_prefix p (rt_group r @ ''/'')) rs)\<rparr>"

lemma ex_gin_laws: "gin_sound ex_gin" "gin_static ex_gin" "gin_refuses ex_gin"
proof -
  show "gin_sound ex_gin"
    by (auto simp: gin_sound_def ex_gin_def find_Some_iff split: option.splits)
  show "gin_refuses ex_gin"
    by (auto simp: gin_refuses_def ex_gin_def)
  show "gin_static ex_gin"
    unfolding gin_static_def
  proof (intro allI impI)
    fix rs :: "route list" and r
    assume r: "r \<in> set rs \<and> rt_group r = [] \<and> CHR '':'' \<notin> set (rt_path r) \<and> CHR ''*'' \<notin> set (rt_path r)"
    let ?P = "\<lambda>r'. rt_method r' = rt_method r \<and> rt_group r' = [] \<and> rt_path r' = rt_path r"
    obtain r' where r': "find ?P rs = Some r'"
      using r by (cases "find ?P rs") (auto simp: find_None_iff)
    then have "r' \<in> set rs \<and> ?P r'"
      by (auto simp: find_Some_iff)
    with r' show "\<exists>r'. gin_match ex_gin rs (rt_method r) (rt_path r) = Some r' \<and> r' \<in> set rs \<and> ?P r'"
      by (simp add: ex_gin_def)
  qed
qed

definition rt_key :: "route \<Rightarrow> string \<times> string \<times> string" where
  "rt_key r = (rt_method r, rt_group r, rt_path r)"

lemma ex_gin_add_all:
  "distinct (map rt_key (rs @ xs)) \<Longrightarrow> gin_add_all ex_gin xs rs = Inr (rs @ xs)"
proof (induction xs arbitrary: rs)
  case (Cons r xs)
  then have "gin_conflict ex_gin rs r = None"
    by (auto simp: ex_gin_def rt_key_def image_iff)
  with Cons.IH [of "rs @ [r]"] Cons.prems show ?case
    by (simp add: gin_add_def)
qed simp

definition ex_server :: "(unit, InMemoryJTIStore) Server" where
  "ex_server = \<lparr>sv_cfg = ex_gw_cfg, sv_routes = [health_route, events_route] @ tool_routes ''tool:echo'' ''http://localhost:9090''\<rparr>"

lemma ex_New: "New ex_gin (\<lambda>_. None) [''tool:echo''] ex_gw_cfg = Inr ex_server"
proof -
  have d: "distinct (map rt_key ([health_route, events_route] @ tool_routes ''tool:echo'' ''http://localhost:9090''))"
    by (simp add: rt_key_def tool_routes_def any_methods_def health_route_def events_route_def)
  have "gin_add_all ex_gin [health_route, events_route] [] = Inr ([] @ [health_route, events_route])"
    by (rule ex_gin_add_all) (use d in simp)
  moreover note ex_gin_add_all [OF d]
  ultimately show ?thesis
    by (simp add: New_def ex_server_def ex_gw_cfg_def del: gin_add_all.simps)
qed

definition ex_push :: "server_env \<times> server_request" where
  "ex_push = (\<lparr>se_auth = ex_gw_clocks, se_resolve = ex_clocks, se_events = (\<lambda>_ _. 7), se_order = ex_order\<rparr>,
     \<lparr>sq_Method = ''POST'', sq_Path = ''/ssf/events'',
      sq_http = ex_gw_request\<lparr>hq_Header := (\<lambda>h. if h = ''Content-Type'' then contentTypeSET else []),
        hq_Body := Some (Inr ''t'')\<rparr>\<rparr>)"

definition ex_call :: "server_env \<times> server_request" where
  "ex_call = (fst ex_push, \<lparr>sq_Method = ''GET'', sq_Path = ''/tools/echo/y'', sq_http = ex_gw_request\<rparr>)"

definition ex_server_state :: "(unit, InMemoryJTIStore) server_state" where
  "ex_server_state = \<lparr>ss_gw = ex_gw_state, ss_receiver = fst ex_remediation\<rparr>"

lemma ex_push_request: "events_request (snd ex_push) = ex_set_req"
  by (simp add: ex_push_def events_request_def ex_set_req_def)

lemma ex_server_ok: "server_ok ex_set_lib ex_push" "server_ok ex_set_lib ex_call"
proof -
  show "server_ok ex_set_lib ex_push"
    using ex_order ex_push_request by (simp add: server_ok_def ex_push_def)
  have "parse_set ex_set_lib (events_request (snd ex_call)) = Inl 405"
    by (simp add: ex_call_def events_request_def parse_set_def)
  then show "server_ok ex_set_lib ex_call"
    by (simp add: server_ok_def ex_call_def event_order_def)
qed

section \<open>Properties\<close>

text \<open>C3: A revocation takes effect: a security event that reaches the server's own endpoint and names
  an agent is accepted, and from then on, whatever requests follow on whatever routes, none is handed
  to an upstream in the name of that agent.\<close>

theorem revocation_takes_effect:
  assumes "gin_static G" "New G parseURL order cfg = Inr srv" "cfg_Remediation cfg"
    and "sq_Method req = ''POST''" "sq_Path req = ''/ssf/events''"
    and "parse_set L (events_request req) = Inr ev" "set_JTI ev \<notin> rv_jtiSeen (ss_receiver s)"
    and "revoked_subject ev = Some x" "wired (ss_receiver s)"
    and "run_ops (Server_ServeHTTP L G srv) ((env, req) # xs) s = (rs, s')" "list_all (server_ok L) ((env, req) # xs)"
  shows "hd rs = SrvEvents 202 \<and> (\<forall>r \<in> set (tl rs). \<not> forwarded_for x r)"
proof -
  obtain r s1 rs1 where run: "Server_ServeHTTP L G srv (env, req) s = (r, s1)"
    "run_ops (Server_ServeHTTP L G srv) xs s1 = (rs1, s')" "rs = r # rs1"
    using assms(10) by (auto simp: run_ops_Cons simp del: run_ops.simps)
  have ev: "serve_events L env req s = (r, s1)"
    using run(1) by (simp add: events_endpoint [OF assms(1-5)])
  have "r = SrvEvents 202" "server_revoked x s1"
    using serve_events_effect(1,3) [OF ev _ assms(9)] assms(6-8,11) by (simp_all add: server_revoked_def)
  then show ?thesis
    using revoked_history [OF _ run(2), of x] assms(3,11) run(3) New_routes(1) [OF assms(2)] by simp
qed

theorem revocation_takes_effect_witness:
  "\<exists>rs s'. run_ops (Server_ServeHTTP ex_set_lib ex_gin ex_server) [ex_push, ex_call] ex_server_state = (rs, s') \<and>
     hd rs = SrvEvents 202 \<and> (\<forall>r \<in> set (tl rs). \<not> forwarded_for ''spiffe://a/b'' r)"
proof -
  obtain rs s' where run: "run_ops (Server_ServeHTTP ex_set_lib ex_gin ex_server) [ex_push, ex_call] ex_server_state = (rs, s')"
    by (metis prod.exhaust)
  obtain env req where op: "ex_push = (env, req)"
    by (cases ex_push)
  have req: "sq_Method req = ''POST''" "sq_Path req = ''/ssf/events''" "parse_set ex_set_lib (events_request req) = Inr ex_set"
    "list_all (server_ok ex_set_lib) [(env, req), ex_call]"
    using op ex_push_request ex_parse_set ex_server_ok by (auto simp: ex_push_def)
  have state: "wired (ss_receiver ex_server_state)" "set_JTI ex_set \<notin> rv_jtiSeen (ss_receiver ex_server_state)"
    using ex_wired by (simp_all add: ex_server_state_def ex_remediation_def NewAgentRemediation_def Receiver_On_def NewReceiver_def)
  have "hd rs = SrvEvents 202 \<and> (\<forall>r \<in> set (tl rs). \<not> forwarded_for ''spiffe://a/b'' r)"
    by (rule revocation_takes_effect [OF ex_gin_laws(2) ex_New _ req(1-3) state(2) ex_revoked_subject state(1) run [unfolded op] req(4)])
      (simp add: ex_gw_cfg_def)
  with run show ?thesis by blast
qed

text \<open>C4: No path leads around the middleware: when the server hands a request to an upstream, this is
  the upstream that the configuration has for a tool, and the middleware of this very tool has let
  the request pass: a trusted identity, and the authorizer's permission to call the tool.\<close>

theorem upstream_only_through_middleware:
  assumes "gin_sound G" "New G parseURL order cfg = Inr srv"
    and "Server_ServeHTTP L G srv (env, req) s = (SrvTool t u (Forward va chain body), s')"
  shows "cfg_Routes cfg t = Some u \<and>
    leaf_trusted L cfg (se_auth env) (se_resolve env) (gs_resolver (ss_gw s)) (hq_Header (sq_http req) HeaderAgentIdentityToken) va \<and>
    (\<exists>d. cfg_Authz cfg \<lparr>rq_Subject = rc_Subject (ac_reg (va_Claims va)), rq_Object = t,
       rq_Action = ActionCall, rq_ToolParams = fst (extractToolParams (sq_http req))\<rparr> = Inr d \<and> dc_Allowed d)"
proof -
  obtain gs where "agentAuthMiddleware L cfg t (se_auth env) (se_resolve env) (sq_http req) (ss_gw s) = (Forward va chain body, gs)"
    "cfg_Routes cfg t = Some u"
    by (rule server_forward [OF assms])
  then show ?thesis
    using Forward_inv resolveAndValidate_ok by fastforce
qed

theorem upstream_only_through_middleware_witness:
  "\<exists>s'. Server_ServeHTTP ex_gw_lib ex_gin ex_server ex_call ex_server_state
       = (SrvTool ''tool:echo'' ''http://localhost:9090'' (Forward \<lparr>va_Claims = ex_claims 1, va_WorkloadKey = ec_Public key_two\<rparr> [ex_token ''0''] None), s') \<and>
     cfg_Routes ex_gw_cfg ''tool:echo'' = Some ''http://localhost:9090''"
proof -
  have "gin_match ex_gin (sv_routes ex_server) ''GET'' ''/tools/echo/y'' = Some (hd (tool_routes ''tool:echo'' ''http://localhost:9090''))"
    by (simp add: ex_gin_def ex_server_def tool_routes_def any_methods_def health_route_def events_route_def)
  then obtain s' where run: "Server_ServeHTTP ex_gw_lib ex_gin ex_server (fst ex_call, snd ex_call) ex_server_state
     = (SrvTool ''tool:echo'' ''http://localhost:9090'' (Forward \<lparr>va_Claims = ex_claims 1, va_WorkloadKey = ec_Public key_two\<rparr> [ex_token ''0''] None), s')"
    using ex_gw_Forward [of ex_clocks]
    by (simp add: Server_ServeHTTP_def ex_call_def ex_push_def ex_server_state_def)
      (simp add: tool_routes_def any_methods_def ex_server_def)
  from upstream_only_through_middleware [OF ex_gin_laws(1) ex_New this] run show ?thesis
    by auto
qed

text \<open>Two tools whose names differ only before the first colon have the same path, and the server
  does not start: \<open>New\<close> panics.\<close>

theorem New_colliding_tools:
  assumes "gin_refuses G" "t \<noteq> t'" "toolNameToPath t = toolNameToPath t'"
    and "cfg_Routes cfg t = Some u" "cfg_Routes cfg t' = Some u'" "t \<in> set order" "t' \<in> set order"
  shows "\<exists>p. New G parseURL order cfg = Inl p"
proof (rule ccontr)
  assume "\<nexists>p. New G parseURL order cfg = Inl p"
  then obtain rs rs' where rs: "register_tools G parseURL (cfg_Routes cfg) order rs = Inr rs'"
    unfolding New_def by (simp split: sum.splits)
  have "(\<exists>as bs. order = as @ t # bs \<and> t' \<in> set bs) \<or> (\<exists>as bs. order = as @ t' # bs \<and> t \<in> set bs)"
    by (rule two_positions [OF assms(2,6,7)])
  then show False
    using register_tools_twice [OF assms(1) rs assms(4,5,3)] register_tools_twice [OF assms(1) rs assms(5,4) assms(3) [symmetric]]
    by blast
qed

theorem New_colliding_tools_witness:
  "\<exists>p. New ex_gin (\<lambda>_. None) [''tool:echo'', ''mcp:echo'']
     (ex_gw_cfg\<lparr>cfg_Routes := [''tool:echo'' \<mapsto> ''http://localhost:9090'', ''mcp:echo'' \<mapsto> ''http://other'']\<rparr>) = Inl p"
  by (rule New_colliding_tools [OF ex_gin_laws(3), of "''tool:echo''" "''mcp:echo''"]) simp_all

end
