(* ===== verification/Mtls.thy ===== *)
theory Mtls
  imports Keys
begin

text \<open>
  Package \<open>pkg/keys\<close>, file \<open>mtls.go\<close>: the certificate authority of a trust domain, the certificates
  of its agents, the TLS configurations built from them and the files they are kept in.  The
  encodings and signatures of \<open>crypto/x509\<close>, the blocks of \<open>encoding/pem\<close>, \<open>net/url\<close> and the
  handshake of \<open>crypto/tls\<close> are a record of parameters; what the code relies on is stated by the
  predicates \<open>x509_faithful\<close>, \<open>pem_faithful\<close>, \<open>ec_key_faithful\<close> and \<open>tls_complete\<close>, and the last
  section has a library that satisfies them.  Random draws and readings of the clock are arguments.
\<close>

section \<open>Certificates\<close>

datatype key_usage = KeyUsageDigitalSignature | KeyUsageCertSign | KeyUsageCRLSign
datatype ext_key_usage = ExtKeyUsageClientAuth | ExtKeyUsageServerAuth

text \<open>\<open>x509.Certificate\<close>, the fields that the code sets; as a template it has no issuer and no key.
  A URI is its \<open>String()\<close>, an IP address its
  bytes (four for IPv4).\<close>

record x509_cert =
  crt_SerialNumber :: nat
  crt_Subject :: string                 \<comment> \<open>\<open>CommonName\<close>\<close>
  crt_URIs :: "string list"
  crt_DNSNames :: "string list"
  crt_IPAddresses :: "bytes list"
  crt_NotBefore :: time
  crt_NotAfter :: time
  crt_IsCA :: bool
  crt_KeyUsage :: "key_usage list"
  crt_ExtKeyUsage :: "ext_key_usage list"
  crt_BasicConstraintsValid :: bool
  crt_Issuer :: string
  crt_PublicKey :: "ec_public option"

type_synonym cert_pool = "x509_cert list"

record tls_certificate =
  tlc_leaf :: x509_cert
  tlc_key :: ec_private

datatype client_auth = NoClientCert | RequireAndVerifyClientCert
datatype tls_version = VersionDefault | VersionTLS13

record tls_config =
  tls_Certificates :: "tls_certificate list"
  tls_ClientAuth :: client_auth
  tls_ClientCAs :: "cert_pool option"
  tls_RootCAs :: "cert_pool option"
  tls_MinVersion :: tls_version

record CABundle =
  ca_Cert :: x509_cert
  ca_Key :: ec_private
  ca_CertPEM :: bytes

record WorkloadCert =
  wc_Cert :: x509_cert
  wc_CertPEM :: bytes

record CertOptions =
  co_DNSNames :: "string list"
  co_IPAddresses :: "bytes list"

section \<open>The standard library\<close>

record x509_lib =
  x509_CreateCertificate :: "bytes \<Rightarrow> x509_cert \<Rightarrow> x509_cert \<Rightarrow> ec_public \<Rightarrow> ec_private \<Rightarrow> string + bytes"
  x509_ParseCertificate :: "bytes \<Rightarrow> string + x509_cert"
  x509_MarshalECPrivateKey :: "ec_private \<Rightarrow> string + bytes"
  x509_ParseECPrivateKey :: "bytes \<Rightarrow> string + ec_private"
  x509_pem_certs :: "bytes \<Rightarrow> x509_cert list"      \<comment> \<open>added by \<open>AppendCertsFromPEM\<close>\<close>
  pem_EncodeToMemory :: "string \<Rightarrow> bytes \<Rightarrow> bytes"
  pem_Decode :: "bytes \<Rightarrow> (string \<times> bytes) option"  \<comment> \<open>type and bytes of the first block\<close>
  tls_X509KeyPair :: "bytes \<Rightarrow> bytes \<Rightarrow> string + tls_certificate"
  tls_client_ok :: "time \<Rightarrow> cert_pool \<Rightarrow> x509_cert \<Rightarrow> bool"
    \<comment> \<open>a handshake with \<open>RequireAndVerifyClientCert\<close> accepts the peer's certificate\<close>
  url_Parse :: "string \<Rightarrow> (string \<times> string) option" \<comment> \<open>\<open>Scheme\<close> and \<open>String()\<close>\<close>

text \<open>The files: contents and mode.  A write creates a file with the mode it is given, or replaces
  the contents of an existing file and keeps its mode.\<close>

record file_store =
  fs_files :: "string \<rightharpoonup> bytes \<times> nat"
  fs_write_error :: "string \<Rightarrow> string option"
  fs_read_error :: "string \<Rightarrow> string option"

definition os_WriteFile :: "string \<Rightarrow> bytes \<Rightarrow> nat \<Rightarrow> file_store \<Rightarrow> string option \<times> file_store" where
  "os_WriteFile name data perm fs = (case fs_write_error fs name of
     Some e \<Rightarrow> (Some e, fs)
   | None \<Rightarrow> (None, fs\<lparr>fs_files := (fs_files fs)(name \<mapsto>
       (data, case fs_files fs name of None \<Rightarrow> perm | Some (_, mode) \<Rightarrow> mode))\<rparr>))"

definition os_ReadFile :: "string \<Rightarrow> file_store \<Rightarrow> string + bytes" where
  "os_ReadFile name fs = (case fs_read_error fs name of
     Some e \<Rightarrow> Inl e
   | None \<Rightarrow> (case fs_files fs name of None \<Rightarrow> Inl ''file does not exist'' | Some (data, _) \<Rightarrow> Inr data))"

definition mode_0600 :: nat where "mode_0600 = 384"
definition mode_0644 :: nat where "mode_0644 = 420"

section \<open>Operations\<close>

datatype cert_error = GenerateCAKey string | RandomSerial string | CreateCACert string | ParseNewCert string
  | NotAbsoluteURI | CreateAgentCert string
  | MarshalPrivateKey string | KeyPairMismatch string
  | WriteCACert string | MarshalCAKey string | WriteCAKey string
  | ReadCACert string | NoPEMBlockInCert | ParseCACert string
  | ReadCAKey string | NoECPrivateKeyBlock | ParseCAKey string
  | ReadPoolCert string | NoValidCertificates

text \<open>What a certificate is made with: the draw of the key and of the serial number, the bytes
  the signature uses, and the two readings of the clock.\<close>

record cert_draws =
  cd_key :: "string + ec_private"
  cd_serial :: "string + nat"
  cd_sign :: bytes
  cd_now :: time
  cd_now2 :: time

definition randomSerial :: "string + nat \<Rightarrow> cert_error + nat" where
  "randomSerial draw = map_sum RandomSerial id draw"

text \<open>The dash of the name is U+2013.\<close>

definition ca_name :: "string \<Rightarrow> string" where
  "ca_name trustDomain = ''WIMSE CA '' @ [chr 226, chr 128, chr 147] @ '' '' @ trustDomain"

definition ca_template :: "string \<Rightarrow> nat \<Rightarrow> cert_draws \<Rightarrow> x509_cert" where
  "ca_template trustDomain serial d =
     \<lparr>crt_SerialNumber = serial, crt_Subject = ca_name trustDomain, crt_URIs = [], crt_DNSNames = [],
      crt_IPAddresses = [], crt_NotBefore = cd_now d - minute, crt_NotAfter = cd_now2 d + 24 * hour,
      crt_IsCA = True, crt_KeyUsage = [KeyUsageCertSign, KeyUsageCRLSign], crt_ExtKeyUsage = [],
      crt_BasicConstraintsValid = True, crt_Issuer = [], crt_PublicKey = None\<rparr>"

definition GenerateCA :: "x509_lib \<Rightarrow> cert_draws \<Rightarrow> string \<Rightarrow> cert_error + CABundle" where
  "GenerateCA X d trustDomain = (case cd_key d of
     Inl e \<Rightarrow> Inl (GenerateCAKey e)
   | Inr key \<Rightarrow> (case randomSerial (cd_serial d) of
       Inl e \<Rightarrow> Inl e
     | Inr serial \<Rightarrow>
         (let tmpl = ca_template trustDomain serial d in
          case x509_CreateCertificate X (cd_sign d) tmpl tmpl (ec_Public key) key of
            Inl e \<Rightarrow> Inl (CreateCACert e)
          | Inr derBytes \<Rightarrow> (case x509_ParseCertificate X derBytes of
              Inl e \<Rightarrow> Inl (ParseNewCert e)
            | Inr cert \<Rightarrow> Inr \<lparr>ca_Cert = cert, ca_Key = key,
                ca_CertPEM = pem_EncodeToMemory X ''CERTIFICATE'' derBytes\<rparr>))))"

definition agent_template :: "string \<Rightarrow> string \<Rightarrow> nat \<Rightarrow> cert_draws \<Rightarrow> CertOptions option \<Rightarrow> x509_cert" where
  "agent_template uri parsedURI serial d opts =
     \<lparr>crt_SerialNumber = serial, crt_Subject = uri, crt_URIs = [parsedURI],
      crt_DNSNames = (case opts of None \<Rightarrow> [] | Some o' \<Rightarrow> co_DNSNames o'),
      crt_IPAddresses = (case opts of None \<Rightarrow> [] | Some o' \<Rightarrow> co_IPAddresses o'),
      crt_NotBefore = cd_now d - minute, crt_NotAfter = cd_now2 d + 24 * hour,
      crt_IsCA = False, crt_KeyUsage = [KeyUsageDigitalSignature],
      crt_ExtKeyUsage = [ExtKeyUsageClientAuth, ExtKeyUsageServerAuth],
      crt_BasicConstraintsValid = False, crt_Issuer = [], crt_PublicKey = None\<rparr>"

definition IssueAgentCert :: "x509_lib \<Rightarrow> cert_draws \<Rightarrow> CABundle \<Rightarrow> string \<Rightarrow> ec_public
    \<Rightarrow> CertOptions option \<Rightarrow> cert_error + WorkloadCert" where
  "IssueAgentCert X d ca uri pub opts = (case url_Parse X uri of
     None \<Rightarrow> Inl NotAbsoluteURI
   | Some (scheme, parsedURI) \<Rightarrow>
       if scheme = [] then Inl NotAbsoluteURI
       else (case randomSerial (cd_serial d) of
         Inl e \<Rightarrow> Inl e
       | Inr serial \<Rightarrow>
           (case x509_CreateCertificate X (cd_sign d) (agent_template uri parsedURI serial d opts)
                   (ca_Cert ca) pub (ca_Key ca) of
              Inl e \<Rightarrow> Inl (CreateAgentCert e)
            | Inr derBytes \<Rightarrow> (case x509_ParseCertificate X derBytes of
                Inl e \<Rightarrow> Inl (ParseNewCert e)
              | Inr cert \<Rightarrow> Inr \<lparr>wc_Cert = cert, wc_CertPEM = pem_EncodeToMemory X ''CERTIFICATE'' derBytes\<rparr>))))"

definition CertPool :: "CABundle \<Rightarrow> cert_pool" where
  "CertPool ca = [ca_Cert ca]"

definition TLSCertificate :: "x509_lib \<Rightarrow> WorkloadCert \<Rightarrow> ec_private \<Rightarrow> cert_error + tls_certificate" where
  "TLSCertificate X wc priv = (case x509_MarshalECPrivateKey X priv of
     Inl e \<Rightarrow> Inl (MarshalPrivateKey e)
   | Inr keyDER \<Rightarrow>
       map_sum KeyPairMismatch id (tls_X509KeyPair X (wc_CertPEM wc) (pem_EncodeToMemory X ''EC PRIVATE KEY'' keyDER)))"

definition NewServerTLSConfig :: "x509_lib \<Rightarrow> cert_pool \<Rightarrow> WorkloadCert \<Rightarrow> ec_private \<Rightarrow> cert_error + tls_config" where
  "NewServerTLSConfig X clientCA wc priv = (case TLSCertificate X wc priv of
     Inl e \<Rightarrow> Inl e
   | Inr cert \<Rightarrow> Inr \<lparr>tls_Certificates = [cert], tls_ClientAuth = RequireAndVerifyClientCert,
       tls_ClientCAs = Some clientCA, tls_RootCAs = None, tls_MinVersion = VersionTLS13\<rparr>)"

definition NewClientTLSConfig :: "x509_lib \<Rightarrow> cert_pool \<Rightarrow> WorkloadCert \<Rightarrow> ec_private \<Rightarrow> cert_error + tls_config" where
  "NewClientTLSConfig X serverCA wc priv = (case TLSCertificate X wc priv of
     Inl e \<Rightarrow> Inl e
   | Inr cert \<Rightarrow> Inr \<lparr>tls_Certificates = [cert], tls_ClientAuth = NoClientCert,
       tls_ClientCAs = None, tls_RootCAs = Some serverCA, tls_MinVersion = VersionTLS13\<rparr>)"

definition SaveCABundle :: "x509_lib \<Rightarrow> CABundle \<Rightarrow> string \<Rightarrow> string \<Rightarrow> file_store
    \<Rightarrow> cert_error option \<times> file_store" where
  "SaveCABundle X ca certPath keyPath fs =
     (case os_WriteFile certPath (ca_CertPEM ca) mode_0644 fs of
        (Some e, fs1) \<Rightarrow> (Some (WriteCACert e), fs1)
      | (None, fs1) \<Rightarrow> (case x509_MarshalECPrivateKey X (ca_Key ca) of
          Inl e \<Rightarrow> (Some (MarshalCAKey e), fs1)
        | Inr der \<Rightarrow>
            (case os_WriteFile keyPath (pem_EncodeToMemory X ''EC PRIVATE KEY'' der) mode_0600 fs1 of
               (err, fs2) \<Rightarrow> (map_option WriteCAKey err, fs2))))"

definition LoadCABundle :: "x509_lib \<Rightarrow> string \<Rightarrow> string \<Rightarrow> file_store \<Rightarrow> cert_error + CABundle" where
  "LoadCABundle X certPath keyPath fs = (case os_ReadFile certPath fs of
     Inl e \<Rightarrow> Inl (ReadCACert e)
   | Inr certPEM \<Rightarrow> (case pem_Decode X certPEM of
       None \<Rightarrow> Inl NoPEMBlockInCert
     | Some (_, certBytes) \<Rightarrow> (case x509_ParseCertificate X certBytes of
         Inl e \<Rightarrow> Inl (ParseCACert e)
       | Inr cert \<Rightarrow> (case os_ReadFile keyPath fs of
           Inl e \<Rightarrow> Inl (ReadCAKey e)
         | Inr keyPEM \<Rightarrow> (case pem_Decode X keyPEM of
             None \<Rightarrow> Inl NoECPrivateKeyBlock
           | Some (keyType, keyBytes) \<Rightarrow>
               if keyType \<noteq> ''EC PRIVATE KEY'' then Inl NoECPrivateKeyBlock
               else (case x509_ParseECPrivateKey X keyBytes of
                 Inl e \<Rightarrow> Inl (ParseCAKey e)
               | Inr key \<Rightarrow> Inr \<lparr>ca_Cert = cert, ca_Key = key, ca_CertPEM = certPEM\<rparr>))))))"

definition LoadCACertPool :: "x509_lib \<Rightarrow> string \<Rightarrow> file_store \<Rightarrow> cert_error + cert_pool" where
  "LoadCACertPool X certPath fs = (case os_ReadFile certPath fs of
     Inl e \<Rightarrow> Inl (ReadPoolCert e)
   | Inr certPEM \<Rightarrow>
       if x509_pem_certs X certPEM = [] then Inl NoValidCertificates else Inr (x509_pem_certs X certPEM))"

section \<open>What the code relies on\<close>

text \<open>Dates are encoded with a granularity of one second.\<close>

definition asn1_time :: "time \<Rightarrow> time" where
  "asn1_time t = t div second * second"

lemma asn1_time_bounds: "asn1_time t \<le> t" "t - second < asn1_time t"
proof -
  have "asn1_time t = t - t mod second"
    unfolding asn1_time_def by (rule minus_mod_eq_div_mult [symmetric])
  moreover have "0 \<le> t mod second" "t mod second < second"
    by (rule pos_mod_sign, simp) (rule pos_mod_bound, simp)
  ultimately show "asn1_time t \<le> t" "t - second < asn1_time t"
    by linarith+
qed

definition certified :: "x509_cert \<Rightarrow> x509_cert \<Rightarrow> ec_public \<Rightarrow> x509_cert" where
  "certified tmpl parent pub = tmpl\<lparr>crt_NotBefore := asn1_time (crt_NotBefore tmpl),
     crt_NotAfter := asn1_time (crt_NotAfter tmpl), crt_Issuer := crt_Subject parent, crt_PublicKey := Some pub\<rparr>"

text \<open>A certificate that was created and parsed again is the template with issuer and key.\<close>

definition x509_faithful :: "x509_lib \<Rightarrow> bool" where
  "x509_faithful X \<longleftrightarrow> (\<forall>rnd tmpl parent pub priv der cert.
     x509_CreateCertificate X rnd tmpl parent pub priv = Inr der \<and> x509_ParseCertificate X der = Inr cert \<longrightarrow>
       cert = certified tmpl parent pub)"

definition pem_faithful :: "x509_lib \<Rightarrow> bool" where
  "pem_faithful X \<longleftrightarrow> (\<forall>b. \<forall>t \<in> {''CERTIFICATE'', ''EC PRIVATE KEY''}.
     pem_Decode X (pem_EncodeToMemory X t b) = Some (t, b)) \<and>
   (\<forall>b cert. x509_ParseCertificate X b = Inr cert \<longrightarrow>
     x509_pem_certs X (pem_EncodeToMemory X ''CERTIFICATE'' b) = [cert])"

definition ec_key_faithful :: "x509_lib \<Rightarrow> bool" where
  "ec_key_faithful X \<longleftrightarrow> (\<forall>k der. x509_MarshalECPrivateKey X k = Inr der \<longrightarrow> x509_ParseECPrivateKey X der = Inr k)"

text \<open>A certificate that an authority of the pool signed with its own key is accepted while both
  are valid.\<close>

definition tls_complete :: "x509_lib \<Rightarrow> bool" where
  "tls_complete X \<longleftrightarrow> (\<forall>now pool ca cert rnd tmpl pub priv der.
     ca \<in> set pool \<and> crt_IsCA ca \<and> crt_BasicConstraintsValid ca \<and> KeyUsageCertSign \<in> set (crt_KeyUsage ca) \<and>
     crt_PublicKey ca = Some (ec_Public priv) \<and> ExtKeyUsageClientAuth \<in> set (crt_ExtKeyUsage cert) \<and>
     x509_CreateCertificate X rnd tmpl ca pub priv = Inr der \<and> x509_ParseCertificate X der = Inr cert \<and>
     crt_NotBefore ca \<le> now \<and> now \<le> crt_NotAfter ca \<and> crt_NotBefore cert \<le> now \<and> now \<le> crt_NotAfter cert \<longrightarrow>
       tls_client_ok X now pool cert)"

text \<open>An accepted certificate is inside its validity, and meant for clients.\<close>

definition tls_dates :: "x509_lib \<Rightarrow> bool" where
  "tls_dates X \<longleftrightarrow> (\<forall>now pool cert. tls_client_ok X now pool cert \<longrightarrow>
     crt_NotBefore cert \<le> now \<and> now \<le> crt_NotAfter cert \<and> ExtKeyUsageClientAuth \<in> set (crt_ExtKeyUsage cert))"

section \<open>Certificates that were issued\<close>

lemma randomSerial_simps [simp]: "randomSerial (Inr n) = Inr n" "randomSerial (Inl e) = Inl (RandomSerial e)"
  by (simp_all add: randomSerial_def)

lemma randomSerial_ok [ok_simps]: "randomSerial draw = Inr n \<longleftrightarrow> draw = Inr n"
  by (cases draw) simp_all

lemma GenerateCA_ok [ok_simps]:
  "GenerateCA X d td = Inr ca \<longleftrightarrow> (\<exists>key serial der cert. cd_key d = Inr key \<and> cd_serial d = Inr serial \<and>
     x509_CreateCertificate X (cd_sign d) (ca_template td serial d) (ca_template td serial d) (ec_Public key) key = Inr der \<and>
     x509_ParseCertificate X der = Inr cert \<and>
     ca = \<lparr>ca_Cert = cert, ca_Key = key, ca_CertPEM = pem_EncodeToMemory X ''CERTIFICATE'' der\<rparr>)"
  by (cases "cd_serial d") (auto simp: GenerateCA_def Let_def split: sum.splits)

lemma IssueAgentCert_ok [ok_simps]:
  "IssueAgentCert X d ca uri pub opts = Inr wc \<longleftrightarrow> (\<exists>scheme parsed serial der cert.
     url_Parse X uri = Some (scheme, parsed) \<and> scheme \<noteq> [] \<and> cd_serial d = Inr serial \<and>
     x509_CreateCertificate X (cd_sign d) (agent_template uri parsed serial d opts) (ca_Cert ca) pub (ca_Key ca) = Inr der \<and>
     x509_ParseCertificate X der = Inr cert \<and>
     wc = \<lparr>wc_Cert = cert, wc_CertPEM = pem_EncodeToMemory X ''CERTIFICATE'' der\<rparr>)"
  by (cases "cd_serial d") (auto simp: IssueAgentCert_def split: option.splits sum.splits)

lemma TLSCertificate_ok [ok_simps]:
  "TLSCertificate X wc priv = Inr c \<longleftrightarrow> (\<exists>der. x509_MarshalECPrivateKey X priv = Inr der \<and>
     tls_X509KeyPair X (wc_CertPEM wc) (pem_EncodeToMemory X ''EC PRIVATE KEY'' der) = Inr c)"
  by (cases "x509_MarshalECPrivateKey X priv"; simp add: TLSCertificate_def)
    (cases "tls_X509KeyPair X (wc_CertPEM wc) (pem_EncodeToMemory X ''EC PRIVATE KEY'' (projr (x509_MarshalECPrivateKey X priv)))"; simp)

text \<open>A bundle that \<open>GenerateCA\<close> returned.\<close>

definition generated_ca :: "x509_lib \<Rightarrow> CABundle \<Rightarrow> bool" where
  "generated_ca X ca \<longleftrightarrow> (\<exists>d td. GenerateCA X d td = Inr ca)"

lemma GenerateCA_cert:
  assumes "x509_faithful X" "GenerateCA X d td = Inr ca"
  shows "\<exists>serial. ca_Cert ca = certified (ca_template td serial d) (ca_template td serial d) (ec_Public (ca_Key ca))"
  using assms unfolding GenerateCA_ok x509_faithful_def by force

lemma IssueAgentCert_cert:
  assumes "x509_faithful X" "IssueAgentCert X d ca uri pub opts = Inr wc"
  shows "\<exists>scheme parsed serial. url_Parse X uri = Some (scheme, parsed) \<and> scheme \<noteq> [] \<and>
    wc_Cert wc = certified (agent_template uri parsed serial d opts) (ca_Cert ca) pub"
  using assms unfolding IssueAgentCert_ok x509_faithful_def by force

lemma certified_sel [simp]:
  "crt_URIs (certified t p k) = crt_URIs t" "crt_PublicKey (certified t p k) = Some k"
  "crt_IsCA (certified t p k) = crt_IsCA t" "crt_KeyUsage (certified t p k) = crt_KeyUsage t"
  "crt_ExtKeyUsage (certified t p k) = crt_ExtKeyUsage t" "crt_Issuer (certified t p k) = crt_Subject p"
  "crt_BasicConstraintsValid (certified t p k) = crt_BasicConstraintsValid t"
  "crt_NotBefore (certified t p k) = asn1_time (crt_NotBefore t)"
  "crt_NotAfter (certified t p k) = asn1_time (crt_NotAfter t)" "crt_Subject (certified t p k) = crt_Subject t"
  by (simp_all add: certified_def)

lemma issued_uri:
  assumes "x509_faithful X" "IssueAgentCert X d ca uri pub opts = Inr wc"
  shows "\<exists>scheme parsed. url_Parse X uri = Some (scheme, parsed) \<and> crt_URIs (wc_Cert wc) = [parsed]"
    and "crt_PublicKey (wc_Cert wc) = Some pub" "\<not> crt_IsCA (wc_Cert wc)"
    and "crt_Issuer (wc_Cert wc) = crt_Subject (ca_Cert ca)"
    and "crt_NotBefore (wc_Cert wc) = asn1_time (cd_now d - minute)" "crt_NotAfter (wc_Cert wc) = asn1_time (cd_now2 d + 24 * hour)"
  using IssueAgentCert_cert [OF assms] by (auto simp: agent_template_def)

lemma issued_accepted:
  assumes "x509_faithful X" "tls_complete X"
    and ca: "GenerateCA X dc td = Inr ca" and wc: "IssueAgentCert X d ca uri pub opts = Inr wc"
    and "cd_now dc - minute \<le> now" "now \<le> cd_now2 dc + 24 * hour - second"
    and "cd_now d - minute \<le> now" "now \<le> cd_now2 d + 24 * hour - second"
    and pool: "ca_Cert ca \<in> set pool"
  shows "tls_client_ok X now pool (wc_Cert wc)"
proof -
  obtain serial where c: "ca_Cert ca = certified (ca_template td serial dc) (ca_template td serial dc) (ec_Public (ca_Key ca))"
    using GenerateCA_cert [OF assms(1) ca] by blast
  obtain scheme parsed serial' der where w:
    "x509_CreateCertificate X (cd_sign d) (agent_template uri parsed serial' d opts) (ca_Cert ca) pub (ca_Key ca) = Inr der"
    "x509_ParseCertificate X der = Inr (wc_Cert wc)"
    using wc unfolding IssueAgentCert_ok by auto
  have eq: "wc_Cert wc = certified (agent_template uri parsed serial' d opts) (ca_Cert ca) pub"
    using assms(1) w unfolding x509_faithful_def by blast
  have "asn1_time (cd_now dc - minute) \<le> now" "now \<le> asn1_time (cd_now2 dc + 24 * hour)"
    "asn1_time (cd_now d - minute) \<le> now" "now \<le> asn1_time (cd_now2 d + 24 * hour)"
    using assms(5-8) asn1_time_bounds [of "cd_now dc - minute"] asn1_time_bounds [of "cd_now2 dc + 24 * hour"]
      asn1_time_bounds [of "cd_now d - minute"] asn1_time_bounds [of "cd_now2 d + 24 * hour"] by linarith+
  then have "crt_NotBefore (ca_Cert ca) \<le> now" "now \<le> crt_NotAfter (ca_Cert ca)"
    "crt_NotBefore (wc_Cert wc) \<le> now" "now \<le> crt_NotAfter (wc_Cert wc)"
    using c eq by (simp_all add: ca_template_def agent_template_def)
  moreover have "crt_IsCA (ca_Cert ca)" "crt_BasicConstraintsValid (ca_Cert ca)" "KeyUsageCertSign \<in> set (crt_KeyUsage (ca_Cert ca))"
    "crt_PublicKey (ca_Cert ca) = Some (ec_Public (ca_Key ca))"
    unfolding c by (simp_all add: ca_template_def)
  moreover have "ExtKeyUsageClientAuth \<in> set (crt_ExtKeyUsage (wc_Cert wc))"
    unfolding eq by (simp add: agent_template_def)
  ultimately show ?thesis
    using assms(2) pool w unfolding tls_complete_def by blast
qed

section \<open>Files\<close>

lemma os_WriteFile_ok:
  "os_WriteFile name data perm fs = (None, fs') \<longleftrightarrow> fs_write_error fs name = None \<and>
     fs' = fs\<lparr>fs_files := (fs_files fs)(name \<mapsto> (data, case fs_files fs name of None \<Rightarrow> perm | Some (_, mode) \<Rightarrow> mode))\<rparr>"
  by (auto simp: os_WriteFile_def split: option.splits)

lemma os_WriteFile_frame:
  "os_WriteFile name data perm fs = (r, fs') \<Longrightarrow>
     fs_write_error fs' = fs_write_error fs \<and> fs_read_error fs' = fs_read_error fs \<and>
     (\<forall>n. n \<noteq> name \<longrightarrow> fs_files fs' n = fs_files fs n)"
  by (auto simp: os_WriteFile_def split: option.splits)

lemma SaveCABundle_ok:
  "SaveCABundle X ca certPath keyPath fs = (None, fs') \<longleftrightarrow> (\<exists>der fs1.
     os_WriteFile certPath (ca_CertPEM ca) mode_0644 fs = (None, fs1) \<and>
     x509_MarshalECPrivateKey X (ca_Key ca) = Inr der \<and>
     os_WriteFile keyPath (pem_EncodeToMemory X ''EC PRIVATE KEY'' der) mode_0600 fs1 = (None, fs'))"
  by (auto simp: SaveCABundle_def split: prod.splits option.splits sum.splits)

text \<open>The two files of a bundle.\<close>

definition stored_bundle :: "x509_lib \<Rightarrow> file_store \<Rightarrow> string \<Rightarrow> string \<Rightarrow> bytes \<Rightarrow> ec_private \<Rightarrow> bool" where
  "stored_bundle X fs certPath keyPath certPEM key \<longleftrightarrow> (\<exists>der m m'.
     fs_files fs certPath = Some (certPEM, m) \<and> x509_MarshalECPrivateKey X key = Inr der \<and>
     fs_files fs keyPath = Some (pem_EncodeToMemory X ''EC PRIVATE KEY'' der, m'))"

lemma SaveCABundle_stored:
  assumes "SaveCABundle X ca certPath keyPath fs = (None, fs')" "certPath \<noteq> keyPath"
  shows "stored_bundle X fs' certPath keyPath (ca_CertPEM ca) (ca_Key ca)"
    and "map_option snd (fs_files fs' keyPath) = Some (case fs_files fs keyPath of None \<Rightarrow> mode_0600 | Some (_, m) \<Rightarrow> m)"
    and "fs_read_error fs' = fs_read_error fs"
  using assms unfolding SaveCABundle_ok stored_bundle_def os_WriteFile_ok by auto

lemma LoadCABundle_stored:
  assumes "pem_faithful X" "ec_key_faithful X"
    and "stored_bundle X fs certPath keyPath (pem_EncodeToMemory X ''CERTIFICATE'' der) key"
    and "x509_ParseCertificate X der = Inr cert"
    and "fs_read_error fs certPath = None" "fs_read_error fs keyPath = None"
  shows "LoadCABundle X certPath keyPath fs
      = Inr \<lparr>ca_Cert = cert, ca_Key = key, ca_CertPEM = pem_EncodeToMemory X ''CERTIFICATE'' der\<rparr>"
    and "LoadCACertPool X certPath fs = Inr [cert]"
proof -
  obtain kder m m' where files: "fs_files fs certPath = Some (pem_EncodeToMemory X ''CERTIFICATE'' der, m)"
    "x509_MarshalECPrivateKey X key = Inr kder" "fs_files fs keyPath = Some (pem_EncodeToMemory X ''EC PRIVATE KEY'' kder, m')"
    using assms(3) unfolding stored_bundle_def by blast
  have "x509_ParseECPrivateKey X kder = Inr key"
    using assms(2) files(2) unfolding ec_key_faithful_def by blast
  moreover have "pem_Decode X (pem_EncodeToMemory X ''CERTIFICATE'' der) = Some (''CERTIFICATE'', der)"
    "pem_Decode X (pem_EncodeToMemory X ''EC PRIVATE KEY'' kder) = Some (''EC PRIVATE KEY'', kder)"
    "x509_pem_certs X (pem_EncodeToMemory X ''CERTIFICATE'' der) = [cert]"
    using assms(1,4) unfolding pem_faithful_def by blast+
  ultimately show "LoadCABundle X certPath keyPath fs
      = Inr \<lparr>ca_Cert = cert, ca_Key = key, ca_CertPEM = pem_EncodeToMemory X ''CERTIFICATE'' der\<rparr>"
    "LoadCACertPool X certPath fs = Inr [cert]"
    using files assms(4-6) by (simp_all add: LoadCABundle_def LoadCACertPool_def os_ReadFile_def)
qed

lemma generated_ca_pem:
  "generated_ca X ca \<Longrightarrow> \<exists>der. ca_CertPEM ca = pem_EncodeToMemory X ''CERTIFICATE'' der \<and> x509_ParseCertificate X der = Inr (ca_Cert ca)"
  unfolding generated_ca_def GenerateCA_ok by force

section \<open>A library\<close>

text \<open>A library over a table of the certificates that can be created, and of keys.\<close>

type_synonym cert_entry = "x509_cert \<times> x509_cert \<times> ec_public \<times> ec_private \<times> bytes"

definition newline :: char where "newline = chr 10"

definition ex_pem_decode :: "bytes \<Rightarrow> (string \<times> bytes) option" where
  "ex_pem_decode s = (case splitn_on newline 2 s of [t, b] \<Rightarrow> Some (t, b) | _ \<Rightarrow> None)"

fun ex_create :: "cert_entry list \<Rightarrow> x509_cert \<Rightarrow> x509_cert \<Rightarrow> ec_public \<Rightarrow> ec_private \<Rightarrow> string + bytes" where
  "ex_create [] tmpl parent pub priv = Inl ''no such certificate''"
| "ex_create ((t, p, k, s, der) # es) tmpl parent pub priv =
     (if (t, p, k, s) = (tmpl, parent, pub, priv) then Inr der else ex_create es tmpl parent pub priv)"

fun ex_parse_cert :: "cert_entry list \<Rightarrow> bytes \<Rightarrow> string + x509_cert" where
  "ex_parse_cert [] b = Inl ''malformed certificate''"
| "ex_parse_cert ((t, p, k, s, der) # es) b = (if der = b then Inr (certified t p k) else ex_parse_cert es b)"

fun ex_marshal_key :: "(ec_private \<times> bytes) list \<Rightarrow> ec_private \<Rightarrow> string + bytes" where
  "ex_marshal_key [] k = Inl ''unknown key''"
| "ex_marshal_key ((x, b) # ks) k = (if x = k then Inr b else ex_marshal_key ks k)"

fun ex_parse_key :: "(ec_private \<times> bytes) list \<Rightarrow> bytes \<Rightarrow> string + ec_private" where
  "ex_parse_key [] b = Inl ''malformed key''"
| "ex_parse_key ((k, x) # ks) b = (if x = b then Inr k else ex_parse_key ks b)"

definition ex_key_pair :: "cert_entry list \<Rightarrow> (ec_private \<times> bytes) list \<Rightarrow> bytes \<Rightarrow> bytes \<Rightarrow> string + tls_certificate" where
  "ex_key_pair es ks certPEM keyPEM = (case (ex_pem_decode certPEM, ex_pem_decode keyPEM) of
     (Some (_, c), Some (_, k)) \<Rightarrow> (case (ex_parse_cert es c, ex_parse_key ks k) of
        (Inr cert, Inr key) \<Rightarrow>
           if crt_PublicKey cert = Some (ec_Public key) then Inr \<lparr>tlc_leaf = cert, tlc_key = key\<rparr>
           else Inl ''private key does not match public key''
      | _ \<Rightarrow> Inl ''failed to parse'')
   | _ \<Rightarrow> Inl ''failed to find PEM data'')"

definition ex_client_ok :: "time \<Rightarrow> cert_pool \<Rightarrow> x509_cert \<Rightarrow> bool" where
  "ex_client_ok now pool c \<longleftrightarrow> crt_NotBefore c \<le> now \<and> now \<le> crt_NotAfter c \<and>
     ExtKeyUsageClientAuth \<in> set (crt_ExtKeyUsage c) \<and>
     (\<exists>ca \<in> set pool. crt_IsCA ca \<and> crt_Issuer c = crt_Subject ca \<and> crt_NotBefore ca \<le> now \<and> now \<le> crt_NotAfter ca)"

definition table_x509 :: "cert_entry list \<Rightarrow> (ec_private \<times> bytes) list \<Rightarrow> x509_lib" where
  "table_x509 es ks = \<lparr>x509_CreateCertificate = (\<lambda>_. ex_create es), x509_ParseCertificate = ex_parse_cert es,
     x509_MarshalECPrivateKey = ex_marshal_key ks, x509_ParseECPrivateKey = ex_parse_key ks,
     x509_pem_certs = (\<lambda>s. case ex_pem_decode s of
        Some (t, b) \<Rightarrow> if t = ''CERTIFICATE'' then (case ex_parse_cert es b of Inr c \<Rightarrow> [c] | Inl _ \<Rightarrow> []) else []
      | None \<Rightarrow> []),
     pem_EncodeToMemory = (\<lambda>t b. t @ newline # b), pem_Decode = ex_pem_decode,
     tls_X509KeyPair = ex_key_pair es ks, tls_client_ok = ex_client_ok,
     url_Parse = (\<lambda>s. case splitn_on (CHR '':'') 2 s of [sch, _] \<Rightarrow> Some (sch, s) | _ \<Rightarrow> Some ([], s))\<rparr>"

lemma ex_create_mem: "ex_create es t p k s = Inr der \<Longrightarrow> (t, p, k, s, der) \<in> set es"
  by (induction es t p k s rule: ex_create.induct) (auto split: if_splits)

lemma ex_parse_cert_mem:
  "distinct (map (\<lambda>(t, p, k, s, der). der) es) \<Longrightarrow> (t, p, k, s, der) \<in> set es \<Longrightarrow> ex_parse_cert es der = Inr (certified t p k)"
  by (induction es) force+

lemma ex_parse_key_mem: "distinct (map snd ks) \<Longrightarrow> ex_marshal_key ks k = Inr der \<Longrightarrow> ex_parse_key ks der = Inr k"
proof (induction ks)
  case (Cons x ks)
  have "ex_marshal_key ks k = Inr der \<Longrightarrow> der \<in> snd ` set ks" for k der
    by (induction ks) (auto split: if_splits)
  with Cons show ?case
    by (cases x) (auto split: if_splits)
qed simp

lemma ex_pem [simp]:
  "ex_pem_decode (''CERTIFICATE'' @ newline # b) = Some (''CERTIFICATE'', b)"
  "ex_pem_decode (''EC PRIVATE KEY'' @ newline # b) = Some (''EC PRIVATE KEY'', b)"
  by (simp_all add: ex_pem_decode_def newline_def char_simps numeral_2_eq_2)

lemma table_laws:
  assumes "distinct (map (\<lambda>(t, p, k, s, der). der) es)" "distinct (map snd ks)"
  shows "x509_faithful (table_x509 es ks)" "pem_faithful (table_x509 es ks)" "ec_key_faithful (table_x509 es ks)"
    "tls_complete (table_x509 es ks)" "tls_dates (table_x509 es ks)"
proof -
  have parse: "cert = certified t p k" if "ex_create es t p k s = Inr der" "ex_parse_cert es der = Inr cert" for t p k s der cert
    using ex_parse_cert_mem [OF assms(1) ex_create_mem [OF that(1)]] that(2) by simp
  then show "x509_faithful (table_x509 es ks)"
    unfolding x509_faithful_def table_x509_def by auto
  show "pem_faithful (table_x509 es ks)"
    unfolding pem_faithful_def table_x509_def by (simp del: append_Cons)
  show "ec_key_faithful (table_x509 es ks)"
    unfolding ec_key_faithful_def table_x509_def by (simp add: ex_parse_key_mem [OF assms(2)])
  show "tls_complete (table_x509 es ks)"
    unfolding tls_complete_def table_x509_def ex_client_ok_def by (auto dest!: parse)
  show "tls_dates (table_x509 es ks)"
    unfolding tls_dates_def table_x509_def ex_client_ok_def by auto
qed

section \<open>Closed instances\<close>

definition ex_ca_draws :: cert_draws where
  "ex_ca_draws = \<lparr>cd_key = Inr key_one, cd_serial = Inr 1, cd_sign = [], cd_now = 0, cd_now2 = 0\<rparr>"

definition ex_cert_draws :: cert_draws where
  "ex_cert_draws = \<lparr>cd_key = Inl [], cd_serial = Inr 2, cd_sign = [], cd_now = minute, cd_now2 = minute\<rparr>"

definition ex_ca_cert :: x509_cert where
  "ex_ca_cert = certified (ca_template ''td'' 1 ex_ca_draws) (ca_template ''td'' 1 ex_ca_draws) (ec_Public key_one)"

definition ex_agent_id :: string where "ex_agent_id = ''spiffe://td/agent/demo''"
definition ex_gateway_id :: string where "ex_gateway_id = ''spiffe://td/gateway''"

definition loopback :: CertOptions where
  "loopback = \<lparr>co_DNSNames = [], co_IPAddresses = [[chr 127, chr 0, chr 0, chr 1]]\<rparr>"

definition ex_agent_tmpl :: x509_cert where
  "ex_agent_tmpl = agent_template ex_agent_id ex_agent_id 2 ex_cert_draws None"

definition ex_gateway_tmpl :: x509_cert where
  "ex_gateway_tmpl = agent_template ex_gateway_id ex_gateway_id 2 ex_cert_draws (Some loopback)"

definition ex_x509 :: x509_lib where
  "ex_x509 = table_x509
     [(ca_template ''td'' 1 ex_ca_draws, ca_template ''td'' 1 ex_ca_draws, ec_Public key_one, key_one, ''ca''),
      (ex_gateway_tmpl, ex_ca_cert, ec_Public key_two, key_one, ''gw''),
      (ex_agent_tmpl, ex_ca_cert, ec_Public key_two, key_one, ''agent'')]
     [(key_one, ''k1''), (key_two, ''k2'')]"

lemma ex_x509_laws:
  "x509_faithful ex_x509" "pem_faithful ex_x509" "ec_key_faithful ex_x509" "tls_complete ex_x509" "tls_dates ex_x509"
  unfolding ex_x509_def by (rule table_laws; simp)+

lemma ex_tmpl_ne [simp]: "ex_gateway_tmpl \<noteq> ex_agent_tmpl" "ca_template ''td'' 1 ex_ca_draws \<noteq> ex_agent_tmpl"
  "ca_template ''td'' 1 ex_ca_draws \<noteq> ex_gateway_tmpl"
  by (simp_all add: ex_gateway_tmpl_def ex_agent_tmpl_def ca_template_def agent_template_def loopback_def)

definition ex_ca :: CABundle where
  "ex_ca = \<lparr>ca_Cert = ex_ca_cert, ca_Key = key_one, ca_CertPEM = ''CERTIFICATE'' @ newline # ''ca''\<rparr>"

definition ex_agent_cert :: WorkloadCert where
  "ex_agent_cert = \<lparr>wc_Cert = certified ex_agent_tmpl ex_ca_cert (ec_Public key_two),
     wc_CertPEM = ''CERTIFICATE'' @ newline # ''agent''\<rparr>"

definition ex_gateway_cert :: WorkloadCert where
  "ex_gateway_cert = \<lparr>wc_Cert = certified ex_gateway_tmpl ex_ca_cert (ec_Public key_two),
     wc_CertPEM = ''CERTIFICATE'' @ newline # ''gw''\<rparr>"

lemma ex_url: "url_Parse ex_x509 ex_agent_id = Some (''spiffe'', ex_agent_id)"
  "url_Parse ex_x509 ex_gateway_id = Some (''spiffe'', ex_gateway_id)"
  by (simp_all add: ex_x509_def table_x509_def ex_agent_id_def ex_gateway_id_def numeral_2_eq_2)

lemma ex_GenerateCA: "GenerateCA ex_x509 ex_ca_draws ''td'' = Inr ex_ca"
  unfolding GenerateCA_ok
  by (rule exI [of _ key_one], rule exI [of _ 1], rule exI [of _ "''ca''"], rule exI [of _ ex_ca_cert])
    (simp add: ex_x509_def table_x509_def ex_ca_def ex_ca_cert_def, simp add: ex_ca_draws_def)

lemma ex_IssueAgentCert:
  "IssueAgentCert ex_x509 ex_cert_draws ex_ca ex_agent_id (ec_Public key_two) None = Inr ex_agent_cert"
  "IssueAgentCert ex_x509 ex_cert_draws ex_ca ex_gateway_id (ec_Public key_two) (Some loopback) = Inr ex_gateway_cert"
proof -
  have "x509_CreateCertificate ex_x509 (cd_sign ex_cert_draws) ex_agent_tmpl ex_ca_cert (ec_Public key_two) key_one = Inr ''agent''"
    "x509_CreateCertificate ex_x509 (cd_sign ex_cert_draws) ex_gateway_tmpl ex_ca_cert (ec_Public key_two) key_one = Inr ''gw''"
    "x509_ParseCertificate ex_x509 ''agent'' = Inr (wc_Cert ex_agent_cert)"
    "x509_ParseCertificate ex_x509 ''gw'' = Inr (wc_Cert ex_gateway_cert)"
    "pem_EncodeToMemory ex_x509 = (\<lambda>t b. t @ newline # b)" "cd_serial ex_cert_draws = Inr 2"
    by (simp_all add: ex_x509_def table_x509_def ex_agent_cert_def ex_gateway_cert_def ex_cert_draws_def)
  then show "IssueAgentCert ex_x509 ex_cert_draws ex_ca ex_agent_id (ec_Public key_two) None = Inr ex_agent_cert"
    "IssueAgentCert ex_x509 ex_cert_draws ex_ca ex_gateway_id (ec_Public key_two) (Some loopback) = Inr ex_gateway_cert"
    using ex_url by (simp_all add: IssueAgentCert_def ex_agent_tmpl_def ex_gateway_tmpl_def ex_ca_def
        ex_agent_cert_def ex_gateway_cert_def)
qed

definition ex_files :: file_store where
  "ex_files = \<lparr>fs_files = Map.empty, fs_write_error = (\<lambda>_. None), fs_read_error = (\<lambda>_. None)\<rparr>"

lemma ex_SaveCABundle:
  "\<exists>fs'. SaveCABundle ex_x509 ex_ca ''c'' ''k'' ex_files = (None, fs')"
  by (simp add: SaveCABundle_def os_WriteFile_def ex_files_def ex_ca_def ex_x509_def table_x509_def)

section \<open>Properties\<close>

text \<open>C39: A bundle that \<open>GenerateCA\<close> made and \<open>SaveCABundle\<close> wrote is read back as the same bundle,
  and the certificate file alone as the same pool; the key file has mode 0600 exactly when it did
  not exist before or already had that mode.\<close>

theorem ca_bundle_roundtrip:
  assumes "pem_faithful X" "ec_key_faithful X" "GenerateCA X d td = Inr ca"
    and "SaveCABundle X ca certPath keyPath fs = (None, fs')" "certPath \<noteq> keyPath"
    and "fs_read_error fs certPath = None" "fs_read_error fs keyPath = None"
  shows "LoadCABundle X certPath keyPath fs' = Inr ca \<and> LoadCACertPool X certPath fs' = Inr (CertPool ca) \<and>
    map_option snd (fs_files fs' keyPath) = Some (case fs_files fs keyPath of None \<Rightarrow> mode_0600 | Some (_, m) \<Rightarrow> m)"
proof -
  obtain der where der: "ca_CertPEM ca = pem_EncodeToMemory X ''CERTIFICATE'' der" "x509_ParseCertificate X der = Inr (ca_Cert ca)"
    using generated_ca_pem assms(3) unfolding generated_ca_def by blast
  have "stored_bundle X fs' certPath keyPath (pem_EncodeToMemory X ''CERTIFICATE'' der) (ca_Key ca)"
    using SaveCABundle_stored(1) [OF assms(4,5)] unfolding der(1) .
  from LoadCABundle_stored [OF assms(1,2) this der(2)] show ?thesis
    using SaveCABundle_stored [OF assms(4,5)] assms(6,7) der(1) by (simp add: CertPool_def)
qed

theorem ca_bundle_roundtrip_witness:
  "\<exists>fs'. SaveCABundle ex_x509 ex_ca ''c'' ''k'' ex_files = (None, fs') \<and> LoadCABundle ex_x509 ''c'' ''k'' fs' = Inr ex_ca \<and>
     map_option snd (fs_files fs' ''k'') = Some mode_0600"
proof -
  obtain fs' where fs': "SaveCABundle ex_x509 ex_ca ''c'' ''k'' ex_files = (None, fs')"
    using ex_SaveCABundle by blast
  have "map_option snd (fs_files fs' ''k'') = Some mode_0600 \<and> LoadCABundle ex_x509 ''c'' ''k'' fs' = Inr ex_ca"
    using ca_bundle_roundtrip [OF ex_x509_laws(2,3) ex_GenerateCA fs'] by (simp add: ex_files_def)
  with fs' show ?thesis by blast
qed

text \<open>\<open>SaveCABundle\<close> is not atomic: when a bundle is replaced and the write of the key fails, the
  caller gets the error, and the files hold the new certificate with the old key, which
  \<open>LoadCABundle\<close> accepts as a bundle.\<close>

theorem SaveCABundle_not_atomic:
  assumes "pem_faithful X" "ec_key_faithful X" "GenerateCA X d td = Inr ca" "certPath \<noteq> keyPath"
    and "stored_bundle X fs certPath keyPath oldPEM oldKey"
    and "fs_write_error fs certPath = None" "fs_write_error fs keyPath = Some e"
    and "fs_read_error fs certPath = None" "fs_read_error fs keyPath = None"
  shows "\<exists>err fs'. SaveCABundle X ca certPath keyPath fs = (Some err, fs') \<and>
    LoadCABundle X certPath keyPath fs' = Inr \<lparr>ca_Cert = ca_Cert ca, ca_Key = oldKey, ca_CertPEM = ca_CertPEM ca\<rparr>"
proof -
  obtain der where der: "ca_CertPEM ca = pem_EncodeToMemory X ''CERTIFICATE'' der" "x509_ParseCertificate X der = Inr (ca_Cert ca)"
    using generated_ca_pem assms(3) unfolding generated_ca_def by blast
  obtain fs' where fs': "os_WriteFile certPath (ca_CertPEM ca) mode_0644 fs = (None, fs')"
    using assms(6) unfolding os_WriteFile_ok by blast
  note frame = os_WriteFile_frame [OF fs']
  have "stored_bundle X fs' certPath keyPath (pem_EncodeToMemory X ''CERTIFICATE'' der) oldKey"
    using assms(4,5) fs' frame unfolding stored_bundle_def os_WriteFile_ok der(1) by auto
  moreover have "\<exists>err. SaveCABundle X ca certPath keyPath fs = (Some err, fs')"
    using fs' frame assms(7) by (cases "x509_MarshalECPrivateKey X (ca_Key ca)") (simp_all add: SaveCABundle_def os_WriteFile_def)
  ultimately show ?thesis
    using LoadCABundle_stored(1) [OF assms(1,2) _ der(2)] assms(8,9) frame der(1) by fastforce
qed

theorem SaveCABundle_not_atomic_witness:
  "\<exists>err fs'. SaveCABundle ex_x509 ex_ca ''c'' ''k''
      \<lparr>fs_files = [''c'' \<mapsto> (''old'', 420), ''k'' \<mapsto> (''EC PRIVATE KEY'' @ newline # ''k2'', 384)],
       fs_write_error = (\<lambda>n. if n = ''k'' then Some ''disk full'' else None), fs_read_error = (\<lambda>_. None)\<rparr> = (Some err, fs') \<and>
    LoadCABundle ex_x509 ''c'' ''k'' fs' = Inr \<lparr>ca_Cert = ex_ca_cert, ca_Key = key_two, ca_CertPEM = ca_CertPEM ex_ca\<rparr>"
proof -
  have "stored_bundle ex_x509 \<lparr>fs_files = [''c'' \<mapsto> (''old'', 420), ''k'' \<mapsto> (''EC PRIVATE KEY'' @ newline # ''k2'', 384)],
       fs_write_error = (\<lambda>n. if n = ''k'' then Some ''disk full'' else None), fs_read_error = (\<lambda>_. None)\<rparr> ''c'' ''k'' ''old'' key_two"
    unfolding stored_bundle_def by (rule exI [of _ "''k2''"]) (simp add: ex_x509_def table_x509_def)
  from SaveCABundle_not_atomic [OF ex_x509_laws(2,3) ex_GenerateCA _ this] show ?thesis
    by (simp add: ex_ca_def)
qed

end
