(* ===== verification/GatewayCmd.thy ===== *)
theory GatewayCmd
  imports Server Mtls
begin

text \<open>
  The command \<open>cmd/gateway/main.go\<close>: the configuration it runs the server with, the ephemeral
  certificate authority of its mutual TLS mode and the credentials it writes for a demo agent.
  \<open>main\<close> is modelled up to the moment the HTTP server listens, with the flags as a record; logging
  and the shutdown after a signal are not.  The properties compose the certificates of \<open>Mtls\<close>, the
  binding check of \<open>Gateway\<close> and the route table of \<open>Server\<close>.
\<close>

section \<open>Credentials\<close>

datatype setup_error = SetupCert cert_error | SetupKey key_error | SetupWrite string | SetupMarshalKey string

text \<open>The draws of the agent's key pair and of its certificate.\<close>

definition agentSub :: "string \<Rightarrow> string" where
  "agentSub trustDomain = ''spiffe://'' @ trustDomain @ ''/agent/demo''"

definition writeAgentCredentials :: "x509_lib \<Rightarrow> string + ec_private \<Rightarrow> cert_draws \<Rightarrow> CABundle \<Rightarrow> string \<Rightarrow> string
    \<Rightarrow> file_store \<Rightarrow> setup_error option \<times> file_store" where
  "writeAgentCredentials X kd d ca trustDomain prefix fs =
     (case os_WriteFile (prefix @ ''-ca.pem'') (ca_CertPEM ca) mode_0644 fs of
        (Some e, fs1) \<Rightarrow> (Some (SetupWrite e), fs1)
      | (None, fs1) \<Rightarrow> (case GenerateECKeyPair kd of
          Inl e \<Rightarrow> (Some (SetupKey e), fs1)
        | Inr agentKP \<Rightarrow> (case IssueAgentCert X d ca (agentSub trustDomain) (kp_Public agentKP) None of
            Inl e \<Rightarrow> (Some (SetupCert e), fs1)
          | Inr agentCert \<Rightarrow>
              (case os_WriteFile (prefix @ ''-agent.pem'') (wc_CertPEM agentCert) mode_0644 fs1 of
                 (Some e, fs2) \<Rightarrow> (Some (SetupWrite e), fs2)
               | (None, fs2) \<Rightarrow> (case x509_MarshalECPrivateKey X (kp_Private agentKP) of
                   Inl e \<Rightarrow> (Some (SetupMarshalKey e), fs2)
                 | Inr keyDER \<Rightarrow>
                     (case os_WriteFile (prefix @ ''-agent-key.pem'') (pem_EncodeToMemory X ''EC PRIVATE KEY'' keyDER)
                             mode_0600 fs2 of
                        (err, fs3) \<Rightarrow> (map_option SetupWrite err, fs3)))))))"

record setup_draws =
  sd_ca :: cert_draws
  sd_gwKey :: "string + ec_private"
  sd_gwCert :: cert_draws
  sd_agentKey :: "string + ec_private"
  sd_agentCert :: cert_draws

definition setupMTLS :: "x509_lib \<Rightarrow> setup_draws \<Rightarrow> string \<Rightarrow> string \<Rightarrow> file_store
    \<Rightarrow> (setup_error + CABundle \<times> tls_config) \<times> file_store" where
  "setupMTLS X d trustDomain credPrefix fs = (case GenerateCA X (sd_ca d) trustDomain of
     Inl e \<Rightarrow> (Inl (SetupCert e), fs)
   | Inr ca \<Rightarrow> (case GenerateECKeyPair (sd_gwKey d) of
       Inl e \<Rightarrow> (Inl (SetupKey e), fs)
     | Inr gwKP \<Rightarrow> (case IssueAgentCert X (sd_gwCert d) ca (''spiffe://'' @ trustDomain @ ''/gateway'') (kp_Public gwKP)
             (Some loopback) of
         Inl e \<Rightarrow> (Inl (SetupCert e), fs)
       | Inr gwCert \<Rightarrow> (case NewServerTLSConfig X (CertPool ca) gwCert (kp_Private gwKP) of
           Inl e \<Rightarrow> (Inl (SetupCert e), fs)
         | Inr serverTLS \<Rightarrow>
             if credPrefix \<noteq> [] then
               (case writeAgentCredentials X (sd_agentKey d) (sd_agentCert d) ca trustDomain credPrefix fs of
                  (Some e, fs') \<Rightarrow> (Inl e, fs')
                | (None, fs') \<Rightarrow> (Inr (ca, serverTLS), fs'))
             else (Inr (ca, serverTLS), fs)))))"

section \<open>The command\<close>

record flags =
  fl_port :: string
  fl_issuer :: string
  fl_mtls :: bool
  fl_trust_domain :: string
  fl_write_agent_creds :: string

definition default_flags :: flags where
  "default_flags = \<lparr>fl_port = ''8080'', fl_issuer = ''https://idp.example'', fl_mtls = False,
     fl_trust_domain = ''agents.example'', fl_write_agent_creds = []\<rparr>"

text \<open>\<open>http.Server\<close> when it starts to listen, with its handler.\<close>

record http_server =
  hs_Addr :: string
  hs_Handler :: "(unit, InMemoryJTIStore) Server"
  hs_ReadTimeout :: duration
  hs_WriteTimeout :: duration
  hs_IdleTimeout :: duration
  hs_TLSConfig :: "tls_config option"
  hs_ListenTLS :: bool

datatype main_exit = GenerateIdPKey string | MTLSSetup setup_error | NewPanic new_panic

definition main_authorizer :: InMemoryAuthorizer where
  "main_authorizer = InMemoryAuthorizer_Allow NewInMemoryAuthorizer ''*'' ''tool:echo'' ActionCall"

definition main_config :: "flags \<Rightarrow> ec_public \<Rightarrow> bool \<Rightarrow> (unit, InMemoryJTIStore) Config" where
  "main_config f idpPub mtlsCA = \<lparr>cfg_Validators = [fl_issuer f \<mapsto> NewAgentValidator (fl_issuer f) idpPub []],
     cfg_order = [fl_issuer f], cfg_FederationResolver = None, cfg_Record = InMemoryJTIStore_Record,
     cfg_Authz = InMemoryAuthorizer_Authorize main_authorizer,
     cfg_Routes = [''tool:echo'' \<mapsto> ''http://localhost:9090''],
     cfg_MTLSClientCA = mtlsCA, cfg_Remediation = False\<rparr>"

definition gateway_main :: "x509_lib \<Rightarrow> gin_lib \<Rightarrow> (string \<Rightarrow> string option) \<Rightarrow> flags \<Rightarrow> string + ec_private
    \<Rightarrow> setup_draws \<Rightarrow> file_store \<Rightarrow> (main_exit + http_server) \<times> file_store" where
  "gateway_main X G parseURL f idpDraw d fs = (case idpDraw of
     Inl e \<Rightarrow> (Inl (GenerateIdPKey e), fs)
   | Inr idpPriv \<Rightarrow>
       (case (if fl_mtls f then
                (case setupMTLS X d (fl_trust_domain f) (fl_write_agent_creds f) fs of
                   (Inl e, fs') \<Rightarrow> (Inl e, fs')
                 | (Inr (ca, serverTLS), fs') \<Rightarrow> (Inr (Some serverTLS), fs'))
              else (Inr None, fs)) of
          (Inl e, fs') \<Rightarrow> (Inl (MTLSSetup e), fs')
        | (Inr tlsCfg, fs') \<Rightarrow>
            (case New G parseURL [''tool:echo''] (main_config f (ec_Public idpPriv) (fl_mtls f)) of
               Inl p \<Rightarrow> (Inl (NewPanic p), fs')
             | Inr srv \<Rightarrow> (Inr \<lparr>hs_Addr = '':'' @ fl_port f, hs_Handler = srv, hs_ReadTimeout = 10 * second,
                 hs_WriteTimeout = 30 * second, hs_IdleTimeout = 60 * second, hs_TLSConfig = tlsCfg,
                 hs_ListenTLS = fl_mtls f\<rparr>, fs'))))"

section \<open>Inversion\<close>

lemma writeAgentCredentials_ok:
  "writeAgentCredentials X kd d ca td prefix fs = (None, fs') \<longleftrightarrow> (\<exists>key cert der fs1 fs2.
     os_WriteFile (prefix @ ''-ca.pem'') (ca_CertPEM ca) mode_0644 fs = (None, fs1) \<and> kd = Inr key \<and>
     IssueAgentCert X d ca (agentSub td) (ec_Public key) None = Inr cert \<and>
     os_WriteFile (prefix @ ''-agent.pem'') (wc_CertPEM cert) mode_0644 fs1 = (None, fs2) \<and>
     x509_MarshalECPrivateKey X key = Inr der \<and>
     os_WriteFile (prefix @ ''-agent-key.pem'') (pem_EncodeToMemory X ''EC PRIVATE KEY'' der) mode_0600 fs2 = (None, fs'))"
  by (cases kd) (auto simp: writeAgentCredentials_def GenerateECKeyPair_def split: prod.splits option.splits sum.splits)

lemma setupMTLS_ok:
  "setupMTLS X d td prefix fs = (Inr (ca, cfg), fs') \<longleftrightarrow> (\<exists>key cert.
     GenerateCA X (sd_ca d) td = Inr ca \<and> sd_gwKey d = Inr key \<and>
     IssueAgentCert X (sd_gwCert d) ca (''spiffe://'' @ td @ ''/gateway'') (ec_Public key) (Some loopback) = Inr cert \<and>
     NewServerTLSConfig X (CertPool ca) cert key = Inr cfg \<and>
     (if prefix = [] then fs' = fs
      else writeAgentCredentials X (sd_agentKey d) (sd_agentCert d) ca td prefix fs = (None, fs')))"
  by (cases "sd_gwKey d")
    (auto simp: setupMTLS_def GenerateECKeyPair_def split: prod.splits option.splits sum.splits if_splits)

lemma NewServerTLSConfig_ok:
  "NewServerTLSConfig X pool wc priv = Inr cfg \<Longrightarrow> tls_ClientAuth cfg = RequireAndVerifyClientCert \<and>
     tls_ClientCAs cfg = Some pool \<and> tls_MinVersion cfg = VersionTLS13"
  by (auto simp: NewServerTLSConfig_def split: sum.splits)

lemma gateway_main_ok:
  assumes "gateway_main X G parseURL f idpDraw d fs = (Inr h, fs')"
  obtains idp where "idpDraw = Inr idp"
    and "New G parseURL [''tool:echo''] (main_config f (ec_Public idp) (fl_mtls f)) = Inr (hs_Handler h)"
    and "hs_ListenTLS h = fl_mtls f" "\<not> fl_mtls f \<Longrightarrow> fs' = fs \<and> hs_TLSConfig h = None"
    and "fl_mtls f \<Longrightarrow> \<exists>ca cfg. setupMTLS X d (fl_trust_domain f) (fl_write_agent_creds f) fs = (Inr (ca, cfg), fs') \<and>
      hs_TLSConfig h = Some cfg"
proof -
  obtain idp where idp: "idpDraw = Inr idp"
    using assms by (cases idpDraw) (simp_all add: gateway_main_def)
  show thesis
  proof (cases "fl_mtls f")
    case False
    then show thesis
      using assms that [OF idp] unfolding gateway_main_def idp by (auto split: sum.splits)
  next
    case True
    obtain r fs1 where "setupMTLS X d (fl_trust_domain f) (fl_write_agent_creds f) fs = (r, fs1)"
      by (metis prod.exhaust)
    then show thesis
      using assms that [OF idp] True unfolding gateway_main_def idp by (auto split: sum.splits)
  qed
qed

section \<open>Composition\<close>

text \<open>What the middleware forwards with a remediation, it forwards without.\<close>

lemma Forward_without_remediation:
  assumes "agentAuthMiddleware L cfg tool ck rk c s = (Forward va chain body, s')"
  shows "\<exists>s''. agentAuthMiddleware L (cfg\<lparr>cfg_Remediation := False\<rparr>) tool ck rk c s = (Forward va chain body, s'')"
proof -
  have same: "resolveAndValidate L (cfg\<lparr>cfg_Remediation := False\<rparr>) = resolveAndValidate L cfg"
    by (simp add: fun_eq_iff resolveAndValidate_def split: sum.split option.split prod.split)
  have "hq_Header c HeaderAgentIdentityToken \<noteq> []" "hq_Header c HeaderAgentChainToken \<noteq> []"
    "hq_Header c HeaderAgentProofToken \<noteq> []"
    using assms unfolding agentAuthMiddleware_def by (auto simp: Let_def split: sum.splits prod.splits option.splits if_splits)
  with Forward_inv [OF assms] show ?thesis
    unfolding agentAuthMiddleware_def by (auto simp: same Let_def gw_uri_def split: prod.split)
qed

text \<open>The files that \<open>writeAgentCredentials\<close> leaves behind.\<close>

lemma written_files:
  assumes "writeAgentCredentials X kd d ca td prefix fs = (None, fs')"
  shows "\<exists>key cert der. kd = Inr key \<and> IssueAgentCert X d ca (agentSub td) (ec_Public key) None = Inr cert \<and>
    x509_MarshalECPrivateKey X key = Inr der \<and>
    map_option fst (fs_files fs' (prefix @ ''-ca.pem'')) = Some (ca_CertPEM ca) \<and>
    map_option fst (fs_files fs' (prefix @ ''-agent.pem'')) = Some (wc_CertPEM cert) \<and>
    fs_files fs' (prefix @ ''-agent-key.pem'') = Some (pem_EncodeToMemory X ''EC PRIVATE KEY'' der,
      case fs_files fs (prefix @ ''-agent-key.pem'') of None \<Rightarrow> mode_0600 | Some (_, m) \<Rightarrow> m) \<and>
    fs_read_error fs' = fs_read_error fs"
  using assms unfolding writeAgentCredentials_ok os_WriteFile_ok by (elim exE conjE) (simp split: option.splits)

lemma main_TLS:
  assumes "gateway_main X G parseURL f idpDraw d fs = (Inr h, fs')" "fl_mtls f"
  obtains ca cfg where "hs_TLSConfig h = Some cfg" "tls_ClientAuth cfg = RequireAndVerifyClientCert"
    "tls_ClientCAs cfg = Some (CertPool ca)" "GenerateCA X (sd_ca d) (fl_trust_domain f) = Inr ca"
    "if fl_write_agent_creds f = [] then fs' = fs
     else writeAgentCredentials X (sd_agentKey d) (sd_agentCert d) ca (fl_trust_domain f) (fl_write_agent_creds f) fs = (None, fs')"
proof (rule gateway_main_ok [OF assms(1)])
  assume "fl_mtls f \<Longrightarrow> \<exists>ca cfg. setupMTLS X d (fl_trust_domain f) (fl_write_agent_creds f) fs = (Inr (ca, cfg), fs') \<and>
      hs_TLSConfig h = Some cfg"
  then obtain ca cfg where "setupMTLS X d (fl_trust_domain f) (fl_write_agent_creds f) fs = (Inr (ca, cfg), fs')"
    "hs_TLSConfig h = Some cfg"
    using assms(2) by blast
  then show thesis
    using that unfolding setupMTLS_ok by (blast dest: NewServerTLSConfig_ok)
qed

section \<open>Closed instances\<close>

definition ex_setup :: setup_draws where
  "ex_setup = \<lparr>sd_ca = ex_ca_draws, sd_gwKey = Inr key_two, sd_gwCert = ex_cert_draws, sd_agentKey = Inr key_two,
     sd_agentCert = ex_cert_draws\<rparr>"

definition ex_flags :: "bool \<Rightarrow> flags" where
  "ex_flags tls = default_flags\<lparr>fl_issuer := ''https://idp'', fl_mtls := tls, fl_trust_domain := ''td'',
     fl_write_agent_creds := ''/tmp/agent''\<rparr>"

lemma ex_main_config: "main_config (ex_flags False) (ec_Public key_one) False = ex_gw_cfg\<lparr>cfg_Remediation := False\<rparr>"
  by (simp add: main_config_def ex_flags_def ex_gw_cfg_def ex_validators_def ex_validator_def main_authorizer_def)

lemma ex_main_New:
  assumes "cfg_Routes cfg = [''tool:echo'' \<mapsto> ''http://localhost:9090'']" "\<not> cfg_Remediation cfg"
  shows "New ex_gin (\<lambda>_. None) [''tool:echo''] cfg = Inr \<lparr>sv_cfg = cfg,
    sv_routes = health_route # tool_routes ''tool:echo'' ''http://localhost:9090''\<rparr>"
proof -
  have d: "distinct (map rt_key ([health_route] @ tool_routes ''tool:echo'' ''http://localhost:9090''))"
    by (simp add: rt_key_def tool_routes_def any_methods_def health_route_def)
  have "gin_add_all ex_gin [health_route] [] = Inr ([] @ [health_route])"
    by (rule ex_gin_add_all) simp
  moreover note ex_gin_add_all [OF d]
  ultimately show ?thesis
    using assms by (simp add: New_def del: gin_add_all.simps)
qed

lemma ex_main_plain:
  obtains h where "gateway_main ex_x509 ex_gin (\<lambda>_. None) (ex_flags False) (Inr key_one) ex_setup ex_files = (Inr h, ex_files)"
    "hs_Handler h = \<lparr>sv_cfg = ex_gw_cfg\<lparr>cfg_Remediation := False\<rparr>,
      sv_routes = health_route # tool_routes ''tool:echo'' ''http://localhost:9090''\<rparr>"
proof -
  have mtls: "\<not> fl_mtls (ex_flags False)"
    by (simp add: ex_flags_def)
  have "New ex_gin (\<lambda>_. None) [''tool:echo''] (main_config (ex_flags False) (ec_Public key_one) False) =
     Inr \<lparr>sv_cfg = ex_gw_cfg\<lparr>cfg_Remediation := False\<rparr>, sv_routes = health_route # tool_routes ''tool:echo'' ''http://localhost:9090''\<rparr>"
    unfolding ex_main_config by (rule ex_main_New) (simp_all add: ex_gw_cfg_def)
  then show thesis
    using that by (simp add: gateway_main_def mtls)
qed

lemma ex_subs: "''spiffe://'' @ ''td'' @ ''/gateway'' = ex_gateway_id" "agentSub ''td'' = ex_agent_id"
  by (simp_all add: ex_gateway_id_def ex_agent_id_def agentSub_def)

lemma ex_key_pairs:
  "x509_MarshalECPrivateKey ex_x509 key_two = Inr ''k2''"
  "tls_X509KeyPair ex_x509 (wc_CertPEM ex_gateway_cert) (pem_EncodeToMemory ex_x509 ''EC PRIVATE KEY'' ''k2'') =
     Inr \<lparr>tlc_leaf = wc_Cert ex_gateway_cert, tlc_key = key_two\<rparr>"
proof -
  have pem: "pem_EncodeToMemory ex_x509 = (\<lambda>t b. t @ newline # b)" "wc_CertPEM ex_gateway_cert = ''CERTIFICATE'' @ newline # ''gw''"
    by (simp_all add: ex_x509_def table_x509_def ex_gateway_cert_def)
  show "x509_MarshalECPrivateKey ex_x509 key_two = Inr ''k2''"
    by (simp add: ex_x509_def table_x509_def)
  show "tls_X509KeyPair ex_x509 (wc_CertPEM ex_gateway_cert) (pem_EncodeToMemory ex_x509 ''EC PRIVATE KEY'' ''k2'') =
     Inr \<lparr>tlc_leaf = wc_Cert ex_gateway_cert, tlc_key = key_two\<rparr>"
    unfolding pem by (simp add: ex_x509_def table_x509_def ex_key_pair_def ex_gateway_cert_def del: append.simps)
qed

lemma ex_main_tls:
  "\<exists>h fs'. gateway_main ex_x509 ex_gin (\<lambda>_. None) (ex_flags True) (Inr key_one) ex_setup ex_files = (Inr h, fs')"
proof -
  have pair: "TLSCertificate ex_x509 ex_gateway_cert key_two = Inr \<lparr>tlc_leaf = wc_Cert ex_gateway_cert, tlc_key = key_two\<rparr>"
    unfolding TLSCertificate_ok by (rule exI [of _ "''k2''"]) (simp add: ex_key_pairs)
  have "\<exists>fs'. writeAgentCredentials ex_x509 (Inr key_two) ex_cert_draws ex_ca ''td'' ''/tmp/agent'' ex_files = (None, fs')"
    unfolding writeAgentCredentials_ok ex_subs os_WriteFile_ok
    by (rule exI, rule exI [of _ key_two], rule exI [of _ ex_agent_cert], rule exI [of _ "''k2''"])
      (simp add: ex_IssueAgentCert ex_files_def, simp add: ex_x509_def table_x509_def)
  then obtain fs' where creds: "writeAgentCredentials ex_x509 (Inr key_two) ex_cert_draws ex_ca ''td'' ''/tmp/agent'' ex_files = (None, fs')"
    by blast
  have "\<exists>cfg. setupMTLS ex_x509 ex_setup ''td'' ''/tmp/agent'' ex_files = (Inr (ex_ca, cfg), fs')"
    unfolding setupMTLS_ok ex_subs
    using ex_GenerateCA ex_IssueAgentCert(2) creds pair by (simp add: ex_setup_def NewServerTLSConfig_def)
  moreover obtain srv where "New ex_gin (\<lambda>_. None) [''tool:echo''] (main_config (ex_flags True) (ec_Public key_one) True) = Inr srv"
    using ex_main_New by (metis (no_types, lifting) main_config_def Config.select_convs(6) Config.select_convs(8))
  ultimately show ?thesis
    by (auto simp: gateway_main_def ex_flags_def default_flags_def)
qed

section \<open>Properties\<close>

text \<open>C5: What the shipped command forwards: only calls of \<open>tool:echo\<close> to its one upstream, only for
  agents whose token names the configured issuer and verifies under the identity provider's key that
  this very process drew at its start, and in mutual TLS mode only over a client certificate that
  carries the agent's subject.  As \<open>main\<close> neither signs with this key nor hands it out, no agent can
  obtain such a token: without one, nothing is ever forwarded.\<close>

theorem shipped_gateway_policy:
  assumes "jwt_sound L" "gin_sound G" "gateway_main X G parseURL f (Inr idp) d fs = (Inr h, fs')"
    and "Server_ServeHTTP L G (hs_Handler h) (env, req) s = (SrvTool t u (Forward va chain body), s')"
  shows "t = ''tool:echo'' \<and> u = ''http://localhost:9090'' \<and> rc_Issuer (ac_reg (va_Claims va)) = fl_issuer f \<and>
    jwt_sig_ok L (ec_Public idp) (hq_Header (sq_http req) HeaderAgentIdentityToken) \<and>
    (fl_mtls f \<longrightarrow> (\<exists>cert certs. hq_TLS (sq_http req) = Some (cert # certs) \<and> rc_Subject (ac_reg (va_Claims va)) \<in> set cert))"
proof (rule gateway_main_ok [OF assms(3)])
  let ?cfg = "main_config f (ec_Public idp) (fl_mtls f)"
  fix idp'
  assume "New G parseURL [''tool:echo''] (main_config f (ec_Public idp') (fl_mtls f)) = Inr (hs_Handler h)" "Inr idp = Inr idp'"
  then have srv: "New G parseURL [''tool:echo''] ?cfg = Inr (hs_Handler h)" by simp
  from assms(4) obtain gs where fwd: "agentAuthMiddleware L ?cfg t (se_auth env) (se_resolve env) (sq_http req) (ss_gw s)
      = (Forward va chain body, gs)" "cfg_Routes ?cfg t = Some u"
    by (rule server_forward [OF assms(2) srv])
  from Forward_inv [OF fwd(1)] obtain rs' where "resolveAndValidate L ?cfg (se_auth env) (se_resolve env)
      (hq_Header (sq_http req) HeaderAgentIdentityToken) (gs_resolver (ss_gw s)) = (Inr va, rs')"
    by (elim exE conjE)
  then have "leaf_trusted L ?cfg (se_auth env) (se_resolve env) (gs_resolver (ss_gw s))
      (hq_Header (sq_http req) HeaderAgentIdentityToken) va"
    by (rule resolveAndValidate_ok)
  then obtain j where va: "AgentValidator_Validate L (NewAgentValidator (fl_issuer f) (ec_Public idp) []) (ak_leaf (se_auth env) j)
      (hq_Header (sq_http req) HeaderAgentIdentityToken) = Inr va"
    by (auto simp: leaf_trusted_def main_config_def split: if_splits)
  have "jwt_sig_ok L (ec_Public idp) (hq_Header (sq_http req) HeaderAgentIdentityToken)"
    "rc_Issuer (ac_reg (va_Claims va)) = fl_issuer f"
    using Validate_sound [OF assms(1) va] by (auto simp: NewAgentValidator_def)
  moreover have "fl_mtls f \<longrightarrow> (\<exists>cert certs. hq_TLS (sq_http req) = Some (cert # certs) \<and> rc_Subject (ac_reg (va_Claims va)) \<in> set cert)"
    using Forward_inv [OF fwd(1)] by (auto simp: main_config_def verifyMTLSBinding_def split: option.splits list.splits if_splits)
  moreover have "t = ''tool:echo'' \<and> u = ''http://localhost:9090''"
    using fwd(2) by (auto simp: main_config_def split: if_splits)
  ultimately show ?thesis by blast
qed

theorem shipped_gateway_policy_witness:
  "\<exists>h s'. gateway_main ex_x509 ex_gin (\<lambda>_. None) (ex_flags False) (Inr key_one) ex_setup ex_files = (Inr h, ex_files) \<and>
     Server_ServeHTTP ex_gw_lib ex_gin (hs_Handler h) ex_call ex_server_state = (SrvTool ''tool:echo'' ''http://localhost:9090''
       (Forward \<lparr>va_Claims = ex_claims 1, va_WorkloadKey = ec_Public key_two\<rparr> [ex_token ''0''] None), s') \<and>
     jwt_sig_ok ex_gw_lib (ec_Public key_one) (ex_token ''1'')"
proof -
  obtain h where h: "gateway_main ex_x509 ex_gin (\<lambda>_. None) (ex_flags False) (Inr key_one) ex_setup ex_files = (Inr h, ex_files)"
    "hs_Handler h = \<lparr>sv_cfg = ex_gw_cfg\<lparr>cfg_Remediation := False\<rparr>,
      sv_routes = health_route # tool_routes ''tool:echo'' ''http://localhost:9090''\<rparr>"
    by (rule ex_main_plain)
  have "gin_match ex_gin (sv_routes (hs_Handler h)) ''GET'' ''/tools/echo/y'' = Some (hd (tool_routes ''tool:echo'' ''http://localhost:9090''))"
    by (simp add: h(2) ex_gin_def tool_routes_def any_methods_def health_route_def)
  then obtain s' where run: "Server_ServeHTTP ex_gw_lib ex_gin (hs_Handler h) (fst ex_call, snd ex_call) ex_server_state
     = (SrvTool ''tool:echo'' ''http://localhost:9090'' (Forward \<lparr>va_Claims = ex_claims 1, va_WorkloadKey = ec_Public key_two\<rparr> [ex_token ''0''] None), s')"
    using Forward_without_remediation [OF ex_gw_Forward [of ex_clocks]]
    by (auto simp: Server_ServeHTTP_def ex_call_def ex_push_def ex_server_state_def h(2))
      (auto simp: tool_routes_def any_methods_def)
  then show ?thesis
    using shipped_gateway_policy [OF ex_gw_laws(1) ex_gin_laws(1) h(1) run] h(1) by (auto simp: ex_call_def)
qed

text \<open>C6: The credentials of the demo agent work, and for nobody else: in mutual TLS mode with
  credentials to write, the certificate file that \<open>main\<close> leaves holds one certificate, the
  server's handshake accepts it for a day after it was made, the binding check accepts it for the
  demo agent's subject and for no other one, and the key file, when it is new, has mode 0600.\<close>

theorem demo_agent_credentials:
  assumes "x509_faithful X" "pem_faithful X" "tls_complete X"
    and "gateway_main X G parseURL f idpDraw d fs = (Inr h, fs')" "fl_mtls f" "fl_write_agent_creds f = prefix" "prefix \<noteq> []"
    and "url_Parse X (agentSub (fl_trust_domain f)) = Some (scheme, agentSub (fl_trust_domain f))"
    and "fs_read_error fs (prefix @ ''-agent.pem'') = None" "fs_files fs (prefix @ ''-agent-key.pem'') = None"
  shows "\<exists>cert cfg pool. LoadCACertPool X (prefix @ ''-agent.pem'') fs' = Inr [cert] \<and>
    hs_TLSConfig h = Some cfg \<and> tls_ClientAuth cfg = RequireAndVerifyClientCert \<and> tls_ClientCAs cfg = Some pool \<and>
    (\<forall>now. max (cd_now (sd_ca d)) (cd_now (sd_agentCert d)) \<le> now \<longrightarrow>
       now \<le> min (cd_now2 (sd_ca d)) (cd_now2 (sd_agentCert d)) + 24 * hour - second \<longrightarrow> tls_client_ok X now pool cert) \<and>
    (\<forall>r sub. hq_TLS r = Some [crt_URIs cert] \<longrightarrow>
       (verifyMTLSBinding r sub = None \<longleftrightarrow> sub = agentSub (fl_trust_domain f))) \<and>
    map_option snd (fs_files fs' (prefix @ ''-agent-key.pem'')) = Some mode_0600"
proof -
  let ?td = "fl_trust_domain f"
  obtain ca cfg where cfg: "hs_TLSConfig h = Some cfg" "tls_ClientAuth cfg = RequireAndVerifyClientCert"
    "tls_ClientCAs cfg = Some (CertPool ca)" and ca: "GenerateCA X (sd_ca d) ?td = Inr ca"
    and creds: "if fl_write_agent_creds f = [] then fs' = fs
     else writeAgentCredentials X (sd_agentKey d) (sd_agentCert d) ca ?td (fl_write_agent_creds f) fs = (None, fs')"
    by (rule main_TLS [OF assms(4,5)])
  then have w: "writeAgentCredentials X (sd_agentKey d) (sd_agentCert d) ca ?td prefix fs = (None, fs')"
    using assms(6,7) by simp
  obtain key :: ec_private and cert pem where cert: "IssueAgentCert X (sd_agentCert d) ca (agentSub ?td) (ec_Public key) None = Inr cert"
    and files: "map_option fst (fs_files fs' (prefix @ ''-agent.pem'')) = Some (wc_CertPEM cert)"
    "fs_files fs' (prefix @ ''-agent-key.pem'') = Some (pem, mode_0600)" "fs_read_error fs' = fs_read_error fs"
    using written_files [OF w] unfolding assms(10) option.case by blast
  obtain der where der: "x509_ParseCertificate X der = Inr (wc_Cert cert)" "wc_CertPEM cert = pem_EncodeToMemory X ''CERTIFICATE'' der"
    using cert unfolding IssueAgentCert_ok by auto
  have "LoadCACertPool X (prefix @ ''-agent.pem'') fs' = Inr [wc_Cert cert]"
    using files(1,3) assms(2,9) der unfolding pem_faithful_def by (auto simp: LoadCACertPool_def os_ReadFile_def)
  moreover have "crt_URIs (wc_Cert cert) = [agentSub ?td]"
    using issued_uri(1) [OF assms(1) cert] assms(8) by simp
  moreover have "tls_client_ok X now (CertPool ca) (wc_Cert cert)"
    if "max (cd_now (sd_ca d)) (cd_now (sd_agentCert d)) \<le> now"
      "now \<le> min (cd_now2 (sd_ca d)) (cd_now2 (sd_agentCert d)) + 24 * hour - second" for now
    by (rule issued_accepted [OF assms(1,3) ca cert]) (use that in \<open>auto simp: CertPool_def\<close>)
  ultimately show ?thesis
    using cfg files(2) by (intro exI [of _ "wc_Cert cert"] exI [of _ cfg] exI [of _ "CertPool ca"])
      (simp add: verifyMTLSBinding_def)
qed

theorem demo_agent_credentials_witness:
  "\<exists>h fs' cert. gateway_main ex_x509 ex_gin (\<lambda>_. None) (ex_flags True) (Inr key_one) ex_setup ex_files = (Inr h, fs') \<and>
     LoadCACertPool ex_x509 ''/tmp/agent-agent.pem'' fs' = Inr [cert] \<and>
     verifyMTLSBinding (ex_gw_request\<lparr>hq_TLS := Some [crt_URIs cert]\<rparr>) ''spiffe://td/agent/demo'' = None \<and>
     verifyMTLSBinding (ex_gw_request\<lparr>hq_TLS := Some [crt_URIs cert]\<rparr>) ''spiffe://td/agent/other'' \<noteq> None"
proof -
  obtain h fs' where main: "gateway_main ex_x509 ex_gin (\<lambda>_. None) (ex_flags True) (Inr key_one) ex_setup ex_files = (Inr h, fs')"
    using ex_main_tls by blast
  have *: "fl_mtls (ex_flags True)" "fl_write_agent_creds (ex_flags True) = ''/tmp/agent''" "fl_trust_domain (ex_flags True) = ''td''"
    by (simp_all add: ex_flags_def)
  have url: "url_Parse ex_x509 (agentSub (fl_trust_domain (ex_flags True))) = Some (''spiffe'', agentSub (fl_trust_domain (ex_flags True)))"
    unfolding *(3) ex_subs by (rule ex_url)
  have fresh: "''/tmp/agent'' \<noteq> []" "fs_read_error ex_files (''/tmp/agent'' @ ''-agent.pem'') = None"
    "fs_files ex_files (''/tmp/agent'' @ ''-agent-key.pem'') = None"
    by (simp_all add: ex_files_def)
  obtain cert where cert: "LoadCACertPool ex_x509 (''/tmp/agent'' @ ''-agent.pem'') fs' = Inr [cert]"
    "\<And>r sub. hq_TLS r = Some [crt_URIs cert] \<Longrightarrow> (verifyMTLSBinding r sub = None) = (sub = agentSub ''td'')"
    using demo_agent_credentials [OF ex_x509_laws(1,2,4) main *(1,2) fresh(1) url fresh(2,3)] unfolding *(3) by blast
  from cert(1) cert(2) [of "ex_gw_request\<lparr>hq_TLS := Some [crt_URIs cert]\<rparr>"] show ?thesis
    using main by (intro exI [of _ h] exI [of _ fs'] exI [of _ cert]) (simp add: agentSub_def)
qed

end
