(* ===== verification/Js.thy ===== *)
theory Js
  imports Json
begin

text \<open>
  What the functions of the browser demo (\<open>cmd/demo-wasm/main.go\<close>) share: the values of
  \<open>syscall/js\<close> they get as arguments, the objects they return, and the helpers \<open>okObj\<close>, \<open>errObj\<close>,
  \<open>truncate\<close> and \<open>splitJWT\<close>.  A returned map is a list of members; where the code puts the text of
  an error into the object, the error itself is kept beside it.
\<close>

section \<open>Arguments\<close>

datatype js_value = JSUndefined | JSNull | JSString string | JSOther string

text \<open>\<open>Value.String()\<close>, which names the type of a value that is not a string.\<close>

fun js_String :: "js_value \<Rightarrow> string" where
  "js_String JSUndefined = ''<undefined>''"
| "js_String JSNull = ''<null>''"
| "js_String (JSString s) = s"
| "js_String (JSOther s) = s"

text \<open>\<open>if len(args) > i && !args[i].IsNull() && !args[i].IsUndefined()\<close>: the argument, or the default.\<close>

definition arg_or :: "string \<Rightarrow> nat \<Rightarrow> js_value list \<Rightarrow> string" where
  "arg_or d i args = (if i < length args \<and> args ! i \<noteq> JSNull \<and> args ! i \<noteq> JSUndefined then js_String (args ! i) else d)"

section \<open>Results\<close>

type_synonym obj = "(string \<times> json) list"

text \<open>\<open>okObj\<close>, \<open>errObj\<close>, and an object with \<open>ok\<close> false that shows more than an error.\<close>

datatype 'e demo_reply = OkObj obj | ErrObj 'e | FailObj obj 'e

definition okObj :: "obj \<Rightarrow> 'e demo_reply" where
  "okObj data = OkObj (data @ [(''ok'', JBool True)])"

definition errObj :: "'e \<Rightarrow> 'e demo_reply" where
  "errObj msg = ErrObj msg"

fun is_OkObj :: "'e demo_reply \<Rightarrow> bool" where
  "is_OkObj (OkObj d) = True"
| "is_OkObj _ = False"

definition reply_field :: "string \<Rightarrow> 'e demo_reply \<Rightarrow> json option" where
  "reply_field k r = (case r of OkObj d \<Rightarrow> map_of d k | FailObj d _ \<Rightarrow> map_of d k | ErrObj _ \<Rightarrow> None)"

lemma okObj_simps [simp]:
  "is_OkObj (okObj d)" "\<not> is_OkObj (errObj e)" "okObj d \<noteq> errObj e" "errObj e \<noteq> okObj d"
  "errObj e = errObj e' \<longleftrightarrow> e = e'" "okObj d \<noteq> ErrObj e" "okObj d \<noteq> FailObj f e"
  "errObj e = ErrObj e' \<longleftrightarrow> e = e'" "errObj e \<noteq> OkObj d" "errObj e \<noteq> FailObj f e'" "FailObj f e' \<noteq> errObj e"
  by (simp_all add: okObj_def errObj_def)

lemma reply_field_okObj [simp]: "reply_field k (okObj d) = (case map_of d k of None \<Rightarrow> map_of [(''ok'', JBool True)] k | Some v \<Rightarrow> Some v)"
  by (auto simp: reply_field_def okObj_def map_add_def split: option.splits)

section \<open>Texts\<close>

definition ellipsis :: string where "ellipsis = [chr 226, chr 128, chr 166]"
definition em_dash :: string where "em_dash = [chr 226, chr 128, chr 148]"

definition js_truncate :: "string \<Rightarrow> string" where
  "js_truncate s = (if length s > 80 then take 40 s @ ellipsis @ drop (length s - 20) s else s)"

text \<open>\<open>splitJWT\<close>: the loop keeps the part that it has begun.\<close>

fun split_jwt_loop :: "string \<Rightarrow> string list \<Rightarrow> string \<Rightarrow> string list" where
  "split_jwt_loop part parts [] = parts @ [part]"
| "split_jwt_loop part parts (c # token) =
     (if c = CHR ''.'' then split_jwt_loop [] (parts @ [part]) token
      else split_jwt_loop (part @ [c]) parts token)"

definition splitJWT :: "string \<Rightarrow> string list" where
  "splitJWT token = split_jwt_loop [] [] token"

lemma split_jwt_loop_eq:
  "split_jwt_loop part parts token = parts @ (case split_on (CHR ''.'') token of [] \<Rightarrow> [part] | p # ps \<Rightarrow> (part @ p) # ps)"
  by (induction token arbitrary: part parts) (auto split: list.splits)

lemma splitJWT_eq [simp]: "splitJWT token = split_on (CHR ''.'') token"
  by (cases "split_on (CHR ''.'') token") (simp_all add: splitJWT_def split_jwt_loop_eq)

lemma split_on_append: "split_on c (x @ c # y) = split_on c x @ split_on c y"
  by (induction x) (auto simp: Cons_eq_append_conv split: list.split)

lemma split_on_last: "c \<notin> set y \<Longrightarrow> last (split_on c (x @ c # y)) = y"
  by (simp add: split_on_append split_on_no_sep)

lemma length_js_truncate: "length (js_truncate s) \<le> 80"
  by (auto simp: js_truncate_def ellipsis_def)

end
