(* ===== verification/Issued.thy ===== *)
theory Issued
  imports Jwt
begin

text \<open>
  What the issuers and validators of the program share: the registered claims of a token issued
  now for a while, and the parse that requires ES256, an expiry and one \<open>typ\<close>.  A component proves
  the round trip of its own claims from \<open>parse_dated\<close> and the soundness of its validator from
  \<open>parse_typed_sound\<close>.
\<close>

definition dated_claims ::
  "ext \<Rightarrow> string \<Rightarrow> string \<Rightarrow> string list \<Rightarrow> time \<Rightarrow> duration \<Rightarrow> string \<Rightarrow> registered_claims" where
  "dated_claims L iss sub aud now ttl jti = \<lparr>rc_Issuer = iss, rc_Subject = sub, rc_Audience = aud,
     rc_ExpiresAt = Some (jwt_numeric_date L (now + ttl)),
     rc_NotBefore = Some (jwt_numeric_date L now),
     rc_IssuedAt = Some (jwt_numeric_date L now), rc_ID = jti\<rparr>"

lemma dated_claims_simps [simp]:
  "rc_Issuer (dated_claims L iss sub aud now ttl jti) = iss"
  "rc_Subject (dated_claims L iss sub aud now ttl jti) = sub"
  "rc_Audience (dated_claims L iss sub aud now ttl jti) = aud"
  "rc_ExpiresAt (dated_claims L iss sub aud now ttl jti) = Some (jwt_numeric_date L (now + ttl))"
  "rc_NotBefore (dated_claims L iss sub aud now ttl jti) = Some (jwt_numeric_date L now)"
  "rc_IssuedAt (dated_claims L iss sub aud now ttl jti) = Some (jwt_numeric_date L now)"
  "rc_ID (dated_claims L iss sub aud now ttl jti) = jti"
  by (simp_all add: dated_claims_def)

lemma claims_wire_dated [simp]:
  "jwt_dates L \<Longrightarrow> claims_wire L (dated_claims L iss sub aud now ttl jti) \<longleftrightarrow>
     utf8 iss \<and> utf8 sub \<and> list_all utf8 aud \<and> utf8 jti"
  by (auto simp: claims_wire_def jwt_datesD(3))

abbreviation parse_typed ::
  "ext \<Rightarrow> time \<Rightarrow> string \<Rightarrow> (payload \<Rightarrow> 'c option) \<Rightarrow> string \<Rightarrow> ec_public \<Rightarrow> string + header \<times> 'c" where
  "parse_typed L now tok dec typ key \<equiv> parse_with_claims L es256_opts now tok dec (typ_key typ key)"

lemma claims_valid_dated:
  assumes "jwt_es256 L" "jwt_dates L" "now \<le> t" "t < jwt_numeric_date L (now + ttl)"
    and "header_str ''alg'' h = header_str ''alg'' (jwt_header L)"
  shows "claims_valid es256_opts t h (dated_claims L iss sub aud now ttl jti)"
  using assms jwt_datesD(1) [OF assms(2), of now]
  by (simp add: claims_valid_def es256_opts_def jwt_es256_def)

lemma parse_dated:
  assumes "jwt_complete L" "jwt_es256 L" "jwt_dates L"
    and "jwt_sign L rnd (typ_header L typ) pl sk = Inr tok"
    and "wire_ok L (typ_header L typ) pl"
    and "pl_reg pl = dated_claims L iss sub aud now ttl jti" "dec pl = Some c"
    and "now \<le> t" "t < jwt_numeric_date L (now + ttl)"
  shows "parse_typed L t tok dec typ (ec_Public sk) = Inr (typ_header L typ, c)"
proof -
  have "claims_valid es256_opts t (typ_header L typ) (pl_reg pl)"
    unfolding assms(6) by (rule claims_valid_dated) (simp_all add: assms)
  then show ?thesis
    using assms by (intro parse_signed) (simp_all add: typ_key_def)
qed

lemma parse_typed_sound:
  assumes "jwt_sound L" "parse_typed L now tok dec typ key = Inr (h, c)"
    and "\<And>pl c. dec pl = Some c \<Longrightarrow> reg c = pl_reg pl"
  shows "jwt_sig_ok L key tok \<and> header_str ''typ'' h = typ \<and> header_str ''alg'' h = ''ES256'' \<and>
    (\<exists>e. rc_ExpiresAt (reg c) = Some e \<and> now < e)"
proof -
  obtain t :: jwt_token where "dec (tk_payload t) = Some c" "jwt_sig_ok L key tok" "header_str ''typ'' h = typ"
    and valid: "claims_valid es256_opts now h (pl_reg (tk_payload t))"
    using parse_typ_sound [OF assms(1,2)] by fast
  then show ?thesis
    using assms(3) by (auto simp: claims_valid_def es256_opts_def split: option.splits)
qed

lemma parse_typed_functional:
  assumes "jwt_functional L"
    and "parse_typed L now tok dec typ key = Inr (h, c)" "parse_typed L now' tok dec typ key' = Inr (h', c')"
  shows "h' = h \<and> c' = c"
  using assms unfolding jwt_functional_def parse_with_claims_ok by (metis option.inject)

section \<open>Tokens for one issuer and one audience\<close>

text \<open>The options of a validator that names the issuer, and the audience if there is one.\<close>

definition issuer_opts :: "string \<Rightarrow> string option \<Rightarrow> parser_opts" where
  "issuer_opts iss aud = es256_opts\<lparr>po_iss := Some iss, po_aud := aud\<rparr>"

text \<open>Claims without a \<open>nbf\<close>.\<close>

definition issued_claims ::
  "ext \<Rightarrow> string \<Rightarrow> string \<Rightarrow> string list \<Rightarrow> time \<Rightarrow> duration \<Rightarrow> string \<Rightarrow> registered_claims" where
  "issued_claims L iss sub aud now ttl jti = (dated_claims L iss sub aud now ttl jti)\<lparr>rc_NotBefore := None\<rparr>"

lemma issued_claims_simps [simp]:
  "rc_Issuer (issued_claims L iss sub aud now ttl jti) = iss"
  "rc_Subject (issued_claims L iss sub aud now ttl jti) = sub"
  "rc_Audience (issued_claims L iss sub aud now ttl jti) = aud"
  "rc_ExpiresAt (issued_claims L iss sub aud now ttl jti) = Some (jwt_numeric_date L (now + ttl))"
  "rc_NotBefore (issued_claims L iss sub aud now ttl jti) = None"
  "rc_IssuedAt (issued_claims L iss sub aud now ttl jti) = Some (jwt_numeric_date L now)"
  "rc_ID (issued_claims L iss sub aud now ttl jti) = jti"
  by (simp_all add: issued_claims_def)

text \<open>A token that was issued for the audience is read back by a validator of its issuer.\<close>

lemma parse_issued:
  assumes "jwt_complete L" "jwt_es256 L" "jwt_dates L"
    and "jwt_sign L rnd (typ_header L typ) pl sk = Inr tok"
    and "wire_ok L (typ_header L typ) pl"
    and "pl_reg pl = issued_claims L iss sub aud now ttl jti" "dec pl = Some c"
    and "typ \<noteq> []" "now \<le> t" "t < jwt_numeric_date L (now + ttl)"
    and "case a of None \<Rightarrow> True | Some x \<Rightarrow> x \<in> set aud"
  shows "parse_with_claims L (issuer_opts iss a) t tok dec (typ_key typ (ec_Public sk)) = Inr (typ_header L typ, c)"
proof -
  have "claims_valid (issuer_opts iss a) t (typ_header L typ) (pl_reg pl)"
    using assms(2,6,9-11) jwt_datesD(1) [OF assms(3), of now]
    by (simp add: claims_valid_def issuer_opts_def es256_opts_def jwt_es256_def split: option.splits)
  then show ?thesis
    using assms by (intro parse_signed) (simp_all add: typ_key_def)
qed

lemma parse_issuer_sound:
  assumes "jwt_sound L" "parse_with_claims L (issuer_opts iss a) now tok dec (typ_key typ key) = Inr (h, c)"
    and "\<And>pl c. dec pl = Some c \<Longrightarrow> reg c = pl_reg pl"
  shows "jwt_sig_ok L key tok \<and> header_str ''typ'' h = typ \<and> header_str ''alg'' h = ''ES256'' \<and>
    (\<exists>e. rc_ExpiresAt (reg c) = Some e \<and> now < e) \<and> (iss \<noteq> [] \<longrightarrow> rc_Issuer (reg c) = iss) \<and>
    (\<forall>x. a = Some x \<and> x \<noteq> [] \<longrightarrow> x \<in> set (rc_Audience (reg c)))"
proof -
  obtain t :: jwt_token where "dec (tk_payload t) = Some c" "jwt_sig_ok L key tok" "header_str ''typ'' h = typ"
    and valid: "claims_valid (issuer_opts iss a) now h (pl_reg (tk_payload t))"
    using parse_typ_sound [OF assms(1,2)] by fast
  then show ?thesis
    using assms(3) by (auto simp: claims_valid_def issuer_opts_def es256_opts_def split: option.splits)
qed

section \<open>A library of one token\<close>

lemma sign_ledger:
  "jwt_sign (ledger_ext ls) rnd h pl sk =
     (case find (\<lambda>e. le_signer e = sk \<and> le_token e = \<lparr>tk_header = h, tk_payload = pl\<rparr>) ls of
        None \<Rightarrow> Inl ''no entropy'' | Some e \<Rightarrow> Inr (le_text e))"
  by (simp add: ledger_ext_def)

text \<open>The library of a ledger of one entry, whose text is \<open>tok\<close>.\<close>

definition one_token_lib :: "string \<Rightarrow> ec_private \<Rightarrow> header \<Rightarrow> payload \<Rightarrow> ext" where
  "one_token_lib tok sk h pl = ledger_ext [\<lparr>le_text = tok, le_signer = sk,
     le_token = \<lparr>tk_header = h, tk_payload = pl\<rparr>\<rparr>]"

lemma one_token_sign [simp]: "jwt_sign (one_token_lib tok sk h pl) rnd h pl sk = Inr tok"
  by (simp add: one_token_lib_def ledger_ext_def)

lemma one_token_laws [simp]:
  "jwt_sound (one_token_lib tok sk h pl)" "jwt_functional (one_token_lib tok sk h pl)"
  "jwt_complete (one_token_lib tok sk h pl)" "jwt_es256 (one_token_lib tok sk h pl)"
  "jwt_dates (one_token_lib tok sk h pl)"
  unfolding one_token_lib_def by (simp_all only: ledger_laws) (rule ledger_complete, simp)

lemma dated_claims_ledger: "dated_claims (ledger_ext ls) = dated_claims (ledger_ext [])"
  by (simp add: fun_eq_iff dated_claims_def ledger_parts [of ls])

lemma issued_claims_ledger: "issued_claims (ledger_ext ls) = issued_claims (ledger_ext [])"
  by (simp add: fun_eq_iff issued_claims_def dated_claims_ledger [of ls])

lemma one_token_parts [simp]:
  "typ_header (one_token_lib tok sk h pl) = typ_header (ledger_ext [])"
  "dated_claims (one_token_lib tok sk h pl) = dated_claims (ledger_ext [])"
  "issued_claims (one_token_lib tok sk h pl) = issued_claims (ledger_ext [])"
  "jwt_numeric_date (one_token_lib tok sk h pl) d = d - d mod second"
  unfolding one_token_lib_def
  by (rule ledger_parts(5), rule dated_claims_ledger, rule issued_claims_ledger, simp add: ledger_ext_def)

end
