(* ===== verification/AuditTrail.thy ===== *)
theory AuditTrail
  imports Text
begin

text \<open>
  Package \<open>pkg/cb4a\<close>, files \<open>helpers.go\<close> and \<open>audit.go\<close>: identifiers and the audit trail that
  the Policy Decision Point and the Credential Delivery Point share.  The trail is a value that the
  operations of both take and return; \<open>Append\<close> and every operation built on it only add entries at
  its end, which the locale \<open>audited\<close> states once for all of them.
\<close>

section \<open>Helpers\<close>

definition generateID :: "bytes \<Rightarrow> string" where
  "generateID b = b64_encode b"

definition encodeBase64url :: "bytes \<Rightarrow> string" where
  "encodeBase64url b = b64_encode b"

lemma generateID_inject [simp]: "generateID a = generateID b \<longleftrightarrow> a = b"
  by (simp add: generateID_def)

lemma generateID_ne: "length b = 16 \<Longrightarrow> generateID b \<noteq> []"
  by (cases b rule: b64_encode.cases) (auto simp: generateID_def)

text \<open>\<open>Duration.String\<close>, which audit details print: a number below a second in the largest unit
  that is not above it, else hours, minutes and seconds; \<open>fmtFrac\<close> writes the fraction without
  trailing zeros.  The micro sign is two bytes.\<close>

definition fmtFrac :: "int \<Rightarrow> nat \<Rightarrow> string" where
  "fmtFrac v prec =
     (let ds = rev (dropWhile (\<lambda>c. c = CHR ''0'') (rev (pad_zero prec (itoa (v mod 10 ^ prec)))))
      in if ds = [] \<or> prec = 0 then [] else CHR ''.'' # ds)"

definition duration_string :: "duration \<Rightarrow> string" where
  "duration_string d =
     (let u = \<bar>d\<bar>; secs = u div second;
          s = (if u = 0 then ''0s''
               else if u < 1000 then itoa u @ ''ns''
               else if u < 1000000 then itoa (u div 1000) @ fmtFrac u 3 @ [chr 194, chr 181] @ ''s''
               else if u < second then itoa (u div 1000000) @ fmtFrac u 6 @ ''ms''
               else (if 3600 \<le> secs then itoa (secs div 3600) @ ''h'' else [])
                 @ (if 60 \<le> secs then itoa (secs div 60 mod 60) @ ''m'' else [])
                 @ itoa (secs mod 60) @ fmtFrac u 9 @ ''s'')
      in if d < 0 then CHR ''-'' # s else s)"

section \<open>The audit log\<close>

datatype EventType = EventEnvelopeReceived | EventPolicyEvaluated | EventApproved | EventDenied
  | EventCredentialMinted | EventAPICall | EventReplayRejected

text \<open>The zero time is \<^term>\<open>None\<close>.\<close>

record AuditEntry =
  ae_Timestamp :: "time option"
  ae_Event :: EventType
  ae_AgentSVID :: string
  ae_Target :: string
  ae_Action :: string
  ae_Scope :: string
  ae_Tier :: int
  ae_RequestID :: string
  ae_Detail :: string
  ae_Success :: bool

record AuditLog =
  al_entries :: "AuditEntry list"

definition NewAuditLog :: AuditLog where
  "NewAuditLog = \<lparr>al_entries = []\<rparr>"

text \<open>\<open>Append\<close> at clock reading \<open>now\<close>: the error, \<^term>\<open>None\<close> for \<open>nil\<close>, and the log.\<close>

definition AuditLog_Append :: "time \<Rightarrow> AuditEntry \<Rightarrow> AuditLog \<Rightarrow> string option \<times> AuditLog" where
  "AuditLog_Append now e l =
     (let e' = (if ae_Timestamp e = None then e\<lparr>ae_Timestamp := Some now\<rparr> else e)
      in (None, l\<lparr>al_entries := al_entries l @ [e']\<rparr>))"

definition AuditLog_Entries :: "AuditLog \<Rightarrow> AuditEntry list" where
  "AuditLog_Entries l = al_entries l"

definition AuditLog_Len :: "AuditLog \<Rightarrow> nat" where
  "AuditLog_Len l = length (al_entries l)"

text \<open>The statement \<open>_ = audit.Append(e)\<close>, which drops the error.\<close>

definition audit :: "time \<Rightarrow> AuditEntry \<Rightarrow> AuditLog \<Rightarrow> AuditLog" where
  "audit now e l = snd (AuditLog_Append now e l)"

definition stamp :: "time \<Rightarrow> AuditEntry \<Rightarrow> AuditEntry" where
  "stamp now e = (if ae_Timestamp e = None then e\<lparr>ae_Timestamp := Some now\<rparr> else e)"

lemma Append_simps [simp]:
  "AuditLog_Append now e l = (None, audit now e l)"
  "al_entries (audit now e l) = al_entries l @ [stamp now e]"
  by (simp_all add: AuditLog_Append_def audit_def stamp_def Let_def)

section \<open>Operations that write the log\<close>

definition log_extends :: "AuditLog \<Rightarrow> AuditLog \<Rightarrow> bool" where
  "log_extends l l' \<longleftrightarrow> (\<exists>es. al_entries l' = al_entries l @ es)"

lemma log_extends_refl [simp]: "log_extends l l"
  by (simp add: log_extends_def)

lemma log_extends_trans: "log_extends l l' \<Longrightarrow> log_extends l' l'' \<Longrightarrow> log_extends l l''"
  by (auto simp: log_extends_def)

lemma log_extends_audit [simp]: "log_extends l (audit now e l')" if "log_extends l l'"
  using that by (auto simp: log_extends_def)

lemma log_extends_take: "log_extends l l' \<Longrightarrow> take (AuditLog_Len l) (AuditLog_Entries l') = AuditLog_Entries l"
  by (auto simp: log_extends_def AuditLog_Len_def AuditLog_Entries_def)

text \<open>A component whose every step only appends: no history of its steps takes back or changes an
  entry.\<close>

locale audited =
  fixes step :: "'op \<Rightarrow> 's \<times> AuditLog \<Rightarrow> 'r \<times> 's \<times> AuditLog"
  assumes step_extends: "step x (s, l) = (r, s', l') \<Longrightarrow> log_extends l l'"
begin

lemma history_extends: "run_ops step xs (s, l) = (rs, s', l') \<Longrightarrow> log_extends l l'"
proof (induction xs arbitrary: s l rs)
  case (Cons x xs)
  then show ?case
    by (auto simp: run_ops_Cons simp del: run_ops.simps intro: log_extends_trans dest: step_extends)
qed simp

lemma history_prefix:
  "run_ops step xs (s, l) = (rs, s', l') \<Longrightarrow> take (AuditLog_Len l) (AuditLog_Entries l') = AuditLog_Entries l"
  using history_extends log_extends_take by blast

end

text \<open>The outcomes that the log must show, and the number of entries with an event.\<close>

definition outcomes :: "EventType set" where
  "outcomes = {EventApproved, EventDenied, EventCredentialMinted, EventAPICall}"

definition entries_with :: "EventType \<Rightarrow> AuditEntry list \<Rightarrow> nat" where
  "entries_with ev es = length (filter (\<lambda>e. ae_Event e = ev) es)"

lemma entries_with_simps [simp]:
  "entries_with ev [] = 0"
  "entries_with ev (es @ fs) = entries_with ev es + entries_with ev fs"
  "entries_with ev (e # es) = (if ae_Event e = ev then 1 else 0) + entries_with ev es"
  by (simp_all add: entries_with_def)

lemma ae_Event_stamp [simp]: "ae_Event (stamp now e) = ae_Event e"
  by (simp add: stamp_def)

text \<open>A component that logs each outcome exactly when a reply reports it.  The operations that it is
  about satisfy \<open>ok\<close>.\<close>

locale outcome_log = audited step
  for step :: "'op \<Rightarrow> 's \<times> AuditLog \<Rightarrow> 'r \<times> 's \<times> AuditLog" +
  fixes reports :: "'r \<Rightarrow> EventType option" and ok :: "'op \<Rightarrow> bool"
  assumes step_outcome: "step x (s, l) = (r, s', l') \<Longrightarrow> ok x \<Longrightarrow> ev \<in> outcomes \<Longrightarrow>
    entries_with ev (al_entries l') = entries_with ev (al_entries l) + (if reports r = Some ev then 1 else 0)"
begin

lemma history_outcomes:
  "run_ops step xs (s, l) = (rs, s', l') \<Longrightarrow> list_all ok xs \<Longrightarrow> ev \<in> outcomes \<Longrightarrow>
   entries_with ev (al_entries l') =
     entries_with ev (al_entries l) + length (filter (\<lambda>r. reports r = Some ev) rs)"
proof (induction xs arbitrary: s l rs)
  case (Cons x xs)
  then show ?case
    by (auto simp: run_ops_Cons step_outcome simp del: run_ops.simps)
qed simp

end

end
