(* ===== verification/Envelope.thy ===== *)
theory Envelope
  imports Issued AuditTrail
begin

text \<open>
  Package \<open>pkg/cb4a\<close>, file \<open>envelope.go\<close>: Task Request Envelopes, which an agent signs and submits
  to the Policy Decision Point.
\<close>

definition envelopeType :: string where
  "envelopeType = ''tre+jwt''"

record EnvelopeClaims =
  ev_reg :: registered_claims
  ev_AgentSVID :: string
  ev_Target :: string
  ev_Action :: string
  ev_Scope :: string
  ev_Justification :: string

datatype envelope_error = AgentSVIDRequired | TargetRequired | ActionRequired | ScopeRequired
  | SigningKeyRequired | SignEnvelope string | AgentPubRequired | ParseEnvelopeFailed string

section \<open>Marshalling\<close>

definition envelope_payload :: "EnvelopeClaims \<Rightarrow> payload" where
  "envelope_payload c = \<lparr>pl_reg = ev_reg c,
     pl_priv = [(''agent_svid'', JStr (ev_AgentSVID c)), (''target'', JStr (ev_Target c)),
       (''action'', JStr (ev_Action c)), (''scope'', JStr (ev_Scope c))]
       @ omit_empty ''justification'' (ev_Justification c)\<rparr>"

definition envelope_claims :: "payload \<Rightarrow> EnvelopeClaims option" where
  "envelope_claims pl = do {
     svid \<leftarrow> str_field ''agent_svid'' (pl_priv pl);
     target \<leftarrow> str_field ''target'' (pl_priv pl);
     action \<leftarrow> str_field ''action'' (pl_priv pl);
     scope \<leftarrow> str_field ''scope'' (pl_priv pl);
     justification \<leftarrow> str_field ''justification'' (pl_priv pl);
     Some \<lparr>ev_reg = pl_reg pl, ev_AgentSVID = svid, ev_Target = target, ev_Action = action,
           ev_Scope = scope, ev_Justification = justification\<rparr>}"

lemma envelope_claims_payload [simp]: "envelope_claims (envelope_payload c) = Some c"
  by (simp add: envelope_claims_def envelope_payload_def json_field_defs omit_empty_def)

section \<open>Operations\<close>

definition NewEnvelope_claims ::
  "ext \<Rightarrow> string \<Rightarrow> string \<Rightarrow> string \<Rightarrow> string \<Rightarrow> string \<Rightarrow> duration \<Rightarrow> time \<Rightarrow> bytes \<Rightarrow> EnvelopeClaims" where
  "NewEnvelope_claims L agentSVID target action scope justification ttl now jti = \<lparr>
     ev_reg = dated_claims L [] agentSVID [] now (if ttl = 0 then 5 * minute else ttl) (generateID jti),
     ev_AgentSVID = agentSVID, ev_Target = target, ev_Action = action, ev_Scope = scope,
     ev_Justification = justification\<rparr>"

definition NewEnvelope :: "ext \<Rightarrow> string \<Rightarrow> string \<Rightarrow> string \<Rightarrow> string \<Rightarrow> string \<Rightarrow> duration
    \<Rightarrow> ec_private option \<Rightarrow> time \<Rightarrow> bytes \<Rightarrow> bytes \<Rightarrow> envelope_error + string" where
  "NewEnvelope L agentSVID target action scope justification ttl key now jti rnd =
     (if agentSVID = [] then Inl AgentSVIDRequired
      else if target = [] then Inl TargetRequired
      else if action = [] then Inl ActionRequired
      else if scope = [] then Inl ScopeRequired
      else (case key of
        None \<Rightarrow> Inl SigningKeyRequired
      | Some k \<Rightarrow>
          (case jwt_sign L rnd (typ_header L envelopeType)
                  (envelope_payload (NewEnvelope_claims L agentSVID target action scope justification ttl now jti)) k of
             Inl e \<Rightarrow> Inl (SignEnvelope e)
           | Inr token \<Rightarrow> Inr token)))"

definition ParseEnvelope :: "ext \<Rightarrow> time \<Rightarrow> string \<Rightarrow> ec_public option \<Rightarrow> envelope_error + EnvelopeClaims" where
  "ParseEnvelope L now tokenStr agentPub = (case agentPub of
     None \<Rightarrow> Inl AgentPubRequired
   | Some pub \<Rightarrow>
       (case parse_with_claims L es256_opts now tokenStr envelope_claims (typ_key envelopeType pub) of
          Inl e \<Rightarrow> Inl (ParseEnvelopeFailed e)
        | Inr (_, claims) \<Rightarrow> Inr claims))"

section \<open>Lemmas\<close>

lemma NewEnvelope_ok:
  "NewEnvelope L svid target action scope just ttl key now jti rnd = Inr tok \<longleftrightarrow>
     svid \<noteq> [] \<and> target \<noteq> [] \<and> action \<noteq> [] \<and> scope \<noteq> [] \<and> (\<exists>k. key = Some k \<and>
       jwt_sign L rnd (typ_header L envelopeType)
         (envelope_payload (NewEnvelope_claims L svid target action scope just ttl now jti)) k = Inr tok)"
  by (auto simp: NewEnvelope_def split: option.splits sum.splits)

lemma ParseEnvelope_ok:
  "ParseEnvelope L now tok pub = Inr c \<longleftrightarrow>
     (\<exists>k h. pub = Some k \<and> parse_typed L now tok envelope_claims envelopeType k = Inr (h, c))"
  by (auto simp: ParseEnvelope_def split: option.splits sum.splits)


end
