(* ===== verification/Webauthn.thy ===== *)
theory Webauthn
  imports Keys
begin

unbundle bit_operations_syntax

text \<open>
  Package \<open>pkg/webauthn\<close>: a simulated passkey (\<open>credential.go\<close>), its assertions (\<open>assertion.go\<close>)
  and its PRF extension (\<open>prf.go\<close>, HMAC-SHA256).  The arithmetic of ECDSA signatures is a
  parameter; what the package relies on of it is \<open>ecdsa_complete\<close>.
\<close>

section \<open>Parameters\<close>

text \<open>\<open>ecdsa.GenerateKey\<close>, \<open>ecdsa.Sign\<close> and \<open>ecdsa.Verify\<close> of \<open>crypto/ecdsa\<close>, with the bytes that
  they read from the random source.\<close>

record ecdsa =
  ecdsa_GenerateKey :: "bytes \<Rightarrow> string + ec_private"
  ecdsa_Sign :: "bytes \<Rightarrow> ec_private \<Rightarrow> bytes \<Rightarrow> string + nat \<times> nat"
  ecdsa_Verify :: "ec_public \<Rightarrow> bytes \<Rightarrow> nat \<Rightarrow> nat \<Rightarrow> bool"

text \<open>A generated key lies on P-256, and its signatures are pairs below the group order that verify
  under its public key.\<close>

definition ecdsa_complete :: "ecdsa \<Rightarrow> bool" where
  "ecdsa_complete E \<longleftrightarrow>
     (\<forall>rnd sk. ecdsa_GenerateKey E rnd = Inr sk \<longrightarrow> p256_key (ec_Public sk)) \<and>
     (\<forall>rnd sk digest r s. p256_key (ec_Public sk) \<longrightarrow> ecdsa_Sign E rnd sk digest = Inr (r, s) \<longrightarrow>
        r < 256 ^ 32 \<and> s < 256 ^ 32 \<and> ecdsa_Verify E (ec_Public sk) digest r s)"

section \<open>Credentials\<close>

record Credential =
  cr_ID :: string
  cr_PublicKey :: "ec_public option"
  cr_UserID :: string
  cr_privateKey :: ec_private
  cr_prfSecret :: bytes

datatype assertion_error = UserIDEmpty | RandomSource string | ChallengeEmpty | SignAssertion string
  | SignatureTooLong | PublicKeyRequired | AssertionEncoding | AssertionLength | AssertionInvalid

text \<open>The three reads of the random source: the key's, the 16 bytes of the identifier and the 32 bytes
  of the PRF secret; a read may fail.\<close>

definition Register ::
  "ecdsa \<Rightarrow> string \<Rightarrow> bytes \<Rightarrow> string + bytes \<Rightarrow> string + bytes \<Rightarrow> assertion_error + Credential" where
  "Register E userID rnd readID readPRF =
     (if userID = [] then Inl UserIDEmpty
      else (case ecdsa_GenerateKey E rnd of
        Inl e \<Rightarrow> Inl (RandomSource e)
      | Inr priv \<Rightarrow> (case readID of
          Inl e \<Rightarrow> Inl (RandomSource e)
        | Inr rawID \<Rightarrow> (case readPRF of
            Inl e \<Rightarrow> Inl (RandomSource e)
          | Inr prfSecret \<Rightarrow> Inr \<lparr>cr_ID = b64_encode rawID, cr_PublicKey = Some (ec_Public priv),
              cr_UserID = userID, cr_privateKey = priv, cr_prfSecret = prfSecret\<rparr>))))"

section \<open>Assertions\<close>

text \<open>\<open>out[32-len(rb):32]\<close> panics for a number of more than 32 bytes: \<^term>\<open>None\<close>.\<close>

definition rawSig :: "nat \<Rightarrow> nat \<Rightarrow> bytes option" where
  "rawSig r s =
     (let rb = big_bytes r; sb = big_bytes s
      in if length rb \<le> 32 \<and> length sb \<le> 32
         then Some (replicate (32 - length rb) (chr 0) @ rb @ replicate (32 - length sb) (chr 0) @ sb)
         else None)"

definition MakeAssertion :: "ecdsa \<Rightarrow> Credential \<Rightarrow> bytes \<Rightarrow> bytes \<Rightarrow> assertion_error + string" where
  "MakeAssertion E c challenge rnd =
     (if challenge = [] then Inl ChallengeEmpty
      else (case ecdsa_Sign E rnd (cr_privateKey c) (sha256 challenge) of
        Inl e \<Rightarrow> Inl (SignAssertion e)
      | Inr (r, s) \<Rightarrow> (case rawSig r s of
          None \<Rightarrow> Inl SignatureTooLong
        | Some sig \<Rightarrow> Inr (b64_encode sig))))"

text \<open>The error, \<^term>\<open>None\<close> for \<open>nil\<close>.\<close>

definition VerifyAssertion ::
  "ecdsa \<Rightarrow> ec_public option \<Rightarrow> bytes \<Rightarrow> string \<Rightarrow> assertion_error option" where
  "VerifyAssertion E pub challenge assertionB64 =
     (case pub of
        None \<Rightarrow> Some PublicKeyRequired
      | Some k \<Rightarrow>
          if challenge = [] then Some ChallengeEmpty
          else (case b64_decode assertionB64 of
            None \<Rightarrow> Some AssertionEncoding
          | Some raw \<Rightarrow>
              if length raw \<noteq> 64 then Some AssertionLength
              else if \<not> ecdsa_Verify E k (sha256 challenge) (set_bytes (take 32 raw)) (set_bytes (drop 32 raw))
              then Some AssertionInvalid else None))"

lemma rawSig_parts:
  assumes "rawSig r s = Some sig"
  shows "length sig = 64" "set_bytes (take 32 sig) = r" "set_bytes (drop 32 sig) = s"
  using assms by (auto simp: rawSig_def Let_def split: if_splits)

lemma VerifyAssertion_ok:
  "VerifyAssertion E pub challenge a = None \<longleftrightarrow> (\<exists>k raw. pub = Some k \<and> challenge \<noteq> [] \<and>
     b64_decode a = Some raw \<and> length raw = 64 \<and>
     ecdsa_Verify E k (sha256 challenge) (set_bytes (take 32 raw)) (set_bytes (drop 32 raw)))"
  by (auto simp: VerifyAssertion_def split: option.splits)

lemma MakeAssertion_ok:
  "MakeAssertion E c challenge rnd = Inr a \<longleftrightarrow> challenge \<noteq> [] \<and> (\<exists>r s sig.
     ecdsa_Sign E rnd (cr_privateKey c) (sha256 challenge) = Inr (r, s) \<and> rawSig r s = Some sig \<and>
     a = b64_encode sig)"
  by (auto simp: MakeAssertion_def split: sum.splits option.splits prod.splits)

text \<open>An assertion verifies under the credential's own public key.\<close>

lemma Verify_Make:
  assumes "ecdsa_complete E" "MakeAssertion E c challenge rnd = Inr a"
    and "p256_key (ec_Public (cr_privateKey c))" "cr_PublicKey c = Some (ec_Public (cr_privateKey c))"
  shows "VerifyAssertion E (cr_PublicKey c) challenge a = None"
proof -
  obtain r s sig where sign: "ecdsa_Sign E rnd (cr_privateKey c) (sha256 challenge) = Inr (r, s)"
    and sig: "rawSig r s = Some sig" "a = b64_encode sig" "challenge \<noteq> []"
    using assms(2) by (auto simp: MakeAssertion_ok)
  have "ecdsa_Verify E (ec_Public (cr_privateKey c)) (sha256 challenge) r s"
    using assms(1,3) sign unfolding ecdsa_complete_def by blast
  then show ?thesis
    using sig rawSig_parts [OF sig(1)] assms(4) by (simp add: VerifyAssertion_ok)
qed

section \<open>PRF\<close>

text \<open>\<open>hmac.New(sha256.New, key)\<close>: a key longer than a block is hashed, a shorter one padded.\<close>

definition xor_pad :: "nat \<Rightarrow> bytes \<Rightarrow> bytes" where
  "xor_pad p key = map (\<lambda>c. chr (byte c XOR p)) (key @ replicate (64 - length key) (chr 0))"

definition hmac_key :: "bytes \<Rightarrow> bytes" where
  "hmac_key key = (if 64 < length key then sha256 key else key)"

definition hmac_sha256 :: "bytes \<Rightarrow> bytes \<Rightarrow> bytes" where
  "hmac_sha256 key msg =
     sha256 (xor_pad 92 (hmac_key key) @ sha256 (xor_pad 54 (hmac_key key) @ msg))"

definition PRF :: "Credential \<Rightarrow> bytes \<Rightarrow> bytes" where
  "PRF c input = hmac_sha256 (cr_prfSecret c) input"

text \<open>Equal outputs for one key mean equal inputs, unless SHA-256 collides in the inner or the outer
  hash.\<close>

lemma hmac_separates:
  assumes "hmac_sha256 key a = hmac_sha256 key b"
  shows "a = b \<or> sha256_collision (xor_pad 54 (hmac_key key) @ a) (xor_pad 54 (hmac_key key) @ b) \<or>
    sha256_collision (xor_pad 92 (hmac_key key) @ sha256 (xor_pad 54 (hmac_key key) @ a))
      (xor_pad 92 (hmac_key key) @ sha256 (xor_pad 54 (hmac_key key) @ b))"
  using sha256_eq_cases [OF assms [unfolded hmac_sha256_def]] sha256_eq_cases by auto

section \<open>Closed instances\<close>

text \<open>A scheme whose signature of a digest is its length and the first coordinate of the key.\<close>

definition ex_ecdsa :: ecdsa where
  "ex_ecdsa = \<lparr>ecdsa_GenerateKey = (\<lambda>rnd. Inr key_two),
     ecdsa_Sign = (\<lambda>rnd sk d. if ec_X (ec_Public sk) < 256 ^ 32 \<and> length d < 256 ^ 32
        then Inr (ec_X (ec_Public sk), length d) else Inl ''no signature''),
     ecdsa_Verify = (\<lambda>k d r s. r = ec_X k \<and> s = length d)\<rparr>"

lemma ex_ecdsa_complete: "ecdsa_complete ex_ecdsa"
  by (simp add: ecdsa_complete_def ex_ecdsa_def)

definition ex_credential :: Credential where
  "ex_credential = \<lparr>cr_ID = ''cred'', cr_PublicKey = Some (ec_Public key_two), cr_UserID = ''alice'',
     cr_privateKey = key_two, cr_prfSecret = ''secret''\<rparr>"

section \<open>Properties\<close>

text \<open>Passkey round trip.  A credential that \<open>Register\<close> returned makes assertions over every
  non-empty challenge that its published key verifies, and 64 bytes of signature whatever the size
  of the two numbers.\<close>

theorem passkey_roundtrip:
  assumes "ecdsa_complete E" "Register E user rnd readID readPRF = Inr c"
    and "MakeAssertion E c challenge rnd' = Inr a"
  shows "VerifyAssertion E (cr_PublicKey c) challenge a = None \<and>
    (\<exists>sig. b64_decode a = Some sig \<and> length sig = 64) \<and> challenge \<noteq> [] \<and> cr_UserID c = user"
proof -
  have "p256_key (ec_Public (cr_privateKey c))" "cr_PublicKey c = Some (ec_Public (cr_privateKey c))"
    "cr_UserID c = user"
    using assms(1,2) by (auto simp: Register_def ecdsa_complete_def split: if_splits sum.splits)
  then show ?thesis
    using Verify_Make [OF assms(1,3)] assms(3) rawSig_parts(1) by (auto simp: MakeAssertion_ok)
qed

theorem passkey_roundtrip_witness:
  "\<exists>a. MakeAssertion ex_ecdsa ex_credential ''challenge'' [] = Inr a \<and>
     VerifyAssertion ex_ecdsa (Some (ec_Public key_two)) ''challenge'' a = None"
proof -
  let ?c = "ex_credential\<lparr>cr_ID := b64_encode ''id''\<rparr>"
  have reg: "Register ex_ecdsa ''alice'' [] (Inr ''id'') (Inr ''secret'') = Inr ?c"
    by (simp add: Register_def ex_ecdsa_def ex_credential_def)
  have make: "MakeAssertion ex_ecdsa c ''challenge'' [] = Inr (b64_encode (replicate 31 (chr 0) @ [chr 5] @ replicate 31 (chr 0) @ [chr 32]))"
    if "cr_privateKey c = key_two" for c
    using that by (simp add: MakeAssertion_def ex_ecdsa_def rawSig_def key_two_def Let_def
        big_bytes.simps [of 5] big_bytes.simps [of 32] del: b64_encode.simps)
  show ?thesis
    using passkey_roundtrip [OF ex_ecdsa_complete reg make] make [of ex_credential]
    by (simp add: ex_credential_def)
qed

text \<open>The PRF output has 32 bytes, and one credential gives equal outputs for two inputs only if
  the inputs are equal or SHA-256 collides.\<close>

theorem PRF_separates:
  "length (PRF c a) = 32 \<and> (PRF c a = PRF c b \<and> a \<noteq> b \<longrightarrow> (\<exists>x y. sha256_collision x y))"
  using hmac_separates [of "cr_prfSecret c" a b] by (auto simp: PRF_def hmac_sha256_def)

theorem PRF_separates_witness: "length (PRF ex_credential ''input-a'') = 32"
  using PRF_separates [of ex_credential "''input-a''" "''input-b''"] by simp

end
