(* ===== verification/Pdp.thy ===== *)
theory Pdp
  imports Glob Envelope Webauthn
begin

text \<open>
  Package \<open>pkg/cb4a\<close>, file \<open>pdp.go\<close>: the Policy Decision Point.  Its table of pending requests and
  the audit log are the state; every operation takes and returns both.  The clock readings and
  random bytes of one operation are a record \<open>pdp_env\<close>.  The life of a request is an abstract state
  machine (\<open>approval_step\<close>) that the operations are proved to refine, so what holds of the machine
  (a settled request stays settled) holds of the code.

  An envelope is passed by reference and kept as it was passed; no code of the repository writes
  through the reference afterwards.
\<close>

definition pdpDecisionType :: string where
  "pdpDecisionType = ''pdp-decision+jwt''"

section \<open>Data\<close>

type_synonym ApprovalTier = int

definition TierAuto :: ApprovalTier where "TierAuto = 1"
definition TierHITL :: ApprovalTier where "TierHITL = 2"
definition TierMFA :: ApprovalTier where "TierMFA = 3"

record PolicyRule =
  rule_AgentPattern :: string
  rule_ScopePattern :: string
  rule_Tier :: ApprovalTier

record PDPDecisionClaims =
  pd_reg :: registered_claims
  pd_AgentSVID :: string
  pd_Target :: string
  pd_Action :: string
  pd_Scope :: string
  pd_Tier :: ApprovalTier
  pd_Approved :: bool
  pd_RequestID :: string
  pd_ApproverID :: string

datatype RequestState = StatePending | StateApproved | StateDenied

record PendingRequest =
  pr_ID :: string
  pr_EnvClaims :: EnvelopeClaims
  pr_Tier :: ApprovalTier
  pr_State :: RequestState
  pr_CreatedAt :: time

record InMemoryPDP =
  pdp_rules :: "PolicyRule list"
  pdp_sigKey :: ec_private
  pdp_issuerID :: string
  pdp_ttl :: duration
  pdp_pending :: "string \<rightharpoonup> PendingRequest"

definition NewInMemoryPDP :: "string \<Rightarrow> ec_private \<Rightarrow> PolicyRule list \<Rightarrow> duration \<Rightarrow> InMemoryPDP" where
  "NewInMemoryPDP issuerID sigKey rules ttl = \<lparr>pdp_rules = rules, pdp_sigKey = sigKey,
     pdp_issuerID = issuerID, pdp_ttl = (if ttl \<le> 0 then 15 * minute else ttl), pdp_pending = Map.empty\<rparr>"

datatype pdp_error = EnvClaimsRequired | IssueAutoDecision string | UnknownRequest string
  | AlreadySettled string RequestState | IssueDecision string | CredentialRequired
  | PasskeyInvalid assertion_error | PdpPubRequired | ParseDecisionFailed string

section \<open>Policy\<close>

text \<open>\<open>matched, _ := path.Match\<close>: a malformed pattern matches nothing.\<close>

definition matchPattern :: "string \<Rightarrow> string \<Rightarrow> bool" where
  "matchPattern pattern value =
     (if pattern = ''*'' then True
      else (case path_match pattern value of None \<Rightarrow> False | Some matched \<Rightarrow> matched))"

definition DefaultPolicyRules :: "PolicyRule list" where
  "DefaultPolicyRules =
     [\<lparr>rule_AgentPattern = ''spiffe://*/admin/*'', rule_ScopePattern = ''*'', rule_Tier = TierMFA\<rparr>,
      \<lparr>rule_AgentPattern = ''spiffe://*/ci/*'', rule_ScopePattern = ''*'', rule_Tier = TierHITL\<rparr>,
      \<lparr>rule_AgentPattern = ''*'', rule_ScopePattern = ''billing:*:write'', rule_Tier = TierHITL\<rparr>,
      \<lparr>rule_AgentPattern = ''*'', rule_ScopePattern = ''stripe:*:write'', rule_Tier = TierHITL\<rparr>,
      \<lparr>rule_AgentPattern = ''*'', rule_ScopePattern = ''payment:AGENT_CREDIT:50'', rule_Tier = TierAuto\<rparr>,
      \<lparr>rule_AgentPattern = ''*'', rule_ScopePattern = ''payment:*'', rule_Tier = TierHITL\<rparr>,
      \<lparr>rule_AgentPattern = ''*'', rule_ScopePattern = ''*:read'', rule_Tier = TierAuto\<rparr>,
      \<lparr>rule_AgentPattern = ''*'', rule_ScopePattern = ''*:*:read'', rule_Tier = TierAuto\<rparr>,
      \<lparr>rule_AgentPattern = ''*'', rule_ScopePattern = ''*'', rule_Tier = TierHITL\<rparr>]"

fun tier_of :: "PolicyRule list \<Rightarrow> string \<Rightarrow> string \<Rightarrow> ApprovalTier" where
  "tier_of [] agentSVID scope = TierHITL"
| "tier_of (rule # rules) agentSVID scope =
     (if matchPattern (rule_AgentPattern rule) agentSVID \<and> matchPattern (rule_ScopePattern rule) scope
      then rule_Tier rule else tier_of rules agentSVID scope)"

definition evaluateTier :: "InMemoryPDP \<Rightarrow> string \<Rightarrow> string \<Rightarrow> ApprovalTier" where
  "evaluateTier p agentSVID scope = tier_of (pdp_rules p) agentSVID scope"

section \<open>Decisions\<close>

definition decision_payload :: "PDPDecisionClaims \<Rightarrow> payload" where
  "decision_payload c = \<lparr>pl_reg = pd_reg c,
     pl_priv = [(''agent_svid'', JStr (pd_AgentSVID c)), (''target'', JStr (pd_Target c)),
       (''action'', JStr (pd_Action c)), (''scope'', JStr (pd_Scope c)), (''tier'', JInt (pd_Tier c)),
       (''approved'', JBool (pd_Approved c)), (''request_id'', JStr (pd_RequestID c))]
       @ omit_empty ''approver_id'' (pd_ApproverID c)\<rparr>"

definition decision_claims :: "payload \<Rightarrow> PDPDecisionClaims option" where
  "decision_claims pl = do {
     svid \<leftarrow> str_field ''agent_svid'' (pl_priv pl);
     target \<leftarrow> str_field ''target'' (pl_priv pl);
     action \<leftarrow> str_field ''action'' (pl_priv pl);
     scope \<leftarrow> str_field ''scope'' (pl_priv pl);
     tier \<leftarrow> int_field ''tier'' (pl_priv pl);
     approved \<leftarrow> bool_field ''approved'' (pl_priv pl);
     request_id \<leftarrow> str_field ''request_id'' (pl_priv pl);
     approver_id \<leftarrow> str_field ''approver_id'' (pl_priv pl);
     Some \<lparr>pd_reg = pl_reg pl, pd_AgentSVID = svid, pd_Target = target, pd_Action = action,
           pd_Scope = scope, pd_Tier = tier, pd_Approved = approved, pd_RequestID = request_id,
           pd_ApproverID = approver_id\<rparr>}"

text \<open>The readings of one operation: the request identifier, the audit clock before and after the
  decision, the clock of the decision or of the parked request, the decision's identifier and the
  randomness of its signature.\<close>

record pdp_env =
  pe_reqID :: bytes
  pe_audit1 :: time
  pe_now :: time
  pe_jti :: bytes
  pe_rnd :: bytes
  pe_audit2 :: time

definition issued_decision :: "ext \<Rightarrow> InMemoryPDP \<Rightarrow> EnvelopeClaims \<Rightarrow> ApprovalTier \<Rightarrow> bool \<Rightarrow> string
    \<Rightarrow> string \<Rightarrow> pdp_env \<Rightarrow> PDPDecisionClaims" where
  "issued_decision L p env tier approved requestID approverID x = \<lparr>
     pd_reg = dated_claims L (pdp_issuerID p) (ev_AgentSVID env) [] (pe_now x) (pdp_ttl p) (generateID (pe_jti x)),
     pd_AgentSVID = ev_AgentSVID env, pd_Target = ev_Target env, pd_Action = ev_Action env,
     pd_Scope = ev_Scope env, pd_Tier = tier, pd_Approved = approved, pd_RequestID = requestID,
     pd_ApproverID = approverID\<rparr>"

definition issueDecision :: "ext \<Rightarrow> InMemoryPDP \<Rightarrow> EnvelopeClaims \<Rightarrow> ApprovalTier \<Rightarrow> bool \<Rightarrow> string
    \<Rightarrow> string \<Rightarrow> pdp_env \<Rightarrow> string + string" where
  "issueDecision L p env tier approved requestID approverID x =
     jwt_sign L (pe_rnd x) (typ_header L pdpDecisionType)
       (decision_payload (issued_decision L p env tier approved requestID approverID x)) (pdp_sigKey p)"

definition ParseDecision :: "ext \<Rightarrow> time \<Rightarrow> string \<Rightarrow> ec_public option \<Rightarrow> pdp_error + PDPDecisionClaims" where
  "ParseDecision L now decisionJWT pdpPub = (case pdpPub of
     None \<Rightarrow> Inl PdpPubRequired
   | Some pub \<Rightarrow>
       (case parse_with_claims L es256_opts now decisionJWT decision_claims (typ_key pdpDecisionType pub) of
          Inl e \<Rightarrow> Inl (ParseDecisionFailed e)
        | Inr (_, claims) \<Rightarrow> Inr claims))"

section \<open>Operations\<close>

definition pdp_entry :: "EventType \<Rightarrow> EnvelopeClaims \<Rightarrow> ApprovalTier \<Rightarrow> string \<Rightarrow> string \<Rightarrow> bool \<Rightarrow> AuditEntry" where
  "pdp_entry event env tier requestID detail success = \<lparr>ae_Timestamp = None, ae_Event = event,
     ae_AgentSVID = ev_AgentSVID env, ae_Target = ev_Target env, ae_Action = ev_Action env,
     ae_Scope = ev_Scope env, ae_Tier = tier, ae_RequestID = requestID, ae_Detail = detail,
     ae_Success = success\<rparr>"

text \<open>The result is the decision and the request identifier, of which one is empty.\<close>

definition Evaluate :: "ext \<Rightarrow> pdp_env \<Rightarrow> EnvelopeClaims option \<Rightarrow> InMemoryPDP \<times> AuditLog
    \<Rightarrow> (pdp_error + string \<times> string) \<times> InMemoryPDP \<times> AuditLog" where
  "Evaluate L x envClaims = (\<lambda>(p, log). case envClaims of
     None \<Rightarrow> (Inl EnvClaimsRequired, p, log)
   | Some env \<Rightarrow>
       let reqID = generateID (pe_reqID x);
           tier = evaluateTier p (ev_AgentSVID env) (ev_Scope env);
           log1 = audit (pe_audit1 x)
             (pdp_entry EventPolicyEvaluated env tier reqID (''tier='' @ itoa tier) True) log
       in if tier = TierAuto then
            (case issueDecision L p env tier True reqID ''auto'' x of
               Inl e \<Rightarrow> (Inl (IssueAutoDecision e), p, log1)
             | Inr j \<Rightarrow> (Inr (j, []), p, audit (pe_audit2 x)
                 (pdp_entry EventApproved env tier reqID ''auto-approved by policy'' True) log1))
          else (Inr ([], reqID), p\<lparr>pdp_pending := (pdp_pending p)(reqID \<mapsto> \<lparr>pr_ID = reqID,
                  pr_EnvClaims = env, pr_Tier = tier, pr_State = StatePending, pr_CreatedAt = pe_now x\<rparr>)\<rparr>,
                log1))"

definition settle :: "string \<Rightarrow> PendingRequest \<Rightarrow> RequestState \<Rightarrow> InMemoryPDP \<Rightarrow> InMemoryPDP" where
  "settle requestID req st p = p\<lparr>pdp_pending := (pdp_pending p)(requestID \<mapsto> req\<lparr>pr_State := st\<rparr>)\<rparr>"

definition Approve :: "ext \<Rightarrow> pdp_env \<Rightarrow> string \<Rightarrow> string \<Rightarrow> InMemoryPDP \<times> AuditLog
    \<Rightarrow> (pdp_error + string) \<times> InMemoryPDP \<times> AuditLog" where
  "Approve L x requestID approverID = (\<lambda>(p, log). case pdp_pending p requestID of
     None \<Rightarrow> (Inl (UnknownRequest requestID), p, log)
   | Some req \<Rightarrow>
       if pr_State req \<noteq> StatePending then (Inl (AlreadySettled requestID (pr_State req)), p, log)
       else let p' = settle requestID req StateApproved p in
         (case issueDecision L p' (pr_EnvClaims req) (pr_Tier req) True requestID approverID x of
            Inl e \<Rightarrow> (Inl (IssueDecision e), p', log)
          | Inr j \<Rightarrow> (Inr j, p', audit (pe_audit2 x) (pdp_entry EventApproved (pr_EnvClaims req) (pr_Tier req)
              requestID (''approved by '' @ approverID) True) log)))"

definition ApproveWithPasskey :: "ecdsa \<Rightarrow> ext \<Rightarrow> pdp_env \<Rightarrow> string \<Rightarrow> Credential option \<Rightarrow> bytes \<Rightarrow> string
    \<Rightarrow> InMemoryPDP \<times> AuditLog \<Rightarrow> (pdp_error + string) \<times> InMemoryPDP \<times> AuditLog" where
  "ApproveWithPasskey E L x requestID cred challenge assertionB64 s = (case cred of
     None \<Rightarrow> (Inl CredentialRequired, s)
   | Some c \<Rightarrow> (case VerifyAssertion E (cr_PublicKey c) challenge assertionB64 of
       Some e \<Rightarrow> (Inl (PasskeyInvalid e), s)
     | None \<Rightarrow> Approve L x requestID (cr_ID c) s))"

text \<open>The error, \<^term>\<open>None\<close> for \<open>nil\<close>.\<close>

definition Deny :: "pdp_env \<Rightarrow> string \<Rightarrow> string \<Rightarrow> InMemoryPDP \<times> AuditLog
    \<Rightarrow> pdp_error option \<times> InMemoryPDP \<times> AuditLog" where
  "Deny x requestID approverID = (\<lambda>(p, log). case pdp_pending p requestID of
     None \<Rightarrow> (Some (UnknownRequest requestID), p, log)
   | Some req \<Rightarrow>
       if pr_State req \<noteq> StatePending then (Some (AlreadySettled requestID (pr_State req)), p, log)
       else (None, settle requestID req StateDenied p, audit (pe_audit2 x) (pdp_entry EventDenied
              (pr_EnvClaims req) (pr_Tier req) requestID (''denied by '' @ approverID) False) log))"

definition pdp_Get :: "InMemoryPDP \<Rightarrow> string \<Rightarrow> PendingRequest option" where
  "pdp_Get p requestID = pdp_pending p requestID"

text \<open>\<open>order\<close> is the iteration order of the map.\<close>

definition ListPending :: "string list \<Rightarrow> InMemoryPDP \<Rightarrow> PendingRequest list" where
  "ListPending order p = filter (\<lambda>r. pr_State r = StatePending) (List.map_filter (pdp_pending p) order)"

section \<open>The life of a request\<close>

text \<open>The abstract machine: a request is parked once, under a new identifier, and settled once.\<close>

datatype approval_event = Park string | Settle string bool

inductive approval_step ::
  "(string \<rightharpoonup> RequestState) \<Rightarrow> approval_event \<Rightarrow> (string \<rightharpoonup> RequestState) \<Rightarrow> bool" where
  park: "m i = None \<Longrightarrow> approval_step m (Park i) (m(i \<mapsto> StatePending))"
| settle: "m i = Some StatePending \<Longrightarrow>
    approval_step m (Settle i b) (m(i \<mapsto> if b then StateApproved else StateDenied))"

inductive approval_run ::
  "(string \<rightharpoonup> RequestState) \<Rightarrow> approval_event list \<Rightarrow> (string \<rightharpoonup> RequestState) \<Rightarrow> bool" where
  nil: "approval_run m [] m"
| cons: "approval_step m e m' \<Longrightarrow> approval_run m' es m'' \<Longrightarrow> approval_run m (e # es) m''"

inductive_cases approval_parkE: "approval_step m (Park i) m'"
inductive_cases approval_settleE: "approval_step m (Settle i b) m'"

fun settled :: "RequestState option \<Rightarrow> bool" where
  "settled (Some StateApproved) = True"
| "settled (Some StateDenied) = True"
| "settled _ = False"

lemma settled_iff: "settled x \<longleftrightarrow> (\<exists>st. x = Some st \<and> st \<noteq> StatePending)"
  by (cases x rule: settled.cases) auto

lemma settled_step: "approval_step m e m' \<Longrightarrow> settled (m i) \<Longrightarrow> m' i = m i"
  by (cases rule: approval_step.cases) auto

lemma settled_run: "approval_run m es m' \<Longrightarrow> settled (m i) \<Longrightarrow> m' i = m i"
  by (induction rule: approval_run.induct) (auto dest: settled_step)

lemma approval_run_append:
  "approval_run m es m' \<Longrightarrow> approval_run m' fs m'' \<Longrightarrow> approval_run m (es @ fs) m''"
  by (induction rule: approval_run.induct) (auto intro: approval_run.cons)

definition settles :: "string \<Rightarrow> approval_event \<Rightarrow> bool" where
  "settles i e \<longleftrightarrow> e \<in> {Settle i True, Settle i False}"

lemma settles_simps [simp]: "\<not> settles i (Park j)" "settles i (Settle j b) \<longleftrightarrow> i = j"
  by (cases b) (auto simp: settles_def)

lemma settles_once:
  "approval_run m es m' \<Longrightarrow> length (filter (settles i) es) \<le> (if settled (m i) then 0 else 1)"
proof (induction rule: approval_run.induct)
  case (cons m e m' es m'')
  show ?case
  proof (cases "settles i e")
    case True
    then obtain b where "e = Settle i b"
      by (auto simp: settles_def)
    with cons.hyps(1) have "m i = Some StatePending" "settled (m' i)"
      by (auto elim: approval_settleE)
    then show ?thesis
      using cons.IH True by simp
  next
    case False
    then show ?thesis
      using cons.IH settled_step [OF cons.hyps(1), of i] by (auto split: if_splits)
  qed
qed simp

section \<open>The operations refine it\<close>

datatype pdp_op = OpEvaluate pdp_env "EnvelopeClaims option" | OpApprove pdp_env string string
  | OpPasskey pdp_env string "Credential option" bytes string | OpDeny pdp_env string string

datatype pdp_reply = Evaluated "pdp_error + string \<times> string" | Approved "pdp_error + string"
  | Denied "pdp_error option"

fun pdp_step :: "ecdsa \<Rightarrow> ext \<Rightarrow> pdp_op \<Rightarrow> InMemoryPDP \<times> AuditLog \<Rightarrow> pdp_reply \<times> InMemoryPDP \<times> AuditLog" where
  "pdp_step E L (OpEvaluate x env) s = apfst Evaluated (Evaluate L x env s)"
| "pdp_step E L (OpApprove x i a) s = apfst Approved (Approve L x i a s)"
| "pdp_step E L (OpPasskey x i c ch b) s = apfst Approved (ApproveWithPasskey E L x i c ch b s)"
| "pdp_step E L (OpDeny x i a) s = apfst Denied (Deny x i a s)"

definition lifecycle :: "InMemoryPDP \<Rightarrow> string \<rightharpoonup> RequestState" where
  "lifecycle p i = map_option pr_State (pdp_pending p i)"

text \<open>The events of an operation, by what it finds.\<close>

definition settle_events :: "InMemoryPDP \<Rightarrow> string \<Rightarrow> bool \<Rightarrow> approval_event list" where
  "settle_events p i b = (if lifecycle p i = Some StatePending then [Settle i b] else [])"

fun op_events :: "ecdsa \<Rightarrow> InMemoryPDP \<Rightarrow> pdp_op \<Rightarrow> approval_event list" where
  "op_events E p (OpEvaluate x env) = (case env of
     None \<Rightarrow> []
   | Some c \<Rightarrow> if evaluateTier p (ev_AgentSVID c) (ev_Scope c) = TierAuto then []
       else [Park (generateID (pe_reqID x))])"
| "op_events E p (OpApprove x i a) = settle_events p i True"
| "op_events E p (OpPasskey x i c ch b) = (case c of
     None \<Rightarrow> []
   | Some cr \<Rightarrow> if VerifyAssertion E (cr_PublicKey cr) ch b = None then settle_events p i True else [])"
| "op_events E p (OpDeny x i a) = settle_events p i False"

fun new_id :: "pdp_op \<Rightarrow> string option" where
  "new_id (OpEvaluate x env) = Some (generateID (pe_reqID x))"
| "new_id _ = None"

text \<open>The identifiers of a history are new: different from each other and from those in use.\<close>

definition fresh_ids :: "pdp_op list \<Rightarrow> InMemoryPDP \<Rightarrow> bool" where
  "fresh_ids ops p \<longleftrightarrow> distinct (List.map_filter new_id ops) \<and>
     (\<forall>i \<in> set (List.map_filter new_id ops). pdp_pending p i = None)"

lemma lifecycle_settle [simp]:
  "lifecycle (settle i req st p) = (lifecycle p)(i \<mapsto> st)"
  by (auto simp: lifecycle_def settle_def fun_eq_iff)

lemma Approve_lifecycle:
  assumes "Approve L x i a (p, l) = (r, p', l')"
  shows "approval_run (lifecycle p) (settle_events p i True) (lifecycle p')"
    and "r = Inr j \<Longrightarrow> settle_events p i True = [Settle i True]"
  using assms approval_step.settle [of "lifecycle p" i True]
  by (auto simp: Approve_def settle_events_def lifecycle_def [of p] Let_def
      split: option.splits sum.splits if_splits
      intro!: approval_run.nil approval_run.cons)

lemma Deny_lifecycle:
  assumes "Deny x i a (p, l) = (r, p', l')"
  shows "approval_run (lifecycle p) (settle_events p i False) (lifecycle p')"
    and "r = None \<Longrightarrow> settle_events p i False = [Settle i False]"
  using assms approval_step.settle [of "lifecycle p" i False]
  by (auto simp: Deny_def settle_events_def lifecycle_def [of p]
      split: option.splits if_splits intro!: approval_run.nil approval_run.cons)

lemma Evaluate_lifecycle:
  assumes "Evaluate L x env (p, l) = (r, p', l')" "pdp_pending p (generateID (pe_reqID x)) = None"
  shows "approval_run (lifecycle p) (op_events E p (OpEvaluate x env)) (lifecycle p')"
proof (cases env)
  case None
  then show ?thesis
    using assms by (auto simp: Evaluate_def intro: approval_run.nil)
next
  case (Some c)
  let ?i = "generateID (pe_reqID x)"
  have park: "approval_run (lifecycle p) [Park ?i] ((lifecycle p)(?i \<mapsto> StatePending))"
    using assms(2) by (auto simp: lifecycle_def intro!: approval_run.nil approval_run.cons approval_step.park)
  show ?thesis
  proof (cases "evaluateTier p (ev_AgentSVID c) (ev_Scope c) = TierAuto")
    case True
    then have "p' = p"
      using assms(1) Some by (auto simp: Evaluate_def Let_def split: sum.splits)
    then show ?thesis
      using True Some by (simp add: approval_run.nil)
  next
    case False
    then have "lifecycle p' = (lifecycle p)(?i \<mapsto> StatePending)"
      using assms(1) Some by (auto simp: Evaluate_def Let_def lifecycle_def fun_eq_iff)
    then show ?thesis
      using park False Some by simp
  qed
qed

text \<open>The reply to an operation says that it settled request \<open>i\<close>.\<close>

fun reply_settles :: "string \<Rightarrow> pdp_op \<times> pdp_reply \<Rightarrow> bool" where
  "reply_settles i (OpApprove x k a, Approved r) = (k = i \<and> is_ok r)"
| "reply_settles i (OpPasskey x k c ch b, Approved r) = (k = i \<and> is_ok r)"
| "reply_settles i (OpDeny x k a, Denied r) = (k = i \<and> r = None)"
| "reply_settles i _ = False"

lemma step_refines:
  assumes "pdp_step E L op (p, l) = (r, p', l')" "\<forall>i. new_id op = Some i \<longrightarrow> pdp_pending p i = None"
  shows "approval_run (lifecycle p) (op_events E p op) (lifecycle p')"
    and "reply_settles i (op, r) \<Longrightarrow> filter (settles i) (op_events E p op) \<noteq> []"
proof -
  have "approval_run (lifecycle p) (op_events E p op) (lifecycle p') \<and>
    (reply_settles i (op, r) \<longrightarrow> filter (settles i) (op_events E p op) \<noteq> [])"
  proof (cases op)
    case (OpEvaluate x env)
    then show ?thesis
      using assms Evaluate_lifecycle [of L x env p l _ p' l'] by (auto simp: apfst_def map_prod_def split: prod.splits)
  next
    case (OpApprove x k a)
    then obtain q where q: "Approve L x k a (p, l) = (q, p', l')" "r = Approved q"
      using assms(1) by (cases "Approve L x k a (p, l)") auto
    show ?thesis
      using Approve_lifecycle [OF q(1)] q(2) OpApprove by (auto simp: is_ok_iff)
  next
    case (OpPasskey x k c ch b)
    then obtain q where q: "ApproveWithPasskey E L x k c ch b (p, l) = (q, p', l')" "r = Approved q"
      using assms(1) by (cases "ApproveWithPasskey E L x k c ch b (p, l)") auto
    show ?thesis
      using q Approve_lifecycle [of L x k _ p l q p' l'] OpPasskey
      by (auto simp: is_ok_iff ApproveWithPasskey_def split: option.splits intro: approval_run.nil)
  next
    case (OpDeny x k a)
    then obtain q where q: "Deny x k a (p, l) = (q, p', l')" "r = Denied q"
      using assms(1) by (cases "Deny x k a (p, l)") auto
    show ?thesis
      using Deny_lifecycle [OF q(1)] q(2) OpDeny by auto
  qed
  then show "approval_run (lifecycle p) (op_events E p op) (lifecycle p')"
    and "reply_settles i (op, r) \<Longrightarrow> filter (settles i) (op_events E p op) \<noteq> []"
    by blast+
qed

lemma Approve_new: "Approve L x k a (p, l) = (r, p', l') \<Longrightarrow> pdp_pending p i = None \<Longrightarrow> pdp_pending p' i = None"
  by (auto simp: Approve_def settle_def Let_def split: option.splits sum.splits if_splits)

lemma step_new:
  assumes "pdp_step E L op (p, l) = (r, p', l')" "pdp_pending p i = None" "new_id op \<noteq> Some i"
  shows "pdp_pending p' i = None"
proof (cases op)
  case (OpEvaluate x env)
  then show ?thesis
    using assms by (auto simp: Evaluate_def Let_def apfst_def map_prod_def split: option.splits sum.splits if_splits prod.splits)
next
  case (OpApprove x k a)
  then show ?thesis
    using assms Approve_new by (auto simp: apfst_def map_prod_def split: prod.splits)
next
  case (OpPasskey x k c ch b)
  then show ?thesis
    using assms Approve_new
    by (auto simp: ApproveWithPasskey_def apfst_def map_prod_def split: prod.splits option.splits)
next
  case (OpDeny x k a)
  then show ?thesis
    using assms by (auto simp: Deny_def settle_def apfst_def map_prod_def split: option.splits if_splits prod.splits)
qed

lemma fresh_ids_Cons:
  assumes "fresh_ids (op # ops) p" "pdp_step E L op (p, l) = (r, p', l')"
  shows "\<forall>i. new_id op = Some i \<longrightarrow> pdp_pending p i = None" "fresh_ids ops p'"
proof -
  show "\<forall>i. new_id op = Some i \<longrightarrow> pdp_pending p i = None"
    using assms(1) by (simp add: fresh_ids_def List.map_filter_simps)
  have "new_id op \<noteq> Some i" "pdp_pending p i = None" if "i \<in> set (List.map_filter new_id ops)" for i
    using assms(1) that by (auto simp: fresh_ids_def List.map_filter_simps split: option.splits)
  moreover have "distinct (List.map_filter new_id ops)"
    using assms(1) by (auto simp: fresh_ids_def List.map_filter_simps split: option.splits)
  ultimately show "fresh_ids ops p'"
    using step_new [OF assms(2)] by (simp add: fresh_ids_def)
qed

theorem history_refines:
  assumes "run_ops (pdp_step E L) ops (p, l) = (rs, p', l')" "fresh_ids ops p"
  shows "\<exists>es. approval_run (lifecycle p) es (lifecycle p') \<and>
    (\<forall>i. length (filter (reply_settles i) (zip ops rs)) \<le> length (filter (settles i) es))"
  using assms
proof (induction ops arbitrary: p l rs)
  case Nil
  then show ?case by (auto intro: approval_run.nil)
next
  case (Cons op ops)
  obtain r p1 l1 rs1 where op: "pdp_step E L op (p, l) = (r, p1, l1)"
    and ops: "run_ops (pdp_step E L) ops (p1, l1) = (rs1, p', l')" and rs: "rs = r # rs1"
    using Cons.prems(1) by (auto simp: run_ops_Cons simp del: run_ops.simps)
  note fresh = fresh_ids_Cons [OF Cons.prems(2) op]
  obtain es where es: "approval_run (lifecycle p1) es (lifecycle p')"
    "length (filter (reply_settles i) (zip ops rs1)) \<le> length (filter (settles i) es)" for i
    using Cons.IH [OF ops fresh(2)] by blast
  note step = step_refines [OF op fresh(1)]
  have "length (filter (reply_settles i) (zip (op # ops) rs)) \<le> length (filter (settles i) (op_events E p op @ es))" for i
  proof (cases "reply_settles i (op, r)")
    case True
    then show ?thesis
      using es(2) [of i] rs step(2) by (cases "filter (settles i) (op_events E p op)") auto
  next
    case False
    then show ?thesis
      using es(2) [of i] rs by simp
  qed
  moreover have "approval_run (lifecycle p) (op_events E p op @ es) (lifecycle p')"
    by (rule approval_run_append [OF step(1) es(1)])
  ultimately show ?case by blast
qed

section \<open>Approvals run out\<close>

text \<open>The requests that wait; the measure that every settling decreases.\<close>

definition waiting :: "(string \<rightharpoonup> RequestState) \<Rightarrow> string set" where
  "waiting m = {i. m i = Some StatePending}"

fun is_Settle :: "approval_event \<Rightarrow> bool" where
  "is_Settle (Settle i b) = True"
| "is_Settle (Park i) = False"

lemma waiting_step:
  assumes "approval_step m e m'" "finite (waiting m)"
  shows "finite (waiting m') \<and>
    card (waiting m') + (if is_Settle e then 1 else 0) = card (waiting m) + (if is_Settle e then 0 else 1)"
  using assms
proof (cases rule: approval_step.cases)
  case (park i)
  then have "waiting m' = insert i (waiting m)" "i \<notin> waiting m"
    by (auto simp: waiting_def)
  then show ?thesis
    using park assms(2) by simp
next
  case (settle i b)
  then have "waiting m' = waiting m - {i}" "i \<in> waiting m"
    by (auto simp: waiting_def split: if_splits)
  then show ?thesis
    using settle assms(2) card.remove [of "waiting m" i] by simp
qed

lemma waiting_run:
  "approval_run m es m' \<Longrightarrow> finite (waiting m) \<Longrightarrow> finite (waiting m') \<and>
     card (waiting m') + length (filter is_Settle es) = card (waiting m) + length (filter (Not \<circ> is_Settle) es)"
proof (induction rule: approval_run.induct)
  case (cons m e m' es m'')
  then show ?case
    using waiting_step [OF cons.hyps(1)] by (cases "is_Settle e") auto
qed simp

fun is_Evaluate :: "pdp_op \<Rightarrow> bool" where
  "is_Evaluate (OpEvaluate x env) = True"
| "is_Evaluate _ = False"

fun settling :: "pdp_op \<times> pdp_reply \<Rightarrow> bool" where
  "settling (OpApprove x k a, Approved r) = is_ok r"
| "settling (OpPasskey x k c ch b, Approved r) = is_ok r"
| "settling (OpDeny x k a, Denied r) = (r = None)"
| "settling _ = False"

lemma settling_iff: "settling h \<longleftrightarrow> (\<exists>i. reply_settles i h)"
  by (cases h rule: settling.cases) auto

lemma is_Settle_settles: "settles i e \<Longrightarrow> is_Settle e"
  by (auto simp: settles_def)

lemma settle_events_kinds [simp]: "filter (Not \<circ> is_Settle) (settle_events p i b) = []"
  by (simp add: settle_events_def)

lemma op_events_kinds: "length (filter (Not \<circ> is_Settle) (op_events E p op)) \<le> (if is_Evaluate op then 1 else 0)"
  by (cases op) (simp_all split: option.split)

lemma history_waiting:
  "run_ops (pdp_step E L) ops (p, l) = (rs, p', l') \<Longrightarrow> fresh_ids ops p \<Longrightarrow> finite (waiting (lifecycle p)) \<Longrightarrow>
     finite (waiting (lifecycle p')) \<and>
     card (waiting (lifecycle p')) + length (filter settling (zip ops rs)) \<le> card (waiting (lifecycle p)) + length (filter is_Evaluate ops)"
proof (induction ops arbitrary: p l rs)
  case (Cons op ops)
  obtain r p1 l1 rs1 where op: "pdp_step E L op (p, l) = (r, p1, l1)"
    and ops: "run_ops (pdp_step E L) ops (p1, l1) = (rs1, p', l')" and rs: "rs = r # rs1"
    using Cons.prems(1) by (auto simp: run_ops_Cons simp del: run_ops.simps)
  note fresh = fresh_ids_Cons [OF Cons.prems(2) op]
  note step = step_refines [OF op fresh(1)]
  have "settling (op, r) \<Longrightarrow> 1 \<le> length (filter is_Settle (op_events E p op))"
  proof -
    assume "settling (op, r)"
    then obtain i where "filter (settles i) (op_events E p op) \<noteq> []"
      using step(2) by (auto simp: settling_iff)
    then have "filter is_Settle (op_events E p op) \<noteq> []"
      using is_Settle_settles by (auto simp: filter_empty_conv)
    then show ?thesis
      by (cases "filter is_Settle (op_events E p op)") simp_all
  qed
  then show ?case
    using Cons.IH [OF ops fresh(2)] waiting_run [OF step(1) Cons.prems(3)] op_events_kinds [of E p op] rs
    by (auto split: if_splits)
qed simp

section \<open>Invariants\<close>

text \<open>A parked request is filed under its own identifier and is there because the policy asks for
  an approver.\<close>

definition parked_ok :: "PolicyRule list \<Rightarrow> string \<Rightarrow> PendingRequest \<Rightarrow> bool" where
  "parked_ok rules i r \<longleftrightarrow> pr_ID r = i \<and> pr_Tier r \<noteq> TierAuto \<and>
     pr_Tier r = tier_of rules (ev_AgentSVID (pr_EnvClaims r)) (ev_Scope (pr_EnvClaims r))"

definition pdp_inv :: "InMemoryPDP \<Rightarrow> bool" where
  "pdp_inv p \<longleftrightarrow> (\<forall>i r. pdp_pending p i = Some r \<longrightarrow> parked_ok (pdp_rules p) i r)"

lemma parked_ok_state [simp]: "parked_ok rules i (r\<lparr>pr_State := st\<rparr>) = parked_ok rules i r"
  by (simp add: parked_ok_def)

lemma pdp_inv_settle: "pdp_inv p \<Longrightarrow> pdp_pending p i = Some r \<Longrightarrow> pdp_inv (settle i r st p)"
  by (auto simp: pdp_inv_def settle_def)

lemma pdp_inv_park:
  "pdp_inv p \<Longrightarrow> parked_ok (pdp_rules p) i r \<Longrightarrow> pdp_inv (p\<lparr>pdp_pending := (pdp_pending p)(i \<mapsto> r)\<rparr>)"
  by (auto simp: pdp_inv_def)

lemma Approve_inv: "Approve L x i a (p, l) = (r, p', l') \<Longrightarrow> pdp_inv p \<Longrightarrow> pdp_inv p'"
  by (auto simp: Approve_def Let_def pdp_inv_settle split: option.splits sum.splits if_splits)

lemma step_inv:
  assumes "pdp_step E L op (p, l) = (r, p', l')" "pdp_inv p"
  shows "pdp_inv p'"
proof (cases op)
  case (OpEvaluate x env)
  then show ?thesis
    using assms
    by (auto simp: Evaluate_def Let_def apfst_def map_prod_def pdp_inv_park parked_ok_def evaluateTier_def
        split: option.splits sum.splits if_splits prod.splits)
next
  case (OpApprove x k a)
  then show ?thesis
    using assms Approve_inv by (auto simp: apfst_def map_prod_def split: prod.splits)
next
  case (OpPasskey x k c ch b)
  then show ?thesis
    using assms Approve_inv
    by (auto simp: ApproveWithPasskey_def apfst_def map_prod_def split: prod.splits option.splits)
next
  case (OpDeny x k a)
  then show ?thesis
    using assms by (auto simp: Deny_def pdp_inv_settle apfst_def map_prod_def split: option.splits if_splits prod.splits)
qed

lemma run_inv:
  "run_ops (pdp_step E L) ops (p, l) = (rs, p', l') \<Longrightarrow> pdp_inv p \<Longrightarrow> pdp_inv p'"
  by (induction ops arbitrary: p l rs) (auto simp: run_ops_Cons simp del: run_ops.simps(2) dest: step_inv)

lemma pdp_inv_new [simp]: "pdp_inv (NewInMemoryPDP issuerID sigKey rules ttl)"
  by (simp add: pdp_inv_def NewInMemoryPDP_def)

lemma lifecycle_new [simp]: "lifecycle (NewInMemoryPDP issuerID sigKey rules ttl) = Map.empty"
  by (simp add: lifecycle_def NewInMemoryPDP_def fun_eq_iff)

text \<open>Every operation only appends to the log.\<close>

lemma Approve_log: "Approve L x i a (p, l) = (r, p', l') \<Longrightarrow> log_extends l l'"
  by (auto simp: Approve_def Let_def split: option.splits sum.splits if_splits)

interpretation pdp_log: audited "pdp_step E L" for E L
proof
  fix op s l r s' l'
  assume "pdp_step E L op (s, l) = (r, s', l')"
  then show "log_extends l l'"
    using Approve_log
    by (cases op) (auto simp: Evaluate_def Deny_def ApproveWithPasskey_def Let_def apfst_def map_prod_def
        split: option.splits sum.splits if_splits prod.splits)
qed

section \<open>Decisions, issued and read\<close>

lemma decision_claims_payload [simp]:
  "- (2 ^ 63) \<le> pd_Tier c \<Longrightarrow> pd_Tier c < 2 ^ 63 \<Longrightarrow> decision_claims (decision_payload c) = Some c"
  by (simp add: decision_claims_def decision_payload_def json_field_defs omit_empty_def)

lemma decision_claims_reg: "decision_claims pl = Some c \<Longrightarrow> pd_reg c = pl_reg pl"
  by (auto simp: decision_claims_def split: Option.bind_splits)

lemma ParseDecision_ok:
  "ParseDecision L now tok pub = Inr c \<longleftrightarrow>
     (\<exists>k h. pub = Some k \<and> parse_typed L now tok decision_claims pdpDecisionType k = Inr (h, c))"
  by (auto simp: ParseDecision_def split: option.splits sum.splits)

lemma ParseDecision_issued:
  assumes "jwt_complete L" "jwt_es256 L" "jwt_dates L"
    and "issueDecision L p env tier approved i a x = Inr j"
    and "c = issued_decision L p env tier approved i a x"
    and "wire_ok L (typ_header L pdpDecisionType) (decision_payload c)"
    and "- (2 ^ 63) \<le> tier" "tier < 2 ^ 63"
    and "pe_now x \<le> t" "t < jwt_numeric_date L (pe_now x + pdp_ttl p)"
  shows "ParseDecision L t j (Some (ec_Public (pdp_sigKey p))) = Inr c"
proof -
  have "decision_claims (decision_payload c) = Some c"
    using assms(5,7,8) by (intro decision_claims_payload) (simp_all add: issued_decision_def)
  moreover have "pl_reg (decision_payload c) = dated_claims L (pdp_issuerID p) (ev_AgentSVID env) []
      (pe_now x) (pdp_ttl p) (generateID (pe_jti x))"
    using assms(5) by (simp add: issued_decision_def decision_payload_def)
  ultimately have "parse_typed L t j decision_claims pdpDecisionType (ec_Public (pdp_sigKey p))
      = Inr (typ_header L pdpDecisionType, c)"
    using assms(4-6,9,10) by (intro parse_dated [OF assms(1-3)]) (simp_all add: issueDecision_def)
  then show ?thesis
    by (simp add: ParseDecision_ok)
qed

lemma ParseDecision_sound:
  assumes "jwt_sound L" "ParseDecision L now tok (Some pub) = Inr c"
  shows "jwt_sig_ok L pub tok \<and> (\<exists>e. rc_ExpiresAt (pd_reg c) = Some e \<and> now < e)"
proof -
  obtain h where "parse_typed L now tok decision_claims pdpDecisionType pub = Inr (h, c)"
    using assms(2) by (auto simp: ParseDecision_ok)
  from parse_typed_sound [OF assms(1) this, of pd_reg] show ?thesis
    using decision_claims_reg by blast
qed

text \<open>A decision that left the PDP, with what stands behind it.\<close>

lemma Approve_ok:
  "Approve L x i a (p, l) = (Inr j, p', l') \<longleftrightarrow> (\<exists>req. pdp_pending p i = Some req \<and> pr_State req = StatePending \<and>
     issueDecision L p (pr_EnvClaims req) (pr_Tier req) True i a x = Inr j \<and> p' = settle i req StateApproved p \<and>
     l' = audit (pe_audit2 x) (pdp_entry EventApproved (pr_EnvClaims req) (pr_Tier req) i
       (''approved by '' @ a) True) l)"
proof -
  have [simp]: "issueDecision L (settle i req st p) = issueDecision L p" for req st
    by (simp add: fun_eq_iff issueDecision_def issued_decision_def settle_def)
  show ?thesis
    by (auto simp: Approve_def Let_def split: option.splits sum.splits if_splits)
qed

lemma Evaluate_auto:
  assumes "Evaluate L x (Some env) (p, l) = (Inr (j, []), p', l')"
    and "length (pe_reqID x) = 16"
  shows "evaluateTier p (ev_AgentSVID env) (ev_Scope env) = TierAuto \<and>
    issueDecision L p env TierAuto True (generateID (pe_reqID x)) ''auto'' x = Inr j"
  using assms generateID_ne [OF assms(2)] by (auto simp: Evaluate_def Let_def split: sum.splits if_splits)

section \<open>What the policy looks at\<close>

lemma matchPattern_plain: "plain p \<Longrightarrow> matchPattern p v \<longleftrightarrow> p = ''*'' \<or> glob p v"
  by (simp add: matchPattern_def path_match_plain)

lemma tier_of_find:
  "tier_of rules svid scope =
     (case find (\<lambda>r. matchPattern (rule_AgentPattern r) svid \<and> matchPattern (rule_ScopePattern r) scope) rules of
        None \<Rightarrow> TierHITL | Some r \<Rightarrow> rule_Tier r)"
  by (induction rules) auto

text \<open>Another justification, and other registered claims, in an envelope.\<close>

definition reword :: "(string \<Rightarrow> string) \<Rightarrow> (registered_claims \<Rightarrow> registered_claims) \<Rightarrow> EnvelopeClaims \<Rightarrow> EnvelopeClaims" where
  "reword f g env = env\<lparr>ev_Justification := f (ev_Justification env), ev_reg := g (ev_reg env)\<rparr>"

definition reword_pdp ::
  "(string \<Rightarrow> string) \<Rightarrow> (registered_claims \<Rightarrow> registered_claims) \<Rightarrow> InMemoryPDP \<Rightarrow> InMemoryPDP" where
  "reword_pdp f g p = p\<lparr>pdp_pending := (\<lambda>i. map_option (\<lambda>r. r\<lparr>pr_EnvClaims := reword f g (pr_EnvClaims r)\<rparr>) (pdp_pending p i))\<rparr>"

fun reword_op :: "(string \<Rightarrow> string) \<Rightarrow> (registered_claims \<Rightarrow> registered_claims) \<Rightarrow> pdp_op \<Rightarrow> pdp_op" where
  "reword_op f g (OpEvaluate x env) = OpEvaluate x (map_option (reword f g) env)"
| "reword_op f g op = op"

lemma reword_simps [simp]:
  "ev_AgentSVID (reword f g env) = ev_AgentSVID env" "ev_Target (reword f g env) = ev_Target env"
  "ev_Action (reword f g env) = ev_Action env" "ev_Scope (reword f g env) = ev_Scope env"
  "pdp_entry event (reword f g env) = pdp_entry event env"
  "issueDecision L (reword_pdp f g p) env = issueDecision L p env"
  "issueDecision L p (reword f g env) = issueDecision L p env"
  "evaluateTier (reword_pdp f g p) = evaluateTier p"
  by (simp_all add: fun_eq_iff reword_def pdp_entry_def issueDecision_def issued_decision_def
      reword_pdp_def evaluateTier_def)

lemma reword_settle:
  "settle i (req\<lparr>pr_EnvClaims := reword f g (pr_EnvClaims req)\<rparr>) st (reword_pdp f g p)
   = reword_pdp f g (settle i req st p)"
  by (auto simp: settle_def reword_pdp_def fun_eq_iff)

lemma reword_park:
  "(reword_pdp f g p)\<lparr>pdp_pending := (pdp_pending (reword_pdp f g p))(i \<mapsto> \<lparr>pr_ID = i,
      pr_EnvClaims = reword f g env, pr_Tier = t, pr_State = st, pr_CreatedAt = now\<rparr>)\<rparr>
   = reword_pdp f g (p\<lparr>pdp_pending := (pdp_pending p)(i \<mapsto> \<lparr>pr_ID = i,
      pr_EnvClaims = env, pr_Tier = t, pr_State = st, pr_CreatedAt = now\<rparr>)\<rparr>)"
  by (auto simp: reword_pdp_def fun_eq_iff)

lemma reword_pending [simp]:
  "pdp_pending (reword_pdp f g p) i =
     map_option (\<lambda>r. r\<lparr>pr_EnvClaims := reword f g (pr_EnvClaims r)\<rparr>) (pdp_pending p i)"
  by (simp add: reword_pdp_def)

lemma reword_Evaluate:
  "Evaluate L x (map_option (reword f g) env) (reword_pdp f g p, l) =
     apsnd (apfst (reword_pdp f g)) (Evaluate L x env (p, l))"
  by (cases env) (auto simp: Evaluate_def Let_def reword_park split: sum.splits)

lemma reword_Approve:
  "Approve L x i a (reword_pdp f g p, l) = apsnd (apfst (reword_pdp f g)) (Approve L x i a (p, l))"
  by (cases "pdp_pending p i") (auto simp: Approve_def Let_def reword_settle split: sum.splits)

lemma reword_step:
  "pdp_step E L (reword_op f g op) (reword_pdp f g p, l) = apsnd (apfst (reword_pdp f g)) (pdp_step E L op (p, l))"
proof (cases op)
  case (OpEvaluate x env)
  then show ?thesis
    by (simp add: reword_Evaluate apfst_def apsnd_def map_prod_def split_def)
next
  case (OpApprove x k a)
  then show ?thesis
    by (simp add: reword_Approve apfst_def apsnd_def map_prod_def split_def)
next
  case (OpPasskey x k c ch b)
  then show ?thesis
    by (simp add: ApproveWithPasskey_def reword_Approve apfst_def apsnd_def map_prod_def split_def
        split: option.splits)
next
  case (OpDeny x k a)
  then show ?thesis
    by (cases "pdp_pending p k")
      (simp_all add: Deny_def reword_settle apfst_def apsnd_def map_prod_def)
qed

lemma reword_run:
  "run_ops (pdp_step E L) ops (p, l) = (rs, p', l') \<Longrightarrow>
   run_ops (pdp_step E L) (map (reword_op f g) ops) (reword_pdp f g p, l) = (rs, reword_pdp f g p', l')"
  by (induction ops arbitrary: p l rs)
    (auto simp: run_ops_Cons reword_step simp del: run_ops.simps(2))

text \<open>The tier decides whether a request waits, not how it is approved: a request that asks for MFA is
  approved by plain \<open>Approve\<close>, under any name.\<close>

lemma Approve_ignores_tier:
  assumes "pdp_pending p i = Some req" "pr_State req = StatePending" "pr_Tier req = TierMFA"
    and "issueDecision L p (pr_EnvClaims req) TierMFA True i a x = Inr j"
  shows "\<exists>p' l'. Approve L x i a (p, l) = (Inr j, p', l')"
  using assms by (simp add: Approve_ok)

text \<open>The state changes before the decision is signed: when signing fails the request is approved for
  good, and nobody holds a decision.\<close>

lemma Approve_sign_failure:
  assumes "Approve L x i a (p, l) = (Inl (IssueDecision e), p', l')"
  shows "lifecycle p' i = Some StateApproved \<and> l' = l \<and>
    Approve L y i b (p', l') = (Inl (AlreadySettled i StateApproved), p', l')"
  using assms by (auto simp: Approve_def Let_def lifecycle_def settle_def split: option.splits sum.splits if_splits)

section \<open>Closed instances\<close>

definition ex_pdp :: InMemoryPDP where
  "ex_pdp = NewInMemoryPDP ''pdp'' key_one DefaultPolicyRules 0"

definition ex_envelope :: EnvelopeClaims where
  "ex_envelope = \<lparr>ev_reg = no_claims, ev_AgentSVID = ''spiffe://a/b'',
     ev_Target = ''https://api'', ev_Action = ''POST'', ev_Scope = ''payment:AGENT_CREDIT:100'',
     ev_Justification = ''month end''\<rparr>"

definition ex_env :: pdp_env where
  "ex_env = \<lparr>pe_reqID = replicate 16 (CHR ''r''), pe_audit1 = 0, pe_now = 0,
     pe_jti = replicate 16 (CHR ''d''), pe_rnd = [], pe_audit2 = 0\<rparr>"

abbreviation ex_reqID :: string where
  "ex_reqID \<equiv> generateID (pe_reqID ex_env)"

definition ex_decision :: PDPDecisionClaims where
  "ex_decision = issued_decision (ledger_ext []) ex_pdp ex_envelope TierHITL True ex_reqID ''alice'' ex_env"

definition ex_pdp_lib :: ext where
  "ex_pdp_lib = one_token_lib ''decision'' key_one (typ_header (ledger_ext []) pdpDecisionType)
     (decision_payload ex_decision)"

lemma default_rules_plain: "r \<in> set DefaultPolicyRules \<Longrightarrow> plain (rule_AgentPattern r) \<and> plain (rule_ScopePattern r)"
  by (auto simp: DefaultPolicyRules_def char_simps)

lemma default_tier:
  "tier_of DefaultPolicyRules a s =
    (if glob ''spiffe://*/admin/*'' a then TierMFA
     else if glob ''spiffe://*/ci/*'' a then TierHITL
     else if glob ''billing:*:write'' s then TierHITL
     else if glob ''stripe:*:write'' s then TierHITL
     else if glob ''payment:AGENT_CREDIT:50'' s then TierAuto
     else if glob ''payment:*'' s then TierHITL
     else if glob ''*:read'' s then TierAuto
     else if glob ''*:*:read'' s then TierAuto
     else TierHITL)"
  by (simp only: DefaultPolicyRules_def tier_of.simps PolicyRule.simps)
    (simp add: matchPattern_plain char_simps del: glob.simps)

lemma ex_tier: "tier_of DefaultPolicyRules (ev_AgentSVID ex_envelope) (ev_Scope ex_envelope) = TierHITL"
  by (simp add: default_tier ex_envelope_def)

definition ex_parked :: InMemoryPDP where
  "ex_parked = ex_pdp\<lparr>pdp_pending := [ex_reqID \<mapsto> \<lparr>pr_ID = ex_reqID, pr_EnvClaims = ex_envelope,
     pr_Tier = TierHITL, pr_State = StatePending, pr_CreatedAt = 0\<rparr>]\<rparr>"

definition ex_log1 :: AuditLog where
  "ex_log1 = audit 0 (pdp_entry EventPolicyEvaluated ex_envelope TierHITL ex_reqID (''tier='' @ itoa TierHITL) True) NewAuditLog"

definition ex_log2 :: AuditLog where
  "ex_log2 = audit 0 (pdp_entry EventApproved ex_envelope TierHITL ex_reqID ''approved by alice'' True) ex_log1"

definition ex_settled :: InMemoryPDP where
  "ex_settled = settle ex_reqID (the (pdp_pending ex_parked ex_reqID)) StateApproved ex_parked"

lemma ex_pdp_simps [simp]:
  "pdp_rules ex_pdp = DefaultPolicyRules" "pdp_sigKey ex_pdp = key_one" "pdp_ttl ex_pdp = 15 * minute"
  "pdp_pending ex_pdp = Map.empty" "pdp_issuerID ex_pdp = ''pdp''"
  by (simp_all add: ex_pdp_def NewInMemoryPDP_def)

lemma ex_pdp_laws:
  "jwt_sound ex_pdp_lib" "jwt_functional ex_pdp_lib" "jwt_complete ex_pdp_lib" "jwt_es256 ex_pdp_lib"
  "jwt_dates ex_pdp_lib"
  by (simp_all add: ex_pdp_lib_def)

lemma ex_numeric: "jwt_numeric_date ex_pdp_lib d = d - d mod second"
  by (simp add: ex_pdp_lib_def)

lemma issued_decision_one_token:
  "issued_decision (one_token_lib tok sk h pl) = issued_decision (ledger_ext [])"
  by (simp add: fun_eq_iff issued_decision_def)

lemma ex_issue:
  assumes "pdp_issuerID p = ''pdp''" "pdp_ttl p = 15 * minute" "pdp_sigKey p = key_one"
  shows "issued_decision ex_pdp_lib p ex_envelope TierHITL True ex_reqID ''alice'' ex_env = ex_decision"
    and "issueDecision ex_pdp_lib p ex_envelope TierHITL True ex_reqID ''alice'' ex_env = Inr ''decision''"
proof -
  show dec: "issued_decision ex_pdp_lib p ex_envelope TierHITL True ex_reqID ''alice'' ex_env = ex_decision"
    using assms by (simp add: ex_pdp_lib_def issued_decision_one_token, simp add: ex_decision_def issued_decision_def)
  have "typ_header ex_pdp_lib = typ_header (ledger_ext [])"
    by (simp add: ex_pdp_lib_def)
  then show "issueDecision ex_pdp_lib p ex_envelope TierHITL True ex_reqID ''alice'' ex_env = Inr ''decision''"
    using assms(3) by (simp add: issueDecision_def dec, simp add: ex_pdp_lib_def)
qed

lemma ex_Evaluate:
  "Evaluate ex_pdp_lib ex_env (Some ex_envelope) (ex_pdp, NewAuditLog) = (Inr ([], ex_reqID), ex_parked, ex_log1)"
  by (simp add: Evaluate_def evaluateTier_def ex_tier Let_def ex_parked_def ex_log1_def)
    (simp add: TierHITL_def TierAuto_def ex_env_def)

lemma ex_parked_simps [simp]:
  "pdp_sigKey ex_parked = key_one" "pdp_ttl ex_parked = 15 * minute" "pdp_issuerID ex_parked = ''pdp''"
  "pdp_pending ex_parked ex_reqID = Some \<lparr>pr_ID = ex_reqID, pr_EnvClaims = ex_envelope,
     pr_Tier = TierHITL, pr_State = StatePending, pr_CreatedAt = 0\<rparr>"
  by (simp_all add: ex_parked_def)

lemma ex_Approve:
  "Approve ex_pdp_lib ex_env ex_reqID ''alice'' (ex_parked, ex_log1) = (Inr ''decision'', ex_settled, ex_log2)"
  by (simp add: Approve_ok ex_issue ex_settled_def ex_log2_def) (simp add: ex_env_def)

abbreviation ex_ops :: "pdp_op list" where
  "ex_ops \<equiv> [OpEvaluate ex_env (Some ex_envelope), OpApprove ex_env ex_reqID ''alice'']"

lemma ex_run:
  "run_ops (pdp_step ex_ecdsa ex_pdp_lib) ex_ops (ex_pdp, NewAuditLog)
   = ([Evaluated (Inr ([], ex_reqID)), Approved (Inr ''decision'')], ex_settled, ex_log2)"
  by (simp add: ex_Evaluate ex_Approve)

lemma ex_fresh: "fresh_ids ex_ops ex_pdp"
  by (simp add: fresh_ids_def List.map_filter_simps)

lemma ex_decision_wire:
  "wire_ok ex_pdp_lib (typ_header ex_pdp_lib pdpDecisionType) (decision_payload ex_decision)"
proof -
  have "typ_header ex_pdp_lib = typ_header (ledger_ext [])"
    by (simp add: ex_pdp_lib_def)
  then show ?thesis
    by (simp add: wire_ok_def claims_wire_def decision_payload_def ex_decision_def issued_decision_def,
      simp add: dated_claims_def typ_header_def ex_pdp_lib_def one_token_lib_def ledger_ext_def
      ex_envelope_def ex_env_def generateID_def pdpDecisionType_def char_simps del: b64_encode.simps)
qed

section \<open>Properties\<close>



text \<open>C18: One decision.  In any history of a PDP with distinct request identifiers, at most one reply
  settles a request: it yields at most one decision, and none after it was denied.  A request that
  is settled keeps its state for ever, and from then on \<open>Approve\<close> and \<open>Deny\<close> refuse it without
  changing anything.\<close>

theorem request_settled_once:
  assumes "run_ops (pdp_step E L) ops (p, l) = (rs, p', l')" "fresh_ids ops p"
  shows "length (filter (reply_settles i) (zip ops rs)) \<le> 1 \<and>
    (settled (lifecycle p i) \<longrightarrow> lifecycle p' i = lifecycle p i \<and>
      length (filter (reply_settles i) (zip ops rs)) = 0 \<and>
      (\<exists>st. lifecycle p i = Some st \<and>
        Approve L x i a (p', l') = (Inl (AlreadySettled i st), p', l') \<and>
        Deny x i a (p', l') = (Some (AlreadySettled i st), p', l')))"
proof -
  obtain es where run: "approval_run (lifecycle p) es (lifecycle p')"
    and le: "length (filter (reply_settles i) (zip ops rs)) \<le> length (filter (settles i) es)"
    using history_refines [OF assms] by blast
  have "lifecycle p' i = lifecycle p i \<and> (\<exists>st. lifecycle p i = Some st \<and>
        Approve L x i a (p', l') = (Inl (AlreadySettled i st), p', l') \<and>
        Deny x i a (p', l') = (Some (AlreadySettled i st), p', l'))" if s: "settled (lifecycle p i)"
  proof -
    obtain st where st: "lifecycle p i = Some st" "st \<noteq> StatePending"
      using s by (auto simp: settled_iff)
    have same: "lifecycle p' i = lifecycle p i"
      by (rule settled_run [OF run s])
    then show ?thesis
      using st by (auto simp: lifecycle_def Approve_def Deny_def)
  qed
  then show ?thesis
    using settles_once [OF run, of i] le by (auto split: if_splits)
qed

theorem request_settled_once_witness:
  "length (filter (reply_settles ex_reqID) (zip ex_ops
     [Evaluated (Inr ([], ex_reqID)), Approved (Inr ''decision'')])) \<le> 1 \<and>
   (\<exists>st. lifecycle ex_settled ex_reqID = Some st \<and>
     Deny ex_env ex_reqID ''bob'' (ex_settled, ex_log2) = (Some (AlreadySettled ex_reqID st), ex_settled, ex_log2))"
proof -
  have nop: "run_ops (pdp_step ex_ecdsa ex_pdp_lib) [] (ex_settled, ex_log2) = ([], ex_settled, ex_log2)"
    "fresh_ids [] ex_settled"
    by (simp_all add: fresh_ids_def List.map_filter_simps)
  have "settled (lifecycle ex_settled ex_reqID)"
    by (simp add: ex_settled_def)
  then show ?thesis
    using request_settled_once [OF ex_run ex_fresh, of ex_reqID]
      request_settled_once [OF nop, of ex_reqID ex_env "''bob''"] by blast
qed

text \<open>C20: The justification of an envelope, which is for forensics only, has no influence: if in a
  history of a new PDP every justification, and every registered claim of an envelope, is replaced
  by any other, the replies (decisions included) and the audit log stay the same.\<close>

theorem justification_irrelevant:
  assumes "p = NewInMemoryPDP issuerID sigKey rules ttl"
    and "run_ops (pdp_step E L) ops (p, l) = (rs, p', l')"
  shows "\<exists>p''. run_ops (pdp_step E L) (map (reword_op f g) ops) (p, l) = (rs, p'', l')"
proof -
  have "reword_pdp f g p = p"
    using assms(1) by (simp add: reword_pdp_def NewInMemoryPDP_def)
  then show ?thesis
    using reword_run [OF assms(2), of f g] by auto
qed

theorem justification_irrelevant_witness:
  "\<exists>p''. run_ops (pdp_step ex_ecdsa ex_pdp_lib) (map (reword_op (\<lambda>_. ''urgent'') (\<lambda>c. c)) ex_ops) (ex_pdp, NewAuditLog)
     = ([Evaluated (Inr ([], ex_reqID)), Approved (Inr ''decision'')], p'', ex_log2)"
  by (rule justification_irrelevant [OF ex_pdp_def ex_run])

text \<open>Decision round trip.  The decision that \<open>Approve\<close> returns is read by \<open>ParseDecision\<close> under the
  PDP's public key, until its lifetime ends, as an approval of exactly the parked request: its
  identifier, agent, target, action, scope and tier, and the approver.\<close>

theorem decision_roundtrip:
  assumes "jwt_complete L" "jwt_es256 L" "jwt_dates L"
    and "Approve L x i a (p, l) = (Inr j, p', l')" "pdp_pending p i = Some req"
    and "d = issued_decision L p (pr_EnvClaims req) (pr_Tier req) True i a x"
    and "wire_ok L (typ_header L pdpDecisionType) (decision_payload d)"
    and "- (2 ^ 63) \<le> pr_Tier req" "pr_Tier req < 2 ^ 63"
    and "pe_now x \<le> t" "t < jwt_numeric_date L (pe_now x + pdp_ttl p)"
  shows "ParseDecision L t j (Some (ec_Public (pdp_sigKey p))) = Inr d \<and> pd_Approved d \<and>
    pd_RequestID d = i \<and> pd_ApproverID d = a \<and> pd_Tier d = pr_Tier req \<and>
    pd_AgentSVID d = ev_AgentSVID (pr_EnvClaims req) \<and> pd_Target d = ev_Target (pr_EnvClaims req) \<and>
    pd_Action d = ev_Action (pr_EnvClaims req) \<and> pd_Scope d = ev_Scope (pr_EnvClaims req)"
proof -
  have issue: "issueDecision L p (pr_EnvClaims req) (pr_Tier req) True i a x = Inr j"
    using assms(4,5) by (auto simp: Approve_ok)
  show ?thesis
    using ParseDecision_issued [OF assms(1-3) issue assms(6-11)] assms(6) by (simp add: issued_decision_def)
qed

theorem decision_roundtrip_witness:
  "ParseDecision ex_pdp_lib minute ''decision'' (Some (ec_Public key_one)) = Inr ex_decision"
proof -
  have "ParseDecision ex_pdp_lib minute ''decision'' (Some (ec_Public (pdp_sigKey ex_parked))) = Inr ex_decision"
    by (rule decision_roundtrip [OF ex_pdp_laws(3-5) ex_Approve ex_parked_simps(4), THEN conjunct1])
      (simp_all add: ex_issue ex_decision_wire ex_numeric, simp_all add: ex_env_def TierHITL_def)
  then show ?thesis by simp
qed

text \<open>The default policy.  An administrator identity of one segment always needs MFA, but the
  pattern's star does not cross a slash: a nested administrator identity reads invoices without any
  approval.  Of the payment scopes exactly the one of 50 credits is automatic; every other amount,
  smaller ones included, waits for a human.\<close>

theorem default_policy_gaps:
  assumes "p = NewInMemoryPDP issuerID sigKey DefaultPolicyRules ttl"
  shows "(slash \<notin> set d \<and> slash \<notin> set n \<longrightarrow>
      evaluateTier p (''spiffe://'' @ d @ ''/admin/'' @ n) scope = TierMFA) \<and>
    evaluateTier p ''spiffe://corp.example/admin/ops/root'' ''billing:invoices:read'' = TierAuto \<and>
    (slash \<notin> set amount \<longrightarrow>
      evaluateTier p ''spiffe://corp.example/agent/a'' (''payment:AGENT_CREDIT:'' @ amount)
      = (if amount = ''50'' then TierAuto else TierHITL))"
proof -
  have all: "glob ''*'' s \<longleftrightarrow> slash \<notin> set s" for s
    using glob_star_iff [of "[]" s] by auto
  have admin: "glob ''spiffe://*/admin/*'' (''spiffe://'' @ d @ ''/admin/'' @ n)"
    if n: "slash \<notin> set d" "slash \<notin> set n"
  proof -
    have "glob ''/admin/*'' (''/admin/'' @ n)"
      using all [of n] n(2) glob_literal [of "''/admin/''" "''*''" "''/admin/'' @ n"] by (simp del: glob.simps(2))
    then have "glob ''*/admin/*'' (d @ ''/admin/'' @ n)"
      using n(1) glob_star_iff by blast
    then show ?thesis
      using glob_literal [of "''spiffe://''" "''*/admin/*''" "''spiffe://'' @ d @ ''/admin/'' @ n"]
      by (simp del: glob.simps(2))
  qed
  have pay: "tier_of DefaultPolicyRules ''spiffe://corp.example/agent/a'' (''payment:AGENT_CREDIT:'' @ amount)
      = (if amount = ''50'' then TierAuto else TierHITL)" if "slash \<notin> set amount"
  proof -
    have "glob ''payment:*'' (''payment:AGENT_CREDIT:'' @ amount)"
      using all [of "''AGENT_CREDIT:'' @ amount"] that
        glob_literal [of "''payment:''" "''*''" "''payment:AGENT_CREDIT:'' @ amount"] by (simp del: glob.simps(2))
    moreover have "glob ''payment:AGENT_CREDIT:50'' (''payment:AGENT_CREDIT:'' @ amount) \<longleftrightarrow> amount = ''50''"
      using glob_literal [of "''payment:AGENT_CREDIT:50''" "[]" "''payment:AGENT_CREDIT:'' @ amount"] by simp
    moreover have "\<not> glob ''billing:*:write'' (''payment:AGENT_CREDIT:'' @ amount)"
      "\<not> glob ''stripe:*:write'' (''payment:AGENT_CREDIT:'' @ amount)"
      "\<not> glob ''spiffe://*/admin/*'' ''spiffe://corp.example/agent/a''"
      "\<not> glob ''spiffe://*/ci/*'' ''spiffe://corp.example/agent/a''"
      by simp_all
    ultimately show ?thesis
      unfolding default_tier by (simp del: glob.simps)
  qed
  have nested: "tier_of DefaultPolicyRules ''spiffe://corp.example/admin/ops/root'' ''billing:invoices:read'' = TierAuto"
    by (simp add: default_tier)
  have "tier_of DefaultPolicyRules (''spiffe://'' @ d @ ''/admin/'' @ n) scope = TierMFA"
    if "slash \<notin> set d" "slash \<notin> set n"
    unfolding default_tier using admin [OF that] by (simp del: glob.simps)
  then show ?thesis
    using assms nested pay by (simp add: evaluateTier_def NewInMemoryPDP_def)
qed

theorem default_policy_gaps_witness:
  "evaluateTier (NewInMemoryPDP ''pdp'' key_one DefaultPolicyRules 0)
     ''spiffe://corp.example/admin/ops/root'' ''billing:invoices:read'' = TierAuto"
  using default_policy_gaps by blast

text \<open>C19: Approvals run out.  In any history with distinct request identifiers, every approval or denial
  that succeeds takes one request off those that wait, and only an evaluation adds one: the
  successful approvals and denials, and the requests still waiting, are together no more than the
  requests that waited before and the evaluations.  So approvers alone come to an end after at most
  as many successful operations as requests waited.\<close>

theorem approvals_run_out:
  assumes "run_ops (pdp_step E L) ops (p, l) = (rs, p', l')" "fresh_ids ops p" "finite (dom (pdp_pending p))"
  shows "card (waiting (lifecycle p')) + length (filter settling (zip ops rs))
      \<le> card (waiting (lifecycle p)) + length (filter is_Evaluate ops)"
proof -
  have "waiting (lifecycle p) \<subseteq> dom (pdp_pending p)"
    by (auto simp: waiting_def lifecycle_def)
  then show ?thesis
    using history_waiting [OF assms(1,2)] assms(3) finite_subset by blast
qed

theorem approvals_run_out_witness:
  "card (waiting (lifecycle ex_settled)) = 0"
proof -
  have "card (waiting (lifecycle ex_settled)) + length (filter settling (zip ex_ops
      [Evaluated (Inr ([], ex_reqID)), Approved (Inr ''decision'')])) \<le> card (waiting (lifecycle ex_pdp)) + length (filter is_Evaluate ex_ops)"
    by (rule approvals_run_out [OF ex_run ex_fresh]) (simp add: ex_pdp_def NewInMemoryPDP_def)
  moreover have "waiting (lifecycle ex_pdp) = {}"
    by (simp add: ex_pdp_def waiting_def)
  ultimately show ?thesis
    by simp
qed

end
