(* ===== verification/Cdp.thy ===== *)
theory Cdp
  imports Pdp Remarshal AgentToken
begin

text \<open>
  Package \<open>pkg/cb4a\<close>, file \<open>cdp.go\<close>: the vault, the Credential Delivery Point that turns a decision
  into a token bound to a fresh key, the DPoP proofs an agent makes with that key, and the checks of
  a resource server (\<open>SimulateAPICall\<close>).  The CDP's replay table and the audit log are the state.
\<close>

definition cb4aTokenType :: string where "cb4aTokenType = ''cb4a-token+jwt''"
definition dpopProofType :: string where "dpopProofType = ''dpop+jwt''"

section \<open>Data\<close>

record InMemoryVault =
  vault_creds :: "string \<rightharpoonup> string"

definition NewInMemoryVault :: InMemoryVault where
  "NewInMemoryVault = \<lparr>vault_creds = map_of
     [(''billing:invoices:read'', ''sk-billing-read-xQf2mP9''),
      (''billing:invoices:write'', ''sk-billing-write-rT7nZ3k''),
      (''analytics:events:read'', ''sk-analytics-Kj4vLm8''),
      (''github:repos:read'', ''ghp_demo_N2bXpQ5''),
      (''stripe:charges:write'', ''sk_live_demo_Wc6yRs1''),
      (''payment:AGENT_CREDIT:50'', ''pay-auth-50-demo''),
      (''payment:AGENT_CREDIT:100'', ''pay-auth-100-demo''),
      (''payment:AGENT_CREDIT:500'', ''pay-auth-500-demo'')]\<rparr>"

definition vault_get :: "InMemoryVault \<Rightarrow> string \<Rightarrow> string option" where
  "vault_get v scope = vault_creds v scope"

text \<open>\<open>ct_Cnf_JKT\<close> is the member \<open>jkt\<close> of the nested struct \<open>Cnf\<close>.\<close>

record CB4ATokenClaims =
  ct_reg :: registered_claims
  ct_AgentSVID :: string
  ct_Target :: string
  ct_Action :: string
  ct_Scope :: string
  ct_RequestID :: string
  ct_Cnf_JKT :: string

record MintedCredential =
  mc_Token :: string
  mc_EphemeralKey :: ec_private
  mc_EphemeralPub :: "ec_public option"
  mc_Scope :: string
  mc_ExpiresAt :: time

record DPoPProofClaims =
  dp_reg :: registered_claims
  dp_HTTPMethod :: string
  dp_HTTPURI :: string
  dp_ATH :: string

record CDP =
  cdp_vault :: InMemoryVault
  cdp_pdpPub :: "ec_public option"
  cdp_sigKey :: ec_private
  cdp_issuerID :: string
  cdp_tokenTTL :: duration
  cdp_dpopJTI :: "string \<rightharpoonup> time"

definition NewCDP :: "InMemoryVault \<Rightarrow> ec_public option \<Rightarrow> ec_private \<Rightarrow> string \<Rightarrow> duration \<Rightarrow> CDP" where
  "NewCDP vault pdpPub sigKey issuerID tokenTTL = \<lparr>cdp_vault = vault, cdp_pdpPub = pdpPub,
     cdp_sigKey = sigKey, cdp_issuerID = issuerID,
     cdp_tokenTTL = (if tokenTTL \<le> 0 then 15 * minute else tokenTTL), cdp_dpopJTI = Map.empty\<rparr>"

datatype mint_error = InvalidDecision pdp_error | DecisionNotApproved | NoCredential string
  | GenerateEphemeralKey string | MintThumbprint key_error | SignCB4AToken string | AuditFailed string

datatype dpop_error = MintedCredentialRequired | MethodAndURIRequired | SerializeEphemeral key_error
  | SignDPoP string

datatype call_error = InvalidCB4AToken string | VerifyDPoP string | HtmMismatch string string
  | HtuMismatch string string | AthMismatch | ProofKeyMissing | CallThumbprint key_error
  | KeyBindingMismatch string string | DPoPMissingJti | DPoPReplay string | NilDPoPExpiry

section \<open>Marshalling\<close>

definition token_payload :: "CB4ATokenClaims \<Rightarrow> payload" where
  "token_payload c = \<lparr>pl_reg = ct_reg c,
     pl_priv = [(''agent_svid'', JStr (ct_AgentSVID c)), (''target'', JStr (ct_Target c)),
       (''action'', JStr (ct_Action c)), (''scope'', JStr (ct_Scope c)),
       (''request_id'', JStr (ct_RequestID c)), (''cnf'', JObj [(''jkt'', JStr (ct_Cnf_JKT c))])]\<rparr>"

definition token_claims :: "payload \<Rightarrow> CB4ATokenClaims option" where
  "token_claims pl = do {
     svid \<leftarrow> str_field ''agent_svid'' (pl_priv pl);
     target \<leftarrow> str_field ''target'' (pl_priv pl);
     action \<leftarrow> str_field ''action'' (pl_priv pl);
     scope \<leftarrow> str_field ''scope'' (pl_priv pl);
     request_id \<leftarrow> str_field ''request_id'' (pl_priv pl);
     cnf \<leftarrow> struct_members [] (json_get ''cnf'' (pl_priv pl));
     jkt \<leftarrow> str_field ''jkt'' cnf;
     Some \<lparr>ct_reg = pl_reg pl, ct_AgentSVID = svid, ct_Target = target, ct_Action = action,
           ct_Scope = scope, ct_RequestID = request_id, ct_Cnf_JKT = jkt\<rparr>}"

definition dpop_payload :: "DPoPProofClaims \<Rightarrow> payload" where
  "dpop_payload c = \<lparr>pl_reg = dp_reg c,
     pl_priv = [(''htm'', JStr (dp_HTTPMethod c)), (''htu'', JStr (dp_HTTPURI c)), (''ath'', JStr (dp_ATH c))]\<rparr>"

definition dpop_claims :: "payload \<Rightarrow> DPoPProofClaims option" where
  "dpop_claims pl = do {
     htm \<leftarrow> str_field ''htm'' (pl_priv pl);
     htu \<leftarrow> str_field ''htu'' (pl_priv pl);
     ath \<leftarrow> str_field ''ath'' (pl_priv pl);
     Some \<lparr>dp_reg = pl_reg pl, dp_HTTPMethod = htm, dp_HTTPURI = htu, dp_ATH = ath\<rparr>}"

section \<open>Thumbprint\<close>

text \<open>The verb \<open>%q\<close> on text without quotes, backslashes and control characters, which the constants
  and the base64url digits of a JWK are.\<close>

definition quoted :: "string \<Rightarrow> string" where
  "quoted s = dquote # s @ [dquote]"

definition canonical_jwk :: "JWK \<Rightarrow> string" where
  "canonical_jwk jwk = ''{\"crv\":'' @ quoted (jwk_Crv jwk) @ '',\"kty\":'' @ quoted (jwk_Kty jwk)
     @ '',\"x\":'' @ quoted (jwk_X jwk) @ '',\"y\":'' @ quoted (jwk_Y jwk) @ ''}''"

definition jwkThumbprint :: "ec_public option \<Rightarrow> key_error + string" where
  "jwkThumbprint pub = (case PublicKeyToJWK pub [] of
     Inl e \<Rightarrow> Inl e
   | Inr jwk \<Rightarrow> Inr (encodeBase64url (sha256 (canonical_jwk jwk))))"

section \<open>Mint\<close>

text \<open>The readings of one call of \<open>Mint\<close>: the parser's clock, the generated key pair, the clock, the
  token's identifier, the randomness of its signature and the clock of the audit log.\<close>

record mint_env =
  me_parse :: time
  me_key :: "string + ec_private"
  me_now :: time
  me_jti :: bytes
  me_rnd :: bytes
  me_audit :: time

definition minted_claims :: "ext \<Rightarrow> CDP \<Rightarrow> PDPDecisionClaims \<Rightarrow> string \<Rightarrow> mint_env \<Rightarrow> CB4ATokenClaims" where
  "minted_claims L c d jkt x = \<lparr>
     ct_reg = dated_claims L (cdp_issuerID c) (pd_AgentSVID d) [] (me_now x) (cdp_tokenTTL c) (generateID (me_jti x)),
     ct_AgentSVID = pd_AgentSVID d, ct_Target = pd_Target d, ct_Action = pd_Action d,
     ct_Scope = pd_Scope d, ct_RequestID = pd_RequestID d, ct_Cnf_JKT = jkt\<rparr>"

definition mint_entry :: "PDPDecisionClaims \<Rightarrow> string \<Rightarrow> duration \<Rightarrow> AuditEntry" where
  "mint_entry d jkt ttl = \<lparr>ae_Timestamp = None, ae_Event = EventCredentialMinted,
     ae_AgentSVID = pd_AgentSVID d, ae_Target = pd_Target d, ae_Action = pd_Action d,
     ae_Scope = pd_Scope d, ae_Tier = pd_Tier d, ae_RequestID = pd_RequestID d,
     ae_Detail = ''jkt='' @ jkt @ '' ttl='' @ duration_string ttl, ae_Success = True\<rparr>"

definition Mint :: "ext \<Rightarrow> mint_env \<Rightarrow> string \<Rightarrow> CDP \<times> AuditLog
    \<Rightarrow> (mint_error + MintedCredential) \<times> CDP \<times> AuditLog" where
  "Mint L x decisionJWT = (\<lambda>(c, log). case ParseDecision L (me_parse x) decisionJWT (cdp_pdpPub c) of
     Inl e \<Rightarrow> (Inl (InvalidDecision e), c, log)
   | Inr d \<Rightarrow>
       if \<not> pd_Approved d then (Inl DecisionNotApproved, c, log)
       else if vault_get (cdp_vault c) (pd_Scope d) = None then (Inl (NoCredential (pd_Scope d)), c, log)
       else (case me_key x of
         Inl e \<Rightarrow> (Inl (GenerateEphemeralKey e), c, log)
       | Inr kp \<Rightarrow> (case jwkThumbprint (Some (ec_Public kp)) of
           Inl e \<Rightarrow> (Inl (MintThumbprint e), c, log)
         | Inr jkt \<Rightarrow> (case jwt_sign L (me_rnd x) (typ_header L cb4aTokenType)
                 (token_payload (minted_claims L c d jkt x)) (cdp_sigKey c) of
             Inl e \<Rightarrow> (Inl (SignCB4AToken e), c, log)
           | Inr tokenStr \<Rightarrow> (case AuditLog_Append (me_audit x) (mint_entry d jkt (cdp_tokenTTL c)) log of
               (Some auditErr, log') \<Rightarrow> (Inl (AuditFailed auditErr), c, log')
             | (None, log') \<Rightarrow> (Inr \<lparr>mc_Token = tokenStr, mc_EphemeralKey = kp,
                 mc_EphemeralPub = Some (ec_Public kp), mc_Scope = pd_Scope d,
                 mc_ExpiresAt = me_now x + cdp_tokenTTL c\<rparr>, c, log'))))))"

section \<open>DPoP proofs\<close>

definition token_hash :: "string \<Rightarrow> string" where
  "token_hash tok = encodeBase64url (sha256 tok)"

definition dpop_header :: "ext \<Rightarrow> JWK \<Rightarrow> header" where
  "dpop_header L jwk = AList.update ''jwk'' (jwk_to_json jwk) (typ_header L dpopProofType)"

definition proof_of :: "ext \<Rightarrow> string \<Rightarrow> string \<Rightarrow> string \<Rightarrow> time \<Rightarrow> bytes \<Rightarrow> DPoPProofClaims" where
  "proof_of L tok method uri now jti = \<lparr>
     dp_reg = no_claims\<lparr>rc_IssuedAt := Some (jwt_numeric_date L now),
       rc_ExpiresAt := Some (jwt_numeric_date L (now + 2 * minute)), rc_ID := generateID jti\<rparr>,
     dp_HTTPMethod = method, dp_HTTPURI = uri, dp_ATH = token_hash tok\<rparr>"

definition GenerateDPoPProof :: "ext \<Rightarrow> MintedCredential option \<Rightarrow> string \<Rightarrow> string \<Rightarrow> time \<Rightarrow> bytes
    \<Rightarrow> bytes \<Rightarrow> dpop_error + string" where
  "GenerateDPoPProof L mc method uri now jti rnd = (case mc of
     None \<Rightarrow> Inl MintedCredentialRequired
   | Some m \<Rightarrow>
       if method = [] \<or> uri = [] then Inl MethodAndURIRequired
       else (case PublicKeyToJWK (mc_EphemeralPub m) [] of
         Inl e \<Rightarrow> Inl (SerializeEphemeral e)
       | Inr jwk \<Rightarrow> (case jwt_sign L rnd (dpop_header L jwk)
               (dpop_payload (proof_of L (mc_Token m) method uri now jti)) (mc_EphemeralKey m) of
           Inl e \<Rightarrow> Inl (SignDPoP e)
         | Inr proof \<Rightarrow> Inr proof)))"

section \<open>The resource server\<close>

definition cb4a_token_key :: "ec_public \<Rightarrow> keyfunc" where
  "cb4a_token_key key h =
     (if header_str ''typ'' h \<noteq> cb4aTokenType
      then Inl (''unexpected CB4A token typ '' @ header_str ''typ'' h) else Inr key)"

text \<open>The key in the header of a proof, marshalled and unmarshalled again; a missing member is
  \<open>null\<close>.\<close>

definition dpop_key :: keyfunc where
  "dpop_key h =
     (if header_str ''typ'' h \<noteq> dpopProofType
      then Inl (''unexpected DPoP proof typ '' @ header_str ''typ'' h)
      else (case JWKFromRawMessage (remarshal (case map_of h ''jwk'' of None \<Rightarrow> JNull | Some v \<Rightarrow> v)) of
        None \<Rightarrow> Inl ''parse DPoP proof jwk''
      | Some jwk \<Rightarrow> (case JWKToPublicKey jwk of
          Inl e \<Rightarrow> Inl ''DPoP proof jwk''
        | Inr pub \<Rightarrow> Inr pub)))"

definition call_entry :: "EventType \<Rightarrow> CB4ATokenClaims \<Rightarrow> string \<Rightarrow> string \<Rightarrow> string \<Rightarrow> bool \<Rightarrow> AuditEntry" where
  "call_entry event tok method uri detail success = \<lparr>ae_Timestamp = None, ae_Event = event,
     ae_AgentSVID = ct_AgentSVID tok, ae_Target = uri, ae_Action = method, ae_Scope = ct_Scope tok,
     ae_Tier = 0, ae_RequestID = ct_RequestID tok, ae_Detail = detail, ae_Success = success\<rparr>"

text \<open>The clock readings: of the two parses and of the audit log.  The error is \<^term>\<open>None\<close> for
  \<open>nil\<close>.\<close>

definition SimulateAPICall :: "ext \<Rightarrow> time \<times> time \<times> time \<Rightarrow> string \<Rightarrow> string \<Rightarrow> string \<Rightarrow> string
    \<Rightarrow> CDP \<times> AuditLog \<Rightarrow> call_error option \<times> CDP \<times> AuditLog" where
  "SimulateAPICall L = (\<lambda>(now1, now2, now3) tokenStr dpopProof method uri (c, log).
     (case parse_with_claims L es256_opts now1 tokenStr token_claims (cb4a_token_key (ec_Public (cdp_sigKey c))) of
        Inl e \<Rightarrow> (Some (InvalidCB4AToken e), c, log)
      | Inr (_, tok) \<Rightarrow>
     (case parse_with_claims L es256_opts now2 dpopProof dpop_claims dpop_key of
        Inl e \<Rightarrow> (Some (VerifyDPoP e), c, log)
      | Inr (h, proof) \<Rightarrow>
     if dp_HTTPMethod proof \<noteq> method then (Some (HtmMismatch method (dp_HTTPMethod proof)), c, log)
     else if dp_HTTPURI proof \<noteq> uri then (Some (HtuMismatch uri (dp_HTTPURI proof)), c, log)
     else if dp_ATH proof \<noteq> token_hash tokenStr then (Some AthMismatch, c, log)
     else (case dpop_key h of
        Inl _ \<Rightarrow> (Some ProofKeyMissing, c, log)
      | Inr proofPub \<Rightarrow>
     (case jwkThumbprint (Some proofPub) of
        Inl e \<Rightarrow> (Some (CallThumbprint e), c, log)
      | Inr wantJKT \<Rightarrow>
     if ct_Cnf_JKT tok \<noteq> wantJKT then (Some (KeyBindingMismatch (ct_Cnf_JKT tok) wantJKT), c, log)
     else let jti = rc_ID (dp_reg proof) in
     if jti = [] then (Some DPoPMissingJti, c, log)
     else if cdp_dpopJTI c jti \<noteq> None
     then (Some (DPoPReplay jti), c, audit now3 (call_entry EventReplayRejected tok method uri
            (''duplicate DPoP jti '' @ jti) False) log)
     else (case rc_ExpiresAt (dp_reg proof) of
        None \<Rightarrow> (Some NilDPoPExpiry, c, log)
      | Some exp \<Rightarrow> (None, c\<lparr>cdp_dpopJTI := (cdp_dpopJTI c)(jti \<mapsto> exp)\<rparr>,
          audit now3 (call_entry EventAPICall tok method uri ''api call authorized'' True) log)))))))"

section \<open>Lemmas\<close>

lemma token_claims_payload [simp]: "token_claims (token_payload c) = Some c"
  by (simp add: token_claims_def token_payload_def json_field_defs)

lemma dpop_claims_payload [simp]: "dpop_claims (dpop_payload c) = Some c"
  by (simp add: dpop_claims_def dpop_payload_def json_field_defs)

lemma token_claims_reg: "token_claims pl = Some c \<Longrightarrow> ct_reg c = pl_reg pl"
  by (auto simp: token_claims_def split: Option.bind_splits)

lemma dpop_claims_reg: "dpop_claims pl = Some c \<Longrightarrow> dp_reg c = pl_reg pl"
  by (auto simp: dpop_claims_def split: Option.bind_splits)

text \<open>The thumbprint of a P-256 key determines the key, unless SHA-256 collides.\<close>

lemma encodeCoord_inject: "encodeCoord a = encodeCoord b \<Longrightarrow> a = b"
  by (metis decode_encodeCoord option.inject)

lemma p256_coord_length:
  "p256_key k \<Longrightarrow> length (encodeCoord (ec_X k)) = 43 \<and> length (encodeCoord (ec_Y k)) = 43"
  using p256_p_bound length_encodeCoord by (auto simp: p256_key_def p256_on_curve_def)

lemma canonical_inject:
  assumes "p256_key a" "p256_key b" "canonical_jwk (jwk_of a []) = canonical_jwk (jwk_of b [])"
  shows "a = b"
proof -
  have "encodeCoord (ec_X a) = encodeCoord (ec_X b)" "encodeCoord (ec_Y a) = encodeCoord (ec_Y b)"
    using assms(3) p256_coord_length [OF assms(1)] p256_coord_length [OF assms(2)]
    by (simp_all add: canonical_jwk_def quoted_def jwk_of_def)
  then show ?thesis
    using assms(1,2) encodeCoord_inject by (cases a; cases b) (auto simp: p256_key_def)
qed

lemma jwkThumbprint_p256 [simp]:
  "p256_key k \<Longrightarrow> jwkThumbprint (Some k) = Inr (b64_sha256 (canonical_jwk (jwk_of k [])))"
  by (simp add: jwkThumbprint_def encodeBase64url_def b64_sha256_def)

lemma thumbprint_binds:
  assumes "p256_key a" "p256_key b" "jwkThumbprint (Some a) = jwkThumbprint (Some b)"
  shows "a = b \<or> sha256_collision (canonical_jwk (jwk_of a [])) (canonical_jwk (jwk_of b []))"
  using assms canonical_inject [OF assms(1,2)] b64_sha256_eq_cases by fastforce

lemma dpop_key_ok: "dpop_key h = Inr pub \<Longrightarrow> p256_key pub \<and> header_str ''typ'' h = dpopProofType"
  by (auto simp: dpop_key_def dest: JWKToPublicKey_ok split: if_splits option.splits sum.splits)

lemma JWKFromRawMessage_remarshal_once [simp]: "JWKFromRawMessage (remarshal (jwk_to_json j)) = Some j"
  using remarshal_jwk(1) JWKFromRawMessage_members by metis

lemma header_str_dpop [simp]:
  "header_str ''typ'' (dpop_header L jwk) = dpopProofType"
  "header_str ''alg'' (dpop_header L jwk) = header_str ''alg'' (jwt_header L)"
  by (simp_all add: dpop_header_def typ_header_def header_str_def)

lemma dpop_key_header: "p256_key k \<Longrightarrow> dpop_key (dpop_header L (jwk_of k [])) = Inr k"
  using JWKToPublicKey_of_key [of k "[]" "jwk_of k []"]
  by (simp add: dpop_key_def, simp add: dpop_header_def)

text \<open>When \<open>Mint\<close> and \<open>SimulateAPICall\<close> succeed, and what they then change.\<close>

lemma Mint_ok:
  "Mint L x dec (c, l) = (Inr mc, c', l') \<longleftrightarrow> (\<exists>d kp jkt tok.
     ParseDecision L (me_parse x) dec (cdp_pdpPub c) = Inr d \<and> pd_Approved d \<and>
     vault_get (cdp_vault c) (pd_Scope d) \<noteq> None \<and> me_key x = Inr kp \<and>
     jwkThumbprint (Some (ec_Public kp)) = Inr jkt \<and>
     jwt_sign L (me_rnd x) (typ_header L cb4aTokenType) (token_payload (minted_claims L c d jkt x)) (cdp_sigKey c) = Inr tok \<and>
     mc = \<lparr>mc_Token = tok, mc_EphemeralKey = kp, mc_EphemeralPub = Some (ec_Public kp), mc_Scope = pd_Scope d,
       mc_ExpiresAt = me_now x + cdp_tokenTTL c\<rparr> \<and>
     c' = c \<and> l' = audit (me_audit x) (mint_entry d jkt (cdp_tokenTTL c)) l)"
  by (auto simp: Mint_def split: sum.splits if_splits)

lemma Mint_keeps: "Mint L x dec (c, l) = (r, c', l') \<Longrightarrow> c' = c \<and> log_extends l l'"
  by (auto simp: Mint_def split: sum.splits if_splits)

definition call_checked :: "ext \<Rightarrow> ec_public \<Rightarrow> time \<Rightarrow> time \<Rightarrow> string \<Rightarrow> string \<Rightarrow> string \<Rightarrow> string
    \<Rightarrow> CB4ATokenClaims \<Rightarrow> DPoPProofClaims \<Rightarrow> bool" where
  "call_checked L cdpPub now1 now2 tokenStr dpopProof method uri tok proof \<longleftrightarrow> (\<exists>h h' pub.
     parse_with_claims L es256_opts now1 tokenStr token_claims (cb4a_token_key cdpPub) = Inr (h', tok) \<and>
     parse_with_claims L es256_opts now2 dpopProof dpop_claims dpop_key = Inr (h, proof) \<and>
     dp_HTTPMethod proof = method \<and> dp_HTTPURI proof = uri \<and> dp_ATH proof = token_hash tokenStr \<and>
     dpop_key h = Inr pub \<and> jwkThumbprint (Some pub) = Inr (ct_Cnf_JKT tok) \<and> rc_ID (dp_reg proof) \<noteq> [])"

lemma SimulateAPICall_ok:
  "SimulateAPICall L (now1, now2, now3) tokenStr dpopProof method uri (c, l) = (None, c', l') \<longleftrightarrow>
     (\<exists>tok proof exp. call_checked L (ec_Public (cdp_sigKey c)) now1 now2 tokenStr dpopProof method uri tok proof \<and>
       cdp_dpopJTI c (rc_ID (dp_reg proof)) = None \<and> rc_ExpiresAt (dp_reg proof) = Some exp \<and>
       c' = c\<lparr>cdp_dpopJTI := (cdp_dpopJTI c)(rc_ID (dp_reg proof) \<mapsto> exp)\<rparr> \<and>
       l' = audit now3 (call_entry EventAPICall tok method uri ''api call authorized'' True) l)"
  unfolding SimulateAPICall_def call_checked_def
  by (simp add: Let_def split: sum.split option.split prod.split if_split) (auto split: sum.splits option.splits)

lemma call_accepted:
  assumes "call_checked L (ec_Public (cdp_sigKey c)) n1 n2 tokenStr dpop method uri tok pc"
    and "cdp_dpopJTI c (rc_ID (dp_reg pc)) = None" "rc_ExpiresAt (dp_reg pc) = Some e"
  shows "SimulateAPICall L (n1, n2, n3) tokenStr dpop method uri (c, l) =
    (None, c\<lparr>cdp_dpopJTI := (cdp_dpopJTI c)(rc_ID (dp_reg pc) \<mapsto> e)\<rparr>,
     audit n3 (call_entry EventAPICall tok method uri ''api call authorized'' True) l)"
  unfolding SimulateAPICall_ok by (rule exI [of _ tok], rule exI [of _ pc]) (simp add: assms)

lemma parse_es256_sound:
  assumes "jwt_sound L" "parse_with_claims L es256_opts now tok dec kf = Inr (h, c)"
    and "\<And>pl c. dec pl = Some c \<Longrightarrow> reg c = pl_reg pl"
  shows "\<exists>k e. kf h = Inr k \<and> jwt_sig_ok L k tok \<and> rc_ExpiresAt (reg c) = Some e \<and> now < e"
proof -
  obtain t :: jwt_token where t: "jwt_parse L es256_opts now tok kf = Inr t" "tk_header t = h" "dec (tk_payload t) = Some c"
    using assms(2) by (auto simp: ok_simps)
  show ?thesis
    using jwt_soundD [OF assms(1) t(1)] t(2) assms(3) [OF t(3)]
    by (auto simp: claims_valid_def es256_opts_def split: option.splits)
qed

lemma call_checked_sound:
  assumes "jwt_sound L" "call_checked L cdpPub now1 now2 tokenStr dpopProof method uri tok proof"
  shows "\<exists>pub e e'. jwt_sig_ok L cdpPub tokenStr \<and> rc_ExpiresAt (ct_reg tok) = Some e \<and> now1 < e \<and>
    p256_key pub \<and> jwt_sig_ok L pub dpopProof \<and> jwkThumbprint (Some pub) = Inr (ct_Cnf_JKT tok) \<and>
    rc_ExpiresAt (dp_reg proof) = Some e' \<and> now2 < e'"
proof -
  obtain h h' pub where
    tok: "parse_with_claims L es256_opts now1 tokenStr token_claims (cb4a_token_key cdpPub) = Inr (h', tok)" and
    proof_ok: "parse_with_claims L es256_opts now2 dpopProof dpop_claims dpop_key = Inr (h, proof)" and
    key: "dpop_key h = Inr pub" "jwkThumbprint (Some pub) = Inr (ct_Cnf_JKT tok)"
    using assms(2) unfolding call_checked_def by blast
  obtain k e where 1: "cb4a_token_key cdpPub h' = Inr k" "jwt_sig_ok L k tokenStr" "rc_ExpiresAt (ct_reg tok) = Some e" "now1 < e"
    using parse_es256_sound [OF assms(1) tok, of ct_reg] token_claims_reg by blast
  obtain k' e' where 2: "dpop_key h = Inr k'" "jwt_sig_ok L k' dpopProof" "rc_ExpiresAt (dp_reg proof) = Some e'" "now2 < e'"
    using parse_es256_sound [OF assms(1) proof_ok, of dp_reg] dpop_claims_reg by blast
  have "k = cdpPub" "k' = pub"
    using 1(1) 2(1) key(1) by (auto simp: cb4a_token_key_def split: if_splits)
  then show ?thesis
    using 1 2 key(2) dpop_key_ok [OF key(1)] by blast
qed

lemma call_checked_functional:
  assumes "jwt_functional L"
    and "call_checked L k n1 n2 tokenStr dpopProof m u tok proof"
    and "call_checked L k' n1' n2' tokenStr' dpopProof m' u' tok' proof'"
  shows "proof' = proof"
  using assms unfolding call_checked_def jwt_functional_def parse_with_claims_ok by (metis option.inject)

section \<open>Histories\<close>

datatype cdp_op = OpMint mint_env string | OpCall "time \<times> time \<times> time" string string string string

datatype cdp_reply = Minted "mint_error + MintedCredential" | Called "call_error option"

fun cdp_step :: "ext \<Rightarrow> cdp_op \<Rightarrow> CDP \<times> AuditLog \<Rightarrow> cdp_reply \<times> CDP \<times> AuditLog" where
  "cdp_step L (OpMint x d) s = apfst Minted (Mint L x d s)"
| "cdp_step L (OpCall t tok dpop m u) s = apfst Called (SimulateAPICall L t tok dpop m u s)"

text \<open>What any call does to the replay table: nothing, or one new identifier.\<close>

lemma SimulateAPICall_keeps:
  "SimulateAPICall L (now1, now2, now3) tokenStr dpopProof method uri (c, l) = (r, c', l') \<Longrightarrow>
     cdp_dpopJTI c \<subseteq>\<^sub>m cdp_dpopJTI c' \<and> cdp_sigKey c' = cdp_sigKey c \<and> log_extends l l'"
  unfolding SimulateAPICall_def
  by (auto simp: Let_def map_le_def split: sum.splits option.splits if_splits)

lemma cdp_step_keeps:
  "cdp_step L op (c, l) = (r, c', l') \<Longrightarrow>
     cdp_dpopJTI c \<subseteq>\<^sub>m cdp_dpopJTI c' \<and> cdp_sigKey c' = cdp_sigKey c \<and> log_extends l l'"
  using Mint_keeps SimulateAPICall_keeps
  by (cases op) (fastforce simp: apfst_def map_prod_def split: prod.splits)+

interpretation cdp_log: audited "cdp_step L" for L
  by unfold_locales (use cdp_step_keeps in blast)

text \<open>The reply says that a call with this proof was accepted.\<close>

fun proof_accepted :: "string \<Rightarrow> cdp_op \<times> cdp_reply \<Rightarrow> bool" where
  "proof_accepted dpop (OpCall t tok dpop' m u, Called r) = (dpop' = dpop \<and> r = None)"
| "proof_accepted dpop _ = False"

text \<open>Once its identifier is in the table, a proof is never accepted.\<close>

lemma accepted_records:
  assumes "cdp_step L op (c, l) = (r, c', l')" "proof_accepted dpop (op, r)"
  shows "\<exists>tokenStr n1 n2 m u tok proof.
    call_checked L (ec_Public (cdp_sigKey c)) n1 n2 tokenStr dpop m u tok proof \<and>
    cdp_dpopJTI c (rc_ID (dp_reg proof)) = None \<and> cdp_dpopJTI c' (rc_ID (dp_reg proof)) \<noteq> None"
proof (cases op)
  case (OpCall t tokenStr dpop' m u)
  then obtain n1 n2 n3 where "t = (n1, n2, n3)" "dpop' = dpop"
    "SimulateAPICall L (n1, n2, n3) tokenStr dpop m u (c, l) = (None, c', l')"
    using assms by (cases t) (auto simp: apfst_def map_prod_def split: prod.splits)
  then show ?thesis
    unfolding SimulateAPICall_ok by fastforce
qed (use assms in \<open>auto simp: apfst_def map_prod_def split: prod.splits\<close>)

lemma accepted_never_again:
  assumes "jwt_functional L" "call_checked L k n1 n2 tokenStr dpop m u tok proof"
    and "cdp_dpopJTI c (rc_ID (dp_reg proof)) \<noteq> None"
    and "run_ops (cdp_step L) ops (c, l) = (rs, c', l')"
  shows "filter (proof_accepted dpop) (zip ops rs) = []"
  using assms(3,4)
proof (induction ops arbitrary: c l rs)
  case (Cons op ops)
  obtain r c1 l1 rs1 where op: "cdp_step L op (c, l) = (r, c1, l1)"
    and ops: "run_ops (cdp_step L) ops (c1, l1) = (rs1, c', l')" and rs: "rs = r # rs1"
    using Cons.prems(2) by (auto simp: run_ops_Cons simp del: run_ops.simps)
  have "\<not> proof_accepted dpop (op, r)"
    using accepted_records [OF op, of dpop] call_checked_functional [OF assms(1,2)] Cons.prems(1) by metis
  moreover have "cdp_dpopJTI c1 (rc_ID (dp_reg proof)) \<noteq> None"
    using cdp_step_keeps [OF op] Cons.prems(1) by (auto simp: map_le_def dom_def)
  ultimately show ?case
    using Cons.IH [OF _ ops] rs by simp
qed simp

lemma proof_once:
  assumes "jwt_functional L" "run_ops (cdp_step L) ops (c, l) = (rs, c', l')"
  shows "length (filter (proof_accepted dpop) (zip ops rs)) \<le> 1"
  using assms(2)
proof (induction ops arbitrary: c l rs)
  case (Cons op ops)
  obtain r c1 l1 rs1 where op: "cdp_step L op (c, l) = (r, c1, l1)"
    and ops: "run_ops (cdp_step L) ops (c1, l1) = (rs1, c', l')" and rs: "rs = r # rs1"
    using Cons.prems by (auto simp: run_ops_Cons simp del: run_ops.simps)
  show ?case
  proof (cases "proof_accepted dpop (op, r)")
    case True
    then have "filter (proof_accepted dpop) (zip ops rs1) = []"
      using accepted_records [OF op] accepted_never_again [OF assms(1) _ _ ops] by blast
    then show ?thesis
      using rs by simp
  next
    case False
    then show ?thesis
      using Cons.IH [OF ops] rs by simp
  qed
qed simp

section \<open>From a decision to a call\<close>

lemma minted_token:
  assumes "jwt_complete L" "jwt_es256 L" "jwt_dates L"
    and mint: "Mint L x dec (c, l) = (Inr mc, c, l1)" and kp: "me_key x = Inr kp" "p256_key (ec_Public kp)"
    and d: "ParseDecision L (me_parse x) dec (cdp_pdpPub c) = Inr d"
    and tc: "tc = minted_claims L c d (b64_sha256 (canonical_jwk (jwk_of (ec_Public kp) []))) x"
    and wire: "wire_ok L (typ_header L cb4aTokenType) (token_payload tc)"
    and t: "me_now x \<le> t" "t < jwt_numeric_date L (mc_ExpiresAt mc)"
    and kf: "kf (typ_header L cb4aTokenType) = Inr (ec_Public (cdp_sigKey c))"
  shows "parse_with_claims L es256_opts t (mc_Token mc) token_claims kf = Inr (typ_header L cb4aTokenType, tc)"
proof -
  have mc: "mc_ExpiresAt mc = me_now x + cdp_tokenTTL c"
    and tok: "jwt_sign L (me_rnd x) (typ_header L cb4aTokenType) (token_payload tc) (cdp_sigKey c) = Inr (mc_Token mc)"
    using mint kp d tc unfolding Mint_ok by auto
  show ?thesis
  proof (rule parse_signed [where kf = kf, OF assms(1) tok wire kf])
    show "claims_valid es256_opts t (typ_header L cb4aTokenType) (pl_reg (token_payload tc))"
      using claims_valid_dated [OF assms(2,3) t(1), of "cdp_tokenTTL c" "typ_header L cb4aTokenType"] t(2) mc tc
      by (simp add: token_payload_def minted_claims_def)
  qed simp
qed

lemma minted_call:
  assumes "jwt_complete L" "jwt_es256 L" "jwt_dates L"
    and mint: "Mint L x dec (c, l) = (Inr mc, c, l1)" and kp: "me_key x = Inr kp" "p256_key (ec_Public kp)"
    and gen: "GenerateDPoPProof L (Some mc) method uri now jti rnd = Inr dpop" and jti: "length jti = 16"
    and d: "ParseDecision L (me_parse x) dec (cdp_pdpPub c) = Inr d"
    and tc: "tc = minted_claims L c d (b64_sha256 (canonical_jwk (jwk_of (ec_Public kp) []))) x"
    and pc: "pc = proof_of L (mc_Token mc) method uri now jti"
    and wire: "wire_ok L (typ_header L cb4aTokenType) (token_payload tc)"
      "wire_ok L (dpop_header L (jwk_of (ec_Public kp) [])) (dpop_payload pc)"
    and t1: "me_now x \<le> t1" "t1 < jwt_numeric_date L (mc_ExpiresAt mc)"
    and t2: "now \<le> t2" "t2 < jwt_numeric_date L (now + 2 * minute)"
  shows "call_checked L (ec_Public (cdp_sigKey c)) t1 t2 (mc_Token mc) dpop method uri tc pc"
proof -
  let ?jwk = "jwk_of (ec_Public kp) []"
  have mc: "mc_EphemeralPub mc = Some (ec_Public kp)" "mc_EphemeralKey mc = kp"
    using mint kp d tc unfolding Mint_ok by auto
  have dpop: "jwt_sign L rnd (dpop_header L ?jwk) (dpop_payload pc) kp = Inr dpop"
    using gen mc kp(2) pc by (auto simp: GenerateDPoPProof_def split: if_splits sum.splits)
  have "parse_with_claims L es256_opts t1 (mc_Token mc) token_claims (cb4a_token_key (ec_Public (cdp_sigKey c)))
      = Inr (typ_header L cb4aTokenType, tc)"
    by (rule minted_token [OF assms(1-3) mint kp d tc wire(1) t1]) (simp add: cb4a_token_key_def)
  moreover have "parse_with_claims L es256_opts t2 dpop dpop_claims dpop_key = Inr (dpop_header L ?jwk, pc)"
  proof (rule parse_signed [OF assms(1) dpop wire(2)])
    show "claims_valid es256_opts t2 (dpop_header L ?jwk) (pl_reg (dpop_payload pc))"
      using t2 assms(2) jwt_datesD(1) [OF assms(3), of now] pc
      by (simp add: claims_valid_def es256_opts_def dpop_payload_def proof_of_def no_claims_def jwt_es256_def)
  qed (simp_all add: dpop_key_header kp)
  ultimately show ?thesis
    using kp(2) tc pc generateID_ne [OF jti]
    by (simp add: call_checked_def dpop_key_header, simp add: minted_claims_def proof_of_def no_claims_def)
qed

section \<open>Closed instances\<close>

text \<open>The decision of the closed instance of the PDP, the token minted for it, and a proof for a call
  whose method and URI are not those of the decision; beside them the AgentTokens of the agent.\<close>

definition ex_cdp :: CDP where
  "ex_cdp = NewCDP NewInMemoryVault (Some (ec_Public key_one)) key_one ''cdp'' 0"

definition ex_mint :: mint_env where
  "ex_mint = \<lparr>me_parse = 0, me_key = Inr key_two, me_now = 0, me_jti = replicate 16 (CHR ''t''), me_rnd = [],
     me_audit = 0\<rparr>"

definition ex_jkt :: string where
  "ex_jkt = b64_sha256 (canonical_jwk (jwk_of (ec_Public key_two) []))"

definition ex_token_claims :: CB4ATokenClaims where
  "ex_token_claims = minted_claims (ledger_ext []) ex_cdp ex_decision ex_jkt ex_mint"

definition ex_dpop_jti :: bytes where
  "ex_dpop_jti = replicate 16 (CHR ''p'')"

definition ex_dpop_claims :: DPoPProofClaims where
  "ex_dpop_claims = proof_of (ledger_ext []) ''token'' ''DELETE'' ''https://other'' 0 ex_dpop_jti"

definition ex_broker_ledger :: "ledger_entry list" where
  "ex_broker_ledger = ex_ledger @
     [\<lparr>le_text = ''decision'', le_signer = key_one, le_token = \<lparr>tk_header = typ_header (ledger_ext []) pdpDecisionType,
         tk_payload = decision_payload ex_decision\<rparr>\<rparr>,
      \<lparr>le_text = ''token'', le_signer = key_one, le_token = \<lparr>tk_header = typ_header (ledger_ext []) cb4aTokenType,
         tk_payload = token_payload ex_token_claims\<rparr>\<rparr>,
      \<lparr>le_text = ''proof'', le_signer = key_two, le_token =
         \<lparr>tk_header = dpop_header (ledger_ext []) (jwk_of (ec_Public key_two) []), tk_payload = dpop_payload ex_dpop_claims\<rparr>\<rparr>]"

definition ex_broker_lib :: ext where
  "ex_broker_lib = ledger_ext ex_broker_ledger"

definition ex_mc :: MintedCredential where
  "ex_mc = \<lparr>mc_Token = ''token'', mc_EphemeralKey = key_two, mc_EphemeralPub = Some (ec_Public key_two),
     mc_Scope = ''payment:AGENT_CREDIT:100'', mc_ExpiresAt = 15 * minute\<rparr>"

lemma ex_token_other [simp]: "ex_token s \<noteq> ''decision''" "ex_token s \<noteq> ''token''" "ex_token s \<noteq> ''proof''"
  by (simp_all add: ex_token_def b64_chr_def char_simps)

lemma broker_laws:
  "jwt_sound ex_broker_lib" "jwt_functional ex_broker_lib" "jwt_complete ex_broker_lib"
  "jwt_es256 ex_broker_lib" "jwt_dates ex_broker_lib"
proof -
  show "jwt_complete ex_broker_lib"
    unfolding ex_broker_lib_def by (rule ledger_complete) (simp add: ex_broker_ledger_def ex_ledger_def ex_entry_def)
qed (simp_all only: ex_broker_lib_def ledger_laws)

lemma broker_parts:
  "typ_header ex_broker_lib = typ_header (ledger_ext [])"
  "dpop_header ex_broker_lib = dpop_header (ledger_ext [])"
  "issued_decision ex_broker_lib = issued_decision (ledger_ext [])"
  "minted_claims ex_broker_lib = minted_claims (ledger_ext [])"
  "proof_of ex_broker_lib = proof_of (ledger_ext [])"
  "jwt_numeric_date ex_broker_lib d = d - d mod second"
  unfolding ex_broker_lib_def
  by (simp_all only: fun_eq_iff dpop_header_def issued_decision_def minted_claims_def proof_of_def
      ledger_parts(2) [of ex_broker_ledger] ledger_parts(5) [of ex_broker_ledger]
      dated_claims_ledger [of ex_broker_ledger]) (simp_all add: ledger_ext_def)

lemma broker_types:
  "agentTokenType \<noteq> pdpDecisionType" "agentTokenType \<noteq> cb4aTokenType" "agentTokenType \<noteq> dpopProofType"
  "pdpDecisionType \<noteq> cb4aTokenType" "pdpDecisionType \<noteq> dpopProofType" "cb4aTokenType \<noteq> dpopProofType"
  by (simp_all add: agentTokenType_def pdpDecisionType_def cb4aTokenType_def dpopProofType_def)

lemma broker_sign:
  "jwt_sign ex_broker_lib rnd (typ_header (ledger_ext []) pdpDecisionType) (decision_payload ex_decision) key_one = Inr ''decision''"
  "jwt_sign ex_broker_lib rnd (typ_header (ledger_ext []) cb4aTokenType) (token_payload ex_token_claims) key_one = Inr ''token''"
  "jwt_sign ex_broker_lib rnd (dpop_header (ledger_ext []) (jwk_of (ec_Public key_two) [])) (dpop_payload ex_dpop_claims) key_two
    = Inr ''proof''"
proof -
  have "h \<noteq> h'" if "header_str ''typ'' h \<noteq> header_str ''typ'' h'" for h h'
    using that by auto
  then have distinct: "distinct (map le_token ex_broker_ledger)"
    using broker_types by (simp add: ex_broker_ledger_def ex_ledger_def ex_entry_def ex_header_def go_int_def)
  show "jwt_sign ex_broker_lib rnd (typ_header (ledger_ext []) pdpDecisionType) (decision_payload ex_decision) key_one = Inr ''decision''"
    "jwt_sign ex_broker_lib rnd (typ_header (ledger_ext []) cb4aTokenType) (token_payload ex_token_claims) key_one = Inr ''token''"
    "jwt_sign ex_broker_lib rnd (dpop_header (ledger_ext []) (jwk_of (ec_Public key_two) [])) (dpop_payload ex_dpop_claims) key_two
      = Inr ''proof''"
    using ledger_sign [OF _ distinct, of "ex_broker_ledger ! 2"] ledger_sign [OF _ distinct, of "ex_broker_ledger ! 3"]
      ledger_sign [OF _ distinct, of "ex_broker_ledger ! 4"]
    by (simp_all add: ex_broker_lib_def, simp_all add: ex_broker_ledger_def ex_ledger_def)
qed

lemma broker_numeric_wire: "wire_ok ex_broker_lib = wire_ok ex_pdp_lib"
  by (simp add: fun_eq_iff wire_ok_def claims_wire_def broker_parts ex_numeric)

lemma broker_decision: "ParseDecision ex_broker_lib 0 ''decision'' (Some (ec_Public key_one)) = Inr ex_decision"
proof -
  have h: "typ_header ex_pdp_lib = typ_header (ledger_ext [])"
    by (simp add: ex_pdp_lib_def)
  have d: "issued_decision (ledger_ext []) ex_pdp ex_envelope TierHITL True ex_reqID ''alice'' ex_env = ex_decision"
    by (simp add: ex_decision_def)
  have "ParseDecision ex_broker_lib 0 ''decision'' (Some (ec_Public (pdp_sigKey ex_pdp))) = Inr ex_decision"
    by (rule ParseDecision_issued [OF broker_laws(3-5), where env = ex_envelope and tier = TierHITL and approved = True
          and i = ex_reqID and a = "''alice''" and x = ex_env])
      (simp_all add: issueDecision_def broker_parts d broker_sign broker_numeric_wire ex_decision_wire [unfolded h],
       simp_all add: TierHITL_def ex_env_def)
  then show ?thesis by simp
qed

lemma ex_cdp_simps [simp]:
  "cdp_pdpPub ex_cdp = Some (ec_Public key_one)" "cdp_sigKey ex_cdp = key_one" "cdp_tokenTTL ex_cdp = 15 * minute"
  "cdp_dpopJTI ex_cdp = Map.empty" "cdp_vault ex_cdp = NewInMemoryVault" "cdp_issuerID ex_cdp = ''cdp''"
  by (simp_all add: ex_cdp_def NewCDP_def)

definition ex_log3 :: AuditLog where
  "ex_log3 = audit 0 (mint_entry ex_decision ex_jkt (15 * minute)) ex_log2"

lemma ex_Mint: "Mint ex_broker_lib ex_mint ''decision'' (ex_cdp, ex_log2) = (Inr ex_mc, ex_cdp, ex_log3)"
proof -
  have "pd_Approved ex_decision" "pd_Scope ex_decision = ''payment:AGENT_CREDIT:100''"
    by (simp_all add: ex_decision_def issued_decision_def ex_envelope_def)
  then show ?thesis
    unfolding Mint_ok
    by (intro exI [of _ ex_decision] exI [of _ key_two] exI [of _ ex_jkt] exI [of _ "''token''"])
      (simp add: broker_decision broker_parts ex_mint_def ex_jkt_def vault_get_def NewInMemoryVault_def
        ex_mc_def ex_log3_def broker_sign flip: ex_token_claims_def [unfolded ex_mint_def ex_jkt_def])
qed

lemma ex_Generate_dpop: "GenerateDPoPProof ex_broker_lib (Some ex_mc) ''DELETE'' ''https://other'' 0 ex_dpop_jti rnd = Inr ''proof''"
  by (simp add: GenerateDPoPProof_def ex_mc_def broker_parts broker_sign flip: ex_dpop_claims_def)

lemma ex_broker_wire:
  "wire_ok ex_broker_lib (typ_header (ledger_ext []) cb4aTokenType) (token_payload ex_token_claims)"
  "wire_ok ex_broker_lib (dpop_header (ledger_ext []) (jwk_of (ec_Public key_two) [])) (dpop_payload ex_dpop_claims)"
  by (simp_all add: wire_ok_def claims_wire_def broker_parts token_payload_def ex_token_claims_def minted_claims_def
      dpop_payload_def ex_dpop_claims_def proof_of_def dpop_header_def typ_header_def ledger_ext_def dated_claims_def
      no_claims_def ex_decision_def issued_decision_def ex_envelope_def ex_env_def ex_mint_def ex_dpop_jti_def
      generateID_def cb4aTokenType_def dpopProofType_def token_hash_def encodeBase64url_def ex_jkt_def b64_sha256_def
      char_simps del: b64_encode.simps)

lemma ex_call:
  "\<exists>c' l'. SimulateAPICall ex_broker_lib (minute, minute, 0) ''token'' ''proof'' ''DELETE'' ''https://other'' (ex_cdp, ex_log3)
      = (None, c', l')"
proof -
  have "call_checked ex_broker_lib (ec_Public (cdp_sigKey ex_cdp)) minute minute (mc_Token ex_mc) ''proof'' ''DELETE'' ''https://other''
      ex_token_claims ex_dpop_claims"
    by (rule minted_call [OF broker_laws(3-5) ex_Mint _ _ ex_Generate_dpop, where kp = key_two and d = ex_decision])
      (simp_all add: broker_parts ex_broker_wire broker_decision,
       simp_all add: ex_mc_def ex_mint_def ex_dpop_jti_def broker_decision ex_token_claims_def ex_dpop_claims_def
         ex_jkt_def)
  moreover have "rc_ExpiresAt (dp_reg ex_dpop_claims) \<noteq> None"
    by (simp add: ex_dpop_claims_def proof_of_def)
  ultimately show ?thesis
    unfolding SimulateAPICall_ok by (auto simp: ex_mc_def) blast
qed

section \<open>Properties\<close>

text \<open>C21: No credential without a decision.  \<open>Mint\<close> returns a credential only for a decision whose
  signature verifies under the configured PDP key, which has not expired and is an approval, and
  only for a scope that the vault holds; the call leaves the CDP's state alone and appends to the
  log the one entry that names the agent, target, scope and request of the decision.\<close>

theorem Mint_only_approved:
  assumes "jwt_sound L" "Mint L x dec (c, l) = (Inr mc, c', l')"
  shows "\<exists>pub d e entry. cdp_pdpPub c = Some pub \<and> jwt_sig_ok L pub dec \<and>
    ParseDecision L (me_parse x) dec (Some pub) = Inr d \<and>
    rc_ExpiresAt (pd_reg d) = Some e \<and> me_parse x < e \<and> pd_Approved d \<and>
    vault_get (cdp_vault c) (pd_Scope d) \<noteq> None \<and> mc_Scope mc = pd_Scope d \<and>
    mc_ExpiresAt mc = me_now x + cdp_tokenTTL c \<and> c' = c \<and>
    AuditLog_Entries l' = AuditLog_Entries l @ [entry] \<and> ae_Event entry = EventCredentialMinted \<and>
    ae_AgentSVID entry = pd_AgentSVID d \<and> ae_Target entry = pd_Target d \<and> ae_Scope entry = pd_Scope d \<and>
    ae_RequestID entry = pd_RequestID d"
proof -
  obtain d jkt where d: "ParseDecision L (me_parse x) dec (cdp_pdpPub c) = Inr d" "pd_Approved d"
    "vault_get (cdp_vault c) (pd_Scope d) \<noteq> None" "mc_Scope mc = pd_Scope d"
    "mc_ExpiresAt mc = me_now x + cdp_tokenTTL c" "c' = c"
    and l': "l' = audit (me_audit x) (mint_entry d jkt (cdp_tokenTTL c)) l"
    using assms(2) unfolding Mint_ok by auto
  obtain pub where pub: "cdp_pdpPub c = Some pub"
    using d(1) by (auto simp: ParseDecision_def split: option.splits)
  obtain e where e: "jwt_sig_ok L pub dec" "rc_ExpiresAt (pd_reg d) = Some e" "me_parse x < e"
    using ParseDecision_sound [OF assms(1), of "me_parse x" dec pub d] d(1) pub by auto
  have "AuditLog_Entries l' = AuditLog_Entries l @ [stamp (me_audit x) (mint_entry d jkt (cdp_tokenTTL c))]"
    by (simp add: l' AuditLog_Entries_def)
  then show ?thesis
    using d pub e by (fastforce simp: stamp_def mint_entry_def)
qed

theorem Mint_only_approved_witness:
  "jwt_sig_ok ex_broker_lib (ec_Public key_one) ''decision'' \<and> (\<exists>e. 0 < (e :: time))"
  using Mint_only_approved [OF broker_laws(1) ex_Mint] by (auto simp: ex_mint_def)

text \<open>C22: From a decision to a call.  The credential that \<open>Mint\<close> returned and a DPoP proof that was
  generated with it pass the checks of the resource server, while both are valid and the proof is
  new, and the same proof is refused from then on.  Method and URI are any: they need not be the
  action and the target that the decision, and the token, are about.\<close>

theorem minted_credential_works:
  assumes "jwt_complete L" "jwt_es256 L" "jwt_dates L"
    and "Mint L x dec (c, l) = (Inr mc, c, l1)" "me_key x = Inr kp" "p256_key (ec_Public kp)"
    and "GenerateDPoPProof L (Some mc) method uri now jti rnd = Inr dpop" "length jti = 16"
    and "ParseDecision L (me_parse x) dec (cdp_pdpPub c) = Inr d"
    and "tc = minted_claims L c d (b64_sha256 (canonical_jwk (jwk_of (ec_Public kp) []))) x"
    and "pc = proof_of L (mc_Token mc) method uri now jti"
    and "wire_ok L (typ_header L cb4aTokenType) (token_payload tc)"
    and "wire_ok L (dpop_header L (jwk_of (ec_Public kp) [])) (dpop_payload pc)"
    and "me_now x \<le> t1" "t1 < jwt_numeric_date L (mc_ExpiresAt mc)"
    and "now \<le> t2" "t2 < jwt_numeric_date L (now + 2 * minute)"
    and "cdp_dpopJTI c (generateID jti) = None"
  shows "\<exists>c' l'. SimulateAPICall L (t1, t2, t3) (mc_Token mc) dpop method uri (c, l1) = (None, c', l') \<and>
    fst (SimulateAPICall L (t1, t2, t3) (mc_Token mc) dpop method uri (c', l')) \<noteq> None"
proof -
  have checked: "call_checked L (ec_Public (cdp_sigKey c)) t1 t2 (mc_Token mc) dpop method uri tc pc"
    by (rule minted_call [OF assms(1-17)])
  have pc: "rc_ID (dp_reg pc) = generateID jti" "rc_ExpiresAt (dp_reg pc) = Some (jwt_numeric_date L (now + 2 * minute))"
    by (simp_all add: assms(11) proof_of_def)
  let ?c = "c\<lparr>cdp_dpopJTI := (cdp_dpopJTI c)(generateID jti \<mapsto> jwt_numeric_date L (now + 2 * minute))\<rparr>"
  have first: "SimulateAPICall L (t1, t2, t3) (mc_Token mc) dpop method uri (c, l1) = (None, ?c,
      audit t3 (call_entry EventAPICall tc method uri ''api call authorized'' True) l1)"
    using call_accepted [OF checked] pc assms(18) by simp
  have "\<not> (\<exists>tok proof. call_checked L (ec_Public (cdp_sigKey ?c)) t1 t2 (mc_Token mc) dpop method uri tok proof \<and>
      cdp_dpopJTI ?c (rc_ID (dp_reg proof)) = None)"
  proof
    assume "\<exists>tok proof. call_checked L (ec_Public (cdp_sigKey ?c)) t1 t2 (mc_Token mc) dpop method uri tok proof \<and>
      cdp_dpopJTI ?c (rc_ID (dp_reg proof)) = None"
    then obtain tok pf where again: "call_checked L (ec_Public (cdp_sigKey c)) t1 t2 (mc_Token mc) dpop method uri tok pf"
      "rc_ID (dp_reg pf) \<noteq> generateID jti" by (auto split: if_splits)
    then have "pf = pc"
      using checked unfolding call_checked_def by auto
    then show False
      using again(2) pc by simp
  qed
  then have "SimulateAPICall L (t1, t2, t3) (mc_Token mc) dpop method uri (?c, l') \<noteq> (None, q)" for l' q
    by (cases q) (simp only: SimulateAPICall_ok, blast)
  then show ?thesis
    using first by (metis prod.collapse)
qed

theorem minted_credential_works_witness:
  "\<exists>c' l'. SimulateAPICall ex_broker_lib (minute, minute, 0) ''token'' ''proof'' ''DELETE'' ''https://other'' (ex_cdp, ex_log3)
      = (None, c', l')"
proof -
  have "\<exists>c' l'. SimulateAPICall ex_broker_lib (minute, minute, 0) (mc_Token ex_mc) ''proof'' ''DELETE'' ''https://other'' (ex_cdp, ex_log3)
      = (None, c', l') \<and>
      fst (SimulateAPICall ex_broker_lib (minute, minute, 0) (mc_Token ex_mc) ''proof'' ''DELETE'' ''https://other'' (c', l')) \<noteq> None"
    by (rule minted_credential_works [OF broker_laws(3-5) ex_Mint _ _ ex_Generate_dpop, where kp = key_two
          and d = ex_decision and tc = ex_token_claims and pc = ex_dpop_claims])
      (simp_all add: broker_parts ex_broker_wire broker_decision,
       simp_all add: ex_mc_def ex_mint_def ex_dpop_jti_def broker_decision ex_token_claims_def ex_dpop_claims_def
         ex_jkt_def)
  then show ?thesis
    by (auto simp: ex_mc_def)
qed

text \<open>What an accepted call has shown.  The token carries a signature of the CDP and has not
  expired; the proof is for this method, this URI and this token (\<open>ath\<close>), its signature verifies
  under the P-256 key in its header, and the thumbprint of that key is the one in the token.  So
  all proofs accepted with one token are signed with one key, unless SHA-256 collides.\<close>

theorem accepted_call_bound:
  assumes "jwt_sound L" "jwt_functional L"
    and "SimulateAPICall L (now1, now2, now3) tokenStr dpop method uri (c, l) = (None, c1, l1)"
    and "SimulateAPICall L (t1, t2, t3) tokenStr dpop' method' uri' (c2, l2) = (None, c3, l3)"
  shows "\<exists>tok k k'. ct_Cnf_JKT tok = b64_sha256 (canonical_jwk (jwk_of k [])) \<and>
    (\<exists>e. rc_ExpiresAt (ct_reg tok) = Some e \<and> now1 < e) \<and>
    jwt_sig_ok L (ec_Public (cdp_sigKey c)) tokenStr \<and> p256_key k \<and> jwt_sig_ok L k dpop \<and>
    p256_key k' \<and> jwt_sig_ok L k' dpop' \<and>
    (k' = k \<or> sha256_collision (canonical_jwk (jwk_of k [])) (canonical_jwk (jwk_of k' []))) \<and>
    (\<exists>pc. call_checked L (ec_Public (cdp_sigKey c)) now1 now2 tokenStr dpop method uri tok pc \<and>
      dp_HTTPMethod pc = method \<and> dp_HTTPURI pc = uri \<and> dp_ATH pc = token_hash tokenStr)"
proof -
  obtain tok pc where 1: "call_checked L (ec_Public (cdp_sigKey c)) now1 now2 tokenStr dpop method uri tok pc"
    using assms(3) unfolding SimulateAPICall_ok by blast
  obtain tok' pc' where 2: "call_checked L (ec_Public (cdp_sigKey c2)) t1 t2 tokenStr dpop' method' uri' tok' pc'"
    using assms(4) unfolding SimulateAPICall_ok by blast
  have tok': "tok' = tok"
    using 1 2 assms(2) unfolding call_checked_def jwt_functional_def parse_with_claims_ok
    by (metis option.inject)
  obtain k e where k: "jwt_sig_ok L (ec_Public (cdp_sigKey c)) tokenStr" "rc_ExpiresAt (ct_reg tok) = Some e" "now1 < e"
    "p256_key k" "jwt_sig_ok L k dpop" "jwkThumbprint (Some k) = Inr (ct_Cnf_JKT tok)"
    using call_checked_sound [OF assms(1) 1] by blast
  obtain k' where k': "p256_key k'" "jwt_sig_ok L k' dpop'" "jwkThumbprint (Some k') = Inr (ct_Cnf_JKT tok)"
    using call_checked_sound [OF assms(1) 2] tok' by blast
  have "k' = k \<or> sha256_collision (canonical_jwk (jwk_of k [])) (canonical_jwk (jwk_of k' []))"
    using thumbprint_binds [OF k(4) k'(1)] k(6) k'(3) by auto
  moreover have "ct_Cnf_JKT tok = b64_sha256 (canonical_jwk (jwk_of k []))"
    using k(4,6) by simp
  moreover have "dp_HTTPMethod pc = method \<and> dp_HTTPURI pc = uri \<and> dp_ATH pc = token_hash tokenStr"
    using 1 unfolding call_checked_def by blast
  ultimately show ?thesis
    using 1 k k' by blast
qed

theorem accepted_call_bound_witness:
  "jwt_sig_ok ex_broker_lib (ec_Public key_one) ''token''"
proof -
  obtain c' l' where call: "SimulateAPICall ex_broker_lib (minute, minute, 0) ''token'' ''proof'' ''DELETE'' ''https://other'' (ex_cdp, ex_log3)
      = (None, c', l')"
    using ex_call by blast
  show ?thesis
    using accepted_call_bound [OF broker_laws(1,2) call call] by auto
qed

text \<open>C23: In any history of a CDP, whatever credentials it mints and whatever calls it serves, one
  DPoP proof is accepted at most once: the table of identifiers only grows.\<close>

theorem dpop_proof_once:
  assumes "jwt_functional L" "run_ops (cdp_step L) ops (c, l) = (rs, c', l')"
  shows "length (filter (proof_accepted dpop) (zip ops rs)) \<le> 1 \<and> cdp_dpopJTI c \<subseteq>\<^sub>m cdp_dpopJTI c'"
proof -
  have "cdp_dpopJTI c \<subseteq>\<^sub>m cdp_dpopJTI c'"
    using assms(2)
  proof (induction ops arbitrary: c l rs)
    case (Cons op ops)
    then show ?case
      by (auto simp: run_ops_Cons simp del: run_ops.simps dest!: cdp_step_keeps intro: map_le_trans)
  qed simp
  then show ?thesis
    using proof_once [OF assms] by blast
qed

theorem dpop_proof_once_witness:
  "\<exists>rs c' l'. run_ops (cdp_step ex_broker_lib)
     [OpCall (minute, minute, 0) ''token'' ''proof'' ''DELETE'' ''https://other'',
      OpCall (minute, minute, 0) ''token'' ''proof'' ''DELETE'' ''https://other''] (ex_cdp, ex_log3) = (rs, c', l') \<and>
   rs ! 0 = Called None \<and> rs ! 1 \<noteq> Called None"
proof -
  let ?call = "OpCall (minute, minute, 0) ''token'' ''proof'' ''DELETE'' ''https://other''"
  obtain rs c' l' where run: "run_ops (cdp_step ex_broker_lib) [?call, ?call] (ex_cdp, ex_log3) = (rs, c', l')"
    by (metis prod.exhaust)
  obtain c1 l1 where "SimulateAPICall ex_broker_lib (minute, minute, 0) ''token'' ''proof'' ''DELETE'' ''https://other'' (ex_cdp, ex_log3)
      = (None, c1, l1)"
    using ex_call by blast
  then obtain r where "rs = [Called None, r]"
    using run by (auto simp: apfst_def map_prod_def split: prod.splits)
  then show ?thesis
    using dpop_proof_once [OF broker_laws(2) run, of "''proof''"] run by auto
qed

end
