(* ===== verification/WireText.thy ===== *)
theory WireText
  imports Issued AgentToken
begin

text \<open>
  When a token survives the wire: headers and payloads whose texts are UTF-8.  The walks through
  the browser demo discharge \<open>wire_ok\<close> from here, so that their statements need only say that the
  texts a user typed are UTF-8.
\<close>

text \<open>The library writes UTF-8: the header it starts from, and WIT claims with a key.\<close>

definition wire_utf8 :: "ext \<Rightarrow> bool" where
  "wire_utf8 L \<longleftrightarrow> json_utf8 (JObj (jwt_header L)) \<and>
     (\<forall>td v. utf8 td \<longrightarrow> json_utf8 v \<longrightarrow> json_utf8 (JObj (wit_marshal L (td, Some v))))"

text \<open>What the walks through the demo rely on of the library.\<close>

definition jwt_laws :: "ext \<Rightarrow> bool" where
  "jwt_laws L \<longleftrightarrow> jwt_complete L \<and> jwt_compact L \<and> jwt_es256 L \<and> jwt_dates L \<and> wit_faithful L agent_tags \<and> wire_utf8 L"

lemma json_utf8_append: "json_utf8 (JObj (a @ b)) \<longleftrightarrow> json_utf8 (JObj a) \<and> json_utf8 (JObj b)"
  by (auto simp: ball_Un)

lemma json_utf8_update:
  assumes "json_utf8 (JObj h)" "utf8 k" "json_utf8 v"
  shows "json_utf8 (JObj (AList.update k v h))"
proof -
  have "set (AList.update k v h) \<subseteq> insert (k, v) (set h)"
    by (induction h) (auto split: if_splits)
  moreover have "\<forall>m \<in> insert (k, v) (set h). utf8 (fst m) \<and> json_utf8 (snd m)"
    using assms by simp
  ultimately show ?thesis
    unfolding json_utf8.simps by blast
qed

lemma utf8_typ_header:
  assumes "wire_utf8 L" "utf8 t"
  shows "json_utf8 (JObj (typ_header L t))"
  unfolding typ_header_def
proof (rule json_utf8_update)
  show "json_utf8 (JObj (jwt_header L))"
    using assms(1) unfolding wire_utf8_def by blast
qed (use assms(2) in \<open>simp_all add: char_simps\<close>)

lemma utf8_header: "wire_utf8 L \<Longrightarrow> utf8 t \<Longrightarrow> json_utf8 (JObj (issue_header L t []))"
  using utf8_typ_header [of L t] by (simp add: issue_header_def typ_header_def)

section \<open>Texts of tokens\<close>

text \<open>A compact token with the given payload, told apart by its 64 bytes of signature.\<close>

definition ex_demo_text :: "string \<Rightarrow> nat \<Rightarrow> string" where
  "ex_demo_text p n = b64_encode ''h'' @ ''.'' @ b64_encode p @ ''.'' @ b64_encode (replicate 64 (chr n))"

lemma ex_demo_text_inject [simp]:
  "ex_demo_text p n = ex_demo_text q m \<longleftrightarrow> p = q \<and> n mod 256 = m mod 256"
proof
  have "splitn_on (CHR ''.'') 3 (ex_demo_text x k) = [b64_encode ''h'', b64_encode x, b64_encode (replicate 64 (chr k))]" for x k
    using splitn_on_three [OF b64_encode_sep_free(2) b64_encode_sep_free(2), of "''h''" x]
    by (simp add: ex_demo_text_def del: b64_encode.simps)
  moreover assume "ex_demo_text p n = ex_demo_text q m"
  ultimately have "[b64_encode ''h'', b64_encode p, b64_encode (replicate 64 (chr n))] =
      [b64_encode ''h'', b64_encode q, b64_encode (replicate 64 (chr m))]"
    by metis
  then have "p = q" "replicate 64 (chr n) = replicate 64 (chr m)"
    by (simp_all del: b64_encode.simps)
  then show "p = q \<and> n mod 256 = m mod 256"
    by (simp add: replicate_eq_replicate chr_eq_iff byte_chr del:)
qed (auto simp: ex_demo_text_def chr_eq_iff byte_chr)

lemmas parse_text_simps = json_parse_def json_value.simps json_members.simps lex_string.simps max_nesting_def
  Let_def char_simps

lemma ex_text_compact:
  assumes "json_parse p = Some (JObj ms)" "str_field ''iss'' ms = Some iss"
  shows "compact_jwt (ex_demo_text p n) iss"
  using assms unfolding compact_jwt_def ex_demo_text_def by blast

lemma ex_text_ne [simp]: "ex_demo_text p n \<noteq> []"
  by (simp add: ex_demo_text_def)

lemma ledger_jwt_laws:
  assumes "distinct (map le_text ls)"
    and "\<forall>e \<in> set ls. compact_jwt (le_text e) (rc_Issuer (pl_reg (tk_payload (le_token e))))"
  shows "jwt_laws (ledger_ext ls)"
proof -
  have "wire_utf8 (ledger_ext ls)"
    by (auto simp: wire_utf8_def ledger_ext_def char_simps)
  then show ?thesis
    unfolding jwt_laws_def using assms by (intro conjI ledger_laws ledger_compact)
qed

end
