(* ===== verification/DemoBroker.thy ===== *)
theory DemoBroker
  imports Js History Cdp WireText
begin

text \<open>
  The browser demo, the credential broker (\<open>cmd/demo-wasm/main.go\<close>, \<open>cb4aInit\<close> to \<open>cb4aAudit\<close>,
  \<open>webauthnRegister\<close> and \<open>webauthnApprove\<close>): the page's PDP, CDP, audit log, credential and passkey as
  a record, one operation per exported function, and the histories of clicks.  PDP and CDP hold
  pointers to the page's audit log, which is one component of the state here.  The layouts in local
  time and the texts of errors are parameters.
\<close>

section \<open>State\<close>

record broker_demo =
  bd_PDP :: "InMemoryPDP option"
  bd_CDP :: "CDP option"
  bd_Audit :: "AuditLog option"
  bd_PDPKP :: "ECKeyPair option"
  bd_Minted :: "MintedCredential option"
  bd_Passkey :: "Credential option"

definition broker_demo_init :: broker_demo where
  "broker_demo_init = \<lparr>bd_PDP = None, bd_CDP = None, bd_Audit = None, bd_PDPKP = None, bd_Minted = None, bd_Passkey = None\<rparr>"

datatype broker_error = PDPKeyFailed key_error | CDPKeyFailed key_error | CallInitFirst
  | SubmitUsage | PDPEvaluateFailed pdp_error | ApproveUsage | ApproveFailed pdp_error
  | DenyUsage | DenyFailed pdp_error | MintUsage | MintFailed mint_error | CallMintFirst | APICallUsage
  | DPoPProofFailed dpop_error | APICallRejected call_error
  | RegisterFailed assertion_error | CallRegisterFirst | RequestIDRequired
  | AssertionFailed assertion_error | PasskeyApproveFailed pdp_error
  | PanicNilAudit | PanicSlice

fun is_panic :: "broker_error demo_reply \<Rightarrow> bool" where
  "is_panic (ErrObj PanicNilAudit) = True"
| "is_panic (ErrObj PanicSlice) = True"
| "is_panic _ = False"

section \<open>The broker\<close>

definition key_fingerprint :: "string \<Rightarrow> ec_public option \<Rightarrow> string" where
  "key_fingerprint dots pub = (case PublicKeyToJWK pub [] of
     Inl _ \<Rightarrow> ''(key error)''
   | Inr jwk \<Rightarrow> if 8 \<le> length (jwk_X jwk) then take 8 (jwk_X jwk) @ dots else ''(key error)'')"

definition jwk_X_or_empty :: "ec_public option \<Rightarrow> string \<Rightarrow> string" where
  "jwk_X_or_empty pub kid = (case PublicKeyToJWK pub kid of Inl _ \<Rightarrow> [] | Inr jwk \<Rightarrow> jwk_X jwk)"

definition cb4aInit :: "string + ec_private \<Rightarrow> string + ec_private \<Rightarrow> broker_demo
    \<Rightarrow> broker_error demo_reply \<times> broker_demo" where
  "cb4aInit d1 d2 s = (case GenerateECKeyPair d1 of
     Inl e \<Rightarrow> (errObj (PDPKeyFailed e), s\<lparr>bd_PDPKP := None\<rparr>)
   | Inr pdpKP \<Rightarrow> (case GenerateECKeyPair d2 of
       Inl e \<Rightarrow> (errObj (CDPKeyFailed e), s\<lparr>bd_PDPKP := Some pdpKP\<rparr>)
     | Inr cdpKP \<Rightarrow>
         (okObj [(''message'', JStr ''CB4A demo initialised. PDP, CDP, and vault ready.''),
            (''pdpKeyX'', JStr (jwk_X_or_empty (Some (kp_Public pdpKP)) ''pdp-key'')), (''vaultSize'', JInt 5)],
          s\<lparr>bd_PDPKP := Some pdpKP, bd_Audit := Some NewAuditLog,
            bd_PDP := Some (NewInMemoryPDP ''https://pdp.demo.example'' (kp_Private pdpKP) DefaultPolicyRules (15 * minute)),
            bd_CDP := Some (NewCDP NewInMemoryVault (Some (kp_Public pdpKP)) (kp_Private cdpKP)
              ''https://cdp.demo.example'' (15 * minute)),
            bd_Minted := None\<rparr>)))"

definition tierNames :: "ApprovalTier \<Rightarrow> string" where
  "tierNames t = (if t = TierAuto then ''Tier 1 '' @ em_dash @ '' Auto-Approved''
     else if t = TierHITL then ''Tier 2 '' @ em_dash @ '' Human-in-the-Loop''
     else if t = TierMFA then ''Tier 3 '' @ em_dash @ '' MFA Required'' else [])"

definition submitted_envelope :: "string \<Rightarrow> string \<Rightarrow> string \<Rightarrow> string \<Rightarrow> string \<Rightarrow> EnvelopeClaims" where
  "submitted_envelope agentSVID scope target action justification = \<lparr>ev_reg = no_claims, ev_AgentSVID = agentSVID,
     ev_Target = target, ev_Action = action, ev_Scope = scope, ev_Justification = justification\<rparr>"

definition submitted_entry :: "EnvelopeClaims \<Rightarrow> AuditEntry" where
  "submitted_entry env = \<lparr>ae_Timestamp = None, ae_Event = EventEnvelopeReceived, ae_AgentSVID = ev_AgentSVID env,
     ae_Target = ev_Target env, ae_Action = ev_Action env, ae_Scope = ev_Scope env, ae_Tier = 0, ae_RequestID = [],
     ae_Detail = ''TRE submitted to PDP'', ae_Success = True\<rparr>"

text \<open>\<open>now\<close> is the clock of the page's own audit entry, \<open>x\<close> holds the readings of the PDP.\<close>

definition cb4aSubmit :: "ext \<Rightarrow> time \<Rightarrow> pdp_env \<Rightarrow> js_value list \<Rightarrow> broker_demo \<Rightarrow> broker_error demo_reply \<times> broker_demo" where
  "cb4aSubmit L now x args s = (case bd_PDP s of
     None \<Rightarrow> (errObj CallInitFirst, s)
   | Some pdp \<Rightarrow>
       if length args < 4 then (errObj SubmitUsage, s)
       else (case bd_Audit s of
         None \<Rightarrow> (errObj PanicNilAudit, s)
       | Some log \<Rightarrow>
           let env = submitted_envelope (js_String (args ! 0)) (js_String (args ! 1)) (js_String (args ! 2))
                 (js_String (args ! 3)) (if 4 < length args then js_String (args ! 4) else []);
               (r, pdp', log') = Evaluate L x (Some env) (pdp, audit now (submitted_entry env) log);
               s' = s\<lparr>bd_PDP := Some pdp', bd_Audit := Some log'\<rparr>
           in (case r of
             Inl e \<Rightarrow> (errObj (PDPEvaluateFailed e), s')
           | Inr (decisionJWT, reqID) \<Rightarrow>
               if decisionJWT \<noteq> [] then
                 (okObj [(''tier'', JInt TierAuto), (''tierName'', JStr (tierNames TierAuto)),
                    (''status'', JStr ''auto-approved''), (''decisionJWT'', JStr decisionJWT)], s')
               else let tier = (case pdp_Get pdp' reqID of None \<Rightarrow> TierHITL | Some req \<Rightarrow> pr_Tier req)
                 in (okObj [(''tier'', JInt tier), (''tierName'', JStr (tierNames tier)),
                      (''status'', JStr ''pending''), (''requestID'', JStr reqID)], s'))))"

definition cb4aApprove :: "ext \<Rightarrow> pdp_env \<Rightarrow> js_value list \<Rightarrow> broker_demo \<Rightarrow> broker_error demo_reply \<times> broker_demo" where
  "cb4aApprove L x args s = (case (bd_PDP s, bd_Audit s) of
     (None, _) \<Rightarrow> (errObj CallInitFirst, s)
   | (Some pdp, log) \<Rightarrow>
       if length args < 1 then (errObj ApproveUsage, s)
       else (case log of
         None \<Rightarrow> (errObj PanicNilAudit, s)
       | Some l \<Rightarrow>
           let (r, pdp', l') = Approve L x (js_String (args ! 0)) ''demo-approver'' (pdp, l);
               s' = s\<lparr>bd_PDP := Some pdp', bd_Audit := Some l'\<rparr>
           in (case r of
             Inl e \<Rightarrow> (errObj (ApproveFailed e), s')
           | Inr decisionJWT \<Rightarrow>
               (okObj [(''decisionJWT'', JStr decisionJWT), (''approver'', JStr ''demo-approver'')], s'))))"

definition cb4aDeny :: "pdp_env \<Rightarrow> js_value list \<Rightarrow> broker_demo \<Rightarrow> broker_error demo_reply \<times> broker_demo" where
  "cb4aDeny x args s = (case (bd_PDP s, bd_Audit s) of
     (None, _) \<Rightarrow> (errObj CallInitFirst, s)
   | (Some pdp, log) \<Rightarrow>
       if length args < 1 then (errObj DenyUsage, s)
       else (case log of
         None \<Rightarrow> (errObj PanicNilAudit, s)
       | Some l \<Rightarrow>
           let reqID = js_String (args ! 0);
               (r, pdp', l') = Deny x reqID ''demo-approver'' (pdp, l);
               s' = s\<lparr>bd_PDP := Some pdp', bd_Audit := Some l'\<rparr>
           in (case r of
             Some e \<Rightarrow> (errObj (DenyFailed e), s')
           | None \<Rightarrow> (okObj [(''denied'', JBool True), (''requestID'', JStr reqID)], s'))))"

definition cb4aMint :: "ext \<Rightarrow> (time \<Rightarrow> string) \<Rightarrow> mint_env \<Rightarrow> js_value list \<Rightarrow> broker_demo
    \<Rightarrow> broker_error demo_reply \<times> broker_demo" where
  "cb4aMint L rfc3339 x args s = (case (bd_CDP s, bd_Audit s) of
     (None, _) \<Rightarrow> (errObj CallInitFirst, s)
   | (Some cdp, log) \<Rightarrow>
       if length args < 1 then (errObj MintUsage, s)
       else (case log of
         None \<Rightarrow> (errObj PanicNilAudit, s)
       | Some l \<Rightarrow>
           let (r, cdp', l') = Mint L x (js_String (args ! 0)) (cdp, l);
               s' = s\<lparr>bd_CDP := Some cdp', bd_Audit := Some l'\<rparr>
           in (case r of
             Inl e \<Rightarrow> (errObj (MintFailed e), s')
           | Inr mc \<Rightarrow>
               (okObj [(''scope'', JStr (mc_Scope mc)), (''expiresAt'', JStr (rfc3339 (mc_ExpiresAt mc))),
                  (''tokenPreview'', JStr (js_truncate (mc_Token mc))),
                  (''ephKeyFingerprint'', JStr (key_fingerprint ''...'' (mc_EphemeralPub mc))), (''dpopBound'', JBool True)],
                s'\<lparr>bd_Minted := Some mc\<rparr>))))"

text \<open>What one call draws: for its proof the clock, the identifier and the signature, for the check
  the three readings of the clock.\<close>

record call_draws =
  cl_now :: time
  cl_jti :: bytes
  cl_rnd :: bytes
  cl_check :: "time \<times> time \<times> time"

definition cb4aAPICall :: "ext \<Rightarrow> (call_error \<Rightarrow> string) \<Rightarrow> call_draws \<Rightarrow> js_value list \<Rightarrow> broker_demo
    \<Rightarrow> broker_error demo_reply \<times> broker_demo" where
  "cb4aAPICall L errText d args s = (case (bd_CDP s, bd_Audit s) of
     (None, _) \<Rightarrow> (errObj CallInitFirst, s)
   | (Some cdp, log) \<Rightarrow> (case bd_Minted s of
       None \<Rightarrow> (errObj CallMintFirst, s)
     | Some mc \<Rightarrow>
         if length args < 2 then (errObj APICallUsage, s)
         else (case log of
           None \<Rightarrow> (errObj PanicNilAudit, s)
         | Some l \<Rightarrow>
             let method = js_String (args ! 0); uri = js_String (args ! 1)
             in (case GenerateDPoPProof L (Some mc) method uri (cl_now d) (cl_jti d) (cl_rnd d) of
               Inl e \<Rightarrow> (errObj (DPoPProofFailed e), s)
             | Inr p \<Rightarrow>
                 (case SimulateAPICall L (cl_check d) (mc_Token mc) p method uri (cdp, l) of
                    (Some e, cdp', l') \<Rightarrow>
                      (FailObj [(''detail'', JStr (''REJECTED: '' @ errText e))] (APICallRejected e),
                       s\<lparr>bd_CDP := Some cdp', bd_Audit := Some l'\<rparr>)
                  | (None, cdp', l') \<Rightarrow>
                      (okObj [(''detail'', JStr (method @ '' '' @ uri @ '' '' @ em_dash @ '' authorized'')),
                         (''dpopProof'', JStr (js_truncate p))],
                       s\<lparr>bd_CDP := Some cdp', bd_Audit := Some l'\<rparr>))))))"

section \<open>The audit trail\<close>

fun event_name :: "EventType \<Rightarrow> string" where
  "event_name EventEnvelopeReceived = ''envelope_received''"
| "event_name EventPolicyEvaluated = ''policy_evaluated''"
| "event_name EventApproved = ''approved''"
| "event_name EventDenied = ''denied''"
| "event_name EventCredentialMinted = ''credential_minted''"
| "event_name EventAPICall = ''api_call''"
| "event_name EventReplayRejected = ''replay_rejected''"

text \<open>A row as JSON; \<open>omitempty\<close> drops a zero tier and empty texts.\<close>

definition audit_row :: "(time option \<Rightarrow> string) \<Rightarrow> AuditEntry \<Rightarrow> json" where
  "audit_row clock e = JObj ([(''event'', JStr (event_name (ae_Event e))), (''agent_svid'', JStr (ae_AgentSVID e)),
     (''scope'', JStr (ae_Scope e))]
     @ (if ae_Tier e = 0 then [] else [(''tier'', JInt (ae_Tier e))])
     @ omit_empty ''request_id'' (ae_RequestID e) @ omit_empty ''detail'' (ae_Detail e)
     @ [(''success'', JBool (ae_Success e)), (''timestamp'', JStr (clock (ae_Timestamp e)))])"

definition audit_reply :: "(time option \<Rightarrow> string) \<Rightarrow> AuditLog \<Rightarrow> 'e demo_reply" where
  "audit_reply clock l = (let rows = map (audit_row clock) (AuditLog_Entries l)
     in okObj [(''entries'', JArr rows), (''count'', JInt (int (length rows)))])"

definition cb4aAudit :: "(time option \<Rightarrow> string) \<Rightarrow> broker_demo \<Rightarrow> broker_error demo_reply \<times> broker_demo" where
  "cb4aAudit clock s = (case bd_Audit s of
     None \<Rightarrow> (errObj CallInitFirst, s)
   | Some l \<Rightarrow> (audit_reply clock l, s))"

section \<open>Passkeys\<close>

definition demo_step_obj :: "string \<Rightarrow> string \<Rightarrow> string \<Rightarrow> json" where
  "demo_step_obj n actor action = JObj [(''step'', JStr n), (''actor'', JStr actor), (''action'', JStr action)]"

definition left_arrow :: string where "left_arrow = [chr 226, chr 134, chr 144]"
definition right_arrow :: string where "right_arrow = [chr 226, chr 134, chr 146]"

definition register_steps :: "json list" where
  "register_steps =
     [demo_step_obj ''1'' ''Authenticator'' ''Generated EC P-256 keypair (simulated FIDO2 hardware)'',
      demo_step_obj ''2'' ''Authenticator'' ''Derived PRF secret: HMAC-SHA256(deviceKey, credID)'',
      demo_step_obj ''3'' ''Browser'' ''Returned credentialId + publicKey to relying party'',
      demo_step_obj ''4'' ''Server'' (''Stored publicKey '' @ left_arrow @ '' credential registered'')]"

definition webauthnRegister :: "ecdsa \<Rightarrow> bytes \<times> (string + bytes) \<times> (string + bytes) \<Rightarrow> js_value list \<Rightarrow> broker_demo
    \<Rightarrow> broker_error demo_reply \<times> broker_demo" where
  "webauthnRegister E = (\<lambda>(rnd, readID, readPRF) args s.
     (let userID = (if 0 < length args \<and> js_String (args ! 0) \<noteq> [] then js_String (args ! 0) else ''alice@example.com'')
      in (case Register E userID rnd readID readPRF of
        Inl e \<Rightarrow> (errObj (RegisterFailed e), s)
      | Inr cred \<Rightarrow>
          (okObj [(''credID'', JStr (cr_ID cred)), (''userID'', JStr (cr_UserID cred)),
             (''prfSample'', JStr (hex_encode (take 8 (PRF cred ''demo-session-context'')) @ ellipsis)),
             (''steps'', JArr register_steps)],
           s\<lparr>bd_Passkey := Some cred\<rparr>))))"

definition hitl_challenge :: "string \<Rightarrow> bytes" where
  "hitl_challenge requestID = ''hitl-approval-challenge-'' @ requestID"

definition approve_steps :: "bytes \<Rightarrow> json list" where
  "approve_steps challenge =
     [demo_step_obj ''1'' ''PDP'' (''Issued HITL challenge: '' @ take 32 challenge @ ellipsis),
      demo_step_obj ''2'' ''Authenticator'' ''Signed challenge with EC P-256 private key (ES256/SHA-256)'',
      demo_step_obj ''3'' ''PDP'' ''Verified ES256 assertion against registered public key'',
      demo_step_obj ''4'' ''PDP'' (''Passkey verified '' @ right_arrow @ '' issued signed PDP Decision JWT (approved=true)'')]"

text \<open>The slices \<open>assertion[:20]\<close> and \<open>challenge[:32]\<close> panic on shorter texts.\<close>

definition webauthnApprove :: "ecdsa \<Rightarrow> ext \<Rightarrow> bytes \<Rightarrow> pdp_env \<Rightarrow> js_value list \<Rightarrow> broker_demo
    \<Rightarrow> broker_error demo_reply \<times> broker_demo" where
  "webauthnApprove E L rnd x args s = (case bd_Passkey s of
     None \<Rightarrow> (errObj CallRegisterFirst, s)
   | Some cred \<Rightarrow> (case (bd_PDP s, bd_Audit s) of
       (None, _) \<Rightarrow> (errObj CallInitFirst, s)
     | (Some pdp, log) \<Rightarrow>
         if length args = 0 \<or> js_String (args ! 0) = [] then (errObj RequestIDRequired, s)
         else let requestID = js_String (args ! 0); challenge = hitl_challenge requestID
           in (case MakeAssertion E cred challenge rnd of
             Inl e \<Rightarrow> (errObj (AssertionFailed e), s)
           | Inr assertion \<Rightarrow> (case log of
               None \<Rightarrow> (errObj PanicNilAudit, s)
             | Some l \<Rightarrow>
                 let (r, pdp', l') = ApproveWithPasskey E L x requestID (Some cred) challenge assertion (pdp, l);
                     s' = s\<lparr>bd_PDP := Some pdp', bd_Audit := Some l'\<rparr>
                 in (case r of
                   Inl e \<Rightarrow> (errObj (PasskeyApproveFailed e), s')
                 | Inr decisionJWT \<Rightarrow>
                     if length assertion < 20 \<or> length challenge < 32 then (errObj PanicSlice, s')
                     else (okObj [(''decisionJWT'', JStr decisionJWT), (''jwtParts'', JArr (map JStr (splitJWT decisionJWT))),
                        (''assertionB64'', JStr (take 20 assertion @ ellipsis)), (''approverID'', JStr (cr_ID cred)),
                        (''steps'', JArr (approve_steps challenge))], s'))))))"

section \<open>Clicks\<close>

datatype broker_click = BInit "string + ec_private" "string + ec_private" | BSubmit time pdp_env "js_value list"
  | BApprove pdp_env "js_value list" | BDeny pdp_env "js_value list" | BMint mint_env "js_value list"
  | BCall call_draws "js_value list" | BAudit
  | BRegister "bytes \<times> (string + bytes) \<times> (string + bytes)" "js_value list" | BPasskey bytes pdp_env "js_value list"

text \<open>The texts of the standard library that the replies show.\<close>

record page_texts =
  pt_rfc3339 :: "time \<Rightarrow> string"
  pt_clock :: "time option \<Rightarrow> string"
  pt_call_error :: "call_error \<Rightarrow> string"

fun broker_demo_step :: "ecdsa \<Rightarrow> ext \<Rightarrow> page_texts \<Rightarrow> broker_click \<Rightarrow> broker_demo \<Rightarrow> broker_error demo_reply \<times> broker_demo" where
  "broker_demo_step E L T (BInit d1 d2) s = cb4aInit d1 d2 s"
| "broker_demo_step E L T (BSubmit now x args) s = cb4aSubmit L now x args s"
| "broker_demo_step E L T (BApprove x args) s = cb4aApprove L x args s"
| "broker_demo_step E L T (BDeny x args) s = cb4aDeny x args s"
| "broker_demo_step E L T (BMint x args) s = cb4aMint L (pt_rfc3339 T) x args s"
| "broker_demo_step E L T (BCall d args) s = cb4aAPICall L (pt_call_error T) d args s"
| "broker_demo_step E L T BAudit s = cb4aAudit (pt_clock T) s"
| "broker_demo_step E L T (BRegister d args) s = webauthnRegister E d args s"
| "broker_demo_step E L T (BPasskey rnd x args) s = webauthnApprove E L rnd x args s"

definition demo_cdp :: "CDP \<Rightarrow> bool" where
  "demo_cdp c \<longleftrightarrow> cdp_vault c = NewInMemoryVault \<and> cdp_issuerID c = ''https://cdp.demo.example'' \<and> cdp_tokenTTL c = 15 * minute"

text \<open>PDP, CDP and log are made together; the CDP trusts the PDP's key; a request's identifier is long.\<close>

definition broker_demo_inv :: "broker_demo \<Rightarrow> bool" where
  "broker_demo_inv s \<longleftrightarrow> (case bd_PDP s of
       None \<Rightarrow> bd_CDP s = None \<and> bd_Audit s = None \<and> bd_Minted s = None
     | Some p \<Rightarrow> bd_Audit s \<noteq> None \<and> pdp_inv p \<and> pdp_rules p = DefaultPolicyRules \<and>
         pdp_issuerID p = ''https://pdp.demo.example'' \<and> pdp_ttl p = 15 * minute \<and>
         (\<forall>i \<in> dom (pdp_pending p). 8 \<le> length i) \<and>
         (\<exists>c. bd_CDP s = Some c \<and> cdp_pdpPub c = Some (ec_Public (pdp_sigKey p)) \<and> demo_cdp c)) \<and>
     (\<forall>c. bd_Passkey s = Some c \<longrightarrow> cr_PublicKey c = Some (ec_Public (cr_privateKey c)) \<and> utf8 (cr_ID c))"

text \<open>A click's draws have the length that the code asks for.\<close>

fun broker_click_ok :: "broker_click \<Rightarrow> bool" where
  "broker_click_ok (BSubmit now x args) = (length (pe_reqID x) = 16)"
| "broker_click_ok _ = True"

lemma b64_encode_longer: "length b \<le> length (b64_encode b)"
  by (induction b rule: b64_encode.induct) auto

definition pdp_keeps :: "InMemoryPDP \<Rightarrow> InMemoryPDP \<Rightarrow> bool" where
  "pdp_keeps p p' \<longleftrightarrow> (pdp_inv p \<longrightarrow> pdp_inv p') \<and> pdp_rules p' = pdp_rules p \<and> pdp_sigKey p' = pdp_sigKey p \<and>
     pdp_issuerID p' = pdp_issuerID p \<and> pdp_ttl p' = pdp_ttl p \<and>
     ((\<forall>i \<in> dom (pdp_pending p). 8 \<le> length i) \<longrightarrow> (\<forall>i \<in> dom (pdp_pending p'). 8 \<le> length i))"

lemma pdp_keeps_refl [simp]: "pdp_keeps p p"
  by (simp add: pdp_keeps_def)

lemma pdp_keeps_settle [simp]: "pdp_pending p i = Some r \<Longrightarrow> pdp_keeps p (settle i r st p)"
  by (auto simp: pdp_keeps_def pdp_inv_settle) (auto simp: settle_def split: if_splits)

lemma Approve_keeps: "Approve L x i a (p, l) = (r, p', l') \<Longrightarrow> pdp_keeps p p'"
  by (auto simp: Approve_def Let_def split: option.splits sum.splits if_splits)

lemma Deny_keeps: "Deny x i a (p, l) = (r, p', l') \<Longrightarrow> pdp_keeps p p'"
  by (auto simp: Deny_def split: option.splits if_splits)

lemma Passkey_keeps: "ApproveWithPasskey E L x i c ch a (p, l) = (r, p', l') \<Longrightarrow> pdp_keeps p p'"
  by (auto simp: ApproveWithPasskey_def split: option.splits dest: Approve_keeps)

lemma Evaluate_keeps:
  assumes "Evaluate L x env (p, l) = (r, p', l')" "length (pe_reqID x) = 16"
  shows "pdp_keeps p p'"
proof -
  have "8 \<le> length (generateID (pe_reqID x))"
    using assms(2) b64_encode_longer [of "pe_reqID x"] by (simp add: generateID_def)
  moreover have "pdp_inv p \<Longrightarrow> pdp_inv p'"
    using step_inv [of undefined L "OpEvaluate x env" p l _ p' l'] assms(1) by simp
  ultimately show ?thesis
    using assms(1) unfolding pdp_keeps_def
    by (cases env) (auto simp: Evaluate_def Let_def split: sum.splits if_splits)
qed

lemma broker_inv_PDP:
  assumes "broker_demo_inv s" "bd_PDP s = Some p" "pdp_keeps p p'"
  shows "broker_demo_inv (s\<lparr>bd_PDP := Some p', bd_Audit := Some l\<rparr>)"
  using assms by (auto simp: broker_demo_inv_def pdp_keeps_def split: option.splits)

lemma broker_inv_CDP:
  assumes "broker_demo_inv s" "bd_CDP s = Some c" "cdp_pdpPub c' = cdp_pdpPub c \<and> (demo_cdp c \<longrightarrow> demo_cdp c')"
  shows "broker_demo_inv (s\<lparr>bd_CDP := Some c', bd_Audit := Some l\<rparr>)"
    and "broker_demo_inv (s\<lparr>bd_CDP := Some c', bd_Audit := Some l, bd_Minted := Some m\<rparr>)"
  using assms by (auto simp: broker_demo_inv_def split: option.splits)

lemma Call_keeps_pdpPub: "SimulateAPICall L ts tok d m u (c, l) = (r, c', l') \<Longrightarrow>
    cdp_pdpPub c' = cdp_pdpPub c \<and> (demo_cdp c \<longrightarrow> demo_cdp c')"
  by (cases ts) (auto simp: demo_cdp_def SimulateAPICall_def Let_def split: sum.splits if_splits option.splits)

lemma Register_key:
  "Register E u rnd ri rp = Inr c \<Longrightarrow> cr_PublicKey c = Some (ec_Public (cr_privateKey c)) \<and> utf8 (cr_ID c)"
  by (auto simp: Register_def split: if_splits sum.splits)

lemma init_broker_inv: "broker_demo_inv s \<Longrightarrow> broker_demo_inv (snd (cb4aInit d1 d2 s))"
  by (auto simp: broker_demo_inv_def cb4aInit_def GenerateECKeyPair_def NewInMemoryPDP_def NewCDP_def pdp_inv_def demo_cdp_def
      split: sum.split option.splits)

lemma submit_broker_inv:
  "broker_demo_inv s \<Longrightarrow> length (pe_reqID x) = 16 \<Longrightarrow> broker_demo_inv (snd (cb4aSubmit L now x args s))"
  by (auto simp: cb4aSubmit_def Let_def split: option.split sum.split prod.split intro!: broker_inv_PDP
      dest: Evaluate_keeps)

lemma approve_broker_inv: "broker_demo_inv s \<Longrightarrow> broker_demo_inv (snd (cb4aApprove L x args s))"
  by (auto simp: cb4aApprove_def Let_def split: option.split sum.split prod.split intro!: broker_inv_PDP
      dest: Approve_keeps)

lemma deny_broker_inv: "broker_demo_inv s \<Longrightarrow> broker_demo_inv (snd (cb4aDeny x args s))"
  by (auto simp: cb4aDeny_def Let_def split: option.split prod.split intro!: broker_inv_PDP dest: Deny_keeps)

lemma mint_broker_inv: "broker_demo_inv s \<Longrightarrow> broker_demo_inv (snd (cb4aMint L f x args s))"
  by (auto simp: cb4aMint_def Let_def split: option.split sum.split prod.split intro!: broker_inv_CDP dest: Mint_keeps)

lemma call_broker_inv: "broker_demo_inv s \<Longrightarrow> broker_demo_inv (snd (cb4aAPICall L f d args s))"
  by (auto simp: cb4aAPICall_def Let_def split: option.split sum.split prod.split intro!: broker_inv_CDP
      dest: Call_keeps_pdpPub)

lemma register_broker_inv: "broker_demo_inv s \<Longrightarrow> broker_demo_inv (snd (webauthnRegister E d args s))"
  by (cases d) (auto simp: webauthnRegister_def broker_demo_inv_def Let_def split: sum.split option.splits dest: Register_key)

lemma passkey_broker_inv: "broker_demo_inv s \<Longrightarrow> broker_demo_inv (snd (webauthnApprove E L rnd x args s))"
  by (auto simp: webauthnApprove_def Let_def split: option.split sum.split prod.split intro!: broker_inv_PDP
      dest: Passkey_keeps)

lemma audit_broker_state [simp]: "snd (cb4aAudit clock s) = s"
  by (simp add: cb4aAudit_def split: option.split)

lemmas broker_clicks_inv = init_broker_inv submit_broker_inv approve_broker_inv deny_broker_inv mint_broker_inv
  call_broker_inv register_broker_inv passkey_broker_inv

interpretation broker_sys: invariant_system "broker_demo_step E L T" broker_demo_inv broker_click_ok for E L T
proof unfold_locales
  fix x s r s'
  assume "broker_click_ok x" "broker_demo_inv s"
  then have "broker_demo_inv (snd (broker_demo_step E L T x s))"
    by (cases x) (simp_all add: broker_clicks_inv)
  moreover assume "broker_demo_step E L T x s = (r, s')"
  ultimately show "broker_demo_inv s'"
    by simp
qed

section \<open>Panics\<close>

lemma is_panic_simps [simp]:
  "is_panic (errObj e) \<longleftrightarrow> e \<in> {PanicNilAudit, PanicSlice}" "\<not> is_panic (okObj d)" "\<not> is_panic (FailObj d e)"
  by (cases e) (simp_all add: errObj_def okObj_def)

lemma passkey_no_panic:
  assumes "broker_demo_inv s"
  shows "\<not> is_panic (fst (webauthnApprove E L rnd x args s))"
proof
  assume panic: "is_panic (fst (webauthnApprove E L rnd x args s))"
  obtain cred p l where s: "bd_Passkey s = Some cred" "bd_PDP s = Some p" "bd_Audit s = Some l"
    using panic assms by (auto simp: webauthnApprove_def broker_demo_inv_def split: option.splits if_splits)
  let ?i = "js_String (args ! 0)"
  obtain a j p' l' where a: "MakeAssertion E cred (hitl_challenge ?i) rnd = Inr a"
    and j: "ApproveWithPasskey E L x ?i (Some cred) (hitl_challenge ?i) a (p, l) = (Inr j, p', l')"
    and short: "length a < 20 \<or> length (hitl_challenge ?i) < 32"
    using panic s by (auto simp: webauthnApprove_def Let_def split: if_splits sum.splits prod.splits)
  have "?i \<in> dom (pdp_pending p)"
    using j by (auto simp: ApproveWithPasskey_def Approve_ok split: option.splits)
  then have "8 \<le> length ?i"
    using assms s(2) by (auto simp: broker_demo_inv_def)
  moreover obtain sig where "length sig = 64" "a = b64_encode sig"
    using a rawSig_parts(1) by (auto simp: MakeAssertion_ok)
  then have "64 \<le> length a"
    using b64_encode_longer [of sig] by simp
  ultimately show False
    using short by (auto simp: hitl_challenge_def)
qed

lemma broker_no_panic:
  assumes "broker_demo_inv s"
  shows "\<not> is_panic (fst (broker_demo_step E L T x s))"
proof (cases x)
  case (BPasskey rnd y args)
  then show ?thesis using passkey_no_panic [OF assms] by simp
qed (use assms in \<open>auto simp: broker_demo_inv_def cb4aInit_def cb4aSubmit_def cb4aApprove_def cb4aDeny_def cb4aMint_def
    cb4aAPICall_def cb4aAudit_def audit_reply_def webauthnRegister_def Let_def
    split: option.splits sum.split prod.split\<close>)

section \<open>From a request to a call\<close>

lemma decision_wire:
  assumes "jwt_laws L" "utf8 (pdp_issuerID p)" "utf8 (ev_AgentSVID env)" "utf8 (ev_Target env)" "utf8 (ev_Action env)"
    and "utf8 (ev_Scope env)" "utf8 i" "utf8 a"
  shows "wire_ok L (typ_header L pdpDecisionType) (decision_payload (issued_decision L p env tier ok i a x))"
proof -
  have "json_utf8 (JObj (typ_header L pdpDecisionType))"
    using assms(1) by (intro utf8_typ_header) (simp_all add: jwt_laws_def pdpDecisionType_def char_simps)
  then show ?thesis
    using assms
    by (simp add: wire_ok_def decision_payload_def issued_decision_def jwt_laws_def generateID_def ball_Un char_simps)
qed

lemma token_wire:
  assumes "jwt_laws L" "utf8 (cdp_issuerID c)" "utf8 (pd_AgentSVID d)" "utf8 (pd_Target d)" "utf8 (pd_Action d)"
    and "utf8 (pd_Scope d)" "utf8 (pd_RequestID d)"
  shows "wire_ok L (typ_header L cb4aTokenType) (token_payload (minted_claims L c d (b64_encode k) x))"
proof -
  have "json_utf8 (JObj (typ_header L cb4aTokenType))"
    using assms(1) by (intro utf8_typ_header) (simp_all add: jwt_laws_def cb4aTokenType_def char_simps)
  then show ?thesis
    using assms
    by (simp add: wire_ok_def token_payload_def minted_claims_def jwt_laws_def generateID_def ball_Un char_simps)
qed

lemma dpop_wire:
  assumes "jwt_laws L" "utf8 method" "utf8 uri"
  shows "wire_ok L (dpop_header L (jwk_of k [])) (dpop_payload (proof_of L tok method uri now jti))"
proof -
  have "json_utf8 (JObj (typ_header L dpopProofType))"
    using assms(1) by (intro utf8_typ_header) (simp_all add: jwt_laws_def dpopProofType_def char_simps)
  then have "json_utf8 (JObj (dpop_header L (jwk_of k [])))"
    unfolding dpop_header_def by (intro json_utf8_update) (simp_all add: char_simps)
  moreover have "claims_wire L (pl_reg (dpop_payload (proof_of L tok method uri now jti)))"
    using assms(1) jwt_datesD(3)
    by (simp add: claims_wire_def dpop_payload_def proof_of_def no_claims_def jwt_laws_def generateID_def)
  moreover have "json_utf8 (JObj (pl_priv (dpop_payload (proof_of L tok method uri now jti))))"
    using assms(2,3) by (simp add: dpop_payload_def proof_of_def token_hash_def encodeBase64url_def ball_Un char_simps)
  ultimately show ?thesis
    unfolding wire_ok_def by blast
qed

text \<open>What the three clicks before the call have done, by their replies.\<close>

lemma default_tier_bounds: "- (2 ^ 63) \<le> tier_of DefaultPolicyRules svid scope" "tier_of DefaultPolicyRules svid scope < 2 ^ 63"
proof -
  have "tier_of rules svid scope \<in> insert TierHITL (rule_Tier ` set rules)" for rules
    by (induction rules) auto
  from this [of DefaultPolicyRules] have "tier_of DefaultPolicyRules svid scope \<in> {TierAuto, TierHITL, TierMFA}"
    by (auto simp: DefaultPolicyRules_def)
  then show "- (2 ^ 63) \<le> tier_of DefaultPolicyRules svid scope" "tier_of DefaultPolicyRules svid scope < 2 ^ 63"
    by (auto simp: TierAuto_def TierHITL_def TierMFA_def)
qed

lemma submit_pending:
  assumes "cb4aSubmit L now x [JSString svid, JSString scope, JSString target, JSString action] s = (r, s')"
    and "reply_field ''requestID'' r = Some (JStr i)" "i \<noteq> []" and env: "env = submitted_envelope svid scope target action []"
  obtains p l tier where "bd_PDP s = Some p" "bd_Audit s = Some l" "i = generateID (pe_reqID x)"
    "s' = s\<lparr>bd_PDP := Some (p\<lparr>pdp_pending := (pdp_pending p)(i \<mapsto> \<lparr>pr_ID = i, pr_EnvClaims = env, pr_Tier = tier,
         pr_State = StatePending, pr_CreatedAt = pe_now x\<rparr>)\<rparr>),
       bd_Audit := Some (audit (pe_audit1 x) (pdp_entry EventPolicyEvaluated env tier i (''tier='' @ itoa tier) True)
         (audit now (submitted_entry env) l))\<rparr>"
    "tier = evaluateTier p svid scope"
proof -
  obtain p l where s: "bd_PDP s = Some p" "bd_Audit s = Some l"
    using assms(1,2) by (auto simp: cb4aSubmit_def reply_field_def errObj_def split: option.splits if_splits)
  show thesis
    using assms(1-3) s
    by (intro that [OF s, where tier = "evaluateTier p svid scope"])
      (auto simp: cb4aSubmit_def Evaluate_def Let_def env submitted_envelope_def reply_field_def errObj_def okObj_def
        split: if_splits sum.splits prod.splits)
qed

definition approved_by :: "ext \<Rightarrow> pdp_env \<Rightarrow> string \<Rightarrow> string \<Rightarrow> string \<Rightarrow> broker_demo \<Rightarrow> broker_demo \<Rightarrow> bool" where
  "approved_by L x i a j s s' \<longleftrightarrow> (\<exists>p l req. bd_PDP s = Some p \<and> bd_Audit s = Some l \<and> pdp_pending p i = Some req \<and>
     issueDecision L p (pr_EnvClaims req) (pr_Tier req) True i a x = Inr j \<and>
     s' = s\<lparr>bd_PDP := Some (settle i req StateApproved p), bd_Audit := Some (audit (pe_audit2 x)
       (pdp_entry EventApproved (pr_EnvClaims req) (pr_Tier req) i (''approved by '' @ a) True) l)\<rparr>)"

lemma Approve_approved:
  "Approve L x i a (p, l) = (Inr j, p', l') \<Longrightarrow> bd_PDP s = Some p \<Longrightarrow> bd_Audit s = Some l \<Longrightarrow>
     approved_by L x i a j s (s\<lparr>bd_PDP := Some p', bd_Audit := Some l'\<rparr>)"
  unfolding Approve_ok approved_by_def by blast

lemma passkey_approved:
  assumes "webauthnApprove E L rnd x [JSString i] s = (r, s')" "reply_field ''decisionJWT'' r = Some (JStr j)"
  obtains cred where "bd_Passkey s = Some cred" "approved_by L x i (cr_ID cred) j s s'"
proof -
  obtain cred p l where s: "bd_Passkey s = Some cred" "bd_PDP s = Some p" "bd_Audit s = Some l"
    using assms by (auto simp: webauthnApprove_def reply_field_def errObj_def Let_def split: option.splits if_splits sum.splits)
  obtain a p' l' where "ApproveWithPasskey E L x i (Some cred) (hitl_challenge i) a (p, l) = (Inr j, p', l')"
    and s': "s' = s\<lparr>bd_PDP := Some p', bd_Audit := Some l'\<rparr>"
    using assms s
    by (auto simp: webauthnApprove_def reply_field_def errObj_def okObj_def Let_def split: if_splits sum.splits prod.splits)
  then have "Approve L x i (cr_ID cred) (p, l) = (Inr j, p', l')"
    by (auto simp: ApproveWithPasskey_def split: option.splits)
  then show thesis
    using that s s' Approve_approved by blast
qed

lemma cb4aApprove_approved:
  assumes "cb4aApprove L x [JSString i] s = (r, s')" "reply_field ''decisionJWT'' r = Some (JStr j)"
  shows "approved_by L x i ''demo-approver'' j s s'"
proof -
  obtain p l where s: "bd_PDP s = Some p" "bd_Audit s = Some l"
    using assms by (auto simp: cb4aApprove_def reply_field_def errObj_def split: option.splits if_splits)
  obtain p' l' where "Approve L x i ''demo-approver'' (p, l) = (Inr j, p', l')" "s' = s\<lparr>bd_PDP := Some p', bd_Audit := Some l'\<rparr>"
    using assms s
    by (auto simp: cb4aApprove_def reply_field_def errObj_def okObj_def Let_def split: sum.splits prod.splits)
  then show ?thesis
    using Approve_approved s by blast
qed

lemma minted_click:
  assumes "cb4aMint L f m [JSString j] s = (r, s')" "is_OkObj r"
  obtains c l mc l' where "bd_CDP s = Some c" "bd_Audit s = Some l" "Mint L m j (c, l) = (Inr mc, c, l')"
    "s' = s\<lparr>bd_Audit := Some l', bd_Minted := Some mc\<rparr>" "reply_field ''scope'' r = Some (JStr (mc_Scope mc))"
proof -
  obtain c l where s: "bd_CDP s = Some c" "bd_Audit s = Some l"
    using assms by (auto simp: cb4aMint_def split: option.splits if_splits)
  obtain mc c' l' where mint: "Mint L m j (c, l) = (Inr mc, c', l')"
    "s' = s\<lparr>bd_CDP := Some c', bd_Audit := Some l', bd_Minted := Some mc\<rparr>"
    "reply_field ''scope'' r = Some (JStr (mc_Scope mc))"
    using assms s by (auto simp: cb4aMint_def Let_def split: sum.splits prod.splits)
  moreover have "c' = c"
    using Mint_keeps [OF mint(1)] by simp
  moreover have "s\<lparr>bd_CDP := Some c, bd_Audit := Some l', bd_Minted := Some mc\<rparr> = s\<lparr>bd_Audit := Some l', bd_Minted := Some mc\<rparr>"
    using s by (cases s) simp
  ultimately show thesis
    using that s by simp
qed

text \<open>The walk: a request that is parked, approved by the page's approver or with the passkey, minted
  and used.\<close>

definition broker_walk :: "ecdsa \<Rightarrow> ext \<Rightarrow> page_texts \<Rightarrow> string \<times> string \<times> string \<times> string \<Rightarrow> time \<Rightarrow> pdp_env \<Rightarrow> pdp_env \<Rightarrow> bytes
    \<Rightarrow> mint_env \<Rightarrow> call_draws \<Rightarrow> string \<Rightarrow> string \<Rightarrow> broker_demo \<Rightarrow> broker_error demo_reply list \<Rightarrow> broker_demo \<Rightarrow> bool" where
  "broker_walk E L T req now x1 x2 rnd m d method uri s rs s' \<longleftrightarrow> (case req of (svid, scope, target, action) \<Rightarrow>
     (\<exists>r1 r2 r3 r4 i j s1 s2 s3. rs = [r1, r2, r3, r4] \<and>
       cb4aSubmit L now x1 [JSString svid, JSString scope, JSString target, JSString action] s = (r1, s1) \<and>
       reply_field ''requestID'' r1 = Some (JStr i) \<and> i \<noteq> [] \<and>
       (cb4aApprove L x2 [JSString i] s1 = (r2, s2) \<or> webauthnApprove E L rnd x2 [JSString i] s1 = (r2, s2)) \<and>
       reply_field ''decisionJWT'' r2 = Some (JStr j) \<and>
       cb4aMint L (pt_rfc3339 T) m [JSString j] s2 = (r3, s3) \<and> is_OkObj r3 \<and>
       cb4aAPICall L (pt_call_error T) d [JSString method, JSString uri] s3 = (r4, s')))"

definition walk_events :: "EventType list" where
  "walk_events = [EventEnvelopeReceived, EventPolicyEvaluated, EventApproved, EventCredentialMinted, EventAPICall]"

text \<open>The approval of the walk, by either button, and its call.\<close>

lemma walk_approved:
  assumes "cb4aApprove L x2 [JSString i] s1 = (r2, s2) \<or> webauthnApprove E L rnd x2 [JSString i] s1 = (r2, s2)"
    and "reply_field ''decisionJWT'' r2 = Some (JStr j)" "\<forall>c. bd_Passkey s1 = Some c \<longrightarrow> utf8 (cr_ID c)"
  shows "\<exists>a. utf8 a \<and> approved_by L x2 i a j s1 s2"
proof (cases "cb4aApprove L x2 [JSString i] s1 = (r2, s2)")
  case True
  have "utf8 ''demo-approver''" by (simp add: char_simps)
  then show ?thesis using cb4aApprove_approved [OF True assms(2)] by blast
next
  case False
  then obtain cred where "bd_Passkey s1 = Some cred" "approved_by L x2 i (cr_ID cred) j s1 s2"
    using passkey_approved assms(1,2) by blast
  then show ?thesis using assms(3) by blast
qed

lemma walk_call:
  assumes laws: "jwt_laws L"
    and call: "cb4aAPICall L f d [JSString method, JSString uri] s3 = (r4, s')"
    and s3: "bd_CDP s3 = Some c" "bd_Audit s3 = Some l'" "bd_Minted s3 = Some mc" and cdp: "demo_cdp c"
    and minted: "Mint L m j (c, lm) = (Inr mc, c, l')" and dec: "ParseDecision L (me_parse m) j (cdp_pdpPub c) = Inr dec"
    and kp: "me_key m = Inr kp" "p256_key (ec_Public kp)"
    and utf8: "list_all utf8 [pd_AgentSVID dec, pd_Target dec, pd_Action dec, pd_Scope dec, pd_RequestID dec, method, uri]"
    and new: "length (cl_jti d) = 16" "cdp_dpopJTI c (generateID (cl_jti d)) = None"
    and t: "cl_check d = (t1, t2, t3)" "me_now m \<le> t1" "t1 < jwt_numeric_date L (me_now m + 15 * minute)"
      "cl_now d \<le> t2" "t2 < jwt_numeric_date L (cl_now d + 2 * minute)"
    and ok: "\<forall>e. r4 \<noteq> errObj (DPoPProofFailed e)"
  shows "is_OkObj r4 \<and> (\<exists>tc. bd_Audit s' = Some (audit t3 (call_entry EventAPICall tc method uri ''api call authorized'' True) l'))"
proof -
  let ?tc = "minted_claims L c dec (b64_sha256 (canonical_jwk (jwk_of (ec_Public kp) []))) m"
    and ?pc = "proof_of L (mc_Token mc) method uri (cl_now d) (cl_jti d)"
  have lib: "jwt_complete L" "jwt_es256 L" "jwt_dates L"
    using laws by (simp_all add: jwt_laws_def)
  obtain dpop where gen: "GenerateDPoPProof L (Some mc) method uri (cl_now d) (cl_jti d) (cl_rnd d) = Inr dpop"
    using call s3 ok by (auto simp: cb4aAPICall_def Let_def split: sum.splits)
  have "utf8 (cdp_issuerID c)"
    using cdp by (simp add: demo_cdp_def char_simps)
  then have "wire_ok L (typ_header L cb4aTokenType) (token_payload ?tc)"
    unfolding b64_sha256_def using utf8 by (intro token_wire [OF laws]) simp_all
  moreover have "wire_ok L (dpop_header L (jwk_of (ec_Public kp) [])) (dpop_payload ?pc)"
    using utf8 by (intro dpop_wire [OF laws]) simp_all
  moreover have "mc_ExpiresAt mc = me_now m + 15 * minute"
    using minted cdp unfolding Mint_ok by (auto simp: demo_cdp_def)
  ultimately have "call_checked L (ec_Public (cdp_sigKey c)) t1 t2 (mc_Token mc) dpop method uri ?tc ?pc"
    using t by (intro minted_call [OF lib minted kp gen new(1) dec refl refl]) simp_all
  moreover have "rc_ID (dp_reg ?pc) = generateID (cl_jti d)"
    "rc_ExpiresAt (dp_reg ?pc) = Some (jwt_numeric_date L (cl_now d + 2 * minute))"
    by (simp_all add: proof_of_def)
  ultimately have "\<exists>c'. SimulateAPICall L (t1, t2, t3) (mc_Token mc) dpop method uri (c, l') =
      (None, c', audit t3 (call_entry EventAPICall ?tc method uri ''api call authorized'' True) l')"
    using call_accepted new(2) by metis
  then have "is_OkObj r4 \<and> bd_Audit s' = Some (audit t3 (call_entry EventAPICall ?tc method uri ''api call authorized'' True) l')"
    using call s3 gen t(1) by (auto simp: cb4aAPICall_def Let_def)
  then show ?thesis by blast
qed

lemma broker_walk_works:
  assumes laws: "jwt_laws L" and inv: "broker_demo_inv s"
    and walk: "broker_walk E L T (svid, scope, target, action) now x1 x2 rnd m d method uri s rs s'"
    and utf8: "list_all utf8 [svid, scope, target, action, method, uri]"
    and kp: "me_key m = Inr kp" "p256_key (ec_Public kp)"
    and new: "length (cl_jti d) = 16" "\<forall>c. bd_CDP s = Some c \<longrightarrow> cdp_dpopJTI c (generateID (cl_jti d)) = None"
    and t: "pe_now x2 \<le> me_parse m" "me_parse m < jwt_numeric_date L (pe_now x2 + 15 * minute)"
      "cl_check d = (t1, t2, t3)" "me_now m \<le> t1" "t1 < jwt_numeric_date L (me_now m + 15 * minute)"
      "cl_now d \<le> t2" "t2 < jwt_numeric_date L (cl_now d + 2 * minute)"
  shows "reply_field ''scope'' (rs ! 2) = Some (JStr scope)"
    and "(\<exists>e. rs ! 3 = errObj (DPoPProofFailed e)) \<or> is_OkObj (rs ! 3) \<and>
      map ae_Event (al_entries (the (bd_Audit s'))) = map ae_Event (al_entries (the (bd_Audit s))) @ walk_events"
proof -
  obtain r1 r2 r3 r4 i j s1 s2 s3 where rs: "rs = [r1, r2, r3, r4]"
    and submit: "cb4aSubmit L now x1 [JSString svid, JSString scope, JSString target, JSString action] s = (r1, s1)"
      "reply_field ''requestID'' r1 = Some (JStr i)" "i \<noteq> []"
    and approve: "cb4aApprove L x2 [JSString i] s1 = (r2, s2) \<or> webauthnApprove E L rnd x2 [JSString i] s1 = (r2, s2)"
      "reply_field ''decisionJWT'' r2 = Some (JStr j)"
    and mint: "cb4aMint L (pt_rfc3339 T) m [JSString j] s2 = (r3, s3)" "is_OkObj r3"
    and call: "cb4aAPICall L (pt_call_error T) d [JSString method, JSString uri] s3 = (r4, s')"
    using walk unfolding broker_walk_def prod.case by blast
  let ?env = "submitted_envelope svid scope target action []"
  obtain p l tier where p: "bd_PDP s = Some p" "bd_Audit s = Some l" "i = generateID (pe_reqID x1)"
    and tier: "tier = evaluateTier p svid scope"
    and s1: "s1 = s\<lparr>bd_PDP := Some (p\<lparr>pdp_pending := (pdp_pending p)(i \<mapsto> \<lparr>pr_ID = i, pr_EnvClaims = ?env, pr_Tier = tier,
         pr_State = StatePending, pr_CreatedAt = pe_now x1\<rparr>)\<rparr>),
       bd_Audit := Some (audit (pe_audit1 x1) (pdp_entry EventPolicyEvaluated ?env tier i (''tier='' @ itoa tier) True)
         (audit now (submitted_entry ?env) l))\<rparr>"
    using submit_pending [OF submit refl] by blast
  have "bd_Passkey s1 = bd_Passkey s"
    using s1 by simp
  then have "\<exists>a. utf8 a \<and> approved_by L x2 i a j s1 s2"
    using inv by (intro walk_approved [OF approve]) (simp add: broker_demo_inv_def)
  then obtain a where a: "utf8 a" "approved_by L x2 i a j s1 s2" by blast
  let ?dec = "issued_decision L p ?env tier True i a x2"
  have same: "issueDecision L (p\<lparr>pdp_pending := q\<rparr>) = issueDecision L p" for q
    by (simp add: fun_eq_iff issueDecision_def issued_decision_def)
  have j: "issueDecision L p ?env tier True i a x2 = Inr j" and s2: "bd_CDP s2 = bd_CDP s"
    "bd_Audit s2 = Some (audit (pe_audit2 x2) (pdp_entry EventApproved ?env tier i (''approved by '' @ a) True) (the (bd_Audit s1)))"
    using a(2) s1 by (auto simp: approved_by_def same)
  obtain c where c: "bd_CDP s = Some c" "cdp_pdpPub c = Some (ec_Public (pdp_sigKey p))" "demo_cdp c"
    and pinv: "pdp_inv p" "pdp_issuerID p = ''https://pdp.demo.example''" "pdp_ttl p = 15 * minute" "pdp_rules p = DefaultPolicyRules"
    using inv p(1) by (auto simp: broker_demo_inv_def)
  obtain c0 lm mc l' where c0: "bd_CDP s2 = Some c0" and lm: "bd_Audit s2 = Some lm"
    and minted: "Mint L m j (c0, lm) = (Inr mc, c0, l')" and s3: "s3 = s2\<lparr>bd_Audit := Some l', bd_Minted := Some mc\<rparr>"
    and r3: "reply_field ''scope'' r3 = Some (JStr (mc_Scope mc))"
    using mint by (rule minted_click)
  have [simp]: "c0 = c"
    using c0 s2(1) c(1) by simp
  note minted = minted [simplified]
  have wire: "wire_ok L (typ_header L pdpDecisionType) (decision_payload ?dec)"
  proof (rule decision_wire [OF laws])
    show "utf8 (pdp_issuerID p)" "utf8 i"
      by (simp_all add: pinv p(3) generateID_def char_simps)
  qed (use utf8 a(1) in \<open>simp_all add: submitted_envelope_def\<close>)
  have lib: "jwt_complete L" "jwt_es256 L" "jwt_dates L"
    using laws by (simp_all add: jwt_laws_def)
  have dec: "ParseDecision L (me_parse m) j (cdp_pdpPub c) = Inr ?dec"
    unfolding c(2) using t(1,2) default_tier_bounds
    by (intro ParseDecision_issued [OF lib j refl wire]) (simp_all add: tier evaluateTier_def pinv)
  then show "reply_field ''scope'' (rs ! 2) = Some (JStr scope)"
    using r3 minted rs unfolding Mint_ok by (auto simp: issued_decision_def submitted_envelope_def)
  show "(\<exists>e. rs ! 3 = errObj (DPoPProofFailed e)) \<or> is_OkObj (rs ! 3) \<and>
      map ae_Event (al_entries (the (bd_Audit s'))) = map ae_Event (al_entries (the (bd_Audit s))) @ walk_events"
  proof (cases "\<exists>e. rs ! 3 = errObj (DPoPProofFailed e)")
    case False
    have s3': "bd_CDP s3 = Some c" "bd_Audit s3 = Some l'" "bd_Minted s3 = Some mc"
      using s3 s2 c(1) by simp_all
    have "is_OkObj r4 \<and> (\<exists>tc. bd_Audit s' = Some (audit t3 (call_entry EventAPICall tc method uri ''api call authorized'' True) l'))"
    proof (rule walk_call [OF laws call s3' c(3) minted dec kp])
      show "list_all utf8 [pd_AgentSVID ?dec, pd_Target ?dec, pd_Action ?dec, pd_Scope ?dec, pd_RequestID ?dec, method, uri]"
        using utf8 p(3) by (simp add: issued_decision_def submitted_envelope_def generateID_def)
    qed (use t new c(1) False rs in auto)
    moreover have "\<exists>jkt. l' = audit (me_audit m) (mint_entry ?dec jkt (cdp_tokenTTL c)) lm"
      using minted dec unfolding Mint_ok by auto
    ultimately show ?thesis
      using rs lm s2(2) s1 p(2)
      by (auto simp: walk_events_def stamp_def call_entry_def mint_entry_def pdp_entry_def submitted_entry_def)
  qed simp
qed

section \<open>Closed instances\<close>

definition ex_bd_env :: EnvelopeClaims where
  "ex_bd_env = submitted_envelope ''spiffe://a/b'' ''payment:AGENT_CREDIT:100'' ''https://api'' ''POST'' []"

definition ex_bd_pdp :: InMemoryPDP where
  "ex_bd_pdp = NewInMemoryPDP ''https://pdp.demo.example'' key_one DefaultPolicyRules (15 * minute)"

definition ex_bd_cdp :: CDP where
  "ex_bd_cdp = NewCDP NewInMemoryVault (Some (ec_Public key_one)) key_two ''https://cdp.demo.example'' (15 * minute)"

definition ex_bd_dec :: PDPDecisionClaims where
  "ex_bd_dec = issued_decision (ledger_ext []) ex_bd_pdp ex_bd_env TierHITL True ex_reqID ''demo-approver'' ex_env"

definition ex_bd_token :: string where
  "ex_bd_token = ex_demo_text ''{\"iss\":\"https://cdp.demo.example\"}'' 2"

definition ex_bd_decision :: string where
  "ex_bd_decision = ex_demo_text ''{\"iss\":\"https://pdp.demo.example\"}'' 1"

definition ex_call_draws :: call_draws where
  "ex_call_draws = \<lparr>cl_now = 0, cl_jti = replicate 16 (CHR ''p''), cl_rnd = [], cl_check = (minute, minute, minute)\<rparr>"

definition ex_bd_ledger :: "ledger_entry list" where
  "ex_bd_ledger =
     [\<lparr>le_text = ex_bd_decision, le_signer = key_one, le_token = \<lparr>tk_header = typ_header (ledger_ext []) pdpDecisionType,
        tk_payload = decision_payload ex_bd_dec\<rparr>\<rparr>,
      \<lparr>le_text = ex_bd_token, le_signer = key_two, le_token = \<lparr>tk_header = typ_header (ledger_ext []) cb4aTokenType,
        tk_payload = token_payload (minted_claims (ledger_ext []) ex_bd_cdp ex_bd_dec ex_jkt ex_mint)\<rparr>\<rparr>,
      \<lparr>le_text = ex_demo_text ''{}'' 3, le_signer = key_two,
        le_token = \<lparr>tk_header = dpop_header (ledger_ext []) (jwk_of (ec_Public key_two) []),
          tk_payload = dpop_payload (proof_of (ledger_ext []) ex_bd_token ''GET'' ''https://api/x'' 0 (cl_jti ex_call_draws))\<rparr>\<rparr>]"

definition ex_bd_lib :: ext where
  "ex_bd_lib = ledger_ext ex_bd_ledger"

definition ex_bd_state :: broker_demo where
  "ex_bd_state = snd (cb4aInit (Inr key_one) (Inr key_two) broker_demo_init)"

definition ex_texts :: page_texts where
  "ex_texts = \<lparr>pt_rfc3339 = (\<lambda>t. ''time''), pt_clock = (\<lambda>t. ''clock''), pt_call_error = (\<lambda>e. ''error'')\<rparr>"

lemma ex_bd_laws: "jwt_laws ex_bd_lib"
proof -
  have "json_parse ''{\"iss\":\"https://pdp.demo.example\"}'' = Some (JObj [(''iss'', JStr ''https://pdp.demo.example'')])"
    "json_parse ''{\"iss\":\"https://cdp.demo.example\"}'' = Some (JObj [(''iss'', JStr ''https://cdp.demo.example'')])"
    "json_parse ''{}'' = Some (JObj [])"
    by (simp_all add: parse_text_simps)
  from this [THEN ex_text_compact]
  have "compact_jwt ex_bd_decision ''https://pdp.demo.example''" "compact_jwt ex_bd_token ''https://cdp.demo.example''"
    "compact_jwt (ex_demo_text ''{}'' 3) []"
    by (simp_all add: json_field_defs ex_bd_decision_def ex_bd_token_def)
  moreover have "distinct (map le_text ex_bd_ledger)"
    by (simp add: ex_bd_ledger_def ex_bd_decision_def ex_bd_token_def)
  ultimately show ?thesis
    unfolding ex_bd_lib_def
    by (intro ledger_jwt_laws) (simp_all add: ex_bd_ledger_def decision_payload_def token_payload_def dpop_payload_def
        ex_bd_dec_def issued_decision_def minted_claims_def proof_of_def no_claims_def ex_bd_pdp_def ex_bd_cdp_def
        NewInMemoryPDP_def NewCDP_def)
qed

lemma ex_bd_inv: "broker_demo_inv ex_bd_state"
  unfolding ex_bd_state_def by (rule init_broker_inv) (simp add: broker_demo_inv_def broker_demo_init_def)

lemma ex_bd_simps:
  "bd_PDP ex_bd_state = Some ex_bd_pdp" "bd_CDP ex_bd_state = Some ex_bd_cdp" "bd_Audit ex_bd_state = Some NewAuditLog"
  by (simp_all add: ex_bd_state_def cb4aInit_def GenerateECKeyPair_def ex_bd_pdp_def ex_bd_cdp_def)

lemma ex_bd_parts:
  "issued_decision ex_bd_lib = issued_decision (ledger_ext [])" "minted_claims ex_bd_lib = minted_claims (ledger_ext [])"
  "proof_of ex_bd_lib = proof_of (ledger_ext [])" "typ_header ex_bd_lib = typ_header (ledger_ext [])"
  "dpop_header ex_bd_lib = dpop_header (ledger_ext [])" "jwt_numeric_date ex_bd_lib = jwt_numeric_date (ledger_ext [])"
  by (simp_all add: fun_eq_iff issued_decision_def minted_claims_def proof_of_def dpop_header_def dated_claims_def
      ex_bd_lib_def ledger_parts [of ex_bd_ledger])

lemma ex_bd_tokens: "distinct (map le_token ex_bd_ledger)"
proof -
  have "header_str ''typ'' (dpop_header (ledger_ext []) j) = dpopProofType" for j
    by simp
  then have "distinct (map (\<lambda>e. header_str ''typ'' (tk_header (le_token e))) ex_bd_ledger)"
    by (simp add: ex_bd_ledger_def pdpDecisionType_def cb4aTokenType_def dpopProofType_def)
  then show ?thesis
    by (simp add: distinct_map inj_on_def)
qed

lemma ex_bd_sign:
  "jwt_sign ex_bd_lib rnd (typ_header (ledger_ext []) pdpDecisionType) (decision_payload ex_bd_dec) key_one = Inr ex_bd_decision"
  "jwt_sign ex_bd_lib rnd (typ_header (ledger_ext []) cb4aTokenType)
     (token_payload (minted_claims (ledger_ext []) ex_bd_cdp ex_bd_dec ex_jkt ex_mint)) key_two = Inr ex_bd_token"
proof -
  have sign: "e \<in> set ex_bd_ledger \<Longrightarrow> le_token e = \<lparr>tk_header = h, tk_payload = pl\<rparr> \<Longrightarrow>
      jwt_sign ex_bd_lib rnd h pl (le_signer e) = Inr (le_text e)" for e h pl
    unfolding ex_bd_lib_def by (rule ledger_sign [OF _ ex_bd_tokens])
  show "jwt_sign ex_bd_lib rnd (typ_header (ledger_ext []) pdpDecisionType) (decision_payload ex_bd_dec) key_one = Inr ex_bd_decision"
    using sign [of "ex_bd_ledger ! 0"] by (simp add: ex_bd_ledger_def)
  show "jwt_sign ex_bd_lib rnd (typ_header (ledger_ext []) cb4aTokenType)
     (token_payload (minted_claims (ledger_ext []) ex_bd_cdp ex_bd_dec ex_jkt ex_mint)) key_two = Inr ex_bd_token"
    using sign [of "ex_bd_ledger ! 1"] by (simp add: ex_bd_ledger_def)
qed

definition ex_bd_parked :: InMemoryPDP where
  "ex_bd_parked = ex_bd_pdp\<lparr>pdp_pending := [ex_reqID \<mapsto> \<lparr>pr_ID = ex_reqID, pr_EnvClaims = ex_bd_env,
     pr_Tier = TierHITL, pr_State = StatePending, pr_CreatedAt = 0\<rparr>]\<rparr>"

lemma ex_bd_tier: "tier_of DefaultPolicyRules ''spiffe://a/b'' ''payment:AGENT_CREDIT:100'' = TierHITL"
  using ex_tier by (simp add: ex_envelope_def)

lemma ex_bd_Evaluate:
  "\<exists>l. Evaluate ex_bd_lib ex_env (Some ex_bd_env) (ex_bd_pdp, log) = (Inr ([], ex_reqID), ex_bd_parked, l)"
  by (simp add: Evaluate_def evaluateTier_def ex_bd_env_def submitted_envelope_def ex_bd_pdp_def NewInMemoryPDP_def
      ex_bd_tier Let_def ex_bd_parked_def)
    (simp add: TierHITL_def TierAuto_def ex_env_def)

lemma ex_bd_submit:
  "\<exists>r s'. cb4aSubmit ex_bd_lib 0 ex_env [JSString ''spiffe://a/b'', JSString ''payment:AGENT_CREDIT:100'',
      JSString ''https://api'', JSString ''POST''] ex_bd_state = (r, s') \<and> bd_PDP s' = Some ex_bd_parked \<and>
    bd_CDP s' = Some ex_bd_cdp \<and> bd_Audit s' \<noteq> None \<and> reply_field ''requestID'' r = Some (JStr ex_reqID)"
proof -
  let ?l = "audit 0 (submitted_entry ex_bd_env) NewAuditLog"
  obtain l where "Evaluate ex_bd_lib ex_env (Some ex_bd_env) (ex_bd_pdp, ?l) = (Inr ([], ex_reqID), ex_bd_parked, l)"
    using ex_bd_Evaluate by blast
  then show ?thesis
    by (simp add: cb4aSubmit_def ex_bd_simps Let_def flip: ex_bd_env_def)
qed

lemma ex_bd_approve:
  assumes "bd_PDP s = Some ex_bd_parked" "bd_Audit s = Some l"
  shows "\<exists>r s'. cb4aApprove ex_bd_lib ex_env [JSString ex_reqID] s = (r, s') \<and> bd_CDP s' = bd_CDP s \<and>
    bd_Audit s' \<noteq> None \<and> reply_field ''decisionJWT'' r = Some (JStr ex_bd_decision)"
proof -
  have "issued_decision ex_bd_lib ex_bd_parked ex_bd_env TierHITL True ex_reqID ''demo-approver'' ex_env = ex_bd_dec"
    by (simp add: ex_bd_parts ex_bd_dec_def) (simp add: ex_bd_parked_def issued_decision_def)
  then have "issueDecision ex_bd_lib ex_bd_parked ex_bd_env TierHITL True ex_reqID ''demo-approver'' ex_env = Inr ex_bd_decision"
    by (simp add: issueDecision_def ex_bd_parts ex_bd_sign ex_bd_parked_def ex_bd_pdp_def NewInMemoryPDP_def)
  then have "\<exists>p' l'. Approve ex_bd_lib ex_env ex_reqID ''demo-approver'' (ex_bd_parked, l) = (Inr ex_bd_decision, p', l')"
    by (simp add: Approve_ok) (simp add: ex_bd_parked_def)
  then show ?thesis
    using assms by (auto simp: cb4aApprove_def Let_def)
qed

lemma ex_bd_values:
  "pdp_sigKey ex_bd_pdp = key_one" "pdp_ttl ex_bd_pdp = 15 * minute" "pe_now ex_env = 0"
  "jwt_numeric_date (ledger_ext []) (900000000000) = 900000000000"
  "cdp_vault ex_bd_cdp = NewInMemoryVault" "cdp_pdpPub ex_bd_cdp = Some (ec_Public key_one)" "cdp_sigKey ex_bd_cdp = key_two"
  "cdp_tokenTTL ex_bd_cdp = 15 * minute" "cdp_dpopJTI ex_bd_cdp = Map.empty"
  "me_parse ex_mint = 0" "me_key ex_mint = Inr key_two" "me_now ex_mint = 0" "me_rnd ex_mint = []" "me_audit ex_mint = 0"
  "pd_Approved ex_bd_dec" "vault_get NewInMemoryVault (pd_Scope ex_bd_dec) = Some ''pay-auth-100-demo''"
  by (simp_all add: ex_bd_pdp_def NewInMemoryPDP_def ex_env_def ledger_ext_def ex_bd_cdp_def NewCDP_def ex_mint_def
      ex_bd_dec_def issued_decision_def ex_bd_env_def submitted_envelope_def vault_get_def NewInMemoryVault_def)

lemma ex_bd_mint:
  assumes "bd_CDP s = Some ex_bd_cdp" "bd_Audit s = Some l"
  shows "is_OkObj (fst (cb4aMint ex_bd_lib f ex_mint [JSString ex_bd_decision] s))"
proof -
  have lib: "jwt_complete ex_bd_lib" "jwt_es256 ex_bd_lib" "jwt_dates ex_bd_lib"
    using ex_bd_laws by (simp_all add: jwt_laws_def)
  have wire: "wire_ok ex_bd_lib (typ_header ex_bd_lib pdpDecisionType) (decision_payload
      (issued_decision ex_bd_lib ex_bd_pdp ex_bd_env TierHITL True ex_reqID ''demo-approver'' ex_env))"
    by (rule decision_wire [OF ex_bd_laws])
      (simp_all add: ex_bd_pdp_def NewInMemoryPDP_def ex_bd_env_def submitted_envelope_def generateID_def char_simps)
  have "issueDecision ex_bd_lib ex_bd_pdp ex_bd_env TierHITL True ex_reqID ''demo-approver'' ex_env = Inr ex_bd_decision"
    using ex_bd_sign(1) by (simp add: issueDecision_def ex_bd_parts ex_bd_values flip: ex_bd_dec_def)
  then have dec: "ParseDecision ex_bd_lib 0 ex_bd_decision (Some (ec_Public key_one)) = Inr ex_bd_dec"
    using ParseDecision_issued [OF lib _ refl wire, of ex_bd_decision 0]
    by (simp add: ex_bd_parts TierHITL_def ex_bd_values) (simp add: ex_bd_dec_def TierHITL_def)
  have "Mint ex_bd_lib ex_mint ex_bd_decision (ex_bd_cdp, l) = (Inr \<lparr>mc_Token = ex_bd_token, mc_EphemeralKey = key_two,
      mc_EphemeralPub = Some (ec_Public key_two), mc_Scope = pd_Scope ex_bd_dec, mc_ExpiresAt = 0 + 15 * minute\<rparr>, ex_bd_cdp,
      audit 0 (mint_entry ex_bd_dec ex_jkt (15 * minute)) l)"
    unfolding Mint_ok
    by (intro exI conjI) (simp_all add: dec ex_bd_values ex_bd_parts ex_bd_sign flip: ex_jkt_def)
  then show ?thesis
    using assms by (simp add: cb4aMint_def)
qed

lemma ex_bd_walk:
  "\<exists>rs s'. broker_walk ex_ecdsa ex_bd_lib ex_texts (''spiffe://a/b'', ''payment:AGENT_CREDIT:100'', ''https://api'', ''POST'')
     0 ex_env ex_env [] ex_mint ex_call_draws ''GET'' ''https://api/x'' ex_bd_state rs s'"
proof -
  obtain r1 s1 l1 where submit: "cb4aSubmit ex_bd_lib 0 ex_env [JSString ''spiffe://a/b'', JSString ''payment:AGENT_CREDIT:100'',
      JSString ''https://api'', JSString ''POST''] ex_bd_state = (r1, s1)" "reply_field ''requestID'' r1 = Some (JStr ex_reqID)"
    and s1: "bd_PDP s1 = Some ex_bd_parked" "bd_CDP s1 = Some ex_bd_cdp" "bd_Audit s1 = Some l1"
    using ex_bd_submit by blast
  obtain r2 s2 l2 where approve: "cb4aApprove ex_bd_lib ex_env [JSString ex_reqID] s1 = (r2, s2)"
      "reply_field ''decisionJWT'' r2 = Some (JStr ex_bd_decision)"
    and s2: "bd_CDP s2 = Some ex_bd_cdp" "bd_Audit s2 = Some l2"
    using ex_bd_approve [OF s1(1,3)] s1(2) by auto
  obtain r3 s3 where mint: "cb4aMint ex_bd_lib (pt_rfc3339 ex_texts) ex_mint [JSString ex_bd_decision] s2 = (r3, s3)" "is_OkObj r3"
    using ex_bd_mint [OF s2] by (metis prod.collapse)
  obtain r4 s4 where call: "cb4aAPICall ex_bd_lib (pt_call_error ex_texts) ex_call_draws [JSString ''GET'', JSString ''https://api/x''] s3 = (r4, s4)"
    by fastforce
  have "ex_reqID \<noteq> []"
    by (rule generateID_ne) (simp add: ex_env_def)
  then show ?thesis
    unfolding broker_walk_def prod.case using submit approve mint call by blast
qed

section \<open>Properties\<close>

text \<open>C27: No click panics.  Whatever sequence of buttons is clicked, with whatever arguments, no function
  of the broker's page dereferences a missing audit log or slices a text out of range: an approval
  that succeeds has a request identifier long enough for the slices of its reply.\<close>

theorem demo_broker_never_panics:
  assumes "run_ops (broker_demo_step E L T) clicks broker_demo_init = (replies, s)" "list_all broker_click_ok clicks"
  shows "list_all (\<lambda>r. \<not> is_panic r) replies \<and> broker_demo_inv s"
proof -
  have init: "broker_demo_inv broker_demo_init"
    by (simp add: broker_demo_inv_def broker_demo_init_def)
  have "list_all2 (\<lambda>x r. \<not> is_panic r) clicks replies"
  proof (rule broker_sys.history_replies [OF _ assms init])
    show "\<not> is_panic r" if "broker_demo_step E L T x s = (r, s')" "broker_demo_inv s" for x s r s'
      using broker_no_panic [OF that(2), of E L T x] that(1) by simp
  qed
  then show ?thesis
    using broker_sys.history_inv [OF assms init] by (auto simp: list_all_length list_all2_conv_all_nth)
qed

theorem demo_broker_never_panics_witness:
  "list_all (\<lambda>r. \<not> is_panic r) (fst (run_ops (broker_demo_step ex_ecdsa ex_bd_lib ex_texts)
     [BCall ex_call_draws [], BInit (Inr key_one) (Inr key_two), BSubmit 0 ex_env [JSString ''a'', JSString ''b'', JSNull, JSUndefined],
      BRegister ([], Inr ''id'', Inr ''secret'') [], BPasskey [] ex_env [JSString ex_reqID]] broker_demo_init))"
  by (rule demo_broker_never_panics [OF prod.collapse [symmetric], THEN conjunct1]) (simp add: ex_env_def)

text \<open>C28: From a request to a call.  In any state of the page, a request that the policy parks, that the
  page's approver or the holder of the registered passkey then approves, and for which a credential
  is minted, gives a credential for the requested scope, and a call with any method and URI while
  credential and proof are valid is authorized; the audit trail has grown by exactly the five
  events of this history.\<close>

theorem demo_broker_walk:
  assumes "jwt_laws L" "broker_demo_inv s"
    and "broker_walk E L T (svid, scope, target, action) now x1 x2 rnd m d method uri s replies s'"
    and "list_all utf8 [svid, scope, target, action, method, uri]"
    and "me_key m = Inr kp" "p256_key (ec_Public kp)"
    and "length (cl_jti d) = 16" "\<forall>c. bd_CDP s = Some c \<longrightarrow> cdp_dpopJTI c (generateID (cl_jti d)) = None"
    and "pe_now x2 \<le> me_parse m" "me_parse m < jwt_numeric_date L (pe_now x2 + 15 * minute)"
    and "cl_check d = (t1, t2, t3)" "me_now m \<le> t1" "t1 < jwt_numeric_date L (me_now m + 15 * minute)"
    and "cl_now d \<le> t2" "t2 < jwt_numeric_date L (cl_now d + 2 * minute)"
  shows "reply_field ''scope'' (replies ! 2) = Some (JStr scope) \<and>
    ((\<exists>e. replies ! 3 = errObj (DPoPProofFailed e)) \<or> is_OkObj (replies ! 3) \<and>
      map ae_Event (al_entries (the (bd_Audit s'))) = map ae_Event (al_entries (the (bd_Audit s))) @ walk_events)"
  using broker_walk_works [OF assms] by blast

theorem demo_broker_walk_witness:
  "\<exists>replies s'. broker_walk ex_ecdsa ex_bd_lib ex_texts (''spiffe://a/b'', ''payment:AGENT_CREDIT:100'', ''https://api'', ''POST'')
     0 ex_env ex_env [] ex_mint ex_call_draws ''GET'' ''https://api/x'' ex_bd_state replies s' \<and>
   reply_field ''scope'' (replies ! 2) = Some (JStr ''payment:AGENT_CREDIT:100'')"
proof -
  obtain rs s' where walk: "broker_walk ex_ecdsa ex_bd_lib ex_texts (''spiffe://a/b'', ''payment:AGENT_CREDIT:100'', ''https://api'', ''POST'')
     0 ex_env ex_env [] ex_mint ex_call_draws ''GET'' ''https://api/x'' ex_bd_state rs s'"
    using ex_bd_walk by blast
  have "reply_field ''scope'' (rs ! 2) = Some (JStr ''payment:AGENT_CREDIT:100'') \<and>
    ((\<exists>e. rs ! 3 = errObj (DPoPProofFailed e)) \<or> is_OkObj (rs ! 3) \<and>
      map ae_Event (al_entries (the (bd_Audit s'))) = map ae_Event (al_entries (the (bd_Audit ex_bd_state))) @ walk_events)"
    by (rule demo_broker_walk [OF ex_bd_laws ex_bd_inv walk, where kp = key_two and ?t1.0 = minute and ?t2.0 = minute])
      (simp_all add: ex_bd_values ex_bd_parts ex_bd_simps ex_call_draws_def char_simps, simp_all add: ledger_ext_def)
  with walk show ?thesis
    by blast
qed

end
