(* ===== verification/DemoChain.thy ===== *)
theory DemoChain
  imports Js History AgentProof WireText
begin

text \<open>
  The browser demo, the life of an identity chain (\<open>cmd/demo-wasm/main.go\<close>, \<open>setup\<close> to
  \<open>simulateTampering\<close>): the page's global variables as a record, one operation per exported
  function, and the histories of clicks.  The demo is the composition of issuer, chain, proof
  generator and both validators, so its theorems compose theirs.
\<close>

section \<open>State\<close>

record chain_demo =
  dm_idpPriv :: "ec_private option"
  dm_idpPub :: "ec_public option"
  dm_issuer :: "AgentIssuer option"
  dm_validator :: "AgentValidator option"
  dm_pv :: "InMemoryJTIStore ProofValidator option"
  dm_orchestratorPriv :: "ec_private option"
  dm_orchestratorPub :: "ec_public option"
  dm_executorPriv :: "ec_private option"
  dm_executorPub :: "ec_public option"
  dm_orchestratorToken :: string
  dm_executorToken :: string
  dm_chain :: chain

definition chain_demo_init :: chain_demo where
  "chain_demo_init = \<lparr>dm_idpPriv = None, dm_idpPub = None, dm_issuer = None, dm_validator = None, dm_pv = None,
     dm_orchestratorPriv = None, dm_orchestratorPub = None, dm_executorPriv = None, dm_executorPub = None,
     dm_orchestratorToken = [], dm_executorToken = [], dm_chain = []\<rparr>"

datatype demo_error = GenerateIdPKeyFailed string | GenerateOrchestratorKeyFailed string | GenerateExecutorKeyFailed string
  | CallSetupFirst | IssueOrchestratorFailed issue_error | IssueOrchestratorFirst | IssueExecutorFailed issue_error
  | ExtendChainFailed chain_error | BuildChainFirst | ChainValidationFailedErr chain_error
  | GenerateProofFailed generate_error | FirstValidationFailed proof_error | ReplayNotDetected
  | MalformedToken | TamperedAccepted

definition demoIssuerID :: string where
  "demoIssuerID = ''https://idp.agent-fabric.example''"

definition demo_mission :: string where
  "demo_mission = ''Summarise Q2 financial reports and file expense claims''"

definition RoleOrchestrator :: string where "RoleOrchestrator = ''orchestrator''"
definition RoleExecutor :: string where "RoleExecutor = ''executor''"

text \<open>What one call of an issuer or a proof generator draws.\<close>

record draws =
  dr_now :: time
  dr_jti :: bytes
  dr_rnd :: bytes

section \<open>Operations\<close>

definition demo_setup :: "string + ec_private \<Rightarrow> string + ec_private \<Rightarrow> string + ec_private \<Rightarrow> chain_demo
    \<Rightarrow> demo_error demo_reply \<times> chain_demo" where
  "demo_setup d1 d2 d3 s = (case d1 of
     Inl e \<Rightarrow> (errObj (GenerateIdPKeyFailed e), s\<lparr>dm_idpPriv := None\<rparr>)
   | Inr idp \<Rightarrow>
       let s = s\<lparr>dm_idpPriv := Some idp, dm_idpPub := Some (ec_Public idp)\<rparr>
       in (case d2 of
         Inl e \<Rightarrow> (errObj (GenerateOrchestratorKeyFailed e), s\<lparr>dm_orchestratorPriv := None\<rparr>)
       | Inr orch \<Rightarrow>
           let s = s\<lparr>dm_orchestratorPriv := Some orch, dm_orchestratorPub := Some (ec_Public orch)\<rparr>
           in (case d3 of
             Inl e \<Rightarrow> (errObj (GenerateExecutorKeyFailed e), s\<lparr>dm_executorPriv := None\<rparr>)
           | Inr exec \<Rightarrow>
               (okObj [(''message'', JStr ''Keys generated. IdP and agent key pairs ready.'')],
                s\<lparr>dm_executorPriv := Some exec, dm_executorPub := Some (ec_Public exec),
                  dm_issuer := Some (NewAgentIssuer demoIssuerID idp hour),
                  dm_validator := Some (NewAgentValidator demoIssuerID (ec_Public idp) []),
                  dm_pv := Some NewProofValidator\<rparr>))))"

definition orchestrator_options :: "ec_public option \<Rightarrow> IssueOptions" where
  "orchestrator_options pub = \<lparr>io_Subject = ''spiffe://agent-fabric.example/orchestrator'', io_Audiences = [],
     io_TrustDomain = [], io_Role = RoleOrchestrator, io_ChainDepth = 0, io_KeyID = [], io_WorkloadKey = pub,
     io_Mission = demo_mission\<rparr>"

definition executor_options :: "ec_public option \<Rightarrow> IssueOptions" where
  "executor_options pub = \<lparr>io_Subject = ''spiffe://agent-fabric.example/executor'', io_Audiences = [],
     io_TrustDomain = [], io_Role = RoleExecutor, io_ChainDepth = 1, io_KeyID = [], io_WorkloadKey = pub,
     io_Mission = []\<rparr>"

definition issueOrchestratorToken :: "ext \<Rightarrow> draws \<Rightarrow> chain_demo \<Rightarrow> demo_error demo_reply \<times> chain_demo" where
  "issueOrchestratorToken L d s = (case dm_issuer s of
     None \<Rightarrow> (errObj CallSetupFirst, s)
   | Some issuer \<Rightarrow>
       (case AgentIssuer_Issue L issuer (orchestrator_options (dm_orchestratorPub s)) (dr_now d) (dr_jti d) (dr_rnd d) of
          Inl e \<Rightarrow> (errObj (IssueOrchestratorFailed e), s)
        | Inr tok \<Rightarrow>
            (okObj [(''token'', JStr (js_truncate tok)), (''fullToken'', JStr tok),
               (''chain'', JStr (AgentChain_String [tok])), (''chainHash'', JStr (AgentChain_Hash [tok])),
               (''chainDepth'', JInt 0), (''role'', JStr RoleOrchestrator), (''mission'', JStr demo_mission)],
             s\<lparr>dm_orchestratorToken := tok, dm_chain := [tok]\<rparr>)))"

definition delegateToExecutor :: "ext \<Rightarrow> draws \<Rightarrow> chain_demo \<Rightarrow> demo_error demo_reply \<times> chain_demo" where
  "delegateToExecutor L d s =
     (if dm_orchestratorToken s = [] then (errObj IssueOrchestratorFirst, s)
      else (case dm_issuer s of
        None \<Rightarrow> (errObj CallSetupFirst, s)
      | Some issuer \<Rightarrow>
          (case AgentIssuer_Issue L issuer (executor_options (dm_executorPub s)) (dr_now d) (dr_jti d) (dr_rnd d) of
             Inl e \<Rightarrow> (errObj (IssueExecutorFailed e), s)
           | Inr tok \<Rightarrow>
               let s = s\<lparr>dm_executorToken := tok\<rparr>
               in (case AgentChain_Extend (dm_chain s) tok of
                 Inl e \<Rightarrow> (errObj (ExtendChainFailed e), s)
               | Inr extended \<Rightarrow>
                   (okObj [(''token'', JStr (js_truncate tok)), (''fullToken'', JStr tok),
                      (''chainLen'', JInt (int (AgentChain_Len extended))), (''chainHash'', JStr (AgentChain_Hash extended)),
                      (''chainDepth'', JInt 1), (''role'', JStr RoleExecutor)],
                    s\<lparr>dm_chain := extended\<rparr>)))))"

text \<open>The object \<open>details\<close> is kept as a JSON value, which the code returns as its text.\<close>

definition hop_summary :: "ValidatedAgent \<Rightarrow> json" where
  "hop_summary r = JObj [(''chainDepth'', JInt (ac_ChainDepth (va_Claims r))), (''role'', JStr (ac_Role (va_Claims r))),
     (''subject'', JStr (rc_Subject (ac_reg (va_Claims r))))]"

definition demo_validators :: "AgentValidator \<Rightarrow> string \<rightharpoonup> AgentValidator" where
  "demo_validators v = [demoIssuerID \<mapsto> v]"

definition validateChain :: "ext \<Rightarrow> (nat \<Rightarrow> time) \<Rightarrow> chain_demo \<Rightarrow> demo_error demo_reply \<times> chain_demo" where
  "validateChain L clock s = (case dm_validator s of
     None \<Rightarrow> (errObj CallSetupFirst, s)
   | Some v \<Rightarrow>
       if AgentChain_Len (dm_chain s) = 0 then (errObj BuildChainFirst, s)
       else (case AgentChain_Validate L (dm_chain s) (demo_validators v) clock of
         Inl e \<Rightarrow> (errObj (ChainValidationFailedErr e), s)
       | Inr results \<Rightarrow>
           (okObj [(''hops'', JInt (int (length results))), (''details'', JArr (map hop_summary results))], s)))"

definition generateProof :: "ext \<Rightarrow> js_value list \<Rightarrow> draws \<Rightarrow> chain_demo \<Rightarrow> demo_error demo_reply \<times> chain_demo" where
  "generateProof L args d s = (case dm_pv s of
     None \<Rightarrow> (errObj CallSetupFirst, s)
   | Some _ \<Rightarrow>
       if AgentChain_Len (dm_chain s) = 0 then (errObj BuildChainFirst, s)
       else (let targetURI = arg_or ''https://tool-server.example/api/weather'' 0 args;
                 signerKey = (if dm_executorToken s = [] then dm_orchestratorPriv s else dm_executorPriv s)
         in (case GenerateProof L \<lparr>pg_TargetURI = targetURI, pg_Chain = dm_chain s, pg_WorkloadKey = signerKey,
               pg_TTL = 0, pg_TxnToken = []\<rparr> (dr_now d) (dr_jti d) (dr_rnd d) of
           Inl e \<Rightarrow> (errObj (GenerateProofFailed e), s)
         | Inr p \<Rightarrow> (okObj [(''proof'', JStr (js_truncate p)), (''fullProof'', JStr p), (''targetURI'', JStr targetURI),
             (''chainHash'', JStr (AgentChain_Hash (dm_chain s)))], s))))"

text \<open>The two validations read the clock when they parse and when they record.\<close>

record replay_clocks =
  rk_parse1 :: time
  rk_record1 :: time
  rk_parse2 :: time
  rk_record2 :: time

definition replay_options :: "string \<Rightarrow> chain \<Rightarrow> string \<Rightarrow> ec_public option \<Rightarrow> ProofValidateOptions" where
  "replay_options p c targetURI signerPub = \<lparr>po_ProofToken = p, po_Chain = c, po_RequestURI = targetURI,
     po_WorkloadKey = signerPub, po_CheckReplay = True, po_TxnToken = []\<rparr>"

definition simulateReplayAttack :: "ext \<Rightarrow> (proof_error \<Rightarrow> string) \<Rightarrow> js_value list \<Rightarrow> draws \<Rightarrow> replay_clocks \<Rightarrow> chain_demo
    \<Rightarrow> demo_error demo_reply \<times> chain_demo" where
  "simulateReplayAttack L errText args d k s = (case dm_pv s of
     None \<Rightarrow> (errObj CallSetupFirst, s)
   | Some pv \<Rightarrow>
       if AgentChain_Len (dm_chain s) = 0 then (errObj BuildChainFirst, s)
       else (let targetURI = arg_or ''https://tool-server.example/api/data'' 0 args;
                 signerKey = (if dm_executorToken s \<noteq> [] then dm_executorPriv s else dm_orchestratorPriv s);
                 signerPub = (if dm_executorToken s \<noteq> [] then dm_executorPub s else dm_orchestratorPub s)
         in (case GenerateProof L \<lparr>pg_TargetURI = targetURI, pg_Chain = dm_chain s, pg_WorkloadKey = signerKey,
               pg_TTL = 0, pg_TxnToken = []\<rparr> (dr_now d) (dr_jti d) (dr_rnd d) of
           Inl e \<Rightarrow> (errObj (GenerateProofFailed e), s)
         | Inr p \<Rightarrow> (let vopts = replay_options p (dm_chain s) targetURI signerPub in
             (case ProofValidator_Validate InMemoryJTIStore_Record L pv (rk_parse1 k) (rk_record1 k) vopts of
                (Inl e, pv1) \<Rightarrow> (errObj (FirstValidationFailed e), s\<lparr>dm_pv := Some pv1\<rparr>)
              | (Inr _, pv1) \<Rightarrow>
                  (case ProofValidator_Validate InMemoryJTIStore_Record L pv1 (rk_parse2 k) (rk_record2 k) vopts of
                     (Inr _, pv2) \<Rightarrow> (errObj ReplayNotDetected, s\<lparr>dm_pv := Some pv2\<rparr>)
                   | (Inl replayErr, pv2) \<Rightarrow>
                       (okObj [(''firstAttempt'', JStr ''ACCEPTED''), (''secondAttempt'', JStr (''REJECTED: '' @ errText replayErr)),
                          (''protection'', JStr ''jti replay detection working correctly'')],
                        s\<lparr>dm_pv := Some pv2\<rparr>)))))))"

definition zero_signature :: string where
  "zero_signature = ''.'' @ replicate 43 (CHR ''A'')"

definition simulateTampering :: "ext \<Rightarrow> (validate_error \<Rightarrow> string) \<Rightarrow> time \<Rightarrow> chain_demo \<Rightarrow> demo_error demo_reply \<times> chain_demo" where
  "simulateTampering L errText now s = (case dm_validator s of
     None \<Rightarrow> (errObj CallSetupFirst, s)
   | Some v \<Rightarrow>
       if dm_orchestratorToken s = [] then (errObj IssueOrchestratorFirst, s)
       else (let parts = splitJWT (dm_orchestratorToken s) in
         if length parts \<noteq> 3 then (errObj MalformedToken, s)
         else (let tampered = parts ! 0 @ ''.'' @ parts ! 1 @ zero_signature in
           (case AgentValidator_Validate L v now tampered of
              Inr _ \<Rightarrow> (errObj TamperedAccepted, s)
            | Inl err \<Rightarrow> (okObj [(''tamperedToken'', JStr (js_truncate tampered)), (''result'', JStr (''REJECTED: '' @ errText err)),
                (''protection'', JStr ''ES256 signature verification working correctly'')], s)))))"

section \<open>Clicks\<close>

datatype chain_click = ClickSetup "string + ec_private" "string + ec_private" "string + ec_private"
  | ClickIssue draws | ClickDelegate draws | ClickValidate "nat \<Rightarrow> time" | ClickProof "js_value list" draws
  | ClickReplay "js_value list" draws replay_clocks | ClickTamper time

fun chain_demo_step :: "ext \<Rightarrow> (proof_error \<Rightarrow> string) \<Rightarrow> (validate_error \<Rightarrow> string) \<Rightarrow> chain_click \<Rightarrow> chain_demo
    \<Rightarrow> demo_error demo_reply \<times> chain_demo" where
  "chain_demo_step L pt vt (ClickSetup d1 d2 d3) s = demo_setup d1 d2 d3 s"
| "chain_demo_step L pt vt (ClickIssue d) s = issueOrchestratorToken L d s"
| "chain_demo_step L pt vt (ClickDelegate d) s = delegateToExecutor L d s"
| "chain_demo_step L pt vt (ClickValidate clock) s = validateChain L clock s"
| "chain_demo_step L pt vt (ClickProof args d) s = generateProof L args d s"
| "chain_demo_step L pt vt (ClickReplay args d k) s = simulateReplayAttack L pt args d k s"
| "chain_demo_step L pt vt (ClickTamper now) s = simulateTampering L vt now s"

text \<open>Issuer, validator and proof validator are made together and fit each other; the chain starts
  with the orchestrator's token.\<close>

definition chain_demo_inv :: "chain_demo \<Rightarrow> bool" where
  "chain_demo_inv s \<longleftrightarrow> (case dm_issuer s of
       None \<Rightarrow> dm_validator s = None \<and> dm_pv s = None \<and> dm_orchestratorToken s = [] \<and> dm_chain s = []
     | Some i \<Rightarrow> (\<exists>k pv. i = NewAgentIssuer demoIssuerID k hour \<and>
         dm_validator s = Some (NewAgentValidator demoIssuerID (ec_Public k) []) \<and>
         dm_pv s = Some pv \<and> pv_parser pv = es256_opts)) \<and>
     (dm_orchestratorToken s \<noteq> [] \<longrightarrow> dm_chain s \<noteq> [] \<and> hd (dm_chain s) = dm_orchestratorToken s)"

lemma chain_demo_init_inv: "chain_demo_inv chain_demo_init"
  by (simp add: chain_demo_inv_def chain_demo_init_def)

lemma setup_inv: "chain_demo_inv s \<Longrightarrow> chain_demo_inv (snd (demo_setup d1 d2 d3 s))"
  by (auto simp: chain_demo_inv_def demo_setup_def NewProofValidator_def Let_def split: sum.split option.splits)

lemma issue_inv: "chain_demo_inv s \<Longrightarrow> chain_demo_inv (snd (issueOrchestratorToken L d s))"
  by (auto simp: chain_demo_inv_def issueOrchestratorToken_def split: sum.split option.split)

lemma delegate_inv: "chain_demo_inv s \<Longrightarrow> chain_demo_inv (snd (delegateToExecutor L d s))"
  by (auto simp: chain_demo_inv_def delegateToExecutor_def Let_def ok_simps split: sum.split option.split)

lemma replay_inv:
  assumes "chain_demo_inv s"
  shows "chain_demo_inv (snd (simulateReplayAttack L errText args d k s))"
proof -
  have "chain_demo_inv (s\<lparr>dm_pv := Some pv'\<rparr>)" if "dm_pv s = Some pv" "pv_parser pv' = pv_parser pv" for pv pv'
    using assms that by (auto simp: chain_demo_inv_def split: option.splits)
  then show ?thesis
    using assms Validate_keeps_parser
    by (fastforce simp: simulateReplayAttack_def Let_def split: sum.split option.split prod.split)
qed

lemma other_clicks [simp]:
  "snd (validateChain L clock s) = s" "snd (generateProof L args d s) = s" "snd (simulateTampering L vt now s) = s"
  by (auto simp: validateChain_def generateProof_def simulateTampering_def Let_def split: sum.split option.split)

interpretation chain_sys: invariant_system "chain_demo_step L pt vt" chain_demo_inv "\<lambda>_. True" for L pt vt
proof unfold_locales
  fix x s r s'
  assume "chain_demo_step L pt vt x s = (r, s')" "chain_demo_inv s"
  then show "chain_demo_inv s'"
    using setup_inv issue_inv delegate_inv replay_inv by (cases x; simp) (metis other_clicks snd_conv)+
qed

section \<open>Attacks\<close>

text \<open>An ES256 signature has 64 bytes.\<close>

definition es256_length :: "ext \<Rightarrow> bool" where
  "es256_length L \<longleftrightarrow> (\<forall>key tok. jwt_sig_ok L key tok \<longrightarrow>
     (\<exists>sig. b64_decode (last (split_on (CHR ''.'') tok)) = Some sig \<and> length sig = 64))"

lemma replay_inversion:
  assumes "simulateReplayAttack L errText args d k s = (errObj ReplayNotDetected, s')"
  obtains pv pv1 pv2 opts c c' where "dm_pv s = Some pv" "po_CheckReplay opts"
    "ProofValidator_Validate InMemoryJTIStore_Record L pv (rk_parse1 k) (rk_record1 k) opts = (Inr c, pv1)"
    "ProofValidator_Validate InMemoryJTIStore_Record L pv1 (rk_parse2 k) (rk_record2 k) opts = (Inr c', pv2)"
proof (cases "dm_pv s")
  case (Some pv)
  from assms Some show thesis
    by (auto simp: simulateReplayAttack_def Let_def replay_options_def split: if_splits sum.splits prod.splits
        intro!: that [where opts = "replay_options p c t u" for p c t u])
qed (use assms in \<open>simp add: simulateReplayAttack_def\<close>)

lemma replay_expired:
  assumes "jwt_sound L" "jwt_functional L" "chain_demo_inv s"
    and "simulateReplayAttack L errText args d k s = (errObj ReplayNotDetected, s')"
  shows "\<exists>e. rk_parse2 k < e \<and> e < rk_record2 k"
proof -
  obtain pv pv1 pv2 opts c c' where pv: "dm_pv s = Some pv" "po_CheckReplay opts"
    and first: "ProofValidator_Validate InMemoryJTIStore_Record L pv (rk_parse1 k) (rk_record1 k) opts = (Inr c, pv1)"
    and second: "ProofValidator_Validate InMemoryJTIStore_Record L pv1 (rk_parse2 k) (rk_record2 k) opts = (Inr c', pv2)"
    using assms(4) by (rule replay_inversion)
  have parser: "pv_parser pv = es256_opts" "pv_parser pv1 = es256_opts"
    using assms(3) pv(1) Validate_keeps_parser [OF first] by (auto simp: chain_demo_inv_def split: option.splits)
  have checked: "proof_checked L es256_opts (rk_parse1 k) opts c" "proof_checked L es256_opts (rk_parse2 k) opts c'"
    using first second parser by (simp_all add: ProofValidator_Validate_ok)
  have same: "c' = c"
    by (rule proof_checked_functional [OF assms(2) checked]) simp
  obtain h where valid: "claims_valid es256_opts (rk_parse2 k) h (ap_reg c)"
    using proof_checked_sound [OF assms(1) checked(2)] same by blast
  then obtain e where e: "rc_ExpiresAt (ap_reg c) = Some e" "rk_parse2 k < e"
    by (auto simp: claims_valid_def es256_opts_def split: option.splits)
  have "\<not> rk_record2 k \<le> e"
    using mem.accepted_once [OF first pv(2) e(1), of "[]" "[]" pv1, OF _ _ second pv(2)] same by auto
  with e(2) show ?thesis by force
qed

lemma zero_signature_decoded: "b64_decode (replicate 43 (CHR ''A'')) = Some (replicate 32 (chr 0))"
  by code_simp

lemma tampered_rejected:
  assumes "jwt_sound L" "es256_length L"
  shows "\<not> is_ok (AgentValidator_Validate L v now (p @ ''.'' @ q @ zero_signature))"
proof
  assume "is_ok (AgentValidator_Validate L v now (p @ ''.'' @ q @ zero_signature))"
  then obtain va where "AgentValidator_Validate L v now (p @ ''.'' @ q @ zero_signature) = Inr va"
    by (auto simp: is_ok_iff)
  from Validate_sound [OF assms(1) this]
  have "jwt_sig_ok L (av_idpPub v) ((p @ ''.'' @ q) @ CHR ''.'' # replicate 43 (CHR ''A''))"
    by (auto simp: zero_signature_def)
  moreover have "last (split_on (CHR ''.'') ((p @ ''.'' @ q) @ CHR ''.'' # replicate 43 (CHR ''A''))) = replicate 43 (CHR ''A'')"
    by (rule split_on_last) simp
  ultimately obtain sig where "b64_decode (replicate 43 (CHR ''A'')) = Some sig" "length sig = 64"
    using assms(2) unfolding es256_length_def by metis
  then show False
    unfolding zero_signature_decoded by auto
qed

lemma tamper_reply:
  assumes "jwt_sound L" "es256_length L"
  shows "fst (simulateTampering L vt now s) \<noteq> errObj TamperedAccepted"
proof -
  have "\<not> is_ok (AgentValidator_Validate L v now (p @ ''.'' @ q @ zero_signature))" for v p q
    using assms by (rule tampered_rejected)
  then show ?thesis
    by (auto simp: simulateTampering_def Let_def is_ok_iff split: option.split sum.split)
qed

lemma other_replies:
  "fst (demo_setup d1 d2 d3 s) \<notin> {errObj TamperedAccepted, errObj ReplayNotDetected}"
  "fst (issueOrchestratorToken L d s) \<notin> {errObj TamperedAccepted, errObj ReplayNotDetected}"
  "fst (delegateToExecutor L d s) \<notin> {errObj TamperedAccepted, errObj ReplayNotDetected}"
  "fst (validateChain L clock s) \<notin> {errObj TamperedAccepted, errObj ReplayNotDetected}"
  "fst (generateProof L args d s) \<notin> {errObj TamperedAccepted, errObj ReplayNotDetected}"
  "fst (simulateReplayAttack L pt args d k s) \<noteq> errObj TamperedAccepted"
  "fst (simulateTampering L vt now s) \<noteq> errObj ReplayNotDetected"
  by (auto simp: demo_setup_def issueOrchestratorToken_def delegateToExecutor_def validateChain_def generateProof_def
      simulateReplayAttack_def simulateTampering_def Let_def split: sum.split option.split prod.split)

section \<open>A walk through the page\<close>

lemma demo_wire:
  assumes "jwt_laws L" "utf8 (io_Subject opts)" "utf8 (io_TrustDomain opts)" "utf8 (io_Role opts)" "utf8 (io_Mission opts)"
    and "list_all utf8 (io_Audiences opts)" "utf8 (ai_issuerID i)"
  shows "wire_ok L (issue_header L agentTokenType []) (agent_payload L (issue_claims L i opts (jwk_of key []) now jti))"
proof -
  have "json_utf8 (JObj (wit_marshal L (io_TrustDomain opts, Some (jwk_to_json (jwk_of key [])))))"
    using assms(1,3) by (simp add: jwt_laws_def wire_utf8_def del: json_utf8.simps)
  moreover have "json_utf8 (JObj ([(''role'', JStr (io_Role opts)), (''chain_depth'', JInt (io_ChainDepth opts))]
      @ omit_empty ''agent_mission'' (io_Mission opts)))"
    using assms(4,5) by (simp add: ball_Un char_simps)
  ultimately have priv: "json_utf8 (JObj (pl_priv (agent_payload L (issue_claims L i opts (jwk_of key []) now jti))))"
    by (simp add: agent_payload_def issue_claims_def ball_Un)
  have "json_utf8 (JObj (issue_header L agentTokenType []))"
    using assms(1) by (intro utf8_header) (simp_all add: jwt_laws_def agentTokenType_def char_simps)
  moreover have "claims_wire L (pl_reg (agent_payload L (issue_claims L i opts (jwk_of key []) now jti)))"
    using assms(1,2,6,7) jwt_datesD(3)
    by (simp add: claims_wire_def agent_payload_def issue_claims_def generateJTI_def jwt_laws_def)
  ultimately show ?thesis
    using priv unfolding wire_ok_def by blast
qed

text \<open>A token that a page issued with texts in UTF-8 is compact, and valid until it expires.\<close>

lemma page_token:
  assumes "jwt_laws L" "io_KeyID opts = []" "io_WorkloadKey opts = Some key" "p256_key key" "go_int (io_ChainDepth opts)"
    and "list_all utf8 [io_Subject opts, io_TrustDomain opts, io_Role opts, io_Mission opts, issuerID]"
    and "list_all utf8 (io_Audiences opts)"
    and "AgentIssuer_Issue L (NewAgentIssuer issuerID idp hour) opts now jti rnd = Inr tok"
  shows "compact_jwt tok issuerID"
    and "now \<le> t \<Longrightarrow> t < jwt_numeric_date L (now + hour) \<Longrightarrow>
      AgentValidator_Validate L (NewAgentValidator issuerID (ec_Public idp) []) t tok
        = Inr \<lparr>va_Claims = issue_claims L (NewAgentIssuer issuerID idp hour) opts (jwk_of key []) now jti, va_WorkloadKey = key\<rparr>"
proof -
  let ?c = "issue_claims L (NewAgentIssuer issuerID idp hour) opts (jwk_of key []) now jti"
  have wire: "wire_ok L (issue_header L agentTokenType []) (agent_payload L ?c)"
    by (rule demo_wire [OF assms(1)]) (use assms(6,7) in \<open>simp_all add: NewAgentIssuer_def\<close>)
  obtain sk where "jwt_sign L rnd (issue_header L agentTokenType []) (agent_payload L ?c) sk = Inr tok"
    using assms(2-4,8) by (auto simp: AgentIssuer_Issue_ok)
  then show "compact_jwt tok issuerID"
    using assms(1) wire by (fastforce simp: jwt_laws_def jwt_compact_def agent_payload_def issue_claims_def NewAgentIssuer_def)
  show "AgentValidator_Validate L (NewAgentValidator issuerID (ec_Public idp) []) t tok
      = Inr \<lparr>va_Claims = ?c, va_WorkloadKey = key\<rparr>" if "now \<le> t" "t < jwt_numeric_date L (now + hour)"
    using assms(1,2,4) wire that
    by (intro Validate_issued [OF _ _ _ _ assms(8,3,4,5)])
      (simp_all add: jwt_laws_def NewAgentIssuer_def NewAgentValidator_def)
qed

text \<open>A token that the demo issued is good at its depth for an hour, and at no other depth.\<close>

lemma demo_token:
  assumes "jwt_laws L" "opts \<in> {orchestrator_options (Some key), executor_options (Some key)}" "p256_key key"
    and "AgentIssuer_Issue L (NewAgentIssuer demoIssuerID idp hour) opts now jti rnd = Inr tok"
    and "now \<le> t" "t < jwt_numeric_date L (now + hour)"
  shows "peekIssuer tok = Inr demoIssuerID"
    and "AgentValidator_Validate L (NewAgentValidator demoIssuerID (ec_Public idp) []) t tok
      = Inr \<lparr>va_Claims = issue_claims L (NewAgentIssuer demoIssuerID idp hour) opts (jwk_of key []) now jti,
             va_WorkloadKey = key\<rparr>"
    and "tok \<noteq> []"
proof -
  have opts: "io_KeyID opts = []" "io_WorkloadKey opts = Some key" "go_int (io_ChainDepth opts)"
    "list_all utf8 [io_Subject opts, io_TrustDomain opts, io_Role opts, io_Mission opts, demoIssuerID]"
    "list_all utf8 (io_Audiences opts)"
    using assms(2)
    by (auto simp: orchestrator_options_def executor_options_def RoleOrchestrator_def RoleExecutor_def
        demo_mission_def demoIssuerID_def go_int_def char_simps)
  note token = page_token [OF assms(1) opts(1,2) assms(3) opts(3-5) assms(4)]
  show "peekIssuer tok = Inr demoIssuerID" "tok \<noteq> []"
    using peekIssuer_compact [OF token(1)] compact_jwt_wf(1) [OF token(1)] by (simp_all add: demoIssuerID_def)
  show "AgentValidator_Validate L (NewAgentValidator demoIssuerID (ec_Public idp) []) t tok
      = Inr \<lparr>va_Claims = issue_claims L (NewAgentIssuer demoIssuerID idp hour) opts (jwk_of key []) now jti,
             va_WorkloadKey = key\<rparr>"
    by (rule token(2) [OF assms(5,6)])
qed

definition demo_fresh :: "ext \<Rightarrow> draws \<Rightarrow> time \<Rightarrow> bool" where
  "demo_fresh L d t \<longleftrightarrow> dr_now d \<le> t \<and> t < jwt_numeric_date L (dr_now d + hour)"

lemma issued_click:
  assumes "dm_issuer s = Some i" "is_OkObj (fst (issueOrchestratorToken L d s))"
  obtains tok where
    "AgentIssuer_Issue L i (orchestrator_options (dm_orchestratorPub s)) (dr_now d) (dr_jti d) (dr_rnd d) = Inr tok"
    "snd (issueOrchestratorToken L d s) = s\<lparr>dm_orchestratorToken := tok, dm_chain := [tok]\<rparr>"
  using assms by (auto simp: issueOrchestratorToken_def split: sum.splits)

lemma delegated_click:
  assumes "dm_issuer s = Some i" "is_OkObj (fst (delegateToExecutor L d s))"
  obtains tok where
    "AgentIssuer_Issue L i (executor_options (dm_executorPub s)) (dr_now d) (dr_jti d) (dr_rnd d) = Inr tok"
    "snd (delegateToExecutor L d s) = s\<lparr>dm_executorToken := tok, dm_chain := dm_chain s @ [tok]\<rparr>"
  using assms by (auto simp: delegateToExecutor_def Let_def ok_simps split: sum.splits if_splits)

definition demo_hops :: json where
  "demo_hops = JArr
     [JObj [(''chainDepth'', JInt 0), (''role'', JStr ''orchestrator''), (''subject'', JStr ''spiffe://agent-fabric.example/orchestrator'')],
      JObj [(''chainDepth'', JInt 1), (''role'', JStr ''executor''), (''subject'', JStr ''spiffe://agent-fabric.example/executor'')]]"

text \<open>What \<open>validateChain\<close> says of the chain of two tokens, and of the same chain with another
  token of the executor.\<close>

lemma demo_chain_validated:
  assumes "jwt_laws L" "p256_key orch" "p256_key exec"
    and t1: "AgentIssuer_Issue L (NewAgentIssuer demoIssuerID idp hour) (orchestrator_options (Some orch)) (dr_now d1) j1 r1 = Inr tok1"
    and t2: "AgentIssuer_Issue L (NewAgentIssuer demoIssuerID idp hour) (executor_options (Some exec)) (dr_now d2) j2 r2 = Inr tok2"
    and "demo_fresh L d1 (clock 0)" "demo_fresh L d2 (clock 1)"
    and "dm_validator s = Some (NewAgentValidator demoIssuerID (ec_Public idp) [])"
  shows "dm_chain s = [tok1, tok2] \<Longrightarrow>
      validateChain L clock s = (okObj [(''hops'', JInt 2), (''details'', demo_hops)], s)"
    and "dm_chain s = [tok1, tok2, tok3] \<Longrightarrow> demo_fresh L d3 (clock 2) \<Longrightarrow>
      AgentIssuer_Issue L (NewAgentIssuer demoIssuerID idp hour) (executor_options (Some exec)) (dr_now d3) j3 r3 = Inr tok3 \<Longrightarrow>
      validateChain L clock s = (errObj (ChainValidationFailedErr (ChainAt 2 (DepthMismatch 2 1))), s)"
proof -
  note orch = demo_token [OF assms(1) _ assms(2) t1] and exec = demo_token [OF assms(1) _ assms(3)]
  let ?c1 = "issue_claims L (NewAgentIssuer demoIssuerID idp hour) (orchestrator_options (Some orch)) (jwk_of orch []) (dr_now d1) j1"
  have v1: "peekIssuer tok1 = Inr demoIssuerID"
    "AgentValidator_Validate L (NewAgentValidator demoIssuerID (ec_Public idp) []) (clock 0) tok1
      = Inr \<lparr>va_Claims = ?c1, va_WorkloadKey = orch\<rparr>"
    using assms(6) by (auto simp: demo_fresh_def intro!: orch)
  have ve: "peekIssuer tok = Inr demoIssuerID"
    "AgentValidator_Validate L (NewAgentValidator demoIssuerID (ec_Public idp) []) t tok
      = Inr \<lparr>va_Claims = issue_claims L (NewAgentIssuer demoIssuerID idp hour) (executor_options (Some exec))
          (jwk_of exec []) (dr_now d) j, va_WorkloadKey = exec\<rparr>"
    if "AgentIssuer_Issue L (NewAgentIssuer demoIssuerID idp hour) (executor_options (Some exec)) (dr_now d) j r = Inr tok"
      "demo_fresh L d t" for tok d j r t
    using exec [OF _ that(1)] that(2) by (auto simp: demo_fresh_def)
  note sels = issue_claims_def orchestrator_options_def executor_options_def RoleOrchestrator_def RoleExecutor_def
  show "dm_chain s = [tok1, tok2] \<Longrightarrow>
      validateChain L clock s = (okObj [(''hops'', JInt 2), (''details'', demo_hops)], s)"
    using v1 ve [OF t2 assms(7)] assms(8)
    by (simp add: validateChain_def AgentChain_Len_def AgentChain_Validate_def demo_validators_def
        hop_summary_def demo_hops_def sels)
  show "validateChain L clock s = (errObj (ChainValidationFailedErr (ChainAt 2 (DepthMismatch 2 1))), s)"
    if "dm_chain s = [tok1, tok2, tok3]" "demo_fresh L d3 (clock 2)"
      "AgentIssuer_Issue L (NewAgentIssuer demoIssuerID idp hour) (executor_options (Some exec)) (dr_now d3) j3 r3 = Inr tok3"
    using v1 ve [OF t2 assms(7)] ve [OF that(3,2)] assms(8) that(1)
    by (simp add: validateChain_def AgentChain_Len_def AgentChain_Validate_def demo_validators_def numeral_2_eq_2 sels)
qed

definition demo_walk :: "ec_private \<Rightarrow> ec_private \<Rightarrow> ec_private \<Rightarrow> draws \<Rightarrow> draws \<Rightarrow> (nat \<Rightarrow> time) \<Rightarrow> draws \<Rightarrow> chain_click list" where
  "demo_walk idp orch exec d1 d2 clock d3 =
     [ClickSetup (Inr idp) (Inr orch) (Inr exec), ClickIssue d1, ClickDelegate d2, ClickValidate clock,
      ClickDelegate d3, ClickValidate clock]"

lemma demo_walk_replies:
  assumes "jwt_laws L" "p256_key (ec_Public orch)" "p256_key (ec_Public exec)"
    and run: "run_ops (chain_demo_step L pt vt) (demo_walk idp orch exec d1 d2 clock d3) s = (rs, s')"
    and ok: "is_OkObj (rs ! 1)" "is_OkObj (rs ! 2)" "is_OkObj (rs ! 4)"
    and fresh: "demo_fresh L d1 (clock 0)" "demo_fresh L d2 (clock 1)" "demo_fresh L d3 (clock 2)"
  shows "rs ! 3 = okObj [(''hops'', JInt 2), (''details'', demo_hops)]"
    and "rs ! 5 = errObj (ChainValidationFailedErr (ChainAt 2 (DepthMismatch 2 1)))"
proof -
  let ?i = "NewAgentIssuer demoIssuerID idp hour"
  obtain r0 r1 r2 r3 r4 r5 s1 s2 s3 s4 s5 s6 where
    steps: "demo_setup (Inr idp) (Inr orch) (Inr exec) s = (r0, s1)" "issueOrchestratorToken L d1 s1 = (r1, s2)"
      "delegateToExecutor L d2 s2 = (r2, s3)" "validateChain L clock s3 = (r3, s4)"
      "delegateToExecutor L d3 s4 = (r4, s5)" "validateChain L clock s5 = (r5, s6)" and
    rs: "rs = [r0, r1, r2, r3, r4, r5]"
    using run by (auto simp: demo_walk_def run_ops_Cons simp del: run_ops.simps(2))
  have [simp]: "s4 = s3"
    using other_clicks(1) [of L clock s3] steps(4) by simp
  have s1: "s1 = snd (demo_setup (Inr idp) (Inr orch) (Inr exec) s)" and
    s2: "issueOrchestratorToken L d1 s1 = (rs ! 1, s2)" and s3: "delegateToExecutor L d2 s2 = (rs ! 2, s3)" and
    v3: "fst (validateChain L clock s3) = rs ! 3" and
    s5: "delegateToExecutor L d3 s3 = (rs ! 4, s5)" and v5: "fst (validateChain L clock s5) = rs ! 5"
    using steps rs by simp_all
  have made: "dm_issuer s1 = Some ?i" "dm_validator s1 = Some (NewAgentValidator demoIssuerID (ec_Public idp) [])"
    "dm_orchestratorPub s1 = Some (ec_Public orch)" "dm_executorPub s1 = Some (ec_Public exec)"
    using s1 by (simp_all add: demo_setup_def)
  obtain tok1 where t1: "AgentIssuer_Issue L ?i (orchestrator_options (Some (ec_Public orch))) (dr_now d1) (dr_jti d1) (dr_rnd d1) = Inr tok1"
    and s2: "s2 = s1\<lparr>dm_orchestratorToken := tok1, dm_chain := [tok1]\<rparr>"
    using issued_click [OF made(1), of L d1] s2 ok(1) made(3) by auto
  obtain tok2 where t2: "AgentIssuer_Issue L ?i (executor_options (Some (ec_Public exec))) (dr_now d2) (dr_jti d2) (dr_rnd d2) = Inr tok2"
    and s3: "s3 = s2\<lparr>dm_executorToken := tok2, dm_chain := [tok1, tok2]\<rparr>"
    using delegated_click [of s2 ?i L d2] s3 ok(2) made s2 by auto
  obtain tok3 where t3: "AgentIssuer_Issue L ?i (executor_options (Some (ec_Public exec))) (dr_now d3) (dr_jti d3) (dr_rnd d3) = Inr tok3"
    and s5: "s5 = s3\<lparr>dm_executorToken := tok3, dm_chain := [tok1, tok2, tok3]\<rparr>"
    using delegated_click [of s3 ?i L d3] s5 ok(3) made s2 s3 by auto
  note validated = demo_chain_validated [OF assms(1-3) t1 t2, where clock = clock, OF fresh(1,2)]
  show "rs ! 3 = okObj [(''hops'', JInt 2), (''details'', demo_hops)]"
    using validated(1) [of s3] v3 s2 s3 made(2) by simp
  show "rs ! 5 = errObj (ChainValidationFailedErr (ChainAt 2 (DepthMismatch 2 1)))"
    using validated(2) [of s5 tok3 d3, OF _ _ fresh(3) t3] v5 s2 s3 s5 made(2) by simp
qed

section \<open>Closed instances\<close>

definition ex_demo_draw :: "char \<Rightarrow> draws" where
  "ex_demo_draw c = \<lparr>dr_now = 0, dr_jti = replicate 16 c, dr_rnd = []\<rparr>"

definition ex_demo_entry :: "IssueOptions \<Rightarrow> char \<Rightarrow> nat \<Rightarrow> ledger_entry" where
  "ex_demo_entry opts c n = \<lparr>le_text = ex_demo_text ''{\"iss\":\"https://idp.agent-fabric.example\"}'' n, le_signer = key_one,
     le_token = \<lparr>tk_header = issue_header (ledger_ext []) agentTokenType [],
       tk_payload = agent_payload (ledger_ext []) (issue_claims (ledger_ext []) (NewAgentIssuer demoIssuerID key_one hour)
         opts (jwk_of (ec_Public key_two) []) 0 (replicate 16 c))\<rparr>\<rparr>"

definition ex_demo_chain :: chain where
  "ex_demo_chain = [ex_demo_text ''{\"iss\":\"https://idp.agent-fabric.example\"}'' 1,
     ex_demo_text ''{\"iss\":\"https://idp.agent-fabric.example\"}'' 2]"

definition ex_demo_gen :: ProofGenerateOptions where
  "ex_demo_gen = \<lparr>pg_TargetURI = ''https://tool-server.example/api/data'', pg_Chain = ex_demo_chain,
     pg_WorkloadKey = Some key_two, pg_TTL = 0, pg_TxnToken = []\<rparr>"

definition ex_demo_proof :: ledger_entry where
  "ex_demo_proof = \<lparr>le_text = ex_demo_text ''{}'' 4, le_signer = key_two,
     le_token = \<lparr>tk_header = typ_header (ledger_ext []) agentProofType,
       tk_payload = proof_payload (generate_claims (ledger_ext []) ex_demo_gen 0 (replicate 16 (CHR ''d'')))\<rparr>\<rparr>"

definition ex_demo_ledger :: "ledger_entry list" where
  "ex_demo_ledger = [ex_demo_entry (orchestrator_options (Some (ec_Public key_two))) (CHR ''a'') 1,
     ex_demo_entry (executor_options (Some (ec_Public key_two))) (CHR ''b'') 2,
     ex_demo_entry (executor_options (Some (ec_Public key_two))) (CHR ''c'') 3, ex_demo_proof]"

definition ex_demo_lib :: ext where
  "ex_demo_lib = ledger_ext ex_demo_ledger"

lemma ex_demo_compact:
  "compact_jwt (ex_demo_text ''{\"iss\":\"https://idp.agent-fabric.example\"}'' n) demoIssuerID"
  "compact_jwt (ex_demo_text ''{}'' n) []"
proof -
  have "json_parse ''{\"iss\":\"https://idp.agent-fabric.example\"}'' = Some (JObj [(''iss'', JStr ''https://idp.agent-fabric.example'')])"
    "json_parse ''{}'' = Some (JObj [])"
    by (simp_all add: parse_text_simps)
  from this [THEN ex_text_compact] show "compact_jwt (ex_demo_text ''{\"iss\":\"https://idp.agent-fabric.example\"}'' n) demoIssuerID"
    "compact_jwt (ex_demo_text ''{}'' n) []"
    by (simp_all add: json_field_defs demoIssuerID_def)
qed

lemma ex_demo_tokens: "distinct (map le_token ex_demo_ledger)"
proof -
  have "distinct (map (\<lambda>e. rc_ID (pl_reg (tk_payload (le_token e)))) ex_demo_ledger)"
    by (simp add: ex_demo_ledger_def ex_demo_entry_def ex_demo_proof_def agent_payload_def issue_claims_def
        proof_payload_def generate_claims_def replicate_eq_replicate)
  then show ?thesis
    by (simp add: distinct_map inj_on_def)
qed

lemma ex_demo_laws:
  "jwt_sound ex_demo_lib" "jwt_functional ex_demo_lib" "jwt_laws ex_demo_lib" "es256_length ex_demo_lib"
proof -
  show "jwt_sound ex_demo_lib" "jwt_functional ex_demo_lib"
    by (simp_all only: ex_demo_lib_def ledger_laws)
  show "jwt_laws ex_demo_lib"
    unfolding ex_demo_lib_def
    by (rule ledger_jwt_laws) (simp_all add: ex_demo_ledger_def ex_demo_entry_def ex_demo_proof_def agent_payload_def
        issue_claims_def proof_payload_def generate_claims_def NewAgentIssuer_def ex_demo_compact)
  have "b64_decode (last (split_on (CHR ''.'') (ex_demo_text p n))) = Some (replicate 64 (chr n))" for p n
    using split_on_last [OF b64_encode_sep_free(2), of "b64_encode ''h'' @ ''.'' @ b64_encode p"]
    by (simp add: ex_demo_text_def del: b64_encode.simps)
  then show "es256_length ex_demo_lib"
    by (auto simp: es256_length_def ex_demo_lib_def ledger_ext_def ex_demo_ledger_def ex_demo_entry_def ex_demo_proof_def)
qed

lemma ex_demo_Issue:
  assumes "ex_demo_entry opts c n \<in> set ex_demo_ledger" "opts \<in> {orchestrator_options (Some (ec_Public key_two)), executor_options (Some (ec_Public key_two))}"
  shows "AgentIssuer_Issue ex_demo_lib (NewAgentIssuer demoIssuerID key_one hour) opts 0 (replicate 16 c) rnd
    = Inr (le_text (ex_demo_entry opts c n))"
proof -
  have "jwt_sign ex_demo_lib rnd (issue_header (ledger_ext []) agentTokenType [])
      (agent_payload (ledger_ext []) (issue_claims (ledger_ext []) (NewAgentIssuer demoIssuerID key_one hour)
         opts (jwk_of (ec_Public key_two) []) 0 (replicate 16 c))) key_one = Inr (le_text (ex_demo_entry opts c n))"
    using ledger_sign [OF assms(1) ex_demo_tokens, of "issue_header (ledger_ext []) agentTokenType []"]
    by (simp add: ex_demo_lib_def ex_demo_entry_def)
  moreover have "io_Subject opts \<noteq> []" "io_Role opts \<noteq> []" "io_WorkloadKey opts = Some (ec_Public key_two)" "io_KeyID opts = []"
    using assms(2) by (auto simp: orchestrator_options_def executor_options_def RoleOrchestrator_def RoleExecutor_def)
  moreover have "issue_header ex_demo_lib = issue_header (ledger_ext [])" "agent_payload ex_demo_lib = agent_payload (ledger_ext [])"
    "issue_claims ex_demo_lib = issue_claims (ledger_ext [])"
    unfolding ex_demo_lib_def by (rule ledger_agent)+
  ultimately show ?thesis
    by (simp add: AgentIssuer_Issue_ok NewAgentIssuer_def)
qed

abbreviation ex_demo_walk :: "chain_click list" where
  "ex_demo_walk \<equiv> demo_walk key_one key_two key_two (ex_demo_draw (CHR ''a'')) (ex_demo_draw (CHR ''b'')) (\<lambda>_. minute)
     (ex_demo_draw (CHR ''c''))"

abbreviation ex_demo_step :: "chain_click \<Rightarrow> chain_demo \<Rightarrow> demo_error demo_reply \<times> chain_demo" where
  "ex_demo_step \<equiv> chain_demo_step ex_demo_lib (\<lambda>_. ''replayed'') (\<lambda>_. ''invalid'')"

lemma ex_demo_replies:
  assumes "run_ops ex_demo_step ex_demo_walk chain_demo_init = (rs, s)"
  shows "is_OkObj (rs ! 1)" "is_OkObj (rs ! 2)" "is_OkObj (rs ! 4)"
proof -
  note issue = ex_demo_Issue [of "orchestrator_options (Some (ec_Public key_two))" "CHR ''a''" 1]
    ex_demo_Issue [of "executor_options (Some (ec_Public key_two))" "CHR ''b''" 2]
    ex_demo_Issue [of "executor_options (Some (ec_Public key_two))" "CHR ''c''" 3]
  have ne: "ex_demo_text p n \<noteq> []" for p n
    by (simp add: ex_demo_text_def)
  obtain r0 r1 r2 r3 r4 r5 s1 s2 s3 s4 s5 s6 where
    steps: "demo_setup (Inr key_one) (Inr key_two) (Inr key_two) chain_demo_init = (r0, s1)"
      "issueOrchestratorToken ex_demo_lib (ex_demo_draw (CHR ''a'')) s1 = (r1, s2)"
      "delegateToExecutor ex_demo_lib (ex_demo_draw (CHR ''b'')) s2 = (r2, s3)"
      "validateChain ex_demo_lib (\<lambda>_. minute) s3 = (r3, s4)"
      "delegateToExecutor ex_demo_lib (ex_demo_draw (CHR ''c'')) s4 = (r4, s5)" and
    rs: "rs = [r0, r1, r2, r3, r4, r5]"
    using assms by (auto simp: demo_walk_def run_ops_Cons simp del: run_ops.simps(2))
  have same: "s4 = s3"
    using other_clicks(1) [of ex_demo_lib "\<lambda>_. minute" s3] steps(4) by simp
  have s1: "dm_issuer s1 = Some (NewAgentIssuer demoIssuerID key_one hour)" "dm_orchestratorPub s1 = Some (ec_Public key_two)"
    "dm_executorPub s1 = Some (ec_Public key_two)"
    using steps(1) by (auto simp: demo_setup_def)
  have s2: "is_OkObj r1" "dm_issuer s2 = dm_issuer s1" "dm_executorPub s2 = dm_executorPub s1" "dm_orchestratorToken s2 \<noteq> []"
    using steps(2) s1 issue(1)
    by (auto simp: issueOrchestratorToken_def ex_demo_draw_def ex_demo_ledger_def ex_demo_entry_def ne)
  have s3: "is_OkObj r2" "dm_issuer s3 = dm_issuer s1" "dm_executorPub s3 = dm_executorPub s1" "dm_orchestratorToken s3 \<noteq> []"
    using steps(3) s1 s2 issue(2)
    by (auto simp: delegateToExecutor_def ex_demo_draw_def ex_demo_ledger_def ex_demo_entry_def ne Let_def AgentChain_Extend_def)
  have "is_OkObj r4"
    using steps(5) s1 s3 issue(3) same
    by (auto simp: delegateToExecutor_def ex_demo_draw_def ex_demo_ledger_def ex_demo_entry_def ne Let_def AgentChain_Extend_def)
  with s2 s3 rs show "is_OkObj (rs ! 1)" "is_OkObj (rs ! 2)" "is_OkObj (rs ! 4)"
    by simp_all
qed

section \<open>Properties\<close>

text \<open>Whatever sequence of buttons is clicked, the tampering demo never finds its tampered token
  accepted, and the replay demo never finds a replay undetected unless some instant lies strictly
  between the clock readings of the parser and of the store in its second validation, after which
  the proof has expired.\<close>

theorem demo_attacks_detected:
  assumes "jwt_sound L" "jwt_functional L" "es256_length L"
    and "run_ops (chain_demo_step L proofText tokenText) clicks chain_demo_init = (replies, s)"
  shows "list_all2 (\<lambda>x r. r \<noteq> errObj TamperedAccepted \<and>
      (r = errObj ReplayNotDetected \<longrightarrow>
        (\<exists>args d k e. x = ClickReplay args d k \<and> rk_parse2 k < e \<and> e < rk_record2 k))) clicks replies"
proof (rule chain_sys.history_replies [OF _ assms(4) _ chain_demo_init_inv])
  show "r \<noteq> errObj TamperedAccepted \<and> (r = errObj ReplayNotDetected \<longrightarrow>
      (\<exists>args d k e. x = ClickReplay args d k \<and> rk_parse2 k < e \<and> e < rk_record2 k))"
    if "chain_demo_step L proofText tokenText x s = (r, s')" "chain_demo_inv s" for x s r s'
    using that tamper_reply [OF assms(1,3)] replay_expired [OF assms(1,2) that(2)] other_replies
    by (cases x; simp) (metis fst_conv)+
qed (simp add: list_all_iff)

theorem demo_attacks_detected_witness:
  "list_all2 (\<lambda>x r. r \<noteq> errObj TamperedAccepted)
     (ex_demo_walk @ [ClickReplay [] (ex_demo_draw (CHR ''d'')) \<lparr>rk_parse1 = 0, rk_record1 = 0, rk_parse2 = 0, rk_record2 = 0\<rparr>,
        ClickTamper minute])
     (fst (run_ops ex_demo_step (ex_demo_walk @
        [ClickReplay [] (ex_demo_draw (CHR ''d'')) \<lparr>rk_parse1 = 0, rk_record1 = 0, rk_parse2 = 0, rk_record2 = 0\<rparr>,
         ClickTamper minute]) chain_demo_init))"
  by (rule list_all2_mono [OF demo_attacks_detected [OF ex_demo_laws(1,2,4)]]) (auto simp: prod_eq_iff)

text \<open>The walk through the page: after the set-up with fresh keys, one token for the orchestrator
  and one delegation, the chain validates and shows both hops with their depth, role and subject.
  A second click on the delegation appends another token of depth 1, and the chain no longer
  validates.\<close>

theorem demo_walkthrough:
  assumes "jwt_laws L" "p256_key (ec_Public orch)" "p256_key (ec_Public exec)"
    and "run_ops (chain_demo_step L proofText tokenText) (demo_walk idp orch exec d1 d2 clock d3) s = (replies, s')"
    and "is_OkObj (replies ! 1)" "is_OkObj (replies ! 2)" "is_OkObj (replies ! 4)"
    and "demo_fresh L d1 (clock 0)" "demo_fresh L d2 (clock 1)" "demo_fresh L d3 (clock 2)"
  shows "replies ! 3 = okObj [(''hops'', JInt 2), (''details'', demo_hops)] \<and>
    replies ! 5 = errObj (ChainValidationFailedErr (ChainAt 2 (DepthMismatch 2 1)))"
  using demo_walk_replies [OF assms] by blast

theorem demo_walkthrough_witness:
  "fst (run_ops ex_demo_step ex_demo_walk chain_demo_init) ! 3 = okObj [(''hops'', JInt 2), (''details'', demo_hops)]"
proof -
  obtain rs s where run: "run_ops ex_demo_step ex_demo_walk chain_demo_init = (rs, s)"
    by fastforce
  have "demo_fresh ex_demo_lib (ex_demo_draw c) minute" for c
    by (simp add: demo_fresh_def ex_demo_draw_def ex_demo_lib_def ledger_ext_def)
  then show ?thesis
    using demo_walkthrough [OF ex_demo_laws(3) _ _ run ex_demo_replies [OF run]] run by simp
qed

end
