(* ===== verification/Broker.thy ===== *)
theory Broker
  imports Cdp
begin

text \<open>
  Package \<open>pkg/cb4a\<close> as a whole: a Policy Decision Point and a Credential Delivery Point that share
  one audit log.  An operation of either is a step of the broker; the contract of the log
  (\<open>outcome_log\<close>) is interpreted on these steps.
\<close>

type_synonym broker = "InMemoryPDP \<times> CDP"

fun broker_step :: "ecdsa \<Rightarrow> ext \<Rightarrow> pdp_op + cdp_op \<Rightarrow> broker \<times> AuditLog
    \<Rightarrow> (pdp_reply + cdp_reply) \<times> broker \<times> AuditLog" where
  "broker_step E L (Inl op) ((p, c), log) =
     (case pdp_step E L op (p, log) of (r, p', log') \<Rightarrow> (Inl r, (p', c), log'))"
| "broker_step E L (Inr op) ((p, c), log) =
     (case cdp_step L op (c, log) of (r, c', log') \<Rightarrow> (Inr r, (p, c'), log'))"

text \<open>The outcome that a reply reports: a decision handed out, a denial, a credential, an accepted
  call.\<close>

fun broker_reports :: "pdp_reply + cdp_reply \<Rightarrow> EventType option" where
  "broker_reports (Inl (Evaluated (Inr (j, r)))) = (if r = [] then Some EventApproved else None)"
| "broker_reports (Inl (Approved (Inr j))) = Some EventApproved"
| "broker_reports (Inl (Denied None)) = Some EventDenied"
| "broker_reports (Inr (Minted (Inr mc))) = Some EventCredentialMinted"
| "broker_reports (Inr (Called None)) = Some EventAPICall"
| "broker_reports _ = None"

text \<open>Request identifiers are made of 16 bytes.\<close>

fun broker_op_ok :: "pdp_op + cdp_op \<Rightarrow> bool" where
  "broker_op_ok (Inl (OpEvaluate x env)) = (length (pe_reqID x) = 16)"
| "broker_op_ok _ = True"

lemma pdp_outcome:
  assumes "pdp_step E L op (p, l) = (r, p', l')" "broker_op_ok (Inl op)" "ev \<in> outcomes"
  shows "entries_with ev (al_entries l') =
    entries_with ev (al_entries l) + (if broker_reports (Inl r) = Some ev then 1 else 0)"
proof -
  have approve: "entries_with ev (al_entries l') =
      entries_with ev (al_entries l) + (if broker_reports (Inl (Approved q)) = Some ev then 1 else 0)"
    if "Approve L x k a (p, l) = (q, p', l')" for x k a q
    using that assms(3)
    by (auto simp: Approve_def Let_def outcomes_def pdp_entry_def split: option.splits sum.splits if_splits)
  show ?thesis
  proof (cases op)
    case (OpEvaluate x env)
    then have "generateID (pe_reqID x) \<noteq> []"
      using assms(2) generateID_ne by simp
    then show ?thesis
      using assms(1,3) OpEvaluate
      by (auto simp: Evaluate_def Let_def outcomes_def pdp_entry_def apfst_def map_prod_def
          split: option.splits sum.splits if_splits prod.splits)
  next
    case (OpApprove x k a)
    then show ?thesis
      using assms(1) approve by (auto simp: apfst_def map_prod_def split: prod.splits)
  next
    case (OpPasskey x k c ch b)
    then show ?thesis
      using assms(1) approve
      by (auto simp: ApproveWithPasskey_def apfst_def map_prod_def split: prod.splits option.splits)
  next
    case (OpDeny x k a)
    then show ?thesis
      using assms(1,3)
      by (auto simp: Deny_def outcomes_def pdp_entry_def apfst_def map_prod_def
          split: option.splits if_splits prod.splits)
  qed
qed

lemma cdp_outcome:
  assumes "cdp_step L op (c, l) = (r, c', l')" "ev \<in> outcomes"
  shows "entries_with ev (al_entries l') =
    entries_with ev (al_entries l) + (if broker_reports (Inr r) = Some ev then 1 else 0)"
proof (cases op)
  case (OpMint x d)
  then show ?thesis
    using assms by (auto simp: Mint_def outcomes_def mint_entry_def apfst_def map_prod_def
        split: sum.splits if_splits prod.splits)
next
  case (OpCall t tok dpop m u)
  obtain n1 n2 n3 where "t = (n1, n2, n3)"
    by (cases t)
  then show ?thesis
    using assms OpCall
    by (auto simp: SimulateAPICall_def Let_def outcomes_def call_entry_def apfst_def map_prod_def
        split: sum.splits option.splits if_splits prod.splits)
qed

interpretation broker_log: outcome_log "broker_step E L" broker_reports broker_op_ok for E L
proof
  fix op s l r s' l'
  assume step: "broker_step E L op (s, l) = (r, s', l')"
  obtain p c where s: "s = (p, c)"
    by (cases s)
  show "log_extends l l'"
    using step pdp_log.step_extends cdp_log.step_extends s
    by (cases op) (fastforce split: prod.splits)+
  fix ev
  assume "broker_op_ok op" "ev \<in> outcomes"
  then show "entries_with ev (al_entries l') =
      entries_with ev (al_entries l) + (if broker_reports r = Some ev then 1 else 0)"
    using step pdp_outcome cdp_outcome s
    by (cases op) (auto split: prod.splits)
qed

section \<open>Properties\<close>

text \<open>C24: The audit trail is append-only and complete.  In any interleaving of operations of a PDP and
  a CDP on one log, the entries that were there stay first and unchanged, and for each outcome the
  number of new entries is exactly the number of replies that report it: a decision handed out, a
  denial, a credential minted, a call accepted.\<close>

theorem audit_trail_complete:
  assumes "run_ops (broker_step E L) ops (s, l) = (rs, s', l')" "list_all broker_op_ok ops"
    and "ev \<in> {EventApproved, EventDenied, EventCredentialMinted, EventAPICall}"
  shows "take (AuditLog_Len l) (AuditLog_Entries l') = AuditLog_Entries l \<and>
    entries_with ev (AuditLog_Entries l') =
      entries_with ev (AuditLog_Entries l) + length (filter (\<lambda>r. broker_reports r = Some ev) rs)"
  using broker_log.history_prefix [OF assms(1)] broker_log.history_outcomes [OF assms(1,2)] assms(3)
  by (simp add: outcomes_def AuditLog_Entries_def)

theorem audit_trail_complete_witness:
  "\<exists>l'. take (AuditLog_Len ex_log2) (AuditLog_Entries l') = AuditLog_Entries ex_log2 \<and>
     entries_with EventCredentialMinted (AuditLog_Entries l') = 1"
proof -
  have run: "run_ops (broker_step ex_ecdsa ex_broker_lib) [Inr (OpMint ex_mint ''decision'')] ((ex_settled, ex_cdp), ex_log2)
      = ([Inr (Minted (Inr ex_mc))], (ex_settled, ex_cdp), ex_log3)"
    by (simp add: ex_Mint)
  have "entries_with EventCredentialMinted (AuditLog_Entries ex_log2) = 0"
    by (simp add: AuditLog_Entries_def ex_log2_def ex_log1_def NewAuditLog_def pdp_entry_def)
  then show ?thesis
    using audit_trail_complete [OF run, of EventCredentialMinted] by auto
qed

end
