(* ===== verification/X402.thy ===== *)
theory X402
  imports Broker
begin

text \<open>
  Package \<open>pkg/x402\<close>: payments authorised by CB4A credentials.  A paying agent (\<open>agent.go\<close>) builds a
  payload from its credential and its AgentToken; the payment gateway (\<open>gateway.go\<close>) verifies it
  through the Credential Delivery Point, whose replay table and log are the state.
\<close>

section \<open>Data\<close>

definition X402Version :: int where "X402Version = 1"
definition SchemeCB4ADPOP :: string where "SchemeCB4ADPOP = ''cb4a-dpop''"
definition NetworkWIMSE :: string where "NetworkWIMSE = ''ai-agent-security''"

record PaymentMethod =
  pm_Scheme :: string
  pm_Network :: string
  pm_Asset :: string
  pm_Amount :: string

record PaymentRequired =
  prq_X402Version :: int
  prq_Accepts :: "PaymentMethod list"
  prq_Resource :: string
  prq_Error :: string

record PaymentPayload =
  pp_X402Version :: int
  pp_Scheme :: string
  pp_Network :: string
  pp_CB4AToken :: string
  pp_DPoPProof :: string
  pp_AgentToken :: string

record PaymentResult =
  pres_AgentSVID :: string
  pres_Asset :: string
  pres_Amount :: string
  pres_Scope :: string
  pres_Resource :: string

record PaymentGateway =
  pg_cdpPub :: ec_public
  pg_agentValidator :: AgentValidator
  pg_asset :: string
  pg_amount :: string

record PayingAgent =
  pa_minted :: "MintedCredential option"
  pa_agentToken :: string

datatype payment_error = Cb4aTokenRequired | DpopProofRequired | AgentTokenRequired
  | PaymentTokenInvalid string | NotPaymentScope string | AssetMismatch string string
  | AmountMismatch string string | DPoPVerification call_error | PaymentAgentInvalid validate_error
  | PayerMismatch string string

definition NewPaymentGateway :: "ec_public \<Rightarrow> AgentValidator \<Rightarrow> string \<Rightarrow> string \<Rightarrow> PaymentGateway" where
  "NewPaymentGateway cdpPub agentValidator asset amount =
     \<lparr>pg_cdpPub = cdpPub, pg_agentValidator = agentValidator, pg_asset = asset, pg_amount = amount\<rparr>"

definition NewPayingAgent :: "MintedCredential option \<Rightarrow> string \<Rightarrow> PayingAgent" where
  "NewPayingAgent minted agentToken = \<lparr>pa_minted = minted, pa_agentToken = agentToken\<rparr>"

section \<open>Operations\<close>

definition Require :: "PaymentGateway \<Rightarrow> string \<Rightarrow> PaymentRequired" where
  "Require g resource = \<lparr>prq_X402Version = X402Version,
     prq_Accepts = [\<lparr>pm_Scheme = SchemeCB4ADPOP, pm_Network = NetworkWIMSE, pm_Asset = pg_asset g,
       pm_Amount = pg_amount g\<rparr>],
     prq_Resource = resource, prq_Error = ''Payment required''\<rparr>"

text \<open>A payload is built only from a credential: with none, \<open>GenerateDPoPProof\<close> has failed before
  \<open>a.minted.Token\<close> is read.\<close>

definition BuildPayload :: "ext \<Rightarrow> PayingAgent \<Rightarrow> string \<Rightarrow> string \<Rightarrow> time \<Rightarrow> bytes \<Rightarrow> bytes
    \<Rightarrow> dpop_error + PaymentPayload" where
  "BuildPayload L a method uri now jti rnd = (case GenerateDPoPProof L (pa_minted a) method uri now jti rnd of
     Inl e \<Rightarrow> Inl e
   | Inr pf \<Rightarrow> Inr \<lparr>pp_X402Version = X402Version, pp_Scheme = SchemeCB4ADPOP, pp_Network = NetworkWIMSE,
       pp_CB4AToken = (case pa_minted a of None \<Rightarrow> [] | Some m \<Rightarrow> mc_Token m), pp_DPoPProof = pf,
       pp_AgentToken = pa_agentToken a\<rparr>)"

definition checkScope :: "PaymentGateway \<Rightarrow> string \<Rightarrow> payment_error option" where
  "checkScope g scope = (case splitn_on (CHR '':'') 3 scope of
     [kind, asset, amount] \<Rightarrow>
       if kind \<noteq> ''payment'' then Some (NotPaymentScope scope)
       else if asset \<noteq> pg_asset g then Some (AssetMismatch asset (pg_asset g))
       else if amount \<noteq> pg_amount g then Some (AmountMismatch amount (pg_amount g))
       else None
   | _ \<Rightarrow> Some (NotPaymentScope scope))"

text \<open>The clock readings: of the gateway's own parse, of the call of the CDP and of the AgentToken's
  validation.  The key function of the first parse does not look at the header.\<close>

definition Verify :: "ext \<Rightarrow> time \<Rightarrow> time \<times> time \<times> time \<Rightarrow> time \<Rightarrow> PaymentGateway \<Rightarrow> PaymentPayload
    \<Rightarrow> string \<Rightarrow> string \<Rightarrow> CDP \<times> AuditLog \<Rightarrow> (payment_error + PaymentResult) \<times> CDP \<times> AuditLog" where
  "Verify L now ts now' g payload method uri s =
     (if pp_CB4AToken payload = [] then (Inl Cb4aTokenRequired, s)
      else if pp_DPoPProof payload = [] then (Inl DpopProofRequired, s)
      else if pp_AgentToken payload = [] then (Inl AgentTokenRequired, s)
      else (case parse_with_claims L es256_opts now (pp_CB4AToken payload) token_claims (\<lambda>_. Inr (pg_cdpPub g)) of
        Inl e \<Rightarrow> (Inl (PaymentTokenInvalid e), s)
      | Inr (_, claims) \<Rightarrow>
     (case checkScope g (ct_Scope claims) of
        Some e \<Rightarrow> (Inl e, s)
      | None \<Rightarrow>
     (case SimulateAPICall L ts (pp_CB4AToken payload) (pp_DPoPProof payload) method uri s of
        (Some e, s') \<Rightarrow> (Inl (DPoPVerification e), s')
      | (None, s') \<Rightarrow>
     (case AgentValidator_Validate L (pg_agentValidator g) now' (pp_AgentToken payload) of
        Inl e \<Rightarrow> (Inl (PaymentAgentInvalid e), s')
      | Inr va \<Rightarrow>
     if rc_Subject (ac_reg (va_Claims va)) \<noteq> ct_AgentSVID claims
     then (Inl (PayerMismatch (rc_Subject (ac_reg (va_Claims va))) (ct_AgentSVID claims)), s')
     else (Inr \<lparr>pres_AgentSVID = ct_AgentSVID claims, pres_Asset = pg_asset g, pres_Amount = pg_amount g,
             pres_Scope = ct_Scope claims, pres_Resource = uri\<rparr>, s'))))))"

section \<open>Lemmas\<close>

lemma splitn_step:
  "splitn_on c (Suc (Suc n)) s = p # q # ps \<Longrightarrow>
   c \<notin> set p \<and> (\<exists>t. s = p @ c # t \<and> splitn_on c (Suc n) t = q # ps)"
proof (induction s arbitrary: p)
  case (Cons x xs)
  show ?case
  proof (cases "x = c")
    case True
    then show ?thesis
      using Cons.prems by auto
  next
    case False
    then obtain p' where "p = x # p'" "splitn_on c (Suc (Suc n)) xs = p' # q # ps"
      using Cons.prems by (auto split: list.splits)
    then show ?thesis
      using Cons.IH False by fastforce
  qed
qed simp

lemma splitn_three:
  "splitn_on c 3 s = [a, b, r] \<longleftrightarrow> s = a @ c # b @ c # r \<and> c \<notin> set a \<and> c \<notin> set b"
proof
  assume *: "splitn_on c 3 s = [a, b, r]"
  then obtain t where t: "c \<notin> set a" "s = a @ c # t" "splitn_on c 2 t = [b, r]"
    using splitn_step [of c 1 s a b "[r]"] by (auto simp: numeral_3_eq_3 numeral_2_eq_2)
  then obtain t' where "c \<notin> set b" "t = b @ c # t'" "splitn_on c 1 t' = [r]"
    using splitn_step [of c 0 t b r "[]"] by (auto simp: numeral_2_eq_2)
  with t show "s = a @ c # b @ c # r \<and> c \<notin> set a \<and> c \<notin> set b"
    by simp
qed (auto simp: splitn_on_three)

lemma checkScope_ok:
  "checkScope g scope = None \<longleftrightarrow>
     scope = ''payment:'' @ pg_asset g @ '':'' @ pg_amount g \<and> CHR '':'' \<notin> set (pg_asset g)"
proof -
  have "checkScope g scope = None \<longleftrightarrow> splitn_on (CHR '':'') 3 scope = [''payment'', pg_asset g, pg_amount g]"
    by (auto simp: checkScope_def split: list.splits if_splits)
  then show ?thesis
    by (simp add: splitn_three)
qed

lemma Verify_ok:
  "Verify L now ts now' g pl method uri s = (Inr res, s') \<longleftrightarrow>
     pp_CB4AToken pl \<noteq> [] \<and> pp_DPoPProof pl \<noteq> [] \<and> pp_AgentToken pl \<noteq> [] \<and> (\<exists>h claims va.
       parse_with_claims L es256_opts now (pp_CB4AToken pl) token_claims (\<lambda>_. Inr (pg_cdpPub g)) = Inr (h, claims) \<and>
       checkScope g (ct_Scope claims) = None \<and>
       SimulateAPICall L ts (pp_CB4AToken pl) (pp_DPoPProof pl) method uri s = (None, s') \<and>
       AgentValidator_Validate L (pg_agentValidator g) now' (pp_AgentToken pl) = Inr va \<and>
       rc_Subject (ac_reg (va_Claims va)) = ct_AgentSVID claims \<and>
       res = \<lparr>pres_AgentSVID = ct_AgentSVID claims, pres_Asset = pg_asset g, pres_Amount = pg_amount g,
             pres_Scope = ct_Scope claims, pres_Resource = uri\<rparr>)"
  by (auto simp: Verify_def split: sum.splits option.splits prod.splits)

text \<open>A payload whose AgentToken is refused has used up its proof.\<close>

lemma Verify_consumes:
  assumes "Verify L now ts now' g pl method uri (c, l) = (Inl (PaymentAgentInvalid e), c', l')"
  shows "SimulateAPICall L ts (pp_CB4AToken pl) (pp_DPoPProof pl) method uri (c, l) = (None, c', l')"
  using assms
  by (auto simp: Verify_def checkScope_def split: if_splits sum.splits option.splits prod.splits list.splits)

section \<open>Closed instances\<close>

text \<open>A gateway that asks for the payment which the closed instance of the broker authorised.\<close>

definition ex_gateway :: PaymentGateway where
  "ex_gateway = NewPaymentGateway (ec_Public key_one) ex_validator ''AGENT_CREDIT'' ''100''"

definition ex_payload :: PaymentPayload where
  "ex_payload = \<lparr>pp_X402Version = 1, pp_Scheme = SchemeCB4ADPOP, pp_Network = NetworkWIMSE,
     pp_CB4AToken = ''token'', pp_DPoPProof = ''proof'', pp_AgentToken = ex_token ''0''\<rparr>"

lemma ex_agent_valid:
  "0 \<le> t \<Longrightarrow> t < hour \<Longrightarrow> AgentValidator_Validate ex_broker_lib ex_validator t (ex_token ''0'')
     = Inr \<lparr>va_Claims = ex_claims 0, va_WorkloadKey = ec_Public key_two\<rparr>"
  unfolding ex_broker_lib_def ex_broker_ledger_def
  by (rule Validate_ledger_append) (simp add: ex_Validate flip: ex_lib_def)

lemma ex_gateway_simps [simp]:
  "pg_cdpPub ex_gateway = ec_Public key_one" "pg_agentValidator ex_gateway = ex_validator"
  "pg_asset ex_gateway = ''AGENT_CREDIT''" "pg_amount ex_gateway = ''100''"
  by (simp_all add: ex_gateway_def NewPaymentGateway_def)

lemma ex_token_claims_simps [simp]:
  "ct_Scope ex_token_claims = ''payment:AGENT_CREDIT:100''" "ct_AgentSVID ex_token_claims = ''spiffe://a/b''"
  by (simp_all add: ex_token_claims_def minted_claims_def ex_decision_def issued_decision_def ex_envelope_def)

lemma ex_pay_subject [simp]: "rc_Subject (ac_reg (ex_claims d)) = ''spiffe://a/b''"
  by (simp add: ex_claims_def issue_claims_def ex_opts_def)

lemma ex_pay_token:
  "\<exists>h. parse_with_claims ex_broker_lib es256_opts minute ''token'' token_claims (\<lambda>_. Inr (ec_Public key_one))
     = Inr (h, ex_token_claims)"
proof -
  have "parse_with_claims ex_broker_lib es256_opts minute (mc_Token ex_mc) token_claims (\<lambda>_. Inr (ec_Public key_one))
     = Inr (typ_header ex_broker_lib cb4aTokenType, ex_token_claims)"
    by (rule minted_token [OF broker_laws(3-5) ex_Mint, where kp = key_two and d = ex_decision])
      (simp_all add: broker_parts ex_broker_wire broker_decision,
       simp_all add: ex_mc_def ex_mint_def broker_decision ex_token_claims_def ex_jkt_def)
  then show ?thesis
    by (auto simp: ex_mc_def)
qed

lemma ex_Verify:
  "\<exists>s'. Verify ex_broker_lib minute (minute, minute, 0) minute ex_gateway ex_payload ''DELETE'' ''https://other'' (ex_cdp, ex_log3)
     = (Inr \<lparr>pres_AgentSVID = ''spiffe://a/b'', pres_Asset = ''AGENT_CREDIT'', pres_Amount = ''100'',
          pres_Scope = ''payment:AGENT_CREDIT:100'', pres_Resource = ''https://other''\<rparr>, s')"
proof -
  have "ex_token ''0'' \<noteq> []"
    by (simp add: ex_token_def)
  then show ?thesis
    using ex_pay_token ex_call ex_agent_valid [of minute]
    unfolding Verify_ok by (auto simp: ex_payload_def checkScope_ok)
qed

section \<open>Properties\<close>

text \<open>C25: A payment is accepted only when the CB4A token's signature verifies under the CDP's key and its
  scope is literally \<open>payment:asset:amount\<close> of the gateway, the CDP accepted the proof for this
  method and URI and this token, and the AgentToken is a valid one of the very agent that the CB4A
  token names; the result names that agent, and the CDP has recorded the proof's identifier, so the
  payload is not accepted a second time.\<close>

theorem payment_sound:
  assumes "jwt_sound L" "jwt_functional L"
    and "Verify L now (n1, n2, n3) now' g pl method uri (c, l) = (Inr res, c', l')"
  shows "jwt_sig_ok L (pg_cdpPub g) (pp_CB4AToken pl) \<and>
    pres_Scope res = ''payment:'' @ pg_asset g @ '':'' @ pg_amount g \<and> pres_Resource res = uri \<and>
    (\<exists>claims pc. call_checked L (ec_Public (cdp_sigKey c)) n1 n2 (pp_CB4AToken pl) (pp_DPoPProof pl) method uri claims pc \<and>
      ct_Scope claims = pres_Scope res \<and> ct_AgentSVID claims = pres_AgentSVID res) \<and>
    (\<exists>va. AgentValidator_Validate L (pg_agentValidator g) now' (pp_AgentToken pl) = Inr va \<and>
      rc_Subject (ac_reg (va_Claims va)) = pres_AgentSVID res \<and>
      jwt_sig_ok L (av_idpPub (pg_agentValidator g)) (pp_AgentToken pl)) \<and>
    (\<forall>ops rs s. run_ops (cdp_step L) ops (c', l') = (rs, s) \<longrightarrow>
      filter (proof_accepted (pp_DPoPProof pl)) (zip ops rs) = [])"
proof -
  obtain h claims va where
    tok: "parse_with_claims L es256_opts now (pp_CB4AToken pl) token_claims (\<lambda>_. Inr (pg_cdpPub g)) = Inr (h, claims)" and
    scope: "checkScope g (ct_Scope claims) = None" and
    call: "SimulateAPICall L (n1, n2, n3) (pp_CB4AToken pl) (pp_DPoPProof pl) method uri (c, l) = (None, c', l')" and
    va: "AgentValidator_Validate L (pg_agentValidator g) now' (pp_AgentToken pl) = Inr va"
      "rc_Subject (ac_reg (va_Claims va)) = ct_AgentSVID claims" and
    res: "res = \<lparr>pres_AgentSVID = ct_AgentSVID claims, pres_Asset = pg_asset g, pres_Amount = pg_amount g,
       pres_Scope = ct_Scope claims, pres_Resource = uri\<rparr>"
    using assms(3) unfolding Verify_ok by auto
  obtain claims' pc where checked: "call_checked L (ec_Public (cdp_sigKey c)) n1 n2 (pp_CB4AToken pl) (pp_DPoPProof pl) method uri claims' pc"
    and jti: "cdp_dpopJTI c' (rc_ID (dp_reg pc)) \<noteq> None"
    using call unfolding SimulateAPICall_ok by auto
  have "claims' = claims"
    using tok checked assms(2) unfolding call_checked_def jwt_functional_def parse_with_claims_ok
    by (metis option.inject)
  moreover have "jwt_sig_ok L (pg_cdpPub g) (pp_CB4AToken pl)"
    using parse_es256_sound [OF assms(1) tok, of ct_reg] token_claims_reg by auto
  moreover have "jwt_sig_ok L (av_idpPub (pg_agentValidator g)) (pp_AgentToken pl)"
    using Validate_sound [OF assms(1) va(1)] by blast
  moreover have "filter (proof_accepted (pp_DPoPProof pl)) (zip ops rs) = []"
    if "run_ops (cdp_step L) ops (c', l') = (rs, s)" for ops rs s
    using accepted_never_again [OF assms(2) checked jti] that by (cases s) blast
  ultimately show ?thesis
    using checked scope va res by (auto simp: checkScope_ok)
qed

theorem payment_sound_witness:
  "jwt_sig_ok ex_broker_lib (ec_Public key_one) ''token''"
proof -
  obtain c' l' where run: "Verify ex_broker_lib minute (minute, minute, 0) minute ex_gateway ex_payload ''DELETE'' ''https://other'' (ex_cdp, ex_log3)
     = (Inr \<lparr>pres_AgentSVID = ''spiffe://a/b'', pres_Asset = ''AGENT_CREDIT'', pres_Amount = ''100'',
          pres_Scope = ''payment:AGENT_CREDIT:100'', pres_Resource = ''https://other''\<rparr>, c', l')"
    using ex_Verify by auto
  show ?thesis
    using payment_sound [OF broker_laws(1,2) run] by (simp add: ex_payload_def)
qed

text \<open>Payment round trip.  The payload that a paying agent built from its credential is accepted by
  a gateway for the same asset and amount, while token and proof are valid and the proof is new,
  when the agent's AgentToken is valid for the agent that the PDP's decision named.\<close>

theorem payment_roundtrip:
  assumes "jwt_complete L" "jwt_es256 L" "jwt_dates L"
    and mint: "Mint L x dec (c, l) = (Inr mc, c, l1)" "me_key x = Inr kp" "p256_key (ec_Public kp)"
    and build: "BuildPayload L (NewPayingAgent (Some mc) agentToken) method uri now jti rnd = Inr pl" "length jti = 16"
    and ne: "mc_Token mc \<noteq> []" "pp_DPoPProof pl \<noteq> []" "agentToken \<noteq> []"
    and d: "ParseDecision L (me_parse x) dec (cdp_pdpPub c) = Inr d"
      "pd_Scope d = ''payment:'' @ asset @ '':'' @ amount" "CHR '':'' \<notin> set asset"
    and tc: "tc = minted_claims L c d (b64_sha256 (canonical_jwk (jwk_of (ec_Public kp) []))) x"
    and pc: "pc = proof_of L (mc_Token mc) method uri now jti"
    and wire: "wire_ok L (typ_header L cb4aTokenType) (token_payload tc)"
      "wire_ok L (dpop_header L (jwk_of (ec_Public kp) [])) (dpop_payload pc)"
    and t: "me_now x \<le> t" "t < jwt_numeric_date L (mc_ExpiresAt mc)"
      "me_now x \<le> t1" "t1 < jwt_numeric_date L (mc_ExpiresAt mc)"
      "now \<le> t2" "t2 < jwt_numeric_date L (now + 2 * minute)"
    and fresh: "cdp_dpopJTI c (generateID jti) = None"
    and va: "AgentValidator_Validate L v t3 agentToken = Inr va" "rc_Subject (ac_reg (va_Claims va)) = pd_AgentSVID d"
    and g: "g = NewPaymentGateway (ec_Public (cdp_sigKey c)) v asset amount"
  shows "\<exists>s'. Verify L t (t1, t2, t4) t3 g pl method uri (c, l1) =
    (Inr \<lparr>pres_AgentSVID = pd_AgentSVID d, pres_Asset = asset, pres_Amount = amount,
       pres_Scope = pd_Scope d, pres_Resource = uri\<rparr>, s')"
proof -
  have gen: "GenerateDPoPProof L (Some mc) method uri now jti rnd = Inr (pp_DPoPProof pl)"
    and pl: "pp_CB4AToken pl = mc_Token mc" "pp_AgentToken pl = agentToken"
    using build(1) by (auto simp: BuildPayload_def NewPayingAgent_def split: sum.splits)
  have tok: "parse_with_claims L es256_opts t (mc_Token mc) token_claims (\<lambda>_. Inr (ec_Public (cdp_sigKey c)))
      = Inr (typ_header L cb4aTokenType, tc)"
    by (rule minted_token [OF assms(1-3) mint d(1) tc wire(1) t(1,2)]) simp
  have checked: "call_checked L (ec_Public (cdp_sigKey c)) t1 t2 (mc_Token mc) (pp_DPoPProof pl) method uri tc pc"
    by (rule minted_call [OF assms(1-3) mint gen build(2) d(1) tc pc wire t(3-6)])
  have "rc_ID (dp_reg pc) = generateID jti" "\<exists>e. rc_ExpiresAt (dp_reg pc) = Some e"
    by (simp_all add: pc proof_of_def)
  then obtain s' where call: "SimulateAPICall L (t1, t2, t4) (mc_Token mc) (pp_DPoPProof pl) method uri (c, l1) = (None, s')"
    using call_accepted [OF checked] fresh by fastforce
  have "ct_Scope tc = pd_Scope d" "ct_AgentSVID tc = pd_AgentSVID d"
    by (simp_all add: tc minted_claims_def)
  then show ?thesis
    using tok call va ne pl d(2,3) g unfolding Verify_ok by (auto simp: NewPaymentGateway_def checkScope_ok)
qed

theorem payment_roundtrip_witness:
  "\<exists>s'. Verify ex_broker_lib minute (minute, minute, 0) minute ex_gateway ex_payload ''DELETE'' ''https://other'' (ex_cdp, ex_log3)
     = (Inr \<lparr>pres_AgentSVID = pd_AgentSVID ex_decision, pres_Asset = ''AGENT_CREDIT'', pres_Amount = ''100'',
          pres_Scope = pd_Scope ex_decision, pres_Resource = ''https://other''\<rparr>, s')"
proof -
  have build: "BuildPayload ex_broker_lib (NewPayingAgent (Some ex_mc) (ex_token ''0'')) ''DELETE'' ''https://other'' 0 ex_dpop_jti []
      = Inr ex_payload"
    by (simp add: BuildPayload_def NewPayingAgent_def ex_Generate_dpop ex_payload_def X402Version_def)
      (simp add: ex_mc_def)
  have d: "pd_Scope ex_decision = ''payment:'' @ ''AGENT_CREDIT'' @ '':'' @ ''100''" "pd_AgentSVID ex_decision = ''spiffe://a/b''"
    by (simp_all add: ex_decision_def issued_decision_def ex_envelope_def)
  have ne: "mc_Token ex_mc \<noteq> []" "pp_DPoPProof ex_payload \<noteq> []" "ex_token ''0'' \<noteq> []"
    by (simp_all add: ex_mc_def ex_payload_def ex_token_def)
  show ?thesis
    by (rule payment_roundtrip [OF broker_laws(3-5) ex_Mint _ _ build _ ne, where kp = key_two and d = ex_decision
          and tc = ex_token_claims and pc = ex_dpop_claims
          and v = ex_validator and va = "\<lparr>va_Claims = ex_claims 0, va_WorkloadKey = ec_Public key_two\<rparr>"])
      (simp_all add: broker_parts ex_broker_wire broker_decision d ex_agent_valid ex_gateway_def,
       simp_all add: ex_mc_def ex_mint_def ex_dpop_jti_def broker_decision ex_token_claims_def ex_dpop_claims_def
         ex_jkt_def)
qed

text \<open>A payment that fails because of the AgentToken has used up its DPoP proof: the CDP records the
  proof before the AgentToken is looked at, so no later payment with the same CB4A token and proof
  is accepted, not even with a valid AgentToken.\<close>

theorem payment_proof_used_up:
  assumes "jwt_functional L"
    and "Verify L now ts now' g pl method uri (c, l) = (Inl (PaymentAgentInvalid e), c', l')"
    and "pp_CB4AToken pl' = pp_CB4AToken pl" "pp_DPoPProof pl' = pp_DPoPProof pl"
  shows "\<nexists>res s. Verify L t ts' t' g' pl' method' uri' (c', l') = (Inr res, s)"
proof -
  obtain n1 n2 n3 where ts: "ts = (n1, n2, n3)"
    by (cases ts)
  obtain claims pc where checked: "call_checked L (ec_Public (cdp_sigKey c)) n1 n2 (pp_CB4AToken pl) (pp_DPoPProof pl) method uri claims pc"
    and jti: "cdp_dpopJTI c' (rc_ID (dp_reg pc)) \<noteq> None"
    using Verify_consumes [OF assms(2)] unfolding ts SimulateAPICall_ok by auto
  have "SimulateAPICall L ts' (pp_CB4AToken pl) (pp_DPoPProof pl) method' uri' (c', l') \<noteq> (None, s)" for s
  proof
    assume call: "SimulateAPICall L ts' (pp_CB4AToken pl) (pp_DPoPProof pl) method' uri' (c', l') = (None, s)"
    obtain c'' l'' where s: "s = (c'', l'')"
      by (cases s)
    let ?op = "OpCall ts' (pp_CB4AToken pl) (pp_DPoPProof pl) method' uri'"
    have "run_ops (cdp_step L) [?op] (c', l') = ([Called None], c'', l'')"
      using call s by simp
    from accepted_never_again [OF assms(1) checked jti this] show False
      by simp
  qed
  then show ?thesis
    using assms(3,4) by (auto simp: Verify_ok)
qed

theorem payment_proof_used_up_witness:
  "\<exists>e c' l'. Verify ex_broker_lib minute (minute, minute, 0) (2 * hour) ex_gateway ex_payload ''DELETE'' ''https://other'' (ex_cdp, ex_log3)
      = (Inl (PaymentAgentInvalid e), c', l') \<and>
    (\<nexists>res s. Verify ex_broker_lib minute (minute, minute, 0) minute ex_gateway ex_payload ''DELETE'' ''https://other'' (c', l')
      = (Inr res, s))"
proof -
  have "AgentValidator_Validate ex_broker_lib ex_validator (2 * hour) (ex_token ''0'') \<noteq> Inr va" for va
  proof
    assume late: "AgentValidator_Validate ex_broker_lib ex_validator (2 * hour) (ex_token ''0'') = Inr va"
    then have "va = \<lparr>va_Claims = ex_claims 0, va_WorkloadKey = ec_Public key_two\<rparr>"
      using Validate_functional [OF broker_laws(2) late ex_agent_valid [of minute]] by simp
    then have "rc_ExpiresAt (ac_reg (va_Claims va)) = Some hour"
      by (simp add: ex_claims_def issue_claims_def ledger_ext_def)
    then show False
      using Validate_sound [OF broker_laws(1) late] by (auto simp: claims_valid_def)
  qed
  then obtain e where e: "AgentValidator_Validate ex_broker_lib ex_validator (2 * hour) (ex_token ''0'') = Inl e"
    by (metis sumE)
  have ne: "ex_token ''0'' \<noteq> []"
    by (simp add: ex_token_def)
  obtain c' l' where "SimulateAPICall ex_broker_lib (minute, minute, 0) ''token'' ''proof'' ''DELETE'' ''https://other'' (ex_cdp, ex_log3)
      = (None, c', l')"
    using ex_call by blast
  then have run: "Verify ex_broker_lib minute (minute, minute, 0) (2 * hour) ex_gateway ex_payload ''DELETE'' ''https://other'' (ex_cdp, ex_log3)
      = (Inl (PaymentAgentInvalid e), c', l')"
    using ex_pay_token e ne checkScope_ok [of ex_gateway "''payment:AGENT_CREDIT:100''"]
    by (auto simp: Verify_def ex_payload_def)
  show ?thesis
    using payment_proof_used_up [OF broker_laws(2) run] run by blast
qed

end
