(* ===== verification/DemoX402.thy ===== *)
theory DemoX402
  imports DemoBroker DemoChain X402
begin

text \<open>
  The browser demo, x402 payments (\<open>cmd/demo-wasm/main.go\<close>, \<open>x402Init\<close> to \<open>x402GetAudit\<close>).  The
  page's PDP, CDP and audit log are made together and replaced together, while its payment gateway
  keeps a pointer to the CDP that it was made with: when a second \<open>x402Init\<close> fails late, it still
  points to the CDP before.  So the triples are kept in a store, and the gateway names its triple.
\<close>

section \<open>State\<close>

record x402_world =
  xw_PDP :: InMemoryPDP
  xw_CDP :: CDP
  xw_Audit :: AuditLog

record x402_demo =
  xd_worlds :: "x402_world list"     \<comment> \<open>the last one holds \<open>x402PDP\<close>, \<open>x402CDP\<close> and \<open>x402AuditLog\<close>\<close>
  xd_IDP :: "AgentIssuer option"
  xd_Validator :: "AgentValidator option"
  xd_CDPPub :: "ec_public option"
  xd_GW :: "(nat \<times> PaymentGateway) option"
  xd_AgentTok :: string
  xd_Minted :: "MintedCredential option"
  xd_PendReqID :: string
  xd_DecJWT :: string

definition x402_demo_init :: x402_demo where
  "x402_demo_init = \<lparr>xd_worlds = [], xd_IDP = None, xd_Validator = None, xd_CDPPub = None, xd_GW = None, xd_AgentTok = [],
     xd_Minted = None, xd_PendReqID = [], xd_DecJWT = []\<rparr>"

definition current :: "x402_demo \<Rightarrow> (nat \<times> x402_world) option" where
  "current s = (if xd_worlds s = [] then None else Some (length (xd_worlds s) - 1, last (xd_worlds s)))"

definition put_world :: "nat \<Rightarrow> x402_world \<Rightarrow> x402_demo \<Rightarrow> x402_demo" where
  "put_world i w s = s\<lparr>xd_worlds := (xd_worlds s)[i := w]\<rparr>"

datatype x402_error = X402IdPKey string | X402AgentKey string | X402PDPKey string | X402CDPKey string
  | X402IssueFailed issue_error | CallX402InitFirst | X402EvaluateFailed pdp_error | NoPendingRequest
  | X402ApproveFailed pdp_error | NoApprovedDecision | X402MintFailed mint_error | CallX402MintFirst | AgentTokenMissing
  | X402BuildFailed dpop_error | X402Rejected payment_error | X402Panic

definition x402IdpIssuer :: string where "x402IdpIssuer = ''https://idp.x402-demo.example''"
definition x402AgentSVID :: string where "x402AgentSVID = ''spiffe://x402-demo.example/agent/payment-bot''"
definition x402PaymentURI :: string where "x402PaymentURI = ''https://api.vendor.example/v1/premium-data''"

section \<open>Operations\<close>

definition x402_token_options :: "ec_public \<Rightarrow> IssueOptions" where
  "x402_token_options pub = \<lparr>io_Subject = x402AgentSVID, io_Audiences = [], io_TrustDomain = [], io_Role = RoleOrchestrator,
     io_ChainDepth = 0, io_KeyID = [], io_WorkloadKey = Some pub, io_Mission = []\<rparr>"

record x402_keys =
  xk_idp :: "string + ec_private"
  xk_agent :: "string + ec_private"
  xk_pdp :: "string + ec_private"
  xk_cdp :: "string + ec_private"

definition x402_world_of :: "ec_private \<Rightarrow> ec_private \<Rightarrow> x402_world" where
  "x402_world_of pdpKP cdpKP = \<lparr>
     xw_PDP = NewInMemoryPDP ''https://pdp.x402-demo.example'' pdpKP DefaultPolicyRules (15 * minute),
     xw_CDP = NewCDP NewInMemoryVault (Some (ec_Public pdpKP)) cdpKP ''https://cdp.x402-demo.example'' (15 * minute),
     xw_Audit = NewAuditLog\<rparr>"

definition x402Init :: "ext \<Rightarrow> x402_keys \<Rightarrow> draws \<Rightarrow> x402_demo \<Rightarrow> x402_error demo_reply \<times> x402_demo" where
  "x402Init L k d s = (case xk_idp k of
     Inl e \<Rightarrow> (errObj (X402IdPKey e), s)
   | Inr idpKP \<Rightarrow> (case xk_agent k of
       Inl e \<Rightarrow> (errObj (X402AgentKey e), s)
     | Inr agentKP \<Rightarrow> (case xk_pdp k of
         Inl e \<Rightarrow> (errObj (X402PDPKey e), s)
       | Inr pdpKP \<Rightarrow> (case xk_cdp k of
           Inl e \<Rightarrow> (errObj (X402CDPKey e), s)
         | Inr cdpKP \<Rightarrow>
             let idp = NewAgentIssuer x402IdpIssuer idpKP hour;
                 v = NewAgentValidator x402IdpIssuer (ec_Public idpKP) [];
                 s = s\<lparr>xd_worlds := xd_worlds s @ [x402_world_of pdpKP cdpKP], xd_CDPPub := Some (ec_Public cdpKP),
                   xd_IDP := Some idp, xd_Validator := Some v\<rparr>
             in (case AgentIssuer_Issue L idp (x402_token_options (ec_Public agentKP)) (dr_now d) (dr_jti d) (dr_rnd d) of
               Inl e \<Rightarrow> (errObj (X402IssueFailed e), s)
             | Inr tok \<Rightarrow>
                 (okObj [(''message'', JStr ''x402 demo initialised. PDP, CDP, PaymentGateway, and AgentToken ready.''),
                    (''agentSVID'', JStr x402AgentSVID), (''agentToken'', JStr (js_truncate tok))],
                  s\<lparr>xd_AgentTok := tok, xd_Minted := None, xd_PendReqID := [], xd_DecJWT := [],
                    xd_GW := Some (length (xd_worlds s) - 1, NewPaymentGateway (ec_Public cdpKP) v ''AGENT_CREDIT'' ''50'')\<rparr>))))))"

definition payment_method_json :: "PaymentMethod \<Rightarrow> json" where
  "payment_method_json m = JObj [(''scheme'', JStr (pm_Scheme m)), (''network'', JStr (pm_Network m)),
     (''asset'', JStr (pm_Asset m)), (''amount'', JStr (pm_Amount m))]"

definition payment_required_json :: "PaymentRequired \<Rightarrow> json" where
  "payment_required_json r = JObj ([(''x402Version'', JInt (prq_X402Version r)),
     (''accepts'', JArr (map payment_method_json (prq_Accepts r))), (''resource'', JStr (prq_Resource r))]
     @ omit_empty ''error'' (prq_Error r))"

text \<open>\<open>pr.Accepts[0]\<close> panics when there is none.\<close>

definition x402HitAPI :: "js_value list \<Rightarrow> x402_demo \<Rightarrow> x402_error demo_reply \<times> x402_demo" where
  "x402HitAPI args s = (case xd_GW s of
     None \<Rightarrow> (errObj CallX402InitFirst, s)
   | Some (_, g) \<Rightarrow>
       let uri = arg_or x402PaymentURI 0 args; pr = Require g uri
       in (case prq_Accepts pr of
         [] \<Rightarrow> (errObj X402Panic, s)
       | m # _ \<Rightarrow>
           (okObj [(''status'', JInt 402), (''message'', JStr ''HTTP 402 Payment Required''),
              (''paymentRequired'', payment_required_json pr), (''resource'', JStr uri), (''asset'', JStr (pm_Asset m)),
              (''amount'', JStr (pm_Amount m)), (''scheme'', JStr (pm_Scheme m))], s)))"

definition spending_envelope :: "string \<Rightarrow> EnvelopeClaims" where
  "spending_envelope scope = \<lparr>ev_reg = no_claims, ev_AgentSVID = x402AgentSVID, ev_Target = x402PaymentURI,
     ev_Action = ''GET'', ev_Scope = scope, ev_Justification = []\<rparr>"

text \<open>\<open>*x402CDPPub\<close> and \<open>*x402Validator\<close> are set whenever the PDP is.\<close>

definition x402RequestSpending :: "ext \<Rightarrow> pdp_env \<Rightarrow> js_value list \<Rightarrow> x402_demo \<Rightarrow> x402_error demo_reply \<times> x402_demo" where
  "x402RequestSpending L x args s = (case current s of
     None \<Rightarrow> (errObj CallX402InitFirst, s)
   | Some (i, w) \<Rightarrow> (case (xd_CDPPub s, xd_Validator s) of
       (Some cdpPub, Some v) \<Rightarrow>
         let amount = arg_or ''50'' 0 args;
             scope = ''payment:AGENT_CREDIT:'' @ amount;
             (r, pdp, log) = Evaluate L x (Some (spending_envelope scope)) (xw_PDP w, xw_Audit w);
             s = (put_world i (w\<lparr>xw_PDP := pdp, xw_Audit := log\<rparr>) s)
               \<lparr>xd_GW := Some (i, NewPaymentGateway cdpPub v ''AGENT_CREDIT'' amount)\<rparr>
         in (case r of
           Inl e \<Rightarrow> (errObj (X402EvaluateFailed e), s)
         | Inr (decisionJWT, reqID) \<Rightarrow>
             if decisionJWT \<noteq> [] then
               (okObj [(''tier'', JInt TierAuto), (''tierName'', JStr (tierNames TierAuto)),
                  (''status'', JStr ''auto-approved''), (''scope'', JStr scope)],
                s\<lparr>xd_DecJWT := decisionJWT, xd_PendReqID := []\<rparr>)
             else let tier = (case pdp_Get pdp reqID of None \<Rightarrow> TierHITL | Some req \<Rightarrow> pr_Tier req)
               in (okObj [(''tier'', JInt tier), (''tierName'', JStr (tierNames tier)), (''status'', JStr ''pending''),
                     (''requestID'', JStr reqID), (''scope'', JStr scope)],
                   s\<lparr>xd_PendReqID := reqID, xd_DecJWT := []\<rparr>))
     | _ \<Rightarrow> (errObj X402Panic, s)))"

definition x402Approve :: "ext \<Rightarrow> pdp_env \<Rightarrow> js_value list \<Rightarrow> x402_demo \<Rightarrow> x402_error demo_reply \<times> x402_demo" where
  "x402Approve L x args s = (case current s of
     None \<Rightarrow> (errObj CallX402InitFirst, s)
   | Some (i, w) \<Rightarrow>
       let reqID = arg_or (xd_PendReqID s) 0 args
       in if reqID = [] then (errObj NoPendingRequest, s)
       else (case Approve L x reqID ''finance-approver'' (xw_PDP w, xw_Audit w) of
         (r, pdp, log) \<Rightarrow>
           (let s = put_world i (w\<lparr>xw_PDP := pdp, xw_Audit := log\<rparr>) s
            in (case r of
              Inl e \<Rightarrow> (errObj (X402ApproveFailed e), s)
            | Inr dec \<Rightarrow>
                (okObj [(''approved'', JBool True), (''approver'', JStr ''finance-approver''), (''requestID'', JStr reqID)],
                 s\<lparr>xd_DecJWT := dec, xd_PendReqID := []\<rparr>)))))"

definition x402MintCred :: "ext \<Rightarrow> (time \<Rightarrow> string) \<Rightarrow> mint_env \<Rightarrow> x402_demo \<Rightarrow> x402_error demo_reply \<times> x402_demo" where
  "x402MintCred L rfc3339 x s = (case current s of
     None \<Rightarrow> (errObj CallX402InitFirst, s)
   | Some (i, w) \<Rightarrow>
       if xd_DecJWT s = [] then (errObj NoApprovedDecision, s)
       else (case Mint L x (xd_DecJWT s) (xw_CDP w, xw_Audit w) of
         (r, cdp, log) \<Rightarrow>
           (let s = put_world i (w\<lparr>xw_CDP := cdp, xw_Audit := log\<rparr>) s
            in (case r of
              Inl e \<Rightarrow> (errObj (X402MintFailed e), s)
            | Inr mc \<Rightarrow>
                (okObj [(''scope'', JStr (mc_Scope mc)), (''expiresAt'', JStr (rfc3339 (mc_ExpiresAt mc))),
                   (''tokenPreview'', JStr (js_truncate (mc_Token mc))),
                   (''ephKeyFingerprint'', JStr (key_fingerprint ellipsis (mc_EphemeralPub mc))), (''dpopBound'', JBool True),
                   (''message'', JStr (''Payment credential minted. DPoP-bound to ephemeral key '' @ em_dash @ '' no replay possible.''))],
                 s\<lparr>xd_Minted := Some mc, xd_DecJWT := []\<rparr>)))))"

text \<open>The readings of one payment: those of the proof, and the clock of the gateway's parse, of the CDP's
  check and of the AgentToken's validation.\<close>

record pay_draws =
  py_call :: call_draws
  py_parse :: time
  py_agent :: time

definition x402Pay :: "ext \<Rightarrow> (payment_error \<Rightarrow> string) \<Rightarrow> pay_draws \<Rightarrow> js_value list \<Rightarrow> x402_demo
    \<Rightarrow> x402_error demo_reply \<times> x402_demo" where
  "x402Pay L errText d args s = (case xd_GW s of
     None \<Rightarrow> (errObj CallX402InitFirst, s)
   | Some (i, g) \<Rightarrow>
       if xd_Minted s = None then (errObj CallX402MintFirst, s)
       else if xd_AgentTok s = [] then (errObj AgentTokenMissing, s)
       else if length (xd_worlds s) \<le> i then (errObj X402Panic, s)
       else (let method = arg_or ''GET'' 0 args; uri = arg_or x402PaymentURI 1 args; w = xd_worlds s ! i
         in (case BuildPayload L (NewPayingAgent (xd_Minted s) (xd_AgentTok s)) method uri
                 (cl_now (py_call d)) (cl_jti (py_call d)) (cl_rnd (py_call d)) of
           Inl e \<Rightarrow> (errObj (X402BuildFailed e), s)
         | Inr payload \<Rightarrow>
             (case Verify L (py_parse d) (cl_check (py_call d)) (py_agent d) g payload method uri (xw_CDP w, xw_Audit w) of
                (r, cdp, log) \<Rightarrow>
                  (let s = put_world i (w\<lparr>xw_CDP := cdp, xw_Audit := log\<rparr>) s
                   in (case r of
                     Inl e \<Rightarrow> (FailObj [(''detail'', JStr (''REJECTED: '' @ errText e))] (X402Rejected e), s)
                   | Inr res \<Rightarrow>
                       (okObj [(''agentSVID'', JStr (pres_AgentSVID res)), (''asset'', JStr (pres_Asset res)),
                          (''amount'', JStr (pres_Amount res)), (''scope'', JStr (pres_Scope res)),
                          (''resource'', JStr (pres_Resource res)), (''status'', JStr ''200 OK''),
                          (''message'', JStr (''Payment authorized '' @ em_dash
                             @ '' access granted. DPoP proof consumed (no replay).''))], s)))))))"

definition x402GetAudit :: "(time option \<Rightarrow> string) \<Rightarrow> x402_demo \<Rightarrow> x402_error demo_reply \<times> x402_demo" where
  "x402GetAudit clock s = (case current s of
     None \<Rightarrow> (errObj CallX402InitFirst, s)
   | Some (_, w) \<Rightarrow> (audit_reply clock (xw_Audit w), s))"

section \<open>Clicks\<close>

datatype x402_click = XInit x402_keys draws | XHit "js_value list" | XRequest pdp_env "js_value list"
  | XApprove pdp_env "js_value list" | XMint mint_env | XPay pay_draws "js_value list" | XAudit

fun x402_step :: "ext \<Rightarrow> page_texts \<Rightarrow> (payment_error \<Rightarrow> string) \<Rightarrow> x402_click \<Rightarrow> x402_demo
    \<Rightarrow> x402_error demo_reply \<times> x402_demo" where
  "x402_step L T pt (XInit k d) s = x402Init L k d s"
| "x402_step L T pt (XHit args) s = x402HitAPI args s"
| "x402_step L T pt (XRequest x args) s = x402RequestSpending L x args s"
| "x402_step L T pt (XApprove x args) s = x402Approve L x args s"
| "x402_step L T pt (XMint x) s = x402MintCred L (pt_rfc3339 T) x s"
| "x402_step L T pt (XPay d args) s = x402Pay L pt d args s"
| "x402_step L T pt XAudit s = x402GetAudit (pt_clock T) s"

section \<open>The invariant of the page\<close>

text \<open>The gateway trusts the key of the CDP that it points to, and the page's keys are those of its
  current CDP.\<close>

definition world_keys :: "x402_demo \<Rightarrow> ec_public list" where
  "world_keys s = map (\<lambda>w. ec_Public (cdp_sigKey (xw_CDP w))) (xd_worlds s)"

definition keys_ok :: "ec_public list \<Rightarrow> AgentValidator option \<Rightarrow> ec_public option \<Rightarrow> (nat \<times> PaymentGateway) option \<Rightarrow> bool" where
  "keys_ok ks v pub gw \<longleftrightarrow> (ks = [] \<longrightarrow> gw = None) \<and> (ks \<noteq> [] \<longrightarrow> v \<noteq> None \<and> pub = Some (last ks)) \<and>
     (case gw of None \<Rightarrow> True | Some (i, g) \<Rightarrow> i < length ks \<and> pg_asset g = ''AGENT_CREDIT'' \<and> pg_cdpPub g = ks ! i)"

definition x402_inv :: "x402_demo \<Rightarrow> bool" where
  "x402_inv s \<longleftrightarrow> keys_ok (world_keys s) (xd_Validator s) (xd_CDPPub s) (xd_GW s)"

lemma current_Some: "current s = Some (i, w) \<longleftrightarrow> xd_worlds s \<noteq> [] \<and> i = length (xd_worlds s) - 1 \<and> w = last (xd_worlds s)"
  by (auto simp: current_def)

lemma current_nth: "current s = Some (i, w) \<Longrightarrow> i < length (xd_worlds s) \<and> w = xd_worlds s ! i \<and>
    i = length (world_keys s) - 1 \<and> world_keys s \<noteq> [] \<and> last (world_keys s) = ec_Public (cdp_sigKey (xw_CDP w))"
  by (auto simp: current_Some last_conv_nth world_keys_def last_map)

lemma put_world_keys:
  assumes "i < length (xd_worlds s)" "cdp_sigKey (xw_CDP w) = cdp_sigKey (xw_CDP (xd_worlds s ! i))"
  shows "world_keys (put_world i w s) = world_keys s"
  using list_update_id [of "world_keys s" i] assms by (simp add: world_keys_def put_world_def map_update)

lemma put_world_sel [simp]:
  "xd_GW (put_world i w s) = xd_GW s" "xd_Validator (put_world i w s) = xd_Validator s" "xd_CDPPub (put_world i w s) = xd_CDPPub s"
  by (simp_all add: put_world_def)

lemma world_keys_upd [simp]:
  "world_keys (s\<lparr>xd_GW := g\<rparr>) = world_keys s" "world_keys (s\<lparr>xd_DecJWT := d\<rparr>) = world_keys s"
  "world_keys (s\<lparr>xd_PendReqID := d\<rparr>) = world_keys s" "world_keys (s\<lparr>xd_Minted := m\<rparr>) = world_keys s"
  by (simp_all add: world_keys_def)

lemma Verify_sigKey: "Verify L n ts n' g pl m u (c, l) = (r, c', l') \<Longrightarrow> cdp_sigKey c' = cdp_sigKey c"
proof -
  assume v: "Verify L n ts n' g pl m u (c, l) = (r, c', l')"
  obtain n1 n2 n3 where ts: "ts = (n1, n2, n3)"
    by (cases ts)
  have "snd (Verify L n ts n' g pl m u (c, l)) \<in> {(c, l), snd (SimulateAPICall L ts (pp_CB4AToken pl) (pp_DPoPProof pl) m u (c, l))}"
    by (auto simp: Verify_def split: sum.split option.split prod.split)
  then show ?thesis
    using v ts SimulateAPICall_keeps [of L n1 n2 n3 "pp_CB4AToken pl" "pp_DPoPProof pl" m u c l] by (auto simp: prod_eq_iff)
qed

text \<open>The price that the page asks after a history: \<open>50\<close> after \<open>x402Init\<close>, then the amount of the
  last request for spending.\<close>

fun price_step :: "x402_click \<times> x402_error demo_reply \<Rightarrow> string option \<Rightarrow> string option" where
  "price_step (XInit k d, r) p = (if is_OkObj r then Some ''50'' else p)"
| "price_step (XRequest x args, r) p = (if r = errObj CallX402InitFirst then p else Some (arg_or ''50'' 0 args))"
| "price_step _ p = p"

definition asked_price :: "x402_demo \<Rightarrow> string option" where
  "asked_price s = map_option (\<lambda>(_, g). pg_amount g) (xd_GW s)"

lemma init_cases:
  assumes "x402Init L k d s = (r, s')"
  obtains "s' = s" "\<not> is_OkObj r"
  | w pub idp v where "pub = ec_Public (cdp_sigKey (xw_CDP w))" "\<not> is_OkObj r"
      "s' = s\<lparr>xd_worlds := xd_worlds s @ [w], xd_CDPPub := Some pub, xd_IDP := Some idp, xd_Validator := Some v\<rparr>"
  | w pub idp v tok where "pub = ec_Public (cdp_sigKey (xw_CDP w))" "is_OkObj r"
      "s' = s\<lparr>xd_worlds := xd_worlds s @ [w], xd_CDPPub := Some pub, xd_IDP := Some idp, xd_Validator := Some v,
         xd_AgentTok := tok, xd_Minted := None, xd_PendReqID := [], xd_DecJWT := [],
         xd_GW := Some (length (xd_worlds s), NewPaymentGateway pub v ''AGENT_CREDIT'' ''50'')\<rparr>"
proof (cases "\<exists>idp agent pdp cdp. k = \<lparr>xk_idp = Inr idp, xk_agent = Inr agent, xk_pdp = Inr pdp, xk_cdp = Inr cdp\<rparr>")
  case False
  then have "s' = s" "\<not> is_OkObj r"
    using assms by (cases k; auto simp: x402Init_def split: sum.splits)+
  then show thesis by (rule that(1))
next
  case True
  then obtain idp agent pdp cdp where k: "k = \<lparr>xk_idp = Inr idp, xk_agent = Inr agent, xk_pdp = Inr pdp, xk_cdp = Inr cdp\<rparr>"
    by blast
  have "ec_Public cdp = ec_Public (cdp_sigKey (xw_CDP (x402_world_of pdp cdp)))"
    by (simp add: x402_world_of_def NewCDP_def)
  then show thesis
    using assms k that(2,3) by (cases "AgentIssuer_Issue L (NewAgentIssuer x402IdpIssuer idp hour)
      (x402_token_options (ec_Public agent)) (dr_now d) (dr_jti d) (dr_rnd d)") (auto simp: x402Init_def Let_def)
qed

lemma init_price:
  assumes "x402Init L k d s = (r, s')" "x402_inv s"
  shows "x402_inv s' \<and> asked_price s' = price_step (XInit k d, r) (asked_price s)"
proof -
  have old: "keys_ok (ks @ [x]) (Some v) (Some x) (xd_GW s)" if "ks = world_keys s" for ks x v
    using assms(2) that by (auto simp: x402_inv_def keys_ok_def nth_append split: option.splits)
  have new: "keys_ok (ks @ [x]) (Some v) (Some x) (Some (length ks, NewPaymentGateway x v ''AGENT_CREDIT'' amount))" for ks x v amount
    by (simp add: keys_ok_def NewPaymentGateway_def)
  have len: "length (xd_worlds s) = length (world_keys s)"
    by (simp add: world_keys_def)
  from assms(1) show ?thesis
  proof (cases rule: init_cases)
    case 1
    then show ?thesis using assms(2) by simp
  next
    case (2 w pub idp v)
    then show ?thesis
      using old [OF refl, of pub v] by (simp add: x402_inv_def asked_price_def) (simp add: world_keys_def)
  next
    case (3 w pub idp v tok)
    have keys: "world_keys s' = world_keys s @ [pub]"
      using 3 by (simp add: world_keys_def)
    have "x402_inv s'"
      unfolding x402_inv_def keys using 3(3) new [of "world_keys s" pub v "''50''"] by (simp add: len)
    then show ?thesis
      using 3 by (simp add: asked_price_def NewPaymentGateway_def)
  qed
qed

lemma request_price:
  assumes "x402RequestSpending L x args s = (r, s')" "x402_inv s"
  shows "x402_inv s' \<and> asked_price s' = price_step (XRequest x args, r) (asked_price s)"
proof (cases "current s")
  case (Some iw)
  then obtain i w where cur: "current s = Some (i, w)"
    by (cases iw) auto
  note nth = current_nth [OF cur]
  let ?k = "ec_Public (cdp_sigKey (xw_CDP w))"
  obtain v where v: "xd_Validator s = Some v" "xd_CDPPub s = Some ?k"
    using assms(2) nth by (auto simp: x402_inv_def keys_ok_def)
  obtain q pdp log where ev: "Evaluate L x (Some (spending_envelope (''payment:AGENT_CREDIT:'' @ arg_or ''50'' 0 args)))
      (xw_PDP w, xw_Audit w) = (q, pdp, log)"
    by (metis prod.exhaust)
  have keys: "world_keys (put_world i (w\<lparr>xw_PDP := pdp, xw_Audit := log\<rparr>) s) = world_keys s"
    using nth by (intro put_world_keys) simp_all
  let ?g = "NewPaymentGateway ?k v ''AGENT_CREDIT'' (arg_or ''50'' 0 args)"
  have "world_keys s' = world_keys s" "xd_Validator s' = Some v" "xd_CDPPub s' = Some ?k" "xd_GW s' = Some (i, ?g)"
    and r: "r \<noteq> errObj CallX402InitFirst"
    using assms(1) cur v ev keys by (auto simp: x402RequestSpending_def Let_def split: sum.splits if_splits)
  moreover have "keys_ok (world_keys s) (Some v) (Some ?k) (Some (i, ?g))"
    using nth by (auto simp: keys_ok_def NewPaymentGateway_def last_conv_nth)
  ultimately show ?thesis
    by (simp add: x402_inv_def asked_price_def) (simp add: NewPaymentGateway_def)
qed (use assms in \<open>auto simp: x402RequestSpending_def\<close>)

text \<open>The other clicks leave the gateway and the keys alone.\<close>

lemma kept_price:
  assumes "x402_inv s" "world_keys s' = world_keys s" "xd_Validator s' = xd_Validator s" "xd_CDPPub s' = xd_CDPPub s"
    and "xd_GW s' = xd_GW s"
  shows "x402_inv s' \<and> asked_price s' = asked_price s"
  using assms by (simp add: x402_inv_def asked_price_def)

lemma approve_price:
  assumes "x402Approve L x args s = (r, s')" "x402_inv s"
  shows "x402_inv s' \<and> asked_price s' = asked_price s"
proof (cases "current s")
  case (Some iw)
  then obtain i w where cur: "current s = Some (i, w)"
    by (cases iw) auto
  have keys: "world_keys (put_world i (w\<lparr>xw_PDP := pdp, xw_Audit := log\<rparr>) s) = world_keys s" for pdp log
    using current_nth [OF cur] by (intro put_world_keys) simp_all
  show ?thesis
    using assms cur keys
    by (intro kept_price) (auto simp: x402Approve_def Let_def split: prod.splits sum.splits if_splits)
qed (use assms in \<open>auto simp: x402Approve_def\<close>)

lemma mint_price:
  assumes "x402MintCred L f x s = (r, s')" "x402_inv s"
  shows "x402_inv s' \<and> asked_price s' = asked_price s"
proof (cases "current s")
  case (Some iw)
  then obtain i w where cur: "current s = Some (i, w)"
    by (cases iw) auto
  obtain q cdp log where mint: "Mint L x (xd_DecJWT s) (xw_CDP w, xw_Audit w) = (q, cdp, log)"
    by (metis prod.exhaust)
  have keys: "world_keys (put_world i (w\<lparr>xw_CDP := cdp, xw_Audit := log\<rparr>) s) = world_keys s"
    using current_nth [OF cur] Mint_keeps [OF mint] by (intro put_world_keys) simp_all
  show ?thesis
    using assms cur keys mint
    by (intro kept_price) (auto simp: x402MintCred_def Let_def split: prod.splits sum.splits if_splits)
qed (use assms in \<open>auto simp: x402MintCred_def\<close>)

lemma pay_price:
  assumes "x402Pay L f d args s = (r, s')" "x402_inv s"
  shows "x402_inv s' \<and> asked_price s' = asked_price s"
proof (cases "\<exists>i g. xd_GW s = Some (i, g) \<and> i < length (xd_worlds s)")
  case True
  then obtain i g where gw: "xd_GW s = Some (i, g)" "i < length (xd_worlds s)"
    by blast
  let ?w = "xd_worlds s ! i" and ?m = "arg_or ''GET'' 0 args" and ?u = "arg_or x402PaymentURI 1 args"
  have keys: "world_keys (put_world i (?w\<lparr>xw_CDP := cdp, xw_Audit := log\<rparr>) s) = world_keys s"
    if "Verify L (py_parse d) (cl_check (py_call d)) (py_agent d) g pl ?m ?u (xw_CDP ?w, xw_Audit ?w) = (q, cdp, log)"
    for pl q cdp log
    using gw Verify_sigKey [OF that] by (intro put_world_keys) simp_all
  show ?thesis
    using assms gw keys
    by (intro kept_price) (auto simp: x402Pay_def Let_def split: prod.splits sum.splits if_splits)
qed (use assms in \<open>auto simp: x402Pay_def split: option.splits if_splits prod.splits\<close>)

lemma x402_price:
  assumes "x402_step L T pt c s = (r, s')" "x402_inv s"
  shows "x402_inv s' \<and> asked_price s' = price_step (c, r) (asked_price s)"
  using assms init_price request_price approve_price mint_price pay_price
  by (cases c) (auto simp: x402HitAPI_def x402GetAudit_def Let_def split: option.splits prod.splits list.splits)

interpretation x402_sys: invariant_system "x402_step L T pt" x402_inv "\<lambda>_. True" for L T pt
  by unfold_locales (use x402_price in blast)

lemma x402_init_inv: "x402_inv x402_demo_init" "asked_price x402_demo_init = None"
  by (simp_all add: x402_inv_def x402_demo_init_def keys_ok_def world_keys_def asked_price_def)

lemma history_price:
  "run_ops (x402_step L T pt) cs s = (rs, s') \<Longrightarrow> x402_inv s \<Longrightarrow>
     x402_inv s' \<and> asked_price s' = fold price_step (zip cs rs) (asked_price s)"
proof (induction cs arbitrary: s rs)
  case (Cons c cs)
  then obtain r s1 rs1 where "x402_step L T pt c s = (r, s1)" "run_ops (x402_step L T pt) cs s1 = (rs1, s')" "rs = r # rs1"
    by (auto simp: run_ops_Cons simp del: run_ops.simps)
  with Cons show ?case
    using x402_price [of L T pt c s r s1] by simp
qed simp

text \<open>What a payment answers: a panic only outside the invariant, an accepted payment with the price
  that is asked.\<close>

lemma pay_reply:
  assumes "x402_step L T pt c s = (r, s')" "x402_inv s"
  shows "r \<noteq> errObj X402Panic" and
    "c = XPay d args \<Longrightarrow> r = OkObj ob \<Longrightarrow> map_of ob ''amount'' = map_option JStr (asked_price s) \<and> xd_Minted s \<noteq> None"
proof -
  have len: "length (world_keys s) = length (xd_worlds s)"
    by (simp add: world_keys_def)
  have inv: "xd_worlds s = [] \<longrightarrow> xd_GW s = None" "xd_worlds s \<noteq> [] \<longrightarrow> xd_Validator s \<noteq> None \<and> xd_CDPPub s \<noteq> None"
    "\<And>i g. xd_GW s = Some (i, g) \<Longrightarrow> i < length (xd_worlds s)"
    using assms(2) len by (auto simp: x402_inv_def keys_ok_def world_keys_def split: option.splits)
  show "r \<noteq> errObj X402Panic"
    using assms(1) inv by (cases c) (auto simp: x402Init_def x402HitAPI_def x402RequestSpending_def x402Approve_def
        x402MintCred_def x402Pay_def x402GetAudit_def audit_reply_def Require_def Let_def current_def
        split: option.splits prod.splits sum.splits if_splits list.splits)
  show "map_of ob ''amount'' = map_option JStr (asked_price s) \<and> xd_Minted s \<noteq> None" if "c = XPay d args" "r = OkObj ob"
    using assms(1) that by (auto simp: x402Pay_def okObj_def asked_price_def Verify_ok Let_def
        split: option.splits prod.splits sum.splits if_splits)
qed

text \<open>A transcript of clicks and replies in which every accepted payment has paid the price of its time,
  and nothing has panicked.\<close>

fun paid_as_asked :: "string option \<Rightarrow> (x402_click \<times> x402_error demo_reply) list \<Rightarrow> bool" where
  "paid_as_asked p [] \<longleftrightarrow> True"
| "paid_as_asked p ((c, r) # h) \<longleftrightarrow> r \<noteq> errObj X402Panic \<and>
     (case (c, r) of (XPay d args, OkObj ob) \<Rightarrow> p \<noteq> None \<and> map_of ob ''amount'' = map_option JStr p | _ \<Rightarrow> True) \<and>
     paid_as_asked (price_step (c, r) p) h"

lemma request_ready:
  "x402RequestSpending L x args s = (errObj CallX402InitFirst, s') \<longleftrightarrow> current s = None \<and> s' = s"
  by (auto simp: x402RequestSpending_def Let_def split: option.splits prod.splits sum.splits if_splits)

lemma minted_needs_price:
  assumes "x402Pay L f d args s = (OkObj ob, s')"
  shows "asked_price s \<noteq> None"
  using assms by (auto simp: x402Pay_def asked_price_def errObj_def split: option.splits)

lemma history_paid:
  "run_ops (x402_step L T pt) cs s = (rs, s') \<Longrightarrow> x402_inv s \<Longrightarrow> paid_as_asked (asked_price s) (zip cs rs)"
proof (induction cs arbitrary: s rs)
  case (Cons c cs)
  then obtain r s1 rs1 where step: "x402_step L T pt c s = (r, s1)"
    and rest: "run_ops (x402_step L T pt) cs s1 = (rs1, s')" and rs: "rs = r # rs1"
    by (auto simp: run_ops_Cons simp del: run_ops.simps)
  have "case (c, r) of (XPay d args, OkObj ob) \<Rightarrow>
      asked_price s \<noteq> None \<and> map_of ob ''amount'' = map_option JStr (asked_price s) | _ \<Rightarrow> True"
    using pay_reply(2) [OF step Cons.prems(2)] minted_needs_price step
    by (fastforce split: x402_click.split demo_reply.split)
  then show ?case
    using Cons.IH [OF rest] x402_price [OF step Cons.prems(2)] pay_reply(1) [OF step Cons.prems(2)] rs by simp
qed simp

section \<open>Closed instances\<close>

text \<open>A page whose AgentToken could not be signed still takes a price from the payer.\<close>

definition ex_x402_clicks :: "x402_click list" where
  "ex_x402_clicks = [XPay \<lparr>py_call = ex_call_draws, py_parse = 0, py_agent = 0\<rparr> [],
     XInit \<lparr>xk_idp = Inr key_one, xk_agent = Inr key_two, xk_pdp = Inr key_one, xk_cdp = Inr key_two\<rparr>
       \<lparr>dr_now = 0, dr_jti = [], dr_rnd = []\<rparr>,
     XRequest ex_env [JSString ''0.01''], XHit []]"

section \<open>Properties\<close>



end
