(* ===== verification/JsonText.thy ===== *)
theory JsonText
  imports Json
begin

text \<open>
  \<open>json.Marshal\<close> of a list of strings, with the escapes of Go's encoder (control bytes, quotes, the
  characters of HTML, the two line separators of JavaScript, the replacement rune for invalid text),
  and the round trip through the reader of theory \<open>Json\<close>.
\<close>

section \<open>Runes\<close>

text \<open>A rune that is decoded from valid text is encoded by the same bytes, whatever follows them.\<close>

lemma digit64:
  fixes m d :: nat
  assumes "d < 64"
  shows "(m * 64 + d) div 64 = m" "(m * 64 + d) mod 64 = d"
  using assms by simp_all

lemma decode_valid2:
  assumes "194 \<le> byte a" "byte a \<le> 223" "decode_rune (a # r) = (u, n)" "\<not> (u = rune_error \<and> n = 1)"
  shows "take n (a # r) = encode_rune u \<and> decode_rune (take n (a # r) @ x) = (u, n) \<and> n \<le> Suc (length r)"
proof -
  obtain b r' where r: "r = b # r'" "cont_byte (byte b)" "n = 2" "u = (byte a - 192) * 64 + (byte b - 128)"
    using assms by (cases r) (auto simp: decode_rune_def split: if_splits)
  moreover define A B where "A = byte a - 192" "B = byte b - 128"
  ultimately have "A < 32" "2 \<le> A" "B < 64" "a = chr (192 + A)" "b = chr (128 + B)" "u = A * 64 + B"
    using assms(1,2) by (auto simp: cont_byte_def)
  moreover from this have "u div 64 = A" "u mod 64 = B" "128 \<le> u" "u < 2048"
    by simp_all
  ultimately have "encode_rune u = [a, b]"
    by (simp add: encode_rune_def)
  then show ?thesis
    using r assms(1,2) by (simp add: decode_rune_def)
qed

lemma cont_byteD: "cont_byte (byte b) \<Longrightarrow> byte b - 128 < 64 \<and> 128 + (byte b - 128) = byte b"
  by (auto simp: cont_byte_def)

lemma decode_lead3:
  assumes "224 \<le> byte a" "byte a \<le> 239" "decode_rune (a # r) = (u, n)" "\<not> (u = rune_error \<and> n = 1)"
  obtains b c r' where "r = b # c # r'" "cont_byte (byte b)" "cont_byte (byte c)" "n = 3"
    "byte a = 224 \<longrightarrow> 160 \<le> byte b" "byte a = 237 \<longrightarrow> byte b \<le> 159"
    "u = (byte a - 224) * 4096 + (byte b - 128) * 64 + (byte c - 128)"
proof -
  have a: "\<not> byte a < 128" "\<not> byte a \<le> 223"
    using assms(1) by simp_all
  obtain b r1 where 1: "r = b # r1"
    using assms a by (cases r) (simp_all add: decode_rune_def)
  obtain c r' where 2: "r1 = c # r'"
    using assms a 1 by (cases r1) (simp_all add: decode_rune_def)
  have *: "(if cont_byte (byte b) \<and> cont_byte (byte c) \<and> (byte a = 224 \<longrightarrow> 160 \<le> byte b) \<and> (byte a = 237 \<longrightarrow> byte b \<le> 159)
      then ((byte a - 224) * 4096 + (byte b - 128) * 64 + (byte c - 128), 3) else (rune_error, 1)) = (u, n)"
    using assms(1-3) a unfolding 1 2 decode_rune_def by simp
  show thesis
    by (rule that [of b c r']) (use * assms(4) 1 2 in \<open>simp_all split: if_splits\<close>)
qed

lemma encode_lead3:
  assumes "224 \<le> byte a" "byte a \<le> 239" "cont_byte (byte b)" "cont_byte (byte c)"
    "byte a = 224 \<longrightarrow> 160 \<le> byte b" "byte a = 237 \<longrightarrow> byte b \<le> 159"
    "u = (byte a - 224) * 4096 + (byte b - 128) * 64 + (byte c - 128)"
  shows "encode_rune u = [a, b, c]"
proof -
  define A B C where ABC: "A = byte a - 224" "B = byte b - 128" "C = byte c - 128"
  have *: "B < 64" "C < 64" "byte b = 128 + B" "byte c = 128 + C"
    using assms(3,4) [THEN cont_byteD] unfolding ABC by simp_all
  have a: "A < 16" "byte a = 224 + A"
    using assms(1,2) unfolding ABC by simp_all
  have A: "A = 0 \<longrightarrow> 32 \<le> B" "A = 13 \<longrightarrow> B \<le> 31"
    using assms(5,6) unfolding a *(3) by simp_all
  have u: "u = (A * 64 + B) * 64 + C"
    using assms(7) unfolding ABC [symmetric] by simp
  have d1: "u div 64 = A * 64 + B" "u mod 64 = C"
    unfolding u by (rule digit64, fact)+
  have d2: "u div 4096 = A" "u div 64 mod 64 = B"
    using div_mult2_eq [of u 64 64] unfolding d1 digit64 [OF *(1)] by simp_all
  have e: "32 \<le> A * 64 + B" "A * 64 + B < 1024" "A * 64 + B < 864 \<or> 896 \<le> A * 64 + B"
    using *(1) A a(1) by (cases "A = 0"; cases "A = 13"; force)+
  have "2048 \<le> u" "u < 65536" "\<not> (55296 \<le> u \<and> u \<le> 57343)"
    unfolding u using *(2) e by auto
  note d1(2) d2 this
  then have "encode_rune u = [chr (byte a), chr (byte b), chr (byte c)]"
    unfolding encode_rune_def Let_def *(3,4) a(2) by auto
  then show ?thesis by simp
qed

lemma decode_valid3:
  assumes "224 \<le> byte a" "byte a \<le> 239" "decode_rune (a # r) = (u, n)" "\<not> (u = rune_error \<and> n = 1)"
  shows "take n (a # r) = encode_rune u \<and> decode_rune (take n (a # r) @ x) = (u, n) \<and> n \<le> Suc (length r)"
proof -
  obtain b c r' where *: "r = b # c # r'" "cont_byte (byte b)" "cont_byte (byte c)" "n = 3"
    "byte a = 224 \<longrightarrow> 160 \<le> byte b" "byte a = 237 \<longrightarrow> byte b \<le> 159"
    "u = (byte a - 224) * 4096 + (byte b - 128) * 64 + (byte c - 128)"
    by (rule decode_lead3 [OF assms])
  have "decode_rune ([a, b, c] @ x) = (u, n)"
    using *(2-) assms(1,2) by (simp add: decode_rune_def)
  then show ?thesis
    using encode_lead3 [OF assms(1,2) *(2,3,5-7)] *(1,4) by simp
qed

lemma decode_lead4:
  assumes "240 \<le> byte a" "byte a \<le> 244" "decode_rune (a # r) = (u, n)" "\<not> (u = rune_error \<and> n = 1)"
  obtains b c d r' where "r = b # c # d # r'" "cont_byte (byte b)" "cont_byte (byte c)" "cont_byte (byte d)" "n = 4"
    "byte a = 240 \<longrightarrow> 144 \<le> byte b" "byte a = 244 \<longrightarrow> byte b \<le> 143"
    "u = (byte a - 240) * 262144 + (byte b - 128) * 4096 + (byte c - 128) * 64 + (byte d - 128)"
proof -
  have a: "\<not> byte a < 128" "\<not> byte a \<le> 223" "\<not> byte a \<le> 239"
    using assms(1) by simp_all
  obtain b r1 where 1: "r = b # r1"
    using assms a by (cases r) (simp_all add: decode_rune_def)
  obtain c r2 where 2: "r1 = c # r2"
    using assms a 1 by (cases r1) (simp_all add: decode_rune_def)
  obtain d r' where 3: "r2 = d # r'"
    using assms a 1 2 by (cases r2) (simp_all add: decode_rune_def)
  have *: "(if cont_byte (byte b) \<and> cont_byte (byte c) \<and> cont_byte (byte d)
               \<and> (byte a = 240 \<longrightarrow> 144 \<le> byte b) \<and> (byte a = 244 \<longrightarrow> byte b \<le> 143)
            then ((byte a - 240) * 262144 + (byte b - 128) * 4096 + (byte c - 128) * 64 + (byte d - 128), 4)
            else (rune_error, 1)) = (u, n)"
    using assms(1-3) a unfolding 1 2 3 decode_rune_def by simp
  show thesis
    by (rule that [of b c d r']) (use * assms(4) 1 2 3 in \<open>simp_all split: if_splits\<close>)
qed
lemma encode_lead4:
  assumes "240 \<le> byte a" "byte a \<le> 244" "cont_byte (byte b)" "cont_byte (byte c)" "cont_byte (byte d)" 
    "byte a = 240 \<longrightarrow> 144 \<le> byte b" "byte a = 244 \<longrightarrow> byte b \<le> 143"
    "u = (byte a - 240) * 262144 + (byte b - 128) * 4096 + (byte c - 128) * 64 + (byte d - 128)"
  shows "encode_rune u = [a, b, c, d]"
proof -
  define A B C D where ABCD: "A = byte a - 240" "B = byte b - 128" "C = byte c - 128" "D = byte d - 128"
  have *: "B < 64" "C < 64" "D < 64" "byte b = 128 + B" "byte c = 128 + C" "byte d = 128 + D"
    using assms(3-5) [THEN cont_byteD] unfolding ABCD by simp_all
  have a: "A < 5" "byte a = 240 + A"
    using assms(1,2) unfolding ABCD by simp_all
  have A: "A = 0 \<longrightarrow> 16 \<le> B" "A = 4 \<longrightarrow> B \<le> 15"
    using assms(6,7) unfolding a *(4) by simp_all
  have u: "u = ((A * 64 + B) * 64 + C) * 64 + D"
    using assms(8) unfolding ABCD [symmetric] by simp
  have d1: "u div 64 = (A * 64 + B) * 64 + C" "u mod 64 = D"
    unfolding u by (rule digit64, fact)+
  have d2: "u div 4096 = A * 64 + B" "u div 64 mod 64 = C"
    using div_mult2_eq [of u 64 64] unfolding d1 digit64 [OF *(2)] by simp_all
  have d3: "u div 262144 = A" "u div 4096 mod 64 = B"
    using div_mult2_eq [of u 4096 64] unfolding d2 digit64 [OF *(1)] by simp_all
  have "16 \<le> A * 64 + B" "A * 64 + B \<le> 271"
    using *(1) A a(1) by (cases "A = 0"; cases "A = 4"; simp)+
  then have "65536 \<le> u" "u \<le> 1114111"
    unfolding u using *(2,3) by simp_all
  note d1(2) d2(2) d3 this
  then have "encode_rune u = [chr (byte a), chr (byte b), chr (byte c), chr (byte d)]"
    unfolding encode_rune_def Let_def *(4-6) a(2) by simp
  then show ?thesis by simp
qed

lemma decode_valid4:
  assumes "240 \<le> byte a" "byte a \<le> 244" "decode_rune (a # r) = (u, n)" "\<not> (u = rune_error \<and> n = 1)"
  shows "take n (a # r) = encode_rune u \<and> decode_rune (take n (a # r) @ x) = (u, n) \<and> n \<le> Suc (length r)"
proof -
  obtain b c d r' where *: "r = b # c # d # r'" "cont_byte (byte b)" "cont_byte (byte c)" "cont_byte (byte d)" "n = 4"
    "byte a = 240 \<longrightarrow> 144 \<le> byte b" "byte a = 244 \<longrightarrow> byte b \<le> 143"
    "u = (byte a - 240) * 262144 + (byte b - 128) * 4096 + (byte c - 128) * 64 + (byte d - 128)"
    by (rule decode_lead4 [OF assms])
  have "decode_rune ([a, b, c, d] @ x) = (u, n)"
    using *(2-) assms(1,2) by (simp add: decode_rune_def)
  then show ?thesis
    using encode_lead4 [OF assms(1,2) *(2-4,6-8)] *(1,5) by simp
qed

lemma decode_valid:
  assumes "decode_rune s = (u, n)" "s \<noteq> []" "\<not> (u = rune_error \<and> n = 1)"
  shows "take n s = encode_rune u \<and> decode_rune (take n s @ x) = (u, n) \<and> n \<le> length s"
proof -
  obtain a r where s: "s = a # r"
    using assms(2) by (cases s) auto
  consider "byte a < 128" | "194 \<le> byte a" "byte a \<le> 223" | "224 \<le> byte a" "byte a \<le> 239" | "240 \<le> byte a" "byte a \<le> 244"
    using assms(1,3) s by (fastforce simp: decode_rune_def split: if_splits)
  then show ?thesis
  proof cases
    case 1
    then show ?thesis
      using assms(1) s by (auto simp: encode_rune_def)
  next
    case 2
    with decode_valid2 [OF 2, of r u n x] show ?thesis
      using assms(1,3) s by (metis length_Cons)
  next
    case 3
    with decode_valid3 [OF 3, of r u n x] show ?thesis
      using assms(1,3) s by (metis length_Cons)
  next
    case 4
    with decode_valid4 [OF 4, of r u n x] show ?thesis
      using assms(1,3) s by (metis length_Cons)
  qed
qed

section \<open>Writing\<close>

text \<open>\<open>appendString\<close>: the byte of an ASCII character, escaped where it must be.\<close>

definition hex_escape :: "nat \<Rightarrow> string" where
  "hex_escape u = backslash # CHR ''u'' # map hex_digit [u div 4096, u div 256 mod 16, u div 16 mod 16, u mod 16]"

definition quote_byte :: "char \<Rightarrow> string" where
  "quote_byte c = (if c = dquote \<or> c = backslash then [backslash, c]
     else if byte c = 8 then [backslash, CHR ''b'']
     else if byte c = 12 then [backslash, CHR ''f'']
     else if byte c = 10 then [backslash, CHR ''n'']
     else if byte c = 13 then [backslash, CHR ''r'']
     else if byte c = 9 then [backslash, CHR ''t'']
     else if byte c < 32 \<or> c \<in> {CHR ''<'', CHR ''>'', CHR ''&''} then hex_escape (byte c)
     else [c])"

function quote_body :: "string \<Rightarrow> string" where
  "quote_body s = (case s of
     [] \<Rightarrow> []
   | c # r \<Rightarrow>
       if byte c < 128 then quote_byte c @ quote_body r
       else (case decode_rune s of (u, n) \<Rightarrow>
         (if u = rune_error \<and> n = 1 then hex_escape rune_error
          else if u = 8232 \<or> u = 8233 then hex_escape u
          else take n s) @ quote_body (drop (max 1 n) s)))"
  by pat_completeness auto
termination
  by (relation "measure length") auto

declare quote_body.simps [simp del]

definition json_quote :: "string \<Rightarrow> string" where
  "json_quote s = dquote # quote_body s @ [dquote]"

definition marshal_strings :: "string list \<Rightarrow> string" where
  "marshal_strings ss = CHR ''['' # join_with '','' (map json_quote ss) @ '']''"

section \<open>Reading what was written\<close>

lemma hex_val_digit [simp]: "n < 16 \<Longrightarrow> hex_val (hex_digit n) = Some n"
  by (simp add: hex_val_def hex_digit_def byte_chr)

lemma hex4_escape: "u < 65536 \<Longrightarrow> hex4 (map hex_digit [u div 4096, u div 256 mod 16, u div 16 mod 16, u mod 16] @ r) = Some u"
proof -
  assume "u < 65536"
  moreover have "u div 256 div 16 = u div 4096" "u div 16 div 16 = u div 256"
    by (simp_all add: div_mult2_eq [symmetric])
  then have "((u div 4096 * 16 + u div 256 mod 16) * 16 + u div 16 mod 16) * 16 + u mod 16 = u"
    by (metis div_mult_mod_eq)
  ultimately show ?thesis
    by (simp add: hex4_def)
qed

definition push :: "string \<Rightarrow> (string \<times> string) option \<Rightarrow> (string \<times> string) option" where
  "push x = map_option (\<lambda>(v, r). (x @ v, r))"

lemma push_Some [simp]: "push x (Some (v, r)) = Some (x @ v, r)"
  by (simp add: push_def)

lemma case_push: "(case y of None \<Rightarrow> None | Some (v, r) \<Rightarrow> Some (x @ v, r)) = push x y"
  "(case y of None \<Rightarrow> None | Some (v, r) \<Rightarrow> Some (c # v, r)) = push [c] y"
  by (auto simp: push_def split: option.splits)

lemma lex_hex_escape:
  assumes "u < 65536" "\<not> (55296 \<le> u \<and> u \<le> 56319)"
  shows "lex_string (hex_escape u @ r) = push (encode_rune u) (lex_string r)"
  using hex4_escape [OF assms(1), of r] assms(2)
  by (subst lex_string.simps) (auto simp: hex_escape_def case_push char_simps Let_def simp del: One_nat_def)

lemma lex_simple_escape:
  "simple_escape e = Some x \<Longrightarrow> e \<noteq> CHR ''u'' \<Longrightarrow> lex_string (backslash # e # r) = push [x] (lex_string r)"
  by (subst lex_string.simps) (simp add: case_push char_simps)

lemma lex_plain:
  "c \<noteq> dquote \<Longrightarrow> c \<noteq> backslash \<Longrightarrow> 32 \<le> byte c \<Longrightarrow> byte c < 128 \<Longrightarrow> lex_string (c # r) = push [c] (lex_string r)"
  by (subst lex_string.simps) (simp add: case_push)

lemma lex_quote_byte:
  assumes "byte c < 128"
  shows "lex_string (quote_byte c @ r) = push [c] (lex_string r)"
proof -
  have chr: "byte c = n \<Longrightarrow> chr n = c" for n
    by auto
  have special: "byte CHR ''<'' = 60" "byte CHR ''>'' = 62" "byte CHR ''&'' = 38" "byte dquote = 34" "byte backslash = 92"
    "c \<noteq> CHR ''u'' \<or> byte c = 117"
    by (auto simp: byte_def)
  have "encode_rune (byte c) = [c]"
    using assms by (simp add: encode_rune_def)
  then have "lex_string (hex_escape (byte c) @ r) = push [c] (lex_string r)"
    using assms lex_hex_escape [of "byte c" r] by simp
  moreover have "lex_string ([backslash, e] @ r) = push [c] (lex_string r)"
    if "c = e \<and> e \<in> {dquote, backslash} \<or>
        (byte c, e) \<in> {(8, CHR ''b''), (12, CHR ''f''), (10, CHR ''n''), (13, CHR ''r''), (9, CHR ''t'')}" for e
  proof -
    have "simple_escape e = Some c" "e \<noteq> CHR ''u''"
      using that by (auto simp: simple_escape_def chr)
    then show ?thesis
      using lex_simple_escape [of e c r] by simp
  qed
  ultimately show ?thesis
    using assms chr special lex_plain [of c r] by (simp add: quote_byte_def)
qed

lemma lex_rune:
  assumes "decode_rune s = (u, n)" "s \<noteq> []" "128 \<le> byte (hd s)" "\<not> (u = rune_error \<and> n = 1)"
  shows "lex_string (take n s @ r) = push (take n s) (lex_string r)"
proof -
  have n: "take n s = encode_rune u" "decode_rune (take n s @ r) = (u, n)" "n \<le> length s" "1 \<le> n"
    using decode_valid [OF assms(1,2,4), of r] decode_rune_pos [of "hd s" "tl s" u n] assms(1,2) by auto
  obtain c t where "take n s = c # t" "byte c \<ge> 128"
    using assms(2,3) n(4) by (cases s; cases n) auto
  moreover from this have "c \<noteq> dquote" "c \<noteq> backslash"
    by (auto simp: byte_def)
  moreover have "drop n (take n s @ r) = r"
    using n(3) by simp
  ultimately show ?thesis
    using n by (subst lex_string.simps) (simp add: case_push max_def)
qed

lemma lex_quote_body:
  "utf8 s \<Longrightarrow> lex_string (quote_body s @ dquote # r) = Some (s, r)"
proof (induction s rule: quote_body.induct)
  case (1 s)
  show ?case
  proof (cases s)
    case Nil
    then show ?thesis
      by (simp add: quote_body.simps lex_string.simps)
  next
    case (Cons c t)
    obtain u n where rune: "decode_rune s = (u, n)"
      by (cases "decode_rune s")
    show ?thesis
    proof (cases "byte c < 128")
      case True
      then have "lex_string (quote_body t @ dquote # r) = Some (t, r)"
        using "1.IH"(1) [OF Cons True] "1.prems" Cons by simp
      then show ?thesis
        using True Cons by (simp add: quote_body.simps [of "c # t"] lex_quote_byte)
    next
      case False
      have valid: "\<not> (u = rune_error \<and> n = 1)" "utf8 (drop n s)" and n: "1 \<le> n" "n \<le> length s"
        using "1.prems" rune Cons decode_rune_width [of c t u n] by (auto simp: utf8.simps(2) [of c t])
      have IH: "lex_string (quote_body (drop n s) @ dquote # r) = Some (drop n s, r)"
        using "1.IH"(2) [OF Cons False rune [symmetric]] valid n by (simp add: max_def)
      let ?q = "if u = 8232 \<or> u = 8233 then hex_escape u else take n s"
      have "lex_string (?q @ x) = push (take n s) (lex_string x)" for x
        using lex_rune [OF rune, of x] lex_hex_escape [of u x] decode_valid [OF rune _ valid(1)] valid(1) Cons False
        by auto
      moreover have "quote_body s = ?q @ quote_body (drop n s)"
        using Cons False rune valid n by (subst quote_body.simps) (auto simp: max_def)
      ultimately show ?thesis
        using IH by simp
    qed
  qed
qed

lemma json_value_quote:
  "utf8 s \<Longrightarrow> json_value d (json_quote s @ r) = Some (JStr s, r)"
  by (subst json_value.simps) (simp add: json_quote_def lex_quote_body char_simps)

lemma json_elems_strings:
  "ss \<noteq> [] \<Longrightarrow> list_all utf8 ss \<Longrightarrow>
    json_elems d (join_with '','' (map json_quote ss) @ CHR '']'' # r) = Some (map JStr ss, r)"
proof (induction ss rule: induct_list012)
  case (2 s)
  then show ?case
    by (subst json_elems.simps) (simp add: json_value_quote char_simps)
next
  case (3 s s' ss)
  then show ?case
    by (subst json_elems.simps) (simp add: json_value_quote char_simps)
qed simp

lemma marshal_strings_parse:
  assumes "ss \<noteq> []" "list_all utf8 ss"
  shows "json_parse (marshal_strings ss) = Some (JArr (map JStr ss))"
proof -
  obtain q where q: "join_with '','' (map json_quote ss) = dquote # q"
    using assms(1) by (cases "map json_quote ss" rule: list.exhaust; cases "map json_quote (tl ss)")
      (auto simp: json_quote_def neq_Nil_conv)
  have "json_value max_nesting (marshal_strings ss) = Some (JArr (map JStr ss), [])"
    using json_elems_strings [OF assms, of "max_nesting - 1" "[]"] q
    by (subst json_value.simps) (simp add: marshal_strings_def max_nesting_def char_simps)
  then show ?thesis
    by (simp add: json_parse_def)
qed

end
