(* ===== verification/JsonPrint.thy ===== *)
theory JsonPrint
  imports JsonText
begin

text \<open>
  \<open>json.Marshal\<close> of a value, in Go's compact form, and the round trip: the reader of \<open>Json\<close> reads back
  every value whose texts are UTF-8, whose numbers are integers and whose nesting is allowed.
\<close>

section \<open>Numbers\<close>

lemma is_digit_chr [simp]: "n < 10 \<Longrightarrow> is_digit (chr (48 + n))"
  by (simp add: is_digit_def byte_chr)

lemma dec_digits_digits: "list_all is_digit (dec_digits n) \<and> dec_digits n \<noteq> []"
  by (induction n rule: dec_digits.induct) (simp add: dec_digits.simps)

lemma dec_digits_val: "digits_val (dec_digits n) = int n"
proof (induction n rule: dec_digits.induct)
  case (1 n)
  have "int (n div 10) * 10 + int (n mod 10) = int n"
    using div_mult_mod_eq [of n 10] by linarith
  with 1 show ?case
    by (subst dec_digits.simps) (auto simp: digits_val_def byte_chr)
qed

lemma zero_digit: "CHR ''0'' = chr 48"
  by code_simp

lemma dec_digits_zero: "hd (dec_digits n) = CHR ''0'' \<longleftrightarrow> n = 0"
proof (induction n rule: dec_digits.induct)
  case (1 n)
  have digit: "chr (48 + k) = CHR ''0'' \<longleftrightarrow> k = 0" if "k < 10" for k
    using that by (auto simp: zero_digit chr_eq_iff byte_chr)
  show ?case
  proof (cases "n < 10")
    case True
    then show ?thesis
      using digit by (simp add: dec_digits.simps)
  next
    case False
    then show ?thesis
      using 1 dec_digits_digits [of "n div 10"] by (subst dec_digits.simps) (simp add: hd_append)
  qed
qed

text \<open>What may follow a number.\<close>

definition ends_value :: "string \<Rightarrow> bool" where
  "ends_value r \<longleftrightarrow> r = [] \<or> hd r \<in> {CHR '','', CHR '']'', CHR ''}''}"

lemma ends_value_simps [simp]: "ends_value []" "ends_value (CHR '','' # r)" "ends_value (CHR '']'' # r)" "ends_value (CHR ''}'' # r)"
  by (simp_all add: ends_value_def)

lemma lex_digits:
  assumes "ends_value r"
  shows "lex_number (dec_digits n @ r) = Some (JInt (int n), r)"
proof -
  let ?ds = "dec_digits n"
  have ds: "list_all is_digit ?ds" "?ds \<noteq> []" and val: "digits_val ?ds = int n"
    using dec_digits_digits dec_digits_val by auto
  have r: "r = [] \<or> \<not> is_digit (hd r)" "r = [] \<or> hd r \<noteq> CHR ''.'' \<and> hd r \<noteq> CHR ''e'' \<and> hd r \<noteq> CHR ''E''"
    using assms by (auto simp: ends_value_def is_digit_def char_simps)
  have "takeWhile is_digit (?ds @ r) = ?ds"
    using ds(1) r(1) by (cases r) (simp_all add: takeWhile_append list_all_iff)
  moreover have "?ds = ''0''" if "hd ?ds = CHR ''0''"
  proof -
    have "n = 0"
      using that dec_digits_zero by blast
    then show ?thesis
      by (simp add: dec_digits.simps zero_digit)
  qed
  moreover have "hd ?ds \<noteq> CHR ''-''"
  proof
    assume "hd ?ds = CHR ''-''"
    then have "is_digit (CHR ''-'')"
      using ds by (cases ?ds) auto
    then show False
      by (simp add: is_digit_def char_simps)
  qed
  ultimately have int_part: "(if ?ds @ r \<noteq> [] \<and> hd (?ds @ r) = CHR ''0'' then ''0'' else takeWhile is_digit (?ds @ r)) = ?ds"
    and sign: "(?ds @ r \<noteq> [] \<and> hd (?ds @ r) = CHR ''-'') = False"
    using ds(2) by (auto simp: hd_append)
  have rest: "(r \<noteq> [] \<and> hd r = CHR ''.'') = False" "(r \<noteq> [] \<and> hd r \<in> {CHR ''e'', CHR ''E''}) = False"
    using r(2) by auto
  have same: "drop (length ?ds) (?ds @ r) = r"
    by simp
  show ?thesis
    unfolding lex_number_def Let_def sign if_False int_part same rest using ds(2) val r(2) by auto
qed

section \<open>Values\<close>

fun json_text :: "json \<Rightarrow> string" where
  "json_text JNull = ''null''"
| "json_text (JBool b) = (if b then ''true'' else ''false'')"
| "json_text (JInt n) = itoa n"
| "json_text (JReal s) = s"
| "json_text (JStr s) = json_quote s"
| "json_text (JArr vs) = CHR ''['' # join_with '','' (map json_text vs) @ '']''"
| "json_text (JObj ms) = CHR ''{'' # join_with '','' (map (\<lambda>(k, v). json_quote k @ '':'' @ json_text v) ms) @ ''}''"

text \<open>The values that survive, at a nesting that is still allowed.\<close>

fun fits :: "nat \<Rightarrow> json \<Rightarrow> bool" where
  "fits d JNull = True"
| "fits d (JBool b) = True"
| "fits d (JInt n) = (0 \<le> n)"
| "fits d (JReal s) = False"
| "fits d (JStr s) = utf8 s"
| "fits d (JArr vs) = (0 < d \<and> (\<forall>v \<in> set vs. fits (d - 1) v))"
| "fits d (JObj ms) = (0 < d \<and> (\<forall>(k, v) \<in> set ms. utf8 k \<and> fits (d - 1) v))"

section \<open>Round trip\<close>

definition starts_value :: "string \<Rightarrow> bool" where
  "starts_value s \<longleftrightarrow> s \<noteq> [] \<and> byte (hd s) \<notin> {32, 9, 10, 13} \<and> hd s \<notin> {CHR '']'', CHR ''}''}"

lemma digit_starts: "s \<noteq> [] \<Longrightarrow> list_all is_digit s \<Longrightarrow> starts_value (s @ r)"
  by (cases s) (auto simp: starts_value_def is_digit_def char_simps)

lemma text_starts: "fits d v \<Longrightarrow> starts_value (json_text v @ r)"
  using dec_digits_digits digit_starts
  by (cases v) (auto simp: itoa_def json_quote_def, simp_all add: starts_value_def char_simps)

lemma skip_starts [simp]: "starts_value s \<Longrightarrow> skip_ws s = s"
  by (cases s) (auto simp: starts_value_def)

lemma value_number:
  assumes "ends_value r"
  shows "json_value d (dec_digits n @ r) = Some (JInt (int n), r)"
proof -
  obtain c cs where c: "dec_digits n = c # cs" "is_digit c"
    using dec_digits_digits [of n] by (cases "dec_digits n") auto
  then have "c \<notin> {CHR ''{'', CHR ''['', dquote, CHR ''t'', CHR ''f'', CHR ''n''}" "byte c \<notin> {32, 9, 10, 13}"
    by (auto simp: is_digit_def char_simps)
  then show ?thesis
    using lex_digits [OF assms, of n] c(1) by (subst json_value.simps) simp
qed

lemma elems_text:
  assumes "\<forall>v \<in> set vs. \<forall>r. ends_value r \<longrightarrow> json_value d (json_text v @ r) = Some (v, r)"
  shows "vs \<noteq> [] \<Longrightarrow> json_elems d (join_with '','' (map json_text vs) @ CHR '']'' # r) = Some (vs, r)"
  using assms
proof (induction vs rule: induct_list012)
  case (2 v)
  then show ?case
    by (subst json_elems.simps) (simp add: char_simps)
next
  case (3 v v' vs)
  then show ?case
    by (subst json_elems.simps) (simp add: char_simps)
qed simp

definition member_text :: "string \<times> json \<Rightarrow> string" where
  "member_text m = json_quote (fst m) @ '':'' @ json_text (snd m)"

lemma members_step:
  assumes "utf8 (fst m)" "json_value d (json_text (snd m) @ s) = Some (snd m, s)"
  shows "json_members d (member_text m @ s) = (case skip_ws s of
     [] \<Rightarrow> None
   | c # r \<Rightarrow> if c = CHR ''}'' then Some ([m], r)
       else if c = CHR '','' \<and> length r < length (member_text m @ s) then map_option (\<lambda>(ms, r'). (m # ms, r')) (json_members d r)
       else None)"
  using assms by (subst json_members.simps) (simp add: member_text_def json_quote_def lex_quote_body char_simps split: list.split)

lemma members_text:
  assumes "\<forall>m \<in> set ms. utf8 (fst m) \<and> (\<forall>r. ends_value r \<longrightarrow> json_value d (json_text (snd m) @ r) = Some (snd m, r))"
  shows "ms \<noteq> [] \<Longrightarrow> json_members d (join_with '','' (map member_text ms) @ CHR ''}'' # r) = Some (ms, r)"
  using assms
proof (induction ms rule: induct_list012)
  case (2 m)
  then show ?case
    by (simp add: members_step char_simps)
next
  case (3 m m' ms)
  then show ?case
    by (simp add: members_step char_simps)
qed simp

lemma member_text_eq: "map (\<lambda>(k, v). json_quote k @ CHR '':'' # json_text v) ms = map member_text ms"
  by (simp add: member_text_def case_prod_beta')

lemma join_starts: "vs \<noteq> [] \<Longrightarrow> \<forall>v \<in> set vs. \<forall>r. starts_value (f v @ r) \<Longrightarrow> starts_value (join_with sep (map f vs) @ r)"
  by (induction vs rule: induct_list012) auto

lemma json_value_text:
  "fits d v \<Longrightarrow> ends_value r \<Longrightarrow> json_value d (json_text v @ r) = Some (v, r)"
proof (induction v arbitrary: d r)
  case (JInt n)
  then show ?case
    using value_number [of r d "nat n"] by (simp add: itoa_def)
next
  case (JStr s)
  then show ?case
    by (simp add: json_value_quote)
next
  case (JArr vs)
  show ?case
  proof (cases "vs = []")
    case True
    then show ?thesis
      using JArr.prems by (subst json_value.simps) (simp add: char_simps)
  next
    case False
    have elems: "\<forall>v \<in> set vs. \<forall>r. ends_value r \<longrightarrow> json_value (d - 1) (json_text v @ r) = Some (v, r)"
      using JArr by simp
    have "starts_value (join_with '','' (map json_text vs) @ CHR '']'' # r)"
      using JArr.prems by (intro join_starts [OF False]) (auto intro: text_starts)
    then show ?thesis
      using JArr.prems elems_text [OF elems False, of r]
      by (subst json_value.simps) (simp add: starts_value_def char_simps)
  qed
next
  case (JObj ms)
  show ?case
  proof (cases "ms = []")
    case True
    then show ?thesis
      using JObj.prems by (subst json_value.simps) (simp add: char_simps)
  next
    case False
    have elems: "\<forall>m \<in> set ms. utf8 (fst m) \<and> (\<forall>r. ends_value r \<longrightarrow> json_value (d - 1) (json_text (snd m) @ r) = Some (snd m, r))"
      using JObj by (fastforce simp: snds.simps)
    have "starts_value (join_with '','' (map member_text ms) @ CHR ''}'' # r)"
      by (intro join_starts [OF False]) (simp add: member_text_def json_quote_def starts_value_def char_simps)
    then show ?thesis
      using JObj.prems members_text [OF elems False, of r]
      by (subst json_value.simps) (simp add: member_text_eq starts_value_def char_simps)
  qed
next
  case JNull
  show ?case
    by (subst json_value.simps) (simp add: char_simps numeral_eq_Suc)
next
  case (JBool b)
  show ?case
    by (subst json_value.simps) (simp add: char_simps numeral_eq_Suc)
qed simp

theorem json_parse_text: "fits max_nesting v \<Longrightarrow> json_parse (json_text v) = Some v"
  using json_value_text [of max_nesting v "[]"] by (simp add: json_parse_def ends_value_def)

end
