(* ===== verification/EntityText.thy ===== *)
theory EntityText
  imports Resolver WireText JsonPrint
begin

text \<open>
  Entity configurations on the wire, and the chain from a built configuration and a built statement
  to the resolved key (\<open>pkg/federation\<close>).  A resolver reads the configuration twice, first without
  a key to find the authorities, so the round trip needs to know what text the library writes.
\<close>

section \<open>Decoding looks at fields\<close>

definition same_fields :: "(string \<times> json) list \<Rightarrow> (string \<times> json) list \<Rightarrow> bool" where
  "same_fields ms ms' \<longleftrightarrow> (\<forall>tag. json_get tag ms = json_get tag ms')"

lemma entity_same_fields: "same_fields ms ms' \<Longrightarrow> entity_configuration_of ms = entity_configuration_of ms'"
  by (simp add: same_fields_def entity_configuration_of_def json_field_defs jwks_field_def ptr_field_def)

lemma subordinate_same_fields: "same_fields ms ms' \<Longrightarrow> subordinate_statement_of ms = subordinate_statement_of ms'"
  by (simp add: same_fields_def subordinate_statement_of_def json_field_defs jwks_field_def ptr_field_def)

text \<open>The text of a signed entity statement: its claims are a \<open>MapClaims\<close>.\<close>

definition statement_text :: "ext \<Rightarrow> bool" where
  "statement_text L \<longleftrightarrow> (\<forall>rnd h pl sk tok. jwt_sign L rnd h pl sk = Inr tok \<longrightarrow> wire_ok L h pl \<longrightarrow>
     header_str ''typ'' h = entityStatementTyp \<longrightarrow>
     (\<exists>a p b ms. tok = b64_encode a @ ''.'' @ b64_encode p @ ''.'' @ b64_encode b \<and>
       json_parse p = Some (JObj ms) \<and> same_fields ms (map_claims pl)))"

section \<open>Entity configurations\<close>

definition built_metadata :: "string \<Rightarrow> string \<Rightarrow> EntityMetadata" where
  "built_metadata issuerID orgName = \<lparr>
     em_AgentIdP = Some \<lparr>am_Issuer = issuerID, am_JWKSURI = issuerID @ ''/.well-known/jwks.json'',
       am_TokenEndpoint = issuerID @ ''/agent/issue''\<rparr>,
     em_FederationEntity = Some \<lparr>fm_FederationFetchEndpoint = issuerID @ ''/federation/fetch'', fm_OrganizationName = orgName\<rparr>\<rparr>"

lemma agent_idp_sorted:
  "agent_idp_of (members_sorted [(''issuer'', JStr i), (''jwks_uri'', JStr u), (''token_endpoint'', JStr e)]) =
     Some \<lparr>am_Issuer = i, am_JWKSURI = u, am_TokenEndpoint = e\<rparr>"
proof -
  note get = json_get_sorted [of "[(''issuer'', JStr i), (''jwks_uri'', JStr u), (''token_endpoint'', JStr e)]"]
  show ?thesis
    using get [of "''issuer''"] get [of "''jwks_uri''"] get [of "''token_endpoint''"]
    by (simp add: agent_idp_of_def str_field_def)
qed

lemma federation_entity_sorted:
  "federation_entity_of (members_sorted [(''federation_fetch_endpoint'', JStr f), (''organization_name'', JStr n)]) =
     Some \<lparr>fm_FederationFetchEndpoint = f, fm_OrganizationName = n\<rparr>"
proof -
  note get = json_get_sorted [of "[(''federation_fetch_endpoint'', JStr f), (''organization_name'', JStr n)]"]
  show ?thesis
    using get [of "''federation_fetch_endpoint''"] get [of "''organization_name''"]
    by (simp add: federation_entity_of_def str_field_def)
qed

lemma metadata_sorted:
  "\<exists>ms. remarshal (entity_metadata_json issuerID orgName) = JObj ms \<and>
     entity_metadata_of ms = Some (built_metadata issuerID orgName)"
proof -
  note get = json_get_sorted [of "[(''agent_idp'', a), (''federation_entity'', f)]" for a f]
  show ?thesis
    using get [where tag = "''agent_idp''"] get [where tag = "''federation_entity''"] agent_idp_sorted federation_entity_sorted
    by (simp add: entity_metadata_json_def entity_metadata_of_def ptr_field_def built_metadata_def)
qed

lemma entity_of_payload:
  assumes "go_int (unix now)" "go_int (unix (now + ttl))" "hints \<noteq> []"
  shows "entity_configuration_of (map_claims (entity_payload iss jwk org hints ttl now)) =
    Some \<lparr>en_Issuer = iss, en_Subject = iss, en_IssuedAt = unix now, en_ExpiresAt = unix (now + ttl),
      en_JWKS = [jwk], en_Metadata = Some (built_metadata iss org), en_AuthorityHints = hints\<rparr>"
proof -
  let ?ms = "omit_empty ''iss'' iss @ omit_empty ''sub'' iss @ [(''exp'', JInt (unix (now + ttl))),
     (''iat'', JInt (unix now)), (''authority_hints'', JArr (map JStr hints)), (''jwks'', remarshal (jwks_json jwk)),
     (''metadata'', remarshal (entity_metadata_json iss org))]"
  have "map_claims (entity_payload iss jwk org hints ttl now) = members_sorted ?ms"
    using assms(3) by (simp add: map_claims_def entity_payload_def statement_claims_def no_claims_def date_member_def comp_def)
  moreover have "distinct (map fst ?ms)"
    by (simp add: omit_empty_def)
  note get = json_get_sorted [OF this]
  obtain ms where "remarshal (entity_metadata_json iss org) = JObj ms" "entity_metadata_of ms = Some (built_metadata iss org)"
    using metadata_sorted by blast
  ultimately show ?thesis
    using assms get [of "''iss''"] get [of "''sub''"] get [of "''iat''"] get [of "''exp''"] get [of "''jwks''"]
      get [of "''metadata''"] get [of "''authority_hints''"]
    by (simp add: go_int_def entity_configuration_of_def json_field_defs jwks_field_def ptr_field_def jwks_json_def)
qed

section \<open>From building to resolving\<close>

lemma BuildEntityConfiguration_ok:
  "BuildEntityConfiguration L iss sk kid org hints ttl now rnd = Inr tok \<longleftrightarrow>
     (\<exists>jwk. PublicKeyToJWK (Some (ec_Public sk)) kid = Inr jwk \<and>
       jwt_sign L rnd (statement_header L kid) (entity_payload iss jwk org hints ttl now) sk = Inr tok)"
  by (auto simp: BuildEntityConfiguration_def split: sum.splits)

text \<open>A configuration that was built, with what it says; with and without its key it is read as that.\<close>

definition built_configuration :: "ext \<Rightarrow> string \<Rightarrow> ec_private \<Rightarrow> string \<Rightarrow> string \<Rightarrow> string list \<Rightarrow> duration \<Rightarrow> time
    \<Rightarrow> string \<Rightarrow> EntityConfiguration \<Rightarrow> bool" where
  "built_configuration L iss sk kid org hints ttl now tok ec \<longleftrightarrow>
     (\<exists>rnd. BuildEntityConfiguration L iss sk kid org hints ttl now rnd = Inr tok) \<and>
     p256_key (ec_Public sk) \<and> iss \<noteq> [] \<and> hints \<noteq> [] \<and> go_int (unix now) \<and> go_int (unix (now + ttl)) \<and>
     wire_ok L (statement_header L kid) (entity_payload iss (jwk_of (ec_Public sk) kid) org hints ttl now) \<and>
     ec = \<lparr>en_Issuer = iss, en_Subject = iss, en_IssuedAt = unix now, en_ExpiresAt = unix (now + ttl),
       en_JWKS = [jwk_of (ec_Public sk) kid], en_Metadata = Some (built_metadata iss org), en_AuthorityHints = hints\<rparr>"

lemma configuration_signed:
  assumes "built_configuration L iss sk kid org hints ttl now tok ec"
  shows "\<exists>rnd. jwt_sign L rnd (statement_header L kid) (entity_payload iss (jwk_of (ec_Public sk) kid) org hints ttl now) sk = Inr tok"
    and "entity_configuration_of (map_claims (entity_payload iss (jwk_of (ec_Public sk) kid) org hints ttl now)) = Some ec"
  using assms entity_of_payload by (auto simp: built_configuration_def BuildEntityConfiguration_ok)

lemma configuration_parsed:
  assumes "statement_text L" "built_configuration L iss sk kid org hints ttl now tok ec"
  shows "ParseEntityConfiguration tok = Inr ec"
proof -
  let ?pl = "entity_payload iss (jwk_of (ec_Public sk) kid) org hints ttl now"
  obtain rnd where "jwt_sign L rnd (statement_header L kid) ?pl sk = Inr tok"
    using configuration_signed [OF assms(2)] by blast
  moreover have wire: "wire_ok L (statement_header L kid) ?pl"
    using assms(2) by (simp add: built_configuration_def)
  ultimately obtain a p b ms where tok: "tok = b64_encode a @ ''.'' @ b64_encode p @ ''.'' @ b64_encode b"
    and ms: "json_parse p = Some (JObj ms)" "same_fields ms (map_claims ?pl)"
    using assms(1) header_str_statement(1) [of L kid] unfolding statement_text_def by metis
  have "peekPayload tok = Inr p"
    unfolding tok by (rule peekPayload_compact)
  then show ?thesis
    using ms entity_same_fields [OF ms(2)] configuration_signed(2) [OF assms(2)] assms(2)
    by (auto simp: ParseEntityConfiguration_def built_configuration_def)
qed

lemma configuration_verified:
  assumes "jwt_complete L" "jwt_es256 L" "built_configuration L iss sk kid org hints ttl now tok ec"
    and "t < second * unix (now + ttl)"
  shows "VerifyEntityConfiguration L t tok (ec_Public sk) = Inr ec"
proof -
  let ?h = "statement_header L kid" and ?pl = "entity_payload iss (jwk_of (ec_Public sk) kid) org hints ttl now"
  obtain rnd where "jwt_sign L rnd ?h ?pl sk = Inr tok" and "wire_ok L ?h ?pl"
    using configuration_signed [OF assms(3)] assms(3) by (auto simp: built_configuration_def)
  moreover have "typ_key entityStatementTyp (ec_Public sk) ?h = Inr (ec_Public sk)"
    by (simp add: typ_key_def)
  moreover have "claims_valid statement_opts t ?h (pl_reg ?pl)"
    using assms(2,4) by (simp add: claims_valid_def statement_opts_def entity_payload_def statement_claims_def
        no_claims_def jwt_es256_def)
  ultimately have "jwt_parse L statement_opts t tok (typ_key entityStatementTyp (ec_Public sk)) =
      Inr \<lparr>tk_header = ?h, tk_payload = ?pl\<rparr>"
    using assms(1) unfolding jwt_complete_def by blast
  then show ?thesis
    using configuration_signed(2) [OF assms(3)] by (simp add: VerifyEntityConfiguration_def verifyEntityStatement_def)
qed

text \<open>The only anchor is found wherever it stands among the hints.\<close>

lemma first_verified_anchor:
  assumes "\<And>j. VerifySubordinateStatement L (clock j) tok pub = Inr ss" "ss_Subject ss = ent"
  shows "a \<in> set hints \<Longrightarrow> first_verified L [a \<mapsto> pub] clock tok ent i hints = Some ss"
  using assms by (induction hints arbitrary: i) auto

lemma resolve_built:
  assumes L: "jwt_complete L" "jwt_es256 L" "statement_text L"
    and conf: "built_configuration L ent sk kid org hints ttl now ecTok ec"
    and ss: "BuildSubordinateStatement L a ent (Some (ec_Public sk)) kid' ak akid ttl' now' rnd' = Inr ssTok"
      "wire_ok L (statement_header L akid) (subordinate_payload a ent (jwk_of (ec_Public sk) kid') ttl' now')"
      "go_int (unix now')" "go_int (unix (now' + ttl'))"
    and r: "ir_entityConfigs r ent = Some ecTok" "ir_subStatements r ent = Some ssTok"
      "ir_trustAnchors r = [a \<mapsto> ec_Public ak]" "a \<in> set hints"
    and t: "\<And>j. rk_hint ck j < second * unix (now' + ttl')" "rk_ec ck 0 < second * unix (now + ttl)"
  shows "resolve_chain L r ck ent = Inr \<lparr>re_JWKS = [jwk_of (ec_Public sk) kid'],
    re_ExpiresAt = entity_expiry (unix (now' + ttl')) (unix (now + ttl))\<rparr>"
proof -
  note read = configuration_parsed [OF L(3) conf] configuration_verified [OF L(1,2) conf t(2)]
  have key: "p256_key (ec_Public sk)" and ec: "en_AuthorityHints ec = hints" "en_ExpiresAt ec = unix (now + ttl)"
    using conf by (simp_all add: built_configuration_def)
  let ?ss = "\<lparr>ss_Issuer = a, ss_Subject = ent, ss_IssuedAt = unix now', ss_ExpiresAt = unix (now' + ttl'),
      ss_JWKS = [jwk_of (ec_Public sk) kid'], ss_Metadata = None\<rparr>"
  have jwk: "PublicKeyToJWK (Some (ec_Public sk)) kid' = Inr (jwk_of (ec_Public sk) kid')"
    using key by simp
  have "VerifySubordinateStatement L (rk_hint ck j) ssTok (ec_Public ak) = Inr ?ss" for j
    by (rule Verify_built [OF L(1,2) ss(1) jwk ss(2-4) t(1)])
  then have "first_verified L [a \<mapsto> ec_Public ak] (rk_hint ck) ssTok ent 0 hints = Some ?ss"
    using r(4) by (intro first_verified_anchor) simp_all
  moreover have "JWKToPublicKey (jwk_of (ec_Public sk) kid') = Inr (ec_Public sk)"
    by (rule JWKToPublicKey_of_key [OF jwk key])
  ultimately show ?thesis
    using r(1-3) read ec by (simp add: resolve_chain_def)
qed

section \<open>What survives the wire\<close>

text \<open>The library keeps a date of whole seconds.\<close>

definition whole_seconds :: "ext \<Rightarrow> bool" where
  "whole_seconds L \<longleftrightarrow> (\<forall>k. jwt_numeric_date L (second * k) = second * k)"

lemma statement_claims_wire:
  "whole_seconds L \<Longrightarrow> utf8 iss \<Longrightarrow> utf8 sub \<Longrightarrow> claims_wire L (statement_claims iss sub now ttl)"
  by (simp add: claims_wire_def statement_claims_def no_claims_def whole_seconds_def)

lemma statement_header_utf8:
  assumes "wire_utf8 L" "utf8 kid"
  shows "json_utf8 (JObj (statement_header L kid))"
proof -
  have "json_utf8 (JObj (typ_header L entityStatementTyp))"
    using assms(1) by (intro utf8_typ_header) (simp_all add: entityStatementTyp_def char_simps)
  then show ?thesis
    unfolding statement_header_def typ_header_def
    by (rule json_utf8_update) (use assms(2) in \<open>simp_all add: char_simps\<close>)
qed

lemma jwks_utf8: "utf8 kid \<Longrightarrow> json_utf8 (jwks_json (jwk_of p kid))"
proof -
  assume kid: "utf8 kid"
  have "json_utf8 (remarshal (jwk_to_json (jwk_of p kid)))"
    unfolding jwk_to_json_def remarshal.simps
    by (rule utf8_members_sorted) (use kid in \<open>simp_all add: omit_empty_def jwk_of_def char_simps\<close>)
  then show ?thesis
    by (simp add: jwks_json_def char_simps)
qed

lemma subordinate_wire:
  assumes "wire_utf8 L" "whole_seconds L" "utf8 iss" "utf8 sub" "utf8 kid" "utf8 akid"
  shows "wire_ok L (statement_header L akid) (subordinate_payload iss sub (jwk_of p kid) ttl now)"
  using statement_claims_wire [OF assms(2-4)] statement_header_utf8 [OF assms(1,6)] jwks_utf8 [OF assms(5)]
  by (simp add: wire_ok_def subordinate_payload_def char_simps)

lemma entity_wire:
  assumes "wire_utf8 L" "whole_seconds L" "utf8 iss" "utf8 kid" "list_all utf8 hints"
    and "json_utf8 (entity_metadata_json iss org)"
  shows "wire_ok L (statement_header L kid) (entity_payload iss (jwk_of p kid) org hints ttl now)"
  using statement_claims_wire [OF assms(2,3,3)] statement_header_utf8 [OF assms(1,4)] jwks_utf8 [OF assms(4)] assms(5,6)
  by (simp add: wire_ok_def entity_payload_def char_simps list_all_iff)

section \<open>Texts for closed instances\<close>

lemma members_sorted_set: "m \<in> set (members_sorted ms) \<Longrightarrow> m \<in> set ms"
proof -
  assume "m \<in> set (members_sorted ms)"
  then obtain k where k: "k \<in> fst ` set ms" "m = (k, the (map_of (rev ms) k))"
    by (auto simp: members_sorted_def)
  then obtain v where "map_of (rev ms) k = Some v"
    by (cases "map_of (rev ms) k") (auto simp: map_of_eq_None_iff)
  then show ?thesis
    using k(2) map_of_SomeD [of "rev ms" k v] by simp
qed

lemma fits_sorted: "fits d (JObj ms) \<Longrightarrow> fits d (JObj (members_sorted ms))"
  using members_sorted_set [of _ ms] by (auto split: prod.splits)

lemma fits_remarshal: "fits d v \<Longrightarrow> fits d (remarshal v)"
proof (induction v arbitrary: d)
  case (JObj ms)
  then have "fits d (JObj (map (\<lambda>(k, v). (k, remarshal v)) ms))"
    by (fastforce simp: snds.simps)
  then show ?case
    unfolding remarshal.simps by (rule fits_sorted)
qed auto

definition claims_text :: "payload \<Rightarrow> nat \<Rightarrow> string" where
  "claims_text pl n = ex_demo_text (json_text (JObj (map_claims pl))) n"

lemma claims_text_parse:
  assumes "fits max_nesting (JObj (map_claims pl))"
  shows "\<exists>a p b ms. claims_text pl n = b64_encode a @ ''.'' @ b64_encode p @ ''.'' @ b64_encode b \<and>
    json_parse p = Some (JObj ms) \<and> same_fields ms (map_claims pl)"
  using json_parse_text [OF assms] unfolding claims_text_def ex_demo_text_def same_fields_def by blast

lemma ledger_statement_text:
  assumes "\<forall>e \<in> set ls. header_str ''typ'' (tk_header (le_token e)) = entityStatementTyp \<longrightarrow>
    fits max_nesting (JObj (map_claims (tk_payload (le_token e)))) \<and> (\<exists>n. le_text e = claims_text (tk_payload (le_token e)) n)"
  shows "statement_text (ledger_ext ls)"
  unfolding statement_text_def
proof (intro allI impI)
  fix rnd h pl sk tok
  assume "jwt_sign (ledger_ext ls) rnd h pl sk = Inr tok" and hdr: "header_str ''typ'' h = entityStatementTyp"
  then obtain e where e: "e \<in> set ls" "le_text e = tok" "le_token e = \<lparr>tk_header = h, tk_payload = pl\<rparr>"
    by (auto elim: ledger_signed)
  then obtain n where "fits max_nesting (JObj (map_claims pl))" "tok = claims_text pl n"
    using assms hdr by fastforce
  then show "\<exists>a p b ms. tok = b64_encode a @ ''.'' @ b64_encode p @ ''.'' @ b64_encode b \<and>
      json_parse p = Some (JObj ms) \<and> same_fields ms (map_claims pl)"
    using claims_text_parse by blast
qed

lemma ledger_whole_seconds: "whole_seconds (ledger_ext ls)"
  by (simp add: whole_seconds_def ledger_ext_def)

lemma claims_text_compact:
  assumes "fits max_nesting (JObj (map_claims pl))" "str_field ''iss'' (map_claims pl) = Some iss"
  shows "compact_jwt (claims_text pl n) iss"
  unfolding claims_text_def by (rule ex_text_compact [OF json_parse_text [OF assms(1)] assms(2)])

lemma fits_jwks: "2 < d \<Longrightarrow> utf8 kid \<Longrightarrow> fits d (jwks_json (jwk_of p kid))"
proof -
  assume d: "2 < d" and kid: "utf8 kid"
  have "fits (d - 2) (remarshal (jwk_to_json (jwk_of p kid)))"
    by (rule fits_remarshal) (use d kid in \<open>auto simp: jwk_to_json_def omit_empty_def jwk_of_def char_simps\<close>)
  then show ?thesis
    using d by (auto simp: jwks_json_def char_simps numeral_2_eq_2)
qed

end
