(* ===== verification/DemoFederation.thy ===== *)
theory DemoFederation
  imports DemoBroker DemoChain EntityText
begin

text \<open>
  The browser demo, federated agents (\<open>cmd/demo-wasm/main.go\<close>, \<open>setupFederation\<close> to
  \<open>validateFederatedToken\<close>): a trust anchor certifies the key of another organisation's issuer, the
  issuer signs an AgentToken, and the token is validated with the key that the resolver found.
\<close>

section \<open>State\<close>

record fed_demo =
  fd_AnchorPriv :: "ec_private option"
  fd_AnchorPub :: "ec_public option"
  fd_OrgBPriv :: "ec_private option"
  fd_OrgBPub :: "ec_public option"
  fd_OrgBIssuer :: "AgentIssuer option"
  fd_OrgBEC :: string
  fd_OrgBSS :: string
  fd_OrgBToken :: string
  fd_Resolver :: "InMemoryResolver option"

definition fed_demo_init :: fed_demo where
  "fed_demo_init = \<lparr>fd_AnchorPriv = None, fd_AnchorPub = None, fd_OrgBPriv = None, fd_OrgBPub = None, fd_OrgBIssuer = None,
     fd_OrgBEC = [], fd_OrgBSS = [], fd_OrgBToken = [], fd_Resolver = None\<rparr>"

datatype fed_error = FedAnchorKey string | FedOrgBKey string | FedBuildConfiguration statement_error
  | FedBuildStatement statement_error | FedAnchorJWK key_error | FedOrgBJWK key_error | CallSetupFederationFirst
  | FedWorkloadKey key_error | FedIssue issue_error | CallIssueOrgBFirst | FedResolve resolve_error
  | FedResolvedKey resolve_error | FedValidate validate_error

definition fedAnchorID :: string where "fedAnchorID = ''https://trust-anchor.enterprise.example''"
definition fedOrgBID :: string where "fedOrgBID = ''https://idp.org-b.example''"
definition fedOrgBSub :: string where "fedOrgBSub = ''spiffe://org-b.example/agent/data-collector''"

section \<open>Operations\<close>

text \<open>An assignment \<open>x, err = f()\<close> of a global variable stores the zero value when \<open>f\<close> fails.  A
  statement is built at a clock reading, with the randomness of its signature.\<close>

definition fed_configuration :: "ext \<Rightarrow> ec_private \<Rightarrow> time \<times> bytes \<Rightarrow> statement_error + string" where
  "fed_configuration L orgB d = BuildEntityConfiguration L fedOrgBID orgB ''orgb-key'' ''Org B Agent Platform'' [fedAnchorID]
     (24 * hour) (fst d) (snd d)"

definition fed_statement :: "ext \<Rightarrow> ec_private \<Rightarrow> ec_public \<Rightarrow> time \<times> bytes \<Rightarrow> statement_error + string" where
  "fed_statement L anchor orgB d = BuildSubordinateStatement L fedAnchorID fedOrgBID (Some orgB) ''orgb-key'' anchor ''anchor-key''
     (24 * hour) (fst d) (snd d)"

definition fed_resolver :: "ec_public \<Rightarrow> string \<Rightarrow> string \<Rightarrow> InMemoryResolver" where
  "fed_resolver anchorPub ec ss = RegisterSubordinateStatement fedOrgBID ss (RegisterEntityConfig fedOrgBID ec
     (NewInMemoryResolver [fedAnchorID \<mapsto> anchorPub]))"

definition setup_reply :: "ec_public \<Rightarrow> ec_public \<Rightarrow> string \<Rightarrow> string \<Rightarrow> fed_error demo_reply" where
  "setup_reply anchorPub orgBPub ec ss = (case PublicKeyToJWK (Some anchorPub) ''anchor-key'' of
     Inl e \<Rightarrow> errObj (FedAnchorJWK e)
   | Inr anchorJWK \<Rightarrow> (case PublicKeyToJWK (Some orgBPub) ''orgb-key'' of
       Inl e \<Rightarrow> errObj (FedOrgBJWK e)
     | Inr orgBJWK \<Rightarrow>
         okObj [(''anchorID'', JStr fedAnchorID), (''orgBID'', JStr fedOrgBID), (''ecJWT'', JStr ec),
           (''ecIss'', JStr (case ParseEntityConfiguration ec of Inl e \<Rightarrow> [] | Inr c \<Rightarrow> en_Issuer c)),
           (''ecHints'', JArr (case ParseEntityConfiguration ec of Inl e \<Rightarrow> [] | Inr c \<Rightarrow> map JStr (en_AuthorityHints c))),
           (''ssSub'', JStr (case ParseSubordinateStatement ss of Inl e \<Rightarrow> [] | Inr c \<Rightarrow> ss_Subject c)),
           (''anchorKeyX'', JStr (jwk_X anchorJWK)), (''orgBKeyX'', JStr (jwk_X orgBJWK))]))"

definition setupFederation :: "ext \<Rightarrow> string + ec_private \<Rightarrow> string + ec_private \<Rightarrow> time \<times> bytes \<Rightarrow> time \<times> bytes \<Rightarrow> fed_demo
    \<Rightarrow> fed_error demo_reply \<times> fed_demo" where
  "setupFederation L d1 d2 d3 d4 s = (case d1 of
     Inl e \<Rightarrow> (errObj (FedAnchorKey e), s\<lparr>fd_AnchorPriv := None\<rparr>)
   | Inr anchor \<Rightarrow>
       let s = s\<lparr>fd_AnchorPriv := Some anchor, fd_AnchorPub := Some (ec_Public anchor)\<rparr>
       in (case d2 of
         Inl e \<Rightarrow> (errObj (FedOrgBKey e), s\<lparr>fd_OrgBPriv := None\<rparr>)
       | Inr orgB \<Rightarrow>
           let s = s\<lparr>fd_OrgBPriv := Some orgB, fd_OrgBPub := Some (ec_Public orgB)\<rparr>
           in (case fed_configuration L orgB d3 of
             Inl e \<Rightarrow> (errObj (FedBuildConfiguration e), s\<lparr>fd_OrgBEC := []\<rparr>)
           | Inr ec \<Rightarrow>
               let s = s\<lparr>fd_OrgBEC := ec\<rparr>
               in (case fed_statement L anchor (ec_Public orgB) d4 of
                 Inl e \<Rightarrow> (errObj (FedBuildStatement e), s\<lparr>fd_OrgBSS := []\<rparr>)
               | Inr ss \<Rightarrow>
                   (setup_reply (ec_Public anchor) (ec_Public orgB) ec ss,
                    s\<lparr>fd_OrgBSS := ss, fd_OrgBIssuer := Some (NewAgentIssuer fedOrgBID orgB hour),
                      fd_Resolver := Some (fed_resolver (ec_Public anchor) ec ss)\<rparr>)))))"

definition fed_token_options :: "ec_public \<Rightarrow> IssueOptions" where
  "fed_token_options pub = \<lparr>io_Subject = fedOrgBSub, io_Audiences = [], io_TrustDomain = [], io_Role = RoleOrchestrator,
     io_ChainDepth = 0, io_KeyID = [], io_WorkloadKey = Some pub, io_Mission = []\<rparr>"

definition issueOrgBAgentToken :: "ext \<Rightarrow> string + ec_private \<Rightarrow> draws \<Rightarrow> fed_demo \<Rightarrow> fed_error demo_reply \<times> fed_demo" where
  "issueOrgBAgentToken L draw d s = (case fd_OrgBIssuer s of
     None \<Rightarrow> (errObj CallSetupFederationFirst, s)
   | Some i \<Rightarrow> (case GenerateECKeyPair draw of
       Inl e \<Rightarrow> (errObj (FedWorkloadKey e), s)
     | Inr kp \<Rightarrow> (case AgentIssuer_Issue L i (fed_token_options (kp_Public kp)) (dr_now d) (dr_jti d) (dr_rnd d) of
         Inl e \<Rightarrow> (errObj (FedIssue e), s\<lparr>fd_OrgBToken := []\<rparr>)
       | Inr tok \<Rightarrow> (okObj [(''token'', JStr tok), (''issuer'', JStr fedOrgBID), (''subject'', JStr fedOrgBSub)],
           s\<lparr>fd_OrgBToken := tok\<rparr>))))"

definition validateFederatedToken :: "ext \<Rightarrow> resolve_clocks \<Rightarrow> time \<Rightarrow> fed_demo \<Rightarrow> fed_error demo_reply \<times> fed_demo" where
  "validateFederatedToken L ck now s = (case fd_Resolver s of
     None \<Rightarrow> (errObj CallSetupFederationFirst, s)
   | Some r \<Rightarrow>
       if fd_OrgBToken s = [] then (errObj CallIssueOrgBFirst, s)
       else (case InMemoryResolver_Resolve L ck fedOrgBID r of (x, r') \<Rightarrow>
         (let s = s\<lparr>fd_Resolver := Some r'\<rparr> in (case x of
            Inl e \<Rightarrow> (errObj (FedResolve e), s)
          | Inr entity \<Rightarrow> (case ResolvedEntity_PublicKey entity of
              Inl e \<Rightarrow> (errObj (FedResolvedKey e), s)
            | Inr pub \<Rightarrow> (case AgentValidator_Validate L (NewAgentValidator fedOrgBID pub []) now (fd_OrgBToken s) of
                Inl e \<Rightarrow> (errObj (FedValidate e), s)
              | Inr va \<Rightarrow>
                  (okObj [(''subject'', JStr (rc_Subject (ac_reg (va_Claims va)))), (''issuer'', JStr (rc_Issuer (ac_reg (va_Claims va)))),
                     (''resolvedViaChain'', JBool True), (''trustAnchor'', JStr fedAnchorID),
                     (''resolvedKeyX'', JStr (jwk_X_or_empty (Some pub) ''orgb-key''))], s)))))))"

section \<open>Clicks\<close>

datatype fed_click = FSetup "string + ec_private" "string + ec_private" "time \<times> bytes" "time \<times> bytes"
  | FIssue "string + ec_private" draws | FValidate resolve_clocks time

fun fed_step :: "ext \<Rightarrow> fed_click \<Rightarrow> fed_demo \<Rightarrow> fed_error demo_reply \<times> fed_demo" where
  "fed_step L (FSetup d1 d2 d3 d4) s = setupFederation L d1 d2 d3 d4 s"
| "fed_step L (FIssue k d) s = issueOrgBAgentToken L k d s"
| "fed_step L (FValidate ck now) s = validateFederatedToken L ck now s"

text \<open>The resolver that the page holds was made for one anchor and has only done what resolvers do.\<close>

definition fed_inv :: "ext \<Rightarrow> fed_demo \<Rightarrow> bool" where
  "fed_inv L s \<longleftrightarrow> (case fd_Resolver s of
     None \<Rightarrow> True | Some r \<Rightarrow> (\<exists>pub. ir_reachable L [fedAnchorID \<mapsto> pub] r))"

lemma fed_init_inv: "fed_inv L fed_demo_init"
  by (simp add: fed_inv_def fed_demo_init_def)

lemma fed_resolver_reachable: "ir_reachable L [fedAnchorID \<mapsto> pub] (fed_resolver pub ec ss)"
  unfolding fed_resolver_def by (intro ir_reachable.intros)

lemma setup_fed_inv: "fed_inv L s \<Longrightarrow> fed_inv L (snd (setupFederation L d1 d2 d3 d4 s))"
  by (auto simp: fed_inv_def setupFederation_def Let_def split: sum.split option.splits)
    (use fed_resolver_reachable in blast)+

lemma issue_fed_inv: "fed_inv L s \<Longrightarrow> fed_inv L (snd (issueOrgBAgentToken L k d s))"
  by (auto simp: fed_inv_def issueOrgBAgentToken_def split: sum.split option.split)

lemma validate_fed_inv: "fed_inv L s \<Longrightarrow> fed_inv L (snd (validateFederatedToken L ck now s))"
  by (auto simp: fed_inv_def validateFederatedToken_def Let_def split: sum.splits option.splits prod.splits
      intro: ir_reachable.resolve)

interpretation fed_sys: invariant_system "fed_step L" "fed_inv L" "\<lambda>_. True" for L
proof unfold_locales
  fix x s r s'
  assume "fed_step L x s = (r, s')" "fed_inv L s"
  then show "fed_inv L s'"
    using setup_fed_inv issue_fed_inv validate_fed_inv by (cases x; simp) (metis snd_conv)+
qed

section \<open>Accepted tokens\<close>

lemma federated_accepted:
  assumes "jwt_sound L" "fed_inv L s" "validateFederatedToken L ck now s = (OkObj ob, s')"
  shows "\<exists>anchor jwks pub. certified L [fedAnchorID \<mapsto> anchor] fedOrgBID jwks \<and>
    (\<exists>j \<in> set jwks. JWKToPublicKey j = Inr pub) \<and> jwt_sig_ok L pub (fd_OrgBToken s) \<and>
    map_of ob ''issuer'' = Some (JStr fedOrgBID) \<and> map_of ob ''resolvedKeyX'' = Some (JStr (encodeCoord (ec_X pub)))"
proof -
  obtain r e r' pub va where r: "fd_Resolver s = Some r" "InMemoryResolver_Resolve L ck fedOrgBID r = (Inr e, r')"
    and key: "ResolvedEntity_PublicKey e = Inr pub"
    and va: "AgentValidator_Validate L (NewAgentValidator fedOrgBID pub []) now (fd_OrgBToken s) = Inr va"
    and ob: "map_of ob ''issuer'' = Some (JStr (rc_Issuer (ac_reg (va_Claims va))))"
      "map_of ob ''resolvedKeyX'' = Some (JStr (jwk_X_or_empty (Some pub) ''orgb-key''))"
    using assms(3) by (auto simp: validateFederatedToken_def Let_def okObj_def errObj_def
        split: option.splits if_splits sum.splits prod.splits)
  obtain anchor where "ir_reachable L [fedAnchorID \<mapsto> anchor] r"
    using assms(2) r(1) by (auto simp: fed_inv_def)
  then have ok: "ir_ok L r" "ir_trustAnchors r = [fedAnchorID \<mapsto> anchor]"
    using ir_reachable_ok by blast+
  note client = memory.client_key [OF ok(1) r(2) key]
  have "jwt_sig_ok L pub (fd_OrgBToken s)" "rc_Issuer (ac_reg (va_Claims va)) = fedOrgBID"
    using Validate_sound [OF assms(1) va] by (auto simp: NewAgentValidator_def)
  moreover have "jwk_X_or_empty (Some pub) ''orgb-key'' = encodeCoord (ec_X pub)"
    using client by (simp add: jwk_X_or_empty_def jwk_of_def)
  ultimately show ?thesis
    using client ok(2) ob by auto
qed

section \<open>A walk through the page\<close>

lemma setup_click:
  assumes "setupFederation L (Inr anchor) (Inr orgB) d3 d4 s = (r, s')" "is_OkObj r"
  obtains ec ss where "fed_configuration L orgB d3 = Inr ec" "fed_statement L anchor (ec_Public orgB) d4 = Inr ss"
    "fd_OrgBIssuer s' = Some (NewAgentIssuer fedOrgBID orgB hour)" "fd_Resolver s' = Some (fed_resolver (ec_Public anchor) ec ss)"
    "r = setup_reply (ec_Public anchor) (ec_Public orgB) ec ss"
proof (cases "fed_configuration L orgB d3")
  case (Inr ec)
  then show thesis
    using assms that by (cases "fed_statement L anchor (ec_Public orgB) d4") (auto simp: setupFederation_def)
qed (use assms in \<open>auto simp: setupFederation_def\<close>)

lemma fed_configuration_built:
  assumes "wire_utf8 L" "whole_seconds L" "fed_configuration L orgB d = Inr ec" "p256_key (ec_Public orgB)"
    and "go_int (unix (fst d))" "go_int (unix (fst d + 24 * hour))"
  shows "built_configuration L fedOrgBID orgB ''orgb-key'' ''Org B Agent Platform'' [fedAnchorID] (24 * hour) (fst d) ec
    \<lparr>en_Issuer = fedOrgBID, en_Subject = fedOrgBID, en_IssuedAt = unix (fst d), en_ExpiresAt = unix (fst d + 24 * hour),
     en_JWKS = [jwk_of (ec_Public orgB) ''orgb-key''],
     en_Metadata = Some (built_metadata fedOrgBID ''Org B Agent Platform''), en_AuthorityHints = [fedAnchorID]\<rparr>"
proof -
  have "wire_ok L (statement_header L ''orgb-key'')
     (entity_payload fedOrgBID (jwk_of (ec_Public orgB) ''orgb-key'') ''Org B Agent Platform'' [fedAnchorID] (24 * hour) (fst d))"
    by (rule entity_wire [OF assms(1,2)]) (simp_all add: fedOrgBID_def fedAnchorID_def entity_metadata_json_def char_simps)
  moreover have "fedOrgBID \<noteq> []"
    by (simp add: fedOrgBID_def)
  ultimately show ?thesis
    using assms unfolding built_configuration_def fed_configuration_def by blast
qed

lemma fed_chain_resolved:
  assumes "jwt_laws L" "statement_text L" "whole_seconds L" "p256_key (ec_Public orgB)"
    and "fed_configuration L orgB d3 = Inr ec" "fed_statement L anchor (ec_Public orgB) d4 = Inr ss"
    and "list_all (go_int \<circ> unix) [fst d3, fst d3 + 24 * hour, fst d4, fst d4 + 24 * hour]"
    and "\<And>j. rk_hint ck j < second * unix (fst d4 + 24 * hour)" "rk_ec ck 0 < second * unix (fst d3 + 24 * hour)"
  obtains e r' where "InMemoryResolver_Resolve L ck fedOrgBID (fed_resolver (ec_Public anchor) ec ss) = (Inr e, r')"
    "ResolvedEntity_PublicKey e = Inr (ec_Public orgB)"
proof -
  let ?r = "fed_resolver (ec_Public anchor) ec ss"
  have L: "jwt_complete L" "jwt_es256 L" "wire_utf8 L"
    using assms(1) by (simp_all add: jwt_laws_def)
  have r: "ir_entityConfigs ?r fedOrgBID = Some ec" "ir_subStatements ?r fedOrgBID = Some ss"
    "ir_trustAnchors ?r = [fedAnchorID \<mapsto> ec_Public anchor]" "ir_cache ?r fedOrgBID = None"
    by (simp_all add: fed_resolver_def RegisterSubordinateStatement_def RegisterEntityConfig_def NewInMemoryResolver_def)
  have "wire_ok L (statement_header L ''anchor-key'')
      (subordinate_payload fedAnchorID fedOrgBID (jwk_of (ec_Public orgB) ''orgb-key'') (24 * hour) (fst d4))"
    by (rule subordinate_wire [OF L(3) assms(3)]) (simp_all add: fedOrgBID_def fedAnchorID_def char_simps)
  then obtain e where e: "resolve_chain L ?r ck fedOrgBID = Inr e" "re_JWKS e = [jwk_of (ec_Public orgB) ''orgb-key'']"
    using resolve_built [OF L(1,2) assms(2) fed_configuration_built [OF L(3) assms(3,5,4)] assms(6) [unfolded fed_statement_def]
        _ _ _ r(1-3), of ck] assms(7-9) by simp
  have "ResolvedEntity_PublicKey e = Inr (ec_Public orgB)"
    using JWKToPublicKey_of_key [of "ec_Public orgB" "''orgb-key''"] assms(4) e(2) by (simp add: ResolvedEntity_PublicKey_def)
  then show thesis
    using that e(1) r(4) by (simp add: InMemoryResolver_Resolve_def)
qed

lemma fed_token_valid:
  assumes "jwt_laws L" "p256_key key"
    and "AgentIssuer_Issue L (NewAgentIssuer fedOrgBID orgB hour) (fed_token_options key) now jti rnd = Inr tok"
    and "now \<le> t" "t < jwt_numeric_date L (now + hour)"
  shows "\<exists>va. AgentValidator_Validate L (NewAgentValidator fedOrgBID (ec_Public orgB) []) t tok = Inr va \<and>
    rc_Subject (ac_reg (va_Claims va)) = fedOrgBSub \<and> rc_Issuer (ac_reg (va_Claims va)) = fedOrgBID"
    and "tok \<noteq> []"
proof -
  have token: "compact_jwt tok fedOrgBID"
    "AgentValidator_Validate L (NewAgentValidator fedOrgBID (ec_Public orgB) []) t tok = Inr
      \<lparr>va_Claims = issue_claims L (NewAgentIssuer fedOrgBID orgB hour) (fed_token_options key) (jwk_of key []) now jti,
       va_WorkloadKey = key\<rparr>"
    by (rule page_token [OF assms(1) _ _ assms(2) _ _ _ assms(3)];
        simp add: fed_token_options_def fedOrgBSub_def fedOrgBID_def RoleOrchestrator_def go_int_def char_simps assms(4,5))+
  then show "\<exists>va. AgentValidator_Validate L (NewAgentValidator fedOrgBID (ec_Public orgB) []) t tok = Inr va \<and>
    rc_Subject (ac_reg (va_Claims va)) = fedOrgBSub \<and> rc_Issuer (ac_reg (va_Claims va)) = fedOrgBID" "tok \<noteq> []"
    using compact_jwt_wf(1) by (auto simp: issue_claims_def fed_token_options_def NewAgentIssuer_def)
qed

definition fed_accepted :: "ec_public \<Rightarrow> fed_error demo_reply" where
  "fed_accepted orgB = okObj [(''subject'', JStr fedOrgBSub), (''issuer'', JStr fedOrgBID),
     (''resolvedViaChain'', JBool True), (''trustAnchor'', JStr fedAnchorID), (''resolvedKeyX'', JStr (encodeCoord (ec_X orgB)))]"

lemma issue_click:
  assumes "issueOrgBAgentToken L (Inr agent) d s = (r, s')" "is_OkObj r" "fd_OrgBIssuer s = Some i"
  obtains tok where "AgentIssuer_Issue L i (fed_token_options (ec_Public agent)) (dr_now d) (dr_jti d) (dr_rnd d) = Inr tok"
    "s' = s\<lparr>fd_OrgBToken := tok\<rparr>"
  using assms by (auto simp: issueOrgBAgentToken_def GenerateECKeyPair_def split: sum.splits)

lemma federated_walk_works:
  assumes laws: "jwt_laws L" "statement_text L" "whole_seconds L"
    and keys: "p256_key (ec_Public orgB)" "p256_key (ec_Public agent)"
    and run: "run_ops (fed_step L) [FSetup (Inr anchor) (Inr orgB) d3 d4, FIssue (Inr agent) d, FValidate ck now] s = ([r1, r2, r3], s')"
    and ok: "is_OkObj r1" "is_OkObj r2"
    and t: "list_all (go_int \<circ> unix) [fst d3, fst d3 + 24 * hour, fst d4, fst d4 + 24 * hour]"
      "\<forall>j. rk_hint ck j < second * unix (fst d4 + 24 * hour)" "rk_ec ck 0 < second * unix (fst d3 + 24 * hour)"
      "dr_now d \<le> now" "now < jwt_numeric_date L (dr_now d + hour)"
  shows "r3 = fed_accepted (ec_Public orgB) \<and> reply_field ''orgBKeyX'' r1 = Some (JStr (encodeCoord (ec_X (ec_Public orgB))))"
proof -
  obtain s1 s2 where steps: "setupFederation L (Inr anchor) (Inr orgB) d3 d4 s = (r1, s1)"
    "issueOrgBAgentToken L (Inr agent) d s1 = (r2, s2)" "validateFederatedToken L ck now s2 = (r3, s')"
    using run by (auto split: prod.splits)
  obtain ec ss where made: "fed_configuration L orgB d3 = Inr ec" "fed_statement L anchor (ec_Public orgB) d4 = Inr ss"
    "fd_OrgBIssuer s1 = Some (NewAgentIssuer fedOrgBID orgB hour)" "fd_Resolver s1 = Some (fed_resolver (ec_Public anchor) ec ss)"
    "r1 = setup_reply (ec_Public anchor) (ec_Public orgB) ec ss"
    using setup_click [OF steps(1) ok(1)] by blast
  obtain tok where tok: "AgentIssuer_Issue L (NewAgentIssuer fedOrgBID orgB hour) (fed_token_options (ec_Public agent))
      (dr_now d) (dr_jti d) (dr_rnd d) = Inr tok" "s2 = s1\<lparr>fd_OrgBToken := tok\<rparr>"
    using issue_click [OF steps(2) ok(2) made(3)] by blast
  obtain e r' where res: "InMemoryResolver_Resolve L ck fedOrgBID (fed_resolver (ec_Public anchor) ec ss) = (Inr e, r')"
    "ResolvedEntity_PublicKey e = Inr (ec_Public orgB)"
    using fed_chain_resolved [OF laws keys(1) made(1,2) t(1) t(2) [THEN spec] t(3)] by blast
  obtain va where va: "AgentValidator_Validate L (NewAgentValidator fedOrgBID (ec_Public orgB) []) now tok = Inr va"
    "rc_Subject (ac_reg (va_Claims va)) = fedOrgBSub" "rc_Issuer (ac_reg (va_Claims va)) = fedOrgBID" and ne: "tok \<noteq> []"
    using fed_token_valid [OF laws(1) keys(2) tok(1) t(4,5)] by blast
  have "r3 = fed_accepted (ec_Public orgB)"
    using steps(3) tok(2) made(4) res va ne keys(1)
    by (simp add: validateFederatedToken_def fed_accepted_def jwk_X_or_empty_def jwk_of_def)
  moreover have "reply_field ''orgBKeyX'' r1 = Some (JStr (encodeCoord (ec_X (ec_Public orgB))))"
    using made(5) ok(1) keys(1) by (auto simp: setup_reply_def jwk_of_def split: sum.splits)
  ultimately show ?thesis
    by blast
qed

section \<open>Closed instances\<close>

text \<open>Org B with key one, the anchor with key two, everything at time 0.\<close>

definition ex_fd_ec :: payload where
  "ex_fd_ec = entity_payload fedOrgBID (jwk_of (ec_Public key_one) ''orgb-key'') ''Org B Agent Platform'' [fedAnchorID] (24 * hour) 0"

definition ex_fd_ss :: payload where
  "ex_fd_ss = subordinate_payload fedAnchorID fedOrgBID (jwk_of (ec_Public key_one) ''orgb-key'') (24 * hour) 0"

definition ex_fd_agent :: payload where
  "ex_fd_agent = agent_payload (ledger_ext []) (issue_claims (ledger_ext []) (NewAgentIssuer fedOrgBID key_one hour)
     (fed_token_options (ec_Public key_two)) (jwk_of (ec_Public key_two) []) 0 [])"

definition ex_fd_token :: string where
  "ex_fd_token = ex_demo_text ''{\"iss\":\"https://idp.org-b.example\"}'' 3"

definition ex_fd_ledger :: "ledger_entry list" where
  "ex_fd_ledger = [
     \<lparr>le_text = claims_text ex_fd_ec 1, le_signer = key_one,
      le_token = \<lparr>tk_header = statement_header (ledger_ext []) ''orgb-key'', tk_payload = ex_fd_ec\<rparr>\<rparr>,
     \<lparr>le_text = claims_text ex_fd_ss 2, le_signer = key_two,
      le_token = \<lparr>tk_header = statement_header (ledger_ext []) ''anchor-key'', tk_payload = ex_fd_ss\<rparr>\<rparr>,
     \<lparr>le_text = ex_fd_token, le_signer = key_one,
      le_token = \<lparr>tk_header = issue_header (ledger_ext []) agentTokenType [], tk_payload = ex_fd_agent\<rparr>\<rparr>]"

definition ex_fd_lib :: ext where
  "ex_fd_lib = ledger_ext ex_fd_ledger"

lemma map_claims_fits:
  assumes "fits max_nesting (JObj (pl_priv pl))" "utf8 (rc_Issuer (pl_reg pl))" "utf8 (rc_Subject (pl_reg pl))"
    and "\<forall>t \<in> {rc_ExpiresAt (pl_reg pl), rc_IssuedAt (pl_reg pl)}. \<exists>k \<ge> 0. t = Some (second * k)"
  shows "fits max_nesting (JObj (map_claims pl))"
  unfolding map_claims_def
proof (rule fits_sorted)
  have "fits max_nesting (remarshal v)" if "fits max_nesting v" for v
    using that by (rule fits_remarshal)
  then show "fits max_nesting (JObj (omit_empty ''iss'' (rc_Issuer (pl_reg pl)) @ omit_empty ''sub'' (rc_Subject (pl_reg pl)) @
      date_member ''exp'' (rc_ExpiresAt (pl_reg pl)) @ date_member ''iat'' (rc_IssuedAt (pl_reg pl)) @
      map (\<lambda>(k, v). (k, remarshal v)) (pl_priv pl)))"
    using assms fits_remarshal by (auto simp: omit_empty_def date_member_def char_simps max_nesting_def split: option.splits)
qed

lemma ex_fd_fits: "fits max_nesting (JObj (map_claims ex_fd_ec))" "fits max_nesting (JObj (map_claims ex_fd_ss))"
proof -
  have "fits (max_nesting - 1) (jwks_json (jwk_of (ec_Public key_one) ''orgb-key''))"
    by (rule fits_jwks) (simp_all add: max_nesting_def char_simps)
  moreover have "\<exists>k \<ge> 0. Some (second * unix t) = Some (second * k)" if "0 \<le> t" for t
    using that by (auto simp: unix_def)
  ultimately show "fits max_nesting (JObj (map_claims ex_fd_ec))" "fits max_nesting (JObj (map_claims ex_fd_ss))"
    by (intro map_claims_fits; simp add: ex_fd_ec_def ex_fd_ss_def entity_payload_def subordinate_payload_def
        statement_claims_def no_claims_def entity_metadata_json_def fedOrgBID_def fedAnchorID_def max_nesting_def char_simps)+
qed

lemma ex_fd_iss: "str_field ''iss'' (map_claims ex_fd_ec) = Some fedOrgBID" "str_field ''iss'' (map_claims ex_fd_ss) = Some fedAnchorID"
proof -
  have "entity_configuration_of (map_claims ex_fd_ec) \<noteq> None" "subordinate_statement_of (map_claims ex_fd_ss) \<noteq> None"
    using entity_of_payload [of 0 "24 * hour" "[fedAnchorID]"] subordinate_of_payload [of 0 "24 * hour"]
    by (simp_all add: ex_fd_ec_def ex_fd_ss_def go_int_def unix_def)
  moreover have "entity_configuration_of (map_claims ex_fd_ec) = Some c \<Longrightarrow> en_Issuer c = fedOrgBID"
      "subordinate_statement_of (map_claims ex_fd_ss) = Some c' \<Longrightarrow> ss_Issuer c' = fedAnchorID" for c c'
    using entity_of_payload [of 0 "24 * hour" "[fedAnchorID]"] subordinate_of_payload [of 0 "24 * hour"]
    by (auto simp: ex_fd_ec_def ex_fd_ss_def go_int_def unix_def)
  ultimately show "str_field ''iss'' (map_claims ex_fd_ec) = Some fedOrgBID" "str_field ''iss'' (map_claims ex_fd_ss) = Some fedAnchorID"
    by (auto simp: entity_configuration_of_def subordinate_statement_of_def split: Option.bind_splits)
qed

lemma ex_fd_laws: "jwt_laws ex_fd_lib" "statement_text ex_fd_lib" "whole_seconds ex_fd_lib" "jwt_sound ex_fd_lib"
proof -
  have "json_parse ''{\"iss\":\"https://idp.org-b.example\"}'' = Some (JObj [(''iss'', JStr ''https://idp.org-b.example'')])"
    by (simp add: parse_text_simps)
  then have "compact_jwt ex_fd_token fedOrgBID"
    unfolding ex_fd_token_def by (rule ex_text_compact) (simp add: json_field_defs fedOrgBID_def)
  moreover have "compact_jwt (claims_text ex_fd_ec 1) fedOrgBID" "compact_jwt (claims_text ex_fd_ss 2) fedAnchorID"
    using ex_fd_fits ex_fd_iss by (auto intro: claims_text_compact)
  moreover have "distinct (map le_text ex_fd_ledger)"
    by (simp add: ex_fd_ledger_def claims_text_def ex_fd_token_def)
  moreover have "rc_Issuer (pl_reg ex_fd_ec) = fedOrgBID" "rc_Issuer (pl_reg ex_fd_ss) = fedAnchorID"
      "rc_Issuer (pl_reg ex_fd_agent) = fedOrgBID"
    by (simp_all add: ex_fd_ec_def ex_fd_ss_def ex_fd_agent_def entity_payload_def subordinate_payload_def
        statement_claims_def no_claims_def agent_payload_def issue_claims_def NewAgentIssuer_def)
  ultimately show "jwt_laws ex_fd_lib"
    unfolding ex_fd_lib_def by (intro ledger_jwt_laws) (simp_all add: ex_fd_ledger_def)
  show "statement_text ex_fd_lib"
    unfolding ex_fd_lib_def
    by (rule ledger_statement_text) (use ex_fd_fits in \<open>auto simp: ex_fd_ledger_def agentTokenType_def entityStatementTyp_def
        simp del: fits.simps\<close>)
  show "whole_seconds ex_fd_lib" "jwt_sound ex_fd_lib"
    unfolding ex_fd_lib_def by (rule ledger_whole_seconds, rule ledger_sound)
qed

lemma ex_fd_tokens: "distinct (map le_token ex_fd_ledger)"
proof -
  have "map_of (statement_header (ledger_ext []) kid) ''kid'' = Some (JStr kid)" for kid
    by (simp add: statement_header_def update_conv)
  then have "Some (JStr ''orgb-key'') = Some (JStr ''anchor-key'')"
    if "statement_header (ledger_ext []) ''orgb-key'' = statement_header (ledger_ext []) ''anchor-key''"
    using that by metis
  then have "statement_header (ledger_ext []) ''orgb-key'' \<noteq> statement_header (ledger_ext []) ''anchor-key''"
    by (intro notI) simp
  moreover have "statement_header (ledger_ext []) kid \<noteq> issue_header (ledger_ext []) agentTokenType []" for kid
  proof
    assume same: "statement_header (ledger_ext []) kid = issue_header (ledger_ext []) agentTokenType []"
    have "entityStatementTyp = agentTokenType"
      using header_str_statement(1) [of "ledger_ext []" kid] unfolding same by simp
    then show False
      by (simp add: agentTokenType_def entityStatementTyp_def)
  qed
  ultimately show ?thesis
    by (simp add: ex_fd_ledger_def)
qed

lemma ex_fd_sign:
  "jwt_sign ex_fd_lib rnd (statement_header (ledger_ext []) ''orgb-key'') ex_fd_ec key_one = Inr (claims_text ex_fd_ec 1)"
  "jwt_sign ex_fd_lib rnd (statement_header (ledger_ext []) ''anchor-key'') ex_fd_ss key_two = Inr (claims_text ex_fd_ss 2)"
  "jwt_sign ex_fd_lib rnd (issue_header (ledger_ext []) agentTokenType []) ex_fd_agent key_one = Inr ex_fd_token"
proof -
  have sign: "e \<in> set ex_fd_ledger \<Longrightarrow> le_token e = \<lparr>tk_header = h, tk_payload = pl\<rparr> \<Longrightarrow>
      jwt_sign ex_fd_lib rnd h pl (le_signer e) = Inr (le_text e)" for e h pl rnd
    unfolding ex_fd_lib_def by (rule ledger_sign [OF _ ex_fd_tokens])
  show "jwt_sign ex_fd_lib rnd (statement_header (ledger_ext []) ''orgb-key'') ex_fd_ec key_one = Inr (claims_text ex_fd_ec 1)"
    using sign [of "ex_fd_ledger ! 0"] by (simp add: ex_fd_ledger_def)
  show "jwt_sign ex_fd_lib rnd (statement_header (ledger_ext []) ''anchor-key'') ex_fd_ss key_two = Inr (claims_text ex_fd_ss 2)"
    using sign [of "ex_fd_ledger ! 1"] by (simp add: ex_fd_ledger_def)
  show "jwt_sign ex_fd_lib rnd (issue_header (ledger_ext []) agentTokenType []) ex_fd_agent key_one = Inr ex_fd_token"
    using sign [of "ex_fd_ledger ! 2"] by (simp add: ex_fd_ledger_def)
qed

definition ex_fd_draws :: draws where
  "ex_fd_draws = \<lparr>dr_now = 0, dr_jti = [], dr_rnd = []\<rparr>"

definition ex_fd_clicks :: "fed_click list" where
  "ex_fd_clicks = [FSetup (Inr key_two) (Inr key_one) (0, []) (0, []), FIssue (Inr key_two) ex_fd_draws, FValidate ex_clocks minute]"

lemma ex_fd_parts: "statement_header ex_fd_lib = statement_header (ledger_ext [])"
    "issue_header ex_fd_lib = issue_header (ledger_ext [])" "agent_payload ex_fd_lib = agent_payload (ledger_ext [])"
    "issue_claims ex_fd_lib = issue_claims (ledger_ext [])" "jwt_numeric_date ex_fd_lib = jwt_numeric_date (ledger_ext [])"
  by (simp_all add: fun_eq_iff statement_header_def issue_header_def agent_payload_def issue_claims_def ex_fd_lib_def
      ledger_parts [of ex_fd_ledger])

lemma ex_fd_run:
  "\<exists>r1 r2 s. run_ops (fed_step ex_fd_lib) (butlast ex_fd_clicks) fed_demo_init = ([r1, r2], s) \<and> is_OkObj r1 \<and> is_OkObj r2 \<and>
     fd_OrgBToken s = ex_fd_token"
proof -
  obtain r1 s1 where step1: "setupFederation ex_fd_lib (Inr key_two) (Inr key_one) (0, []) (0, []) fed_demo_init = (r1, s1)"
    by fastforce
  have built: "fed_configuration ex_fd_lib key_one (0, []) = Inr (claims_text ex_fd_ec 1)"
    "fed_statement ex_fd_lib key_two (ec_Public key_one) (0, []) = Inr (claims_text ex_fd_ss 2)"
    using ex_fd_sign by (simp_all add: fed_configuration_def fed_statement_def BuildEntityConfiguration_def
        BuildSubordinateStatement_def ex_fd_parts ex_fd_ec_def ex_fd_ss_def)
  then have s1: "is_OkObj r1" "fd_OrgBIssuer s1 = Some (NewAgentIssuer fedOrgBID key_one hour)"
    using step1 by (auto simp: setupFederation_def setup_reply_def)
  have "AgentIssuer_Issue ex_fd_lib (NewAgentIssuer fedOrgBID key_one hour) (fed_token_options (ec_Public key_two)) 0 [] [] = Inr ex_fd_token"
    unfolding AgentIssuer_Issue_ok
    by (intro exI [of _ "ec_Public key_two"] exI [of _ "jwk_of (ec_Public key_two) []"])
      (use ex_fd_sign(3) in \<open>simp add: fed_token_options_def fedOrgBSub_def RoleOrchestrator_def NewAgentIssuer_def ex_fd_parts ex_fd_agent_def\<close>)
  then have "\<exists>r2 s2. issueOrgBAgentToken ex_fd_lib (Inr key_two) ex_fd_draws s1 = (r2, s2) \<and> is_OkObj r2 \<and> fd_OrgBToken s2 = ex_fd_token"
    using s1(2) by (simp add: issueOrgBAgentToken_def GenerateECKeyPair_def ex_fd_draws_def)
  then show ?thesis
    using step1 s1(1) by (auto simp: ex_fd_clicks_def)
qed

lemma ex_fd_full_run:
  "\<exists>r1 r2 s r3 s'. run_ops (fed_step ex_fd_lib) (butlast ex_fd_clicks) fed_demo_init = ([r1, r2], s) \<and>
     fed_step ex_fd_lib (FValidate ex_clocks minute) s = (r3, s') \<and> fd_OrgBToken s = ex_fd_token \<and>
     run_ops (fed_step ex_fd_lib) ex_fd_clicks fed_demo_init = ([r1, r2, r3], s') \<and> is_OkObj r1 \<and> is_OkObj r2"
proof -
  obtain r1 r2 s where run: "run_ops (fed_step ex_fd_lib) (butlast ex_fd_clicks) fed_demo_init = ([r1, r2], s)"
    and ok: "is_OkObj r1" "is_OkObj r2" "fd_OrgBToken s = ex_fd_token"
    using ex_fd_run by blast
  obtain r3 s' where last_step: "fed_step ex_fd_lib (FValidate ex_clocks minute) s = (r3, s')"
    by fastforce
  have "run_ops (fed_step ex_fd_lib) ex_fd_clicks fed_demo_init = ([r1, r2, r3], s')"
    using run last_step by (auto simp: ex_fd_clicks_def split: prod.splits)
  then show ?thesis
    using run ok last_step by blast
qed

lemma ex_fd_conditions:
  "list_all (go_int \<circ> unix) [fst (0, []), fst (0, []) + 24 * hour, fst (0, []), fst (0, []) + 24 * hour]"
  "\<forall>j. rk_hint ex_clocks j < second * unix (fst (0, []) + 24 * hour)" "rk_ec ex_clocks 0 < second * unix (fst (0, []) + 24 * hour)"
  "dr_now ex_fd_draws \<le> minute" "minute < jwt_numeric_date ex_fd_lib (dr_now ex_fd_draws + hour)"
  by (simp_all add: ex_clocks_def unix_def go_int_def ex_fd_draws_def ex_fd_parts) (simp add: ledger_ext_def)

section \<open>Properties\<close>

text \<open>Federated tokens.  After any history of clicks, a token that the page accepts as federated was
  signed with a key that the trust anchor certified for the other organisation in a statement of the
  right type, its issuer is that organisation, and the key shown is that key.\<close>

theorem federated_token_certified:
  assumes "jwt_sound L" "run_ops (fed_step L) clicks fed_demo_init = (replies, s)"
    and "fed_step L (FValidate ck now) s = (OkObj ob, s')"
  shows "\<exists>anchor jwks pub. certified L [fedAnchorID \<mapsto> anchor] fedOrgBID jwks \<and>
    (\<exists>j \<in> set jwks. JWKToPublicKey j = Inr pub) \<and> jwt_sig_ok L pub (fd_OrgBToken s) \<and>
    map_of ob ''issuer'' = Some (JStr fedOrgBID) \<and> map_of ob ''resolvedKeyX'' = Some (JStr (encodeCoord (ec_X pub)))"
proof -
  have "fed_inv L s"
    using fed_sys.history_inv [OF assms(2) _ fed_init_inv] by (simp add: list_all_iff)
  then show ?thesis
    using federated_accepted [OF assms(1)] assms(3) by simp
qed

theorem federated_token_certified_witness:
  "\<exists>anchor jwks pub. certified ex_fd_lib [fedAnchorID \<mapsto> anchor] fedOrgBID jwks \<and> jwt_sig_ok ex_fd_lib pub ex_fd_token"
proof -
  obtain r1 r2 s r3 s' where run: "run_ops (fed_step ex_fd_lib) (butlast ex_fd_clicks) fed_demo_init = ([r1, r2], s)"
    and valid: "fed_step ex_fd_lib (FValidate ex_clocks minute) s = (r3, s')" and tok: "fd_OrgBToken s = ex_fd_token"
    and full: "run_ops (fed_step ex_fd_lib) ex_fd_clicks fed_demo_init = ([r1, r2, r3], s')" "is_OkObj r1" "is_OkObj r2"
    using ex_fd_full_run by blast
  have "r3 = fed_accepted (ec_Public key_one)"
    using federated_walk_works [OF ex_fd_laws(1-3) p256_key_one p256_key_two full(1) [unfolded ex_fd_clicks_def] full(2,3)
        ex_fd_conditions] by blast
  then obtain ob where "r3 = OkObj ob"
    by (simp add: fed_accepted_def okObj_def)
  then show ?thesis
    using federated_token_certified [OF ex_fd_laws(4) run, of ex_clocks minute ob s'] valid tok by auto
qed

text \<open>C16: A federated agent works.  In any state of the page, when a federation is set up and the other
  organisation issues an AgentToken, the token is accepted while token and statements are valid: for
  the agent and the issuer it was issued for, under the key that the set-up showed for the
  organisation, which the page found only through the anchor's statement.\<close>

theorem federated_agent_accepted:
  assumes "jwt_laws L" "statement_text L" "whole_seconds L"
    and "p256_key (ec_Public orgB)" "p256_key (ec_Public agent)"
    and "run_ops (fed_step L) [FSetup (Inr anchor) (Inr orgB) d3 d4, FIssue (Inr agent) d, FValidate ck now] s = ([r1, r2, r3], s')"
    and "is_OkObj r1" "is_OkObj r2"
    and "list_all (go_int \<circ> unix) [fst d3, fst d3 + 24 * hour, fst d4, fst d4 + 24 * hour]"
    and "\<forall>j. rk_hint ck j < second * unix (fst d4 + 24 * hour)" "rk_ec ck 0 < second * unix (fst d3 + 24 * hour)"
    and "dr_now d \<le> now" "now < jwt_numeric_date L (dr_now d + hour)"
  shows "r3 = fed_accepted (ec_Public orgB) \<and> reply_field ''orgBKeyX'' r1 = Some (JStr (encodeCoord (ec_X (ec_Public orgB))))"
  by (rule federated_walk_works [OF assms])

theorem federated_agent_accepted_witness:
  "\<exists>r1 r2 s. run_ops (fed_step ex_fd_lib) ex_fd_clicks fed_demo_init = ([r1, r2, fed_accepted (ec_Public key_one)], s)"
proof -
  obtain r1 r2 r3 s where run: "run_ops (fed_step ex_fd_lib) ex_fd_clicks fed_demo_init = ([r1, r2, r3], s)" "is_OkObj r1" "is_OkObj r2"
    using ex_fd_full_run by blast
  have "r3 = fed_accepted (ec_Public key_one) \<and> reply_field ''orgBKeyX'' r1 = Some (JStr (encodeCoord (ec_X (ec_Public key_one))))"
    by (rule federated_agent_accepted [OF ex_fd_laws(1-3) p256_key_one p256_key_two run(1) [unfolded ex_fd_clicks_def] run(2,3)
          ex_fd_conditions])
  then show ?thesis
    using run(1) by blast
qed

end
