(* ===== verification/DemoBinding.thy ===== *)
theory DemoBinding
  imports DemoChain DemoBroker Mtls Gateway
begin

text \<open>
  The browser demo, what binds a token (\<open>cmd/demo-wasm/main.go\<close>, \<open>simulateMTLSBinding\<close> and
  \<open>simulateCredentialBroker\<close>): a stolen token presented with another certificate, and one agent's
  action as an identity chain and as a request to the broker.  Both functions use the issuer and the
  validator of the chain page and change nothing.
\<close>

section \<open>Mutual TLS\<close>

datatype binding_error = BindSetupFirst | BindPanic | BindCA cert_error | BindLegitKey key_error | BindLegitCert cert_error
  | BindLegitToken issue_error | BindAttackerKey key_error | BindAttackerCert cert_error
  | SimAgentKey key_error | SimToken issue_error | SimProof generate_error

definition legitSub :: string where "legitSub = ''spiffe://agents.example/agent/orchestrator''"
definition attackerSub :: string where "attackerSub = ''spiffe://agents.example/agent/attacker''"

text \<open>What one run draws and reads from the clock.\<close>

record binding_draws =
  bi_ca :: cert_draws
  bi_legitKey :: "string + ec_private"
  bi_legitCert :: cert_draws
  bi_token :: draws
  bi_validate :: time
  bi_attackerKey :: "string + ec_private"
  bi_attackerCert :: cert_draws

definition root_options :: "string \<Rightarrow> ec_public \<Rightarrow> IssueOptions" where
  "root_options sub pub = \<lparr>io_Subject = sub, io_Audiences = [], io_TrustDomain = [], io_Role = RoleOrchestrator,
     io_ChainDepth = 0, io_KeyID = [], io_WorkloadKey = Some pub, io_Mission = []\<rparr>"

definition first_san :: "WorkloadCert \<Rightarrow> string" where
  "first_san c = (case crt_URIs (wc_Cert c) of [] \<Rightarrow> [] | u # _ \<Rightarrow> u)"

text \<open>The reply; \<open>quote\<close> is the verb \<open>%q\<close>.\<close>

definition binding_reply :: "(string \<Rightarrow> string) \<Rightarrow> string \<Rightarrow> string \<Rightarrow> string \<Rightarrow> binding_error demo_reply" where
  "binding_reply quote legitSAN legitTokenSub attackerSAN =
     (let legitMatch = (legitSAN = legitTokenSub); attackMatch = (attackerSAN = legitTokenSub) in
      okObj [(''trustDomain'', JStr ''agents.example''), (''legitSAN'', JStr legitSAN), (''legitSub'', JStr legitTokenSub),
        (''legitMatch'', JBool legitMatch), (''legitResult'', JStr (if legitMatch then ''ALLOWED'' else ''REJECTED'')),
        (''attackerSAN'', JStr attackerSAN), (''stolenSub'', JStr legitTokenSub), (''attackMatch'', JBool attackMatch),
        (''attackResult'', JStr (if attackMatch then ''ALLOWED (bug if true)''
           else ''REJECTED: cert SAN '' @ quote attackerSAN @ '' != token sub '' @ quote legitTokenSub))])"

definition simulateMTLSBinding :: "ext \<Rightarrow> x509_lib \<Rightarrow> (string \<Rightarrow> string) \<Rightarrow> binding_draws \<Rightarrow> chain_demo \<Rightarrow> binding_error demo_reply" where
  "simulateMTLSBinding L X quote d s = (case dm_issuer s of
     None \<Rightarrow> errObj BindSetupFirst
   | Some issuer \<Rightarrow> (case GenerateCA X (bi_ca d) ''agents.example'' of
       Inl e \<Rightarrow> errObj (BindCA e)
     | Inr ca \<Rightarrow> (case GenerateECKeyPair (bi_legitKey d) of
         Inl e \<Rightarrow> errObj (BindLegitKey e)
       | Inr legitKP \<Rightarrow> (case IssueAgentCert X (bi_legitCert d) ca legitSub (kp_Public legitKP) None of
           Inl e \<Rightarrow> errObj (BindLegitCert e)
         | Inr legitCert \<Rightarrow>
             (case AgentIssuer_Issue L issuer (root_options legitSub (kp_Public legitKP))
                 (dr_now (bi_token d)) (dr_jti (bi_token d)) (dr_rnd (bi_token d)) of
                Inl e \<Rightarrow> errObj (BindLegitToken e)
              | Inr legitTok \<Rightarrow> (case dm_validator s of
                  None \<Rightarrow> errObj BindPanic
                | Some v \<Rightarrow>
                    let legitTokenSub = (case AgentValidator_Validate L v (bi_validate d) legitTok of
                          Inl _ \<Rightarrow> ''unknown'' | Inr va \<Rightarrow> rc_Subject (ac_reg (va_Claims va)))
                    in (case GenerateECKeyPair (bi_attackerKey d) of
                      Inl e \<Rightarrow> errObj (BindAttackerKey e)
                    | Inr attackerKP \<Rightarrow>
                        (case IssueAgentCert X (bi_attackerCert d) ca attackerSub (kp_Public attackerKP) None of
                           Inl e \<Rightarrow> errObj (BindAttackerCert e)
                         | Inr attackerCert \<Rightarrow>
                             binding_reply quote (first_san legitCert) legitTokenSub (first_san attackerCert)))))))))"

section \<open>The two views of an action\<close>

definition billingAgent :: string where "billingAgent = ''spiffe://enterprise.example/agent/billing-agent''"
definition billingTarget :: string where "billingTarget = ''https://tool-server.example/api/billing''"

text \<open>\<open>json.MarshalIndent\<close> of the envelope with two spaces: one member a line, sorted by key.  No text in
  it has a character that JSON escapes.\<close>

definition indented_object :: "(string \<times> string) list \<Rightarrow> string" where
  "indented_object ms = ''{'' @ newline # join_with ('','' @ [newline])
     (map (\<lambda>(k, v). ''  \"'' @ k @ ''\": '' @ v) ms) @ newline # ''}''"

definition quoted :: "string \<Rightarrow> string" where
  "quoted s = ''\"'' @ s @ ''\"''"

definition simulated_envelope :: "string \<Rightarrow> string" where
  "simulated_envelope chainHash = indented_object [(''action'', quoted ''read''), (''agent_svid'', quoted billingAgent),
     (''justification'', quoted ''Monthly report (evidence only, excluded from authz)''),
     (''request_id'', quoted (''req-'' @ take 12 chainHash)), (''scope'', quoted ''billing:invoices:read''),
     (''target'', quoted ''https://billing-api.vendor.example/v2/invoices''), (''ttl_seconds'', itoa 300)]"

definition simulateCredentialBroker :: "ext \<Rightarrow> string + ec_private \<Rightarrow> draws \<Rightarrow> draws \<Rightarrow> chain_demo \<Rightarrow> binding_error demo_reply" where
  "simulateCredentialBroker L draw d1 d2 s = (case dm_issuer s of
     None \<Rightarrow> errObj BindSetupFirst
   | Some issuer \<Rightarrow> (case GenerateECKeyPair draw of
       Inl e \<Rightarrow> errObj (SimAgentKey e)
     | Inr agentKP \<Rightarrow>
         (case AgentIssuer_Issue L issuer (root_options billingAgent (kp_Public agentKP)) (dr_now d1) (dr_jti d1) (dr_rnd d1) of
            Inl e \<Rightarrow> errObj (SimToken e)
          | Inr wTok \<Rightarrow>
              (case GenerateProof L \<lparr>pg_TargetURI = billingTarget, pg_Chain = [wTok], pg_WorkloadKey = Some (kp_Private agentKP),
                  pg_TTL = 0, pg_TxnToken = []\<rparr> (dr_now d2) (dr_jti d2) (dr_rnd d2) of
                 Inl e \<Rightarrow> errObj (SimProof e)
               | Inr wProof \<Rightarrow>
                   let chainHash = AgentChain_Hash [wTok] in
                   if length chainHash < 12 then errObj BindPanic
                   else okObj [(''wimseSub'', JStr billingAgent), (''wimseTarget'', JStr billingTarget),
                     (''wimseChainHash'', JStr chainHash), (''wimseToken'', JStr (js_truncate wTok)),
                     (''wimseProof'', JStr (js_truncate wProof)), (''cb4aEnvelope'', JStr (simulated_envelope chainHash)),
                     (''cb4aDecision'', JStr ''Tier 1 (auto-approved: scope within baseline)''),
                     (''cb4aTokenType'', JStr ''OAuth 2.0 bearer (RFC 8693 token exchange)''),
                     (''cb4aTokenScope'', JStr ''billing:invoices:read''),
                     (''cb4aTokenTTL'', JStr ''300s, non-renewable''),
                     (''cb4aDPoP'', JStr ''bound to ephemeral key (RFC 9449)'')]))))"

section \<open>Lemmas\<close>

text \<open>A certificate of an authority carries one URI, so that the page's comparison with the first and
  the gateway's search among all of them agree.\<close>

lemma first_san_issued:
  assumes "x509_faithful X" "IssueAgentCert X d ca uri pub opts = Inr wc"
  shows "\<exists>scheme. url_Parse X uri = Some (scheme, first_san wc)" "crt_URIs (wc_Cert wc) = [first_san wc]"
  using issued_uri(1) [OF assms] by (auto simp: first_san_def)

lemma first_san_gateway:
  assumes "x509_faithful X" "IssueAgentCert X d ca uri pub opts = Inr wc" "hq_TLS r = Some (crt_URIs (wc_Cert wc) # cs)"
  shows "first_san wc = sub \<longleftrightarrow> verifyMTLSBinding r sub = None"
  using assms(3) by (auto simp: verifyMTLSBinding_def first_san_issued(2) [OF assms(1,2)])

lemma root_token:
  assumes "jwt_laws L" "p256_key key" "utf8 sub"
    and "AgentIssuer_Issue L (NewAgentIssuer demoIssuerID idp hour) (root_options sub key) now jti rnd = Inr tok"
    and "now \<le> t" "t < jwt_numeric_date L (now + hour)"
  shows "\<exists>va. AgentValidator_Validate L (NewAgentValidator demoIssuerID (ec_Public idp) []) t tok = Inr va \<and>
    rc_Subject (ac_reg (va_Claims va)) = sub"
proof -
  have "AgentValidator_Validate L (NewAgentValidator demoIssuerID (ec_Public idp) []) t tok = Inr
      \<lparr>va_Claims = issue_claims L (NewAgentIssuer demoIssuerID idp hour) (root_options sub key) (jwk_of key []) now jti,
       va_WorkloadKey = key\<rparr>"
    by (rule page_token(2) [OF assms(1) _ _ assms(2) _ _ _ assms(4-6)])
      (simp_all add: root_options_def demoIssuerID_def RoleOrchestrator_def go_int_def char_simps assms(3))
  then show ?thesis
    by (simp add: issue_claims_def root_options_def)
qed

text \<open>What a run that ends in an answer has drawn and issued.\<close>

lemma binding_click:
  assumes "chain_demo_inv s" "is_OkObj (simulateMTLSBinding L X quote d s)" "bi_legitKey d = Inr k"
  obtains i ca and k' :: ec_private and tok c c' where "dm_validator s = Some (NewAgentValidator demoIssuerID (ec_Public i) [])"
    "AgentIssuer_Issue L (NewAgentIssuer demoIssuerID i hour) (root_options legitSub (ec_Public k))
       (dr_now (bi_token d)) (dr_jti (bi_token d)) (dr_rnd (bi_token d)) = Inr tok"
    "IssueAgentCert X (bi_legitCert d) ca legitSub (ec_Public k) None = Inr c"
    "IssueAgentCert X (bi_attackerCert d) ca attackerSub (ec_Public k') None = Inr c'"
    "simulateMTLSBinding L X quote d s = binding_reply quote (first_san c)
       (case AgentValidator_Validate L (NewAgentValidator demoIssuerID (ec_Public i) []) (bi_validate d) tok of
          Inl _ \<Rightarrow> ''unknown'' | Inr va \<Rightarrow> rc_Subject (ac_reg (va_Claims va))) (first_san c')"
proof -
  obtain i where i: "dm_issuer s = Some (NewAgentIssuer demoIssuerID i hour)"
    "dm_validator s = Some (NewAgentValidator demoIssuerID (ec_Public i) [])"
    using assms by (auto simp: simulateMTLSBinding_def chain_demo_inv_def split: option.splits)
  obtain ca where ca: "GenerateCA X (bi_ca d) ''agents.example'' = Inr ca"
    using assms(2) i by (auto simp: simulateMTLSBinding_def split: sum.splits)
  obtain c where c: "IssueAgentCert X (bi_legitCert d) ca legitSub (ec_Public k) None = Inr c"
    using assms(2) i ca assms(3) by (auto simp: simulateMTLSBinding_def GenerateECKeyPair_def split: sum.splits)
  obtain tok where tok: "AgentIssuer_Issue L (NewAgentIssuer demoIssuerID i hour) (root_options legitSub (ec_Public k))
       (dr_now (bi_token d)) (dr_jti (bi_token d)) (dr_rnd (bi_token d)) = Inr tok"
    using assms(2) i ca assms(3) c by (auto simp: simulateMTLSBinding_def GenerateECKeyPair_def split: sum.splits)
  obtain k' where k': "bi_attackerKey d = Inr k'"
    using assms(2) i ca assms(3) c tok
    by (cases "bi_attackerKey d") (simp_all add: simulateMTLSBinding_def GenerateECKeyPair_def)
  obtain c' where c': "IssueAgentCert X (bi_attackerCert d) ca attackerSub (ec_Public k') None = Inr c'"
    using assms(2) i ca assms(3) c tok k'
    by (cases "IssueAgentCert X (bi_attackerCert d) ca attackerSub (ec_Public k') None")
      (simp_all add: simulateMTLSBinding_def GenerateECKeyPair_def)
  show thesis
    using that [OF i(2) tok c c'] i ca assms(3) c tok k' c' by (simp add: simulateMTLSBinding_def GenerateECKeyPair_def)
qed

lemma binding_works:
  assumes "jwt_laws L" "x509_faithful X" "chain_demo_inv s" "is_OkObj (simulateMTLSBinding L X quote d s)"
    and "bi_legitKey d = Inr k" "p256_key (ec_Public k)"
    and "url_Parse X legitSub = Some (sch, legitSub)" "url_Parse X attackerSub = Some (sch', attackerSub)"
    and "demo_fresh L (bi_token d) (bi_validate d)"
  shows "simulateMTLSBinding L X quote d s = binding_reply quote legitSub legitSub attackerSub"
proof -
  obtain i ca and k' :: ec_private and tok c c' where run: "AgentIssuer_Issue L (NewAgentIssuer demoIssuerID i hour) (root_options legitSub (ec_Public k))
       (dr_now (bi_token d)) (dr_jti (bi_token d)) (dr_rnd (bi_token d)) = Inr tok"
    and certs: "IssueAgentCert X (bi_legitCert d) ca legitSub (ec_Public k) None = Inr c"
      "IssueAgentCert X (bi_attackerCert d) ca attackerSub (ec_Public k') None = Inr c'"
    and reply: "simulateMTLSBinding L X quote d s = binding_reply quote (first_san c)
       (case AgentValidator_Validate L (NewAgentValidator demoIssuerID (ec_Public i) []) (bi_validate d) tok of
          Inl _ \<Rightarrow> ''unknown'' | Inr va \<Rightarrow> rc_Subject (ac_reg (va_Claims va))) (first_san c')"
    by (rule binding_click [OF assms(3,4,5)])
  have sans: "first_san c = legitSub" "first_san c' = attackerSub"
    using first_san_issued(1) [OF assms(2) certs(1)] first_san_issued(1) [OF assms(2) certs(2)] assms(7,8) by auto
  have "utf8 legitSub"
    by (simp add: legitSub_def char_simps)
  from root_token [OF assms(1,6) this run] obtain va where
    "AgentValidator_Validate L (NewAgentValidator demoIssuerID (ec_Public i) []) (bi_validate d) tok = Inr va"
    "rc_Subject (ac_reg (va_Claims va)) = legitSub"
    using assms(9) unfolding demo_fresh_def by blast
  then show ?thesis
    unfolding reply sans by simp
qed

lemma broker_simulation_ids:
  "simulateCredentialBroker L draw d1 d2 s \<noteq> errObj BindPanic"
  by (auto simp: simulateCredentialBroker_def Let_def AgentChain_Hash_def b64_sha256_def length_b64_encode
      split: option.split sum.split)

section \<open>Closed instances\<close>

text \<open>Everything at time 0: the page's issuer has key one, agent and attacker have key two.\<close>

definition ex_bi_draws :: binding_draws where
  "ex_bi_draws = \<lparr>bi_ca = ex_ca_draws, bi_legitKey = Inr key_two, bi_legitCert = ex_cert_draws,
     bi_token = ex_demo_draw (CHR ''a''), bi_validate = minute, bi_attackerKey = Inr key_two, bi_attackerCert = ex_cert_draws\<rparr>"

definition ex_bi_ca_tmpl :: x509_cert where
  "ex_bi_ca_tmpl = ca_template ''agents.example'' 1 ex_ca_draws"

definition ex_bi_ca_cert :: x509_cert where
  "ex_bi_ca_cert = Mtls.certified ex_bi_ca_tmpl ex_bi_ca_tmpl (ec_Public key_one)"

definition ex_bi_tmpl :: "string \<Rightarrow> x509_cert" where
  "ex_bi_tmpl sub = agent_template sub sub 2 ex_cert_draws None"

definition ex_bi_x509 :: x509_lib where
  "ex_bi_x509 = table_x509
     [(ex_bi_ca_tmpl, ex_bi_ca_tmpl, ec_Public key_one, key_one, ''ca''),
      (ex_bi_tmpl legitSub, ex_bi_ca_cert, ec_Public key_two, key_one, ''legit''),
      (ex_bi_tmpl attackerSub, ex_bi_ca_cert, ec_Public key_two, key_one, ''attacker'')] []"

definition ex_bi_lib :: ext where
  "ex_bi_lib = ledger_ext [ex_demo_entry (root_options legitSub (ec_Public key_two)) (CHR ''a'') 1]"

definition ex_bi_state :: chain_demo where
  "ex_bi_state = snd (demo_setup (Inr key_one) (Inr key_two) (Inr key_two) chain_demo_init)"

lemma ex_bi_laws: "jwt_laws ex_bi_lib" "x509_faithful ex_bi_x509"
proof -
  show "jwt_laws ex_bi_lib"
    unfolding ex_bi_lib_def
    by (rule ledger_jwt_laws) (simp_all add: ex_demo_entry_def agent_payload_def issue_claims_def NewAgentIssuer_def ex_demo_compact)
  show "x509_faithful ex_bi_x509"
    unfolding ex_bi_x509_def by (rule table_laws) simp_all
qed

lemma ex_bi_url: "url_Parse ex_bi_x509 legitSub = Some (''spiffe'', legitSub)"
  "url_Parse ex_bi_x509 attackerSub = Some (''spiffe'', attackerSub)"
  by (simp_all add: ex_bi_x509_def table_x509_def legitSub_def attackerSub_def numeral_2_eq_2)

lemma ex_bi_Issue:
  "\<exists>tok. AgentIssuer_Issue ex_bi_lib (NewAgentIssuer demoIssuerID key_one hour) (root_options legitSub (ec_Public key_two))
     0 (replicate 16 (CHR ''a'')) [] = Inr tok"
proof -
  have "jwt_sign ex_bi_lib [] (issue_header (ledger_ext []) agentTokenType [])
      (agent_payload (ledger_ext []) (issue_claims (ledger_ext []) (NewAgentIssuer demoIssuerID key_one hour)
         (root_options legitSub (ec_Public key_two)) (jwk_of (ec_Public key_two) []) 0 (replicate 16 (CHR ''a'')))) key_one
      = Inr (le_text (ex_demo_entry (root_options legitSub (ec_Public key_two)) (CHR ''a'') 1))"
    unfolding ex_bi_lib_def
    using ledger_sign [of "ex_demo_entry (root_options legitSub (ec_Public key_two)) (CHR ''a'') 1"
        "[ex_demo_entry (root_options legitSub (ec_Public key_two)) (CHR ''a'') 1]"]
    by (simp add: ex_demo_entry_def)
  moreover have "issue_header ex_bi_lib = issue_header (ledger_ext [])" "agent_payload ex_bi_lib = agent_payload (ledger_ext [])"
    "issue_claims ex_bi_lib = issue_claims (ledger_ext [])"
    unfolding ex_bi_lib_def by (rule ledger_agent)+
  ultimately show ?thesis
    by (auto simp: AgentIssuer_Issue_ok NewAgentIssuer_def root_options_def legitSub_def RoleOrchestrator_def)
qed

lemma ex_bi_certs:
  "\<exists>pem. GenerateCA ex_bi_x509 ex_ca_draws ''agents.example'' = Inr \<lparr>ca_Cert = ex_bi_ca_cert, ca_Key = key_one, ca_CertPEM = pem\<rparr>"
  "sub \<in> {legitSub, attackerSub} \<Longrightarrow> ca_Cert ca = ex_bi_ca_cert \<Longrightarrow> ca_Key ca = key_one \<Longrightarrow>
     \<exists>c. IssueAgentCert ex_bi_x509 ex_cert_draws ca sub (ec_Public key_two) None = Inr c"
proof -
  have tmpl: "ex_bi_tmpl legitSub \<noteq> ex_bi_tmpl attackerSub" "ex_bi_ca_tmpl \<noteq> ex_bi_tmpl sub" for sub
    by (simp_all add: ex_bi_tmpl_def ex_bi_ca_tmpl_def agent_template_def ca_template_def legitSub_def attackerSub_def)
  have "x509_CreateCertificate ex_bi_x509 [] ex_bi_ca_tmpl ex_bi_ca_tmpl (ec_Public key_one) key_one = Inr ''ca''"
    "x509_ParseCertificate ex_bi_x509 ''ca'' = Inr ex_bi_ca_cert"
    by (simp_all add: ex_bi_x509_def table_x509_def ex_bi_ca_cert_def)
  then show "\<exists>pem. GenerateCA ex_bi_x509 ex_ca_draws ''agents.example'' = Inr \<lparr>ca_Cert = ex_bi_ca_cert, ca_Key = key_one, ca_CertPEM = pem\<rparr>"
    unfolding GenerateCA_ok by (auto simp: ex_ca_draws_def ex_bi_ca_tmpl_def)
  have created: "\<exists>der cert. x509_CreateCertificate ex_bi_x509 [] (ex_bi_tmpl sub) ex_bi_ca_cert (ec_Public key_two) key_one = Inr der \<and>
      x509_ParseCertificate ex_bi_x509 der = Inr cert" if "sub \<in> {legitSub, attackerSub}" for sub
    using that tmpl by (auto simp: ex_bi_x509_def table_x509_def)
  show "\<exists>c. IssueAgentCert ex_bi_x509 ex_cert_draws ca sub (ec_Public key_two) None = Inr c"
    if sub: "sub \<in> {legitSub, attackerSub}" and ca: "ca_Cert ca = ex_bi_ca_cert" "ca_Key ca = key_one"
  proof -
    obtain der cert where "x509_CreateCertificate ex_bi_x509 [] (ex_bi_tmpl sub) ex_bi_ca_cert (ec_Public key_two) key_one = Inr der"
      "x509_ParseCertificate ex_bi_x509 der = Inr cert"
      using created [OF sub] by blast
    moreover have "cd_serial ex_cert_draws = Inr 2" "cd_sign ex_cert_draws = []"
      by (simp_all add: ex_cert_draws_def)
    moreover have "url_Parse ex_bi_x509 sub = Some (''spiffe'', sub)"
      using sub ex_bi_url by (elim insertE emptyE) simp_all
    ultimately show ?thesis
      using ca by (simp add: IssueAgentCert_def ex_bi_tmpl_def)
  qed
qed

lemma ex_bi_run: "is_OkObj (simulateMTLSBinding ex_bi_lib ex_bi_x509 quote ex_bi_draws ex_bi_state)"
proof -
  obtain pem where ca: "GenerateCA ex_bi_x509 ex_ca_draws ''agents.example'' = Inr \<lparr>ca_Cert = ex_bi_ca_cert, ca_Key = key_one, ca_CertPEM = pem\<rparr>"
    using ex_bi_certs(1) by blast
  obtain tok where tok: "AgentIssuer_Issue ex_bi_lib (NewAgentIssuer demoIssuerID key_one hour) (root_options legitSub (ec_Public key_two))
     0 (replicate 16 (CHR ''a'')) [] = Inr tok"
    using ex_bi_Issue by blast
  obtain c c' where "IssueAgentCert ex_bi_x509 ex_cert_draws \<lparr>ca_Cert = ex_bi_ca_cert, ca_Key = key_one, ca_CertPEM = pem\<rparr>
      legitSub (ec_Public key_two) None = Inr c" "IssueAgentCert ex_bi_x509 ex_cert_draws
      \<lparr>ca_Cert = ex_bi_ca_cert, ca_Key = key_one, ca_CertPEM = pem\<rparr> attackerSub (ec_Public key_two) None = Inr c'"
    using ex_bi_certs(2) by fastforce
  with ca tok show ?thesis
    by (simp add: simulateMTLSBinding_def ex_bi_draws_def ex_demo_draw_def ex_bi_state_def demo_setup_def GenerateECKeyPair_def
        binding_reply_def Let_def)
qed

section \<open>Properties\<close>

text \<open>A stolen token is useless without its certificate.  After any history of the chain page, a run
  of the demo that answers at all shows the legitimate agent allowed and the attacker, whose
  certificate the same authority issued, rejected with both names; and the page's comparison is the
  gateway's: for every certificate that an authority issues, its first name equals a subject exactly
  when the gateway's check of that subject passes.\<close>

theorem stolen_token_rejected:
  assumes "jwt_laws L" "x509_faithful X" "run_ops (chain_demo_step L proofText tokenText) clicks chain_demo_init = (replies, s)"
    and "is_OkObj (simulateMTLSBinding L X quote d s)" "bi_legitKey d = Inr k" "p256_key (ec_Public k)"
    and "url_Parse X legitSub = Some (sch, legitSub)" "url_Parse X attackerSub = Some (sch', attackerSub)"
    and "demo_fresh L (bi_token d) (bi_validate d)"
  shows "reply_field ''legitResult'' (simulateMTLSBinding L X quote d s) = Some (JStr ''ALLOWED'') \<and>
    reply_field ''attackResult'' (simulateMTLSBinding L X quote d s) = Some (JStr (''REJECTED: cert SAN ''
      @ quote ''spiffe://agents.example/agent/attacker'' @ '' != token sub '' @ quote ''spiffe://agents.example/agent/orchestrator'')) \<and>
    (\<forall>dc ca uri pub opts wc r cs sub. IssueAgentCert X dc ca uri pub opts = Inr wc \<and> hq_TLS r = Some (crt_URIs (wc_Cert wc) # cs) \<longrightarrow>
       (first_san wc = sub \<longleftrightarrow> verifyMTLSBinding r sub = None))"
proof -
  have "chain_demo_inv s"
    using chain_sys.history_inv [OF assms(3) _ chain_demo_init_inv] by (simp add: list_all_iff)
  then have "simulateMTLSBinding L X quote d s = binding_reply quote legitSub legitSub attackerSub"
    using binding_works assms by blast
  then have shown: "reply_field ''legitResult'' (simulateMTLSBinding L X quote d s) = Some (JStr ''ALLOWED'')"
    "reply_field ''attackResult'' (simulateMTLSBinding L X quote d s) = Some (JStr (''REJECTED: cert SAN ''
      @ quote ''spiffe://agents.example/agent/attacker'' @ '' != token sub '' @ quote ''spiffe://agents.example/agent/orchestrator''))"
    by (simp_all add: binding_reply_def legitSub_def attackerSub_def)
  have "\<forall>dc ca uri pub opts wc r cs sub. IssueAgentCert X dc ca uri pub opts = Inr wc \<and> hq_TLS r = Some (crt_URIs (wc_Cert wc) # cs) \<longrightarrow>
       (first_san wc = sub \<longleftrightarrow> verifyMTLSBinding r sub = None)"
    by (intro allI impI, elim conjE, rule first_san_gateway [OF assms(2)])
  then show ?thesis
    by (rule conjI [OF shown(1) conjI [OF shown(2)]])
qed

theorem stolen_token_rejected_witness:
  "reply_field ''legitResult'' (simulateMTLSBinding ex_bi_lib ex_bi_x509 (\<lambda>s. s) ex_bi_draws ex_bi_state) = Some (JStr ''ALLOWED'')"
proof -
  have run: "run_ops (chain_demo_step ex_bi_lib (\<lambda>_. []) (\<lambda>_. [])) [ClickSetup (Inr key_one) (Inr key_two) (Inr key_two)] chain_demo_init
      = ([fst (demo_setup (Inr key_one) (Inr key_two) (Inr key_two) chain_demo_init)], ex_bi_state)"
    by (simp add: ex_bi_state_def split: prod.split)
  have "demo_fresh ex_bi_lib (bi_token ex_bi_draws) (bi_validate ex_bi_draws)"
    by (simp add: demo_fresh_def ex_bi_draws_def ex_demo_draw_def ex_bi_lib_def ledger_ext_def)
  from stolen_token_rejected [OF ex_bi_laws run ex_bi_run _ p256_key_two ex_bi_url this] show ?thesis
    by (simp add: ex_bi_draws_def)
qed

end
