(* ===== verification/DemoRevocation.thy ===== *)
theory DemoRevocation
  imports DemoChain DemoBroker SsfReceiver JsonPrint
begin

text \<open>
  The browser demo, revocation by a security event (\<open>cmd/demo-wasm/main.go\<close>,
  \<open>ssfSimulateRevocation\<close>): a monitoring system signs a session-revoked event, the receiver gets it as
  a request, and the agent is revoked.  Receiver and list are made anew in every run.
\<close>

section \<open>Operation\<close>

datatype revocation_error = RevIdPKey string | RevSiemKey string | RevIssue issue_error | RevSign string | ReceiverRejected nat

definition workerSub :: string where "workerSub = ''spiffe://agent-fabric.example/compromised-worker''"
definition siemIssuer :: string where "siemIssuer = ''https://siem.agent-fabric.example''"

text \<open>What one run draws, reads from the clock, and the order in which Go visits the events.\<close>

record revocation_draws =
  re_idpKey :: "string + ec_private"
  re_siemKey :: "string + ec_private"
  re_token :: draws
  re_now :: time
  re_sign :: bytes
  re_clock :: "string \<Rightarrow> nat \<Rightarrow> time"
  re_order :: "string list"

definition worker_options :: "ec_public \<Rightarrow> IssueOptions" where
  "worker_options pub = \<lparr>io_Subject = workerSub, io_Audiences = [], io_TrustDomain = [], io_Role = RoleExecutor,
     io_ChainDepth = 0, io_KeyID = [], io_WorkloadKey = Some pub, io_Mission = []\<rparr>"

definition event_payload :: json where
  "event_payload = JObj [(''reason'', JStr ''anomalous API call rate detected by SIEM''),
     (''subject'', JObj [(''format'', JStr ''spiffe''), (''sub'', JStr workerSub)])]"

definition siem_claims :: "ext \<Rightarrow> time \<Rightarrow> payload" where
  "siem_claims L now = \<lparr>pl_reg = no_claims\<lparr>rc_Issuer := siemIssuer, rc_Subject := workerSub, rc_ID := ''set-'' @ itoa now,
       rc_IssuedAt := Some (jwt_numeric_date L now)\<rparr>,
     pl_priv = [(''events'', JObj [(EventTypeSessionRevoked, event_payload)])]\<rparr>"

definition push_request :: "string \<Rightarrow> set_request" where
  "push_request setJWT = \<lparr>sr_Method = ''POST'', sr_ContentType = ''application/secevent+jwt'', sr_Body = Some setJWT\<rparr>"

text \<open>\<open>t.UTC().Format(time.RFC3339)\<close>, without the fraction of a second.\<close>

definition format_rfc3339 :: "time \<Rightarrow> string" where
  "format_rfc3339 t = format_rfc3339nano (t - t mod second)"

definition ssfSimulateRevocation :: "ext \<Rightarrow> revocation_draws \<Rightarrow> revocation_error demo_reply" where
  "ssfSimulateRevocation L d = (case re_idpKey d of
     Inl e \<Rightarrow> errObj (RevIdPKey e)
   | Inr idp \<Rightarrow> (case re_siemKey d of
       Inl e \<Rightarrow> errObj (RevSiemKey e)
     | Inr siem \<Rightarrow>
         (case AgentIssuer_Issue L (NewAgentIssuer ''https://idp.agent-fabric.example'' idp hour) (worker_options (ec_Public idp))
             (dr_now (re_token d)) (dr_jti (re_token d)) (dr_rnd (re_token d)) of
            Inl e \<Rightarrow> errObj (RevIssue e)
          | Inr agentTok \<Rightarrow> (case jwt_sign L (re_sign d) (jwt_header L) (siem_claims L (re_now d)) siem of
              Inl e \<Rightarrow> errObj (RevSign e)
            | Inr setJWT \<Rightarrow>
                let (rcvr, remediation) = NewAgentRemediation NewReceiver;
                    beforeRevoked = RevokedSet_IsRevoked remediation workerSub;
                    (code, rcvr', remediation') =
                      Receiver_ServeHTTP L (re_clock d) (re_order d) (push_request setJWT) (rcvr, remediation)
                in if code \<noteq> 202 then errObj (ReceiverRejected code)
                   else let revokedAt = (case RevokedSet_RevokedSince remediation' workerSub of
                              None \<Rightarrow> [] | Some t \<Rightarrow> format_rfc3339 t)
                     in okObj [(''agentSub'', JStr workerSub), (''agentToken'', JStr (js_truncate agentTok)),
                       (''setJWT'', JStr (js_truncate setJWT)), (''setJWTParts'', JArr (map JStr (splitJWT setJWT))),
                       (''beforeRevoked'', JBool beforeRevoked),
                       (''afterRevoked'', JBool (RevokedSet_IsRevoked remediation' workerSub)),
                       (''revokedAt'', JStr revokedAt), (''httpStatus'', JInt (int code)),
                       (''message'', JStr (''SET delivered via POST /ssf/events '' @ right_arrow @ '' '' @ workerSub
                          @ '' revoked at '' @ revokedAt))]))))"

section \<open>Lemmas\<close>

text \<open>\<open>ParseUnverified\<close> reads back what was signed.\<close>

definition jwt_unverified :: "ext \<Rightarrow> bool" where
  "jwt_unverified L \<longleftrightarrow> (\<forall>rnd h pl sk tok. jwt_sign L rnd h pl sk = Inr tok \<longrightarrow> wire_ok L h pl \<longrightarrow>
     jwt_parse_unverified L tok = Inr \<lparr>tk_header = h, tk_payload = pl\<rparr>)"

lemma ledger_unverified:
  assumes "distinct (map le_text ls)"
  shows "jwt_unverified (ledger_ext ls)"
  unfolding jwt_unverified_def
proof (intro allI impI)
  fix rnd h pl sk tok
  assume "jwt_sign (ledger_ext ls) rnd h pl sk = Inr tok"
  then obtain e where e: "e \<in> set ls" "le_text e = tok" "le_token e = \<lparr>tk_header = h, tk_payload = pl\<rparr>"
    by (rule ledger_signed)
  then show "jwt_parse_unverified (ledger_ext ls) tok = Inr \<lparr>tk_header = h, tk_payload = pl\<rparr>"
    using find_distinct_map [OF assms e(1)] by (simp add: ledger_ext_def)
qed

lemma utf8_itoa [simp]: "utf8 (itoa i)"
proof (rule utf8_ascii)
  have "is_digit c \<Longrightarrow> byte c < 128" for c
    by (auto simp: is_digit_def)
  then have "is_ascii (dec_digits n)" for n
    using dec_digits_digits [of n] by (auto simp: is_ascii_def list_all_iff)
  then show "is_ascii (itoa i)"
    by (simp add: itoa_def is_ascii_def char_simps)
qed

lemma siem_wire:
  assumes "jwt_laws L"
  shows "wire_ok L (jwt_header L) (siem_claims L now)"
proof -
  have "json_utf8 (JObj (jwt_header L))"
    using assms by (simp add: jwt_laws_def wire_utf8_def)
  moreover have "utf8 (''set-'' @ itoa now)" "utf8 siemIssuer" "utf8 workerSub"
    by (simp_all add: siemIssuer_def workerSub_def char_simps)
  moreover have "claims_wire L (pl_reg (siem_claims L now))"
    using calculation(2-4) jwt_datesD(3) assms by (simp add: claims_wire_def siem_claims_def no_claims_def jwt_laws_def)
  moreover have "json_utf8 (JObj (pl_priv (siem_claims L now)))"
    using calculation(4) by (simp add: siem_claims_def event_payload_def EventTypeSessionRevoked_def char_simps)
  ultimately show ?thesis
    unfolding wire_ok_def by blast
qed

definition siem_set :: "ext \<Rightarrow> time \<Rightarrow> SET" where
  "siem_set L now = \<lparr>set_JTI = ''set-'' @ itoa now, set_Issuer = siemIssuer, set_IssuedAt = jwt_numeric_date L now div second,
     set_Events = [EventTypeSessionRevoked \<mapsto> event_payload]\<rparr>"

lemma pushed_set:
  assumes "jwt_laws L" "jwt_unverified L" "jwt_sign L rnd (jwt_header L) (siem_claims L now) siem = Inr tok" "length tok \<le> 2 ^ 16" "tok \<noteq> []"
  shows "parse_set L (push_request tok) = Inr (siem_set L now)"
proof -
  have "jwt_parse_unverified L tok = Inr \<lparr>tk_header = jwt_header L, tk_payload = siem_claims L now\<rparr>"
    using assms(2,3) siem_wire [OF assms(1)] unfolding jwt_unverified_def by blast
  moreover have "take (2 ^ 16) tok = tok"
    using assms(4) by simp
  moreover have "set_claims (siem_claims L now) = Some (pl_reg (siem_claims L now), [EventTypeSessionRevoked \<mapsto> event_payload])"
    by (simp add: set_claims_def siem_claims_def)
  ultimately show ?thesis
    using assms(5) by (simp add: parse_set_def push_request_def contentTypeSET_def siem_set_def siem_claims_def no_claims_def)
qed

lemma siem_subject: "revoked_subject (siem_set L now) = Some workerSub"
  by (simp add: revoked_subject_def siem_set_def event_payload_def revoked_payload_def json_field_defs workerSub_def)

text \<open>The push to a new receiver.\<close>

lemma pushed:
  assumes "parse_set L req = Inr (siem_set L now)" "NewAgentRemediation NewReceiver = (rcvr, remediation)"
  obtains rcvr' where "Receiver_ServeHTTP L clock [EventTypeSessionRevoked] req (rcvr, remediation)
     = (202, rcvr', RevokedSet_revoke (clock EventTypeSessionRevoked 0) workerSub newRevokedSet)"
proof -
  let ?r = "rcvr\<lparr>rv_jtiSeen := {set_JTI (siem_set L now)}\<rparr>"
  have new: "rv_jtiSeen rcvr = {}" "remediation = newRevokedSet" "wired ?r"
    using assms(2) by (auto simp: NewAgentRemediation_def NewReceiver_def Receiver_On_def wired_def)
  have "dispatch ?r clock [EventTypeSessionRevoked] (siem_set L now) newRevokedSet
      = RevokedSet_revoke (clock EventTypeSessionRevoked 0) workerSub newRevokedSet"
    using siem_subject [of L now] dispatch_wired [OF new(3), of "[EventTypeSessionRevoked]" "siem_set L now"]
    by (simp add: siem_set_def handleSessionRevoked_eq)
  then show thesis
    using that [of ?r] assms(1) new(1,2) by (simp add: ServeHTTP_parse_set)
qed

text \<open>The reply once the event is signed.\<close>

definition revocation_reply :: "string \<Rightarrow> string \<Rightarrow> time \<Rightarrow> revocation_error demo_reply" where
  "revocation_reply agentTok setJWT since = okObj [(''agentSub'', JStr workerSub), (''agentToken'', JStr (js_truncate agentTok)),
     (''setJWT'', JStr (js_truncate setJWT)), (''setJWTParts'', JArr (map JStr (splitJWT setJWT))),
     (''beforeRevoked'', JBool False), (''afterRevoked'', JBool True),
     (''revokedAt'', JStr (format_rfc3339 since)), (''httpStatus'', JInt 202),
     (''message'', JStr (''SET delivered via POST /ssf/events '' @ right_arrow @ '' '' @ workerSub
        @ '' revoked at '' @ format_rfc3339 since))]"

lemma revocation_shown:
  assumes "jwt_laws L" "jwt_unverified L" "re_order d = [EventTypeSessionRevoked]"
    and "re_idpKey d = Inr idp" "re_siemKey d = Inr siem"
    and "AgentIssuer_Issue L (NewAgentIssuer ''https://idp.agent-fabric.example'' idp hour) (worker_options (ec_Public idp))
       (dr_now (re_token d)) (dr_jti (re_token d)) (dr_rnd (re_token d)) = Inr agentTok"
    and "jwt_sign L (re_sign d) (jwt_header L) (siem_claims L (re_now d)) siem = Inr setJWT" "length setJWT \<le> 2 ^ 16"
  shows "ssfSimulateRevocation L d = revocation_reply agentTok setJWT (re_clock d EventTypeSessionRevoked 0)"
proof -
  obtain rcvr where new: "NewAgentRemediation NewReceiver = (rcvr, newRevokedSet)"
    by (simp add: NewAgentRemediation_def)
  have "compact_jwt setJWT (rc_Issuer (pl_reg (siem_claims L (re_now d))))"
    using assms(1,7) siem_wire [OF assms(1)] unfolding jwt_laws_def jwt_compact_def by blast
  then have "setJWT \<noteq> []"
    by (rule compact_jwt_wf(1))
  from pushed_set [OF assms(1,2,7,8) this]
  obtain rcvr' where "Receiver_ServeHTTP L (re_clock d) [EventTypeSessionRevoked] (push_request setJWT) (rcvr, newRevokedSet)
      = (202, rcvr', RevokedSet_revoke (re_clock d EventTypeSessionRevoked 0) workerSub newRevokedSet)"
    by (rule pushed [OF _ new])
  then show ?thesis
    using assms(3-7) new
    by (simp add: ssfSimulateRevocation_def revocation_reply_def RevokedSet_IsRevoked_def RevokedSet_RevokedSince_def
        RevokedSet_revoke_def newRevokedSet_def Let_def del: splitJWT_eq)
qed

lemma revocation_replies:
  assumes "jwt_laws L" "jwt_unverified L" "re_order d = [EventTypeSessionRevoked]"
    and "\<forall>siem tok. jwt_sign L (re_sign d) (jwt_header L) (siem_claims L (re_now d)) siem = Inr tok \<longrightarrow> length tok \<le> 2 ^ 16"
  shows "ssfSimulateRevocation L d \<in> range (errObj \<circ> RevIdPKey) \<union> range (errObj \<circ> RevSiemKey) \<union> range (errObj \<circ> RevIssue)
      \<union> range (errObj \<circ> RevSign) \<union> {revocation_reply a t (re_clock d EventTypeSessionRevoked 0) |a t. True}"
proof (cases "re_idpKey d")
  case (Inr idp)
  show ?thesis
  proof (cases "re_siemKey d")
    case siem: (Inr siem)
    show ?thesis
    proof (cases "AgentIssuer_Issue L (NewAgentIssuer ''https://idp.agent-fabric.example'' idp hour) (worker_options (ec_Public idp))
       (dr_now (re_token d)) (dr_jti (re_token d)) (dr_rnd (re_token d))")
      case tok: (Inr agentTok)
      show ?thesis
      proof (cases "jwt_sign L (re_sign d) (jwt_header L) (siem_claims L (re_now d)) siem")
        case sign: (Inr setJWT)
        then show ?thesis
          using revocation_shown [OF assms(1-3) Inr siem tok sign] assms(4) by blast
      qed (use Inr siem tok in \<open>simp add: ssfSimulateRevocation_def\<close>)
    qed (use Inr siem in \<open>simp add: ssfSimulateRevocation_def\<close>)
  qed (use Inr in \<open>simp add: ssfSimulateRevocation_def\<close>)
qed (simp add: ssfSimulateRevocation_def)

section \<open>Closed instances\<close>

text \<open>The identity provider has key one, the monitoring system key two, everything at time 0.\<close>

definition ex_rev_agent :: ledger_entry where
  "ex_rev_agent = \<lparr>le_text = ex_demo_text ''{\"iss\":\"https://idp.agent-fabric.example\"}'' 1, le_signer = key_one,
     le_token = \<lparr>tk_header = issue_header (ledger_ext []) agentTokenType [],
       tk_payload = agent_payload (ledger_ext []) (issue_claims (ledger_ext [])
         (NewAgentIssuer ''https://idp.agent-fabric.example'' key_one hour)
         (worker_options (ec_Public key_one)) (jwk_of (ec_Public key_one) []) 0 (replicate 16 (CHR ''a'')))\<rparr>\<rparr>"

definition ex_rev_set :: ledger_entry where
  "ex_rev_set = \<lparr>le_text = ex_demo_text ''{\"iss\":\"https://siem.agent-fabric.example\"}'' 2, le_signer = key_two,
     le_token = \<lparr>tk_header = jwt_header (ledger_ext []), tk_payload = siem_claims (ledger_ext []) 0\<rparr>\<rparr>"

definition ex_rev_lib :: ext where
  "ex_rev_lib = ledger_ext [ex_rev_agent, ex_rev_set]"

definition ex_rev_draws :: revocation_draws where
  "ex_rev_draws = \<lparr>re_idpKey = Inr key_one, re_siemKey = Inr key_two, re_token = ex_demo_draw (CHR ''a''), re_now = 0,
     re_sign = [], re_clock = (\<lambda>_ _. minute), re_order = [EventTypeSessionRevoked]\<rparr>"

lemma ex_rev_issuers:
  "rc_Issuer (pl_reg (tk_payload (le_token ex_rev_agent))) = ''https://idp.agent-fabric.example''"
  "rc_Issuer (pl_reg (tk_payload (le_token ex_rev_set))) = siemIssuer"
  by (simp_all add: ex_rev_agent_def ex_rev_set_def agent_payload_def issue_claims_def NewAgentIssuer_def siem_claims_def no_claims_def)

lemma ex_rev_distinct: "distinct (map le_text [ex_rev_agent, ex_rev_set])" "distinct (map le_token [ex_rev_agent, ex_rev_set])"
proof -
  show "distinct (map le_text [ex_rev_agent, ex_rev_set])"
    by (simp add: ex_rev_agent_def ex_rev_set_def)
  have "le_token ex_rev_agent \<noteq> le_token ex_rev_set"
    using ex_rev_issuers by (auto simp: siemIssuer_def)
  then show "distinct (map le_token [ex_rev_agent, ex_rev_set])"
    by simp
qed

lemma ex_rev_laws: "jwt_laws ex_rev_lib" "jwt_unverified ex_rev_lib"
proof -
  have "json_parse ''{\"iss\":\"https://siem.agent-fabric.example\"}'' = Some (JObj [(''iss'', JStr siemIssuer)])"
    by (simp add: parse_text_simps siemIssuer_def)
  from ex_text_compact [OF this, of siemIssuer] have "compact_jwt (le_text ex_rev_set) siemIssuer"
    by (simp add: json_field_defs ex_rev_set_def)
  moreover have "compact_jwt (le_text ex_rev_agent) ''https://idp.agent-fabric.example''"
    using ex_demo_compact(1) by (simp add: ex_rev_agent_def demoIssuerID_def)
  ultimately show "jwt_laws ex_rev_lib"
    unfolding ex_rev_lib_def by (intro ledger_jwt_laws [OF ex_rev_distinct(1)]) (simp add: ex_rev_issuers)
  show "jwt_unverified ex_rev_lib"
    unfolding ex_rev_lib_def by (rule ledger_unverified [OF ex_rev_distinct(1)])
qed

lemma ex_rev_Issue:
  "AgentIssuer_Issue ex_rev_lib (NewAgentIssuer ''https://idp.agent-fabric.example'' key_one hour) (worker_options (ec_Public key_one))
     0 (replicate 16 (CHR ''a'')) [] = Inr (le_text ex_rev_agent)"
proof -
  have "jwt_sign ex_rev_lib [] (issue_header (ledger_ext []) agentTokenType [])
      (agent_payload (ledger_ext []) (issue_claims (ledger_ext []) (NewAgentIssuer ''https://idp.agent-fabric.example'' key_one hour)
         (worker_options (ec_Public key_one)) (jwk_of (ec_Public key_one) []) 0 (replicate 16 (CHR ''a'')))) key_one
      = Inr (le_text ex_rev_agent)"
    unfolding ex_rev_lib_def
    using ledger_sign [OF _ ex_rev_distinct(2), of ex_rev_agent] by (simp add: ex_rev_agent_def)
  moreover have "issue_header ex_rev_lib = issue_header (ledger_ext [])" "agent_payload ex_rev_lib = agent_payload (ledger_ext [])"
    "issue_claims ex_rev_lib = issue_claims (ledger_ext [])"
    unfolding ex_rev_lib_def by (rule ledger_agent)+
  ultimately show ?thesis
    by (simp add: AgentIssuer_Issue_ok NewAgentIssuer_def worker_options_def workerSub_def RoleExecutor_def)
qed

lemma ex_rev_sign: "jwt_sign ex_rev_lib [] (jwt_header ex_rev_lib) (siem_claims ex_rev_lib 0) key_two = Inr (le_text ex_rev_set)"
proof -
  have "siem_claims ex_rev_lib = siem_claims (ledger_ext [])" "jwt_header ex_rev_lib = jwt_header (ledger_ext [])"
    by (simp_all add: siem_claims_def fun_eq_iff ex_rev_lib_def ledger_parts(1,2) [of "[ex_rev_agent, ex_rev_set]"])
  moreover have "le_signer ex_rev_set = key_two"
    "le_token ex_rev_set = \<lparr>tk_header = jwt_header (ledger_ext []), tk_payload = siem_claims (ledger_ext []) 0\<rparr>"
    by (simp_all add: ex_rev_set_def)
  ultimately show ?thesis
    using ledger_sign [OF _ ex_rev_distinct(2), of ex_rev_set] by (simp add: ex_rev_lib_def)
qed

lemma ex_rev_length:
  assumes "jwt_sign ex_rev_lib rnd h pl sk = Inr tok"
  shows "length tok \<le> 2 ^ 16"
proof -
  obtain e where "e \<in> set [ex_rev_agent, ex_rev_set]" "le_text e = tok"
    using assms unfolding ex_rev_lib_def by (rule ledger_signed)
  then show ?thesis
    by (auto simp: ex_rev_agent_def ex_rev_set_def ex_demo_text_def length_b64_encode simp del: b64_encode.simps)
qed

section \<open>Properties\<close>

text \<open>The revocation demo.  Whatever is drawn, the receiver never refuses the event that the
  monitoring system signed, and a run that answers shows the agent not revoked before the push and
  revoked after it, since the instant at which the receiver's handler read the clock, with status
  202; provided that the signed event is no longer than the receiver reads.\<close>

theorem revocation_demo:
  assumes "jwt_laws L" "jwt_unverified L" "re_order d = [EventTypeSessionRevoked]"
    and "\<forall>siem tok. jwt_sign L (re_sign d) (jwt_header L) (siem_claims L (re_now d)) siem = Inr tok \<longrightarrow> length tok \<le> 2 ^ 16"
  shows "(\<forall>code. ssfSimulateRevocation L d \<noteq> errObj (ReceiverRejected code)) \<and>
    (is_OkObj (ssfSimulateRevocation L d) \<longrightarrow>
      reply_field ''beforeRevoked'' (ssfSimulateRevocation L d) = Some (JBool False) \<and>
      reply_field ''afterRevoked'' (ssfSimulateRevocation L d) = Some (JBool True) \<and>
      reply_field ''httpStatus'' (ssfSimulateRevocation L d) = Some (JInt 202) \<and>
      reply_field ''revokedAt'' (ssfSimulateRevocation L d) = Some (JStr (format_rfc3339 (re_clock d EventTypeSessionRevoked 0))))"
  using revocation_replies [OF assms] by (auto simp: revocation_reply_def)

theorem revocation_demo_witness:
  "reply_field ''afterRevoked'' (ssfSimulateRevocation ex_rev_lib ex_rev_draws) = Some (JBool True)"
proof -
  have "is_OkObj (ssfSimulateRevocation ex_rev_lib ex_rev_draws)"
    using revocation_shown [OF ex_rev_laws, of ex_rev_draws key_one key_two "le_text ex_rev_agent" "le_text ex_rev_set"]
      ex_rev_Issue ex_rev_sign ex_rev_length [OF ex_rev_sign]
    by (simp add: ex_rev_draws_def ex_demo_draw_def revocation_reply_def)
  moreover have "re_order ex_rev_draws = [EventTypeSessionRevoked]"
    by (simp add: ex_rev_draws_def)
  ultimately show ?thesis
    using revocation_demo [OF ex_rev_laws] ex_rev_length by blast
qed

end
