(* ===== verification/SdJwt.thy ===== *)
theory SdJwt
  imports JsonText Issued AgentToken
begin

text \<open>
  Package \<open>pkg/obo\<close>, file \<open>sdjwt.go\<close>: user identity tokens with selective disclosure.  The signed
  token holds the digests of the disclosures; the holder presents some of the disclosures, and the
  validator reveals the names and values of those whose digests are in the token.
\<close>

definition SDUserTokenType :: string where
  "SDUserTokenType = ''user+sd-jwt''"

definition sdHashAlg :: string where
  "sdHashAlg = ''sha-256''"

definition defaultUserTTL :: duration where
  "defaultUserTTL = 60 * minute"

section \<open>Disclosures\<close>

record Disclosure =
  ds_Name :: string
  ds_Value :: string
  ds_salt :: string
  ds_wire :: string

text \<open>\<open>newDisclosure\<close>, of the 16 random bytes of the salt.\<close>

definition newDisclosure :: "string \<Rightarrow> string \<Rightarrow> bytes \<Rightarrow> Disclosure" where
  "newDisclosure name val saltBytes = (let salt = b64_encode saltBytes in
     \<lparr>ds_Name = name, ds_Value = val, ds_salt = salt, ds_wire = b64_encode (marshal_strings [salt, name, val])\<rparr>)"

definition Disclosure_Wire :: "Disclosure \<Rightarrow> string" where
  "Disclosure_Wire d = ds_wire d"

definition Disclosure_Digest :: "Disclosure \<Rightarrow> string" where
  "Disclosure_Digest d = b64_sha256 (ds_wire d)"

section \<open>Claims\<close>

record SDUserClaims =
  sd_reg :: registered_claims
  sd_Scope :: string
  sd_SD :: "string list"
  sd_SDAlg :: string

definition sd_payload :: "SDUserClaims \<Rightarrow> payload" where
  "sd_payload c = \<lparr>pl_reg = sd_reg c,
     pl_priv = omit_empty ''scope'' (sd_Scope c)
       @ (if sd_SD c = [] then [] else [(''_sd'', JArr (map JStr (sd_SD c)))])
       @ omit_empty ''_sd_alg'' (sd_SDAlg c)\<rparr>"

definition sd_claims :: "payload \<Rightarrow> SDUserClaims option" where
  "sd_claims pl = do {
     scope \<leftarrow> str_field ''scope'' (pl_priv pl);
     sd \<leftarrow> strs_field ''_sd'' (pl_priv pl);
     alg \<leftarrow> str_field ''_sd_alg'' (pl_priv pl);
     Some \<lparr>sd_reg = pl_reg pl, sd_Scope = scope, sd_SD = sd, sd_SDAlg = alg\<rparr>}"

lemma sd_claims_payload [simp]: "sd_claims (sd_payload c) = Some c"
  by (simp add: sd_claims_def sd_payload_def json_field_defs omit_empty_def)

lemma sd_claims_reg: "sd_claims pl = Some c \<Longrightarrow> sd_reg c = pl_reg pl"
  by (auto simp: sd_claims_def split: Option.bind_splits)

section \<open>The token and its presentations\<close>

record SDUserToken =
  st_JWT :: string
  st_Disclosures :: "Disclosure list"

definition buildSDJWT :: "string \<Rightarrow> Disclosure list \<Rightarrow> string" where
  "buildSDJWT jwtStr disclosures = join_with ''~'' (jwtStr # map Disclosure_Wire disclosures @ [[]])"

definition SDUserToken_Wire :: "SDUserToken \<Rightarrow> string" where
  "SDUserToken_Wire t = buildSDJWT (st_JWT t) (st_Disclosures t)"

definition Present :: "SDUserToken \<Rightarrow> string list \<Rightarrow> string" where
  "Present t reveal = buildSDJWT (st_JWT t) (filter (\<lambda>d. ds_Name d \<in> set reveal) (st_Disclosures t))"

section \<open>Issuer\<close>

record SDUserIssuer =
  su_issuerID :: string
  su_key :: ec_private
  su_ttl :: duration

datatype sd_error = SDSubRequired | SDAudienceRequired | SignSDJWT string
  | PresentationRequired | MissingSeparator | VerifySDJWT string
  | DigestNotFound | DecodeDisclosure | InvalidDisclosure

definition NewSDUserIssuer :: "string \<Rightarrow> ec_private \<Rightarrow> duration \<Rightarrow> SDUserIssuer" where
  "NewSDUserIssuer issuerID key ttl =
     \<lparr>su_issuerID = issuerID, su_key = key, su_ttl = (if ttl = 0 then defaultUserTTL else ttl)\<rparr>"

definition issue_sd_claims ::
  "ext \<Rightarrow> SDUserIssuer \<Rightarrow> string \<Rightarrow> string \<Rightarrow> string \<Rightarrow> Disclosure list \<Rightarrow> time \<Rightarrow> SDUserClaims" where
  "issue_sd_claims L u sub scope audience ds now = \<lparr>
     sd_reg = issued_claims L (su_issuerID u) sub [audience] now (su_ttl u) [],
     sd_Scope = scope, sd_SD = map Disclosure_Digest ds, sd_SDAlg = sdHashAlg\<rparr>"

text \<open>\<open>Issue\<close>, with the salts of the two disclosures.\<close>

definition SDUserIssuer_Issue :: "ext \<Rightarrow> SDUserIssuer \<Rightarrow> string \<Rightarrow> string \<Rightarrow> string \<Rightarrow> string \<Rightarrow> string
    \<Rightarrow> time \<Rightarrow> bytes \<times> bytes \<Rightarrow> bytes \<Rightarrow> sd_error + SDUserToken" where
  "SDUserIssuer_Issue L u sub email givenName scope audience now salts rnd =
     (if sub = [] then Inl SDSubRequired
      else if audience = [] then Inl SDAudienceRequired
      else (let emailDisc = newDisclosure ''email'' email (fst salts);
                nameDisc = newDisclosure ''given_name'' givenName (snd salts)
            in case jwt_sign L rnd (typ_header L SDUserTokenType)
                      (sd_payload (issue_sd_claims L u sub scope audience [emailDisc, nameDisc] now)) (su_key u) of
                 Inl e \<Rightarrow> Inl (SignSDJWT e)
               | Inr jwtStr \<Rightarrow> Inr \<lparr>st_JWT = jwtStr, st_Disclosures = [emailDisc, nameDisc]\<rparr>))"

section \<open>Validator\<close>

record SDUserValidateResult =
  sr_Claims :: SDUserClaims
  sr_Subject :: string
  sr_Scope :: string
  sr_RevealedClaims :: "string \<rightharpoonup> string"

record SDUserValidator =
  sv_issuerID :: string
  sv_pubKey :: ec_public

definition NewSDUserValidator :: "string \<Rightarrow> ec_public \<Rightarrow> SDUserValidator" where
  "NewSDUserValidator issuerID pubKey = \<lparr>sv_issuerID = issuerID, sv_pubKey = pubKey\<rparr>"

text \<open>\<open>json.Unmarshal\<close> into a \<open>[]string\<close>; \<open>null\<close> gives an empty slice.\<close>

definition unmarshal_strings :: "bytes \<Rightarrow> string list option" where
  "unmarshal_strings raw = (case json_parse raw of
     Some (JArr vs) \<Rightarrow> json_strings vs
   | Some JNull \<Rightarrow> Some []
   | _ \<Rightarrow> None)"

text \<open>The loop over the presented disclosures.\<close>

fun reveal_all :: "string list \<Rightarrow> string list \<Rightarrow> (string \<rightharpoonup> string) \<Rightarrow> sd_error + (string \<rightharpoonup> string)" where
  "reveal_all sd [] revealed = Inr revealed"
| "reveal_all sd (w # ws) revealed =
     (if b64_sha256 w \<notin> set sd then Inl DigestNotFound
      else (case b64_decode w of
        None \<Rightarrow> Inl DecodeDisclosure
      | Some raw \<Rightarrow> (case unmarshal_strings raw of
          Some [salt, name, val] \<Rightarrow> reveal_all sd ws (revealed(name \<mapsto> val))
        | _ \<Rightarrow> Inl InvalidDisclosure)))"

definition SDUserValidator_Validate ::
  "ext \<Rightarrow> SDUserValidator \<Rightarrow> time \<Rightarrow> string \<Rightarrow> string \<Rightarrow> sd_error + SDUserValidateResult" where
  "SDUserValidator_Validate L v now presentation audience =
     (if presentation = [] then Inl PresentationRequired
      else (let parts = split_on (CHR ''~'') presentation in
        if length parts < 2 then Inl MissingSeparator
        else (let jwtStr = hd parts; discWires = filter (\<lambda>p. p \<noteq> []) (tl parts) in
          case parse_with_claims L (issuer_opts (sv_issuerID v) (Some audience)) now jwtStr sd_claims
                 (typ_key SDUserTokenType (sv_pubKey v)) of
            Inl e \<Rightarrow> Inl (VerifySDJWT e)
          | Inr (_, sdClaims) \<Rightarrow> (case reveal_all (sd_SD sdClaims) discWires Map.empty of
              Inl e \<Rightarrow> Inl e
            | Inr revealed \<Rightarrow> Inr \<lparr>sr_Claims = sdClaims, sr_Subject = rc_Subject (sd_reg sdClaims),
                sr_Scope = sd_Scope sdClaims, sr_RevealedClaims = revealed\<rparr>))))"

section \<open>Lemmas\<close>

lemma SDUserIssuer_Issue_ok:
  "SDUserIssuer_Issue L u sub email gn scope audience now salts rnd = Inr t \<longleftrightarrow>
     sub \<noteq> [] \<and> audience \<noteq> [] \<and>
     st_Disclosures t = [newDisclosure ''email'' email (fst salts), newDisclosure ''given_name'' gn (snd salts)] \<and>
     jwt_sign L rnd (typ_header L SDUserTokenType)
       (sd_payload (issue_sd_claims L u sub scope audience (st_Disclosures t) now)) (su_key u) = Inr (st_JWT t)"
  by (cases t) (auto simp: SDUserIssuer_Issue_def Let_def split: sum.splits)

lemma SDUserValidator_Validate_ok:
  "SDUserValidator_Validate L v now p audience = Inr r \<longleftrightarrow>
     (\<exists>jwtStr ws h c revealed. split_on (CHR ''~'') p = jwtStr # ws \<and> ws \<noteq> [] \<and>
        parse_with_claims L (issuer_opts (sv_issuerID v) (Some audience)) now jwtStr sd_claims
          (typ_key SDUserTokenType (sv_pubKey v)) = Inr (h, c) \<and>
        reveal_all (sd_SD c) (filter (\<lambda>p. p \<noteq> []) ws) Map.empty = Inr revealed \<and>
        r = \<lparr>sr_Claims = c, sr_Subject = rc_Subject (sd_reg c), sr_Scope = sd_Scope c, sr_RevealedClaims = revealed\<rparr>)"
  by (cases "split_on (CHR ''~'') p"; cases "tl (split_on (CHR ''~'') p)")
    (auto simp: SDUserValidator_Validate_def Let_def split: sum.splits)

text \<open>A disclosure that was made here decodes to its name and value.\<close>

lemma newDisclosure_decodes:
  assumes "utf8 name" "utf8 val"
  shows "b64_decode (ds_wire (newDisclosure name val b)) = Some (marshal_strings [b64_encode b, name, val])"
    and "unmarshal_strings (marshal_strings [b64_encode b, name, val]) = Some [b64_encode b, name, val]"
  using marshal_strings_parse [of "[b64_encode b, name, val]"] assms
  by (simp_all add: newDisclosure_def Let_def unmarshal_strings_def)

lemma newDisclosure_wire_ne: "ds_wire (newDisclosure name val b) \<noteq> []" "CHR ''~'' \<notin> set (ds_wire (newDisclosure name val b))"
  by (auto simp: newDisclosure_def Let_def marshal_strings_def b64_encode_sep_free)

lemma newDisclosure_simps [simp]:
  "ds_Name (newDisclosure name val b) = name" "ds_Value (newDisclosure name val b) = val"
  by (simp_all add: newDisclosure_def Let_def)

text \<open>A disclosure as \<open>newDisclosure\<close> makes it.\<close>

definition made :: "Disclosure \<Rightarrow> bool" where
  "made d \<longleftrightarrow> (\<exists>name val b. utf8 name \<and> utf8 val \<and> d = newDisclosure name val b)"

lemma reveal_all_made:
  assumes "\<forall>d \<in> set ds. made d \<and> Disclosure_Digest d \<in> set sd"
  shows "reveal_all sd (map Disclosure_Wire ds) m = Inr (m ++ map_of (rev (map (\<lambda>d. (ds_Name d, ds_Value d)) ds)))"
  using assms
proof (induction ds arbitrary: m)
  case (Cons d ds)
  then obtain name val b where d: "d = newDisclosure name val b" "utf8 name" "utf8 val"
    by (auto simp: made_def)
  have "b64_sha256 (ds_wire d) \<in> set sd"
    using Cons.prems by (simp add: Disclosure_Digest_def)
  then show ?case
    using Cons newDisclosure_decodes [OF d(2,3), of b] d(1)
    by (simp add: Disclosure_Wire_def map_add_upds map_add_assoc [symmetric])
qed simp

text \<open>Whatever is revealed was in a disclosure whose digest the token holds.\<close>

lemma reveal_all_sound:
  assumes "reveal_all sd ws m = Inr m'" "m' n = Some v"
  shows "m n = Some v \<or> (\<exists>w \<in> set ws. b64_sha256 w \<in> set sd \<and>
    (\<exists>raw salt. b64_decode w = Some raw \<and> unmarshal_strings raw = Some [salt, n, v]))"
  using assms
proof (induction ws arbitrary: m)
  case (Cons w ws)
  obtain raw salt name val where w: "b64_sha256 w \<in> set sd" "b64_decode w = Some raw"
      "unmarshal_strings raw = Some [salt, name, val]" and rest: "reveal_all sd ws (m(name \<mapsto> val)) = Inr m'"
    using Cons.prems(1) by (auto split: if_splits option.splits list.splits)
  show ?case
    using Cons.IH [OF rest Cons.prems(2)] w by (auto split: if_splits)
qed simp

lemma split_presentation:
  assumes "CHR ''~'' \<notin> set jwtStr" "\<forall>d \<in> set ds. made d"
  shows "split_on (CHR ''~'') (buildSDJWT jwtStr ds) = jwtStr # map Disclosure_Wire ds @ [[]]"
  using assms newDisclosure_wire_ne unfolding buildSDJWT_def
  by (intro split_on_join) (auto simp: made_def Disclosure_Wire_def)

lemma compact_no_tilde: "compact_jwt tok iss \<Longrightarrow> CHR ''~'' \<notin> set tok"
  by (auto simp: compact_jwt_def b64_encode_sep_free)

lemma parse_issued_sd:
  assumes "jwt_complete L" "jwt_es256 L" "jwt_dates L"
    and "SDUserIssuer_Issue L u sub email gn scope audience now salts rnd = Inr t"
    and "wire_ok L (typ_header L SDUserTokenType) (sd_payload (issue_sd_claims L u sub scope audience (st_Disclosures t) now))"
    and "now \<le> t0" "t0 < jwt_numeric_date L (now + su_ttl u)"
  shows "parse_with_claims L (issuer_opts (su_issuerID u) (Some audience)) t0 (st_JWT t) sd_claims
      (typ_key SDUserTokenType (ec_Public (su_key u)))
    = Inr (typ_header L SDUserTokenType, issue_sd_claims L u sub scope audience (st_Disclosures t) now)"
proof -
  let ?c = "issue_sd_claims L u sub scope audience (st_Disclosures t) now"
  have sign: "jwt_sign L rnd (typ_header L SDUserTokenType) (sd_payload ?c) (su_key u) = Inr (st_JWT t)"
    using assms(4) unfolding SDUserIssuer_Issue_ok by blast
  have reg: "pl_reg (sd_payload ?c) = issued_claims L (su_issuerID u) sub [audience] now (su_ttl u) []"
    by (simp add: sd_payload_def issue_sd_claims_def)
  show ?thesis
    by (rule parse_issued [where dec = sd_claims, OF assms(1-3) sign assms(5) reg _ _ assms(6,7)])
      (simp_all add: SDUserTokenType_def)
qed

text \<open>What the validator of the issuer makes of a presentation.\<close>

definition disclosed :: "string list \<Rightarrow> string \<Rightarrow> string \<Rightarrow> string \<rightharpoonup> string" where
  "disclosed reveal email gn n = (if n \<in> set reveal then [''email'' \<mapsto> email, ''given_name'' \<mapsto> gn] n else None)"

lemma Validate_presented:
  assumes "jwt_complete L" "jwt_compact L" "jwt_es256 L" "jwt_dates L"
    and "SDUserIssuer_Issue L u sub email gn scope audience now salts rnd = Inr t" "utf8 email" "utf8 gn"
    and "wire_ok L (typ_header L SDUserTokenType) (sd_payload (issue_sd_claims L u sub scope audience (st_Disclosures t) now))"
    and "now \<le> t0" "t0 < jwt_numeric_date L (now + su_ttl u)"
  shows "SDUserValidator_Validate L (NewSDUserValidator (su_issuerID u) (ec_Public (su_key u))) t0 (Present t reveal) audience
    = Inr \<lparr>sr_Claims = issue_sd_claims L u sub scope audience (st_Disclosures t) now, sr_Subject = sub,
        sr_Scope = scope, sr_RevealedClaims = disclosed reveal email gn\<rparr>"
proof -
  let ?c = "issue_sd_claims L u sub scope audience (st_Disclosures t) now"
  let ?sel = "filter (\<lambda>d. ds_Name d \<in> set reveal) (st_Disclosures t)"
  have t: "st_Disclosures t = [newDisclosure ''email'' email (fst salts), newDisclosure ''given_name'' gn (snd salts)]"
    and sign: "jwt_sign L rnd (typ_header L SDUserTokenType) (sd_payload ?c) (su_key u) = Inr (st_JWT t)"
    using assms(5) unfolding SDUserIssuer_Issue_ok by blast+
  have "utf8 ''email''" "utf8 ''given_name''"
    by (simp_all add: char_simps)
  then have made: "\<forall>d \<in> set ?sel. made d"
    using t assms(6,7) by (auto simp: made_def)
  have "CHR ''~'' \<notin> set (st_JWT t)"
    using assms(2,8) sign compact_no_tilde unfolding jwt_compact_def by blast
  then have split: "split_on (CHR ''~'') (Present t reveal) = st_JWT t # map Disclosure_Wire ?sel @ [[]]"
    unfolding Present_def using made by (rule split_presentation)
  have "filter (\<lambda>p. p \<noteq> []) (map Disclosure_Wire ?sel @ [[]]) = map Disclosure_Wire ?sel"
    using made newDisclosure_wire_ne(1) by (auto simp: made_def Disclosure_Wire_def filter_id_conv)
  moreover have "\<forall>d \<in> set ?sel. made d \<and> Disclosure_Digest d \<in> set (sd_SD ?c)"
    using made by (auto simp: issue_sd_claims_def)
  then have "reveal_all (sd_SD ?c) (map Disclosure_Wire ?sel) Map.empty = Inr (disclosed reveal email gn)"
    using t by (subst reveal_all_made) (auto simp: disclosed_def fun_eq_iff)
  ultimately show ?thesis
    using parse_issued_sd [OF assms(1,3,4,5,8,9,10)] split
    by (simp add: SDUserValidator_Validate_ok NewSDUserValidator_def, simp add: issue_sd_claims_def)
qed

section \<open>Closed instances\<close>

definition ex_sd_issuer :: SDUserIssuer where
  "ex_sd_issuer = NewSDUserIssuer ''https://idp'' key_one 0"

definition ex_salts :: "bytes \<times> bytes" where
  "ex_salts = (replicate 16 (CHR ''1''), replicate 16 (CHR ''2''))"

definition ex_disclosures :: "Disclosure list" where
  "ex_disclosures = [newDisclosure ''email'' ''al@x'' (fst ex_salts), newDisclosure ''given_name'' ''Al'' (snd ex_salts)]"

definition ex_sd_claims :: SDUserClaims where
  "ex_sd_claims = issue_sd_claims (ledger_ext []) ex_sd_issuer ''user:al'' ''read write'' ''https://idp'' ex_disclosures 0"

definition ex_sd_entry :: ledger_entry where
  "ex_sd_entry = \<lparr>le_text = ex_token ''sd'', le_signer = key_one,
     le_token = \<lparr>tk_header = typ_header (ledger_ext []) SDUserTokenType, tk_payload = sd_payload ex_sd_claims\<rparr>\<rparr>"

definition ex_sd_lib :: ext where
  "ex_sd_lib = ledger_ext [ex_sd_entry]"

definition ex_sd_token :: SDUserToken where
  "ex_sd_token = \<lparr>st_JWT = ex_token ''sd'', st_Disclosures = ex_disclosures\<rparr>"

lemma ex_sd_laws:
  "jwt_sound ex_sd_lib" "jwt_functional ex_sd_lib" "jwt_complete ex_sd_lib" "jwt_es256 ex_sd_lib"
  "jwt_dates ex_sd_lib" "jwt_compact ex_sd_lib"
proof -
  show "jwt_complete ex_sd_lib"
    unfolding ex_sd_lib_def by (rule ledger_complete) simp
  show "jwt_compact ex_sd_lib"
    unfolding ex_sd_lib_def
    by (rule ledger_compact) (simp add: ex_sd_entry_def sd_payload_def ex_sd_claims_def issue_sd_claims_def
        ex_sd_issuer_def NewSDUserIssuer_def ex_token_compact)
qed (simp_all only: ex_sd_lib_def ledger_laws)

lemma ex_sd_parts:
  "typ_header ex_sd_lib = typ_header (ledger_ext [])"
  "issue_sd_claims ex_sd_lib = issue_sd_claims (ledger_ext [])"
  "jwt_numeric_date ex_sd_lib d = d - d mod second"
  unfolding ex_sd_lib_def
  by (rule ledger_parts(5), simp add: fun_eq_iff issue_sd_claims_def issued_claims_ledger [of "[ex_sd_entry]"],
      simp add: ledger_ext_def)

lemma ex_sd_Issue:
  "SDUserIssuer_Issue ex_sd_lib ex_sd_issuer ''user:al'' ''al@x'' ''Al'' ''read write'' ''https://idp'' 0 ex_salts rnd = Inr ex_sd_token"
proof -
  have "jwt_sign ex_sd_lib rnd (typ_header (ledger_ext []) SDUserTokenType) (sd_payload ex_sd_claims) key_one
      = Inr (ex_token ''sd'')"
    by (simp add: ex_sd_lib_def ledger_ext_def [of "[_]"] ex_sd_entry_def)
  then show ?thesis
    by (simp add: SDUserIssuer_Issue_ok ex_sd_parts ex_sd_token_def ex_sd_claims_def [symmetric],
        simp add: ex_disclosures_def ex_sd_issuer_def NewSDUserIssuer_def)
qed

lemma ex_sd_wire:
  "wire_ok ex_sd_lib (typ_header (ledger_ext []) SDUserTokenType) (sd_payload ex_sd_claims)"
  by (simp add: wire_ok_def claims_wire_def sd_payload_def ex_sd_claims_def issue_sd_claims_def ex_sd_parts
      typ_header_def ledger_ext_def [of "[]"] ex_sd_issuer_def NewSDUserIssuer_def SDUserTokenType_def
      sdHashAlg_def defaultUserTTL_def ex_disclosures_def Disclosure_Digest_def b64_sha256_def
      issued_claims_def dated_claims_def omit_empty_def char_simps)

lemma ex_sd_simps:
  "su_issuerID ex_sd_issuer = ''https://idp''" "su_key ex_sd_issuer = key_one" "su_ttl ex_sd_issuer = 60 * minute"
  "st_Disclosures ex_sd_token = ex_disclosures" "st_JWT ex_sd_token = ex_token ''sd''"
  by (simp_all add: ex_sd_issuer_def NewSDUserIssuer_def defaultUserTTL_def ex_sd_token_def)

lemma ex_sd_Validate:
  "SDUserValidator_Validate ex_sd_lib (NewSDUserValidator ''https://idp'' (ec_Public key_one)) minute
     (Present ex_sd_token reveal) ''https://idp''
   = Inr \<lparr>sr_Claims = ex_sd_claims, sr_Subject = ''user:al'', sr_Scope = ''read write'',
       sr_RevealedClaims = disclosed reveal ''al@x'' ''Al''\<rparr>"
proof -
  have "SDUserValidator_Validate ex_sd_lib (NewSDUserValidator (su_issuerID ex_sd_issuer) (ec_Public (su_key ex_sd_issuer)))
      minute (Present ex_sd_token reveal) ''https://idp''
    = Inr \<lparr>sr_Claims = issue_sd_claims ex_sd_lib ex_sd_issuer ''user:al'' ''read write'' ''https://idp'' (st_Disclosures ex_sd_token) 0,
        sr_Subject = ''user:al'', sr_Scope = ''read write'', sr_RevealedClaims = disclosed reveal ''al@x'' ''Al''\<rparr>"
    by (rule Validate_presented [OF ex_sd_laws(3,6,4,5) ex_sd_Issue])
      (simp_all add: ex_sd_simps ex_sd_parts ex_sd_claims_def [symmetric] ex_sd_wire, simp_all add: char_simps)
  then show ?thesis
    by (simp add: ex_sd_simps ex_sd_parts ex_sd_claims_def)
qed

lemma ex_sd_split: "hd (split_on (CHR ''~'') (Present ex_sd_token reveal)) = st_JWT ex_sd_token"
proof -
  have "utf8 ''email''" "utf8 ''given_name''" "utf8 ''al@x''" "utf8 ''Al''"
    by (simp_all add: char_simps)
  then have "\<forall>d \<in> set (filter (\<lambda>d. ds_Name d \<in> set reveal) ex_disclosures). made d"
    by (auto simp: made_def ex_disclosures_def)
  then show ?thesis
    using split_presentation [OF compact_no_tilde [OF ex_token_compact]] by (simp add: Present_def ex_sd_simps)
qed

section \<open>Properties\<close>

text \<open>C33: Selective disclosure: the validator accepts every presentation that the holder makes of an
  issued token while it lasts, and learns the user, the scope and the value of exactly those of the
  two disclosable claims whose names the holder chose.\<close>

theorem selective_disclosure:
  assumes "jwt_complete L" "jwt_compact L" "jwt_es256 L" "jwt_dates L"
    and "SDUserIssuer_Issue L u sub email gn scope audience now salts rnd = Inr t" "utf8 email" "utf8 gn"
    and "wire_ok L (typ_header L SDUserTokenType) (sd_payload (issue_sd_claims L u sub scope audience (st_Disclosures t) now))"
    and "now \<le> t0" "t0 < jwt_numeric_date L (now + su_ttl u)"
  shows "\<exists>r. SDUserValidator_Validate L (NewSDUserValidator (su_issuerID u) (ec_Public (su_key u))) t0
        (Present t reveal) audience = Inr r \<and> sr_Subject r = sub \<and> sr_Scope r = scope \<and>
      sr_RevealedClaims r ''email'' = (if ''email'' \<in> set reveal then Some email else None) \<and>
      sr_RevealedClaims r ''given_name'' = (if ''given_name'' \<in> set reveal then Some gn else None) \<and>
      dom (sr_RevealedClaims r) = set reveal \<inter> {''email'', ''given_name''}"
  using Validate_presented [OF assms] by (auto simp: disclosed_def split: if_splits)

theorem selective_disclosure_witness:
  "\<exists>r. SDUserValidator_Validate ex_sd_lib (NewSDUserValidator ''https://idp'' (ec_Public key_one)) minute
        (Present ex_sd_token [''given_name'', ''phone'']) ''https://idp'' = Inr r \<and>
     sr_RevealedClaims r ''email'' = None \<and> sr_RevealedClaims r ''given_name'' = Some ''Al''"
proof -
  have "\<exists>r. SDUserValidator_Validate ex_sd_lib (NewSDUserValidator (su_issuerID ex_sd_issuer) (ec_Public (su_key ex_sd_issuer)))
        minute (Present ex_sd_token [''given_name'', ''phone'']) ''https://idp'' = Inr r \<and> sr_Subject r = ''user:al'' \<and>
      sr_Scope r = ''read write'' \<and>
      sr_RevealedClaims r ''email'' = (if ''email'' \<in> set [''given_name'', ''phone''] then Some ''al@x'' else None) \<and>
      sr_RevealedClaims r ''given_name'' = (if ''given_name'' \<in> set [''given_name'', ''phone''] then Some ''Al'' else None) \<and>
      dom (sr_RevealedClaims r) = set [''given_name'', ''phone''] \<inter> {''email'', ''given_name''}"
    by (rule selective_disclosure [OF ex_sd_laws(3,6,4,5) ex_sd_Issue])
      (simp_all add: ex_sd_simps ex_sd_parts ex_sd_claims_def [symmetric] ex_sd_wire, simp_all add: char_simps)
  then show ?thesis
    by (auto simp: ex_sd_simps)
qed



end
