(* ===== verification/Obo.thy ===== *)
theory Obo
  imports SdJwt
begin

text \<open>
  Package \<open>pkg/obo\<close>, files \<open>types.go\<close>, \<open>user.go\<close>, \<open>issuer.go\<close> and \<open>validator.go\<close>: user tokens, the
  On-Behalf-Of issuer that joins a user's token and an agent's token in one delegated token, and the
  resource server's validator.
\<close>

definition OBOTokenType :: string where
  "OBOTokenType = ''obo+jwt''"

definition UserTokenType :: string where
  "UserTokenType = ''user+jwt''"

definition defaultOBOTTL :: duration where
  "defaultOBOTTL = 5 * minute"

section \<open>Scopes\<close>

text \<open>\<open>scopeSet\<close> and the scopes granted: all of the user's when none is requested, else the
  requested ones, each of which the user must have granted.\<close>

definition scopeSet :: "string \<Rightarrow> string set" where
  "scopeSet scope = set (Prelude.fields scope)"

datatype user_error = UserSubRequired | UserAudienceRequired | SignUserToken string
  | UserTokenEmpty | ParseUserToken string

datatype obo_error = AgentTokenRequired | UserTokenRequired | OBOAudienceRequired | OBOAgentInvalid validate_error
  | NoSDUserValidator | OBOSDUserInvalid sd_error | NilUserValidator | OBOUserInvalid user_error
  | ScopeNotGranted string | SignOBO string
  | OBOTokenEmpty | ParseOBO string | MissingOBOSub | MissingActSub

definition resolveScope :: "string \<Rightarrow> string \<Rightarrow> obo_error + string" where
  "resolveScope granted requested =
     (if requested = [] then Inr granted
      else (case find (\<lambda>s. s \<notin> scopeSet granted) (Prelude.fields requested) of
         Some s \<Rightarrow> Inl (ScopeNotGranted s)
       | None \<Rightarrow> Inr (join_with '' '' (Prelude.fields requested))))"

text \<open>A part of a string before \<open>x\<close> in which no white space begins.\<close>

definition spaceless :: "string \<Rightarrow> string \<Rightarrow> bool" where
  "spaceless w x \<longleftrightarrow> (\<forall>u t. w = u @ t \<longrightarrow> t \<noteq> [] \<longrightarrow> space_len (t @ x) = 0)"

lemma spaceless_Nil [simp]: "spaceless [] x"
  by (simp add: spaceless_def)

lemma spaceless_Cons: "spaceless (c # w) x \<longleftrightarrow> space_len (c # w @ x) = 0 \<and> spaceless w x"
  unfolding spaceless_def by (force simp: Cons_eq_append_conv)

lemma spaceless_snoc: "spaceless (w @ [c]) x \<longleftrightarrow> spaceless w (c # x) \<and> space_len (c # x) = 0"
  by (induction w) (auto simp: spaceless_Cons)

definition space1 :: "char \<Rightarrow> bool" where
  "space1 a \<longleftrightarrow> byte a \<in> {9, 10, 11, 12, 13, 32}"

definition space2 :: "char \<Rightarrow> char \<Rightarrow> bool" where
  "space2 a b \<longleftrightarrow> byte a = 194 \<and> byte b \<in> {133, 160}"

definition space3 :: "char \<Rightarrow> char \<Rightarrow> char \<Rightarrow> bool" where
  "space3 a b c \<longleftrightarrow> byte a = 225 \<and> byte b = 154 \<and> byte c = 128
     \<or> byte a = 226 \<and> byte b = 128 \<and> (128 \<le> byte c \<and> byte c \<le> 138 \<or> byte c \<in> {168, 169, 175})
     \<or> byte a = 226 \<and> byte b = 129 \<and> byte c = 159 \<or> byte a = 227 \<and> byte b = 128 \<and> byte c = 128"

lemma space_len_simps [simp]:
  "space_len [] = 0"
  "space_len [a] = (if space1 a then 1 else 0)"
  "space_len [a, b] = (if space1 a then 1 else if space2 a b then 2 else 0)"
  "space_len (a # b # c # r) = (if space1 a then 1 else if space2 a b then 2 else if space3 a b c then 3 else 0)"
  by (simp_all add: space_len_def space1_def space2_def space3_def)

text \<open>A blank is white space of its own and belongs to no longer rune.\<close>

lemma blank_space [simp]:
  "space1 (CHR '' '')" "\<not> space2 a (CHR '' '')" "\<not> space3 a (CHR '' '') c" "\<not> space3 a b (CHR '' '')"
  by (simp_all add: space1_def space2_def space3_def byte_def)

lemma space_len_prefix: "t \<noteq> [] \<Longrightarrow> space_len (t @ x) = 0 \<Longrightarrow> space_len t = 0"
proof (induction t rule: induct_list012)
  case (2 a)
  then show ?case
    by (cases x; cases "tl x") (auto split: if_splits)
next
  case (3 a b t)
  then show ?case
    by (cases t; cases x) (auto split: if_splits)
qed simp

lemma space_len_space: "t \<noteq> [] \<Longrightarrow> space_len t = 0 \<Longrightarrow> space_len (t @ CHR '' '' # x) = 0"
proof (induction t rule: induct_list012)
  case (2 a)
  then show ?case
    by (cases x) (auto split: if_splits)
next
  case (3 a b t)
  then show ?case
    by (cases t) (auto split: if_splits)
qed simp

lemma spaceless_prefix: "spaceless w x \<Longrightarrow> spaceless w []"
proof (induction w)
  case (Cons c w)
  then show ?case
    using space_len_prefix [of "c # w" x] by (simp add: spaceless_Cons)
qed simp

lemma spaceless_space: "spaceless w [] \<Longrightarrow> spaceless w (CHR '' '' # x)"
proof (induction w)
  case (Cons c w)
  then show ?case
    using space_len_space [of "c # w" x] by (simp add: spaceless_Cons)
qed simp

lemma fields_acc_spaceless:
  "spaceless (rev acc) s \<Longrightarrow> \<forall>f \<in> set (fields_acc acc s). f \<noteq> [] \<and> spaceless f []"
proof (induction acc s rule: fields_acc.induct)
  case (2 acc x xs)
  then show ?case
    using spaceless_prefix [of "rev acc"] by (auto simp: Let_def spaceless_snoc)
qed auto

lemma fields_words: "f \<in> set (Prelude.fields s) \<Longrightarrow> f \<noteq> [] \<and> spaceless f []"
  using fields_acc_spaceless [of "[]" s] by (simp add: Prelude.fields_def)

lemma fields_acc_word: "spaceless w x \<Longrightarrow> fields_acc acc (w @ x) = fields_acc (rev w @ acc) x"
  by (induction w arbitrary: acc) (auto simp: spaceless_Cons)

lemma space_len_blank [simp]: "space_len (CHR '' '' # x) = 1"
  by (cases x; cases "tl x") simp_all

lemma fields_join_words:
  "\<forall>f \<in> set ws. f \<noteq> [] \<and> spaceless f [] \<Longrightarrow> Prelude.fields (join_with '' '' ws) = ws"
proof (induction ws rule: induct_list012)
  case (2 w)
  then show ?case
    using fields_acc_word [of w "[]" "[]"] by (simp add: Prelude.fields_def)
next
  case (3 w v ws)
  then show ?case
    using fields_acc_word [OF spaceless_space [of w "join_with '' '' (v # ws)"], of "[]"]
    by (simp add: Prelude.fields_def)
qed (simp add: Prelude.fields_def)

lemma resolveScope_ok:
  "resolveScope granted requested = Inr s \<longleftrightarrow>
     (if requested = [] then s = granted
      else scopeSet requested \<subseteq> scopeSet granted \<and> s = join_with '' '' (Prelude.fields requested))"
proof (cases "find (\<lambda>s. s \<notin> scopeSet granted) (Prelude.fields requested)")
  case None
  then have "scopeSet requested \<subseteq> scopeSet granted"
    by (auto simp: find_None_iff scopeSet_def [of requested])
  with None show ?thesis
    by (auto simp: resolveScope_def)
next
  case (Some x)
  then have "\<not> scopeSet requested \<subseteq> scopeSet granted"
    by (auto simp: find_Some_iff scopeSet_def [of requested] dest: nth_mem)
  with Some show ?thesis
    by (auto simp: resolveScope_def)
qed

lemma resolveScope_set:
  "resolveScope granted requested = Inr s \<Longrightarrow>
     scopeSet s = (if requested = [] then scopeSet granted else scopeSet requested) \<and> scopeSet s \<subseteq> scopeSet granted"
  using fields_join_words [of "Prelude.fields requested"] fields_words
  by (auto simp: resolveScope_ok scopeSet_def split: if_splits)

section \<open>User tokens\<close>

record UserClaims =
  uc_reg :: registered_claims
  uc_Scope :: string
  uc_Email :: string

definition user_payload :: "UserClaims \<Rightarrow> payload" where
  "user_payload c = \<lparr>pl_reg = uc_reg c,
     pl_priv = omit_empty ''scope'' (uc_Scope c) @ omit_empty ''email'' (uc_Email c)\<rparr>"

definition user_claims :: "payload \<Rightarrow> UserClaims option" where
  "user_claims pl = do {
     scope \<leftarrow> str_field ''scope'' (pl_priv pl);
     email \<leftarrow> str_field ''email'' (pl_priv pl);
     Some \<lparr>uc_reg = pl_reg pl, uc_Scope = scope, uc_Email = email\<rparr>}"

lemma user_claims_payload [simp]: "user_claims (user_payload c) = Some c"
  by (simp add: user_claims_def user_payload_def json_field_defs omit_empty_def)

lemma user_claims_reg: "user_claims pl = Some c \<Longrightarrow> uc_reg c = pl_reg pl"
  by (auto simp: user_claims_def split: Option.bind_splits)

record UserIssuer =
  ui_issuerID :: string
  ui_key :: ec_private
  ui_ttl :: duration

definition NewUserIssuer :: "string \<Rightarrow> ec_private \<Rightarrow> duration \<Rightarrow> UserIssuer" where
  "NewUserIssuer issuerID key ttl =
     \<lparr>ui_issuerID = issuerID, ui_key = key, ui_ttl = (if ttl = 0 then defaultUserTTL else ttl)\<rparr>"

definition issue_user_claims ::
  "ext \<Rightarrow> UserIssuer \<Rightarrow> string \<Rightarrow> string \<Rightarrow> string \<Rightarrow> string \<Rightarrow> time \<Rightarrow> bytes \<Rightarrow> UserClaims" where
  "issue_user_claims L u sub email scope audience now jti = \<lparr>
     uc_reg = issued_claims L (ui_issuerID u) sub [audience] now (ui_ttl u) (b64_encode jti),
     uc_Scope = scope, uc_Email = email\<rparr>"

definition UserIssuer_Issue :: "ext \<Rightarrow> UserIssuer \<Rightarrow> string \<Rightarrow> string \<Rightarrow> string \<Rightarrow> string
    \<Rightarrow> time \<Rightarrow> bytes \<Rightarrow> bytes \<Rightarrow> user_error + string" where
  "UserIssuer_Issue L u sub email scope audience now jti rnd =
     (if sub = [] then Inl UserSubRequired
      else if audience = [] then Inl UserAudienceRequired
      else (case jwt_sign L rnd (typ_header L UserTokenType)
              (user_payload (issue_user_claims L u sub email scope audience now jti)) (ui_key u) of
         Inl e \<Rightarrow> Inl (SignUserToken e)
       | Inr token \<Rightarrow> Inr token))"

text \<open>The \<open>parser\<close> field of a validator is set and never used: \<open>Validate\<close> makes its own.\<close>

record UserValidator =
  uv_issuerID :: string
  uv_pubKey :: ec_public

definition NewUserValidator :: "string \<Rightarrow> ec_public \<Rightarrow> UserValidator" where
  "NewUserValidator issuerID pubKey = \<lparr>uv_issuerID = issuerID, uv_pubKey = pubKey\<rparr>"

definition UserValidator_Validate ::
  "ext \<Rightarrow> UserValidator \<Rightarrow> time \<Rightarrow> string \<Rightarrow> string \<Rightarrow> user_error + UserClaims" where
  "UserValidator_Validate L v now token audience =
     (if token = [] then Inl UserTokenEmpty
      else (case parse_with_claims L (issuer_opts (uv_issuerID v) (Some audience)) now token user_claims
                   (typ_key UserTokenType (uv_pubKey v)) of
         Inl e \<Rightarrow> Inl (ParseUserToken e)
       | Inr (_, claims) \<Rightarrow> Inr claims))"

section \<open>OBO tokens\<close>

record OBOClaims =
  ob_reg :: registered_claims
  ob_Act :: "string option"
  ob_Scope :: string
  ob_Email :: string

text \<open>The \<open>ActorClaims\<close> of this package have the field \<open>sub\<close> alone.\<close>

definition obo_payload :: "OBOClaims \<Rightarrow> payload" where
  "obo_payload c = \<lparr>pl_reg = ob_reg c,
     pl_priv = (case ob_Act c of None \<Rightarrow> [] | Some s \<Rightarrow> [(''act'', JObj [(''sub'', JStr s)])])
       @ omit_empty ''scope'' (ob_Scope c) @ omit_empty ''email'' (ob_Email c)\<rparr>"

definition obo_claims :: "payload \<Rightarrow> OBOClaims option" where
  "obo_claims pl = do {
     act \<leftarrow> ptr_field ''act'' (str_field ''sub'') (pl_priv pl);
     scope \<leftarrow> str_field ''scope'' (pl_priv pl);
     email \<leftarrow> str_field ''email'' (pl_priv pl);
     Some \<lparr>ob_reg = pl_reg pl, ob_Act = act, ob_Scope = scope, ob_Email = email\<rparr>}"

lemma obo_claims_payload [simp]: "obo_claims (obo_payload c) = Some c"
  by (cases c; cases "ob_Act c")
    (auto simp: obo_claims_def obo_payload_def json_field_defs ptr_field_def omit_empty_def)

lemma obo_claims_reg: "obo_claims pl = Some c \<Longrightarrow> ob_reg c = pl_reg pl"
  by (auto simp: obo_claims_def split: Option.bind_splits)

section \<open>The OBO issuer\<close>

record OBOIssuer =
  oi_issuerID :: string
  oi_key :: ec_private
  oi_agentValidator :: AgentValidator
  oi_userValidator :: "UserValidator option"
  oi_sdUserValidator :: "SDUserValidator option"
  oi_ttl :: duration

definition NewOBOIssuer ::
  "string \<Rightarrow> ec_private \<Rightarrow> AgentValidator \<Rightarrow> UserValidator option \<Rightarrow> duration \<Rightarrow> OBOIssuer" where
  "NewOBOIssuer issuerID key agentValidator userValidator ttl = \<lparr>oi_issuerID = issuerID, oi_key = key,
     oi_agentValidator = agentValidator, oi_userValidator = userValidator, oi_sdUserValidator = None,
     oi_ttl = (if ttl = 0 then defaultOBOTTL else ttl)\<rparr>"

definition WithSDUserValidator :: "SDUserValidator \<Rightarrow> OBOIssuer \<Rightarrow> OBOIssuer" where
  "WithSDUserValidator v o' = o'\<lparr>oi_sdUserValidator := Some v\<rparr>"

text \<open>The readings of the clock: for the agent's token, for the user's, and to date the result.\<close>

record obo_env =
  oe_agent :: time
  oe_user :: time
  oe_now :: time
  oe_jti :: bytes
  oe_rnd :: bytes

text \<open>The user's subject, scope and email.  A nil \<open>userValidator\<close> panics on a plain token.\<close>

definition user_identity ::
  "ext \<Rightarrow> OBOIssuer \<Rightarrow> obo_env \<Rightarrow> string \<Rightarrow> obo_error + string \<times> string \<times> string" where
  "user_identity L o' x userToken =
     (if CHR ''~'' \<in> set userToken
      then (case oi_sdUserValidator o' of
        None \<Rightarrow> Inl NoSDUserValidator
      | Some v \<Rightarrow> (case SDUserValidator_Validate L v (oe_user x) userToken (oi_issuerID o') of
          Inl e \<Rightarrow> Inl (OBOSDUserInvalid e)
        | Inr r \<Rightarrow> Inr (sr_Subject r, sr_Scope r,
            (case sr_RevealedClaims r ''email'' of None \<Rightarrow> [] | Some e \<Rightarrow> e))))
      else (case oi_userValidator o' of
        None \<Rightarrow> Inl NilUserValidator
      | Some v \<Rightarrow> (case UserValidator_Validate L v (oe_user x) userToken (oi_issuerID o') of
          Inl e \<Rightarrow> Inl (OBOUserInvalid e)
        | Inr c \<Rightarrow> Inr (rc_Subject (uc_reg c), uc_Scope c, []))))"

definition issue_obo_claims :: "ext \<Rightarrow> OBOIssuer \<Rightarrow> obo_env \<Rightarrow> string \<Rightarrow> string \<Rightarrow> string \<Rightarrow> string \<Rightarrow> string \<Rightarrow> OBOClaims" where
  "issue_obo_claims L o' x user agent targetAudience grantedScope email = \<lparr>
     ob_reg = issued_claims L (oi_issuerID o') user [targetAudience] (oe_now x) (oi_ttl o') (b64_encode (oe_jti x)),
     ob_Act = Some agent, ob_Scope = grantedScope, ob_Email = email\<rparr>"

definition OBOIssuer_Issue ::
  "ext \<Rightarrow> OBOIssuer \<Rightarrow> obo_env \<Rightarrow> string \<Rightarrow> string \<Rightarrow> string \<Rightarrow> string \<Rightarrow> obo_error + string" where
  "OBOIssuer_Issue L o' x agentToken userToken targetAudience requestedScope =
     (if agentToken = [] then Inl AgentTokenRequired
      else if userToken = [] then Inl UserTokenRequired
      else if targetAudience = [] then Inl OBOAudienceRequired
      else (case AgentValidator_Validate L (oi_agentValidator o') (oe_agent x) agentToken of
        Inl e \<Rightarrow> Inl (OBOAgentInvalid e)
      | Inr agentResult \<Rightarrow> (case user_identity L o' x userToken of
          Inl e \<Rightarrow> Inl e
        | Inr (userSubject, userScope, userEmail) \<Rightarrow> (case resolveScope userScope requestedScope of
            Inl e \<Rightarrow> Inl e
          | Inr grantedScope \<Rightarrow>
              (case jwt_sign L (oe_rnd x) (typ_header L OBOTokenType)
                      (obo_payload (issue_obo_claims L o' x userSubject (rc_Subject (ac_reg (va_Claims agentResult)))
                         targetAudience grantedScope userEmail)) (oi_key o') of
                 Inl e \<Rightarrow> Inl (SignOBO e)
               | Inr token \<Rightarrow> Inr token)))))"

section \<open>The resource server's validator\<close>

record OBOValidator =
  ov_issuerID :: string
  ov_pubKey :: ec_public

record ValidateResult =
  vr_Claims :: OBOClaims
  vr_UserID :: string
  vr_AgentID :: string
  vr_Scope :: string
  vr_Email :: string

definition NewOBOValidator :: "string \<Rightarrow> ec_public \<Rightarrow> OBOValidator" where
  "NewOBOValidator issuerID pubKey = \<lparr>ov_issuerID = issuerID, ov_pubKey = pubKey\<rparr>"

definition OBOValidator_Validate ::
  "ext \<Rightarrow> OBOValidator \<Rightarrow> time \<Rightarrow> string \<Rightarrow> string \<Rightarrow> obo_error + ValidateResult" where
  "OBOValidator_Validate L v now token audience =
     (if token = [] then Inl OBOTokenEmpty
      else (case parse_with_claims L (issuer_opts (ov_issuerID v) (Some audience)) now token obo_claims
                   (typ_key OBOTokenType (ov_pubKey v)) of
        Inl e \<Rightarrow> Inl (ParseOBO e)
      | Inr (_, claims) \<Rightarrow>
          if rc_Subject (ob_reg claims) = [] then Inl MissingOBOSub
          else (case ob_Act claims of
            None \<Rightarrow> Inl MissingActSub
          | Some agent \<Rightarrow>
              if agent = [] then Inl MissingActSub
              else Inr \<lparr>vr_Claims = claims, vr_UserID = rc_Subject (ob_reg claims), vr_AgentID = agent,
                vr_Scope = ob_Scope claims, vr_Email = ob_Email claims\<rparr>)))"

section \<open>Lemmas\<close>

lemma UserIssuer_Issue_ok:
  "UserIssuer_Issue L u sub email scope audience now jti rnd = Inr tok \<longleftrightarrow> sub \<noteq> [] \<and> audience \<noteq> [] \<and>
     jwt_sign L rnd (typ_header L UserTokenType)
       (user_payload (issue_user_claims L u sub email scope audience now jti)) (ui_key u) = Inr tok"
  by (auto simp: UserIssuer_Issue_def split: sum.splits)

lemma UserValidator_Validate_ok:
  "UserValidator_Validate L v now tok audience = Inr c \<longleftrightarrow> tok \<noteq> [] \<and>
     (\<exists>h. parse_with_claims L (issuer_opts (uv_issuerID v) (Some audience)) now tok user_claims
       (typ_key UserTokenType (uv_pubKey v)) = Inr (h, c))"
  by (auto simp: UserValidator_Validate_def split: sum.splits)

lemma OBOIssuer_Issue_ok:
  "OBOIssuer_Issue L o' x at ut ta req = Inr tok \<longleftrightarrow> at \<noteq> [] \<and> ut \<noteq> [] \<and> ta \<noteq> [] \<and>
     (\<exists>va user scope email granted.
        AgentValidator_Validate L (oi_agentValidator o') (oe_agent x) at = Inr va \<and>
        user_identity L o' x ut = Inr (user, scope, email) \<and> resolveScope scope req = Inr granted \<and>
        jwt_sign L (oe_rnd x) (typ_header L OBOTokenType)
          (obo_payload (issue_obo_claims L o' x user (rc_Subject (ac_reg (va_Claims va))) ta granted email)) (oi_key o')
          = Inr tok)"
  by (auto simp: OBOIssuer_Issue_def split: sum.splits)

lemma OBOValidator_Validate_ok:
  "OBOValidator_Validate L v now tok audience = Inr r \<longleftrightarrow> tok \<noteq> [] \<and>
     (\<exists>h. parse_with_claims L (issuer_opts (ov_issuerID v) (Some audience)) now tok obo_claims
        (typ_key OBOTokenType (ov_pubKey v)) = Inr (h, vr_Claims r)) \<and>
     vr_UserID r = rc_Subject (ob_reg (vr_Claims r)) \<and> vr_UserID r \<noteq> [] \<and>
     ob_Act (vr_Claims r) = Some (vr_AgentID r) \<and> vr_AgentID r \<noteq> [] \<and>
     vr_Scope r = ob_Scope (vr_Claims r) \<and> vr_Email r = ob_Email (vr_Claims r)"
  by (cases r) (auto simp: OBOValidator_Validate_def split: sum.splits option.splits if_splits)

lemma Validate_issued_obo:
  assumes "jwt_complete L" "jwt_es256 L" "jwt_dates L"
    and sign: "jwt_sign L (oe_rnd x) (typ_header L OBOTokenType)
      (obo_payload (issue_obo_claims L o' x user agent ta granted email)) (oi_key o') = Inr tok" and "tok \<noteq> []"
    and "wire_ok L (typ_header L OBOTokenType) (obo_payload (issue_obo_claims L o' x user agent ta granted email))"
    and "user \<noteq> []" "agent \<noteq> []" "oe_now x \<le> t" "t < jwt_numeric_date L (oe_now x + oi_ttl o')"
  shows "OBOValidator_Validate L (NewOBOValidator (oi_issuerID o') (ec_Public (oi_key o'))) t tok ta
    = Inr \<lparr>vr_Claims = issue_obo_claims L o' x user agent ta granted email, vr_UserID = user, vr_AgentID = agent,
        vr_Scope = granted, vr_Email = email\<rparr>"
proof -
  let ?c = "issue_obo_claims L o' x user agent ta granted email"
  have reg: "pl_reg (obo_payload ?c) = issued_claims L (oi_issuerID o') user [ta] (oe_now x) (oi_ttl o') (b64_encode (oe_jti x))"
    by (simp add: obo_payload_def issue_obo_claims_def)
  have "parse_with_claims L (issuer_opts (oi_issuerID o') (Some ta)) t tok obo_claims
      (typ_key OBOTokenType (ec_Public (oi_key o'))) = Inr (typ_header L OBOTokenType, ?c)"
    by (rule parse_issued [where dec = obo_claims, OF assms(1-3) sign assms(6) reg _ _ assms(9,10)])
      (simp_all add: OBOTokenType_def)
  then show ?thesis
    using assms(5,7,8) by (simp add: OBOValidator_Validate_ok NewOBOValidator_def, simp add: issue_obo_claims_def)
qed

lemma Issue_delegates:
  assumes "OBOIssuer_Issue L o' x at ut ta req = Inr tok"
    and "AgentValidator_Validate L (oi_agentValidator o') (oe_agent x) at = Inr va"
    and "user_identity L o' x ut = Inr (user, scope, email)"
  obtains granted where "resolveScope scope req = Inr granted"
    and "jwt_sign L (oe_rnd x) (typ_header L OBOTokenType)
      (obo_payload (issue_obo_claims L o' x user (rc_Subject (ac_reg (va_Claims va))) ta granted email)) (oi_key o') = Inr tok"
  using assms by (auto simp: OBOIssuer_Issue_ok)

text \<open>The identity behind a presented SD-JWT.\<close>

lemma Present_tilde: "CHR ''~'' \<in> set (Present t reveal)"
  by (cases "map Disclosure_Wire (filter (\<lambda>d. ds_Name d \<in> set reveal) (st_Disclosures t))")
    (simp_all add: Present_def buildSDJWT_def)

lemma user_identity_presented:
  assumes "jwt_complete L" "jwt_compact L" "jwt_es256 L" "jwt_dates L"
    and "SDUserIssuer_Issue L u sub email gn scope (oi_issuerID o') now salts rnd = Inr t" "utf8 email" "utf8 gn"
    and "wire_ok L (typ_header L SDUserTokenType)
           (sd_payload (issue_sd_claims L u sub scope (oi_issuerID o') (st_Disclosures t) now))"
    and "now \<le> oe_user x" "oe_user x < jwt_numeric_date L (now + su_ttl u)"
    and "oi_sdUserValidator o' = Some (NewSDUserValidator (su_issuerID u) (ec_Public (su_key u)))"
  shows "user_identity L o' x (Present t reveal)
    = Inr (sub, scope, if ''email'' \<in> set reveal then email else [])"
proof -
  show ?thesis
    using Validate_presented [OF assms(1-10), of reveal] assms(11) Present_tilde [of t reveal]
    by (simp add: user_identity_def disclosed_def)
qed

section \<open>Closed instances\<close>

definition ex_obo_issuer :: OBOIssuer where
  "ex_obo_issuer = WithSDUserValidator (NewSDUserValidator ''https://idp'' (ec_Public key_one))
     (NewOBOIssuer ''https://idp'' key_two ex_validator None 0)"

definition ex_obo_env :: obo_env where
  "ex_obo_env = \<lparr>oe_agent = 0, oe_user = 0, oe_now = 0, oe_jti = ex_jti, oe_rnd = []\<rparr>"

definition ex_obo_claims :: OBOClaims where
  "ex_obo_claims = issue_obo_claims (ledger_ext []) ex_obo_issuer ex_obo_env ''user:al'' ''spiffe://a/b'' ''api'' ''read'' ''al@x''"

text \<open>The agent's tokens, the user's and the delegated one.\<close>

definition ex_obo_ledger :: "ledger_entry list" where
  "ex_obo_ledger = ex_ledger @ [ex_sd_entry, \<lparr>le_text = ex_token ''obo'', le_signer = key_two,
     le_token = \<lparr>tk_header = typ_header (ledger_ext []) OBOTokenType, tk_payload = obo_payload ex_obo_claims\<rparr>\<rparr>]"

definition ex_obo_lib :: ext where
  "ex_obo_lib = ledger_ext ex_obo_ledger"

lemma ex_obo_simps:
  "oi_issuerID ex_obo_issuer = ''https://idp''" "oi_key ex_obo_issuer = key_two" "oi_ttl ex_obo_issuer = 5 * minute"
  "oi_agentValidator ex_obo_issuer = ex_validator"
  "oi_sdUserValidator ex_obo_issuer = Some (NewSDUserValidator (su_issuerID ex_sd_issuer) (ec_Public (su_key ex_sd_issuer)))"
  "oe_agent ex_obo_env = 0" "oe_user ex_obo_env = 0" "oe_now ex_obo_env = 0" "oe_jti ex_obo_env = ex_jti"
  by (simp_all add: ex_obo_issuer_def NewOBOIssuer_def WithSDUserValidator_def defaultOBOTTL_def ex_obo_env_def ex_sd_simps)

lemma ex_obo_laws:
  "jwt_sound ex_obo_lib" "jwt_complete ex_obo_lib" "jwt_compact ex_obo_lib" "jwt_es256 ex_obo_lib" "jwt_dates ex_obo_lib"
proof -
  show "jwt_complete ex_obo_lib"
    unfolding ex_obo_lib_def by (rule ledger_complete) (simp add: ex_obo_ledger_def ex_ledger_def ex_entry_def ex_sd_entry_def)
  have "\<forall>e \<in> set ex_obo_ledger. \<exists>s. le_text e = ex_token s \<and> rc_Issuer (pl_reg (tk_payload (le_token e))) = ''https://idp''"
    by (auto simp: ex_obo_ledger_def ex_ledger_def ex_entry_def ex_sd_entry_def agent_payload_def ex_claims_def
        issue_claims_def sd_payload_def ex_sd_claims_def issue_sd_claims_def ex_sd_simps obo_payload_def
        ex_obo_claims_def issue_obo_claims_def ex_obo_simps)
  then show "jwt_compact ex_obo_lib"
    unfolding ex_obo_lib_def by (intro ledger_compact) (auto simp: ex_token_compact)
qed (simp_all only: ex_obo_lib_def ledger_laws)

lemma ex_obo_parts:
  "typ_header ex_obo_lib = typ_header (ledger_ext [])"
  "issue_sd_claims ex_obo_lib = issue_sd_claims (ledger_ext [])"
  "issue_obo_claims ex_obo_lib = issue_obo_claims (ledger_ext [])"
  "jwt_numeric_date ex_obo_lib d = d - d mod second"
  unfolding ex_obo_lib_def
  by (rule ledger_parts(5), simp add: fun_eq_iff issue_sd_claims_def issued_claims_ledger [of ex_obo_ledger],
      simp add: fun_eq_iff issue_obo_claims_def issued_claims_ledger [of ex_obo_ledger], simp add: ledger_ext_def)

lemma ex_obo_wire:
  "wire_ok ex_obo_lib (typ_header (ledger_ext []) SDUserTokenType) (sd_payload ex_sd_claims)"
  "wire_ok ex_obo_lib (typ_header (ledger_ext []) OBOTokenType) (obo_payload ex_obo_claims)"
proof -
  show "wire_ok ex_obo_lib (typ_header (ledger_ext []) SDUserTokenType) (sd_payload ex_sd_claims)"
    using ex_sd_wire by (simp add: wire_ok_def claims_wire_def ex_obo_parts ex_sd_parts)
  show "wire_ok ex_obo_lib (typ_header (ledger_ext []) OBOTokenType) (obo_payload ex_obo_claims)"
    by (simp add: wire_ok_def claims_wire_def obo_payload_def ex_obo_claims_def issue_obo_claims_def ex_obo_parts
      ex_obo_simps typ_header_def ledger_ext_def [of "[]"] OBOTokenType_def issued_claims_def dated_claims_def
      omit_empty_def char_simps)
qed

lemma ex_obo_agent:
  "AgentValidator_Validate ex_obo_lib (oi_agentValidator ex_obo_issuer) (oe_agent ex_obo_env) (ex_token ''0'')
     = Inr \<lparr>va_Claims = ex_claims 0, va_WorkloadKey = ec_Public key_two\<rparr>"
  using Validate_ledger_append [of ex_ledger ex_validator 0 "ex_token ''0''"] ex_Validate(1) [of 0]
  by (simp add: ex_obo_lib_def ex_obo_ledger_def ex_lib_def ex_obo_simps)

lemma ex_obo_headers:
  "typ_header (ledger_ext []) SDUserTokenType \<noteq> ex_header" "typ_header (ledger_ext []) OBOTokenType \<noteq> ex_header"
  "typ_header (ledger_ext []) OBOTokenType \<noteq> typ_header (ledger_ext []) SDUserTokenType"
proof -
  have "header_str ''typ'' ex_header = agentTokenType"
    by (simp add: ex_header_def)
  then show "typ_header (ledger_ext []) SDUserTokenType \<noteq> ex_header" "typ_header (ledger_ext []) OBOTokenType \<noteq> ex_header"
    "typ_header (ledger_ext []) OBOTokenType \<noteq> typ_header (ledger_ext []) SDUserTokenType"
    by (auto simp: agentTokenType_def SDUserTokenType_def OBOTokenType_def dest!: arg_cong [where f = "header_str ''typ''"])
qed

lemma ex_obo_sign:
  "jwt_sign ex_obo_lib rnd (typ_header (ledger_ext []) SDUserTokenType) (sd_payload ex_sd_claims) key_one = Inr (ex_token ''sd'')"
  "jwt_sign ex_obo_lib rnd (typ_header (ledger_ext []) OBOTokenType) (obo_payload ex_obo_claims) key_two = Inr (ex_token ''obo'')"
  using ex_obo_headers
  by (auto simp: ex_obo_lib_def sign_ledger ex_obo_ledger_def ex_ledger_def ex_entry_def ex_sd_entry_def)

lemma ex_obo_user:
  "user_identity ex_obo_lib ex_obo_issuer ex_obo_env (Present ex_sd_token [''email''])
     = Inr (''user:al'', ''read write'', ''al@x'')"
proof -
  have "SDUserIssuer_Issue ex_obo_lib ex_sd_issuer ''user:al'' ''al@x'' ''Al'' ''read write'' (oi_issuerID ex_obo_issuer)
      0 ex_salts [] = Inr ex_sd_token"
    using ex_obo_sign(1) by (simp add: SDUserIssuer_Issue_ok ex_obo_parts ex_sd_token_def ex_obo_simps
        ex_sd_claims_def [symmetric], simp add: ex_disclosures_def ex_sd_simps)
  from user_identity_presented [OF ex_obo_laws(2-5) this, of ex_obo_env "[''email'']"] show ?thesis
    using ex_obo_wire(1) by (simp add: ex_obo_simps ex_sd_simps ex_obo_parts ex_sd_claims_def char_simps)
qed

lemma ex_obo_Issue:
  "OBOIssuer_Issue ex_obo_lib ex_obo_issuer ex_obo_env (ex_token ''0'') (Present ex_sd_token [''email'']) ''api'' ''read''
     = Inr (ex_token ''obo'')"
proof -
  have "resolveScope ''read write'' ''read'' = Inr ''read''"
    by (simp add: resolveScope_def scopeSet_def Prelude.fields_def space_len_def byte_def)
  moreover have "rc_Subject (ac_reg (ex_claims 0)) = ''spiffe://a/b''"
    by (simp add: ex_claims_def issue_claims_def ex_opts_def)
  moreover have "Present ex_sd_token [''email''] \<noteq> []"
    using Present_tilde [of ex_sd_token "[''email'']"] by auto
  ultimately show ?thesis
    using ex_obo_sign(2) [of "[]"] ex_obo_agent ex_obo_user unfolding OBOIssuer_Issue_ok
    by (auto simp: ex_token_def ex_obo_simps ex_obo_parts ex_obo_claims_def ex_obo_env_def)
qed

lemma ex_scope: "resolveScope ''read write'' ''read'' = Inr ''read''"
  by (simp add: resolveScope_def scopeSet_def Prelude.fields_def space1_def space2_def space3_def byte_def)

lemma ex_obo_sub:
  "rc_Subject (ac_reg (va_Claims \<lparr>va_Claims = ex_claims 0, va_WorkloadKey = ec_Public key_two\<rparr>)) = ''spiffe://a/b''"
  by (simp add: ex_claims_def issue_claims_def ex_opts_def)

lemma ex_obo_Validate:
  "OBOValidator_Validate ex_obo_lib (NewOBOValidator ''https://idp'' (ec_Public key_two)) minute (ex_token ''obo'') ''api''
     = Inr \<lparr>vr_Claims = ex_obo_claims, vr_UserID = ''user:al'', vr_AgentID = ''spiffe://a/b'', vr_Scope = ''read'',
         vr_Email = ''al@x''\<rparr>"
proof -
  have "OBOValidator_Validate ex_obo_lib (NewOBOValidator (oi_issuerID ex_obo_issuer) (ec_Public (oi_key ex_obo_issuer)))
      minute (ex_token ''obo'') ''api''
    = Inr \<lparr>vr_Claims = issue_obo_claims ex_obo_lib ex_obo_issuer ex_obo_env ''user:al'' ''spiffe://a/b'' ''api'' ''read'' ''al@x'',
        vr_UserID = ''user:al'', vr_AgentID = ''spiffe://a/b'', vr_Scope = ''read'', vr_Email = ''al@x''\<rparr>"
    by (rule Validate_issued_obo [OF ex_obo_laws(2,4,5)])
      (simp_all add: ex_obo_simps ex_obo_parts ex_obo_claims_def [symmetric] ex_obo_wire ex_obo_sign, simp add: ex_token_def)
  then show ?thesis
    by (simp add: ex_obo_simps ex_obo_parts ex_obo_claims_def)
qed

section \<open>Properties\<close>

text \<open>C31: Delegation is visible: the token that the On-Behalf-Of issuer makes of an agent's and a user's
  token is accepted at the service it was made for, while it lasts, and shows there the user, the SPIFFE
  ID of the agent that acts, the email if it was revealed, and the requested scopes, all of them granted
  by the user; all of the user's scopes when none was requested.\<close>

theorem obo_delegation:
  assumes "jwt_complete L" "jwt_es256 L" "jwt_dates L"
    and "OBOIssuer_Issue L o' x at ut ta req = Inr tok" "tok \<noteq> []"
    and "AgentValidator_Validate L (oi_agentValidator o') (oe_agent x) at = Inr va"
    and "user_identity L o' x ut = Inr (user, scope, email)" "resolveScope scope req = Inr granted"
    and "agent = rc_Subject (ac_reg (va_Claims va))" "user \<noteq> []" "agent \<noteq> []"
    and "wire_ok L (typ_header L OBOTokenType) (obo_payload (issue_obo_claims L o' x user agent ta granted email))"
    and "oe_now x \<le> t" "t < jwt_numeric_date L (oe_now x + oi_ttl o')"
  shows "\<exists>r. OBOValidator_Validate L (NewOBOValidator (oi_issuerID o') (ec_Public (oi_key o'))) t tok ta = Inr r \<and>
    vr_UserID r = user \<and> vr_AgentID r = agent \<and> vr_Email r = email \<and>
    scopeSet (vr_Scope r) = (if req = [] then scopeSet scope else scopeSet req) \<and> scopeSet (vr_Scope r) \<subseteq> scopeSet scope"
proof -
  have sign: "jwt_sign L (oe_rnd x) (typ_header L OBOTokenType)
      (obo_payload (issue_obo_claims L o' x user agent ta granted email)) (oi_key o') = Inr tok"
    using Issue_delegates [OF assms(4,6,7)] assms(8,9) by (metis sum.inject(2))
  show ?thesis
    using Validate_issued_obo [OF assms(1-3) sign assms(5,12,10,11,13,14)] resolveScope_set [OF assms(8)]
    by (auto split: if_splits)
qed

theorem obo_delegation_witness:
  "\<exists>r. OBOValidator_Validate ex_obo_lib (NewOBOValidator ''https://idp'' (ec_Public key_two)) minute (ex_token ''obo'') ''api''
       = Inr r \<and> vr_UserID r = ''user:al'' \<and> vr_AgentID r = ''spiffe://a/b'' \<and> scopeSet (vr_Scope r) = {''read''}"
proof -
  have "\<exists>r. OBOValidator_Validate ex_obo_lib (NewOBOValidator (oi_issuerID ex_obo_issuer) (ec_Public (oi_key ex_obo_issuer)))
        minute (ex_token ''obo'') ''api'' = Inr r \<and>
      vr_UserID r = ''user:al'' \<and> vr_AgentID r = ''spiffe://a/b'' \<and> vr_Email r = ''al@x'' \<and>
      scopeSet (vr_Scope r) = (if ''read'' = [] then scopeSet ''read write'' else scopeSet ''read'') \<and>
      scopeSet (vr_Scope r) \<subseteq> scopeSet ''read write''"
    by (rule obo_delegation [OF ex_obo_laws(2,4,5) ex_obo_Issue _ ex_obo_agent ex_obo_user ex_scope ex_obo_sub [symmetric]])
      (simp_all add: ex_obo_simps ex_obo_parts ex_obo_claims_def [symmetric] ex_obo_wire, simp add: ex_token_def)
  moreover have "scopeSet ''read'' = {''read''}"
    by (simp add: scopeSet_def Prelude.fields_def space1_def space2_def space3_def byte_def)
  ultimately show ?thesis
    by (auto simp: ex_obo_simps)
qed

text \<open>C32: Nobody is impersonated: a delegated token is issued only for an AgentToken signed by the
  agents' identity provider and a user token, plain or with disclosures, signed by the user's and
  addressed to this issuer; without an SD-JWT validator no presentation is accepted.\<close>

theorem obo_Issue_sound:
  assumes "jwt_sound L" "OBOIssuer_Issue L o' x at ut ta req = Inr tok"
  shows "jwt_sig_ok L (av_idpPub (oi_agentValidator o')) at \<and>
    (if CHR ''~'' \<in> set ut
     then \<exists>v r. oi_sdUserValidator o' = Some v \<and> jwt_sig_ok L (sv_pubKey v) (hd (split_on (CHR ''~'') ut)) \<and>
       SDUserValidator_Validate L v (oe_user x) ut (oi_issuerID o') = Inr r \<and>
       (oi_issuerID o' = [] \<or> oi_issuerID o' \<in> set (rc_Audience (sd_reg (sr_Claims r))))
     else \<exists>v c. oi_userValidator o' = Some v \<and> jwt_sig_ok L (uv_pubKey v) ut \<and>
       UserValidator_Validate L v (oe_user x) ut (oi_issuerID o') = Inr c \<and>
       (oi_issuerID o' = [] \<or> oi_issuerID o' \<in> set (rc_Audience (uc_reg c))))"
proof -
  obtain va user scope email where va: "AgentValidator_Validate L (oi_agentValidator o') (oe_agent x) at = Inr va"
    and user: "user_identity L o' x ut = Inr (user, scope, email)"
    using assms(2) by (auto simp: OBOIssuer_Issue_ok)
  have agent: "jwt_sig_ok L (av_idpPub (oi_agentValidator o')) at"
    using Validate_sound [OF assms(1) va] by blast
  show ?thesis
  proof (cases "CHR ''~'' \<in> set ut")
    case True
    then obtain v r where v: "oi_sdUserValidator o' = Some v"
      and r: "SDUserValidator_Validate L v (oe_user x) ut (oi_issuerID o') = Inr r"
      using user by (auto simp: user_identity_def split: option.splits sum.splits)
    then obtain h where "parse_with_claims L (issuer_opts (sv_issuerID v) (Some (oi_issuerID o'))) (oe_user x)
        (hd (split_on (CHR ''~'') ut)) sd_claims (typ_key SDUserTokenType (sv_pubKey v)) = Inr (h, sr_Claims r)"
      by (auto simp: SDUserValidator_Validate_ok)
    from parse_issuer_sound [OF assms(1) this, of sd_reg] show ?thesis
      using True v r agent by (auto simp: sd_claims_reg)
  next
    case False
    then obtain v c where v: "oi_userValidator o' = Some v"
      and c: "UserValidator_Validate L v (oe_user x) ut (oi_issuerID o') = Inr c"
      using user by (auto simp: user_identity_def split: option.splits sum.splits)
    then obtain h where "parse_with_claims L (issuer_opts (uv_issuerID v) (Some (oi_issuerID o'))) (oe_user x) ut
        user_claims (typ_key UserTokenType (uv_pubKey v)) = Inr (h, c)"
      by (auto simp: UserValidator_Validate_ok)
    from parse_issuer_sound [OF assms(1) this, of uc_reg] show ?thesis
      using False v c agent by (auto simp: user_claims_reg)
  qed
qed

theorem obo_Issue_sound_witness:
  "jwt_sig_ok ex_obo_lib (ec_Public key_one) (ex_token ''0'') \<and>
   (\<exists>v. oi_sdUserValidator ex_obo_issuer = Some v \<and>
     jwt_sig_ok ex_obo_lib (sv_pubKey v) (hd (split_on (CHR ''~'') (Present ex_sd_token [''email'']))))"
  using obo_Issue_sound [OF ex_obo_laws(1) ex_obo_Issue] Present_tilde [of ex_sd_token "[''email'']"]
  by (auto simp: ex_obo_simps)

text \<open>A resource server accepts only delegated tokens that the On-Behalf-Of issuer signed for it,
  that have not expired and that name both the user and the agent.\<close>

theorem obo_Validate_sound:
  assumes "jwt_sound L" "OBOValidator_Validate L v now tok audience = Inr r"
  shows "jwt_sig_ok L (ov_pubKey v) tok \<and> vr_UserID r \<noteq> [] \<and> vr_AgentID r \<noteq> [] \<and>
    (audience = [] \<or> audience \<in> set (rc_Audience (ob_reg (vr_Claims r)))) \<and>
    (\<exists>e. rc_ExpiresAt (ob_reg (vr_Claims r)) = Some e \<and> now < e)"
proof -
  obtain h where "parse_with_claims L (issuer_opts (ov_issuerID v) (Some audience)) now tok obo_claims
      (typ_key OBOTokenType (ov_pubKey v)) = Inr (h, vr_Claims r)" "vr_UserID r \<noteq> []" "vr_AgentID r \<noteq> []"
    using assms(2) by (auto simp: OBOValidator_Validate_ok)
  with parse_issuer_sound [OF assms(1) this(1), of ob_reg] show ?thesis
    by (auto simp: obo_claims_reg)
qed

theorem obo_Validate_sound_witness:
  "jwt_sig_ok ex_obo_lib (ec_Public key_two) (ex_token ''obo'')"
  using obo_Validate_sound [OF ex_obo_laws(1) ex_obo_Validate] by (simp add: NewOBOValidator_def)

end
