(* ===== verification/DemoObo.thy ===== *)
theory DemoObo
  imports DemoChain DemoBroker Obo
begin

text \<open>
  The browser demo, delegation on behalf of a user (\<open>cmd/demo-wasm/main.go\<close>, \<open>oboSimulate\<close> and
  \<open>oboSimulateSD\<close>): the whole flow from the user's token to the service, with a plain token and with
  selective disclosure.  Every run makes its own keys, issuers and validators.
\<close>

section \<open>Operations\<close>

datatype obo_demo_error = OboIdpKey key_error | OboAgentIdpKey key_error | OboAgentKey key_error | OboAsKey key_error
  | OboUserToken user_error | OboAgentToken issue_error | OboRejected obo_error | OboValidate obo_error
  | PlainUserToken user_error | PlainIssue obo_error | SDUserTokenFailed sd_error | SDIssue obo_error | SDValidate obo_error

definition oboIdpID :: string where "oboIdpID = ''https://idp.example.com''"
definition oboAsID :: string where "oboAsID = ''https://as.example.com''"
definition oboAgentSubj :: string where "oboAgentSubj = ''spiffe://example.com/agents/booking-assistant''"
definition oboUserSubj :: string where "oboUserSubj = ''user:alice@example.com''"
definition oboUserEmail :: string where "oboUserEmail = ''alice@example.com''"
definition oboUserScope :: string where "oboUserScope = ''read:calendar write:booking read:contacts''"
definition oboResourceID :: string where "oboResourceID = ''https://booking-service.example.com''"

definition check_mark :: string where "check_mark = [chr 226, chr 156, chr 147]"
definition subset_sign :: string where "subset_sign = [chr 226, chr 138, chr 134]"

definition obo_step_obj :: "string \<Rightarrow> string \<Rightarrow> string \<Rightarrow> json" where
  "obo_step_obj actor label detail = JObj [(''actor'', JStr actor), (''label'', JStr label), (''detail'', JStr detail)]"

text \<open>The four keys of a run.\<close>

record obo_keys =
  ok_idp :: "string + ec_private"
  ok_agentIdp :: "string + ec_private"
  ok_agent :: "string + ec_private"
  ok_obo :: "string + ec_private"

definition with_obo_keys :: "obo_keys \<Rightarrow> (ECKeyPair \<Rightarrow> ECKeyPair \<Rightarrow> ECKeyPair \<Rightarrow> ECKeyPair \<Rightarrow> obo_demo_error demo_reply)
    \<Rightarrow> obo_demo_error demo_reply" where
  "with_obo_keys k f = (case GenerateECKeyPair (ok_idp k) of
     Inl e \<Rightarrow> errObj (OboIdpKey e)
   | Inr idpKP \<Rightarrow> (case GenerateECKeyPair (ok_agentIdp k) of
       Inl e \<Rightarrow> errObj (OboAgentIdpKey e)
     | Inr agentIdpKP \<Rightarrow> (case GenerateECKeyPair (ok_agent k) of
         Inl e \<Rightarrow> errObj (OboAgentKey e)
       | Inr agentKP \<Rightarrow> (case GenerateECKeyPair (ok_obo k) of
           Inl e \<Rightarrow> errObj (OboAsKey e)
         | Inr oboKP \<Rightarrow> f idpKP agentIdpKP agentKP oboKP))))"

definition obo_agent_options :: "ec_public \<Rightarrow> IssueOptions" where
  "obo_agent_options pub = \<lparr>io_Subject = oboAgentSubj, io_Audiences = [], io_TrustDomain = [], io_Role = RoleOrchestrator,
     io_ChainDepth = 0, io_KeyID = [], io_WorkloadKey = Some pub, io_Mission = []\<rparr>"

definition issue_demo_agent :: "ext \<Rightarrow> ECKeyPair \<Rightarrow> ECKeyPair \<Rightarrow> draws \<Rightarrow> issue_error + string" where
  "issue_demo_agent L agentIdpKP agentKP d = AgentIssuer_Issue L (NewAgentIssuer oboAsID (kp_Private agentIdpKP) hour)
     (obo_agent_options (kp_Public agentKP)) (dr_now d) (dr_jti d) (dr_rnd d)"

definition issue_demo_user :: "ext \<Rightarrow> ECKeyPair \<Rightarrow> string \<Rightarrow> draws \<Rightarrow> user_error + string" where
  "issue_demo_user L idpKP scope d = UserIssuer_Issue L (NewUserIssuer oboIdpID (kp_Private idpKP) hour)
     oboUserSubj oboUserEmail scope oboAsID (dr_now d) (dr_jti d) (dr_rnd d)"

text \<open>The endpoint for plain tokens.\<close>

definition demo_obo_issuer :: "ECKeyPair \<Rightarrow> ECKeyPair \<Rightarrow> ECKeyPair \<Rightarrow> OBOIssuer" where
  "demo_obo_issuer idpKP agentIdpKP oboKP = NewOBOIssuer oboAsID (kp_Private oboKP)
     (NewAgentValidator oboAsID (kp_Public agentIdpKP) []) (Some (NewUserValidator oboIdpID (kp_Public idpKP))) (5 * minute)"

subsection \<open>The plain flow\<close>

record obo_draws =
  od_keys :: obo_keys
  od_user :: draws
  od_agent :: draws
  od_issue :: obo_env
  od_validate :: time

definition requested_scope :: "js_value list \<Rightarrow> string" where
  "requested_scope args = (case args of
     JSString s # _ \<Rightarrow> if s \<noteq> [] then s else ''read:calendar write:booking''
   | _ \<Rightarrow> ''read:calendar write:booking'')"

definition request_steps :: "string \<Rightarrow> json list" where
  "request_steps requestedScope = [
     obo_step_obj ''IdP'' ''Issue user token'' (''sub='' @ oboUserSubj @ '' scope=\"'' @ oboUserScope @ ''\"  typ=user+jwt''),
     obo_step_obj ''Agent IdP'' ''Issue AgentToken'' (''sub='' @ oboAgentSubj @ ''  typ=agent+jwt''),
     obo_step_obj ''Agent'' ''OBO request to AS''
       (''grant_type=token-exchange  subject_token=user+jwt  actor_token=agent+jwt  scope=\"'' @ requestedScope @ ''\"'')]"

definition granted_steps :: "string \<Rightarrow> ValidateResult \<Rightarrow> json list" where
  "granted_steps requestedScope result = [
     obo_step_obj ''AS (OBO endpoint)'' (''Validate both tokens '' @ em_dash @ '' issue delegated token'')
       (check_mark @ '' user token valid  '' @ check_mark @ '' agent token valid  '' @ check_mark @ '' scope \"'' @ requestedScope
          @ ''\" '' @ subset_sign @ '' user scope  '' @ right_arrow @ '' issue obo+jwt''),
     obo_step_obj ''Agent'' ''Call resource with OBO token'' (''Authorization: Bearer <obo+jwt>  aud='' @ oboResourceID),
     obo_step_obj ''Booking Service'' (''Validate OBO token '' @ em_dash @ '' see both identities'')
       (''sub (user)='' @ vr_UserID result @ ''  act.sub (agent)='' @ vr_AgentID result @ ''  scope=\"'' @ vr_Scope result @ ''\"'')]"

definition oboSimulate :: "ext \<Rightarrow> obo_draws \<Rightarrow> js_value list \<Rightarrow> obo_demo_error demo_reply" where
  "oboSimulate L d args = (let requestedScope = requested_scope args in
     with_obo_keys (od_keys d) (\<lambda>idpKP agentIdpKP agentKP oboKP.
       (case issue_demo_user L idpKP oboUserScope (od_user d) of
          Inl e \<Rightarrow> errObj (OboUserToken e)
        | Inr userToken \<Rightarrow> (case issue_demo_agent L agentIdpKP agentKP (od_agent d) of
            Inl e \<Rightarrow> errObj (OboAgentToken e)
          | Inr agentToken \<Rightarrow>
              (case OBOIssuer_Issue L (demo_obo_issuer idpKP agentIdpKP oboKP) (od_issue d) agentToken userToken
                  oboResourceID requestedScope of
                 Inl e \<Rightarrow> FailObj [(''steps'', JArr (request_steps requestedScope)), (''rejected'', JBool True)] (OboRejected e)
               | Inr oboToken \<Rightarrow>
                   (case OBOValidator_Validate L (NewOBOValidator oboAsID (kp_Public oboKP)) (od_validate d) oboToken oboResourceID of
                      Inl e \<Rightarrow> errObj (OboValidate e)
                    | Inr result \<Rightarrow>
                        okObj [(''steps'', JArr (request_steps requestedScope @ granted_steps requestedScope result)),
                          (''userID'', JStr (vr_UserID result)), (''agentID'', JStr (vr_AgentID result)),
                          (''scope'', JStr (vr_Scope result)), (''oboTyp'', JStr ''obo+jwt''), (''userTyp'', JStr ''user+jwt''),
                          (''agentTyp'', JStr ''agent+jwt'')]))))))"

subsection \<open>The flow with selective disclosure\<close>

record sd_draws =
  sd_keys :: obo_keys
  sd_agent :: draws
  sd_user :: draws
  sd_plain :: obo_env
  sd_now :: time
  sd_salts :: "bytes \<times> bytes"
  sd_rnd :: bytes
  sd_issue :: obo_env
  sd_validate :: time

definition oboGivenName :: string where "oboGivenName = ''Alice''"
definition sdUserScope :: string where "sdUserScope = ''read:calendar write:booking''"

definition reveal_mode :: "js_value list \<Rightarrow> string" where
  "reveal_mode args = (case args of JSString s # _ \<Rightarrow> s | _ \<Rightarrow> ''email'')"

definition reveal_list :: "string \<Rightarrow> string list" where
  "reveal_list reveal = (if reveal = ''both'' then [''email'', ''given_name'']
     else if reveal = ''none'' then [] else [''email''])"

definition reveal_desc :: "string \<Rightarrow> string" where
  "reveal_desc reveal = (if reveal = ''both'' then ''reveals email + given_name''
     else if reveal = ''none'' then ''reveals no PII '' @ em_dash @ '' sub and scope only''
     else ''reveals only email '' @ em_dash @ '' given_name stays private'')"

definition plain_steps :: "json list" where
  "plain_steps = [
     obo_step_obj ''IdP'' ''Issue plain user+jwt''
       (''sub='' @ oboUserSubj @ ''  email='' @ oboUserEmail @ ''  scope=\"'' @ sdUserScope @ ''\"  typ=user+jwt''),
     obo_step_obj ''Agent'' ''Forward full user token to OBO AS''
       (''AS sees: email='' @ oboUserEmail @ ''  given_name='' @ oboGivenName @ '' (ALL PII visible)''),
     obo_step_obj ''AS'' ''Issue obo+jwt (full PII in scope)''
       (''sub='' @ oboUserSubj @ ''  act.sub='' @ oboAgentSubj @ ''  scope=\"read:calendar\"'')]"

definition sd_steps :: "string \<Rightarrow> ValidateResult \<Rightarrow> string \<Rightarrow> json list" where
  "sd_steps reveal sdResult emailInToken = [
     obo_step_obj ''IdP'' ''Issue user+sd-jwt (PII replaced by SHA-256 digests)''
       (''sub='' @ oboUserSubj @ ''  _sd=[hash(email), hash(given_name)]  scope=\"'' @ sdUserScope @ ''\"  typ=user+sd-jwt''),
     obo_step_obj ''Agent'' ''Present selective disclosure to OBO AS''
       (''Agent '' @ reveal_desc reveal @ ''. Wire: <JWT>~<disclosed claims>~''),
     obo_step_obj ''AS'' (''Validate SD-JWT '' @ em_dash @ '' issue obo+jwt with only revealed claims'')
       (''AS saw: email='' @ emailInToken @ '' | given_name=PRIVATE  sub='' @ oboUserSubj @ ''  act.sub='' @ oboAgentSubj),
     obo_step_obj ''Booking Service'' (''Validate OBO token '' @ em_dash @ '' acts on behalf of user'')
       (''sub (user)='' @ vr_UserID sdResult @ ''  act.sub (agent)='' @ vr_AgentID sdResult @ ''  email='' @ emailInToken)]"

text \<open>The endpoint for presentations; its validator of plain tokens is nil.\<close>

definition demo_sd_issuer :: "ECKeyPair \<Rightarrow> ECKeyPair \<Rightarrow> ECKeyPair \<Rightarrow> OBOIssuer" where
  "demo_sd_issuer idpKP agentIdpKP oboKP = WithSDUserValidator (NewSDUserValidator oboIdpID (kp_Public idpKP))
     (NewOBOIssuer oboAsID (kp_Private oboKP) (NewAgentValidator oboAsID (kp_Public agentIdpKP) []) None (5 * minute))"

definition sd_reply :: "string \<Rightarrow> ValidateResult \<Rightarrow> obo_demo_error demo_reply" where
  "sd_reply reveal sdResult = (let emailInToken = (if vr_Email sdResult = [] then ''(not revealed)'' else vr_Email sdResult) in
     okObj [(''plainSteps'', JArr plain_steps), (''sdSteps'', JArr (sd_steps reveal sdResult emailInToken)),
       (''revealMode'', JStr reveal), (''revealDesc'', JStr (reveal_desc reveal)),
       (''sdUserID'', JStr (vr_UserID sdResult)), (''sdAgentID'', JStr (vr_AgentID sdResult)),
       (''sdEmail'', JStr emailInToken), (''sdScope'', JStr (vr_Scope sdResult)),
       (''plainPIIExposed'', JStr ''email, given_name visible to AS and downstream''),
       (''sdPIIExposed'', JStr (reveal_desc reveal))])"

definition oboSimulateSD :: "ext \<Rightarrow> sd_draws \<Rightarrow> js_value list \<Rightarrow> obo_demo_error demo_reply" where
  "oboSimulateSD L d args = (let reveal = reveal_mode args in
     with_obo_keys (sd_keys d) (\<lambda>idpKP agentIdpKP agentKP oboKP.
       (case issue_demo_agent L agentIdpKP agentKP (sd_agent d) of
          Inl e \<Rightarrow> errObj (OboAgentToken e)
        | Inr agentToken \<Rightarrow> (case issue_demo_user L idpKP sdUserScope (sd_user d) of
            Inl e \<Rightarrow> errObj (PlainUserToken e)
          | Inr plainUserToken \<Rightarrow>
              (case OBOIssuer_Issue L (demo_obo_issuer idpKP agentIdpKP oboKP) (sd_plain d) agentToken plainUserToken
                  oboResourceID ''read:calendar'' of
                 Inl e \<Rightarrow> errObj (PlainIssue e)
               | Inr _ \<Rightarrow>
                   (case SDUserIssuer_Issue L (NewSDUserIssuer oboIdpID (kp_Private idpKP) hour) oboUserSubj oboUserEmail
                       oboGivenName sdUserScope oboAsID (sd_now d) (sd_salts d) (sd_rnd d) of
                      Inl e \<Rightarrow> errObj (SDUserTokenFailed e)
                    | Inr sdUserToken \<Rightarrow>
                        (case OBOIssuer_Issue L (demo_sd_issuer idpKP agentIdpKP oboKP) (sd_issue d) agentToken
                            (Present sdUserToken (reveal_list reveal)) oboResourceID ''read:calendar'' of
                           Inl e \<Rightarrow> errObj (SDIssue e)
                         | Inr sdOBOToken \<Rightarrow>
                             (case OBOValidator_Validate L (NewOBOValidator oboAsID (kp_Public oboKP)) (sd_validate d)
                                 sdOBOToken oboResourceID of
                                Inl e \<Rightarrow> errObj (SDValidate e)
                              | Inr sdResult \<Rightarrow> sd_reply reveal sdResult))))))))"

section \<open>What the flow relies on\<close>

lemma claims_wire_issued [simp]:
  "jwt_dates L \<Longrightarrow> claims_wire L (issued_claims L iss sub aud now ttl jti) \<longleftrightarrow>
     utf8 iss \<and> utf8 sub \<and> list_all utf8 aud \<and> utf8 jti"
  by (auto simp: claims_wire_def issued_claims_def dated_claims_def jwt_datesD(3))

lemma user_wire:
  assumes "jwt_laws L" "utf8 (ui_issuerID u)" "utf8 sub" "utf8 email" "utf8 scope" "utf8 audience"
  shows "wire_ok L (typ_header L UserTokenType) (user_payload (issue_user_claims L u sub email scope audience now jti))"
proof -
  have "json_utf8 (JObj (typ_header L UserTokenType))"
    using assms(1) by (intro utf8_typ_header) (simp_all add: jwt_laws_def UserTokenType_def char_simps)
  then show ?thesis
    using assms by (simp add: wire_ok_def user_payload_def issue_user_claims_def jwt_laws_def ball_Un char_simps)
qed

lemma sd_wire:
  assumes "jwt_laws L" "utf8 (su_issuerID u)" "utf8 sub" "utf8 scope" "utf8 audience"
  shows "wire_ok L (typ_header L SDUserTokenType) (sd_payload (issue_sd_claims L u sub scope audience ds now))"
proof -
  have "json_utf8 (JObj (typ_header L SDUserTokenType))"
    using assms(1) by (intro utf8_typ_header) (simp_all add: jwt_laws_def SDUserTokenType_def char_simps)
  moreover have "json_utf8 (JObj (pl_priv (sd_payload (issue_sd_claims L u sub scope audience ds now))))"
    using assms(4) by (simp add: sd_payload_def issue_sd_claims_def sdHashAlg_def Disclosure_Digest_def b64_sha256_def ball_Un char_simps)
  moreover have "claims_wire L (pl_reg (sd_payload (issue_sd_claims L u sub scope audience ds now)))"
    using assms by (simp add: sd_payload_def issue_sd_claims_def jwt_laws_def)
  ultimately show ?thesis
    unfolding wire_ok_def by blast
qed

lemma obo_wire:
  assumes "jwt_laws L" "list_all utf8 [oi_issuerID o', user, agent, ta, granted, email]"
  shows "wire_ok L (typ_header L OBOTokenType) (obo_payload (issue_obo_claims L o' x user agent ta granted email))"
proof -
  have "json_utf8 (JObj (typ_header L OBOTokenType))"
    using assms(1) by (intro utf8_typ_header) (simp_all add: jwt_laws_def OBOTokenType_def char_simps)
  then show ?thesis
    using assms by (simp add: wire_ok_def obo_payload_def issue_obo_claims_def jwt_laws_def ball_Un char_simps)
qed

text \<open>Scopes that the user granted are words in ASCII, so that a granted scope is.\<close>

lemma is_ascii_append [simp]: "is_ascii (x @ y) \<longleftrightarrow> is_ascii x \<and> is_ascii y"
  by (auto simp: is_ascii_def)

lemma join_ascii:
  assumes "is_ascii sep"
  shows "\<forall>w \<in> set ws. is_ascii w \<Longrightarrow> is_ascii (join_with sep ws)"
proof (induction ws rule: induct_list012)
  case 1
  show ?case by (simp add: is_ascii_def)
qed (use assms in simp_all)

lemma fields_acc_sub: "w \<in> set (fields_acc acc s) \<Longrightarrow> set w \<subseteq> set acc \<union> set s"
proof (induction acc s rule: fields_acc.induct)
  case (1 acc)
  then show ?case by (simp split: if_splits)
next
  case (2 acc x xs)
  show ?case
  proof (cases "space_len (x # xs) = 0")
    case True
    then show ?thesis
      using 2(1) [OF refl True] 2(3) by (simp del: space_len_simps)
  next
    case False
    then consider "w = rev acc" | "w \<in> set (fields_acc [] (drop (space_len (x # xs) - 1) xs))"
      using 2(3) by (auto simp: Let_def simp del: space_len_simps split: if_splits)
    then show ?thesis
    proof cases
      case 2
      then have "set w \<subseteq> set [] \<union> set (drop (space_len (x # xs) - 1) xs)"
        using "2.IH"(2) [OF refl False] by blast
      then show ?thesis
        using set_drop_subset [of "space_len (x # xs) - 1" xs] by (simp del: space_len_simps) blast
    qed auto
  qed
qed

lemma granted_utf8:
  assumes "resolveScope granted requested = Inr s" "is_ascii granted"
  shows "utf8 s"
proof -
  have "\<forall>w \<in> scopeSet granted. is_ascii w"
    using fields_acc_sub [of _ "[]" granted] assms(2) by (fastforce simp: scopeSet_def Prelude.fields_def is_ascii_def)
  then have "requested \<noteq> [] \<Longrightarrow> \<forall>w \<in> set (Prelude.fields requested). is_ascii w"
    using assms(1) by (auto simp: resolveScope_ok scopeSet_def [of requested])
  moreover have "is_ascii '' ''"
    by (simp add: is_ascii_def char_simps)
  ultimately have "is_ascii s"
    using assms by (auto simp: resolveScope_ok join_ascii split: if_splits)
  then show ?thesis
    by (rule utf8_ascii)
qed

section \<open>The flow\<close>

definition key_pair :: "ec_private \<Rightarrow> ECKeyPair" where
  "key_pair k = \<lparr>kp_Private = k, kp_Public = ec_Public k\<rparr>"

lemma GenerateECKeyPair_pair [simp]: "GenerateECKeyPair (Inr k) = Inr (key_pair k)"
  by (simp add: GenerateECKeyPair_def key_pair_def)

lemma key_pair_simps [simp]: "kp_Private (key_pair k) = k" "kp_Public (key_pair k) = ec_Public k"
  by (simp_all add: key_pair_def)

lemma with_obo_keys_made:
  assumes "ok_agent k = Inr g"
  obtains i a o' where "with_obo_keys k = (\<lambda>f. f (key_pair i) (key_pair a) (key_pair g) (key_pair o'))"
  | e where "\<forall>f. with_obo_keys k f = errObj e" "\<forall>x. e \<noteq> OboValidate x" "\<forall>x. e \<noteq> SDValidate x"
      "\<forall>x. e \<noteq> SDIssue x" "\<forall>x. e \<noteq> PlainIssue x"
proof -
  consider x where "ok_idp k = Inl x" | i x where "ok_idp k = Inr i" "ok_agentIdp k = Inl x"
    | i a x where "ok_idp k = Inr i" "ok_agentIdp k = Inr a" "ok_obo k = Inl x"
    | i a o' where "ok_idp k = Inr i" "ok_agentIdp k = Inr a" "ok_obo k = Inr o'"
    by (cases "ok_idp k"; cases "ok_agentIdp k"; cases "ok_obo k") auto
  then show thesis
  proof cases
    case (4 i a o')
    then show thesis
      using that(1) [of i a o'] assms by (simp add: with_obo_keys_def fun_eq_iff)
  qed (use assms that(2) in \<open>simp_all add: with_obo_keys_def GenerateECKeyPair_def\<close>)
qed

lemmas obo_names = oboIdpID_def oboAsID_def oboAgentSubj_def oboUserSubj_def oboUserEmail_def oboUserScope_def oboResourceID_def
  oboGivenName_def sdUserScope_def

lemma obo_names_ascii:
  "list_all utf8 [oboIdpID, oboAsID, oboAgentSubj, oboUserSubj, oboUserEmail, oboUserScope, oboResourceID, oboGivenName, sdUserScope]"
  "is_ascii oboUserScope" "is_ascii sdUserScope"
  by (simp_all add: obo_names is_ascii_def char_simps)

lemma demo_agent_token:
  assumes "jwt_laws L" "issue_demo_agent L (key_pair a) (key_pair g) d = Inr tok" "p256_key (ec_Public g)" "demo_fresh L d t"
  shows "\<exists>va. AgentValidator_Validate L (NewAgentValidator oboAsID (ec_Public a) []) t tok = Inr va \<and>
    rc_Subject (ac_reg (va_Claims va)) = oboAgentSubj" "tok \<noteq> []"
proof -
  have issue: "AgentIssuer_Issue L (NewAgentIssuer oboAsID a hour) (obo_agent_options (ec_Public g)) (dr_now d) (dr_jti d) (dr_rnd d) = Inr tok"
    using assms(2) by (simp add: issue_demo_agent_def)
  have token: "compact_jwt tok oboAsID"
    "AgentValidator_Validate L (NewAgentValidator oboAsID (ec_Public a) []) t tok = Inr
      \<lparr>va_Claims = issue_claims L (NewAgentIssuer oboAsID a hour) (obo_agent_options (ec_Public g)) (jwk_of (ec_Public g) [])
         (dr_now d) (dr_jti d), va_WorkloadKey = ec_Public g\<rparr>"
    by (rule page_token [OF assms(1) _ _ assms(3) _ _ _ issue];
        use assms(4) obo_names_ascii(1) in \<open>simp add: obo_agent_options_def RoleOrchestrator_def go_int_def char_simps demo_fresh_def\<close>)+
  then show "\<exists>va. AgentValidator_Validate L (NewAgentValidator oboAsID (ec_Public a) []) t tok = Inr va \<and>
    rc_Subject (ac_reg (va_Claims va)) = oboAgentSubj" "tok \<noteq> []"
    using compact_jwt_wf(1) by (auto simp: issue_claims_def obo_agent_options_def)
qed

lemma demo_user_identity:
  assumes "jwt_laws L" "issue_demo_user L (key_pair i) scope d = Inr tok" "utf8 scope" "demo_fresh L d (oe_user x)"
  shows "user_identity L (demo_obo_issuer (key_pair i) (key_pair a) (key_pair o')) x tok = Inr (oboUserSubj, scope, [])" "tok \<noteq> []"
proof -
  let ?u = "NewUserIssuer oboIdpID i hour"
  let ?c = "issue_user_claims L ?u oboUserSubj oboUserEmail scope oboAsID (dr_now d) (dr_jti d)"
  have u: "ui_issuerID ?u = oboIdpID" "ui_key ?u = i" "ui_ttl ?u = hour"
    by (simp_all add: NewUserIssuer_def)
  have sign: "jwt_sign L (dr_rnd d) (typ_header L UserTokenType) (user_payload ?c) i = Inr tok"
    using assms(2) u by (simp add: issue_demo_user_def UserIssuer_Issue_ok)
  have wire: "wire_ok L (typ_header L UserTokenType) (user_payload ?c)"
    by (rule user_wire [OF assms(1)]) (use assms(3) obo_names_ascii(1) u in simp_all)
  have reg: "pl_reg (user_payload ?c) = issued_claims L oboIdpID oboUserSubj [oboAsID] (dr_now d) hour (b64_encode (dr_jti d))"
    by (simp add: user_payload_def issue_user_claims_def u)
  have compact: "compact_jwt tok oboIdpID"
    using assms(1) sign wire reg unfolding jwt_laws_def jwt_compact_def by fastforce
  then show "tok \<noteq> []"
    by (rule compact_jwt_wf(1))
  have "parse_with_claims L (issuer_opts oboIdpID (Some oboAsID)) (oe_user x) tok user_claims (typ_key UserTokenType (ec_Public i))
      = Inr (typ_header L UserTokenType, ?c)"
    using assms(1,4)
    by (intro parse_issued [where dec = user_claims, OF _ _ _ sign wire reg])
      (simp_all add: jwt_laws_def UserTokenType_def demo_fresh_def)
  moreover have "rc_Subject (uc_reg ?c) = oboUserSubj" "uc_Scope ?c = scope"
    by (simp_all add: issue_user_claims_def)
  ultimately show "user_identity L (demo_obo_issuer (key_pair i) (key_pair a) (key_pair o')) x tok = Inr (oboUserSubj, scope, [])"
    using compact_no_tilde [OF compact] \<open>tok \<noteq> []\<close>
    by (simp add: user_identity_def demo_obo_issuer_def NewOBOIssuer_def NewUserValidator_def UserValidator_Validate_def)
qed

text \<open>The endpoint and the service: a refusal names a scope that was not granted, unless signing fails, and
  a token that is issued is accepted with both identities.\<close>

lemma endpoint_refuses:
  assumes "OBOIssuer_Issue L o' x at ut ta req = Inl e" "at \<noteq> []" "ut \<noteq> []" "ta \<noteq> []"
    and "AgentValidator_Validate L (oi_agentValidator o') (oe_agent x) at = Inr va"
    and "user_identity L o' x ut = Inr (user, scope, email)"
  shows "(\<exists>s. e = ScopeNotGranted s \<and> s \<in> scopeSet req - scopeSet scope) \<or> (\<exists>m. e = SignOBO m)"
proof (cases "resolveScope scope req")
  case (Inl e')
  then have "e = e'"
    using assms by (simp add: OBOIssuer_Issue_def)
  then show ?thesis
    using Inl by (auto simp: resolveScope_def scopeSet_def [of req] find_Some_iff split: if_splits option.splits)
next
  case (Inr granted)
  then show ?thesis
    using assms by (auto simp: OBOIssuer_Issue_def split: sum.splits)
qed

lemma endpoint_issues:
  assumes "AgentValidator_Validate L (oi_agentValidator o') (oe_agent x) at = Inr va" "at \<noteq> []" "ut \<noteq> []" "ta \<noteq> []"
    and "user_identity L o' x ut = Inr (user, scope, email)" "resolveScope scope req = Inr granted"
    and "jwt_sign L (oe_rnd x) (typ_header L OBOTokenType)
      (obo_payload (issue_obo_claims L o' x user (rc_Subject (ac_reg (va_Claims va))) ta granted email)) (oi_key o') = Inr tok"
  shows "OBOIssuer_Issue L o' x at ut ta req = Inr tok"
  using assms by (simp add: OBOIssuer_Issue_def)

lemma endpoint_delegates:
  assumes "jwt_laws L" "OBOIssuer_Issue L o' x at ut ta req = Inr tok"
    and "AgentValidator_Validate L (oi_agentValidator o') (oe_agent x) at = Inr va"
    and "rc_Subject (ac_reg (va_Claims va)) = agent" "user_identity L o' x ut = Inr (user, scope, email)"
    and "is_ascii scope" "list_all utf8 [oi_issuerID o', user, agent, ta, email]" "user \<noteq> []" "agent \<noteq> []"
    and "oe_now x \<le> t" "t < jwt_numeric_date L (oe_now x + oi_ttl o')"
  obtains granted r where "resolveScope scope req = Inr granted"
    "OBOValidator_Validate L (NewOBOValidator (oi_issuerID o') (ec_Public (oi_key o'))) t tok ta = Inr r"
    "vr_UserID r = user" "vr_AgentID r = agent" "vr_Scope r = granted" "vr_Email r = email"
proof -
  obtain granted where granted: "resolveScope scope req = Inr granted"
    and sign: "jwt_sign L (oe_rnd x) (typ_header L OBOTokenType)
      (obo_payload (issue_obo_claims L o' x user agent ta granted email)) (oi_key o') = Inr tok"
    using Issue_delegates [OF assms(2,3,5)] assms(4) by metis
  have wire: "wire_ok L (typ_header L OBOTokenType) (obo_payload (issue_obo_claims L o' x user agent ta granted email))"
    by (rule obo_wire [OF assms(1)]) (use assms(7) granted_utf8 [OF granted assms(6)] in simp)
  then have "compact_jwt tok (rc_Issuer (pl_reg (obo_payload (issue_obo_claims L o' x user agent ta granted email))))"
    using assms(1) sign unfolding jwt_laws_def jwt_compact_def by blast
  then have "tok \<noteq> []"
    by (rule compact_jwt_wf(1))
  then have "OBOValidator_Validate L (NewOBOValidator (oi_issuerID o') (ec_Public (oi_key o'))) t tok ta
    = Inr \<lparr>vr_Claims = issue_obo_claims L o' x user agent ta granted email, vr_UserID = user, vr_AgentID = agent,
        vr_Scope = granted, vr_Email = email\<rparr>"
    using assms(1,8-11) sign wire by (intro Validate_issued_obo) (simp_all add: jwt_laws_def)
  from that [OF granted this] show thesis
    by simp
qed

lemma demo_issuers [simp]:
  "oi_issuerID (demo_obo_issuer i a o') = oboAsID" "oi_key (demo_obo_issuer i a o') = kp_Private o'"
  "oi_ttl (demo_obo_issuer i a o') = 5 * minute"
  "oi_agentValidator (demo_obo_issuer i a o') = NewAgentValidator oboAsID (kp_Public a) []"
  "oi_issuerID (demo_sd_issuer i a o') = oboAsID" "oi_key (demo_sd_issuer i a o') = kp_Private o'"
  "oi_ttl (demo_sd_issuer i a o') = 5 * minute"
  "oi_agentValidator (demo_sd_issuer i a o') = NewAgentValidator oboAsID (kp_Public a) []"
  "oi_sdUserValidator (demo_sd_issuer i a o') = Some (NewSDUserValidator oboIdpID (kp_Public i))"
  by (simp_all add: demo_obo_issuer_def demo_sd_issuer_def NewOBOIssuer_def WithSDUserValidator_def)

lemma obo_names_ne [simp]: "oboUserSubj \<noteq> []" "oboAgentSubj \<noteq> []" "oboResourceID \<noteq> []" "oboAsID \<noteq> []"
  by (simp_all add: obo_names)

section \<open>The plain flow\<close>

definition obo_shown :: "string \<Rightarrow> obo_demo_error demo_reply \<Rightarrow> bool" where
  "obo_shown req r \<longleftrightarrow> (case r of
     OkObj ob \<Rightarrow> scopeSet req \<subseteq> scopeSet oboUserScope \<and> map_of ob ''userID'' = Some (JStr oboUserSubj) \<and>
       map_of ob ''agentID'' = Some (JStr oboAgentSubj) \<and>
       (\<exists>granted. map_of ob ''scope'' = Some (JStr granted) \<and> scopeSet granted = scopeSet req)
   | FailObj ob e \<Rightarrow> (\<exists>s. e = OboRejected (ScopeNotGranted s) \<and> s \<in> scopeSet req - scopeSet oboUserScope) \<or>
       (\<exists>m. e = OboRejected (SignOBO m))
   | ErrObj e \<Rightarrow> \<forall>x. e \<noteq> OboValidate x)"

lemma requested_scope_ne [simp]: "requested_scope args \<noteq> []"
  by (simp add: requested_scope_def split: list.split js_value.split)

lemma obo_run:
  assumes "jwt_laws L" "p256_key (ec_Public g)"
    and user: "issue_demo_user L (key_pair i) oboUserScope (od_user d) = Inr ut" "demo_fresh L (od_user d) (oe_user (od_issue d))"
    and agent: "issue_demo_agent L (key_pair a) (key_pair g) (od_agent d) = Inr at" "demo_fresh L (od_agent d) (oe_agent (od_issue d))"
    and t: "oe_now (od_issue d) \<le> od_validate d" "od_validate d < jwt_numeric_date L (oe_now (od_issue d) + 5 * minute)"
    and keys: "with_obo_keys (od_keys d) = (\<lambda>f. f (key_pair i) (key_pair a) (key_pair g) (key_pair k))"
  shows "obo_shown (requested_scope args) (oboSimulate L d args)"
proof -
  let ?o = "demo_obo_issuer (key_pair i) (key_pair a) (key_pair k)" and ?req = "requested_scope args"
  obtain va where va: "AgentValidator_Validate L (oi_agentValidator ?o) (oe_agent (od_issue d)) at = Inr va"
    "rc_Subject (ac_reg (va_Claims va)) = oboAgentSubj" "at \<noteq> []"
    using demo_agent_token [OF assms(1) agent(1) assms(2) agent(2)] by auto
  have "utf8 oboUserScope"
    using obo_names_ascii(2) utf8_ascii by blast
  note who = demo_user_identity(1) [OF assms(1) user(1) this user(2), of a k] demo_user_identity(2) [OF assms(1) user(1) this user(2)]
  show ?thesis
  proof (cases "OBOIssuer_Issue L ?o (od_issue d) at ut oboResourceID ?req")
    case (Inl e)
    have "(\<exists>s. e = ScopeNotGranted s \<and> s \<in> scopeSet ?req - scopeSet oboUserScope) \<or> (\<exists>m. e = SignOBO m)"
      by (rule endpoint_refuses [OF Inl va(3) _ _ va(1)]) (use who in auto)
    then show ?thesis
      using Inl user(1) agent(1) keys by (auto simp: oboSimulate_def obo_shown_def)
  next
    case (Inr tok)
    obtain granted r where r: "resolveScope oboUserScope ?req = Inr granted"
      "OBOValidator_Validate L (NewOBOValidator oboAsID (ec_Public k)) (od_validate d) tok oboResourceID = Inr r"
      "vr_UserID r = oboUserSubj" "vr_AgentID r = oboAgentSubj" "vr_Scope r = granted"
      by (rule endpoint_delegates [OF assms(1) Inr va(1,2) who(1) obo_names_ascii(2)])
        (use obo_names_ascii(1) t in auto)
    moreover have "scopeSet ?req \<subseteq> scopeSet oboUserScope" "scopeSet granted = scopeSet ?req"
      using resolveScope_set [OF r(1)] by auto
    ultimately show ?thesis
      using Inr user(1) agent(1) keys by (simp add: oboSimulate_def obo_shown_def okObj_def Let_def)
  qed
qed

text \<open>When a run answers at all, it answers so; the readings of the clock have to lie within the life of
  the tokens.\<close>

definition obo_fresh :: "ext \<Rightarrow> obo_draws \<Rightarrow> bool" where
  "obo_fresh L d \<longleftrightarrow> demo_fresh L (od_user d) (oe_user (od_issue d)) \<and> demo_fresh L (od_agent d) (oe_agent (od_issue d)) \<and>
     oe_now (od_issue d) \<le> od_validate d \<and> od_validate d < jwt_numeric_date L (oe_now (od_issue d) + 5 * minute)"

lemma obo_simulation:
  assumes "jwt_laws L" "ok_agent (od_keys d) = Inr g" "p256_key (ec_Public g)" "obo_fresh L d"
  shows "obo_shown (requested_scope args) (oboSimulate L d args)"
proof (rule with_obo_keys_made [OF assms(2)])
  have err: "obo_shown req (errObj e :: obo_demo_error demo_reply)" if "\<forall>x. e \<noteq> OboValidate x" for req e
    using that by (simp add: obo_shown_def errObj_def)
  fix i a k
  assume keys: "with_obo_keys (od_keys d) = (\<lambda>f. f (key_pair i) (key_pair a) (key_pair g) (key_pair k))"
  show ?thesis
  proof (cases "issue_demo_user L (key_pair i) oboUserScope (od_user d)")
    case (Inl e)
    then show ?thesis
      using keys err by (simp add: oboSimulate_def Let_def)
  next
    case user: (Inr ut)
    show ?thesis
    proof (cases "issue_demo_agent L (key_pair a) (key_pair g) (od_agent d)")
      case (Inl e)
      then show ?thesis
        using keys user err by (simp add: oboSimulate_def Let_def)
    next
      case (Inr at)
      show ?thesis
        by (rule obo_run [OF assms(1,3) user _ Inr _ _ _ keys]) (use assms(4) in \<open>simp_all add: obo_fresh_def\<close>)
    qed
  qed
qed (simp add: oboSimulate_def Let_def obo_shown_def errObj_def)

section \<open>The flow with selective disclosure\<close>

definition sd_shown :: "string \<Rightarrow> obo_demo_error demo_reply \<Rightarrow> bool" where
  "sd_shown reveal r \<longleftrightarrow> (case r of
     OkObj ob \<Rightarrow> map_of ob ''sdUserID'' = Some (JStr oboUserSubj) \<and> map_of ob ''sdAgentID'' = Some (JStr oboAgentSubj) \<and>
       map_of ob ''sdScope'' = Some (JStr ''read:calendar'') \<and>
       map_of ob ''sdEmail'' = Some (JStr (if reveal = ''none'' then ''(not revealed)'' else oboUserEmail))
   | FailObj ob e \<Rightarrow> False
   | ErrObj e \<Rightarrow> (\<forall>x. e \<noteq> SDValidate x) \<and> (\<forall>x. e = SDIssue x \<or> e = PlainIssue x \<longrightarrow> (\<exists>m. x = SignOBO m)))"

definition sd_fresh :: "ext \<Rightarrow> sd_draws \<Rightarrow> bool" where
  "sd_fresh L d \<longleftrightarrow> demo_fresh L (sd_user d) (oe_user (sd_plain d)) \<and> demo_fresh L (sd_agent d) (oe_agent (sd_plain d)) \<and>
     demo_fresh L (sd_agent d) (oe_agent (sd_issue d)) \<and>
     sd_now d \<le> oe_user (sd_issue d) \<and> oe_user (sd_issue d) < jwt_numeric_date L (sd_now d + hour) \<and>
     oe_now (sd_issue d) \<le> sd_validate d \<and> sd_validate d < jwt_numeric_date L (oe_now (sd_issue d) + 5 * minute)"

lemma sd_scope: "resolveScope sdUserScope ''read:calendar'' = Inr ''read:calendar''"
  by (simp add: sdUserScope_def resolveScope_def scopeSet_def Prelude.fields_def space1_def space2_def space3_def byte_def)

lemma sd_scope_granted: "scopeSet ''read:calendar'' - scopeSet sdUserScope = {}"
  using resolveScope_set [OF sd_scope] by simp

lemma email_revealed: "''email'' \<in> set (reveal_list reveal) \<longleftrightarrow> reveal \<noteq> ''none''"
  by (simp add: reveal_list_def)

lemma demo_sd_identity:
  assumes "jwt_laws L" "SDUserIssuer_Issue L (NewSDUserIssuer oboIdpID i hour) oboUserSubj oboUserEmail oboGivenName sdUserScope oboAsID
      now salts rnd = Inr t" "now \<le> oe_user x" "oe_user x < jwt_numeric_date L (now + hour)"
  shows "user_identity L (demo_sd_issuer (key_pair i) (key_pair a) (key_pair o')) x (Present t (reveal_list reveal))
    = Inr (oboUserSubj, sdUserScope, if reveal = ''none'' then [] else oboUserEmail)"
proof -
  have u: "su_issuerID (NewSDUserIssuer oboIdpID i hour) = oboIdpID" "su_key (NewSDUserIssuer oboIdpID i hour) = i"
    "su_ttl (NewSDUserIssuer oboIdpID i hour) = hour"
    by (simp_all add: NewSDUserIssuer_def)
  have wire: "wire_ok L (typ_header L SDUserTokenType)
      (sd_payload (issue_sd_claims L (NewSDUserIssuer oboIdpID i hour) oboUserSubj sdUserScope oboAsID (st_Disclosures t) now))"
    by (rule sd_wire [OF assms(1)]) (use obo_names_ascii(1) u in simp_all)
  have "user_identity L (demo_sd_issuer (key_pair i) (key_pair a) (key_pair o')) x (Present t (reveal_list reveal))
    = Inr (oboUserSubj, sdUserScope, if ''email'' \<in> set (reveal_list reveal) then oboUserEmail else [])"
    by (rule user_identity_presented [where u = "NewSDUserIssuer oboIdpID i hour" and gn = oboGivenName and now = now and salts = salts and rnd = rnd])
      (use assms obo_names_ascii(1) u wire in \<open>simp_all add: jwt_laws_def\<close>)
  then show ?thesis
    by (simp add: email_revealed)
qed

lemma sd_presented:
  fixes i a k :: ec_private
  defines "o' \<equiv> demo_sd_issuer (key_pair i) (key_pair a) (key_pair k)"
  assumes "jwt_laws L" "sd_fresh L d"
    and sd: "SDUserIssuer_Issue L (NewSDUserIssuer oboIdpID i hour) oboUserSubj oboUserEmail oboGivenName sdUserScope oboAsID
      (sd_now d) (sd_salts d) (sd_rnd d) = Inr t"
    and va: "AgentValidator_Validate L (oi_agentValidator o') (oe_agent (sd_issue d)) at = Inr va"
      "rc_Subject (ac_reg (va_Claims va)) = oboAgentSubj" "at \<noteq> []"
  obtains (refused) m where
    "OBOIssuer_Issue L o' (sd_issue d) at (Present t (reveal_list reveal)) oboResourceID ''read:calendar'' = Inl (SignOBO m)"
  | (delegated) tok r where
    "OBOIssuer_Issue L o' (sd_issue d) at (Present t (reveal_list reveal)) oboResourceID ''read:calendar'' = Inr tok"
    "OBOValidator_Validate L (NewOBOValidator oboAsID (ec_Public k)) (sd_validate d) tok oboResourceID = Inr r"
    "vr_UserID r = oboUserSubj" "vr_AgentID r = oboAgentSubj" "vr_Scope r = ''read:calendar''"
    "vr_Email r = (if reveal = ''none'' then [] else oboUserEmail)"
proof -
  have ident: "user_identity L o' (sd_issue d) (Present t (reveal_list reveal))
      = Inr (oboUserSubj, sdUserScope, if reveal = ''none'' then [] else oboUserEmail)"
    unfolding o'_def by (rule demo_sd_identity [OF assms(2) sd]) (use assms(3) in \<open>simp_all add: sd_fresh_def\<close>)
  have ne: "Present t (reveal_list reveal) \<noteq> []"
    using Present_tilde [of t "reveal_list reveal"] by auto
  show thesis
  proof (cases "OBOIssuer_Issue L o' (sd_issue d) at (Present t (reveal_list reveal)) oboResourceID ''read:calendar''")
    case (Inl e)
    then show thesis
      using endpoint_refuses [OF Inl va(3) ne obo_names_ne(3) va(1) ident] sd_scope_granted refused by blast
  next
    case (Inr tok)
    obtain granted r where r: "resolveScope sdUserScope ''read:calendar'' = Inr granted"
      "OBOValidator_Validate L (NewOBOValidator oboAsID (ec_Public k)) (sd_validate d) tok oboResourceID = Inr r"
      "vr_UserID r = oboUserSubj" "vr_AgentID r = oboAgentSubj" "vr_Scope r = granted"
      "vr_Email r = (if reveal = ''none'' then [] else oboUserEmail)"
      by (rule endpoint_delegates [OF assms(2) Inr va(1,2) ident obo_names_ascii(3)])
        (use obo_names_ascii(1) assms(3) in \<open>auto simp: sd_fresh_def o'_def\<close>)
    moreover have "granted = ''read:calendar''"
      using r(1) sd_scope by simp
    ultimately show thesis
      using delegated [OF Inr] by simp
  qed
qed

lemma sd_run:
  assumes "jwt_laws L" "p256_key (ec_Public g)" "sd_fresh L d"
    and agent: "issue_demo_agent L (key_pair a) (key_pair g) (sd_agent d) = Inr at"
    and user: "issue_demo_user L (key_pair i) sdUserScope (sd_user d) = Inr ut"
    and keys: "with_obo_keys (sd_keys d) = (\<lambda>f. f (key_pair i) (key_pair a) (key_pair g) (key_pair k))"
  shows "sd_shown (reveal_mode args) (oboSimulateSD L d args)"
proof -
  let ?o = "demo_obo_issuer (key_pair i) (key_pair a) (key_pair k)" and ?s = "demo_sd_issuer (key_pair i) (key_pair a) (key_pair k)"
  let ?u = "NewSDUserIssuer oboIdpID i hour" and ?reveal = "reveal_mode args"
  have fresh: "demo_fresh L (sd_agent d) (oe_agent (sd_plain d))" "demo_fresh L (sd_agent d) (oe_agent (sd_issue d))"
    "demo_fresh L (sd_user d) (oe_user (sd_plain d))"
    using assms(3) by (simp_all add: sd_fresh_def)
  note token = demo_agent_token [OF assms(1) agent assms(2)]
  have utf8: "utf8 sdUserScope"
    using obo_names_ascii(3) utf8_ascii by blast
  note who = demo_user_identity(1) [OF assms(1) user utf8 fresh(3), of a k] demo_user_identity(2) [OF assms(1) user utf8 fresh(3)]
  show ?thesis
  proof (cases "OBOIssuer_Issue L ?o (sd_plain d) at ut oboResourceID ''read:calendar''")
    case (Inl e)
    obtain va where "AgentValidator_Validate L (oi_agentValidator ?o) (oe_agent (sd_plain d)) at = Inr va"
      using token(1) [OF fresh(1)] by auto
    from endpoint_refuses [OF Inl token(2) [OF fresh(1)] who(2) obo_names_ne(3) this who(1)]
    have "\<exists>m. e = SignOBO m"
      using sd_scope_granted by blast
    then show ?thesis
      using Inl agent user keys by (auto simp: oboSimulateSD_def sd_shown_def errObj_def Let_def)
  next
    case plain: (Inr _)
    show ?thesis
    proof (cases "SDUserIssuer_Issue L ?u oboUserSubj oboUserEmail oboGivenName sdUserScope oboAsID (sd_now d) (sd_salts d) (sd_rnd d)")
      case (Inl e)
      then show ?thesis
        using plain agent user keys by (auto simp: oboSimulateSD_def sd_shown_def errObj_def Let_def)
    next
      case sd: (Inr t)
      obtain va where va: "AgentValidator_Validate L (oi_agentValidator ?s) (oe_agent (sd_issue d)) at = Inr va"
        "rc_Subject (ac_reg (va_Claims va)) = oboAgentSubj"
        using token(1) [OF fresh(2)] by auto
      from sd_presented [OF assms(1) assms(3) sd va token(2) [OF fresh(2)], of ?reveal] show ?thesis
      proof cases
        case (1 m)
        then show ?thesis
          using sd plain agent user keys by (auto simp: oboSimulateSD_def sd_shown_def errObj_def Let_def)
      next
        case (2 tok r)
        moreover have "oboUserEmail \<noteq> []"
          by (simp add: oboUserEmail_def)
        ultimately show ?thesis
          using sd plain agent user keys by (simp add: oboSimulateSD_def sd_shown_def sd_reply_def okObj_def Let_def)
      qed
    qed
  qed
qed

lemma sd_simulation:
  assumes "jwt_laws L" "ok_agent (sd_keys d) = Inr g" "p256_key (ec_Public g)" "sd_fresh L d"
  shows "sd_shown (reveal_mode args) (oboSimulateSD L d args)"
proof (rule with_obo_keys_made [OF assms(2)])
  fix i a k
  assume keys: "with_obo_keys (sd_keys d) = (\<lambda>f. f (key_pair i) (key_pair a) (key_pair g) (key_pair k))"
  show ?thesis
  proof (cases "issue_demo_agent L (key_pair a) (key_pair g) (sd_agent d)")
    case (Inl e)
    then show ?thesis
      using keys by (simp add: oboSimulateSD_def Let_def sd_shown_def errObj_def)
  next
    case agent: (Inr at)
    show ?thesis
    proof (cases "issue_demo_user L (key_pair i) sdUserScope (sd_user d)")
      case (Inl e)
      then show ?thesis
        using keys agent by (simp add: oboSimulateSD_def Let_def sd_shown_def errObj_def)
    next
      case (Inr ut)
      show ?thesis
        by (rule sd_run [OF assms(1,3,4) agent Inr keys])
    qed
  qed
qed (simp add: oboSimulateSD_def Let_def sd_shown_def errObj_def)

section \<open>Closed instances\<close>

text \<open>Both identity providers have key one, agent and endpoint key two, everything at time 0.  The tokens
  are those of a run with a plain token and of one that reveals the email.\<close>

definition ex_obo_draw :: draws where
  "ex_obo_draw = \<lparr>dr_now = 0, dr_jti = ex_jti, dr_rnd = []\<rparr>"

definition ex_op_entry :: "ec_private \<Rightarrow> header \<Rightarrow> payload \<Rightarrow> string \<Rightarrow> nat \<Rightarrow> ledger_entry" where
  "ex_op_entry k h pl p n = \<lparr>le_text = ex_demo_text p n, le_signer = k, le_token = \<lparr>tk_header = h, tk_payload = pl\<rparr>\<rparr>"

abbreviation ex_idp_iss :: string where "ex_idp_iss \<equiv> ''{\"iss\":\"https://idp.example.com\"}''"
abbreviation ex_as_iss :: string where "ex_as_iss \<equiv> ''{\"iss\":\"https://as.example.com\"}''"

definition ex_op_user :: "string \<Rightarrow> payload" where
  "ex_op_user scope = user_payload (issue_user_claims (ledger_ext []) (NewUserIssuer oboIdpID key_one hour) oboUserSubj oboUserEmail
     scope oboAsID 0 ex_jti)"

definition ex_op_agent :: payload where
  "ex_op_agent = agent_payload (ledger_ext []) (issue_claims (ledger_ext []) (NewAgentIssuer oboAsID key_one hour)
     (obo_agent_options (ec_Public key_two)) (jwk_of (ec_Public key_two) []) 0 ex_jti)"

definition ex_op_obo :: "OBOIssuer \<Rightarrow> string \<Rightarrow> string \<Rightarrow> payload" where
  "ex_op_obo o' granted email = obo_payload (issue_obo_claims (ledger_ext []) o' ex_obo_env oboUserSubj oboAgentSubj oboResourceID
     granted email)"

definition ex_op_disclosures :: "Disclosure list" where
  "ex_op_disclosures = [newDisclosure ''email'' oboUserEmail (fst ex_salts), newDisclosure ''given_name'' oboGivenName (snd ex_salts)]"

definition ex_op_sd :: payload where
  "ex_op_sd = sd_payload (issue_sd_claims (ledger_ext []) (NewSDUserIssuer oboIdpID key_one hour) oboUserSubj sdUserScope oboAsID
     ex_op_disclosures 0)"

abbreviation ex_op_plain_issuer :: OBOIssuer where
  "ex_op_plain_issuer \<equiv> demo_obo_issuer (key_pair key_one) (key_pair key_one) (key_pair key_two)"

abbreviation ex_op_sd_issuer :: OBOIssuer where
  "ex_op_sd_issuer \<equiv> demo_sd_issuer (key_pair key_one) (key_pair key_one) (key_pair key_two)"

definition ex_op_ledger :: "ledger_entry list" where
  "ex_op_ledger = [
     ex_op_entry key_one (typ_header (ledger_ext []) UserTokenType) (ex_op_user oboUserScope) ex_idp_iss 1,
     ex_op_entry key_one (typ_header (ledger_ext []) UserTokenType) (ex_op_user sdUserScope) ex_idp_iss 2,
     ex_op_entry key_one (issue_header (ledger_ext []) agentTokenType []) ex_op_agent ex_as_iss 3,
     ex_op_entry key_two (typ_header (ledger_ext []) OBOTokenType) (ex_op_obo ex_op_plain_issuer ''read:calendar write:booking'' []) ex_as_iss 4,
     ex_op_entry key_two (typ_header (ledger_ext []) OBOTokenType) (ex_op_obo ex_op_plain_issuer ''read:calendar'' []) ex_as_iss 5,
     ex_op_entry key_one (typ_header (ledger_ext []) SDUserTokenType) ex_op_sd ex_idp_iss 6,
     ex_op_entry key_two (typ_header (ledger_ext []) OBOTokenType) (ex_op_obo ex_op_sd_issuer ''read:calendar'' oboUserEmail) ex_as_iss 7]"

definition ex_op_lib :: ext where
  "ex_op_lib = ledger_ext ex_op_ledger"

definition ex_op_keys :: obo_keys where
  "ex_op_keys = \<lparr>ok_idp = Inr key_one, ok_agentIdp = Inr key_one, ok_agent = Inr key_two, ok_obo = Inr key_two\<rparr>"

definition ex_op_draws :: obo_draws where
  "ex_op_draws = \<lparr>od_keys = ex_op_keys, od_user = ex_obo_draw, od_agent = ex_obo_draw, od_issue = ex_obo_env, od_validate = minute\<rparr>"

definition ex_op_sd_draws :: sd_draws where
  "ex_op_sd_draws = \<lparr>sd_keys = ex_op_keys, sd_agent = ex_obo_draw, sd_user = ex_obo_draw, sd_plain = ex_obo_env, sd_now = 0,
     sd_salts = ex_salts, sd_rnd = [], sd_issue = ex_obo_env, sd_validate = minute\<rparr>"

lemma ex_op_issuers:
  "rc_Issuer (pl_reg (ex_op_user s)) = oboIdpID" "rc_Issuer (pl_reg ex_op_agent) = oboAsID"
  "rc_Issuer (pl_reg (ex_op_obo ex_op_plain_issuer g e)) = oboAsID" "rc_Issuer (pl_reg (ex_op_obo ex_op_sd_issuer g e)) = oboAsID"
  "rc_Issuer (pl_reg ex_op_sd) = oboIdpID"
  by (simp_all add: ex_op_user_def user_payload_def issue_user_claims_def NewUserIssuer_def ex_op_agent_def agent_payload_def
      issue_claims_def NewAgentIssuer_def ex_op_obo_def obo_payload_def issue_obo_claims_def ex_op_sd_def sd_payload_def
      issue_sd_claims_def NewSDUserIssuer_def)

lemma ex_op_compact: "compact_jwt (ex_demo_text ex_idp_iss n) oboIdpID" "compact_jwt (ex_demo_text ex_as_iss n) oboAsID"
proof -
  have "json_parse ex_idp_iss = Some (JObj [(''iss'', JStr oboIdpID)])" "json_parse ex_as_iss = Some (JObj [(''iss'', JStr oboAsID)])"
    by (simp_all add: parse_text_simps oboIdpID_def oboAsID_def)
  from this [THEN ex_text_compact]
  show "compact_jwt (ex_demo_text ex_idp_iss n) oboIdpID" "compact_jwt (ex_demo_text ex_as_iss n) oboAsID"
    by (simp_all add: json_field_defs)
qed

lemma ex_op_distinct: "distinct (map le_text ex_op_ledger)" "distinct (map le_token ex_op_ledger)"
proof -
  show "distinct (map le_text ex_op_ledger)"
    by (simp add: ex_op_ledger_def ex_op_entry_def)
  let ?f = "\<lambda>e. (header_str ''typ'' (tk_header (le_token e)), str_field ''scope'' (pl_priv (tk_payload (le_token e))),
    str_field ''email'' (pl_priv (tk_payload (le_token e))))"
  have agent_typ: "header_str ''typ'' (issue_header (ledger_ext []) agentTokenType []) = agentTokenType"
    by (simp add: issue_header_def)
  have "distinct (map ?f ex_op_ledger)"
    by (simp add: ex_op_ledger_def ex_op_entry_def agent_typ agentTokenType_def UserTokenType_def OBOTokenType_def SDUserTokenType_def
        ex_op_user_def user_payload_def issue_user_claims_def ex_op_obo_def obo_payload_def issue_obo_claims_def
        json_field_defs omit_empty_def oboUserScope_def sdUserScope_def oboUserEmail_def)
  then show "distinct (map le_token ex_op_ledger)"
    by (auto simp: distinct_map inj_on_def)
qed

lemma ex_op_laws: "jwt_laws ex_op_lib"
  unfolding ex_op_lib_def
  by (rule ledger_jwt_laws [OF ex_op_distinct(1)]) (simp add: ex_op_ledger_def ex_op_entry_def ex_op_issuers ex_op_compact)


lemma ex_op_parts:
  "typ_header ex_op_lib = typ_header (ledger_ext [])" "issue_header ex_op_lib = issue_header (ledger_ext [])"
  "agent_payload ex_op_lib = agent_payload (ledger_ext [])" "issue_claims ex_op_lib = issue_claims (ledger_ext [])"
  "jwt_numeric_date ex_op_lib = jwt_numeric_date (ledger_ext [])"
  unfolding ex_op_lib_def by (rule ledger_parts ledger_agent)+

lemma ex_op_claims:
  "issue_user_claims ex_op_lib = issue_user_claims (ledger_ext [])"
  "issue_obo_claims ex_op_lib = issue_obo_claims (ledger_ext [])"
  "issue_sd_claims ex_op_lib = issue_sd_claims (ledger_ext [])"
  unfolding ex_op_lib_def
  by (simp_all add: fun_eq_iff issue_user_claims_def issue_obo_claims_def issue_sd_claims_def issued_claims_ledger [of ex_op_ledger])

lemma ex_op_sign:
  assumes "ex_op_entry k h pl p n \<in> set ex_op_ledger"
  shows "jwt_sign ex_op_lib rnd h pl k = Inr (ex_demo_text p n)"
  using ledger_sign [OF assms ex_op_distinct(2), of h pl rnd] by (simp add: ex_op_lib_def ex_op_entry_def)

lemma ex_op_user:
  assumes "ex_op_entry key_one (typ_header (ledger_ext []) UserTokenType) (ex_op_user scope) ex_idp_iss n \<in> set ex_op_ledger"
  shows "issue_demo_user ex_op_lib (key_pair key_one) scope ex_obo_draw = Inr (ex_demo_text ex_idp_iss n)"
  using ex_op_sign [OF assms, of "[]"]
  by (simp add: issue_demo_user_def UserIssuer_Issue_ok ex_op_parts ex_op_claims ex_op_user_def ex_obo_draw_def NewUserIssuer_def)

lemma ex_op_agent: "issue_demo_agent ex_op_lib (key_pair key_one) (key_pair key_two) ex_obo_draw = Inr (ex_demo_text ex_as_iss 3)"
proof -
  have "jwt_sign ex_op_lib [] (issue_header (ledger_ext []) agentTokenType []) ex_op_agent key_one = Inr (ex_demo_text ex_as_iss 3)"
    by (rule ex_op_sign) (simp add: ex_op_ledger_def)
  then show ?thesis
    by (simp add: issue_demo_agent_def AgentIssuer_Issue_ok ex_op_parts ex_op_agent_def ex_obo_draw_def NewAgentIssuer_def
        obo_agent_options_def RoleOrchestrator_def)
qed

lemma ex_op_fresh:
  "obo_fresh ex_op_lib ex_op_draws" "sd_fresh ex_op_lib ex_op_sd_draws"
  by (simp_all add: obo_fresh_def sd_fresh_def demo_fresh_def ex_op_parts ex_op_draws_def ex_op_sd_draws_def ex_obo_draw_def
      ledger_ext_def ex_obo_env_def)


lemma ex_op_keys: "with_obo_keys ex_op_keys = (\<lambda>f. f (key_pair key_one) (key_pair key_one) (key_pair key_two) (key_pair key_two))"
  by (simp add: with_obo_keys_def ex_op_keys_def fun_eq_iff)

lemma ex_op_draws [simp]:
  "od_keys ex_op_draws = ex_op_keys" "od_user ex_op_draws = ex_obo_draw" "od_agent ex_op_draws = ex_obo_draw"
  "od_issue ex_op_draws = ex_obo_env"
  "sd_keys ex_op_sd_draws = ex_op_keys" "sd_user ex_op_sd_draws = ex_obo_draw" "sd_agent ex_op_sd_draws = ex_obo_draw"
  "sd_plain ex_op_sd_draws = ex_obo_env" "sd_issue ex_op_sd_draws = ex_obo_env" "sd_now ex_op_sd_draws = 0"
  "sd_salts ex_op_sd_draws = ex_salts" "sd_rnd ex_op_sd_draws = []" "ok_agent ex_op_keys = Inr key_two"
  by (simp_all add: ex_op_draws_def ex_op_sd_draws_def ex_op_keys_def)

lemma ex_op_issue:
  assumes "user_identity ex_op_lib o' ex_obo_env ut = Inr (oboUserSubj, scope, email)" "resolveScope scope req = Inr granted"
    and "oi_agentValidator o' = NewAgentValidator oboAsID (ec_Public key_one) []" "oi_key o' = key_two" "ut \<noteq> []"
    and "ex_op_entry key_two (typ_header (ledger_ext []) OBOTokenType) (ex_op_obo o' granted email) ex_as_iss n \<in> set ex_op_ledger"
  shows "OBOIssuer_Issue ex_op_lib o' ex_obo_env (ex_demo_text ex_as_iss 3) ut oboResourceID req = Inr (ex_demo_text ex_as_iss n)"
proof -
  have "demo_fresh ex_op_lib ex_obo_draw (oe_agent ex_obo_env)"
    using ex_op_fresh(1) by (simp add: obo_fresh_def)
  from demo_agent_token [OF ex_op_laws ex_op_agent p256_key_two this]
  obtain va where va: "AgentValidator_Validate ex_op_lib (oi_agentValidator o') (oe_agent ex_obo_env) (ex_demo_text ex_as_iss 3) = Inr va"
    "rc_Subject (ac_reg (va_Claims va)) = oboAgentSubj"
    using assms(3) by auto
  show ?thesis
    by (rule endpoint_issues [OF va(1) _ assms(5) _ assms(1,2)])
      (use ex_op_sign [OF assms(6), of "oe_rnd ex_obo_env"] va(2) assms(4) in \<open>simp_all add: ex_op_parts ex_op_claims ex_op_obo_def\<close>)
qed

lemma ex_op_identity:
  assumes "ex_op_entry key_one (typ_header (ledger_ext []) UserTokenType) (ex_op_user scope) ex_idp_iss n \<in> set ex_op_ledger"
    and "utf8 scope"
  shows "user_identity ex_op_lib ex_op_plain_issuer ex_obo_env (ex_demo_text ex_idp_iss n) = Inr (oboUserSubj, scope, [])"
proof -
  have "demo_fresh ex_op_lib ex_obo_draw (oe_user ex_obo_env)"
    using ex_op_fresh(1) by (simp add: obo_fresh_def)
  from demo_user_identity(1) [OF ex_op_laws ex_op_user [OF assms(1)] assms(2) this] show ?thesis .
qed

lemma ex_op_run: "is_OkObj (oboSimulate ex_op_lib ex_op_draws [])"
proof -
  have scope: "resolveScope oboUserScope ''read:calendar write:booking'' = Inr ''read:calendar write:booking''"
    by (simp add: oboUserScope_def resolveScope_def scopeSet_def Prelude.fields_def space1_def space2_def space3_def byte_def)
  have entry: "ex_op_entry key_one (typ_header (ledger_ext []) UserTokenType) (ex_op_user oboUserScope) ex_idp_iss 1 \<in> set ex_op_ledger"
    by (simp add: ex_op_ledger_def)
  have "utf8 oboUserScope"
    using obo_names_ascii(2) utf8_ascii by blast
  from ex_op_issue [OF ex_op_identity [OF entry this] scope, of 4]
  have issued: "OBOIssuer_Issue ex_op_lib ex_op_plain_issuer ex_obo_env (ex_demo_text ex_as_iss 3) (ex_demo_text ex_idp_iss 1)
      oboResourceID ''read:calendar write:booking'' = Inr (ex_demo_text ex_as_iss 4)"
    by (simp add: ex_op_ledger_def)
  have "obo_shown (requested_scope []) (oboSimulate ex_op_lib ex_op_draws [])"
    by (rule obo_simulation [OF ex_op_laws _ p256_key_two ex_op_fresh(1)]) simp
  then show ?thesis
    using issued ex_op_user [OF entry] ex_op_agent ex_op_keys
    by (simp add: oboSimulate_def requested_scope_def obo_shown_def errObj_def okObj_def Let_def split: sum.splits)
qed


abbreviation ex_op_sd_token :: SDUserToken where
  "ex_op_sd_token \<equiv> \<lparr>st_JWT = ex_demo_text ex_idp_iss 6, st_Disclosures = ex_op_disclosures\<rparr>"

lemma ex_op_sd_issue:
  "SDUserIssuer_Issue ex_op_lib (NewSDUserIssuer oboIdpID key_one hour) oboUserSubj oboUserEmail oboGivenName sdUserScope oboAsID
     0 ex_salts [] = Inr ex_op_sd_token"
proof -
  have "jwt_sign ex_op_lib [] (typ_header (ledger_ext []) SDUserTokenType) ex_op_sd key_one = Inr (ex_demo_text ex_idp_iss 6)"
    by (rule ex_op_sign) (simp add: ex_op_ledger_def)
  then show ?thesis
    by (simp add: SDUserIssuer_Issue_ok ex_op_disclosures_def ex_op_parts ex_op_claims ex_op_sd_def NewSDUserIssuer_def)
qed

lemma ex_op_last:
  "ex_op_entry key_two (typ_header (ledger_ext []) OBOTokenType) (ex_op_obo ex_op_sd_issuer ''read:calendar'' oboUserEmail) ex_as_iss 7
    \<in> set ex_op_ledger"
  by (simp add: ex_op_ledger_def)

lemma ex_op_sd_run: "is_OkObj (oboSimulateSD ex_op_lib ex_op_sd_draws [])"
proof -
  let ?p = "Present ex_op_sd_token (reveal_list ''email'')"
  have entry: "ex_op_entry key_one (typ_header (ledger_ext []) UserTokenType) (ex_op_user sdUserScope) ex_idp_iss 2 \<in> set ex_op_ledger"
    by (simp add: ex_op_ledger_def)
  have "utf8 sdUserScope"
    using obo_names_ascii(3) utf8_ascii by blast
  from ex_op_issue [OF ex_op_identity [OF entry this] sd_scope, of 5]
  have plain: "OBOIssuer_Issue ex_op_lib ex_op_plain_issuer ex_obo_env (ex_demo_text ex_as_iss 3) (ex_demo_text ex_idp_iss 2)
      oboResourceID ''read:calendar'' = Inr (ex_demo_text ex_as_iss 5)"
    by (simp add: ex_op_ledger_def)
  have "user_identity ex_op_lib ex_op_sd_issuer ex_obo_env ?p = Inr (oboUserSubj, sdUserScope, oboUserEmail)"
    using demo_sd_identity [OF ex_op_laws ex_op_sd_issue, of ex_obo_env key_one key_two "''email''"] ex_op_fresh(2)
    by (simp add: sd_fresh_def ex_op_sd_draws_def)
  moreover have "?p \<noteq> []"
    using Present_tilde [of ex_op_sd_token "reveal_list ''email''"] by (metis empty_iff empty_set)
  ultimately have issued: "OBOIssuer_Issue ex_op_lib ex_op_sd_issuer ex_obo_env (ex_demo_text ex_as_iss 3) ?p
      oboResourceID ''read:calendar'' = Inr (ex_demo_text ex_as_iss 7)"
    by (intro ex_op_issue [OF _ sd_scope _ _ _ ex_op_last]) simp_all
  have "sd_shown (reveal_mode []) (oboSimulateSD ex_op_lib ex_op_sd_draws [])"
    by (rule sd_simulation [OF ex_op_laws _ p256_key_two ex_op_fresh(2)]) simp
  then show ?thesis
    using plain issued ex_op_user [OF entry] ex_op_agent ex_op_keys ex_op_sd_issue
    by (simp add: oboSimulateSD_def reveal_mode_def sd_shown_def errObj_def sd_reply_def okObj_def Let_def split: sum.splits)
qed

section \<open>Properties\<close>

text \<open>The page's delegation tells the truth.  Whatever scope the visitor asks for, a run that succeeds
  names the user and the agent whose tokens were issued and grants exactly the scopes that were asked
  for, all of which the user granted; a run that the endpoint rejects names a scope that was asked for
  and that the user did not grant, unless signing failed; and the service never refuses a token that
  the endpoint issued.\<close>

theorem obo_demo_scope:
  assumes "jwt_laws L" "ok_agent (od_keys d) = Inr g" "p256_key (ec_Public g)" "obo_fresh L d"
  shows "case oboSimulate L d args of
      OkObj ob \<Rightarrow> scopeSet (requested_scope args) \<subseteq> scopeSet oboUserScope \<and> map_of ob ''userID'' = Some (JStr oboUserSubj) \<and>
        map_of ob ''agentID'' = Some (JStr oboAgentSubj) \<and>
        (\<exists>granted. map_of ob ''scope'' = Some (JStr granted) \<and> scopeSet granted = scopeSet (requested_scope args))
    | FailObj ob e \<Rightarrow>
        (\<exists>s. e = OboRejected (ScopeNotGranted s) \<and> s \<in> scopeSet (requested_scope args) - scopeSet oboUserScope) \<or>
        (\<exists>m. e = OboRejected (SignOBO m))
    | ErrObj e \<Rightarrow> \<forall>x. e \<noteq> OboValidate x"
  using obo_simulation [OF assms, of args] unfolding obo_shown_def .

theorem obo_demo_scope_witness:
  "\<exists>ob. oboSimulate ex_op_lib ex_op_draws [] = OkObj ob \<and> map_of ob ''agentID'' = Some (JStr oboAgentSubj)"
  using obo_demo_scope [OF ex_op_laws _ p256_key_two ex_op_fresh(1), of "[]"] ex_op_run
  by (cases "oboSimulate ex_op_lib ex_op_draws []") simp_all

text \<open>Selective disclosure works in the page.  Whatever the visitor lets the agent reveal, a run that
  succeeds names the user and the agent and shows the user's email exactly when it was revealed; the
  endpoint refuses neither the plain token nor the presentation unless signing fails, and the service
  accepts what the endpoint issues.\<close>

theorem sd_demo_reveals:
  assumes "jwt_laws L" "ok_agent (sd_keys d) = Inr g" "p256_key (ec_Public g)" "sd_fresh L d"
  shows "case oboSimulateSD L d args of
      OkObj ob \<Rightarrow> map_of ob ''sdUserID'' = Some (JStr oboUserSubj) \<and> map_of ob ''sdAgentID'' = Some (JStr oboAgentSubj) \<and>
        map_of ob ''sdScope'' = Some (JStr ''read:calendar'') \<and>
        map_of ob ''sdEmail'' = Some (JStr (if reveal_mode args = ''none'' then ''(not revealed)'' else oboUserEmail))
    | FailObj ob e \<Rightarrow> False
    | ErrObj e \<Rightarrow> (\<forall>x. e \<noteq> SDValidate x) \<and> (\<forall>x. e = SDIssue x \<or> e = PlainIssue x \<longrightarrow> (\<exists>m. x = SignOBO m))"
  using sd_simulation [OF assms, of args] unfolding sd_shown_def .

theorem sd_demo_reveals_witness:
  "\<exists>ob. oboSimulateSD ex_op_lib ex_op_sd_draws [] = OkObj ob \<and> map_of ob ''sdEmail'' = Some (JStr oboUserEmail)"
  using sd_demo_reveals [OF ex_op_laws _ p256_key_two ex_op_fresh(2), of "[]"] ex_op_sd_run
  by (cases "oboSimulateSD ex_op_lib ex_op_sd_draws []") (simp_all add: reveal_mode_def)

end
