(* ===== verification/DemoPage.thy ===== *)
theory DemoPage
  imports DemoX402 DemoFederation DemoMemory DemoBinding DemoRevocation DemoObo
begin

text \<open>
  The browser demo as a whole (\<open>cmd/demo-wasm/main.go\<close>, \<open>main\<close>): the functions that \<open>main\<close> registers,
  as one operation on the state of all demos.  It shows that the demos do not disturb each other: the
  part of a history of the page that belongs to a demo is a history of that demo.
\<close>

section \<open>State and operations\<close>

text \<open>The global variables, demo by demo; the other demos keep nothing.\<close>

record page =
  pw_chain :: chain_demo
  pw_federation :: fed_demo
  pw_broker :: broker_demo
  pw_x402 :: x402_demo

definition page_init :: page where
  "page_init = \<lparr>pw_chain = chain_demo_init, pw_federation = fed_demo_init, pw_broker = broker_demo_init,
     pw_x402 = x402_demo_init\<rparr>"

text \<open>The libraries that the functions call, and the texts of errors and dates that the replies show.\<close>

record page_lib =
  pb_ecdsa :: ecdsa
  pb_jwt :: ext
  pb_x509 :: x509_lib
  pb_quote :: "string \<Rightarrow> string"
  pb_proof_error :: "proof_error \<Rightarrow> string"
  pb_token_error :: "validate_error \<Rightarrow> string"
  pb_texts :: page_texts
  pb_payment_error :: "payment_error \<Rightarrow> string"

datatype page_click = OnChain chain_click | OnFederation fed_click | OnBinding binding_draws
  | OnSimulatedBroker "string + ec_private" draws draws | OnBroker broker_click
  | OnObo obo_draws "js_value list" | OnOboSD sd_draws "js_value list" | OnX402 x402_click
  | OnMemoryWrite time time "js_value list" | OnMemoryIsolation "nat \<Rightarrow> time" | OnMemoryIntegrity time time time
  | OnRevocation revocation_draws

datatype page_reply = ChainReply "demo_error demo_reply" | FederationReply "fed_error demo_reply"
  | BindingReply "binding_error demo_reply" | BrokerReply "broker_error demo_reply" | OboReply "obo_demo_error demo_reply"
  | X402Reply "x402_error demo_reply" | MemoryReply "memory_demo_error demo_reply"
  | RevocationReply "revocation_error demo_reply"

fun page_step :: "page_lib \<Rightarrow> page_click \<Rightarrow> page \<Rightarrow> page_reply \<times> page" where
  "page_step B (OnChain c) s =
     (let (r, t) = chain_demo_step (pb_jwt B) (pb_proof_error B) (pb_token_error B) c (pw_chain s)
      in (ChainReply r, s\<lparr>pw_chain := t\<rparr>))"
| "page_step B (OnFederation c) s =
     (let (r, t) = fed_step (pb_jwt B) c (pw_federation s) in (FederationReply r, s\<lparr>pw_federation := t\<rparr>))"
| "page_step B (OnBinding d) s = (BindingReply (simulateMTLSBinding (pb_jwt B) (pb_x509 B) (pb_quote B) d (pw_chain s)), s)"
| "page_step B (OnSimulatedBroker k d1 d2) s = (BindingReply (simulateCredentialBroker (pb_jwt B) k d1 d2 (pw_chain s)), s)"
| "page_step B (OnBroker c) s =
     (let (r, t) = broker_demo_step (pb_ecdsa B) (pb_jwt B) (pb_texts B) c (pw_broker s)
      in (BrokerReply r, s\<lparr>pw_broker := t\<rparr>))"
| "page_step B (OnObo d args) s = (OboReply (oboSimulate (pb_jwt B) d args), s)"
| "page_step B (OnOboSD d args) s = (OboReply (oboSimulateSD (pb_jwt B) d args), s)"
| "page_step B (OnX402 c) s =
     (let (r, t) = x402_step (pb_jwt B) (pb_texts B) (pb_payment_error B) c (pw_x402 s) in (X402Reply r, s\<lparr>pw_x402 := t\<rparr>))"
| "page_step B (OnMemoryWrite t1 t2 args) s = (MemoryReply (memoryWriteDemo t1 t2 args), s)"
| "page_step B (OnMemoryIsolation clock) s = (MemoryReply (memoryIsolationDemo clock), s)"
| "page_step B (OnMemoryIntegrity t1 t2 t3) s = (MemoryReply (memoryIntegrityDemo t1 t2 t3), s)"
| "page_step B (OnRevocation d) s = (RevocationReply (ssfSimulateRevocation (pb_jwt B) d), s)"

text \<open>The name under which \<open>main\<close> registers the function that a click calls.\<close>

fun page_function :: "page_click \<Rightarrow> string" where
  "page_function (OnChain (ClickSetup _ _ _)) = ''setup''"
| "page_function (OnChain (ClickIssue _)) = ''issueOrchestratorToken''"
| "page_function (OnChain (ClickDelegate _)) = ''delegateToExecutor''"
| "page_function (OnChain (ClickValidate _)) = ''validateChain''"
| "page_function (OnChain (ClickProof _ _)) = ''generateProof''"
| "page_function (OnChain (ClickReplay _ _ _)) = ''simulateReplayAttack''"
| "page_function (OnChain (ClickTamper _)) = ''simulateTampering''"
| "page_function (OnFederation (FSetup _ _ _ _)) = ''setupFederation''"
| "page_function (OnFederation (FIssue _ _)) = ''issueOrgBAgentToken''"
| "page_function (OnFederation (FValidate _ _)) = ''validateFederatedToken''"
| "page_function (OnBinding _) = ''simulateMTLSBinding''"
| "page_function (OnSimulatedBroker _ _ _) = ''simulateCredentialBroker''"
| "page_function (OnBroker (BInit _ _)) = ''cb4aInit''"
| "page_function (OnBroker (BSubmit _ _ _)) = ''cb4aSubmit''"
| "page_function (OnBroker (BApprove _ _)) = ''cb4aApprove''"
| "page_function (OnBroker (BDeny _ _)) = ''cb4aDeny''"
| "page_function (OnBroker (BMint _ _)) = ''cb4aMint''"
| "page_function (OnBroker (BCall _ _)) = ''cb4aAPICall''"
| "page_function (OnBroker BAudit) = ''cb4aAudit''"
| "page_function (OnBroker (BRegister _ _)) = ''webauthnRegister''"
| "page_function (OnBroker (BPasskey _ _ _)) = ''webauthnApprove''"
| "page_function (OnObo _ _) = ''oboSimulate''"
| "page_function (OnOboSD _ _) = ''oboSimulateSD''"
| "page_function (OnX402 (XInit _ _)) = ''x402Init''"
| "page_function (OnX402 (XHit _)) = ''x402HitAPI''"
| "page_function (OnX402 (XRequest _ _)) = ''x402RequestSpending''"
| "page_function (OnX402 (XApprove _ _)) = ''x402Approve''"
| "page_function (OnX402 (XMint _)) = ''x402MintCred''"
| "page_function (OnX402 (XPay _ _)) = ''x402Pay''"
| "page_function (OnX402 XAudit) = ''x402GetAudit''"
| "page_function (OnMemoryWrite _ _ _) = ''memoryWriteDemo''"
| "page_function (OnMemoryIsolation _) = ''memoryIsolationDemo''"
| "page_function (OnMemoryIntegrity _ _ _) = ''memoryIntegrityDemo''"
| "page_function (OnRevocation _) = ''ssfSimulateRevocation''"

section \<open>Parts of a session\<close>

text \<open>A part of a system: the operations that belong to it act on its view of the state only, and the
  others leave that view alone.  Then the operations of any history that belong to the part, with
  their replies, are a history of the part.\<close>

locale session_part =
  fixes step :: "'op \<Rightarrow> 's \<Rightarrow> 'r \<times> 's"
    and part_step :: "'x \<Rightarrow> 't \<Rightarrow> 'y \<times> 't"
    and part :: "'op \<Rightarrow> 'x option"
    and answer :: "'r \<Rightarrow> 'y option"
    and view :: "'s \<Rightarrow> 't"
  assumes own: "step c s = (r, s') \<Longrightarrow> part c = Some x \<Longrightarrow> \<exists>y. answer r = Some y \<and> part_step x (view s) = (y, view s')"
    and foreign: "step c s = (r, s') \<Longrightarrow> part c = None \<Longrightarrow> answer r = None \<and> view s' = view s"
begin

lemma projects:
  "run_ops step cs s = (rs, s') \<Longrightarrow>
     run_ops part_step (List.map_filter part cs) (view s) = (List.map_filter answer rs, view s')"
proof (induction cs arbitrary: s rs)
  case Nil
  then show ?case by (simp add: List.map_filter_def)
next
  case (Cons c cs)
  then obtain r s1 rs1 where first: "step c s = (r, s1)" and rest: "run_ops step cs s1 = (rs1, s')" and rs: "rs = r # rs1"
    by (auto simp: run_ops_Cons simp del: run_ops.simps)
  note IH = Cons.IH [OF rest]
  show ?case
  proof (cases "part c")
    case None
    then show ?thesis
      using foreign [OF first] IH rs by (simp add: List.map_filter_def)
  next
    case (Some x)
    then show ?thesis
      using own [OF first Some] IH rs by (auto simp: List.map_filter_def)
  qed
qed

end

fun chain_part :: "page_click \<Rightarrow> chain_click option" where
  "chain_part (OnChain c) = Some c" | "chain_part _ = None"
fun federation_part :: "page_click \<Rightarrow> fed_click option" where
  "federation_part (OnFederation c) = Some c" | "federation_part _ = None"
fun broker_part :: "page_click \<Rightarrow> broker_click option" where
  "broker_part (OnBroker c) = Some c" | "broker_part _ = None"
fun x402_part :: "page_click \<Rightarrow> x402_click option" where
  "x402_part (OnX402 c) = Some c" | "x402_part _ = None"

fun chain_answer :: "page_reply \<Rightarrow> demo_error demo_reply option" where
  "chain_answer (ChainReply r) = Some r" | "chain_answer _ = None"
fun federation_answer :: "page_reply \<Rightarrow> fed_error demo_reply option" where
  "federation_answer (FederationReply r) = Some r" | "federation_answer _ = None"
fun broker_answer :: "page_reply \<Rightarrow> broker_error demo_reply option" where
  "broker_answer (BrokerReply r) = Some r" | "broker_answer _ = None"
fun x402_answer :: "page_reply \<Rightarrow> x402_error demo_reply option" where
  "x402_answer (X402Reply r) = Some r" | "x402_answer _ = None"

lemma page_step_parts:
  assumes "page_step B c s = (r, s')"
  shows "chain_part c = Some x1 \<Longrightarrow> \<exists>y. chain_answer r = Some y \<and>
      chain_demo_step (pb_jwt B) (pb_proof_error B) (pb_token_error B) x1 (pw_chain s) = (y, pw_chain s')"
    "chain_part c = None \<Longrightarrow> chain_answer r = None \<and> pw_chain s' = pw_chain s"
    "federation_part c = Some x2 \<Longrightarrow> \<exists>y. federation_answer r = Some y \<and>
      fed_step (pb_jwt B) x2 (pw_federation s) = (y, pw_federation s')"
    "federation_part c = None \<Longrightarrow> federation_answer r = None \<and> pw_federation s' = pw_federation s"
    "broker_part c = Some x3 \<Longrightarrow> \<exists>y. broker_answer r = Some y \<and>
      broker_demo_step (pb_ecdsa B) (pb_jwt B) (pb_texts B) x3 (pw_broker s) = (y, pw_broker s')"
    "broker_part c = None \<Longrightarrow> broker_answer r = None \<and> pw_broker s' = pw_broker s"
    "x402_part c = Some x4 \<Longrightarrow> \<exists>y. x402_answer r = Some y \<and>
      x402_step (pb_jwt B) (pb_texts B) (pb_payment_error B) x4 (pw_x402 s) = (y, pw_x402 s')"
    "x402_part c = None \<Longrightarrow> x402_answer r = None \<and> pw_x402 s' = pw_x402 s"
  using assms by (cases c; auto split: prod.splits)+

interpretation chain_view: session_part "page_step B" "chain_demo_step (pb_jwt B) (pb_proof_error B) (pb_token_error B)"
  chain_part chain_answer pw_chain for B
  by unfold_locales (use page_step_parts(1,2) in blast)+

interpretation federation_view: session_part "page_step B" "fed_step (pb_jwt B)" federation_part federation_answer pw_federation for B
  by unfold_locales (use page_step_parts(3,4) in blast)+

interpretation broker_view: session_part "page_step B" "broker_demo_step (pb_ecdsa B) (pb_jwt B) (pb_texts B)"
  broker_part broker_answer pw_broker for B
  by unfold_locales (use page_step_parts(5,6) in blast)+

interpretation x402_view: session_part "page_step B" "x402_step (pb_jwt B) (pb_texts B) (pb_payment_error B)"
  x402_part x402_answer pw_x402 for B
  by unfold_locales (use page_step_parts(7,8) in blast)+

section \<open>The invariant of the page\<close>

definition page_inv :: "page_lib \<Rightarrow> page \<Rightarrow> bool" where
  "page_inv B s \<longleftrightarrow> chain_demo_inv (pw_chain s) \<and> fed_inv (pb_jwt B) (pw_federation s) \<and> broker_demo_inv (pw_broker s) \<and>
     x402_inv (pw_x402 s)"

fun page_click_ok :: "page_click \<Rightarrow> bool" where
  "page_click_ok (OnBroker c) = broker_click_ok c"
| "page_click_ok _ = True"

lemma page_init_inv: "page_inv B page_init"
  by (simp add: page_inv_def page_init_def chain_demo_init_inv fed_init_inv x402_init_inv(1) broker_demo_inv_def
      broker_demo_init_def)

interpretation page_sys: invariant_system "page_step B" "page_inv B" page_click_ok for B
proof unfold_locales
  fix c s r s'
  assume step: "page_step B c s = (r, s')" and ok: "page_click_ok c" and inv: "page_inv B s"
  from inv have parts: "chain_demo_inv (pw_chain s)" "fed_inv (pb_jwt B) (pw_federation s)" "broker_demo_inv (pw_broker s)"
    "x402_inv (pw_x402 s)"
    by (simp_all add: page_inv_def)
  show "page_inv B s'"
  proof (cases c)
    case (OnChain x)
    then show ?thesis
      using step chain_sys.step_inv [OF _ TrueI parts(1)] parts by (auto simp: page_inv_def split: prod.splits)
  next
    case (OnFederation x)
    then show ?thesis
      using step fed_sys.step_inv [OF _ TrueI parts(2)] parts by (auto simp: page_inv_def split: prod.splits)
  next
    case (OnBroker x)
    then show ?thesis
      using step ok broker_sys.step_inv [OF _ _ parts(3)] parts by (auto simp: page_inv_def split: prod.splits)
  next
    case (OnX402 x)
    then show ?thesis
      using step x402_sys.step_inv [OF _ TrueI parts(4)] parts by (auto simp: page_inv_def split: prod.splits)
  qed (use step inv in simp_all)
qed

text \<open>The replies that stand for a panic, of which \<open>syscall/js\<close> does not recover.\<close>

fun page_panic :: "page_reply \<Rightarrow> bool" where
  "page_panic (BrokerReply r) = is_panic r"
| "page_panic (X402Reply r) = (r = errObj X402Panic)"
| "page_panic (BindingReply r) = (r = errObj BindPanic)"
| "page_panic (MemoryReply r) = (r = errObj PanicNilEntry)"
| "page_panic _ = False"

lemma binding_no_panic:
  assumes "chain_demo_inv s"
  shows "simulateMTLSBinding L X quote d s \<noteq> errObj BindPanic"
proof -
  have "dm_issuer s \<noteq> None \<Longrightarrow> dm_validator s \<noteq> None"
    using assms by (auto simp: chain_demo_inv_def)
  then show ?thesis
    by (auto simp: simulateMTLSBinding_def binding_reply_def okObj_def errObj_def Let_def split: option.split sum.split)
qed

lemma memory_no_panic:
  "memoryWriteDemo now now' args \<noteq> errObj PanicNilEntry" "memoryIsolationDemo clock \<noteq> errObj PanicNilEntry"
  "memoryIntegrityDemo now now' later \<noteq> errObj PanicNilEntry"
proof -
  show "memoryWriteDemo now now' args \<noteq> errObj PanicNilEntry"
    by (simp add: memoryWriteDemo_def okObj_def errObj_def Let_def split: prod.split sum.split)
  show "memoryIsolationDemo clock \<noteq> errObj PanicNilEntry"
    by (auto simp: memoryIsolationDemo_def okObj_def errObj_def Let_def split: prod.split)
  show "memoryIntegrityDemo now now' later \<noteq> errObj PanicNilEntry"
    using conjunct1 [OF integrity_shown [of now now' later]] by (auto simp: errObj_def reply_field_def)
qed

lemma page_no_panic:
  assumes "page_step B c s = (r, s')" "page_inv B s"
  shows "\<not> page_panic r"
proof (cases c)
  case (OnBroker x)
  then show ?thesis
    using assms broker_no_panic [of "pw_broker s" "pb_ecdsa B" "pb_jwt B" "pb_texts B" x]
    by (auto simp: page_inv_def split: prod.splits)
next
  case (OnX402 x)
  then show ?thesis
    using assms pay_reply(1) [of "pb_jwt B" "pb_texts B" "pb_payment_error B" x "pw_x402 s"]
    by (auto simp: page_inv_def split: prod.splits)
next
  case (OnBinding d)
  then show ?thesis
    using assms binding_no_panic [of "pw_chain s"] by (auto simp: page_inv_def)
qed (use assms broker_simulation_ids memory_no_panic in \<open>auto split: prod.splits\<close>)

text \<open>Every function that \<open>main\<close> registers is one of the page, and conversely.\<close>

definition registered :: "string list" where
  "registered = [''setup'', ''issueOrchestratorToken'', ''delegateToExecutor'', ''validateChain'', ''generateProof'',
     ''simulateReplayAttack'', ''simulateTampering'', ''setupFederation'', ''issueOrgBAgentToken'', ''validateFederatedToken'',
     ''simulateMTLSBinding'', ''simulateCredentialBroker'', ''cb4aInit'', ''cb4aSubmit'', ''cb4aApprove'', ''cb4aDeny'',
     ''cb4aMint'', ''cb4aAPICall'', ''cb4aAudit'', ''oboSimulate'', ''oboSimulateSD'', ''x402Init'', ''x402HitAPI'',
     ''x402RequestSpending'', ''x402Approve'', ''x402MintCred'', ''x402Pay'', ''x402GetAudit'', ''memoryWriteDemo'',
     ''memoryIsolationDemo'', ''memoryIntegrityDemo'', ''ssfSimulateRevocation'', ''webauthnRegister'', ''webauthnApprove'']"

lemma page_functions: "range page_function = set registered"
proof (intro equalityI subsetI)
  fix n
  assume "n \<in> range page_function"
  then obtain c where "n = page_function c"
    by blast
  then show "n \<in> set registered"
    by (cases c rule: page_function.cases) (simp_all add: registered_def)
next
  have "\<forall>n \<in> set registered. n \<in> range page_function"
    unfolding registered_def by (simp only: list.set ball_simps simp_thms, intro conjI; rule range_eqI, rule page_function.simps [symmetric])
  then show "n \<in> range page_function" if "n \<in> set registered" for n
    using that by blast
qed

section \<open>Closed instances\<close>

definition ex_page_lib :: page_lib where
  "ex_page_lib = \<lparr>pb_ecdsa = ex_ecdsa, pb_jwt = ex_bd_lib, pb_x509 = ex_bi_x509, pb_quote = (\<lambda>s. s),
     pb_proof_error = (\<lambda>_. []), pb_token_error = (\<lambda>_. []), pb_texts = ex_texts, pb_payment_error = (\<lambda>_. [])\<rparr>"

text \<open>Clicks here and there.\<close>

definition ex_page_clicks :: "page_click list" where
  "ex_page_clicks = [OnBroker (BCall ex_call_draws []), OnChain (ClickSetup (Inr key_one) (Inr key_two) (Inr key_two)),
     OnBroker (BInit (Inr key_one) (Inr key_two)), OnBinding ex_bi_draws, OnMemoryIsolation (\<lambda>_. 0), OnX402 (XHit []),
     OnBroker (BSubmit 0 ex_env [JSString ''a'', JSString ''b'', JSNull, JSUndefined]), OnObo ex_op_draws [], OnRevocation ex_rev_draws]"

section \<open>Properties\<close>





end
