(* ===== verification/ClientAuth.thy ===== *)
theory ClientAuth
  imports AgentToken
begin

text \<open>
  Package \<open>pkg/spiffeclientauth\<close>: the token endpoint that takes an AgentToken as a client assertion.
  \<open>ExpiresIn\<close> is computed in \<open>float64\<close> seconds and truncated; up to \<open>2 ^ 22\<close> seconds that is the
  division here.
\<close>

definition ClientAssertionType :: string where
  "ClientAssertionType = ''urn:ietf:params:oauth:client-assertion-type:jwt-bearer''"

record AuthRequest =
  rq_ClientAssertion :: string
  rq_ClientAssertionType :: string
  rq_Scope :: string

record AccessToken =
  at_Token :: string
  at_TokenType :: string
  at_ExpiresIn :: int
  at_Scope :: string
  at_Sub :: string

record Authenticator =
  au_issuerID :: string
  au_agentValidator :: AgentValidator
  au_tokenTTL :: duration

datatype auth_error = UnsupportedAssertionType string | ClientAssertionRequired
  | InvalidClientAssertion validate_error

definition NewAuthenticator :: "string \<Rightarrow> AgentValidator \<Rightarrow> duration \<Rightarrow> Authenticator" where
  "NewAuthenticator issuerID agentValidator ttl = \<lparr>au_issuerID = issuerID,
     au_agentValidator = agentValidator, au_tokenTTL = (if ttl \<le> 0 then hour else ttl)\<rparr>"

text \<open>\<open>Authenticate\<close>, with the 32 random bytes of the access token.\<close>

definition Authenticate :: "ext \<Rightarrow> Authenticator \<Rightarrow> AuthRequest \<Rightarrow> time \<Rightarrow> bytes \<Rightarrow> auth_error + AccessToken" where
  "Authenticate L a req now raw =
     (if rq_ClientAssertionType req \<noteq> ClientAssertionType
      then Inl (UnsupportedAssertionType (rq_ClientAssertionType req))
      else if rq_ClientAssertion req = [] then Inl ClientAssertionRequired
      else (case AgentValidator_Validate L (au_agentValidator a) now (rq_ClientAssertion req) of
         Inl e \<Rightarrow> Inl (InvalidClientAssertion e)
       | Inr claims \<Rightarrow> Inr \<lparr>at_Token = b64_encode raw, at_TokenType = ''Bearer'',
           at_ExpiresIn = au_tokenTTL a div second, at_Scope = rq_Scope req,
           at_Sub = rc_Subject (ac_reg (va_Claims claims))\<rparr>))"

section \<open>Lemmas\<close>

lemma Authenticate_ok:
  "Authenticate L a req now raw = Inr tok \<longleftrightarrow>
     rq_ClientAssertionType req = ClientAssertionType \<and> rq_ClientAssertion req \<noteq> [] \<and>
     (\<exists>va. AgentValidator_Validate L (au_agentValidator a) now (rq_ClientAssertion req) = Inr va \<and>
       tok = \<lparr>at_Token = b64_encode raw, at_TokenType = ''Bearer'', at_ExpiresIn = au_tokenTTL a div second,
         at_Scope = rq_Scope req, at_Sub = rc_Subject (ac_reg (va_Claims va))\<rparr>)"
  by (auto simp: Authenticate_def split: sum.splits)

definition ex_auth_request :: AuthRequest where
  "ex_auth_request = \<lparr>rq_ClientAssertion = ex_token ''0'', rq_ClientAssertionType = ClientAssertionType,
     rq_Scope = ''admin''\<rparr>"

section \<open>Properties\<close>



end
