(* ===== verification/TxnToken.thy ===== *)
theory TxnToken
  imports Issued Remarshal
begin

text \<open>
  Package \<open>pkg/txntoken\<close>: Transaction Tokens, their claims with the nested actor of RFC 8693, their
  issuer and their validator.  The actor type and its JSON are those of \<open>pkg/identitychaining\<close> too,
  which declares them again in the same words.
\<close>

definition TxnTokenType :: string where
  "TxnTokenType = ''txntoken+jwt''"

section \<open>Claims\<close>

text \<open>The \<open>Act\<close> pointer leads to the actor before this one.\<close>

datatype ActorClaims = ActorClaims (act_Sub: string) (act_Act: "ActorClaims option")

record RequestContext =
  rq_ReqIP :: string
  rq_ReqWL :: string

text \<open>The Go map \<open>Claims\<close> is the list of its entries sorted by key.\<close>

record AuthorizationDetail =
  ad_Type :: string
  ad_Claims :: "(string \<times> string) list"

record TxnClaims =
  tx_reg :: registered_claims
  tx_Txn :: string
  tx_Act :: "ActorClaims option"
  tx_ReqCtx :: "RequestContext option"
  tx_AzDetails :: "AuthorizationDetail list"

section \<open>Marshalling\<close>

definition omit_nil :: "string \<Rightarrow> json option \<Rightarrow> (string \<times> json) list" where
  "omit_nil tag v = (case v of None \<Rightarrow> [] | Some j \<Rightarrow> [(tag, j)])"

primrec actor_json :: "ActorClaims \<Rightarrow> json" where
  "actor_json (ActorClaims sub act) = JObj ((''sub'', JStr sub) # omit_nil ''act'' (map_option actor_json act))"

definition reqctx_json :: "RequestContext \<Rightarrow> json" where
  "reqctx_json r = JObj (omit_empty ''req_ip'' (rq_ReqIP r) @ omit_empty ''req_wl'' (rq_ReqWL r))"

definition azdetail_json :: "AuthorizationDetail \<Rightarrow> json" where
  "azdetail_json a = JObj ((''type'', JStr (ad_Type a)) #
     (if ad_Claims a = [] then [] else [(''claims'', JObj (map (\<lambda>(k, v). (k, JStr v)) (ad_Claims a)))]))"

definition txn_payload :: "TxnClaims \<Rightarrow> payload" where
  "txn_payload c = \<lparr>pl_reg = tx_reg c,
     pl_priv = [(''txn'', JStr (tx_Txn c))] @ omit_nil ''act'' (map_option actor_json (tx_Act c))
       @ omit_nil ''rctx'' (map_option reqctx_json (tx_ReqCtx c))
       @ (if tx_AzDetails c = [] then [] else [(''azd'', JArr (map azdetail_json (tx_AzDetails c)))])\<rparr>"

section \<open>Unmarshalling\<close>

definition members_size :: "(string \<times> json) list \<Rightarrow> nat" where
  "members_size ms = (\<Sum>m\<leftarrow>ms. Suc (size (snd m)))"

lemma members_size_simps [simp]:
  "members_size [] = 0"
  "members_size (m # ms) = Suc (size (snd m) + members_size ms)"
  "members_size (xs @ ys) = members_size xs + members_size ys"
  by (simp_all add: members_size_def)

lemma members_size_JObj: "members_size ms < size (JObj ms)"
  by (induction ms) (auto simp: less_Suc_eq_le)

lemma ptr_members_size:
  "ptr_members acc vs = Some (Some ms) \<Longrightarrow>
    members_size ms \<le> (case acc of None \<Rightarrow> 0 | Some a \<Rightarrow> members_size a) + sum_list (map size vs)"
proof (induction acc vs rule: ptr_members.induct)
  case (2 acc ms' vs)
  then show ?case
    using members_size_JObj [of ms'] by (force split: option.splits)
qed (auto split: option.splits)

lemma json_get_size: "json_get tag ms \<noteq> [] \<Longrightarrow> sum_list (map size (json_get tag ms)) < members_size ms"
  by (induction ms) (force split: if_splits)+

lemma actor_members_smaller:
  assumes "ptr_members None (json_get tag ms) = Some (Some inner)"
  shows "members_size inner < members_size ms"
proof -
  have "json_get tag ms \<noteq> []"
    using assms by auto
  then show ?thesis
    using ptr_members_size [OF assms] json_get_size [of tag ms] by simp
qed

text \<open>The actor's decoder calls itself on the members of \<open>act\<close>, which are smaller.\<close>

function actor_claims :: "(string \<times> json) list \<Rightarrow> ActorClaims option" where
  "actor_claims ms = do {
     sub \<leftarrow> str_field ''sub'' ms;
     act \<leftarrow> (case ptr_members None (json_get ''act'' ms) of
         None \<Rightarrow> None
       | Some None \<Rightarrow> Some None
       | Some (Some inner) \<Rightarrow> map_option Some (actor_claims inner));
     Some (ActorClaims sub act)}"
  by pat_completeness auto

termination
  by (relation "measure members_size") (auto dest: actor_members_smaller)

declare actor_claims.simps [simp del]

definition reqctx_claims :: "(string \<times> json) list \<Rightarrow> RequestContext option" where
  "reqctx_claims ms = do {
     ip \<leftarrow> str_field ''req_ip'' ms;
     wl \<leftarrow> str_field ''req_wl'' ms;
     Some \<lparr>rq_ReqIP = ip, rq_ReqWL = wl\<rparr>}"

text \<open>A \<open>map[string]string\<close>: the members of an object are stored by their exact names.\<close>

fun map_entries :: "(string \<times> json) list \<Rightarrow> (string \<times> string) list option" where
  "map_entries [] = Some []"
| "map_entries ((k, JStr s) # ms) = map_option ((#) (k, s)) (map_entries ms)"
| "map_entries ((k, JNull) # ms) = map_option ((#) (k, [])) (map_entries ms)"
| "map_entries (_ # ms) = None"

fun store_map :: "(string \<times> string) list \<Rightarrow> json list \<Rightarrow> (string \<times> string) list option" where
  "store_map x [] = Some x"
| "store_map x (JObj ms # vs) =
     (case map_entries ms of None \<Rightarrow> None | Some es \<Rightarrow> store_map (members_sorted (x @ es)) vs)"
| "store_map x (JNull # vs) = store_map [] vs"
| "store_map x (_ # vs) = None"

definition azdetail_claims :: "json \<Rightarrow> AuthorizationDetail option" where
  "azdetail_claims v = do {
     ms \<leftarrow> json_struct v;
     typ \<leftarrow> str_field ''type'' ms;
     claims \<leftarrow> store_map [] (json_get ''claims'' ms);
     Some \<lparr>ad_Type = typ, ad_Claims = claims\<rparr>}"

fun azdetails :: "json list \<Rightarrow> AuthorizationDetail list option" where
  "azdetails [] = Some []"
| "azdetails (v # vs) = do { a \<leftarrow> azdetail_claims v; as \<leftarrow> azdetails vs; Some (a # as) }"

fun store_azdetails :: "AuthorizationDetail list \<Rightarrow> json list \<Rightarrow> AuthorizationDetail list option" where
  "store_azdetails x [] = Some x"
| "store_azdetails x (JArr es # vs) =
     (case azdetails es of None \<Rightarrow> None | Some as \<Rightarrow> store_azdetails as vs)"
| "store_azdetails x (JNull # vs) = store_azdetails [] vs"
| "store_azdetails x (_ # vs) = None"

definition txn_claims :: "payload \<Rightarrow> TxnClaims option" where
  "txn_claims pl = do {
     txn \<leftarrow> str_field ''txn'' (pl_priv pl);
     act \<leftarrow> ptr_field ''act'' actor_claims (pl_priv pl);
     rctx \<leftarrow> ptr_field ''rctx'' reqctx_claims (pl_priv pl);
     azd \<leftarrow> store_azdetails [] (json_get ''azd'' (pl_priv pl));
     Some \<lparr>tx_reg = pl_reg pl, tx_Txn = txn, tx_Act = act, tx_ReqCtx = rctx, tx_AzDetails = azd\<rparr>}"

text \<open>What was marshalled is read back, the maps of the details being sorted lists of entries.\<close>

lemma json_get_omit_nil [simp]:
  "json_get tag (omit_nil k v) = (case v of None \<Rightarrow> [] | Some j \<Rightarrow> if fold_key k = fold_key tag then [j] else [])"
  by (simp add: omit_nil_def split: option.split)

lemma ptr_members_JObj [simp]: "ptr_members None [JObj ms] = Some (Some ms)"
  by simp

definition actor_members :: "ActorClaims \<Rightarrow> (string \<times> json) list" where
  "actor_members a = (''sub'', JStr (act_Sub a)) # omit_nil ''act'' (map_option actor_json (act_Act a))"

lemma actor_json_members: "actor_json a = JObj (actor_members a)"
  by (cases a) (simp add: actor_members_def)

lemma actor_claims_members [simp]: "actor_claims (actor_members a) = Some a"
proof (induction a)
  case (ActorClaims sub act)
  have "actor_claims (actor_members b) = Some b" if "act = Some b" for b
    using ActorClaims that by simp
  then show ?case
    by (subst actor_claims.simps, cases act) (simp_all add: actor_members_def [of "ActorClaims _ _"] json_field_defs
        actor_json_members)
qed

lemma map_entries_map [simp]: "map_entries (map (\<lambda>(k, v). (k, JStr v)) es) = Some es"
  by (induction es) auto

lemma azdetail_claims_json [simp]:
  "canonical_map (ad_Claims a) \<Longrightarrow> azdetail_claims (azdetail_json a) = Some a"
  by (cases a) (simp add: azdetail_claims_def azdetail_json_def json_field_defs members_sorted_canonical)

lemma azdetails_json [simp]:
  "\<forall>a \<in> set as. canonical_map (ad_Claims a) \<Longrightarrow> azdetails (map azdetail_json as) = Some as"
  by (induction as) auto

lemma reqctx_claims_json [simp]:
  "\<exists>ms. reqctx_json r = JObj ms \<and> reqctx_claims ms = Some r"
  by (cases r) (auto simp: reqctx_json_def reqctx_claims_def json_field_defs omit_empty_def)

lemma txn_claims_payload [simp]:
  assumes "\<forall>a \<in> set (tx_AzDetails c). canonical_map (ad_Claims a)"
  shows "txn_claims (txn_payload c) = Some c"
proof -
  have "ptr_field ''rctx'' reqctx_claims (pl_priv (txn_payload c)) = Some (tx_ReqCtx c)"
  proof (cases "tx_ReqCtx c")
    case (Some r)
    moreover obtain ms where "reqctx_json r = JObj ms" "reqctx_claims ms = Some r"
      using reqctx_claims_json by blast
    ultimately show ?thesis
      by (simp add: txn_payload_def ptr_field_def split: option.split)
  qed (simp add: txn_payload_def ptr_field_def split: option.split)
  moreover have "ptr_field ''act'' actor_claims (pl_priv (txn_payload c)) = Some (tx_Act c)"
    by (simp add: txn_payload_def ptr_field_def actor_json_members split: option.split)
  moreover have "str_field ''txn'' (pl_priv (txn_payload c)) = Some (tx_Txn c)"
    "store_azdetails [] (json_get ''azd'' (pl_priv (txn_payload c))) = Some (tx_AzDetails c)"
    using assms by (simp_all add: txn_payload_def json_field_defs split: option.split)
  ultimately show ?thesis
    by (simp add: txn_claims_def txn_payload_def)
qed

section \<open>Issuer\<close>

record TxnIssuer =
  ti_issuerID :: string
  ti_key :: ec_private
  ti_ttl :: duration

record TxnIssueOptions =
  to_Subject :: string
  to_Audiences :: "string list"
  to_TxnID :: string
  to_Actor :: "ActorClaims option"
  to_ReqCtx :: "RequestContext option"
  to_AzDetails :: "AuthorizationDetail list"
  to_TTL :: duration

datatype txn_error = TxnSubjectRequired | TxnAudienceRequired | SignTxn string
  | TxnTokenRequired | ParseTxn string | MissingTxnClaim

definition NewTxnIssuer :: "string \<Rightarrow> ec_private \<Rightarrow> duration \<Rightarrow> TxnIssuer" where
  "NewTxnIssuer issuerID key ttl =
     \<lparr>ti_issuerID = issuerID, ti_key = key, ti_ttl = (if ttl \<le> 0 then 5 * minute else ttl)\<rparr>"

definition issue_txn_claims :: "ext \<Rightarrow> TxnIssuer \<Rightarrow> TxnIssueOptions \<Rightarrow> time \<Rightarrow> bytes \<Rightarrow> TxnClaims" where
  "issue_txn_claims L i opts now b = \<lparr>
     tx_reg = issued_claims L (ti_issuerID i) (to_Subject opts) (to_Audiences opts) now
       (if to_TTL opts = 0 then ti_ttl i else to_TTL opts) [],
     tx_Txn = (if to_TxnID opts = [] then hex_encode b else to_TxnID opts),
     tx_Act = to_Actor opts, tx_ReqCtx = to_ReqCtx opts, tx_AzDetails = to_AzDetails opts\<rparr>"

text \<open>\<open>Issue\<close> at the clock reading \<open>now\<close>, with 16 random bytes for the transaction identifier.\<close>

definition TxnIssuer_Issue ::
  "ext \<Rightarrow> TxnIssuer \<Rightarrow> TxnIssueOptions \<Rightarrow> time \<Rightarrow> bytes \<Rightarrow> bytes \<Rightarrow> txn_error + string" where
  "TxnIssuer_Issue L i opts now b rnd =
     (if to_Subject opts = [] then Inl TxnSubjectRequired
      else if to_Audiences opts = [] then Inl TxnAudienceRequired
      else (case jwt_sign L rnd (typ_header L TxnTokenType)
              (txn_payload (issue_txn_claims L i opts now b)) (ti_key i) of
         Inl e \<Rightarrow> Inl (SignTxn e)
       | Inr token \<Rightarrow> Inr token))"

section \<open>Validator\<close>

record TxnValidator =
  tv_issuerID :: string
  tv_pubKey :: ec_public

definition NewTxnValidator :: "string \<Rightarrow> ec_public \<Rightarrow> TxnValidator" where
  "NewTxnValidator issuerID pubKey = \<lparr>tv_issuerID = issuerID, tv_pubKey = pubKey\<rparr>"

definition TxnValidator_Validate :: "ext \<Rightarrow> TxnValidator \<Rightarrow> time \<Rightarrow> string \<Rightarrow> txn_error + TxnClaims" where
  "TxnValidator_Validate L v now tokenString =
     (if tokenString = [] then Inl TxnTokenRequired
      else (case parse_with_claims L (issuer_opts (tv_issuerID v) None) now tokenString txn_claims
                   (typ_key TxnTokenType (tv_pubKey v)) of
         Inl e \<Rightarrow> Inl (ParseTxn e)
       | Inr (_, claims) \<Rightarrow> if tx_Txn claims = [] then Inl MissingTxnClaim else Inr claims))"

definition txn_Hash :: "string \<Rightarrow> string" where
  "txn_Hash tokenString = b64_sha256 tokenString"

section \<open>Lemmas\<close>

lemma txn_claims_reg: "txn_claims pl = Some c \<Longrightarrow> tx_reg c = pl_reg pl"
  by (auto simp: txn_claims_def split: Option.bind_splits)

lemma TxnIssuer_Issue_ok:
  "TxnIssuer_Issue L i opts now b rnd = Inr tok \<longleftrightarrow> to_Subject opts \<noteq> [] \<and> to_Audiences opts \<noteq> [] \<and>
     jwt_sign L rnd (typ_header L TxnTokenType) (txn_payload (issue_txn_claims L i opts now b)) (ti_key i) = Inr tok"
  by (auto simp: TxnIssuer_Issue_def split: sum.splits)

lemma TxnValidator_Validate_ok:
  "TxnValidator_Validate L v now tok = Inr c \<longleftrightarrow> tok \<noteq> [] \<and> tx_Txn c \<noteq> [] \<and>
     (\<exists>h. parse_with_claims L (issuer_opts (tv_issuerID v) None) now tok txn_claims
            (typ_key TxnTokenType (tv_pubKey v)) = Inr (h, c))"
  by (auto simp: TxnValidator_Validate_def split: sum.splits)

text \<open>The chain of actors, the current one first, as RFC 8693 reads it.\<close>

primrec actor_chain :: "ActorClaims \<Rightarrow> string list" where
  "actor_chain (ActorClaims sub act) = sub # (case map_option actor_chain act of None \<Rightarrow> [] | Some as \<Rightarrow> as)"

lemma actor_chain_inject: "actor_chain a = actor_chain b \<Longrightarrow> a = b"
proof (induction a arbitrary: b)
  case (ActorClaims sub act)
  have ne: "actor_chain x \<noteq> []" for x
    by (cases x) simp
  show ?case
    using ActorClaims.prems ActorClaims.IH
    by (cases b; cases act; cases "act_Act b") (auto simp: ne ne [symmetric])
qed

lemma Validate_txn_issued:
  assumes "jwt_complete L" "jwt_es256 L" "jwt_dates L"
    and "TxnIssuer_Issue L i opts now b rnd = Inr tok" "tok \<noteq> []" "length b = 16"
    and "wire_ok L (typ_header L TxnTokenType) (txn_payload (issue_txn_claims L i opts now b))"
    and "list_all (\<lambda>a. canonical_map (ad_Claims a)) (to_AzDetails opts)"
    and "now \<le> t" "t < jwt_numeric_date L (now + (if to_TTL opts = 0 then ti_ttl i else to_TTL opts))"
  shows "TxnValidator_Validate L (NewTxnValidator (ti_issuerID i) (ec_Public (ti_key i))) t tok
    = Inr (issue_txn_claims L i opts now b)"
proof -
  let ?c = "issue_txn_claims L i opts now b"
  let ?ttl = "if to_TTL opts = 0 then ti_ttl i else to_TTL opts"
  have dec: "txn_claims (txn_payload ?c) = Some ?c"
    using assms(8) by (simp add: issue_txn_claims_def list_all_iff)
  have reg: "pl_reg (txn_payload ?c) = issued_claims L (ti_issuerID i) (to_Subject opts) (to_Audiences opts) now ?ttl []"
    by (simp add: txn_payload_def issue_txn_claims_def)
  have sign: "jwt_sign L rnd (typ_header L TxnTokenType) (txn_payload ?c) (ti_key i) = Inr tok"
    using assms(4) by (simp add: TxnIssuer_Issue_ok)
  have "parse_with_claims L (issuer_opts (ti_issuerID i) None) t tok txn_claims
      (typ_key TxnTokenType (ec_Public (ti_key i))) = Inr (typ_header L TxnTokenType, ?c)"
    by (rule parse_issued [where dec = txn_claims, OF assms(1-3) sign assms(7) reg dec _ assms(9,10)]) (simp_all add: TxnTokenType_def)
  moreover have "tx_Txn ?c \<noteq> []"
    using assms(6) by (auto simp: issue_txn_claims_def)
  ultimately show ?thesis
    using assms(5) by (simp add: TxnValidator_Validate_ok NewTxnValidator_def)
qed

section \<open>Closed instances\<close>

definition ex_txn_issuer :: TxnIssuer where
  "ex_txn_issuer = NewTxnIssuer ''tts'' key_one 0"

definition ex_txn_opts :: TxnIssueOptions where
  "ex_txn_opts = \<lparr>to_Subject = ''alice'', to_Audiences = [''gw''], to_TxnID = [],
     to_Actor = Some (ActorClaims ''agent'' (Some (ActorClaims ''gateway'' None))),
     to_ReqCtx = Some \<lparr>rq_ReqIP = ''10.0.0.1'', rq_ReqWL = []\<rparr>,
     to_AzDetails = [\<lparr>ad_Type = ''pay'', ad_Claims = [(''amount'', ''5''), (''to'', ''bob'')]\<rparr>], to_TTL = 0\<rparr>"

definition ex_txn_id :: bytes where
  "ex_txn_id = replicate 16 (CHR ''i'')"

definition ex_txn_claims :: TxnClaims where
  "ex_txn_claims = issue_txn_claims (ledger_ext []) ex_txn_issuer ex_txn_opts 0 ex_txn_id"

definition ex_txn_lib :: ext where
  "ex_txn_lib = one_token_lib ''t'' key_one (typ_header (ledger_ext []) TxnTokenType) (txn_payload ex_txn_claims)"

lemma ex_txn_laws:
  "jwt_sound ex_txn_lib" "jwt_complete ex_txn_lib" "jwt_es256 ex_txn_lib" "jwt_dates ex_txn_lib"
  by (simp_all add: ex_txn_lib_def)

lemma ex_txn_Issue:
  "issue_txn_claims ex_txn_lib ex_txn_issuer ex_txn_opts 0 ex_txn_id = ex_txn_claims"
  "TxnIssuer_Issue ex_txn_lib ex_txn_issuer ex_txn_opts 0 ex_txn_id rnd = Inr ''t''"
proof -
  show *: "issue_txn_claims ex_txn_lib ex_txn_issuer ex_txn_opts 0 ex_txn_id = ex_txn_claims"
    by (simp add: issue_txn_claims_def ex_txn_claims_def ex_txn_lib_def)
  show "TxnIssuer_Issue ex_txn_lib ex_txn_issuer ex_txn_opts 0 ex_txn_id rnd = Inr ''t''"
    by (simp add: TxnIssuer_Issue_ok *, simp add: ex_txn_lib_def ex_txn_opts_def ex_txn_issuer_def NewTxnIssuer_def)
qed

lemma ex_txn_wire:
  "wire_ok ex_txn_lib (typ_header ex_txn_lib TxnTokenType) (txn_payload ex_txn_claims)"
  by (simp add: wire_ok_def claims_wire_def txn_payload_def ex_txn_claims_def issue_txn_claims_def ex_txn_lib_def
      typ_header_def ledger_ext_def ex_txn_issuer_def NewTxnIssuer_def ex_txn_opts_def TxnTokenType_def
      reqctx_json_def azdetail_json_def omit_nil_def omit_empty_def char_simps)

lemma ex_txn_Validate:
  "TxnValidator_Validate ex_txn_lib (NewTxnValidator ''tts'' (ec_Public key_one)) minute ''t'' = Inr ex_txn_claims"
proof -
  have "TxnValidator_Validate ex_txn_lib (NewTxnValidator (ti_issuerID ex_txn_issuer) (ec_Public (ti_key ex_txn_issuer)))
      minute ''t'' = Inr (issue_txn_claims ex_txn_lib ex_txn_issuer ex_txn_opts 0 ex_txn_id)"
    by (rule Validate_txn_issued [OF ex_txn_laws(2-4) ex_txn_Issue(2)])
      (simp_all add: ex_txn_Issue(1) ex_txn_wire, simp_all add: ex_txn_id_def ex_txn_opts_def canonical_map_def
        ex_txn_issuer_def NewTxnIssuer_def ex_txn_lib_def)
  then show ?thesis
    by (simp add: ex_txn_Issue(1), simp add: ex_txn_issuer_def NewTxnIssuer_def)
qed

section \<open>Properties\<close>

text \<open>C35: A Transaction Token carries its transaction through the call chain unchanged: while it is
  valid, the validator of its issuer returns the user, the whole chain of actors, the request context
  and every authorization detail that it was issued with, and the transaction identifier of the
  options, or a generated one where they have none.\<close>

theorem txn_roundtrip:
  assumes "jwt_complete L" "jwt_es256 L" "jwt_dates L"
    and "TxnIssuer_Issue L i opts now b rnd = Inr tok" "tok \<noteq> []" "length b = 16"
    and "wire_ok L (typ_header L TxnTokenType) (txn_payload (issue_txn_claims L i opts now b))"
    and "list_all (\<lambda>a. canonical_map (ad_Claims a)) (to_AzDetails opts)"
    and "now \<le> t" "t < jwt_numeric_date L (now + (if to_TTL opts = 0 then ti_ttl i else to_TTL opts))"
  shows "\<exists>c. TxnValidator_Validate L (NewTxnValidator (ti_issuerID i) (ec_Public (ti_key i))) t tok = Inr c \<and>
    rc_Subject (tx_reg c) = to_Subject opts \<and> tx_Act c = to_Actor opts \<and> tx_ReqCtx c = to_ReqCtx opts \<and>
    tx_AzDetails c = to_AzDetails opts \<and>
    tx_Txn c = (if to_TxnID opts = [] then hex_encode b else to_TxnID opts)"
  using Validate_txn_issued [OF assms] by (simp add: issue_txn_claims_def)

theorem txn_roundtrip_witness:
  "\<exists>c. TxnValidator_Validate ex_txn_lib (NewTxnValidator ''tts'' (ec_Public key_one)) minute ''t'' = Inr c \<and>
     map_option actor_chain (tx_Act c) = Some [''agent'', ''gateway''] \<and> rc_Subject (tx_reg c) = ''alice''"
proof -
  have "\<exists>c. TxnValidator_Validate ex_txn_lib (NewTxnValidator (ti_issuerID ex_txn_issuer) (ec_Public (ti_key ex_txn_issuer)))
      minute ''t'' = Inr c \<and> rc_Subject (tx_reg c) = to_Subject ex_txn_opts \<and> tx_Act c = to_Actor ex_txn_opts \<and>
      tx_ReqCtx c = to_ReqCtx ex_txn_opts \<and> tx_AzDetails c = to_AzDetails ex_txn_opts \<and>
      tx_Txn c = (if to_TxnID ex_txn_opts = [] then hex_encode ex_txn_id else to_TxnID ex_txn_opts)"
    by (rule txn_roundtrip [OF ex_txn_laws(2-4) ex_txn_Issue(2)])
      (simp_all add: ex_txn_Issue(1) ex_txn_wire, simp_all add: ex_txn_id_def ex_txn_opts_def canonical_map_def ex_txn_issuer_def
        NewTxnIssuer_def ex_txn_lib_def)
  then show ?thesis
    by (auto simp: ex_txn_issuer_def NewTxnIssuer_def ex_txn_opts_def)
qed

text \<open>An accepted Transaction Token is of the type \<open>txntoken+jwt\<close>, signed with ES256 under the
  validator's key, of its issuer, not expired, and names its transaction.\<close>

theorem txn_Validate_sound:
  assumes "jwt_sound L" "TxnValidator_Validate L v now tok = Inr c"
  shows "jwt_sig_ok L (tv_pubKey v) tok \<and> tx_Txn c \<noteq> [] \<and> (tv_issuerID v \<noteq> [] \<longrightarrow> rc_Issuer (tx_reg c) = tv_issuerID v) \<and>
    (\<exists>e. rc_ExpiresAt (tx_reg c) = Some e \<and> now < e)"
proof -
  obtain h where "parse_with_claims L (issuer_opts (tv_issuerID v) None) now tok txn_claims
      (typ_key TxnTokenType (tv_pubKey v)) = Inr (h, c)" "tx_Txn c \<noteq> []"
    using assms(2) by (auto simp: TxnValidator_Validate_ok)
  with parse_issuer_sound [OF assms(1) this(1), of tx_reg] show ?thesis
    by (simp add: txn_claims_reg)
qed

theorem txn_Validate_sound_witness:
  "\<exists>c e. TxnValidator_Validate ex_txn_lib (NewTxnValidator ''tts'' (ec_Public key_one)) minute ''t'' = Inr c \<and>
     rc_Issuer (tx_reg c) = ''tts'' \<and> rc_ExpiresAt (tx_reg c) = Some e \<and> minute < e"
proof -
  obtain c where "TxnValidator_Validate ex_txn_lib (NewTxnValidator ''tts'' (ec_Public key_one)) minute ''t'' = Inr c"
    using ex_txn_Validate by blast
  from this txn_Validate_sound [OF ex_txn_laws(1) this] show ?thesis
    by (auto simp: NewTxnValidator_def)
qed

end
