(* ===== verification/GrantChaining.thy ===== *)
theory GrantChaining
  imports TxnToken AgentToken
begin

text \<open>
  Package \<open>pkg/identitychaining\<close>: domain A turns an agent's AgentToken into a JWT Authorization Grant
  for the token endpoint of domain B, which validates it.  The actor type is the one of
  \<open>pkg/txntoken\<close>.
\<close>

definition GrantTokenType :: string where
  "GrantTokenType = ''jwt-authz-grant''"

record GrantClaims =
  gc_reg :: registered_claims
  gc_Act :: "ActorClaims option"

record GrantIssuer =
  gi_issuerID :: string
  gi_key :: ec_private
  gi_agentValidator :: AgentValidator
  gi_ttl :: duration

record GrantValidator =
  gv_issuerID :: string
  gv_pubKey :: ec_public

datatype grant_error = SubjectTokenRequired | TargetAudienceRequired | SubjectTokenInvalid validate_error
  | SignGrant string | GrantTokenRequired | TokenEndpointRequired | ParseGrant string | GrantMissingSub

section \<open>Marshalling\<close>

definition grant_payload :: "GrantClaims \<Rightarrow> payload" where
  "grant_payload c = \<lparr>pl_reg = gc_reg c, pl_priv = omit_nil ''act'' (map_option actor_json (gc_Act c))\<rparr>"

definition grant_claims :: "payload \<Rightarrow> GrantClaims option" where
  "grant_claims pl = do {
     act \<leftarrow> ptr_field ''act'' actor_claims (pl_priv pl);
     Some \<lparr>gc_reg = pl_reg pl, gc_Act = act\<rparr>}"

lemma grant_claims_payload [simp]: "grant_claims (grant_payload c) = Some c"
  by (cases c) (simp add: grant_claims_def grant_payload_def ptr_field_def actor_json_members split: option.split)

lemma grant_claims_reg: "grant_claims pl = Some c \<Longrightarrow> gc_reg c = pl_reg pl"
  by (auto simp: grant_claims_def split: Option.bind_splits)

section \<open>Operations\<close>

definition NewGrantIssuer :: "string \<Rightarrow> ec_private \<Rightarrow> AgentValidator \<Rightarrow> duration \<Rightarrow> GrantIssuer" where
  "NewGrantIssuer issuerID key agentValidator ttl = \<lparr>gi_issuerID = issuerID, gi_key = key,
     gi_agentValidator = agentValidator, gi_ttl = (if ttl = 0 then 5 * minute else ttl)\<rparr>"

definition issue_grant_claims ::
  "ext \<Rightarrow> GrantIssuer \<Rightarrow> ValidatedAgent \<Rightarrow> string \<Rightarrow> ActorClaims list \<Rightarrow> time \<Rightarrow> bytes \<Rightarrow> GrantClaims" where
  "issue_grant_claims L g result targetAudience actor now jti = \<lparr>
     gc_reg = issued_claims L (gi_issuerID g) (rc_Subject (ac_reg (va_Claims result))) [targetAudience] now
       (gi_ttl g) (b64_encode jti),
     gc_Act = (case actor of [] \<Rightarrow> None | a # _ \<Rightarrow> Some a)\<rparr>"

text \<open>\<open>Issue\<close> reads the clock twice: to validate the AgentToken and to date the grant.  \<open>actor\<close> is
  variadic.\<close>

definition GrantIssuer_Issue :: "ext \<Rightarrow> GrantIssuer \<Rightarrow> string \<Rightarrow> string \<Rightarrow> ActorClaims list
    \<Rightarrow> time \<Rightarrow> time \<Rightarrow> bytes \<Rightarrow> bytes \<Rightarrow> grant_error + string" where
  "GrantIssuer_Issue L g subjectToken targetAudience actor now1 now jti rnd =
     (if subjectToken = [] then Inl SubjectTokenRequired
      else if targetAudience = [] then Inl TargetAudienceRequired
      else (case AgentValidator_Validate L (gi_agentValidator g) now1 subjectToken of
        Inl e \<Rightarrow> Inl (SubjectTokenInvalid e)
      | Inr result \<Rightarrow>
          (case jwt_sign L rnd (typ_header L GrantTokenType)
                  (grant_payload (issue_grant_claims L g result targetAudience actor now jti)) (gi_key g) of
             Inl e \<Rightarrow> Inl (SignGrant e)
           | Inr token \<Rightarrow> Inr token)))"

definition NewGrantValidator :: "string \<Rightarrow> ec_public \<Rightarrow> GrantValidator" where
  "NewGrantValidator issuerID pubKey = \<lparr>gv_issuerID = issuerID, gv_pubKey = pubKey\<rparr>"

definition GrantValidator_Validate ::
  "ext \<Rightarrow> GrantValidator \<Rightarrow> time \<Rightarrow> string \<Rightarrow> string \<Rightarrow> grant_error + GrantClaims" where
  "GrantValidator_Validate L v now grantToken tokenEndpoint =
     (if grantToken = [] then Inl GrantTokenRequired
      else if tokenEndpoint = [] then Inl TokenEndpointRequired
      else (case parse_with_claims L (issuer_opts (gv_issuerID v) (Some tokenEndpoint)) now grantToken grant_claims
                   (typ_key GrantTokenType (gv_pubKey v)) of
         Inl e \<Rightarrow> Inl (ParseGrant e)
       | Inr (_, claims) \<Rightarrow> if rc_Subject (gc_reg claims) = [] then Inl GrantMissingSub else Inr claims))"

section \<open>Lemmas\<close>

lemma GrantIssuer_Issue_ok:
  "GrantIssuer_Issue L g st ta actor now1 now jti rnd = Inr tok \<longleftrightarrow> st \<noteq> [] \<and> ta \<noteq> [] \<and>
     (\<exists>va. AgentValidator_Validate L (gi_agentValidator g) now1 st = Inr va \<and>
       jwt_sign L rnd (typ_header L GrantTokenType) (grant_payload (issue_grant_claims L g va ta actor now jti)) (gi_key g)
         = Inr tok)"
  by (auto simp: GrantIssuer_Issue_def split: sum.splits)

lemma GrantValidator_Validate_ok:
  "GrantValidator_Validate L v now tok ep = Inr c \<longleftrightarrow> tok \<noteq> [] \<and> ep \<noteq> [] \<and> rc_Subject (gc_reg c) \<noteq> [] \<and>
     (\<exists>h. parse_with_claims L (issuer_opts (gv_issuerID v) (Some ep)) now tok grant_claims
            (typ_key GrantTokenType (gv_pubKey v)) = Inr (h, c))"
  by (auto simp: GrantValidator_Validate_def split: sum.splits)

lemma Validate_issued_grant:
  assumes "jwt_complete L" "jwt_es256 L" "jwt_dates L"
    and "AgentValidator_Validate L (gi_agentValidator g) now1 st = Inr va" "rc_Subject (ac_reg (va_Claims va)) \<noteq> []"
    and "GrantIssuer_Issue L g st ta actor now1 now jti rnd = Inr tok" "tok \<noteq> []"
    and "wire_ok L (typ_header L GrantTokenType) (grant_payload (issue_grant_claims L g va ta actor now jti))"
    and "now \<le> t" "t < jwt_numeric_date L (now + gi_ttl g)"
  shows "GrantValidator_Validate L (NewGrantValidator (gi_issuerID g) (ec_Public (gi_key g))) t tok ta
    = Inr (issue_grant_claims L g va ta actor now jti)"
proof -
  let ?c = "issue_grant_claims L g va ta actor now jti"
  have sign: "jwt_sign L rnd (typ_header L GrantTokenType) (grant_payload ?c) (gi_key g) = Inr tok" and ta: "ta \<noteq> []"
    using assms(4,6) by (auto simp: GrantIssuer_Issue_ok)
  have reg: "pl_reg (grant_payload ?c) = issued_claims L (gi_issuerID g) (rc_Subject (ac_reg (va_Claims va))) [ta] now
      (gi_ttl g) (b64_encode jti)"
    by (simp add: grant_payload_def issue_grant_claims_def)
  have "parse_with_claims L (issuer_opts (gi_issuerID g) (Some ta)) t tok grant_claims
      (typ_key GrantTokenType (ec_Public (gi_key g))) = Inr (typ_header L GrantTokenType, ?c)"
    by (rule parse_issued [where dec = grant_claims, OF assms(1-3) sign assms(8) reg _ _ assms(9,10)])
      (simp_all add: GrantTokenType_def)
  then show ?thesis
    using assms(5,7) ta by (simp add: GrantValidator_Validate_ok NewGrantValidator_def, simp add: issue_grant_claims_def)
qed

section \<open>Closed instances\<close>

definition ex_grant_issuer :: GrantIssuer where
  "ex_grant_issuer = NewGrantIssuer ''A'' key_two ex_validator 0"

definition ex_grant_claims :: GrantClaims where
  "ex_grant_claims = issue_grant_claims (ledger_ext []) ex_grant_issuer
     \<lparr>va_Claims = ex_claims 0, va_WorkloadKey = ec_Public key_two\<rparr> ''B'' [ActorClaims ''caller'' None] 0 ex_jti"

text \<open>The library of the two AgentTokens and the grant.\<close>

definition ex_grant_ledger :: "ledger_entry list" where
  "ex_grant_ledger = ex_ledger @ [\<lparr>le_text = ''grant'', le_signer = key_two,
     le_token = \<lparr>tk_header = typ_header (ledger_ext []) GrantTokenType, tk_payload = grant_payload ex_grant_claims\<rparr>\<rparr>]"

definition ex_grant_lib :: ext where
  "ex_grant_lib = ledger_ext ex_grant_ledger"

lemma ex_token_not_grant: "ex_token s \<noteq> ''grant''"
  by (simp add: ex_token_def b64_chr_def char_simps)

lemma ex_grant_laws:
  "jwt_sound ex_grant_lib" "jwt_complete ex_grant_lib" "jwt_es256 ex_grant_lib" "jwt_dates ex_grant_lib"
  "jwt_functional ex_grant_lib"
proof -
  show "jwt_complete ex_grant_lib"
    unfolding ex_grant_lib_def
    by (rule ledger_complete) (simp add: ex_grant_ledger_def ex_ledger_def ex_entry_def ex_token_not_grant)
qed (simp_all only: ex_grant_lib_def ledger_laws)

lemma ex_grant_parts:
  "typ_header ex_grant_lib = typ_header (ledger_ext [])"
  "issue_grant_claims ex_grant_lib = issue_grant_claims (ledger_ext [])"
  "jwt_numeric_date ex_grant_lib d = d - d mod second"
  unfolding ex_grant_lib_def
  by (rule ledger_parts(5), simp add: fun_eq_iff issue_grant_claims_def issued_claims_ledger [of ex_grant_ledger],
      simp add: ledger_ext_def)

lemma ex_grant_agent:
  "AgentValidator_Validate ex_grant_lib (gi_agentValidator ex_grant_issuer) 0 (ex_token ''0'')
     = Inr \<lparr>va_Claims = ex_claims 0, va_WorkloadKey = ec_Public key_two\<rparr>"
  using Validate_ledger_append [of ex_ledger ex_validator 0 "ex_token ''0''"] ex_Validate(1) [of 0]
  by (simp add: ex_grant_lib_def ex_grant_ledger_def ex_lib_def ex_grant_issuer_def NewGrantIssuer_def)

lemma ex_grant_Issue:
  "GrantIssuer_Issue ex_grant_lib ex_grant_issuer (ex_token ''0'') ''B'' [ActorClaims ''caller'' None] 0 0 ex_jti rnd
     = Inr ''grant''"
proof -
  have "header_str ''typ'' ex_header \<noteq> GrantTokenType"
    by (simp add: ex_header_def agentTokenType_def GrantTokenType_def)
  then have "typ_header (ledger_ext []) GrantTokenType \<noteq> ex_header"
    by (metis header_str_typ_header)
  then have "jwt_sign ex_grant_lib rnd (typ_header (ledger_ext []) GrantTokenType) (grant_payload ex_grant_claims) key_two
      = Inr ''grant''"
    by (simp add: ex_grant_lib_def sign_ledger ex_grant_ledger_def ex_ledger_def ex_entry_def)
  then show ?thesis
    by (simp add: GrantIssuer_Issue_ok ex_grant_agent ex_grant_parts, simp add: ex_grant_issuer_def NewGrantIssuer_def
        ex_grant_claims_def ex_token_def)
qed

lemma ex_grant_wire:
  "wire_ok ex_grant_lib (typ_header (ledger_ext []) GrantTokenType) (grant_payload ex_grant_claims)"
  by (simp add: wire_ok_def claims_wire_def grant_payload_def ex_grant_claims_def issue_grant_claims_def ex_grant_parts
      typ_header_def ledger_ext_def [of "[]"] ex_grant_issuer_def NewGrantIssuer_def GrantTokenType_def omit_nil_def
      ex_claims_def issue_claims_def ex_opts_def issued_claims_def dated_claims_def char_simps)

lemma ex_grant_issuer_simps:
  "gi_issuerID ex_grant_issuer = ''A''" "gi_key ex_grant_issuer = key_two" "gi_ttl ex_grant_issuer = 5 * minute"
  by (simp_all add: ex_grant_issuer_def NewGrantIssuer_def)

lemma ex_sub: "rc_Subject (ac_reg (ex_claims 0)) = ''spiffe://a/b''"
  by (simp add: ex_claims_def issue_claims_def ex_opts_def)

lemma ex_grant_Validate:
  "GrantValidator_Validate ex_grant_lib (NewGrantValidator ''A'' (ec_Public key_two)) minute ''grant'' ''B''
     = Inr ex_grant_claims"
proof -
  have "GrantValidator_Validate ex_grant_lib (NewGrantValidator (gi_issuerID ex_grant_issuer)
      (ec_Public (gi_key ex_grant_issuer))) minute ''grant'' ''B'' = Inr (issue_grant_claims ex_grant_lib ex_grant_issuer
        \<lparr>va_Claims = ex_claims 0, va_WorkloadKey = ec_Public key_two\<rparr> ''B'' [ActorClaims ''caller'' None] 0 ex_jti)"
    by (rule Validate_issued_grant [OF ex_grant_laws(2-4) ex_grant_agent _ ex_grant_Issue])
      (simp_all add: ex_sub ex_grant_issuer_simps ex_grant_parts ex_grant_claims_def [symmetric] ex_grant_wire)
  then show ?thesis
    by (simp add: ex_grant_issuer_simps ex_grant_parts ex_grant_claims_def)
qed

section \<open>Properties\<close>

text \<open>C36: An agent's identity crosses the trust domains: the grant that domain A issues for a valid
  AgentToken is accepted, while it lasts, at the token endpoint it was issued for and by a validator
  that knows only domain A's public key, and names there the SPIFFE ID of the AgentToken and the actor.\<close>

theorem identity_chained:
  assumes "jwt_complete L" "jwt_es256 L" "jwt_dates L"
    and "AgentValidator_Validate L (gi_agentValidator g) now1 st = Inr va" "rc_Subject (ac_reg (va_Claims va)) \<noteq> []"
    and "GrantIssuer_Issue L g st ta actor now1 now jti rnd = Inr tok" "tok \<noteq> []"
    and "wire_ok L (typ_header L GrantTokenType) (grant_payload (issue_grant_claims L g va ta actor now jti))"
    and "now \<le> t" "t < jwt_numeric_date L (now + gi_ttl g)"
  shows "\<exists>c. GrantValidator_Validate L (NewGrantValidator (gi_issuerID g) (ec_Public (gi_key g))) t tok ta = Inr c \<and>
    rc_Subject (gc_reg c) = rc_Subject (ac_reg (va_Claims va)) \<and>
    gc_Act c = (case actor of [] \<Rightarrow> None | a # _ \<Rightarrow> Some a)"
  using Validate_issued_grant [OF assms] by (simp add: issue_grant_claims_def)

theorem identity_chained_witness:
  "\<exists>c. GrantValidator_Validate ex_grant_lib (NewGrantValidator ''A'' (ec_Public key_two)) minute ''grant'' ''B'' = Inr c \<and>
     rc_Subject (gc_reg c) = ''spiffe://a/b'' \<and> gc_Act c = Some (ActorClaims ''caller'' None)"
proof -
  have "\<exists>c. GrantValidator_Validate ex_grant_lib (NewGrantValidator (gi_issuerID ex_grant_issuer)
        (ec_Public (gi_key ex_grant_issuer))) minute ''grant'' ''B'' = Inr c \<and>
      rc_Subject (gc_reg c) = rc_Subject (ac_reg (va_Claims \<lparr>va_Claims = ex_claims 0, va_WorkloadKey = ec_Public key_two\<rparr>)) \<and>
      gc_Act c = (case [ActorClaims ''caller'' None] of [] \<Rightarrow> None | a # _ \<Rightarrow> Some a)"
    by (rule identity_chained [OF ex_grant_laws(2-4) ex_grant_agent _ ex_grant_Issue])
      (simp_all add: ex_sub ex_grant_issuer_simps ex_grant_parts ex_grant_claims_def [symmetric] ex_grant_wire)
  then show ?thesis
    by (simp add: ex_sub ex_grant_issuer_simps)
qed

text \<open>Domain B accepts only grants that domain A signed for its own token endpoint, that have not
  expired and that name a subject.\<close>

theorem grant_Validate_sound:
  assumes "jwt_sound L" "GrantValidator_Validate L v now tok ep = Inr c"
  shows "jwt_sig_ok L (gv_pubKey v) tok \<and> ep \<in> set (rc_Audience (gc_reg c)) \<and> rc_Subject (gc_reg c) \<noteq> [] \<and>
    (gv_issuerID v \<noteq> [] \<longrightarrow> rc_Issuer (gc_reg c) = gv_issuerID v) \<and> (\<exists>e. rc_ExpiresAt (gc_reg c) = Some e \<and> now < e)"
proof -
  obtain h where "parse_with_claims L (issuer_opts (gv_issuerID v) (Some ep)) now tok grant_claims
      (typ_key GrantTokenType (gv_pubKey v)) = Inr (h, c)" "ep \<noteq> []" "rc_Subject (gc_reg c) \<noteq> []"
    using assms(2) by (auto simp: GrantValidator_Validate_ok)
  with parse_issuer_sound [OF assms(1) this(1), of gc_reg] show ?thesis
    by (simp add: grant_claims_reg)
qed

theorem grant_Validate_sound_witness:
  "jwt_sig_ok ex_grant_lib (ec_Public key_two) ''grant''"
  using grant_Validate_sound [OF ex_grant_laws(1) ex_grant_Validate] by (simp add: NewGrantValidator_def)

end
