(* ===== verification/Spec2Isabelle.thy ===== *)
theory Spec2Isabelle
  imports Glob GatewayCmd DemoPage ClientAuth GrantChaining Obo
begin

text \<open>
  A model of \<^verbatim>\<open>ai-agent-security\<close>, a Go system that gives AI agents verifiable identities and lets a
  gateway and a credential broker decide what they may do.

  \<^bold>\<open>The program and its parts.\<close>  An identity provider signs AgentTokens for agents
  (\<open>pkg/identity\<close>); agents delegate to each other in chains of such tokens and prove possession of
  their keys with short AgentProofTokens.  The MCP gateway (\<open>internal/gateway\<close>,
  \<open>cmd/gateway\<close>) admits a tool call only with a token, a chain and a proof, consults the
  authorizer (\<open>internal/authz\<close>), the revocation list that shared security signals maintain
  (\<open>pkg/ssfreceiver\<close>), the client certificate (\<open>pkg/keys/mtls.go\<close>), and finds keys of foreign
  issuers through OpenID Federation (\<open>pkg/federation\<close>).  The broker (\<open>pkg/cb4a\<close>) turns signed
  requests into approvals by policy, by a human or by a passkey (\<open>pkg/webauthn\<close>), approvals into
  key-bound credentials, and records every outcome in one audit trail; payments
  (\<open>pkg/x402\<close>) are calls with such credentials.  Further packages issue tokens for other
  parties: Transaction Tokens (\<open>pkg/txntoken\<close>), grants for other domains
  (\<open>pkg/identitychaining\<close>), access tokens for SPIFFE clients (\<open>pkg/spiffeclientauth\<close>), tokens on
  behalf of users with selective disclosure (\<open>pkg/obo\<close>).  \<open>pkg/memory\<close> keeps the agents' memories
  apart.  \<open>cmd/demo-wasm\<close> is a browser page that runs these packages together.

  \<^bold>\<open>Theories, by layer.\<close>  Each opens with the files it models; its definitions carry the names of the
  functions they translate, methods with their type in front (\<open>AgentValidator_Validate\<close>), fields with
  a prefix of their record.
  \<^item> Shared ground: \<open>Prelude\<close> (sums as results, collections of rules, package \<open>strings\<close>), \<open>History\<close>
    (invariants under histories of operations, a locale), \<open>Encoding\<close> (base64url, hexadecimal,
    SHA-256 on 32-bit words, big-endian integers, each in full), \<open>Text\<close> (UTF-8, case mapping,
    numerals, time stamps), \<open>Json\<close>, \<open>JsonText\<close>, \<open>JsonPrint\<close> (the reader and the writer of
    \<open>encoding/json\<close> and their round trips), \<open>Remarshal\<close> (the detour of JSON through Go maps),
    \<open>Glob\<close> (\<open>path.Match\<close> in full, with an equivalent specification by languages).
  \<^item> Tokens: \<open>Keys\<close> (\<open>pkg/keys/ec.go\<close>), \<open>Jwt\<close> (the JWT library as the record \<open>ext\<close> of parameters
    and the laws about it), \<open>Issued\<close> and \<open>WireText\<close> (what all issuers and validators share).
  \<^item> Identity: \<open>AgentToken\<close>, \<open>AgentChain\<close>, \<open>JtiStore\<close>, \<open>AgentProof\<close> (\<open>token.go\<close>, \<open>helpers.go\<close>,
    \<open>json.go\<close>, \<open>chain.go\<close>, \<open>store.go\<close>, \<open>proof.go\<close> of \<open>pkg/identity\<close>).
  \<^item> Gateway: \<open>Authz\<close> and \<open>Middleware\<close> (\<open>internal/authz\<close>), \<open>SsfReceiver\<close>, \<open>Federation\<close>,
    \<open>Resolver\<close> and \<open>EntityText\<close> (\<open>pkg/federation\<close>), \<open>Gateway\<close> (the handler of a tool route and all
    it calls), \<open>Server\<close> (\<open>New\<close> with its route table, health check and event endpoint), \<open>Mtls\<close>
    (\<open>pkg/keys/mtls.go\<close>), \<open>GatewayCmd\<close> (\<open>cmd/gateway/main.go\<close> up to the listening server).
  \<^item> Broker: \<open>AuditTrail\<close>, \<open>Envelope\<close>, \<open>Webauthn\<close>, \<open>Pdp\<close>, \<open>Cdp\<close>, \<open>Broker\<close> (both points with one
    log), \<open>X402\<close>.
  \<^item> Other issuers: \<open>TxnToken\<close>, \<open>GrantChaining\<close>, \<open>ClientAuth\<close>, \<open>SdJwt\<close>, \<open>Obo\<close>.  Memories: \<open>Memory\<close>.
  \<^item> The page: \<open>Js\<close> (values of \<open>syscall/js\<close>, replies), \<open>DemoChain\<close>, \<open>DemoBroker\<close>, \<open>DemoX402\<close>,
    \<open>DemoFederation\<close>, \<open>DemoBinding\<close>, \<open>DemoObo\<close>, \<open>DemoRevocation\<close>, \<open>DemoMemory\<close> (one for each demo),
    \<open>DemoPage\<close> (all functions that \<open>main\<close> registers, on the state of all demos).  Global variables are a record, a page function is an operation on it, and a
    nil dereference or a slice out of range is a reply of its own.

  \<^bold>\<open>State, errors, time.\<close>  A component's state is a record, an operation returns its result with the new
  state; where Go mutates through a pointer that another component shares (the audit trail, the
  revocation list, the world of the payment page) the shared object is an argument and a result of
  every operation that touches it.  Results are sums; every return of an error is a constructor of
  the component's error type with the values the message shows.  Readings of the clock, bytes
  of the random source and the iteration order of a Go map are arguments, one for each reading, so
  that theorems hold for all of them.  Times are integers in nanoseconds, durations likewise;
  \<open>sum\<close>s of the SHA-256 rounds and the bytes are words of their width.  Histories are lists of
  operations run by \<open>run_ops\<close>; the life of a request at the Policy Decision Point is also an
  inductive step relation that the code refines.

  \<^bold>\<open>Interfaces.\<close>  Go's interfaces are locales, interpreted on the model of every implementation:
  \<open>jti_store\<close>, \<open>authorizer\<close> (in memory and OpenFGA), \<open>resolver\<close> (in memory and HTTP),
  \<open>memory_store\<close>.  \<open>audited\<close> and its extension \<open>outcome_log\<close> state what keeps an audit trail
  append-only and complete (interpreted on the two points of the broker and on both together),
  \<open>invariant_system\<close> what an invariant needs (interpreted on the server and on the page),
  \<open>session_part\<close> when a component's part of a history is a history of the component (interpreted on
  the demos of the page).

  \<^bold>\<open>What is assumed of code outside the repository.\<close>  It is a parameter, and each law about it is a
  named definition that a theorem lists when it uses it.  Of the JWT library: \<open>jwt_sound\<close> (what
  parsing accepts was signed by the key that the key function returned and passed the requested
  checks), \<open>jwt_functional\<close> (header and payload are determined by the text), \<open>jwt_complete\<close>,
  \<open>jwt_es256\<close>, \<open>jwt_compact\<close>, \<open>jwt_dates\<close>, \<open>wit_faithful\<close>, \<open>wire_utf8\<close> (what was signed is read
  back), \<open>es256_length\<close> (a signature has 64 bytes), \<open>statement_text\<close> and \<open>whole_seconds\<close> (a signed
  token carries the JSON text of its claims, dates in whole seconds), \<open>jwt_unverified\<close> (parsing without
  a key reads back what was signed).  Of ECDSA:
  \<open>ecdsa_complete\<close>.  Of \<open>x509\<close>, PEM and TLS: \<open>x509_faithful\<close>, \<open>pem_faithful\<close>, \<open>ec_key_faithful\<close>,
  \<open>tls_complete\<close>.  Of Gin: \<open>gin_sound\<close>, \<open>gin_static\<close>, \<open>gin_refuses\<close>.  The laws hold together: each
  theory has a section of closed instances, in which the library is a ledger of what was signed
  (\<open>ledger_ext\<close>), and every theorem with hypotheses is applied there.  That a forged signature or a
  collision of SHA-256 does not exist is nowhere assumed: it appears as the other case of a
  conclusion.

  \<^bold>\<open>Groups of lemmas.\<close>  Per component: what a successful result says of the inputs (\<open>_ok\<close>, collected in
  \<open>ok_simps\<close>), what a step does to the state, the invariant, then the properties, whose text blocks
  carry their numbers.  \<open>Issued\<close> proves once that an issued token is accepted until it expires; each
  issuer adds that its claims survive encoding.  This theory holds what spans components: tokens of
  one kind are accepted as no other kind, and every foreign key that is used is on the curve.

  \<^bold>\<open>Bounds.\<close>  There is no fuel: every recursion of the model is total, by structure or a measure.  JSON is
  read with Go's limit of 10000 nested values, integers through \<open>float64\<close> only where the code does
  so (exact up to \<open>2\<^sup>5\<^sup>3\<close>; \<open>Remarshal\<close>), numbers that a Go \<open>int\<close> must hold satisfy \<open>go_int\<close>, an
  expiry in float seconds is exact up to \<open>2\<^sup>2\<^sup>2\<close> seconds (\<open>ClientAuth\<close>), bodies end at 1 MB
  (gateway) and 64 KB (events), contents of memories at 50 KB.

  \<^bold>\<open>Not modelled.\<close>  The internals of the libraries above, of Gin's router and of the reverse proxy behind a
  forwarded request; wall-clock overflow of Go's \<open>time\<close>; real concurrency: every method
  runs atomically, as its mutex makes it (the one place where the code leaves its lock too early is
  listed as a finding); how Go merges a repeated array member in JSON; logging, signals and
  shutdown.  The command-line demos and scripts print what the packages
  return.
\<close>

section \<open>Tokens of different types\<close>

text \<open>A token is accepted as of a kind when some validator of that kind, at some time and with some
  configuration, accepts it.\<close>

datatype token_kind = KAgentToken | KAgentProof | KEntityStatement | KEnvelope | KDecision | KCredential
  | KTransaction | KGrant | KUser | KSDUser | KOnBehalfOf

primrec accepted_as :: "ext \<Rightarrow> token_kind \<Rightarrow> string \<Rightarrow> bool" where
  "accepted_as L KAgentToken tok \<longleftrightarrow> (\<exists>v now. is_ok (AgentValidator_Validate L v now tok))"
| "accepted_as L KAgentProof tok \<longleftrightarrow> (\<exists>v now now' opts. po_ProofToken opts = tok \<and>
     is_ok (fst (ProofValidator_Validate InMemoryJTIStore_Record L v now now' opts)))"
| "accepted_as L KEntityStatement tok \<longleftrightarrow> (\<exists>now pub. is_ok (VerifyEntityConfiguration L now tok pub) \<or>
     is_ok (VerifySubordinateStatement L now tok pub))"
| "accepted_as L KEnvelope tok \<longleftrightarrow> (\<exists>now pub. is_ok (ParseEnvelope L now tok pub))"
| "accepted_as L KDecision tok \<longleftrightarrow> (\<exists>now pub. is_ok (ParseDecision L now tok pub))"
| "accepted_as L KCredential tok \<longleftrightarrow> (\<exists>ts dpop m u c l. fst (SimulateAPICall L ts tok dpop m u (c, l)) = None)"
| "accepted_as L KTransaction tok \<longleftrightarrow> (\<exists>v now. is_ok (TxnValidator_Validate L v now tok))"
| "accepted_as L KGrant tok \<longleftrightarrow> (\<exists>v now endpoint. is_ok (GrantValidator_Validate L v now tok endpoint))"
| "accepted_as L KUser tok \<longleftrightarrow> (\<exists>v now audience. is_ok (UserValidator_Validate L v now tok audience))"
| "accepted_as L KSDUser tok \<longleftrightarrow> (\<exists>v now p audience. hd (split_on (CHR ''~'') p) = tok \<and>
     is_ok (SDUserValidator_Validate L v now p audience))"
| "accepted_as L KOnBehalfOf tok \<longleftrightarrow> (\<exists>v now audience. is_ok (OBOValidator_Validate L v now tok audience))"

primrec kind_typ :: "token_kind \<Rightarrow> string" where
  "kind_typ KAgentToken = agentTokenType"
| "kind_typ KAgentProof = agentProofType"
| "kind_typ KEntityStatement = entityStatementTyp"
| "kind_typ KEnvelope = envelopeType"
| "kind_typ KDecision = pdpDecisionType"
| "kind_typ KCredential = cb4aTokenType"
| "kind_typ KTransaction = TxnTokenType"
| "kind_typ KGrant = GrantTokenType"
| "kind_typ KUser = UserTokenType"
| "kind_typ KSDUser = SDUserTokenType"
| "kind_typ KOnBehalfOf = OBOTokenType"

lemma kind_typ_inject: "kind_typ k = kind_typ k' \<Longrightarrow> k = k'"
  by (cases k; cases k') (simp_all add: agentTokenType_def agentProofType_def entityStatementTyp_def envelopeType_def
      pdpDecisionType_def cb4aTokenType_def TxnTokenType_def GrantTokenType_def UserTokenType_def SDUserTokenType_def
      OBOTokenType_def)

text \<open>Every validator parses with a key function that refuses another \<open>typ\<close>.\<close>

definition parsed_as :: "ext \<Rightarrow> string \<Rightarrow> string \<Rightarrow> bool" where
  "parsed_as L typ tok \<longleftrightarrow> (\<exists>po now kf t. jwt_parse L po now tok kf = Inr t \<and>
     (\<forall>h k. kf h = Inr k \<longrightarrow> header_str ''typ'' h = typ))"

lemma parsed_jwt: "jwt_parse L po now tok (typ_key typ key) = Inr t \<Longrightarrow> parsed_as L typ tok"
  unfolding parsed_as_def using typ_key_ok by blast

lemma parsed_typ_key:
  "parse_with_claims L po now tok dec (typ_key typ key) = Inr x \<Longrightarrow> parsed_as L typ tok"
  by (cases x) (auto simp: parse_with_claims_ok intro: parsed_jwt)

lemma accepted_parsed: "accepted_as L k tok \<Longrightarrow> parsed_as L (kind_typ k) tok"
proof (cases k)
  case KAgentProof
  assume "accepted_as L k tok"
  then obtain v now now' opts c where "po_ProofToken opts = tok"
    "ProofValidator_Validate InMemoryJTIStore_Record L v now now' opts = (Inr c, snd (ProofValidator_Validate InMemoryJTIStore_Record L v now now' opts))"
    using KAgentProof by (auto simp: is_ok_iff prod_eq_iff)
  then show ?thesis
    using KAgentProof parsed_typ_key unfolding ProofValidator_Validate_ok proof_checked_def by fastforce
next
  case KEntityStatement
  assume "accepted_as L k tok"
  then obtain now pub ms where "verifyEntityStatement L now tok pub = Inr ms"
    using KEntityStatement
    by (auto simp: is_ok_iff VerifyEntityConfiguration_def VerifySubordinateStatement_def split: sum.splits)
  then show ?thesis
    using KEntityStatement by (cases "jwt_parse L statement_opts now tok (typ_key entityStatementTyp pub)")
      (auto simp: verifyEntityStatement_def intro: parsed_jwt)
next
  case KCredential
  assume "accepted_as L k tok"
  then obtain n1 n2 n3 dpop m u c l c' l' where
    "SimulateAPICall L (n1, n2, n3) tok dpop m u (c, l) = (None, c', l')"
    using KCredential by (auto simp: prod_eq_iff)
  then obtain t where "jwt_parse L es256_opts n1 tok (cb4a_token_key (ec_Public (cdp_sigKey c))) = Inr t"
    unfolding SimulateAPICall_ok call_checked_def parse_with_claims_ok by blast
  moreover have "\<forall>h x. cb4a_token_key (ec_Public (cdp_sigKey c)) h = Inr x \<longrightarrow> header_str ''typ'' h = cb4aTokenType"
    by (simp add: cb4a_token_key_def)
  ultimately show ?thesis
    using KCredential unfolding parsed_as_def by auto
qed (auto simp: is_ok_iff AgentValidator_Validate_ok ParseEnvelope_ok ParseDecision_ok TxnValidator_Validate_ok
    GrantValidator_Validate_ok UserValidator_Validate_ok SDUserValidator_Validate_ok OBOValidator_Validate_ok
    intro: parsed_typ_key)



section \<open>Keys from outside\<close>

text \<open>C30: Keys are well formed.  Every key that reaches the program in a token, in the header of a DPoP proof
  or in a resolved entity statement, and is used, is a point of the curve P-256; and the program's
  own JWKs are faithful: a key that was encoded decodes to itself, and only when it is on the curve.\<close>

theorem foreign_keys_typed:
  "(AgentValidator_Validate L v now tok = Inr va \<longrightarrow> p256_key (va_WorkloadKey va)) \<and>
   (dpop_key h = Inr k \<longrightarrow> p256_key k) \<and>
   (ResolvedEntity_PublicKey e = Inr k' \<longrightarrow> p256_key k') \<and>
   (PublicKeyToJWK (Some p) kid = Inr j \<longrightarrow> (JWKToPublicKey j = Inr q \<longleftrightarrow> q = p \<and> p256_key p))"
proof -
  have first: "p256_key k" if "first_key js = Some k" for js k
    using that by (induction js) (auto split: sum.splits dest: JWKToPublicKey_ok)
  have "JWKToPublicKey j = Inr q \<Longrightarrow> q = p \<and> p256_key p" if "PublicKeyToJWK (Some p) kid = Inr j"
    using that decode_encodeCoord [of "ec_X p"] decode_encodeCoord [of "ec_Y p"]
    by (auto simp: ok_simps JWKToPublicKey_def p256_key_def Let_def split: if_splits)
  then show ?thesis
    using first JWKToPublicKey_of_key
    by (auto simp: AgentValidator_Validate_ok ResolvedEntity_PublicKey_def dest: JWKToPublicKey_ok dpop_key_ok
        split: option.splits)
qed

theorem foreign_keys_typed_witness:
  "p256_key (va_WorkloadKey \<lparr>va_Claims = ex_claims 0, va_WorkloadKey = ec_Public key_two\<rparr>) \<and>
   JWKToPublicKey (jwk_of (ec_Public key_one) ''k'') = Inr (ec_Public key_one)"
proof
  have "AgentValidator_Validate ex_lib ex_validator 0 (ex_token ''0'') = Inr \<lparr>va_Claims = ex_claims 0, va_WorkloadKey = ec_Public key_two\<rparr>"
    by (rule ex_Validate) simp_all
  then show "p256_key (va_WorkloadKey \<lparr>va_Claims = ex_claims 0, va_WorkloadKey = ec_Public key_two\<rparr>)"
    by (rule foreign_keys_typed [THEN conjunct1, THEN mp])
  have "PublicKeyToJWK (Some (ec_Public key_one)) ''k'' = Inr (jwk_of (ec_Public key_one) ''k'')"
    by simp
  then show "JWKToPublicKey (jwk_of (ec_Public key_one) ''k'') = Inr (ec_Public key_one)"
    using foreign_keys_typed [THEN conjunct2, THEN conjunct2, THEN conjunct2, THEN mp] p256_key_one by blast
qed

end
